(* ===== verification/TD_Prelude.thy ===== *)
theory TD_Prelude
  imports Main "HOL-Library.Word" "HOL-Library.Sublist" "HOL-Library.AList"
begin

text \<open>
  Shared vocabulary of the development: the Rust types and standard-library operations the
  TealDrive sources rely on, with the generic lemmas the component theories use.

  \<^item> \<open>Result\<close> values are sums (\<open>Inl\<close> the error), and the \<open>?\<close> operator is
    \<open>and_then\<close>.
  \<^item> A Rust string is the list of its UTF-8 bytes, so that \<open>length\<close> is
    \<open>str::len\<close>, which counts bytes.
  \<^item> \<open>u64\<close> and \<open>usize\<close> quantities that are only compared, added with saturation or
    added with a check are natural numbers, with the bound of the type written out; the wire
    format uses words of the width of the source.
  \<^item> A \<open>HashMap\<close> is an association list with distinct keys. The order of the list stands
    for the unspecified iteration order; the properties do not depend on it.
\<close>

named_theorems result_simps \<open>rewriting of sums of errors and values\<close>
named_theorems string_simps \<open>rewriting of string operations\<close>

type_synonym u8 = "8 word"
type_synonym u16 = "16 word"
type_synonym u32 = "32 word"
type_synonym u64 = "64 word"
type_synonym bytes = "u8 list"

section \<open>Results\<close>

definition and_then :: "'e + 'a \<Rightarrow> ('a \<Rightarrow> 'e + 'b) \<Rightarrow> 'e + 'b" where
  "and_then r f = (case r of Inl e \<Rightarrow> Inl e | Inr x \<Rightarrow> f x)"

definition map_err :: "('e \<Rightarrow> 'f) \<Rightarrow> 'e + 'a \<Rightarrow> 'f + 'a" where
  "map_err g r = (case r of Inl e \<Rightarrow> Inl (g e) | Inr x \<Rightarrow> Inr x)"

definition ok_or :: "'a option \<Rightarrow> 'e \<Rightarrow> 'e + 'a" where
  "ok_or v e = (case v of None \<Rightarrow> Inl e | Some x \<Rightarrow> Inr x)"

definition is_ok :: "'e + 'a \<Rightarrow> bool" where
  "is_ok r = (case r of Inl _ \<Rightarrow> False | Inr _ \<Rightarrow> True)"

text \<open>A loop that stops at the first error of its body, as \<open>for x in xs { body(x)?; }\<close>.\<close>

fun try_all :: "('a \<Rightarrow> 'e + unit) \<Rightarrow> 'a list \<Rightarrow> 'e + unit" where
  "try_all f [] = Inr ()"
| "try_all f (x # xs) = and_then (f x) (\<lambda>_. try_all f xs)"

lemma and_then_simps [simp, result_simps]:
  "and_then (Inl e) f = Inl e"
  "and_then (Inr x) f = f x"
  by (simp_all add: and_then_def)

lemma and_then_Inr [result_simps]:
  "and_then r f = Inr y \<longleftrightarrow> (\<exists>x. r = Inr x \<and> f x = Inr y)"
  by (cases r) simp_all

lemma and_then_unit: "and_then (r :: 'e + unit) f = Inr y \<longleftrightarrow> r = Inr () \<and> f () = Inr y"
  by (cases r) simp_all

lemma and_then_Inl [result_simps]:
  "and_then r f = Inl e \<longleftrightarrow> r = Inl e \<or> (\<exists>x. r = Inr x \<and> f x = Inl e)"
  by (cases r) simp_all

lemma map_err_simps [simp, result_simps]:
  "map_err g (Inl e) = Inl (g e)"
  "map_err g (Inr x) = Inr x"
  by (simp_all add: map_err_def)

lemma map_err_Inr [result_simps]: "map_err g r = Inr x \<longleftrightarrow> r = Inr x"
  by (cases r) simp_all

lemma ok_or_simps [simp, result_simps]:
  "ok_or None e = Inl e"
  "ok_or (Some x) e = Inr x"
  by (simp_all add: ok_or_def)

lemma ok_or_Inr [result_simps]: "ok_or v e = Inr x \<longleftrightarrow> v = Some x"
  by (cases v) simp_all

lemma is_ok_simps [simp, result_simps]:
  "is_ok (Inl e) = False"
  "is_ok (Inr x) = True"
  by (simp_all add: is_ok_def)

lemma is_ok_unit [result_simps]: "is_ok (r :: 'e + unit) \<longleftrightarrow> r = Inr ()"
  by (cases r) simp_all

lemma is_ok_iff: "is_ok r \<longleftrightarrow> (\<exists>x. r = Inr x)"
  by (cases r) simp_all

lemma try_all_ok [result_simps]:
  "try_all f xs = Inr () \<longleftrightarrow> (\<forall>x \<in> set xs. f x = Inr ())"
  by (induction xs) (auto simp: and_then_Inr)

section \<open>Integers\<close>

definition U64_MAX :: nat where
  "U64_MAX = 2 ^ 64 - 1"

definition saturating_add :: "nat \<Rightarrow> nat \<Rightarrow> nat" where
  "saturating_add a b = min (a + b) U64_MAX"

text \<open>\<open>u64::checked_add\<close>; truncated subtraction on \<open>nat\<close> is \<open>saturating_sub\<close>.\<close>

definition checked_add :: "nat \<Rightarrow> nat \<Rightarrow> nat option" where
  "checked_add a b = (if a + b \<le> U64_MAX then Some (a + b) else None)"

lemma saturating_add_mono: "b \<le> c \<Longrightarrow> saturating_add a b \<le> saturating_add a c"
  by (simp add: saturating_add_def)

lemma saturating_add_le: "saturating_add a b \<le> a + b"
  by (simp add: saturating_add_def)

lemma saturating_add_U64: "saturating_add a b \<le> U64_MAX"
  by (simp add: saturating_add_def)

lemma le_saturating_add: "a \<le> U64_MAX \<Longrightarrow> a \<le> saturating_add a b"
  by (simp add: saturating_add_def)

lemma checked_add_Some [simp]:
  "checked_add a b = Some c \<longleftrightarrow> c = a + b \<and> a + b \<le> U64_MAX"
  by (auto simp: checked_add_def)

subsection \<open>Big-endian byte strings\<close>

text \<open>\<open>to_be n k\<close> are the \<open>n\<close> low bytes of \<open>k\<close>, most significant first
  (\<open>to_be_bytes\<close>); \<open>from_be\<close> reads them back (\<open>from_be_bytes\<close>).\<close>

fun to_be :: "nat \<Rightarrow> nat \<Rightarrow> bytes" where
  "to_be 0 k = []"
| "to_be (Suc n) k = to_be n (k div 256) @ [word_of_nat (k mod 256)]"

definition from_be :: "bytes \<Rightarrow> nat" where
  "from_be bs = foldl (\<lambda>a b. a * 256 + unat b) 0 bs"

lemma length_to_be [simp]: "length (to_be n k) = n"
  by (induction n arbitrary: k) simp_all

lemma from_be_Nil [simp]: "from_be [] = 0"
  by (simp add: from_be_def)

lemma from_be_snoc [simp]: "from_be (bs @ [b]) = from_be bs * 256 + unat b"
  by (simp add: from_be_def)

lemma unat_byte_bound: "unat (b :: u8) < 256"
  using unsigned_less [of b, where ?'a = nat] by simp

lemma from_be_bound: "from_be bs < 256 ^ length bs"
proof (induction bs rule: rev_induct)
  case Nil
  then show ?case by simp
next
  case (snoc b bs)
  then have "Suc (from_be bs) * 256 \<le> 256 ^ length bs * 256"
    by (intro mult_le_mono1) simp
  with unat_byte_bound [of b] show ?case by (simp add: mult.commute)
qed

lemma from_be_to_be: "k < 256 ^ n \<Longrightarrow> from_be (to_be n k) = k"
proof (induction n arbitrary: k)
  case 0
  then show ?case by simp
next
  case (Suc n)
  have "k div 256 < 256 ^ n"
    using Suc.prems by (simp add: less_mult_imp_div_less mult.commute)
  moreover have "unat (word_of_nat (k mod 256) :: u8) = k mod 256"
    by (simp add: unat_of_nat)
  ultimately show ?case by (simp add: Suc.IH)
qed

lemma to_be_from_be: "length bs = n \<Longrightarrow> to_be n (from_be bs) = bs"
proof (induction n arbitrary: bs)
  case 0
  then show ?case by simp
next
  case (Suc n)
  then obtain cs b where bs: "bs = cs @ [b]" and len: "length cs = n"
    by (metis length_Suc_conv_rev)
  have "(from_be cs * 256 + unat b) div 256 = from_be cs"
    and "(from_be cs * 256 + unat b) mod 256 = unat b"
    using unat_byte_bound [of b] by simp_all
  with Suc.IH [OF len] show ?case by (simp add: bs)
qed

lemma word_of_from_be:
  fixes w :: "'w::len word"
  assumes "LENGTH('w) = 8 * n"
  shows "word_of_nat (from_be (to_be n (unat w))) = w"
proof -
  have "unat w < 256 ^ n"
    using unsigned_less [of w, where ?'a = nat] by (simp add: assms power_mult)
  then show ?thesis by (simp add: from_be_to_be)
qed

lemma to_be_of_word:
  fixes bs :: bytes
  assumes "LENGTH('w::len) = 8 * n" and "length bs = n"
  shows "to_be n (unat (word_of_nat (from_be bs) :: 'w word)) = bs"
proof -
  have "from_be bs < 2 ^ LENGTH('w)"
    using from_be_bound [of bs] by (simp add: assms power_mult)
  then have "unat (word_of_nat (from_be bs) :: 'w word) = from_be bs"
    by (simp add: unat_of_nat)
  with assms(2) show ?thesis by (simp add: to_be_from_be)
qed

section \<open>The codec interface\<close>

text \<open>
  What a binary codec promises: decoding inverts encoding on well-formed values, and a decoder
  accepts only well-formed values in their canonical form. The header, frame and chunk codecs
  are instances.
\<close>

locale codec =
  fixes encode :: "'a \<Rightarrow> 'e + bytes"
    and decode :: "bytes \<Rightarrow> 'e + 'a"
    and wf :: "'a \<Rightarrow> bool"
  assumes decode_encode: "wf x \<Longrightarrow> encode x = Inr bs \<Longrightarrow> decode bs = Inr x"
    and encode_decode: "decode bs = Inr x \<Longrightarrow> wf x \<and> encode x = Inr bs"
begin

lemma decode_iff: "decode bs = Inr x \<longleftrightarrow> wf x \<and> encode x = Inr bs"
  using decode_encode encode_decode by blast

lemma decode_injective: "decode bs = Inr x \<Longrightarrow> decode cs = Inr x \<Longrightarrow> bs = cs"
  by (auto dest!: encode_decode)

lemma encode_unambiguous:
  "wf x \<Longrightarrow> wf y \<Longrightarrow> encode x = Inr bs \<Longrightarrow> encode y = Inr bs \<Longrightarrow> x = y"
  by (auto dest!: decode_encode)

end

section \<open>Association lists\<close>

lemma map_of_update_alist [simp]: "map_of (AList.update k v m) = (map_of m)(k \<mapsto> v)"
  by (simp add: update_conv')

lemma length_update:
  "length (AList.update k v m) = (if map_of m k = None then Suc (length m) else length m)"
  by (induction m) auto

lemma map_of_filter_keep:
  "distinct (map fst m) \<Longrightarrow> map_of m k = Some v \<Longrightarrow> P (k, v) \<Longrightarrow> map_of (filter P m) k = Some v"
proof (induction m)
  case Nil
  then show ?case by simp
next
  case (Cons e m)
  then show ?case by (cases e) auto
qed

lemma map_of_filter_distinct:
  "distinct (map fst m) \<Longrightarrow>
     map_of (filter (\<lambda>(i, s). P s) m) k = Some s \<longleftrightarrow> map_of m k = Some s \<and> P s"
proof (induction m)
  case Nil
  then show ?case by simp
next
  case (Cons e m)
  obtain i t where e: "e = (i, t)" by (cases e)
  show ?case
  proof (cases "i = k")
    case True
    then have "k \<notin> fst ` set (filter (\<lambda>(i, s). P s) m)"
      using Cons.prems by (force simp: e)
    then have "map_of (filter (\<lambda>(i, s). P s) m) k = None"
      by (simp add: map_of_eq_None_iff)
    with True show ?thesis by (auto simp: e)
  next
    case False
    with Cons show ?thesis by (simp add: e)
  qed
qed

lemma length_delete_less: "map_of m k \<noteq> None \<Longrightarrow> length (AList.delete k m) < length m"
proof (induction m)
  case Nil
  then show ?case by simp
next
  case (Cons e m)
  then show ?case
    using length_filter_le [of _ m] by (cases e) (auto simp: AList.delete_eq less_Suc_eq_le)
qed

end
