(* ===== verification/TD_Errors.thy ===== *)
theory TD_Errors
  imports TD_Prelude
begin

text \<open>
  The error vocabulary of \<open>src/errors/payload.rs\<close> and the size limits of \<open>src/limits.rs\<close>.
  Constructors keep their Rust names and are written with their type, as in
  \<open>TealDriveError.NotFound\<close>.
\<close>

section \<open>Errors\<close>

datatype (plugins only: code size) ErrorKind =
    RevisionConflict | ValidationError | PermissionDenied | PolicyDenied | FeatureDisabled
  | NotFound | InvalidPath | AlreadyExists | InvalidTarget | CrossDeviceMove | FileTooLarge
  | DiskFull | UnsupportedBinaryFile | InvalidTextEncoding | SymlinkLoop | NameTooLong
  | ReadOnlyFilesystem | RateLimited | ProtocolError | NotImplemented | InternalError

datatype (plugins only: code size) PolicyReason =
    FeatureDisabled | SensitivePath | ReadOnlyRoot | WebRootExecutableUpload | PathTraversal
  | SymlinkEscape | SymlinkDenied | InvalidRootId | AbsolutePathRejected | NullByteRejected
  | InvalidFilename | ReservedName | PathEscapesRoot | HiddenFile | AccountRejected

datatype (plugins only: code size) TealDriveError =
    RevisionConflict | Validation | PermissionDenied | PolicyDenied | FeatureDisabled
  | NotFound | Protocol | NotImplemented | InvalidMagic | UnsupportedVersion
  | InvalidHeaderLength | ReservedFieldNonZero | PayloadTooLarge | UnknownMessageType
  | InvalidMessageDirection | InvalidFlags | InvalidEncoding | InvalidCompression
  | PayloadLengthMismatch | InvalidChunk | InvalidRootId | AbsolutePathRejected
  | TraversalRejected | NullByteRejected | InvalidFilename | InvalidPath | AlreadyExists
  | InvalidTarget | CrossDeviceMove | FileTooLarge | DiskFull | UnsupportedBinaryFile
  | InvalidTextEncoding | ReservedNameRejected | PathEscapesRoot | SymlinkDenied
  | SymlinkEscape | SensitiveFileDenied | HiddenFileDenied | ReadOnlyRoot
  | WebrootExecutableDenied | HelperSpawnFailed | HelperTimeout | HelperStdinFailed
  | HelperStdoutFailed | HelperMalformedResponse | HelperNonZeroExit | HelperRequestTooLarge
  | HelperResponseTooLarge | HelperDecodeFailed | HelperEncodeFailed
  | HelperCommandNotImplemented | Internal

type_synonym 'a td_result = "TealDriveError + 'a"

text \<open>A request identifier is a UUID: sixteen bytes, held as one 128-bit value.\<close>

type_synonym Uuid = "128 word"

record ErrorPayload =
  ep_code :: string
  ep_error_kind :: ErrorKind
  ep_safe_message :: string
  ep_request_id :: Uuid
  ep_operation :: "string option"
  ep_retryable :: bool
  ep_policy_reason :: "PolicyReason option"
  ep_debug_ref :: "string option"

definition feature_disabled :: "Uuid \<Rightarrow> string \<Rightarrow> ErrorPayload" where
  "feature_disabled request_id op =
     \<lparr>ep_code = ''FEATURE_DISABLED'', ep_error_kind = ErrorKind.FeatureDisabled,
      ep_safe_message = ''This operation is disabled in TealDrive V1.'',
      ep_request_id = request_id, ep_operation = Some op, ep_retryable = False,
      ep_policy_reason = Some PolicyReason.FeatureDisabled, ep_debug_ref = None\<rparr>"

definition policy_denied :: "Uuid \<Rightarrow> string \<Rightarrow> PolicyReason \<Rightarrow> string \<Rightarrow> ErrorPayload" where
  "policy_denied request_id op reason msg =
     \<lparr>ep_code = ''POLICY_DENIED'', ep_error_kind = ErrorKind.PolicyDenied, ep_safe_message = msg,
      ep_request_id = request_id, ep_operation = Some op, ep_retryable = False,
      ep_policy_reason = Some reason, ep_debug_ref = None\<rparr>"

section \<open>Limits\<close>

definition MIB :: nat where "MIB = 1024 * 1024"
definition KIB :: nat where "KIB = 1024"
definition MAX_FRAME_PAYLOAD :: nat where "MAX_FRAME_PAYLOAD = MIB"
definition MAX_CONTROL_PAYLOAD :: nat where "MAX_CONTROL_PAYLOAD = 256 * KIB"
definition MAX_DECOMPRESSED_CONTROL_PAYLOAD :: nat where
  "MAX_DECOMPRESSED_CONTROL_PAYLOAD = 4 * MIB"
definition MAX_CHUNK_SIZE :: nat where "MAX_CHUNK_SIZE = 256 * KIB"
definition MAX_IN_FLIGHT_UPLOAD :: nat where "MAX_IN_FLIGHT_UPLOAD = 1024 * MIB"
definition MAX_UPLOAD_FILE_BYTES :: nat where "MAX_UPLOAD_FILE_BYTES = 64 * 1024 * MIB"
definition MAX_DIRECTORY_PAGE_SIZE :: nat where "MAX_DIRECTORY_PAGE_SIZE = 500"
definition DEFAULT_DIRECTORY_PAGE_SIZE :: nat where "DEFAULT_DIRECTORY_PAGE_SIZE = 200"
definition MAX_TEXT_EDIT_SIZE :: nat where "MAX_TEXT_EDIT_SIZE = 128 * KIB"
definition MAX_PREVIEW_SIZE :: nat where "MAX_PREVIEW_SIZE = 50 * MIB"

lemmas limit_defs =
  MIB_def KIB_def MAX_FRAME_PAYLOAD_def MAX_CONTROL_PAYLOAD_def
  MAX_DECOMPRESSED_CONTROL_PAYLOAD_def MAX_CHUNK_SIZE_def MAX_IN_FLIGHT_UPLOAD_def
  MAX_UPLOAD_FILE_BYTES_def MAX_DIRECTORY_PAGE_SIZE_def DEFAULT_DIRECTORY_PAGE_SIZE_def
  MAX_TEXT_EDIT_SIZE_def MAX_PREVIEW_SIZE_def

record Limits =
  max_frame_payload :: nat
  max_control_payload :: nat
  max_decompressed_control_payload :: nat
  max_chunk_size :: nat
  max_in_flight_upload :: nat
  max_directory_page_size :: nat
  default_directory_page_size :: nat
  max_text_edit_size :: nat
  max_preview_size :: nat

definition Limits_default :: Limits where
  "Limits_default =
     \<lparr>max_frame_payload = MAX_FRAME_PAYLOAD, max_control_payload = MAX_CONTROL_PAYLOAD,
      max_decompressed_control_payload = MAX_DECOMPRESSED_CONTROL_PAYLOAD,
      max_chunk_size = MAX_CHUNK_SIZE, max_in_flight_upload = MAX_IN_FLIGHT_UPLOAD,
      max_directory_page_size = MAX_DIRECTORY_PAGE_SIZE,
      default_directory_page_size = DEFAULT_DIRECTORY_PAGE_SIZE,
      max_text_edit_size = MAX_TEXT_EDIT_SIZE, max_preview_size = MAX_PREVIEW_SIZE\<rparr>"

end
