(* ===== verification/TD_Strings.thy ===== *)
theory TD_Strings
  imports TD_Prelude
begin

text \<open>
  The operations of \<open>str\<close> and \<open>std::path::Path\<close> (on Unix) that the sources use, on strings
  as byte lists. A \<open>Path\<close> is its string; equality and \<open>starts_with\<close> of paths compare
  components, so both are defined through \<open>components\<close> below.
\<close>

section \<open>Strings\<close>

abbreviation slash :: char where
  "slash \<equiv> CHR ''/''"

abbreviation nul :: char where
  "nul \<equiv> CHR 0x00"

abbreviation backslash :: char where
  "backslash \<equiv> CHR 0x5C"

text \<open>\<open>str::split\<close> on one character: always at least one piece.\<close>

fun split_on :: "char \<Rightarrow> string \<Rightarrow> string list" where
  "split_on c [] = [[]]"
| "split_on c (x # xs) =
     (if x = c then [] # split_on c xs
      else (case split_on c xs of [] \<Rightarrow> [[x]] | p # ps \<Rightarrow> (x # p) # ps))"

text \<open>\<open>[String]::join\<close> with a one-character separator.\<close>

fun join_with :: "char \<Rightarrow> string list \<Rightarrow> string" where
  "join_with c [] = []"
| "join_with c [p] = p"
| "join_with c (p # q # ps) = p @ c # join_with c (q # ps)"

definition trim_matches :: "char \<Rightarrow> string \<Rightarrow> string" where
  "trim_matches c s = rev (dropWhile (\<lambda>x. x = c) (rev (dropWhile (\<lambda>x. x = c) s)))"

definition strip_prefix :: "string \<Rightarrow> string \<Rightarrow> string option" where
  "strip_prefix p s = (if prefix p s then Some (drop (length p) s) else None)"

definition strip_suffix :: "string \<Rightarrow> string \<Rightarrow> string option" where
  "strip_suffix p s = (if suffix p s then Some (take (length s - length p) s) else None)"

text \<open>Decimal text of an unsigned integer.\<close>

fun show_nat :: "nat \<Rightarrow> string" where
  "show_nat n = (if n < 10 then [char_of (48 + n)] else show_nat (n div 10) @ [char_of (48 + n mod 10)])"

declare show_nat.simps [simp del]

text \<open>\<open>str::rsplit_once\<close> on one character: split at its last occurrence.\<close>

definition rsplit_once :: "char \<Rightarrow> string \<Rightarrow> (string \<times> string) option" where
  "rsplit_once c s =
     (if c \<in> set s
      then Some (butlast (rev (dropWhile (\<lambda>x. x \<noteq> c) (rev s))), rev (takeWhile (\<lambda>x. x \<noteq> c) (rev s)))
      else None)"

text \<open>\<open>str::split_once\<close> on one character: split at its first occurrence.\<close>

definition split_once :: "char \<Rightarrow> string \<Rightarrow> (string \<times> string) option" where
  "split_once c s =
     (if c \<in> set s then Some (takeWhile (\<lambda>x. x \<noteq> c) s, tl (dropWhile (\<lambda>x. x \<noteq> c) s)) else None)"

definition ascii_lower :: "char \<Rightarrow> char" where
  "ascii_lower c =
     (if 65 \<le> (of_char c :: nat) \<and> (of_char c :: nat) \<le> 90 then char_of ((of_char c :: nat) + 32)
      else c)"

definition to_ascii_lowercase :: "string \<Rightarrow> string" where
  "to_ascii_lowercase s = map ascii_lower s"

definition eq_ignore_ascii_case :: "string \<Rightarrow> string \<Rightarrow> bool" where
  "eq_ignore_ascii_case a b \<longleftrightarrow> to_ascii_lowercase a = to_ascii_lowercase b"

definition is_ascii_alphanumeric :: "char \<Rightarrow> bool" where
  "is_ascii_alphanumeric c \<longleftrightarrow>
     (let n = (of_char c :: nat) in (48 \<le> n \<and> n \<le> 57) \<or> (65 \<le> n \<and> n \<le> 90) \<or> (97 \<le> n \<and> n \<le> 122))"

definition is_ascii_hexdigit :: "char \<Rightarrow> bool" where
  "is_ascii_hexdigit c \<longleftrightarrow>
     (let n = (of_char c :: nat) in (48 \<le> n \<and> n \<le> 57) \<or> (65 \<le> n \<and> n \<le> 70) \<or> (97 \<le> n \<and> n \<le> 102))"

subsection \<open>Splitting and joining\<close>

lemma split_on_not_Nil [simp]: "split_on c s \<noteq> []"
  by (cases s) (auto split: list.splits)

lemma join_with_Cons:
  "ps \<noteq> [] \<Longrightarrow> join_with c (p # ps) = p @ c # join_with c ps"
  by (cases ps) simp_all

lemma join_split_on [simp]: "join_with c (split_on c s) = s"
proof (induction s)
  case Nil
  then show ?case by simp
next
  case (Cons x xs)
  obtain p ps where sp: "split_on c xs = p # ps" by (cases "split_on c xs") auto
  with Cons show ?case by (cases ps) simp_all
qed

lemma split_on_pieces: "p \<in> set (split_on c s) \<Longrightarrow> c \<notin> set p"
proof (induction s arbitrary: p)
  case Nil
  then show ?case by simp
next
  case (Cons x xs)
  then show ?case
    by (cases "split_on c xs") (auto split: if_splits)
qed

lemma split_on_no_sep: "c \<notin> set s \<Longrightarrow> split_on c s = [s]"
  by (induction s) auto

lemma split_on_append: "split_on c (a @ c # b) = split_on c a @ split_on c b"
proof (induction a)
  case Nil
  then show ?case by simp
next
  case (Cons x a)
  obtain p ps where "split_on c a = p # ps" by (cases "split_on c a") auto
  with Cons show ?case by auto
qed

lemma split_on_join:
  "ps \<noteq> [] \<Longrightarrow> (\<forall>p \<in> set ps. c \<notin> set p) \<Longrightarrow> split_on c (join_with c ps) = ps"
proof (induction ps)
  case Nil
  then show ?case by simp
next
  case (Cons p ps)
  then show ?case
    by (cases ps) (auto simp: split_on_no_sep split_on_append)
qed

lemma set_split_on_subset: "p \<in> set (split_on c s) \<Longrightarrow> set p \<subseteq> set s"
proof (induction s arbitrary: p)
  case Nil
  then show ?case by simp
next
  case (Cons x xs)
  obtain q qs where sp: "split_on c xs = q # qs" by (cases "split_on c xs") auto
  have sub: "set q \<subseteq> set xs" "\<And>r. r \<in> set qs \<Longrightarrow> set r \<subseteq> set xs"
    using Cons.IH [of q] Cons.IH sp by auto
  from Cons.prems show ?case
    by (auto simp: sp split: if_splits dest!: sub(2) set_mp [OF sub(1)])
qed

lemma set_join_with_subset:
  "set (join_with c ps) \<subseteq> insert c (\<Union>p \<in> set ps. set p)"
  by (induction c ps rule: join_with.induct) auto

lemma join_with_map_eq: "join_with c ps = [] \<longleftrightarrow> ps = [] \<or> ps = [[]]"
  by (cases "(c, ps)" rule: join_with.cases) auto

lemma join_with_append:
  "ps \<noteq> [] \<Longrightarrow> qs \<noteq> [] \<Longrightarrow> join_with c (ps @ qs) = join_with c ps @ c # join_with c qs"
  by (induction c ps rule: join_with.induct) (auto simp: join_with_Cons)

subsection \<open>Trimming and affixes\<close>

lemma trim_matches_id:
  "s = [] \<or> (hd s \<noteq> c \<and> last s \<noteq> c) \<Longrightarrow> trim_matches c s = s"
proof -
  assume a: "s = [] \<or> (hd s \<noteq> c \<and> last s \<noteq> c)"
  have "dropWhile (\<lambda>x. x = c) s = s" using a by (cases s) auto
  moreover have "dropWhile (\<lambda>x. x = c) (rev s) = rev s"
    using a by (cases s rule: rev_cases) auto
  ultimately show ?thesis by (simp add: trim_matches_def)
qed

lemma set_trim_matches: "set (trim_matches c s) \<subseteq> set s"
  by (auto simp: trim_matches_def dest!: set_dropWhileD)

lemma strip_prefix_Some [string_simps]: "strip_prefix p s = Some r \<longleftrightarrow> s = p @ r"
  by (auto simp: strip_prefix_def prefix_def)

lemma strip_suffix_Some [string_simps]: "strip_suffix p s = Some r \<longleftrightarrow> s = r @ p"
  by (auto simp: strip_suffix_def suffix_def)

section \<open>Paths\<close>

datatype Component = RootDir | CurDir | ParentDir | Normal string

definition is_absolute :: "string \<Rightarrow> bool" where
  "is_absolute p \<longleftrightarrow> (case p of [] \<Rightarrow> False | c # _ \<Rightarrow> c = slash)"

fun component_of :: "string \<Rightarrow> Component" where
  "component_of p = (if p = ''..'' then ParentDir else Normal p)"

text \<open>
  \<open>Path::components\<close>: empty pieces (repeated and trailing separators) are dropped, \<open>.\<close> is
  dropped except as the first piece of a relative path, and a leading separator gives \<open>RootDir\<close>.
\<close>

definition components :: "string \<Rightarrow> Component list" where
  "components p =
     (let ps = split_on slash p;
          body = map component_of (filter (\<lambda>q. q \<noteq> [] \<and> q \<noteq> ''.'') ps)
      in if is_absolute p then RootDir # body
         else if hd ps = ''.'' then CurDir # body
         else body)"

definition path_eq :: "string \<Rightarrow> string \<Rightarrow> bool" where
  "path_eq a b \<longleftrightarrow> components a = components b"

definition path_starts_with :: "string \<Rightarrow> string \<Rightarrow> bool" where
  "path_starts_with p base \<longleftrightarrow> prefix (components base) (components p)"

text \<open>\<open>Path::join\<close>: an absolute argument replaces the base.\<close>

definition path_join :: "string \<Rightarrow> string \<Rightarrow> string" where
  "path_join base p =
     (if is_absolute p then p
      else if base = [] \<or> last base = slash then base @ p
      else base @ slash # p)"

text \<open>\<open>Path::file_name\<close> is the last component if it is a normal one, and \<open>Path::parent\<close> all
  components but the last; there is no parent of the root or of the empty path.\<close>

definition path_file_name :: "string \<Rightarrow> string option" where
  "path_file_name p =
     (case components p of [] \<Rightarrow> None
      | cs \<Rightarrow> (case last cs of Normal n \<Rightarrow> Some n | _ \<Rightarrow> None))"

definition path_parent :: "string \<Rightarrow> Component list option" where
  "path_parent p =
     (case components p of [] \<Rightarrow> None
      | cs \<Rightarrow> (if last cs = RootDir then None else Some (butlast cs)))"

lemma hd_split_on_append: "hd (split_on c (a @ c # b)) = hd (split_on c a)"
  by (simp add: split_on_append)

lemma is_absolute_simps [simp]:
  "is_absolute [] = False"
  "is_absolute (c # s) \<longleftrightarrow> c = slash"
  by (simp_all add: is_absolute_def)

lemma components_append_slash:
  "a \<noteq> [] \<Longrightarrow> components (a @ slash # b) =
     components a @ map component_of (filter (\<lambda>q. q \<noteq> [] \<and> q \<noteq> ''.'') (split_on slash b))"
proof -
  assume a: "a \<noteq> []"
  then have "is_absolute (a @ slash # b) = is_absolute a" by (cases a) simp_all
  then show ?thesis
    by (simp add: components_def Let_def split_on_append del: split_on.simps)
qed

lemma components_path_join:
  assumes "base \<noteq> []" and "\<not> is_absolute p"
  shows "components (path_join base p) =
     components base @ map component_of (filter (\<lambda>q. q \<noteq> [] \<and> q \<noteq> ''.'') (split_on slash p))"
proof (cases "last base = slash")
  case True
  then obtain b where b: "base = b @ [slash]"
    using assms(1) by (metis append_butlast_last_id)
  have join: "path_join base p = b @ slash # p"
    using assms True by (simp add: path_join_def b)
  show ?thesis
  proof (cases "b = []")
    case True
    then show ?thesis using assms(2) by (simp add: b path_join_def components_def Let_def)
  next
    case False
    then show ?thesis
      using components_append_slash [OF False, of p] components_append_slash [OF False, of "[]"]
      using join by (simp add: b)
  qed
next
  case False
  then show ?thesis
    using assms by (simp add: path_join_def components_append_slash)
qed

lemma path_join_starts_with:
  "base \<noteq> [] \<Longrightarrow> \<not> is_absolute p \<Longrightarrow> path_starts_with (path_join base p) base"
  by (simp add: path_starts_with_def components_path_join)

lemma components_normal_path:
  assumes "\<forall>q \<in> set ps. q \<noteq> [] \<and> q \<noteq> ''.'' \<and> q \<noteq> ''..'' \<and> slash \<notin> set q"
  shows "components (join_with slash ps) = map Normal ps"
proof (cases "ps = []")
  case True
  then show ?thesis by (simp add: components_def)
next
  case False
  then have sp: "split_on slash (join_with slash ps) = ps"
    using assms by (intro split_on_join) auto
  obtain q qs where ps: "ps = q # qs" using False by (cases ps) auto
  then obtain c cs where q: "q = c # cs" "c \<noteq> slash"
    using assms by (cases q) auto
  have "\<not> is_absolute (join_with slash ps)"
    using q ps by (cases qs) auto
  moreover have "filter (\<lambda>q. q \<noteq> [] \<and> q \<noteq> ''.'') ps = ps"
    using assms by (intro filter_True) auto
  ultimately show ?thesis
    using assms sp by (auto simp: components_def Let_def ps)
qed


section \<open>Unicode white space\<close>

text \<open>\<open>str::trim\<close> removes the characters with the property \<open>White_Space\<close>, here in UTF-8.\<close>

definition white_spaces :: "string list" where
  "white_spaces =
     map (\<lambda>c. [c]) [CHR 0x09, CHR 0x0A, CHR 0x0B, CHR 0x0C, CHR 0x0D, CHR 0x20]
     @ [[CHR 0xC2, CHR 0x85], [CHR 0xC2, CHR 0xA0], [CHR 0xE1, CHR 0x9A, CHR 0x80]]
     @ map (\<lambda>c. [CHR 0xE2, CHR 0x80, c])
         [CHR 0x80, CHR 0x81, CHR 0x82, CHR 0x83, CHR 0x84, CHR 0x85, CHR 0x86, CHR 0x87, CHR 0x88, CHR 0x89,
          CHR 0x8A, CHR 0xA8, CHR 0xA9, CHR 0xAF]
     @ [[CHR 0xE2, CHR 0x81, CHR 0x9F], [CHR 0xE3, CHR 0x80, CHR 0x80]]"

lemma white_spaces_nonempty: "w \<in> set white_spaces \<Longrightarrow> w \<noteq> []"
  by (auto simp: white_spaces_def)

function trim_spaces :: "string list \<Rightarrow> string \<Rightarrow> string" where
  "trim_spaces ws s =
     (case find (\<lambda>w. w \<noteq> [] \<and> prefix w s) ws of
        None \<Rightarrow> s
      | Some w \<Rightarrow> trim_spaces ws (drop (length w) s))"
  by pat_completeness auto

termination
proof (relation "measure (\<lambda>(ws, s). length s)")
  fix ws s w
  assume "find (\<lambda>w. w \<noteq> [] \<and> prefix w s) ws = Some w"
  then have "w \<noteq> []" "prefix w s" by (auto simp: find_Some_iff)
  then show "((ws, drop (length w) s), ws, s) \<in> measure (\<lambda>(ws, s). length s)"
    by (auto simp: prefix_def)
qed simp

declare trim_spaces.simps [simp del]

definition str_trim :: "string \<Rightarrow> string" where
  "str_trim s = rev (trim_spaces (map rev white_spaces) (rev (trim_spaces white_spaces s)))"

end
