(* ===== verification/TD_Path.thy ===== *)
theory TD_Path
  imports TD_Errors TD_Strings
begin

text \<open>
  Relative paths, file names and allowed roots: \<open>src/fs/path.rs\<close> (name-level part),
  \<open>src/fs/filename.rs\<close>, \<open>src/policy/roots.rs\<close> and the \<open>AllowedRoot\<close> of \<open>src/config.rs\<close>.
  The lemmas characterise what \<open>validate_relative_path\<close> accepts and show that joining its result
  to a root can only descend.
\<close>

type_synonym RootId = string
type_synonym RelativePath = string
type_synonym SafeFileName = string

section \<open>Allowed roots (\<open>config.rs\<close>, \<open>roots.rs\<close>)\<close>

record AllowedRoot =
  root_root_id :: RootId
  root_base_path :: string
  root_read_only :: bool
  root_uploads_allowed :: bool
  root_hidden_files_allowed :: bool
  root_is_web_root :: bool
  root_quota_bytes :: "nat option"

definition AllowedRoot_default :: AllowedRoot where
  "AllowedRoot_default =
     \<lparr>root_root_id = ''home'', root_base_path = ''/home'', root_read_only = False,
      root_uploads_allowed = True, root_hidden_files_allowed = False, root_is_web_root = False,
      root_quota_bytes = None\<rparr>"

definition find_allowed_root :: "AllowedRoot list \<Rightarrow> RootId \<Rightarrow> AllowedRoot option" where
  "find_allowed_root roots rid = find (\<lambda>r. root_root_id r = rid) roots"

definition require_allowed_root :: "AllowedRoot list \<Rightarrow> RootId \<Rightarrow> AllowedRoot td_result" where
  "require_allowed_root roots rid =
     ok_or (find_allowed_root roots rid) TealDriveError.InvalidRootId"

section \<open>File names (\<open>filename.rs\<close>)\<close>

definition is_reserved_name :: "string \<Rightarrow> bool" where
  "is_reserved_name v \<longleftrightarrow> v = ''.'' \<or> v = ''..''"

definition filename_error :: "string \<Rightarrow> TealDriveError" where
  "filename_error v =
     (if nul \<in> set v then TealDriveError.NullByteRejected
      else if is_reserved_name v then TealDriveError.ReservedNameRejected
      else TealDriveError.InvalidFilename)"

definition SafeFileName_parse :: "string \<Rightarrow> SafeFileName td_result" where
  "SafeFileName_parse v =
     (if v = [] \<or> nul \<in> set v \<or> slash \<in> set v \<or> backslash \<in> set v \<or> v = ''.'' \<or> v = ''..''
         \<or> is_reserved_name v
      then Inl (filename_error v) else Inr v)"

section \<open>Relative paths (\<open>path.rs\<close>)\<close>

text \<open>The loop over the components of the trimmed path.\<close>

fun collect_parts :: "Component list \<Rightarrow> string list \<Rightarrow> string list td_result" where
  "collect_parts [] parts = Inr parts"
| "collect_parts (Normal p # cs) parts = collect_parts cs (parts @ [p])"
| "collect_parts (CurDir # cs) parts = collect_parts cs parts"
| "collect_parts (ParentDir # cs) parts = Inl TealDriveError.TraversalRejected"
| "collect_parts (RootDir # cs) parts = Inl TealDriveError.AbsolutePathRejected"

definition validate_relative_path :: "RelativePath \<Rightarrow> RelativePath td_result" where
  "validate_relative_path path =
     (let v = trim_matches slash path in
      if nul \<in> set path then Inl TealDriveError.NullByteRejected
      else if is_absolute path then Inl TealDriveError.AbsolutePathRejected
      else and_then (collect_parts (components v) []) (\<lambda>parts. Inr (join_with slash parts)))"

definition is_hidden_relative :: "RelativePath \<Rightarrow> bool" where
  "is_hidden_relative path =
     (case validate_relative_path path of
        Inr p \<Rightarrow> (\<exists>part \<in> set (split_on slash p). prefix ''.'' part)
      | Inl _ \<Rightarrow> False)"

record ResolvedRoot =
  rr_root_id :: RootId
  rr_canonical_base :: string
  rr_root :: AllowedRoot

record ExistingPathResolution =
  ex_root :: ResolvedRoot
  ex_relative_path :: RelativePath
  ex_resolved_path :: string
  ex_is_symlink :: bool

record NewTargetResolution =
  nt_root :: ResolvedRoot
  nt_parent_relative_path :: RelativePath
  nt_filename :: SafeFileName
  nt_resolved_parent :: string
  nt_resolved_path :: string

text \<open>The network tier resolves names only; the disk is consulted by the helper.\<close>

definition authorize_existing_path ::
  "AllowedRoot \<Rightarrow> RelativePath \<Rightarrow> bool \<Rightarrow> ExistingPathResolution td_result" where
  "authorize_existing_path root path follow =
     and_then (validate_relative_path path) (\<lambda>rel. Inr
       \<lparr>ex_root = \<lparr>rr_root_id = root_root_id root, rr_canonical_base = root_base_path root,
          rr_root = root\<rparr>,
        ex_relative_path = rel, ex_resolved_path = path_join (root_base_path root) rel,
        ex_is_symlink = False\<rparr>)"

definition authorize_new_target ::
  "AllowedRoot \<Rightarrow> RelativePath \<Rightarrow> string \<Rightarrow> NewTargetResolution td_result" where
  "authorize_new_target root parent fname =
     and_then (validate_relative_path parent) (\<lambda>par.
     and_then (SafeFileName_parse fname) (\<lambda>name.
       let rp = path_join (root_base_path root) par in Inr
       \<lparr>nt_root = \<lparr>rr_root_id = root_root_id root, rr_canonical_base = root_base_path root,
          rr_root = root\<rparr>,
        nt_parent_relative_path = par, nt_filename = name, nt_resolved_parent = rp,
        nt_resolved_path = path_join rp name\<rparr>))"

section \<open>What the validator accepts\<close>

text \<open>The pieces of a path that name something: neither empty nor \<open>.\<close>.\<close>

definition name_parts :: "string \<Rightarrow> string list" where
  "name_parts p = filter (\<lambda>q. q \<noteq> [] \<and> q \<noteq> ''.'') (split_on slash p)"

lemma name_parts_slash [simp]: "name_parts (slash # p) = name_parts p"
  by (simp add: name_parts_def)

lemma name_parts_snoc_slash [simp]: "name_parts (p @ [slash]) = name_parts p"
  using split_on_append [of slash p "[]"] by (simp add: name_parts_def)

lemma name_parts_dropWhile: "name_parts (dropWhile (\<lambda>x. x = slash) p) = name_parts p"
  by (induction p) simp_all

lemma name_parts_trim: "name_parts (trim_matches slash p) = name_parts p"
proof -
  have "name_parts (rev (dropWhile (\<lambda>x. x = slash) q)) = name_parts (rev q)" for q
    by (induction q) simp_all
  then show ?thesis by (simp add: trim_matches_def name_parts_dropWhile)
qed

lemma trim_matches_not_absolute: "\<not> is_absolute (trim_matches slash p)"
proof -
  have "dropWhile (\<lambda>x. x = slash) p = [] \<or> hd (dropWhile (\<lambda>x. x = slash) p) \<noteq> slash"
    using hd_dropWhile [of "\<lambda>x. x = slash" p] by auto
  then obtain q where q: "q = dropWhile (\<lambda>x. x = slash) p" "q = [] \<or> hd q \<noteq> slash" by simp
  have "prefix (rev (dropWhile (\<lambda>x. x = slash) (rev q))) q"
    using suffix_dropWhile [of "\<lambda>x. x = slash" "rev q"] by (simp add: suffix_to_prefix)
  with q(2) show ?thesis
    by (auto simp: trim_matches_def q(1) [symmetric] is_absolute_def prefix_def
        split: list.splits)
qed

lemma component_of_eq [simp]:
  "component_of q \<noteq> CurDir" "component_of q \<noteq> RootDir"
  "component_of q = ParentDir \<longleftrightarrow> q = ''..''"
  "component_of q = Normal n \<longleftrightarrow> q = n \<and> q \<noteq> ''..''"
  by auto

lemma collect_parts_map:
  "collect_parts (map component_of qs) acc =
     (if ''..'' \<in> set qs then Inl TealDriveError.TraversalRejected else Inr (acc @ qs))"
  by (induction qs arbitrary: acc) auto

lemma collect_parts_components:
  "\<not> is_absolute p \<Longrightarrow> collect_parts (components p) [] =
     (if ''..'' \<in> set (name_parts p) then Inl TealDriveError.TraversalRejected
      else Inr (name_parts p))"
  by (auto simp: components_def Let_def name_parts_def collect_parts_map simp del: component_of.simps)

lemma dotdot_name_parts: "''..'' \<in> set (name_parts p) \<longleftrightarrow> ''..'' \<in> set (split_on slash p)"
  by (simp add: name_parts_def)

lemma validate_relative_path_eq:
  "validate_relative_path p =
     (if nul \<in> set p then Inl TealDriveError.NullByteRejected
      else if is_absolute p then Inl TealDriveError.AbsolutePathRejected
      else if ''..'' \<in> set (split_on slash p) then Inl TealDriveError.TraversalRejected
      else Inr (join_with slash (name_parts p)))"
  by (simp add: validate_relative_path_def Let_def collect_parts_components
      trim_matches_not_absolute name_parts_trim dotdot_name_parts)

lemma name_parts_pieces:
  "q \<in> set (name_parts p) \<Longrightarrow> q \<noteq> [] \<and> q \<noteq> ''.'' \<and> slash \<notin> set q"
  by (auto simp: name_parts_def dest: split_on_pieces)

lemma name_parts_join:
  assumes "\<forall>q \<in> set ps. q \<noteq> [] \<and> q \<noteq> ''.'' \<and> slash \<notin> set q"
  shows "name_parts (join_with slash ps) = ps"
proof (cases "ps = []")
  case True
  then show ?thesis by (simp add: name_parts_def)
next
  case False
  with assms have "split_on slash (join_with slash ps) = ps" by (intro split_on_join) auto
  with assms show ?thesis by (simp add: name_parts_def filter_True)
qed

lemma name_parts_join_name_parts [simp]: "name_parts (join_with slash (name_parts p)) = name_parts p"
  by (intro name_parts_join) (blast dest: name_parts_pieces)

lemma join_name_parts_relative: "\<not> is_absolute (join_with slash (name_parts p))"
proof (cases "name_parts p")
  case Nil
  then show ?thesis by simp
next
  case (Cons q qs)
  then obtain c cs where "q = c # cs" "c \<noteq> slash"
    using name_parts_pieces [of q p] by (cases q) auto
  with Cons show ?thesis by (cases qs) auto
qed

lemma set_name_parts_subset: "q \<in> set (name_parts p) \<Longrightarrow> set q \<subseteq> set p"
  by (auto simp: name_parts_def dest: set_split_on_subset)

lemma nul_join_name_parts: "nul \<notin> set p \<Longrightarrow> nul \<notin> set (join_with slash (name_parts p))"
  using set_join_with_subset [of slash "name_parts p"] set_name_parts_subset [of _ p] by fastforce

text \<open>What a validated path looks like: the form every later check relies on.\<close>

definition path_ok :: "RelativePath \<Rightarrow> bool" where
  "path_ok r \<longleftrightarrow> nul \<notin> set r \<and> \<not> is_absolute r \<and> ''..'' \<notin> set (split_on slash r) \<and>
     join_with slash (name_parts r) = r"

lemma validate_path_ok: "validate_relative_path p = Inr r \<Longrightarrow> path_ok r"
  by (auto simp: validate_relative_path_eq path_ok_def nul_join_name_parts
      join_name_parts_relative simp flip: dotdot_name_parts split: if_splits)

lemma path_ok_validate: "path_ok r \<longleftrightarrow> validate_relative_path r = Inr r"
  by (auto simp: path_ok_def validate_relative_path_eq)

lemma validate_idem: "validate_relative_path p = Inr r \<Longrightarrow> validate_relative_path r = Inr r"
  by (simp add: validate_path_ok flip: path_ok_validate)

lemma path_ok_parts: "path_ok r \<Longrightarrow> r = join_with slash (name_parts r)"
  by (simp add: path_ok_def)

lemma path_ok_split: "path_ok r \<Longrightarrow> r \<noteq> [] \<Longrightarrow> split_on slash r = name_parts r"
proof -
  assume ok: "path_ok r" and ne: "r \<noteq> []"
  then have eq: "join_with slash (name_parts r) = r" by (simp add: path_ok_def)
  with ne have "name_parts r \<noteq> []" by auto
  then have "split_on slash (join_with slash (name_parts r)) = name_parts r"
    by (intro split_on_join) (auto dest: name_parts_pieces)
  with eq show ?thesis by simp
qed

text \<open>Joined to a base, a validated path only appends normal components.\<close>

lemma components_join_validated:
  assumes "path_ok r" and "base \<noteq> []"
  shows "components (path_join base r) = components base @ map Normal (name_parts r)"
proof -
  have "map component_of (name_parts r) = map Normal (name_parts r)"
    using assms(1) by (auto simp: path_ok_def simp flip: dotdot_name_parts)
  with assms show ?thesis
    by (simp add: components_path_join path_ok_def flip: name_parts_def)
qed

lemma SafeFileName_parse_Inr:
  "SafeFileName_parse v = Inr n \<longleftrightarrow>
     n = v \<and> v \<noteq> [] \<and> nul \<notin> set v \<and> slash \<notin> set v \<and> backslash \<notin> set v \<and> v \<noteq> ''.'' \<and> v \<noteq> ''..''"
  by (auto simp: SafeFileName_parse_def is_reserved_name_def)

lemma safe_name_components:
  "SafeFileName_parse v = Inr n \<Longrightarrow> base \<noteq> [] \<Longrightarrow>
     components (path_join base n) = components base @ [Normal n]"
proof -
  assume v: "SafeFileName_parse v = Inr n" and base: "base \<noteq> []"
  then have "\<not> is_absolute n" by (cases n) (auto simp: SafeFileName_parse_Inr)
  with v base show ?thesis
    by (auto simp: SafeFileName_parse_Inr components_path_join split_on_no_sep)
qed

lemma safe_name_validates: "SafeFileName_parse v = Inr n \<Longrightarrow> validate_relative_path n = Inr n"
  by (auto simp: SafeFileName_parse_Inr validate_relative_path_eq split_on_no_sep name_parts_def
      is_absolute_def split: list.splits)

lemma path_join_not_Nil: "base \<noteq> [] \<Longrightarrow> path_join base p \<noteq> []"
  by (auto simp: path_join_def)

section \<open>Properties\<close>

text \<open>\<open>validate_relative_path\<close> rejects exactly the paths with a NUL byte, absolute paths and
  paths with a \<open>..\<close> piece, each with its own error, and normalises every other path to its
  non-empty pieces other than \<open>.\<close>, joined by single slashes.\<close>

theorem validate_relative_path_spec:
  "validate_relative_path p =
     (if nul \<in> set p then Inl TealDriveError.NullByteRejected
      else if is_absolute p then Inl TealDriveError.AbsolutePathRejected
      else if ''..'' \<in> set (split_on slash p) then Inl TealDriveError.TraversalRejected
      else Inr (join_with slash (filter (\<lambda>q. q \<noteq> [] \<and> q \<noteq> ''.'') (split_on slash p))))"
  by (simp add: validate_relative_path_eq name_parts_def)

text \<open>C18: a new target below an allowed root stays below it. Whatever parent path and file name the
  client sends, the path the network tier hands on has the root's components first, then the
  components of the normalised parent, then the one file name, and no \<open>..\<close> among the added ones.\<close>

theorem authorize_new_target_confined:
  assumes "authorize_new_target root parent fname = Inr t" and "root_base_path root \<noteq> []"
  shows "components (nt_resolved_path t) =
           components (root_base_path root) @
           map Normal (name_parts (nt_parent_relative_path t)) @ [Normal (nt_filename t)]
         \<and> path_starts_with (nt_resolved_path t) (root_base_path root)
         \<and> nt_filename t = fname"
proof -
  obtain par where par: "validate_relative_path parent = Inr par"
    and name: "SafeFileName_parse fname = Inr fname"
    and t: "nt_resolved_path t = path_join (path_join (root_base_path root) par) fname"
      "nt_parent_relative_path t = par" "nt_filename t = fname"
    using assms(1)
    by (auto simp: authorize_new_target_def result_simps Let_def SafeFileName_parse_Inr)
  have "components (nt_resolved_path t) =
      components (path_join (root_base_path root) par) @ [Normal fname]"
    using safe_name_components [OF name] path_join_not_Nil [OF assms(2)] by (simp add: t)
  also have "\<dots> = (components (root_base_path root) @ map Normal (name_parts par)) @ [Normal fname]"
    using components_join_validated [OF validate_path_ok [OF par] assms(2)] by simp
  finally show ?thesis by (simp add: path_starts_with_def t)
qed

theorem authorize_new_target_confined_witness:
  "components ''/srv/files/docs/a/b.txt'' =
     components ''/srv/files'' @ map Normal [''docs'', ''a''] @ [Normal ''b.txt'']"
proof -
  let ?root = "AllowedRoot_default\<lparr>root_base_path := ''/srv/files''\<rparr>"
  obtain t where t: "authorize_new_target ?root ''docs//./a/'' ''b.txt'' = Inr t"
    and r: "nt_resolved_path t = ''/srv/files/docs/a/b.txt''"
      "nt_parent_relative_path t = ''docs/a''" "nt_filename t = ''b.txt''"
    by (simp add: authorize_new_target_def validate_relative_path_eq name_parts_def
        SafeFileName_parse_def is_reserved_name_def path_join_def AllowedRoot_default_def)
  show ?thesis
    using authorize_new_target_confined [OF t] by (simp add: r name_parts_def AllowedRoot_default_def)
qed

end
