(* ===== verification/TD_Access.thy ===== *)
theory TD_Access
  imports TD_Path "HOL-Library.Char_ord" "HOL-Library.List_Lexorder"
begin

text \<open>
  The shared path policy of \<open>src/policy/access.rs\<close>: rules that hide paths or deny single actions
  on them, their validation, the merge of a policy with a ceiling, and the check itself.

  The lemmas give a declarative reading of the check, show that hiding a directory hides
  everything below it, and that a merged policy permits exactly what both policies permit.
\<close>

section \<open>Policies\<close>

datatype Access = Discover | Read | Write | Chmod | Delete | Move

record Rule =
  rule_path :: RelativePath
  rule_root_id :: "RootId option"
  rule_recursive :: bool
  rule_deny :: "Access list"

record UserRules =
  ur_root_rules :: "Rule list"
  ur_admin_rules :: "Rule list"
  ur_personal_rules :: "Rule list"

text \<open>A \<open>BTreeMap\<close> is an association list in key order.\<close>

record AccessPolicy =
  ap_deny_system_components :: "string list"
  ap_reject_file_hardlinks :: bool
  ap_root_rules :: "Rule list"
  ap_users :: "(string \<times> UserRules) list"

definition UserRules_default :: UserRules where
  "UserRules_default = \<lparr>ur_root_rules = [], ur_admin_rules = [], ur_personal_rules = []\<rparr>"

definition AccessPolicy_default :: AccessPolicy where
  "AccessPolicy_default =
     \<lparr>ap_deny_system_components = [''.ssh'', ''.gnupg'', ''.aws'', ''.kube''],
      ap_reject_file_hardlinks = True, ap_root_rules = [], ap_users = []\<rparr>"

text \<open>The three rule lists of a user, chained in the order of the source.\<close>

definition user_rules :: "UserRules \<Rightarrow> Rule list" where
  "user_rules u = ur_root_rules u @ ur_admin_rules u @ ur_personal_rules u"

section \<open>Validation\<close>

definition bad_component_name :: "string \<Rightarrow> bool" where
  "bad_component_name s \<longleftrightarrow>
     s = [] \<or> length s > 255 \<or> slash \<in> set s \<or> backslash \<in> set s \<or> nul \<in> set s
     \<or> s = ''.'' \<or> s = ''..''"

definition bad_user_name :: "string \<Rightarrow> bool" where
  "bad_user_name s \<longleftrightarrow>
     s = [] \<or> length s > 256 \<or> slash \<in> set s \<or> backslash \<in> set s \<or> nul \<in> set s"

fun validate_rules :: "nat \<Rightarrow> Rule list \<Rightarrow> unit td_result" where
  "validate_rules n [] = Inr ()"
| "validate_rules n (r # rs) =
     (let n = n + 1 in
      if n > 4096 \<or> length (rule_path r) > 4096 \<or> rule_deny r = [] \<or> length (rule_deny r) > 6
      then Inl TealDriveError.Validation
      else and_then (validate_relative_path (rule_path r)) (\<lambda>p.
        if p \<noteq> rule_path r \<or> backslash \<in> set (rule_path r) \<or> rule_root_id r = Some []
        then Inl TealDriveError.Validation
        else validate_rules n rs))"

definition AccessPolicy_validate :: "AccessPolicy \<Rightarrow> unit td_result" where
  "AccessPolicy_validate p =
     (if length (ap_deny_system_components p) > 128 \<or> length (ap_users p) > 1024
         \<or> (\<exists>s \<in> set (ap_deny_system_components p). bad_component_name s)
         \<or> (\<exists>s \<in> set (map fst (ap_users p)). bad_user_name s)
      then Inl TealDriveError.Validation
      else validate_rules 0
        (ap_root_rules p @ concat (map (\<lambda>(_, u). user_rules u) (ap_users p))))"

section \<open>Merging with a ceiling\<close>

fun btree_insert :: "string \<Rightarrow> 'v \<Rightarrow> (string \<times> 'v) list \<Rightarrow> (string \<times> 'v) list" where
  "btree_insert k v [] = [(k, v)]"
| "btree_insert k v ((k', v') # m) =
     (if k = k' then (k, v) # m
      else if k < k' then (k, v) # (k', v') # m
      else (k', v') # btree_insert k v m)"

definition extend_user :: "UserRules \<Rightarrow> UserRules \<Rightarrow> UserRules" where
  "extend_user current rules =
     \<lparr>ur_root_rules = remdups_adj (ur_root_rules current @ ur_root_rules rules),
      ur_admin_rules = remdups_adj (ur_admin_rules current @ ur_admin_rules rules),
      ur_personal_rules = remdups_adj (ur_personal_rules current @ ur_personal_rules rules)\<rparr>"

fun extend_users ::
  "(string \<times> UserRules) list \<Rightarrow> (string \<times> UserRules) list \<Rightarrow> (string \<times> UserRules) list" where
  "extend_users users [] = users"
| "extend_users users ((name, rules) # ceiling) =
     (let current = (case map_of users name of None \<Rightarrow> UserRules_default | Some u \<Rightarrow> u)
      in extend_users (btree_insert name (extend_user current rules) users) ceiling)"

definition extend_ceiling :: "AccessPolicy \<Rightarrow> AccessPolicy \<Rightarrow> AccessPolicy" where
  "extend_ceiling p ceiling =
     \<lparr>ap_deny_system_components =
        remdups_adj (sort (ap_deny_system_components p @ ap_deny_system_components ceiling)),
      ap_reject_file_hardlinks = (ap_reject_file_hardlinks p \<or> ap_reject_file_hardlinks ceiling),
      ap_root_rules = remdups_adj (ap_root_rules p @ ap_root_rules ceiling),
      ap_users = extend_users (ap_users p) (ap_users ceiling)\<rparr>"

section \<open>The check\<close>

definition hidden_component :: "AccessPolicy \<Rightarrow> string \<Rightarrow> bool" where
  "hidden_component p c \<longleftrightarrow>
     c \<in> set (ap_deny_system_components p) \<or> c = ''.tealdrive-trash''
     \<or> prefix ''.tdrv-transaction-'' c"

text \<open>The loop over the rules, with the \<open>denied\<close> flag as accumulator.\<close>

fun check_rules ::
  "RootId \<Rightarrow> RelativePath \<Rightarrow> Access \<Rightarrow> Rule list \<Rightarrow> bool \<Rightarrow> unit td_result" where
  "check_rules root path action [] denied =
     (if denied then Inl TealDriveError.PolicyDenied else Inr ())"
| "check_rules root path action (r # rs) denied =
     (if (case rule_root_id r of None \<Rightarrow> False | Some i \<Rightarrow> i \<noteq> root)
      then check_rules root path action rs denied
      else
        let descendant = (rule_path r = [] \<or> prefix (rule_path r @ ''/'') path)
        in if (path = rule_path r \<or> descendant) \<and> Discover \<in> set (rule_deny r)
           then Inl TealDriveError.NotFound
           else check_rules root path action rs
             (if path = rule_path r \<or> (rule_recursive r \<and> descendant)
              then denied \<or> action \<in> set (rule_deny r) else denied))"

definition policy_rules :: "AccessPolicy \<Rightarrow> string \<Rightarrow> Rule list" where
  "policy_rules p username =
     ap_root_rules p @
     (case map_of (ap_users p) username of None \<Rightarrow> [] | Some u \<Rightarrow> user_rules u)"

definition AccessPolicy_check ::
  "AccessPolicy \<Rightarrow> string \<Rightarrow> RootId \<Rightarrow> RelativePath \<Rightarrow> Access \<Rightarrow> unit td_result" where
  "AccessPolicy_check p username root path action =
     and_then (validate_relative_path path) (\<lambda>path.
       if \<exists>c \<in> set (split_on slash path). hidden_component p c then Inl TealDriveError.NotFound
       else check_rules root path action (policy_rules p username) False)"

section \<open>A declarative reading\<close>

definition rule_applies :: "RootId \<Rightarrow> Rule \<Rightarrow> bool" where
  "rule_applies root r \<longleftrightarrow> rule_root_id r = None \<or> rule_root_id r = Some root"

definition below :: "RelativePath \<Rightarrow> RelativePath \<Rightarrow> bool" where
  "below base path \<longleftrightarrow> base = [] \<or> prefix (base @ ''/'') path"

definition rule_hides :: "RootId \<Rightarrow> RelativePath \<Rightarrow> Rule \<Rightarrow> bool" where
  "rule_hides root path r \<longleftrightarrow>
     rule_applies root r \<and> (path = rule_path r \<or> below (rule_path r) path) \<and> Discover \<in> set (rule_deny r)"

definition rule_denies :: "RootId \<Rightarrow> RelativePath \<Rightarrow> Access \<Rightarrow> Rule \<Rightarrow> bool" where
  "rule_denies root path action r \<longleftrightarrow>
     rule_applies root r \<and> (path = rule_path r \<or> rule_recursive r \<and> below (rule_path r) path)
     \<and> action \<in> set (rule_deny r)"

lemma rule_skipped:
  "(case rule_root_id r of None \<Rightarrow> False | Some i \<Rightarrow> i \<noteq> root) \<longleftrightarrow> \<not> rule_applies root r"
  by (auto simp: rule_applies_def split: option.splits)

lemma check_rules_eq:
  "check_rules root path action rs denied =
     (if \<exists>r \<in> set rs. rule_hides root path r then Inl TealDriveError.NotFound
      else if denied \<or> (\<exists>r \<in> set rs. rule_denies root path action r)
      then Inl TealDriveError.PolicyDenied else Inr ())"
proof (induction rs arbitrary: denied)
  case Nil
  then show ?case by simp
next
  case (Cons r rs)
  have step: "check_rules root path action (r # rs) denied =
      (if \<not> rule_applies root r then check_rules root path action rs denied
       else if rule_hides root path r then Inl TealDriveError.NotFound
       else check_rules root path action rs (denied \<or> rule_denies root path action r))"
    by (simp only: check_rules.simps rule_skipped Let_def below_def [symmetric])
      (auto simp: rule_hides_def rule_denies_def intro: arg_cong [where f = "check_rules root path action rs"])
  have skip: "\<not> rule_applies root r \<Longrightarrow> \<not> rule_hides root path r \<and> \<not> rule_denies root path action r"
    by (simp add: rule_hides_def rule_denies_def)
  show ?case
    using skip by (simp only: step Cons.IH) auto
qed

lemma AccessPolicy_check_eq:
  "AccessPolicy_check p u root path action =
     and_then (validate_relative_path path) (\<lambda>path.
       if (\<exists>c \<in> set (split_on slash path). hidden_component p c)
          \<or> (\<exists>r \<in> set (policy_rules p u). rule_hides root path r)
       then Inl TealDriveError.NotFound
       else if \<exists>r \<in> set (policy_rules p u). rule_denies root path action r
       then Inl TealDriveError.PolicyDenied else Inr ())"
  by (cases "validate_relative_path path") (simp_all add: AccessPolicy_check_def check_rules_eq)

section \<open>Merged policies\<close>

lemma map_of_btree_insert: "map_of (btree_insert k v m) = (map_of m)(k \<mapsto> v)"
  by (induction k v m rule: btree_insert.induct) auto

lemma set_user_rules_extend:
  "set (user_rules (extend_user a b)) = set (user_rules a) \<union> set (user_rules b)"
  by (auto simp: user_rules_def extend_user_def)

definition rules_for :: "(string \<times> UserRules) list \<Rightarrow> string \<Rightarrow> Rule set" where
  "rules_for users u = (case map_of users u of None \<Rightarrow> {} | Some r \<Rightarrow> set (user_rules r))"

lemma user_rules_default [simp]: "user_rules UserRules_default = []"
  by (simp add: user_rules_def UserRules_default_def)

lemma rules_for_extend_users:
  "distinct (map fst ceiling) \<Longrightarrow>
     rules_for (extend_users users ceiling) u = rules_for users u \<union> rules_for ceiling u"
proof (induction users ceiling rule: extend_users.induct)
  case (1 users)
  then show ?case by (simp add: rules_for_def)
next
  case (2 users name rules ceiling)
  define current where "current = (case map_of users name of None \<Rightarrow> UserRules_default | Some u \<Rightarrow> u)"
  have cur: "set (user_rules current) = rules_for users name"
    by (simp add: current_def rules_for_def split: option.splits)
  have "rules_for (extend_users users ((name, rules) # ceiling)) u =
      rules_for (btree_insert name (extend_user current rules) users) u \<union> rules_for ceiling u"
    using 2 by (simp add: current_def Let_def)
  also have "\<dots> = rules_for users u \<union> rules_for ((name, rules) # ceiling) u"
  proof (cases "u = name")
    case True
    moreover have "map_of ceiling name = None" using 2(2) by (simp add: map_of_eq_None_iff)
    ultimately show ?thesis
      using cur by (simp add: rules_for_def map_of_btree_insert set_user_rules_extend)
  next
    case False
    then show ?thesis by (simp add: rules_for_def map_of_btree_insert)
  qed
  finally show ?case .
qed

lemma set_policy_rules: "set (policy_rules p u) = set (ap_root_rules p) \<union> rules_for (ap_users p) u"
  by (simp add: policy_rules_def rules_for_def split: option.splits)

lemma set_policy_rules_extend:
  "distinct (map fst (ap_users c)) \<Longrightarrow>
     set (policy_rules (extend_ceiling p c) u) = set (policy_rules p u) \<union> set (policy_rules c u)"
  by (auto simp: set_policy_rules extend_ceiling_def rules_for_extend_users)

lemma hidden_component_extend:
  "hidden_component (extend_ceiling p c) x \<longleftrightarrow> hidden_component p x \<or> hidden_component c x"
  by (auto simp: hidden_component_def extend_ceiling_def)

lemma extend_ceiling_check_ok:
  assumes "distinct (map fst (ap_users c))"
  shows "AccessPolicy_check (extend_ceiling p c) u root path action = Inr () \<longleftrightarrow>
     AccessPolicy_check p u root path action = Inr () \<and> AccessPolicy_check c u root path action = Inr ()"
  unfolding AccessPolicy_check_eq result_simps
  by (auto simp: set_policy_rules_extend [OF assms] hidden_component_extend split: if_splits)

section \<open>Properties\<close>

text \<open>C17: a policy merged with a ceiling by \<open>extend_ceiling\<close> allows an access exactly when the
  policy and the ceiling both allow it, for every user, root, path and action. Merging can only
  restrict, and drops no rule of either side.\<close>

theorem extend_ceiling_intersection:
  assumes "distinct (map fst (ap_users ceiling))"
  shows "AccessPolicy_check (extend_ceiling pol ceiling) user root path action = Inr () \<longleftrightarrow>
     AccessPolicy_check pol user root path action = Inr ()
     \<and> AccessPolicy_check ceiling user root path action = Inr ()"
  using assms by (rule extend_ceiling_check_ok)

definition example_rule :: "RelativePath \<Rightarrow> Access list \<Rightarrow> Rule" where
  "example_rule p ds = \<lparr>rule_path = p, rule_root_id = None, rule_recursive = True, rule_deny = ds\<rparr>"

theorem extend_ceiling_intersection_witness:
  "let pol = AccessPolicy_default\<lparr>ap_root_rules := [example_rule ''a'' [Write]]\<rparr>;
       ceiling = AccessPolicy_default\<lparr>ap_users :=
         [(''eve'', UserRules_default\<lparr>ur_admin_rules := [example_rule ''b'' [Read]]\<rparr>)]\<rparr>
   in AccessPolicy_check (extend_ceiling pol ceiling) ''eve'' ''r'' ''a/x'' Read = Inr ()
      \<and> AccessPolicy_check (extend_ceiling pol ceiling) ''eve'' ''r'' ''b/x'' Read \<noteq> Inr ()
      \<and> AccessPolicy_check (extend_ceiling pol ceiling) ''eve'' ''r'' ''a/x'' Write \<noteq> Inr ()"
  unfolding Let_def
  by (subst (1 2 3) extend_ceiling_intersection)
    (simp_all add: AccessPolicy_check_def validate_relative_path_eq name_parts_def
      AccessPolicy_default_def UserRules_default_def example_rule_def hidden_component_def
      policy_rules_def user_rules_def)

text \<open>what is hidden stays hidden below. If the check reports a path as not found, because a
  component of it is reserved or because a rule hides it or one of its ancestors, then every access
  of every kind to every path below it is reported as not found as well: naming a child directly
  does not get around an undiscoverable ancestor.\<close>

theorem hidden_subtree:
  assumes "AccessPolicy_check pol user root parent a = Inl TealDriveError.NotFound"
    and "validate_relative_path parent = Inr parent"
    and "validate_relative_path child = Inr child"
    and "below parent child"
    and "AccessPolicy_validate pol = Inr ()"
  shows "AccessPolicy_check pol user root child b = Inl TealDriveError.NotFound"
proof (cases "parent = []")
  case True
  have "\<not> hidden_component pol []"
    using assms(5) by (auto simp: AccessPolicy_validate_def bad_component_name_def
        hidden_component_def split: if_splits)
  moreover have "rule_hides root [] r \<Longrightarrow> rule_hides root child r" for r
    by (auto simp: rule_hides_def below_def)
  ultimately show ?thesis
    using assms(1-3) True by (auto simp: AccessPolicy_check_eq split: if_splits)
next
  case False
  then obtain rest where child: "child = parent @ slash # rest"
    using assms(4) by (auto simp: below_def prefix_def)
  have sub: "set (split_on slash parent) \<subseteq> set (split_on slash child)"
    by (simp add: child split_on_append)
  have hides: "rule_hides root parent r \<Longrightarrow> rule_hides root child r" for r
    by (auto simp: rule_hides_def below_def child prefix_def)
  show ?thesis
    using assms(1-3) sub by (auto simp: AccessPolicy_check_eq split: if_splits dest: hides)
qed

theorem hidden_subtree_witness:
  "AccessPolicy_check
     (AccessPolicy_default\<lparr>ap_root_rules := [example_rule ''secret'' [Discover]]\<rparr>)
     ''eve'' ''home'' ''secret/plans/x.txt'' Read = Inl TealDriveError.NotFound"
  by (rule hidden_subtree [where parent = "''secret''" and a = Discover])
    (simp_all add: AccessPolicy_check_def validate_relative_path_eq name_parts_def below_def
      AccessPolicy_default_def example_rule_def hidden_component_def policy_rules_def
      AccessPolicy_validate_def bad_component_name_def)

end
