(* ===== verification/TD_Net.thy ===== *)
theory TD_Net
  imports TD_Strings
begin

text \<open>
  Textual network addresses as \<open>std::net\<close> parses them, and the trusted-proxy resolution of
  \<open>src/client_ip.rs\<close>. Forwarded addresses count only when the TCP peer is a trusted proxy, and
  then only up to the first hop that is not trusted; the lemmas state exactly that.

  \<open>HeaderValue::to_str\<close> belongs to the \<open>http\<close> crate and is the parameter \<open>to_str\<close>; the
  header map is the function from names to the list of values.
\<close>

unbundle bit_operations_syntax

section \<open>Parsing (\<open>std::net\<close>)\<close>

datatype IpAddr = V4 u32 | V6 "128 word"

fun digit_value :: "char \<Rightarrow> nat" where
  "digit_value c =
     (let n = (of_char c :: nat) in
      if 48 \<le> n \<and> n \<le> 57 then n - 48
      else if 97 \<le> n \<and> n \<le> 122 then n - 87
      else if 65 \<le> n \<and> n \<le> 90 then n - 55
      else 36)"

definition is_digit :: "nat \<Rightarrow> char \<Rightarrow> bool" where
  "is_digit radix c \<longleftrightarrow> digit_value c < radix"

definition number_of :: "nat \<Rightarrow> string \<Rightarrow> nat" where
  "number_of radix ds = foldl (\<lambda>a c. a * radix + digit_value c) 0 ds"

text \<open>\<open>Parser::read_number\<close>: all leading digits, at most \<open>max_digits\<close> of them, with no leading
  zero unless allowed, and a value that fits the target type.\<close>

definition read_number ::
  "nat \<Rightarrow> nat option \<Rightarrow> bool \<Rightarrow> nat \<Rightarrow> string \<Rightarrow> (nat \<times> string) option" where
  "read_number radix max_digits allow_zero_prefix max_value s =
     (let ds = takeWhile (is_digit radix) s in
      if (case max_digits of None \<Rightarrow> False | Some m \<Rightarrow> length ds > m) \<or> ds = []
         \<or> (\<not> allow_zero_prefix \<and> hd ds = CHR ''0'' \<and> length ds > 1)
         \<or> number_of radix ds > max_value
      then None else Some (number_of radix ds, drop (length ds) s))"

definition read_given_char :: "char \<Rightarrow> string \<Rightarrow> string option" where
  "read_given_char c s = (case s of [] \<Rightarrow> None | x # xs \<Rightarrow> if x = c then Some xs else None)"

definition read_separator ::
  "char \<Rightarrow> nat \<Rightarrow> (string \<Rightarrow> ('a \<times> string) option) \<Rightarrow> string \<Rightarrow> ('a \<times> string) option" where
  "read_separator sep i inner s =
     (if i > 0 then (case read_given_char sep s of None \<Rightarrow> None | Some r \<Rightarrow> inner r) else inner s)"

fun read_ipv4_groups :: "nat \<Rightarrow> nat \<Rightarrow> nat \<Rightarrow> string \<Rightarrow> (nat \<times> string) option" where
  "read_ipv4_groups 0 i acc s = Some (acc, s)"
| "read_ipv4_groups (Suc n) i acc s =
     (case read_separator (CHR ''.'') i (read_number 10 (Some 3) False 255) s of
        None \<Rightarrow> None
      | Some (g, r) \<Rightarrow> read_ipv4_groups n (Suc i) (acc * 256 + g) r)"

definition read_ipv4_addr :: "string \<Rightarrow> (nat \<times> string) option" where
  "read_ipv4_addr s = read_ipv4_groups 4 0 0 s"

text \<open>\<open>read_groups\<close> of the IPv6 parser: at most \<open>limit\<close> groups, the last two of which may be an
  embedded IPv4 address. Returns the groups read, whether an IPv4 address ended them, and the rest.\<close>

fun read_groups :: "nat \<Rightarrow> nat \<Rightarrow> nat list \<Rightarrow> string \<Rightarrow> nat list \<times> bool \<times> string" where
  "read_groups 0 i acc s = (acc, False, s)"
| "read_groups (Suc n) i acc s =
     (case (if n > 0 then read_separator (CHR '':'') i read_ipv4_addr s else None) of
        Some (v, r) \<Rightarrow> (acc @ [v div 65536, v mod 65536], True, r)
      | None \<Rightarrow>
          (case read_separator (CHR '':'') i (read_number 16 (Some 4) True 65535) s of
             Some (g, r) \<Rightarrow> read_groups n (Suc i) (acc @ [g]) r
           | None \<Rightarrow> (acc, False, s)))"

definition read_ipv6_addr :: "string \<Rightarrow> (nat list \<times> string) option" where
  "read_ipv6_addr s =
     (case read_groups 8 0 [] s of
        (hs, h4, r) \<Rightarrow>
          if length hs = 8 then Some (hs, r)
          else if h4 then None
          else
            (case Option.bind (read_given_char (CHR '':'') r) (read_given_char (CHR '':'')) of
               None \<Rightarrow> None
             | Some r2 \<Rightarrow>
                 (case read_groups (8 - (length hs + 1)) 0 [] r2 of
                    (ts, _, r3) \<Rightarrow> Some (hs @ replicate (8 - length hs - length ts) 0 @ ts, r3))))"

definition v6_of :: "nat list \<Rightarrow> 128 word" where
  "v6_of gs = word_of_nat (foldl (\<lambda>a g. a * 65536 + g) 0 gs)"

definition read_ip_addr :: "string \<Rightarrow> (IpAddr \<times> string) option" where
  "read_ip_addr s =
     (case read_ipv4_addr s of
        Some (v, r) \<Rightarrow> Some (V4 (word_of_nat v), r)
      | None \<Rightarrow> map_option (\<lambda>(gs, r). (V6 (v6_of gs), r)) (read_ipv6_addr s))"

text \<open>\<open>IpAddr::from_str\<close>: the whole input must be consumed.\<close>

definition parse_ip :: "string \<Rightarrow> IpAddr option" where
  "parse_ip s = (case read_ip_addr s of Some (a, []) \<Rightarrow> Some a | _ \<Rightarrow> None)"

definition read_port :: "string \<Rightarrow> (nat \<times> string) option" where
  "read_port s = Option.bind (read_given_char (CHR '':'') s) (read_number 10 None True 65535)"

definition read_scope_id :: "string \<Rightarrow> (nat \<times> string) option" where
  "read_scope_id s = Option.bind (read_given_char (CHR ''%'') s) (read_number 10 None True (2 ^ 32 - 1))"

text \<open>\<open>SocketAddr::from_str\<close>, of which the sources only use the address part.\<close>

definition parse_socket_ip :: "string \<Rightarrow> IpAddr option" where
  "parse_socket_ip s =
     (case Option.bind (read_ipv4_addr s) (\<lambda>(v, r). map_option (\<lambda>(_, r). (V4 (word_of_nat v), r)) (read_port r)) of
        Some (a, r) \<Rightarrow> if r = [] then Some a else None
      | None \<Rightarrow>
          (case Option.bind (read_given_char (CHR ''['') s) (\<lambda>s.
              Option.bind (read_ipv6_addr s) (\<lambda>(gs, r).
                let r = (case read_scope_id r of None \<Rightarrow> r | Some (_, r) \<Rightarrow> r)
                in Option.bind (read_given_char (CHR '']'') r) (\<lambda>r.
                   map_option (\<lambda>(_, r). (V6 (v6_of gs), r)) (read_port r)))) of
             Some (a, r) \<Rightarrow> if r = [] then Some a else None
           | None \<Rightarrow> None))"

definition is_loopback :: "IpAddr \<Rightarrow> bool" where
  "is_loopback a = (case a of V4 w \<Rightarrow> drop_bit 24 w = 127 | V6 w \<Rightarrow> w = 1)"

text \<open>\<open>u8::from_str\<close>: an optional sign, then at least one digit.\<close>

definition parse_u8 :: "string \<Rightarrow> nat option" where
  "parse_u8 s =
     (let ds = (case s of c # cs \<Rightarrow> if c = CHR ''+'' then cs else s | [] \<Rightarrow> s) in
      if ds = [] \<or> \<not> list_all (is_digit 10) ds \<or> number_of 10 ds > 255 then None
      else Some (number_of 10 ds))"

definition is_ascii_space :: "char \<Rightarrow> bool" where
  "is_ascii_space c \<longleftrightarrow> (let n = (of_char c :: nat) in (9 \<le> n \<and> n \<le> 13) \<or> n = 32)"

definition trim :: "string \<Rightarrow> string" where
  "trim s = rev (dropWhile is_ascii_space (rev (dropWhile is_ascii_space s)))"

section \<open>Trusted proxies (\<open>client_ip.rs\<close>)\<close>

datatype ClientIpHeader = XForwardedFor | XRealIp | CfConnectingIp

record ProxyConfig =
  px_trusted_proxies :: "string list"
  px_client_ip_header :: ClientIpHeader

definition ProxyConfig_default :: ProxyConfig where
  "ProxyConfig_default = \<lparr>px_trusted_proxies = [], px_client_ip_header = XForwardedFor\<rparr>"

definition network :: "string \<Rightarrow> (IpAddr \<times> nat) option" where
  "network value =
     Option.bind
       (case split_once slash value of
          Some (address, plen) \<Rightarrow>
            Option.bind (parse_ip address) (\<lambda>a. map_option (\<lambda>p. (a, Some p)) (parse_u8 plen))
        | None \<Rightarrow> map_option (\<lambda>a. (a, None)) (parse_ip value))
       (\<lambda>(address, plen).
          let width = (case address of V4 _ \<Rightarrow> 32 | V6 _ \<Rightarrow> 128);
              plen = (case plen of None \<Rightarrow> width | Some p \<Rightarrow> p)
          in if plen \<le> width then Some (address, plen) else None)"

text \<open>\<open>MAX.checked_shl(width - plen).unwrap_or(0)\<close>, and \<open>Ipv6Addr::to_ipv4_mapped\<close>.\<close>

definition net_mask :: "nat \<Rightarrow> 'w::len word" where
  "net_mask plen =
     (if LENGTH('w) - plen < LENGTH('w) then push_bit (LENGTH('w) - plen) (- 1) else 0)"

definition to_ipv4_mapped :: "128 word \<Rightarrow> u32 option" where
  "to_ipv4_mapped w = (if drop_bit 32 w = 0xFFFF then Some (ucast w) else None)"

definition contains :: "IpAddr \<Rightarrow> nat \<Rightarrow> IpAddr \<Rightarrow> bool" where
  "contains base plen address =
     (let address = (case address of
          V6 v \<Rightarrow> (case to_ipv4_mapped v of Some m \<Rightarrow> V4 m | None \<Rightarrow> address)
        | V4 _ \<Rightarrow> address)
      in case (base, address) of
           (V4 b, V4 a) \<Rightarrow> b AND net_mask plen = a AND net_mask plen
         | (V6 b, V6 a) \<Rightarrow> b AND net_mask plen = a AND net_mask plen
         | _ \<Rightarrow> False)"

definition ProxyConfig_validate :: "ProxyConfig \<Rightarrow> bool" where
  "ProxyConfig_validate c \<longleftrightarrow>
     length (px_trusted_proxies c) \<le> 128 \<and> list_all (\<lambda>v. network v \<noteq> None) (px_trusted_proxies c)"

definition trusts :: "ProxyConfig \<Rightarrow> IpAddr \<Rightarrow> bool" where
  "trusts c address \<longleftrightarrow>
     list_ex (\<lambda>v. case network v of None \<Rightarrow> False | Some (base, plen) \<Rightarrow> contains base plen address)
       (px_trusted_proxies c)"

definition header_name :: "ClientIpHeader \<Rightarrow> string" where
  "header_name h = (case h of XForwardedFor \<Rightarrow> ''x-forwarded-for'' | XRealIp \<Rightarrow> ''x-real-ip''
     | CfConnectingIp \<Rightarrow> ''cf-connecting-ip'')"

text \<open>The two nested loops that collect the forwarding chain; \<open>None\<close> is the early return of the
  peer address.\<close>

fun chain_parts :: "string list \<Rightarrow> IpAddr list \<Rightarrow> IpAddr list option" where
  "chain_parts [] chain = Some chain"
| "chain_parts (part # parts) chain =
     (case parse_ip (trim part) of
        None \<Rightarrow> None
      | Some a \<Rightarrow> if length (chain @ [a]) > 32 then None else chain_parts parts (chain @ [a]))"

fun chain_values :: "(string \<Rightarrow> string option) \<Rightarrow> string list \<Rightarrow> IpAddr list \<Rightarrow> IpAddr list option" where
  "chain_values to_str [] chain = Some chain"
| "chain_values to_str (v # vs) chain =
     (case to_str v of
        None \<Rightarrow> None
      | Some s \<Rightarrow> Option.bind (chain_parts (split_on (CHR '','') s) chain) (chain_values to_str vs))"

definition resolve ::
  "(string \<Rightarrow> string option) \<Rightarrow> ProxyConfig \<Rightarrow> IpAddr option \<Rightarrow> (string \<Rightarrow> string list) \<Rightarrow> IpAddr option" where
  "resolve to_str c peer headers =
     (case peer of None \<Rightarrow> None | Some peer \<Rightarrow>
      if \<not> trusts c peer then Some peer
      else
        let values = headers (header_name (px_client_ip_header c)) in
        if values = [] \<or> sum_list (map length values) > 8192 then Some peer
        else if px_client_ip_header c \<noteq> XForwardedFor
        then (if length values \<noteq> 1 then Some peer
              else (case Option.bind (to_str (values ! 0)) (\<lambda>v. parse_ip (trim v)) of
                      Some a \<Rightarrow> Some a | None \<Rightarrow> Some peer))
        else (case chain_values to_str values [] of
                None \<Rightarrow> Some peer
              | Some chain \<Rightarrow>
                  (case find (\<lambda>a. \<not> trusts c a) (rev chain) of
                     Some a \<Rightarrow> Some a
                   | None \<Rightarrow> (case chain of a # _ \<Rightarrow> Some a | [] \<Rightarrow> Some peer))))"

section \<open>Resolution\<close>

lemma find_rev_split:
  "find P (rev xs) = Some x \<Longrightarrow> \<exists>ys zs. xs = ys @ x # zs \<and> P x \<and> (\<forall>z \<in> set zs. \<not> P z)"
proof (induction xs rule: rev_induct)
  case Nil
  then show ?case by simp
next
  case (snoc a xs)
  show ?case
  proof (cases "P a")
    case True
    with snoc.prems have "xs @ [a] = xs @ x # [] \<and> P x" by simp
    then show ?thesis by fastforce
  next
    case False
    then obtain ys zs where "xs = ys @ x # zs" "P x" "\<forall>z \<in> set zs. \<not> P z"
      using snoc by auto
    with False have "xs @ [a] = ys @ x # (zs @ [a]) \<and> P x \<and> (\<forall>z \<in> set (zs @ [a]). \<not> P z)"
      by simp
    then show ?thesis by blast
  qed
qed

lemma chain_parts_length: "chain_parts ps c = Some c' \<Longrightarrow> length c \<le> 32 \<Longrightarrow> length c' \<le> 32"
  by (induction ps c rule: chain_parts.induct) (auto split: option.splits if_splits)

lemma chain_values_length: "chain_values t vs c = Some c' \<Longrightarrow> length c \<le> 32 \<Longrightarrow> length c' \<le> 32"
  by (induction t vs c rule: chain_values.induct)
    (auto split: option.splits bind_splits dest: chain_parts_length)

text \<open>Unfolding rules that evaluate the parsers and the check on concrete text.\<close>

lemma read_ipv4_addr_Suc: "read_ipv4_addr s = read_ipv4_groups (Suc (Suc (Suc (Suc 0)))) 0 0 s"
  by (simp add: read_ipv4_addr_def numeral_eq_Suc)

lemmas net_eval =
  trusts_def network_def contains_def net_mask_def parse_ip_def read_ip_addr_def
  read_ipv4_addr_Suc read_separator_def read_number_def read_given_char_def
  number_of_def is_digit_def parse_u8_def split_once_def trim_def is_ascii_space_def
  mask_eq_exp_minus_1

section \<open>Properties\<close>

text \<open>a peer that is not a configured proxy is taken at its TCP address, whatever forwarding
  headers it sends.\<close>

theorem untrusted_peer_not_forwarded:
  assumes "\<not> trusts c peer"
  shows "resolve to_str c (Some peer) headers = Some peer"
  using assms by (simp add: resolve_def)

theorem untrusted_peer_not_forwarded_witness:
  "resolve Some (ProxyConfig_default\<lparr>px_trusted_proxies := [''10.0.0.0/8'']\<rparr>)
     (Some (V4 0xC0A80001)) (\<lambda>_. [''1.2.3.4'']) = Some (V4 0xC0A80001)"
  by (rule untrusted_peer_not_forwarded) (simp add: net_eval ProxyConfig_default_def)

text \<open>C35: behind trusted proxies the address taken from \<open>X-Forwarded-For\<close> is the last hop that is
  not itself trusted: every later hop of the chain is a trusted proxy, so a value the client puts
  at the left of the chain is never chosen over the address a proxy recorded.\<close>

theorem forwarded_is_last_untrusted_hop:
  assumes "px_client_ip_header c = XForwardedFor"
    and "chain_values to_str (headers ''x-forwarded-for'') [] = Some chain"
    and "resolve to_str c (Some peer) headers = Some a"
    and "\<not> trusts c a" and "a \<noteq> peer"
  shows "\<exists>before after. chain = before @ a # after \<and> (\<forall>hop \<in> set after. trusts c hop)"
proof -
  have "find (\<lambda>a. \<not> trusts c a) (rev chain) = Some a"
    using assms
    by (auto simp: resolve_def header_name_def Let_def find_None_iff split: if_splits option.splits list.splits)
  from find_rev_split [OF this] show ?thesis by auto
qed

theorem forwarded_is_last_untrusted_hop_witness:
  "\<exists>before after. [V4 0x01010101, V4 0x08080808, V4 0x0A000002] = before @ V4 0x08080808 # after
     \<and> (\<forall>hop \<in> set after.
          trusts (ProxyConfig_default\<lparr>px_trusted_proxies := [''10.0.0.0/8'']\<rparr>) hop)"
  by (rule forwarded_is_last_untrusted_hop [where to_str = Some and peer = "V4 0x0A000001"
        and headers = "\<lambda>_. [''1.1.1.1, 8.8.8.8'', ''10.0.0.2'']"])
    (simp_all add: net_eval ProxyConfig_default_def resolve_def header_name_def)

end
