(* ===== verification/TD_Wire.thy ===== *)
theory TD_Wire
  imports TD_Errors
begin

text \<open>
  The TDRV binary wire format of \<open>src/protocol\<close>: flags, message types, compression and encoding
  tags, the 32-byte frame header, frames and raw transfer chunks. Integers have the width they
  have on the wire. The lemmas show that the decoders are total, accept exactly the canonical
  encodings, and invert the encoders.
\<close>

unbundle bit_operations_syntax

section \<open>Flags (\<open>flags.rs\<close>)\<close>

definition FLAG_ERROR :: u16 where "FLAG_ERROR = 0x0001"
definition FLAG_STREAM :: u16 where "FLAG_STREAM = 0x0002"
definition FLAG_FINAL :: u16 where "FLAG_FINAL = 0x0004"
definition FLAG_ACK_REQUIRED :: u16 where "FLAG_ACK_REQUIRED = 0x0008"
definition FLAG_COMPRESSED :: u16 where "FLAG_COMPRESSED = 0x0010"
definition KNOWN_FLAGS_MASK :: u16 where
  "KNOWN_FLAGS_MASK = FLAG_ERROR OR FLAG_STREAM OR FLAG_FINAL OR FLAG_ACK_REQUIRED OR FLAG_COMPRESSED"

lemmas flag_defs =
  FLAG_ERROR_def FLAG_STREAM_def FLAG_FINAL_def FLAG_ACK_REQUIRED_def FLAG_COMPRESSED_def
  KNOWN_FLAGS_MASK_def

record TdrvFlags =
  fl_error :: bool
  fl_stream :: bool
  fl_final_frame :: bool
  fl_ack_required :: bool
  fl_compressed :: bool

definition flags_empty :: TdrvFlags where
  "flags_empty = \<lparr>fl_error = False, fl_stream = False, fl_final_frame = False,
     fl_ack_required = False, fl_compressed = False\<rparr>"

definition flags_compressed :: TdrvFlags where
  "flags_compressed = flags_empty\<lparr>fl_compressed := True\<rparr>"

definition flags_bits :: "TdrvFlags \<Rightarrow> u16" where
  "flags_bits f =
     (let b = 0;
          b = (if fl_error f then b OR FLAG_ERROR else b);
          b = (if fl_stream f then b OR FLAG_STREAM else b);
          b = (if fl_final_frame f then b OR FLAG_FINAL else b);
          b = (if fl_ack_required f then b OR FLAG_ACK_REQUIRED else b);
          b = (if fl_compressed f then b OR FLAG_COMPRESSED else b)
      in b)"

definition flags_from_bits :: "u16 \<Rightarrow> TdrvFlags td_result" where
  "flags_from_bits b =
     (if b AND NOT KNOWN_FLAGS_MASK \<noteq> 0 then Inl TealDriveError.InvalidFlags
      else Inr \<lparr>fl_error = (b AND FLAG_ERROR \<noteq> 0), fl_stream = (b AND FLAG_STREAM \<noteq> 0),
                fl_final_frame = (b AND FLAG_FINAL \<noteq> 0),
                fl_ack_required = (b AND FLAG_ACK_REQUIRED \<noteq> 0),
                fl_compressed = (b AND FLAG_COMPRESSED \<noteq> 0)\<rparr>)"

section \<open>Message types (\<open>direction.rs\<close>, \<open>message_type.rs\<close>)\<close>

datatype MessageTypeDirection = ClientToServer | ServerToClient | Both

datatype (plugins only: code size) MessageType =
    ServerHello | ClientHello | ProtocolReady | ConnectionStatus | Error | AuthLogin
  | AuthResult | ListDirectory | DirectoryList | FileMetadata | ReadTextFile | TextFileContent
  | SaveTextFile | FileMetadataRequest | SearchFiles | SearchResults | ListTrash | TrashList
  | UploadBegin | UploadChunk | UploadEnd | UploadAbort | UploadResume | DownloadBegin
  | DownloadChunk | DownloadEnd | CreateFolder | RenameFile | MoveFile | CopyFile | MoveToTrash
  | RestoreFromTrash | DeletePermanently | ChmodFile | CompressZip | CompressTarGz
  | ExtractArchive | OperationStarted | OperationProgress | OperationDone | OperationFailed
  | PermissionDenied | PolicyDenied | ValidationError

text \<open>The enum discriminants: \<open>u16::from(MessageType)\<close>.\<close>

fun message_type_code :: "MessageType \<Rightarrow> u16" where
  "message_type_code MessageType.ServerHello = 0x0001"
| "message_type_code MessageType.ClientHello = 0x0002"
| "message_type_code MessageType.ProtocolReady = 0x0003"
| "message_type_code MessageType.ConnectionStatus = 0x0004"
| "message_type_code MessageType.Error = 0x0005"
| "message_type_code MessageType.AuthLogin = 0x0010"
| "message_type_code MessageType.AuthResult = 0x0011"
| "message_type_code MessageType.ListDirectory = 0x0100"
| "message_type_code MessageType.DirectoryList = 0x0101"
| "message_type_code MessageType.FileMetadata = 0x0102"
| "message_type_code MessageType.ReadTextFile = 0x0103"
| "message_type_code MessageType.TextFileContent = 0x0104"
| "message_type_code MessageType.SaveTextFile = 0x0105"
| "message_type_code MessageType.FileMetadataRequest = 0x0106"
| "message_type_code MessageType.SearchFiles = 0x0107"
| "message_type_code MessageType.SearchResults = 0x0108"
| "message_type_code MessageType.ListTrash = 0x0109"
| "message_type_code MessageType.TrashList = 0x010A"
| "message_type_code MessageType.UploadBegin = 0x0200"
| "message_type_code MessageType.UploadChunk = 0x0201"
| "message_type_code MessageType.UploadEnd = 0x0202"
| "message_type_code MessageType.UploadAbort = 0x0203"
| "message_type_code MessageType.UploadResume = 0x0204"
| "message_type_code MessageType.DownloadBegin = 0x0210"
| "message_type_code MessageType.DownloadChunk = 0x0211"
| "message_type_code MessageType.DownloadEnd = 0x0212"
| "message_type_code MessageType.CreateFolder = 0x0300"
| "message_type_code MessageType.RenameFile = 0x0301"
| "message_type_code MessageType.MoveFile = 0x0302"
| "message_type_code MessageType.CopyFile = 0x0303"
| "message_type_code MessageType.MoveToTrash = 0x0304"
| "message_type_code MessageType.RestoreFromTrash = 0x0305"
| "message_type_code MessageType.DeletePermanently = 0x0306"
| "message_type_code MessageType.ChmodFile = 0x0307"
| "message_type_code MessageType.CompressZip = 0x0310"
| "message_type_code MessageType.CompressTarGz = 0x0311"
| "message_type_code MessageType.ExtractArchive = 0x0312"
| "message_type_code MessageType.OperationStarted = 0x0400"
| "message_type_code MessageType.OperationProgress = 0x0401"
| "message_type_code MessageType.OperationDone = 0x0402"
| "message_type_code MessageType.OperationFailed = 0x0403"
| "message_type_code MessageType.PermissionDenied = 0x0404"
| "message_type_code MessageType.PolicyDenied = 0x0405"
| "message_type_code MessageType.ValidationError = 0x0406"

text \<open>The arms of \<open>TryFrom<u16>\<close>, in order.\<close>

definition message_type_arms :: "(u16 \<times> MessageType) list" where
  "message_type_arms =
     [(0x0001, MessageType.ServerHello), (0x0002, MessageType.ClientHello),
      (0x0003, MessageType.ProtocolReady), (0x0004, MessageType.ConnectionStatus),
      (0x0005, MessageType.Error), (0x0010, MessageType.AuthLogin),
      (0x0011, MessageType.AuthResult), (0x0100, MessageType.ListDirectory),
      (0x0101, MessageType.DirectoryList), (0x0102, MessageType.FileMetadata),
      (0x0103, MessageType.ReadTextFile), (0x0104, MessageType.TextFileContent),
      (0x0105, MessageType.SaveTextFile), (0x0106, MessageType.FileMetadataRequest),
      (0x0107, MessageType.SearchFiles), (0x0108, MessageType.SearchResults),
      (0x0109, MessageType.ListTrash), (0x010A, MessageType.TrashList),
      (0x0200, MessageType.UploadBegin), (0x0201, MessageType.UploadChunk),
      (0x0202, MessageType.UploadEnd), (0x0203, MessageType.UploadAbort),
      (0x0204, MessageType.UploadResume), (0x0210, MessageType.DownloadBegin),
      (0x0211, MessageType.DownloadChunk), (0x0212, MessageType.DownloadEnd),
      (0x0300, MessageType.CreateFolder), (0x0301, MessageType.RenameFile),
      (0x0302, MessageType.MoveFile), (0x0303, MessageType.CopyFile),
      (0x0304, MessageType.MoveToTrash), (0x0305, MessageType.RestoreFromTrash),
      (0x0306, MessageType.DeletePermanently), (0x0307, MessageType.ChmodFile),
      (0x0310, MessageType.CompressZip), (0x0311, MessageType.CompressTarGz),
      (0x0312, MessageType.ExtractArchive), (0x0400, MessageType.OperationStarted),
      (0x0401, MessageType.OperationProgress), (0x0402, MessageType.OperationDone),
      (0x0403, MessageType.OperationFailed), (0x0404, MessageType.PermissionDenied),
      (0x0405, MessageType.PolicyDenied), (0x0406, MessageType.ValidationError)]"

definition message_type_try_from :: "u16 \<Rightarrow> MessageType td_result" where
  "message_type_try_from v = ok_or (map_of message_type_arms v) TealDriveError.UnknownMessageType"

definition direction :: "MessageType \<Rightarrow> MessageTypeDirection" where
  "direction m =
     (if m \<in> {MessageType.AuthLogin, MessageType.ClientHello, MessageType.ListDirectory,
          MessageType.FileMetadataRequest, MessageType.ReadTextFile, MessageType.SaveTextFile,
          MessageType.SearchFiles, MessageType.ListTrash, MessageType.UploadBegin,
          MessageType.UploadChunk, MessageType.UploadEnd, MessageType.UploadAbort,
          MessageType.UploadResume, MessageType.DownloadBegin, MessageType.CreateFolder,
          MessageType.RenameFile, MessageType.MoveFile, MessageType.CopyFile,
          MessageType.MoveToTrash, MessageType.RestoreFromTrash, MessageType.DeletePermanently,
          MessageType.ChmodFile, MessageType.CompressZip, MessageType.CompressTarGz,
          MessageType.ExtractArchive}
      then ClientToServer else ServerToClient)"

definition is_handshake :: "MessageType \<Rightarrow> bool" where
  "is_handshake m \<longleftrightarrow>
     m \<in> {MessageType.ServerHello, MessageType.ClientHello, MessageType.ProtocolReady}"

definition is_operation :: "MessageType \<Rightarrow> bool" where
  "is_operation m \<longleftrightarrow>
     m \<notin> {MessageType.ServerHello, MessageType.ClientHello, MessageType.ProtocolReady,
          MessageType.ConnectionStatus, MessageType.Error}"

definition validate_inbound_client :: "MessageType \<Rightarrow> unit td_result" where
  "validate_inbound_client m =
     (case direction m of
        ClientToServer \<Rightarrow> Inr ()
      | Both \<Rightarrow> Inr ()
      | ServerToClient \<Rightarrow> Inl TealDriveError.InvalidMessageDirection)"

section \<open>Compression and encoding tags (\<open>compression.rs\<close>, \<open>header.rs\<close>)\<close>

datatype Compression = NoCompression | Gzip | DeflateFuture | ZstdFuture

definition is_v1_supported :: "Compression \<Rightarrow> bool" where
  "is_v1_supported c \<longleftrightarrow> c = NoCompression \<or> c = Gzip"

fun compression_code :: "Compression \<Rightarrow> u8" where
  "compression_code NoCompression = 0"
| "compression_code Gzip = 1"
| "compression_code DeflateFuture = 2"
| "compression_code ZstdFuture = 3"

definition compression_try_from :: "u8 \<Rightarrow> Compression td_result" where
  "compression_try_from v =
     (if v = 0 then Inr NoCompression else if v = 1 then Inr Gzip
      else if v = 2 then Inr DeflateFuture else if v = 3 then Inr ZstdFuture
      else Inl TealDriveError.InvalidCompression)"

datatype Encoding = NoEncoding | MessagePack | RawBinary

fun encoding_code :: "Encoding \<Rightarrow> u8" where
  "encoding_code NoEncoding = 0"
| "encoding_code MessagePack = 1"
| "encoding_code RawBinary = 2"

definition encoding_try_from :: "u8 \<Rightarrow> Encoding td_result" where
  "encoding_try_from v =
     (if v = 0 then Inr NoEncoding else if v = 1 then Inr MessagePack
      else if v = 2 then Inr RawBinary else Inl TealDriveError.InvalidEncoding)"

definition validate_encoding_for_message :: "MessageType \<Rightarrow> Encoding \<Rightarrow> unit td_result" where
  "validate_encoding_for_message m e =
     (if m = MessageType.UploadChunk \<or> m = MessageType.DownloadChunk
      then (if e = RawBinary then Inr () else Inl TealDriveError.InvalidEncoding)
      else (if e = RawBinary then Inl TealDriveError.InvalidEncoding else Inr ()))"

section \<open>Headers (\<open>header.rs\<close>)\<close>

definition TDRV_MAGIC :: bytes where "TDRV_MAGIC = [0x54, 0x44, 0x52, 0x56]"
definition TDRV_VERSION :: u8 where "TDRV_VERSION = 1"
definition HEADER_LEN :: nat where "HEADER_LEN = 32"
definition VERSION_OFFSET :: nat where "VERSION_OFFSET = 4"
definition FLAGS_OFFSET :: nat where "FLAGS_OFFSET = 5"
definition MESSAGE_TYPE_OFFSET :: nat where "MESSAGE_TYPE_OFFSET = 7"
definition COMPRESSION_OFFSET :: nat where "COMPRESSION_OFFSET = 9"
definition ENCODING_OFFSET :: nat where "ENCODING_OFFSET = 10"
definition RESERVED_OFFSET :: nat where "RESERVED_OFFSET = 11"
definition REQUEST_ID_OFFSET :: nat where "REQUEST_ID_OFFSET = 12"
definition PAYLOAD_LENGTH_OFFSET :: nat where "PAYLOAD_LENGTH_OFFSET = 28"

lemmas offset_defs =
  HEADER_LEN_def VERSION_OFFSET_def FLAGS_OFFSET_def MESSAGE_TYPE_OFFSET_def
  COMPRESSION_OFFSET_def ENCODING_OFFSET_def RESERVED_OFFSET_def REQUEST_ID_OFFSET_def
  PAYLOAD_LENGTH_OFFSET_def

record TdrvHeader =
  hdr_magic :: bytes
  hdr_version :: u8
  hdr_flags :: TdrvFlags
  hdr_message_type :: MessageType
  hdr_compression :: Compression
  hdr_encoding :: Encoding
  hdr_reserved :: u8
  hdr_request_id :: Uuid
  hdr_payload_len :: u32

definition header_new :: "MessageType \<Rightarrow> Uuid \<Rightarrow> u32 \<Rightarrow> TdrvHeader" where
  "header_new m rid len =
     \<lparr>hdr_magic = TDRV_MAGIC, hdr_version = TDRV_VERSION, hdr_flags = flags_empty, hdr_message_type = m,
      hdr_compression = NoCompression, hdr_encoding = MessagePack, hdr_reserved = 0, hdr_request_id = rid,
      hdr_payload_len = len\<rparr>"

text \<open>\<open>out[at..].copy_from_slice(src)\<close> on the output buffer.\<close>

definition write_at :: "nat \<Rightarrow> bytes \<Rightarrow> bytes \<Rightarrow> bytes" where
  "write_at at src out = take at out @ src @ drop (at + length src) out"

definition header_encode :: "TdrvHeader \<Rightarrow> bytes" where
  "header_encode h =
     (let out = replicate HEADER_LEN 0;
          out = write_at 0 (hdr_magic h) out;
          out = write_at VERSION_OFFSET [hdr_version h] out;
          out = write_at FLAGS_OFFSET (to_be 2 (unat (flags_bits (hdr_flags h)))) out;
          out = write_at MESSAGE_TYPE_OFFSET (to_be 2 (unat (message_type_code (hdr_message_type h)))) out;
          out = write_at COMPRESSION_OFFSET [compression_code (hdr_compression h)] out;
          out = write_at ENCODING_OFFSET [encoding_code (hdr_encoding h)] out;
          out = write_at RESERVED_OFFSET [hdr_reserved h] out;
          out = write_at REQUEST_ID_OFFSET (to_be 16 (unat (hdr_request_id h))) out;
          out = write_at PAYLOAD_LENGTH_OFFSET (to_be 4 (unat (hdr_payload_len h))) out
      in out)"

definition slice :: "nat \<Rightarrow> nat \<Rightarrow> bytes \<Rightarrow> bytes" where
  "slice a b bs = take (b - a) (drop a bs)"

definition header_decode :: "bytes \<Rightarrow> TdrvHeader td_result" where
  "header_decode bs =
     (if length bs \<noteq> HEADER_LEN then Inl TealDriveError.InvalidHeaderLength
      else if [bs ! 0, bs ! 1, bs ! 2, bs ! 3] \<noteq> TDRV_MAGIC then Inl TealDriveError.InvalidMagic
      else if bs ! 4 \<noteq> TDRV_VERSION then Inl TealDriveError.UnsupportedVersion
      else and_then (flags_from_bits (word_of_nat (from_be [bs ! 5, bs ! 6]))) (\<lambda>fl.
        and_then (message_type_try_from (word_of_nat (from_be [bs ! 7, bs ! 8]))) (\<lambda>mt.
        and_then (compression_try_from (bs ! 9)) (\<lambda>co.
          if \<not> is_v1_supported co then Inl TealDriveError.InvalidCompression
          else and_then (encoding_try_from (bs ! 10)) (\<lambda>en.
            if bs ! 11 \<noteq> 0 then Inl TealDriveError.ReservedFieldNonZero
            else if fl_compressed fl \<noteq> (co \<noteq> NoCompression) then Inl TealDriveError.InvalidFlags
            else and_then (validate_encoding_for_message mt en) (\<lambda>_.
              let rid = word_of_nat (from_be (slice 12 28 bs));
                  len = word_of_nat (from_be [bs ! 28, bs ! 29, bs ! 30, bs ! 31]) :: u32
              in if unat len > MAX_FRAME_PAYLOAD then Inl TealDriveError.PayloadTooLarge
                 else Inr \<lparr>hdr_magic = [bs ! 0, bs ! 1, bs ! 2, bs ! 3], hdr_version = bs ! 4, hdr_flags = fl,
                           hdr_message_type = mt, hdr_compression = co, hdr_encoding = en,
                           hdr_reserved = bs ! 11, hdr_request_id = rid, hdr_payload_len = len\<rparr>))))))"

section \<open>Frames (\<open>frame.rs\<close>)\<close>

record TdrvFrame =
  frame_header :: TdrvHeader
  frame_payload :: bytes

definition frame_new :: "TdrvHeader \<Rightarrow> bytes \<Rightarrow> TdrvFrame td_result" where
  "frame_new h p =
     (if length p > MAX_FRAME_PAYLOAD then Inl TealDriveError.PayloadTooLarge
      else if length p \<ge> 2 ^ 32 then Inl TealDriveError.PayloadTooLarge
      else Inr \<lparr>frame_header = h\<lparr>hdr_payload_len := word_of_nat (length p)\<rparr>, frame_payload = p\<rparr>)"

definition frame_encode :: "TdrvFrame \<Rightarrow> bytes td_result" where
  "frame_encode f =
     (if length (frame_payload f) > MAX_FRAME_PAYLOAD then Inl TealDriveError.PayloadTooLarge
      else if unat (hdr_payload_len (frame_header f)) \<noteq> length (frame_payload f)
      then Inl TealDriveError.PayloadLengthMismatch
      else Inr (header_encode (frame_header f) @ frame_payload f))"

definition frame_decode :: "bytes \<Rightarrow> TdrvFrame td_result" where
  "frame_decode bs =
     (if length bs < HEADER_LEN then Inl TealDriveError.InvalidHeaderLength
      else and_then (header_decode (take HEADER_LEN bs)) (\<lambda>h.
        let p = drop HEADER_LEN bs in
        if unat (hdr_payload_len h) \<noteq> length p then Inl TealDriveError.PayloadLengthMismatch
        else if length p > MAX_FRAME_PAYLOAD then Inl TealDriveError.PayloadTooLarge
        else Inr \<lparr>frame_header = h, frame_payload = p\<rparr>))"

section \<open>Raw chunks (\<open>chunk.rs\<close>)\<close>

definition RAW_CHUNK_HEADER_LEN :: nat where "RAW_CHUNK_HEADER_LEN = 32"

record RawChunk =
  chunk_transfer_id :: Uuid
  chunk_index :: u32
  chunk_offset :: u64
  chunk_bytes :: bytes

definition chunk_decode :: "bytes \<Rightarrow> RawChunk td_result" where
  "chunk_decode bs =
     (if length bs < RAW_CHUNK_HEADER_LEN then Inl TealDriveError.InvalidChunk
      else
        let tid = word_of_nat (from_be (slice 0 16 bs));
            idx = word_of_nat (from_be (slice 16 20 bs));
            off = word_of_nat (from_be (slice 20 28 bs));
            len = word_of_nat (from_be (slice 28 32 bs)) :: u32
        in if unat len > MAX_CHUNK_SIZE then Inl TealDriveError.InvalidChunk
           else if length bs - RAW_CHUNK_HEADER_LEN \<noteq> unat len then Inl TealDriveError.InvalidChunk
           else Inr \<lparr>chunk_transfer_id = tid, chunk_index = idx, chunk_offset = off,
                     chunk_bytes = drop RAW_CHUNK_HEADER_LEN bs\<rparr>)"

definition chunk_encode :: "RawChunk \<Rightarrow> bytes td_result" where
  "chunk_encode c =
     (if length (chunk_bytes c) > MAX_CHUNK_SIZE then Inl TealDriveError.InvalidChunk
      else if length (chunk_bytes c) \<ge> 2 ^ 32 then Inl TealDriveError.InvalidChunk
      else Inr (to_be 16 (unat (chunk_transfer_id c)) @ to_be 4 (unat (chunk_index c)) @
                to_be 8 (unat (chunk_offset c)) @ to_be 4 (length (chunk_bytes c)) @ chunk_bytes c))"

section \<open>Well-formed headers and frames\<close>

text \<open>The specification side: the headers that may travel on the wire.\<close>

definition header_wf :: "TdrvHeader \<Rightarrow> bool" where
  "header_wf h \<longleftrightarrow>
     hdr_magic h = TDRV_MAGIC \<and> hdr_version h = TDRV_VERSION \<and> is_v1_supported (hdr_compression h) \<and>
     hdr_reserved h = 0 \<and> fl_compressed (hdr_flags h) = (hdr_compression h \<noteq> NoCompression) \<and>
     validate_encoding_for_message (hdr_message_type h) (hdr_encoding h) = Inr () \<and>
     unat (hdr_payload_len h) \<le> MAX_FRAME_PAYLOAD"

definition frame_wf :: "TdrvFrame \<Rightarrow> bool" where
  "frame_wf f \<longleftrightarrow> header_wf (frame_header f)"

section \<open>Flag words\<close>

lemma flags_from_bits_bits: "flags_from_bits (flags_bits f) = Inr f"
proof (cases f)
  case (fields a b c d e)
  then show ?thesis
    by (cases a; cases b; cases c; cases d; cases e)
      (simp_all add: flags_from_bits_def flags_bits_def flag_defs)
qed

lemma known_flags_bound:
  assumes "(w :: u16) AND NOT KNOWN_FLAGS_MASK = 0"
  shows "unat w < 32"
proof -
  have "w = w AND (0x1F OR NOT 0x1F)" by simp
  also have "\<dots> = w AND 0x1F"
    using assms by (simp only: bit.conj_disj_distrib) (simp add: flag_defs)
  finally have "w \<le> 0x1F" by (metis word_and_le1)
  then show ?thesis by (simp add: word_le_nat_alt)
qed

lemma flags_bits_from_bits:
  assumes "flags_from_bits w = Inr f"
  shows "flags_bits f = w"
proof -
  have "unat w < 32"
    using assms by (intro known_flags_bound) (auto simp: flags_from_bits_def split: if_splits)
  then have "unat w \<in> set [0..<32]" by simp
  then have "w \<in> word_of_nat ` set [0..<32]" by (intro image_eqI [where x = "unat w"]) simp_all
  then have "w \<in> set (map word_of_nat [0..<32])" by simp
  moreover have "\<forall>v \<in> set (map word_of_nat [0..<32]).
      (case flags_from_bits v of Inl _ \<Rightarrow> True | Inr g \<Rightarrow> flags_bits g = v)"
    by (simp add: upt_rec flags_from_bits_def flags_bits_def flag_defs)
  ultimately show ?thesis using assms by fastforce
qed

section \<open>Message type codes\<close>

lemma message_type_try_from_code: "message_type_try_from (message_type_code m) = Inr m"
  by (cases m) (simp_all add: message_type_try_from_def message_type_arms_def)

lemma message_type_arms_code: "(v, m) \<in> set message_type_arms \<Longrightarrow> message_type_code m = v"
  by (auto simp: message_type_arms_def)

lemma message_type_code_try_from: "message_type_try_from v = Inr m \<Longrightarrow> message_type_code m = v"
  by (auto simp: message_type_try_from_def result_simps dest!: map_of_SomeD message_type_arms_code)

lemma compression_codes:
  "compression_try_from (compression_code c) = Inr c"
  "compression_try_from v = Inr c \<Longrightarrow> compression_code c = v"
  by (cases c; simp add: compression_try_from_def)
    (auto simp: compression_try_from_def split: if_splits)

lemma encoding_codes:
  "encoding_try_from (encoding_code e) = Inr e"
  "encoding_try_from v = Inr e \<Longrightarrow> encoding_code e = v"
  by (cases e; simp add: encoding_try_from_def)
    (auto simp: encoding_try_from_def split: if_splits)

section \<open>Headers\<close>

lemma write_at_zeros:
  "write_at 0 src (replicate n 0) = src @ replicate (n - length src) 0"
  "length a = at \<Longrightarrow> write_at at src (a @ replicate n 0) = (a @ src) @ replicate (n - length src) 0"
  by (simp_all add: write_at_def)

lemma header_encode_concat:
  assumes "length (hdr_magic h) = 4"
  shows "header_encode h =
     hdr_magic h @ [hdr_version h] @ to_be 2 (unat (flags_bits (hdr_flags h))) @
     to_be 2 (unat (message_type_code (hdr_message_type h))) @
     [compression_code (hdr_compression h), encoding_code (hdr_encoding h), hdr_reserved h] @
     to_be 16 (unat (hdr_request_id h)) @ to_be 4 (unat (hdr_payload_len h))"
proof -
  have "header_encode h =
     (((((((hdr_magic h @ [hdr_version h]) @ to_be 2 (unat (flags_bits (hdr_flags h)))) @
     to_be 2 (unat (message_type_code (hdr_message_type h)))) @
     [compression_code (hdr_compression h)]) @ [encoding_code (hdr_encoding h)]) @ [hdr_reserved h]) @
     to_be 16 (unat (hdr_request_id h))) @ to_be 4 (unat (hdr_payload_len h))"
    using assms
    by (simp add: header_encode_def write_at_zeros offset_defs Let_def del: append_assoc)
  then show ?thesis by simp
qed

lemma nths_2: "length xs = 2 \<Longrightarrow> [xs ! 0, xs ! Suc 0] = xs"
  by (rule nth_equalityI) (auto simp: nth_Cons' numeral_eq_Suc less_Suc_eq)

lemma nths_4: "length xs = 4 \<Longrightarrow> [xs ! 0, xs ! Suc 0, xs ! 2, xs ! 3] = xs"
  by (rule nth_equalityI) (auto simp: nth_Cons' numeral_eq_Suc less_Suc_eq)

lemma header_decode_encode:
  assumes "header_wf h"
  shows "header_decode (header_encode h) = Inr h"
proof -
  define fb mb rb lb where "fb = to_be 2 (unat (flags_bits (hdr_flags h)))"
    and "mb = to_be 2 (unat (message_type_code (hdr_message_type h)))"
    and "rb = to_be 16 (unat (hdr_request_id h))"
    and "lb = to_be 4 (unat (hdr_payload_len h))"
  note parts = fb_def mb_def rb_def lb_def
  have lens: "length fb = 2" "length mb = 2" "length rb = 16" "length lb = 4"
    by (simp_all add: parts)
  have enc: "header_encode h = TDRV_MAGIC @ [1] @ fb @ mb @
      [compression_code (hdr_compression h), encoding_code (hdr_encoding h), 0] @ rb @ lb"
    using assms header_encode_concat [of h] by (simp add: header_wf_def TDRV_MAGIC_def TDRV_VERSION_def parts)
  have words: "word_of_nat (from_be fb) = flags_bits (hdr_flags h)"
    "word_of_nat (from_be mb) = message_type_code (hdr_message_type h)"
    "word_of_nat (from_be rb) = hdr_request_id h"
    "word_of_nat (from_be lb) = hdr_payload_len h"
    unfolding parts by (rule word_of_from_be; simp)+
  have at: "[fb ! 0, fb ! Suc 0] = fb" "[mb ! 0, mb ! Suc 0] = mb"
    "[lb ! 0, lb ! Suc 0, lb ! 2, lb ! 3] = lb"
    using lens by (simp_all only: nths_2 nths_4)
  show ?thesis
    using assms at
    by (simp add: header_decode_def enc TDRV_MAGIC_def TDRV_VERSION_def HEADER_LEN_def lens
        nth_append slice_def words flags_from_bits_bits message_type_try_from_code
        compression_codes encoding_codes header_wf_def Let_def nth_Cons')
qed

lemma header_decode_wf: "header_decode bs = Inr h \<Longrightarrow> header_wf h"
  by (auto simp: header_decode_def header_wf_def Let_def result_simps split: if_splits)

lemma list_of_4: "length xs = 4 \<Longrightarrow> \<exists>a b c d. xs = [a, b, c, d]"
  by (simp add: numeral_eq_Suc length_Suc_conv) blast

lemma list_of_12:
  "length xs = 12 \<Longrightarrow> \<exists>a b c d e f g h i j k l. xs = [a, b, c, d, e, f, g, h, i, j, k, l]"
  by (simp add: numeral_eq_Suc length_Suc_conv) blast

lemma header_bytes_cases:
  assumes "length bs = 32"
  obtains a0 a1 a2 a3 a4 a5 a6 a7 a8 a9 a10 a11 b c0 c1 c2 c3
  where "bs = [a0, a1, a2, a3, a4, a5, a6, a7, a8, a9, a10, a11] @ b @ [c0, c1, c2, c3]"
    and "length b = 16"
proof -
  have split: "bs = take 12 bs @ take 16 (drop 12 bs) @ drop 28 bs"
    using append_take_drop_id [of 12 bs] append_take_drop_id [of 16 "drop 12 bs"]
    by (simp del: append_take_drop_id)
  have len: "length (take 12 bs) = 12" "length (take 16 (drop 12 bs)) = 16" "length (drop 28 bs) = 4"
    using assms by simp_all
  obtain a0 a1 a2 a3 a4 a5 a6 a7 a8 a9 a10 a11
    where "take 12 bs = [a0, a1, a2, a3, a4, a5, a6, a7, a8, a9, a10, a11]"
    using list_of_12 [OF len(1)] by blast
  moreover obtain c0 c1 c2 c3 where "drop 28 bs = [c0, c1, c2, c3]"
    using list_of_4 [OF len(3)] by blast
  ultimately show ?thesis using that split len(2) by metis
qed

lemma header_encode_decode:
  assumes dec: "header_decode bs = Inr h"
  shows "header_encode h = bs"
proof -
  have len: "length bs = 32"
    using dec by (auto simp: header_decode_def HEADER_LEN_def split: if_splits)
  then obtain a0 a1 a2 a3 a4 a5 a6 a7 a8 a9 a10 a11 b c0 c1 c2 c3
    where bs: "bs = [a0, a1, a2, a3, a4, a5, a6, a7, a8, a9, a10, a11] @ b @ [c0, c1, c2, c3]"
      and b: "length b = 16" by (rule header_bytes_cases)
  have fields: "hdr_magic h = [a0, a1, a2, a3]" "hdr_version h = a4" "hdr_reserved h = a11"
    "flags_bits (hdr_flags h) = word_of_nat (from_be [a5, a6])"
    "message_type_code (hdr_message_type h) = word_of_nat (from_be [a7, a8])"
    "compression_code (hdr_compression h) = a9" "encoding_code (hdr_encoding h) = a10"
    "hdr_request_id h = word_of_nat (from_be b)"
    "hdr_payload_len h = word_of_nat (from_be [c0, c1, c2, c3])"
    using dec b
    by (auto simp: header_decode_def bs slice_def nth_append Let_def result_simps split: if_splits
        dest: flags_bits_from_bits message_type_code_try_from compression_codes(2) encoding_codes(2))
  have words: "to_be 2 (unat (word_of_nat (from_be [a5, a6]) :: u16)) = [a5, a6]"
    "to_be 2 (unat (word_of_nat (from_be [a7, a8]) :: u16)) = [a7, a8]"
    "to_be 16 (unat (word_of_nat (from_be b) :: Uuid)) = b"
    "to_be 4 (unat (word_of_nat (from_be [c0, c1, c2, c3]) :: u32)) = [c0, c1, c2, c3]"
    using b by (simp_all add: to_be_of_word)
  show ?thesis
    by (subst header_encode_concat) (simp_all add: fields words bs)
qed

interpretation header_codec: codec "\<lambda>h. Inr (header_encode h)" header_decode header_wf
  by unfold_locales
    (auto simp: header_decode_encode header_encode_decode dest: header_decode_wf)

section \<open>Frames and chunks\<close>

lemma header_encode_length: "header_wf h \<Longrightarrow> length (header_encode h) = 32"
  by (simp add: header_encode_concat header_wf_def TDRV_MAGIC_def)

interpretation frame_codec: codec frame_encode frame_decode frame_wf
proof
  fix f bs
  assume "frame_wf f" and "frame_encode f = Inr bs"
  then show "frame_decode bs = Inr f"
    by (auto simp: frame_encode_def frame_decode_def frame_wf_def HEADER_LEN_def
        header_encode_length header_decode_encode split: if_splits)
next
  fix f bs
  assume "frame_decode bs = Inr f"
  then show "frame_wf f \<and> frame_encode f = Inr bs"
    by (auto simp: frame_encode_def frame_decode_def frame_wf_def result_simps Let_def
        dest!: header_codec.encode_decode split: if_splits)
qed

text \<open>A frame built by \<open>TdrvFrame::new\<close> always encodes.\<close>

lemma frame_new_encodes:
  "frame_new h p = Inr f \<Longrightarrow> frame_encode f = Inr (header_encode (frame_header f) @ p)"
  by (auto simp: frame_new_def frame_encode_def limit_defs unat_of_nat split: if_splits)

lemma slice_append: "a \<le> b \<Longrightarrow> b \<le> c \<Longrightarrow> slice a b bs @ slice b c bs = slice a c bs"
proof -
  assume "a \<le> b" "b \<le> c"
  then have "c - a = (b - a) + (c - b)" and "drop b bs = drop (b - a) (drop a bs)" by simp_all
  then show ?thesis by (simp only: slice_def take_add)
qed

lemma slice_split: "slice 0 n bs @ drop n bs = bs"
  by (simp add: slice_def)

lemma to_be_slice:
  assumes "LENGTH('w::len) = 8 * (b - a)" and "b \<le> length bs" and "a \<le> b"
  shows "to_be (b - a) (unat (word_of_nat (from_be (slice a b bs)) :: 'w word)) = slice a b bs"
  using assms by (intro to_be_of_word) (simp_all add: slice_def)

interpretation chunk_codec: codec chunk_encode chunk_decode "\<lambda>_. True"
proof
  fix c bs
  assume "chunk_encode c = Inr bs"
  then show "chunk_decode bs = Inr c"
    by (auto simp: chunk_encode_def chunk_decode_def RAW_CHUNK_HEADER_LEN_def limit_defs slice_def
        word_of_from_be from_be_to_be unat_of_nat Let_def split: if_splits)
next
  fix c bs
  assume dec: "chunk_decode bs = Inr c"
  then have len: "32 \<le> length bs"
    by (auto simp: chunk_decode_def RAW_CHUNK_HEADER_LEN_def split: if_splits)
  have join: "slice 0 16 bs @ slice 16 20 bs @ slice 20 28 bs @ slice 28 32 bs @ drop 32 bs = bs"
    by (simp add: slice_append slice_split flip: append_assoc)
  note fields = to_be_slice [where a = 0 and b = 16 and 'w = 128, simplified, of bs]
    to_be_slice [where a = 16 and b = 20 and 'w = 32, simplified, of bs]
    to_be_slice [where a = 20 and b = 28 and 'w = 64, simplified, of bs]
    to_be_slice [where a = 28 and b = 32 and 'w = 32, simplified, of bs]
  show "True \<and> chunk_encode c = Inr bs"
    using dec len fields join
    by (auto simp: chunk_decode_def chunk_encode_def RAW_CHUNK_HEADER_LEN_def limit_defs Let_def
        split: if_splits)
qed

section \<open>Properties\<close>

text \<open>C21: the header decoder accepts exactly the encodings of well-formed headers. Whatever 32
  bytes it accepts, re-encoding the result gives the same bytes back, and every well-formed header
  survives the round trip.\<close>

theorem header_decode_iff:
  "header_decode bs = Inr h \<longleftrightarrow> header_wf h \<and> header_encode h = bs"
  using header_codec.decode_iff by auto

text \<open>a byte string decodes to a frame exactly when it is the encoding of that frame and its
  header is well formed, so truncated, padded or oversized input is rejected.\<close>

theorem frame_decode_iff:
  "frame_decode bs = Inr f \<longleftrightarrow> header_wf (frame_header f) \<and> frame_encode f = Inr bs"
  using frame_codec.decode_iff by (simp add: frame_wf_def)

text \<open>raw transfer chunks round-trip, and decoding is the exact inverse of encoding.\<close>

theorem chunk_decode_iff: "chunk_decode bs = Inr c \<longleftrightarrow> chunk_encode c = Inr bs"
  using chunk_codec.decode_iff by simp

text \<open>A 16-bit message tag is accepted exactly when it is the discriminant of a message type,
  so the tag table and the enum agree in both directions.\<close>

theorem message_type_try_from_iff:
  "message_type_try_from v = Inr m \<longleftrightarrow> v = message_type_code m"
  using message_type_try_from_code message_type_code_try_from by auto

end
