(* ===== verification/TD_Config.thy ===== *)
theory TD_Config
  imports TD_Access TD_Net TD_Wire
begin

text \<open>
  The configuration of \<open>src/config.rs\<close> with the parts other modules contribute to it
  (\<open>feature_gate.rs\<close>, \<open>limits.rs\<close>, \<open>client_ip.rs\<close>, and the account settings of
  \<open>helper/account_gateway.rs\<close>, \<open>accounts/control_audit.rs\<close>, \<open>accounts/lifecycle.rs\<close>,
  \<open>accounts/virtuals.rs\<close>, \<open>accounts/journal.rs\<close>), and its validation.

  Parsing of a URI belongs to the \<open>http\<close> crate and is the parameter \<open>uri\<close>; the validator uses
  the scheme, authority, query and path of its result.
\<close>

section \<open>Characters of account names\<close>

text \<open>\<open>str::chars\<close>: the code points of a UTF-8 string.\<close>

fun utf8_chars :: "nat list \<Rightarrow> nat list" where
  "utf8_chars [] = []"
| "utf8_chars (a # bs) =
     (if a < 192 then a # utf8_chars bs
      else if a < 224 then
        (case bs of b # r \<Rightarrow> ((a - 192) * 64 + (b - 128)) # utf8_chars r | [] \<Rightarrow> [a])
      else if a < 240 then
        (case bs of b # c # r \<Rightarrow> ((a - 224) * 4096 + (b - 128) * 64 + (c - 128)) # utf8_chars r
         | _ \<Rightarrow> [a])
      else
        (case bs of b # c # d # r \<Rightarrow>
           ((a - 240) * 262144 + (b - 128) * 4096 + (c - 128) * 64 + (d - 128)) # utf8_chars r
         | _ \<Rightarrow> [a]))"

definition str_chars :: "string \<Rightarrow> nat list" where
  "str_chars s = utf8_chars (map of_char s)"

definition is_control :: "nat \<Rightarrow> bool" where
  "is_control c \<longleftrightarrow> c < 32 \<or> (127 \<le> c \<and> c < 160)"

definition is_whitespace :: "nat \<Rightarrow> bool" where
  "is_whitespace c \<longleftrightarrow>
     (9 \<le> c \<and> c \<le> 13) \<or> c = 32 \<or> c = 133 \<or> c = 160 \<or> c = 5760 \<or> (8192 \<le> c \<and> c \<le> 8202)
     \<or> c = 8232 \<or> c = 8233 \<or> c = 8239 \<or> c = 8287 \<or> c = 12288"

text \<open>The test the sources apply to account names: \<open>extra\<close> are the forbidden ASCII characters.\<close>

definition bad_account_name :: "string \<Rightarrow> string \<Rightarrow> bool" where
  "bad_account_name extra s \<longleftrightarrow>
     s = [] \<or> length s > 256
     \<or> (\<exists>c \<in> set (str_chars s). is_control c \<or> is_whitespace c \<or> c \<in> of_char ` set extra)"

section \<open>Configuration parts\<close>

record SystemStorageConfig =
  ss_max_metadata_db_bytes :: nat
  ss_max_staging_bytes :: nat
  ss_max_staging_transfers :: nat
  ss_upload_resume_seconds :: nat
  ss_staging_min_free_bytes :: nat

record ControlAuditConfig =
  ca_retention_hours :: nat
  ca_max_records :: nat

record LifecycleConfig =
  lc_trash_cleanup_enabled :: bool
  lc_staging_cleanup_enabled :: bool
  lc_trash_retention_hours :: nat
  lc_staging_retention_hours :: nat
  lc_max_cleanup_per_run :: nat

datatype Enforcement = Application | UserQuota

record VirtualConfig =
  vc_enabled :: bool
  vc_allow_admin_delete :: bool
  vc_deleted_retention_hours :: nat
  vc_max_accounts :: nat
  vc_enforcement :: Enforcement
  vc_max_inodes :: nat

record WebAccountsConfig =
  wa_enabled :: bool
  wa_server_uid :: "nat option"
  wa_self_registration :: bool
  wa_denied_users :: "string list"
  wa_virtual_min_uid :: nat
  wa_virtual_max_uid :: nat
  wa_allowed_nologin_users :: "string list"

record JournalConfig =
  jc_enabled :: bool
  jc_retention_hours :: nat
  jc_undo_max_hours :: nat
  jc_max_entries_per_account :: nat
  jc_max_total_entries :: nat
  jc_max_record_bytes :: nat

record AuditConfig =
  au_retention_hours :: "nat option"
  au_path :: "string option"
  au_max_file_bytes :: nat
  au_max_archives :: nat
  au_retention_days :: "nat option"

record ServerConfig =
  sv_bind_addr :: string
  sv_behind_tls_proxy :: bool
  sv_require_tls :: "bool option"
  sv_tls_cert_path :: "string option"
  sv_tls_key_path :: "string option"
  sv_channel_key_path :: "string option"
  sv_static_dir :: "string option"

datatype SameSitePolicy = Strict | Lax

record SessionConfig =
  se_cookie_name :: string
  se_idle_timeout_seconds :: nat
  se_absolute_timeout_seconds :: nat
  se_secure_cookies :: bool
  se_same_site :: SameSitePolicy

datatype WireProtocol = Tdrv1Binary

record SecurityConfig =
  sc_production_wire_protocol :: WireProtocol
  sc_allow_plain_ws_localhost_only :: bool
  sc_allowed_origins :: "string list"

record SensitivePolicyConfig =
  sp_deny_edit_patterns :: "string list"
  sp_warn_read_patterns :: "string list"

record WebRootPolicyConfig =
  wp_block_executable_uploads :: bool
  wp_blocked_extensions :: "string list"

record AccountPolicyConfig =
  acp_allowed_users :: "string list"
  acp_reject_root :: bool
  acp_reject_system_accounts :: bool
  acp_reject_disabled_shells :: bool
  acp_minimum_regular_uid :: nat
  acp_admin_users :: "string list"

record FeatureFlags =
  ff_save_text_file :: bool
  ff_chmod_file :: bool
  ff_extract_archive :: bool
  ff_delete_permanently :: bool
  ff_chown :: bool

record RateLimitConfig =
  rl_max_login_failures :: nat
  rl_lockout_duration_seconds :: nat

record HelperConfig =
  hc_timeout_seconds :: nat

record SearchConfig =
  sr_max_depth :: nat
  sr_default_max_results :: nat
  sr_max_results_limit :: nat

record AppConfig =
  cfg_system_storage :: SystemStorageConfig
  cfg_control_audit :: ControlAuditConfig
  cfg_lifecycle :: LifecycleConfig
  cfg_virtual_accounts :: VirtualConfig
  cfg_web_accounts :: WebAccountsConfig
  cfg_access_policy :: AccessPolicy
  cfg_quota_warning_percent :: nat
  cfg_server :: ServerConfig
  cfg_audit :: AuditConfig
  cfg_journal :: JournalConfig
  cfg_proxy :: ProxyConfig
  cfg_session :: SessionConfig
  cfg_security :: SecurityConfig
  cfg_roots :: "AllowedRoot list"
  cfg_home_template :: "AllowedRoot option"
  cfg_sensitive_policy :: SensitivePolicyConfig
  cfg_webroot_policy :: WebRootPolicyConfig
  cfg_account_policy :: AccountPolicyConfig
  cfg_features :: FeatureFlags
  cfg_limits :: Limits
  cfg_trash_retention_days :: "nat option"
  cfg_rate_limit :: RateLimitConfig
  cfg_helper :: HelperConfig
  cfg_search :: SearchConfig

record UserContext =
  uc_username :: string
  uc_uid :: nat
  uc_gid :: nat

section \<open>Defaults\<close>

definition SystemStorageConfig_default :: SystemStorageConfig where
  "SystemStorageConfig_default =
     \<lparr>ss_max_metadata_db_bytes = 512 * 1024 * 1024, ss_max_staging_bytes = 4 * 1024 * 1024 * 1024,
      ss_max_staging_transfers = 128, ss_upload_resume_seconds = 1800,
      ss_staging_min_free_bytes = 1024 * 1024 * 1024\<rparr>"

definition ControlAuditConfig_default :: ControlAuditConfig where
  "ControlAuditConfig_default = \<lparr>ca_retention_hours = 504, ca_max_records = 16384\<rparr>"

definition LifecycleConfig_default :: LifecycleConfig where
  "LifecycleConfig_default =
     \<lparr>lc_trash_cleanup_enabled = True, lc_staging_cleanup_enabled = True,
      lc_trash_retention_hours = 504, lc_staging_retention_hours = 24, lc_max_cleanup_per_run = 100\<rparr>"

definition VirtualConfig_default :: VirtualConfig where
  "VirtualConfig_default =
     \<lparr>vc_enabled = False, vc_allow_admin_delete = False, vc_deleted_retention_hours = 36,
      vc_max_accounts = 4096, vc_enforcement = Application, vc_max_inodes = 100000\<rparr>"

definition WebAccountsConfig_default :: WebAccountsConfig where
  "WebAccountsConfig_default =
     \<lparr>wa_enabled = False, wa_server_uid = None, wa_self_registration = True, wa_denied_users = [],
      wa_virtual_min_uid = 200000, wa_virtual_max_uid = 299999, wa_allowed_nologin_users = []\<rparr>"

definition JournalConfig_default :: JournalConfig where
  "JournalConfig_default =
     \<lparr>jc_enabled = False, jc_retention_hours = 504, jc_undo_max_hours = 24,
      jc_max_entries_per_account = 2048, jc_max_total_entries = 32768, jc_max_record_bytes = 8192\<rparr>"

definition AuditConfig_default :: AuditConfig where
  "AuditConfig_default =
     \<lparr>au_retention_hours = Some 504, au_path = None, au_max_file_bytes = 10 * 1024 * 1024,
      au_max_archives = 5, au_retention_days = None\<rparr>"

definition ServerConfig_default :: ServerConfig where
  "ServerConfig_default =
     \<lparr>sv_bind_addr = ''127.0.0.1:3000'', sv_behind_tls_proxy = True, sv_require_tls = None,
      sv_tls_cert_path = None, sv_tls_key_path = None, sv_channel_key_path = None,
      sv_static_dir = None\<rparr>"

definition SessionConfig_default :: SessionConfig where
  "SessionConfig_default =
     \<lparr>se_cookie_name = ''tealdrive_session'', se_idle_timeout_seconds = 30 * 60,
      se_absolute_timeout_seconds = 12 * 60 * 60, se_secure_cookies = True, se_same_site = Strict\<rparr>"

definition SecurityConfig_default :: SecurityConfig where
  "SecurityConfig_default =
     \<lparr>sc_production_wire_protocol = Tdrv1Binary, sc_allow_plain_ws_localhost_only = True,
      sc_allowed_origins = []\<rparr>"

definition SensitivePolicyConfig_default :: SensitivePolicyConfig where
  "SensitivePolicyConfig_default =
     \<lparr>sp_deny_edit_patterns = [''.env'', ''.env.*'', ''id_rsa'', ''id_dsa'', ''id_ecdsa'',
        ''id_ed25519'', ''*.pem'', ''*.key'', ''authorized_keys'', ''known_hosts'', ''*.sql'', ''*.dump''],
      sp_warn_read_patterns = [''.env'', ''.env.*'', ''*.pem'', ''*.key'']\<rparr>"

definition WebRootPolicyConfig_default :: WebRootPolicyConfig where
  "WebRootPolicyConfig_default =
     \<lparr>wp_block_executable_uploads = True,
      wp_blocked_extensions = [''php'', ''phtml'', ''cgi'', ''pl'', ''py'', ''rb'', ''sh'']\<rparr>"

definition AccountPolicyConfig_default :: AccountPolicyConfig where
  "AccountPolicyConfig_default =
     \<lparr>acp_allowed_users = [], acp_reject_root = True, acp_reject_system_accounts = True,
      acp_reject_disabled_shells = True, acp_minimum_regular_uid = 1000, acp_admin_users = []\<rparr>"

definition FeatureFlags_default :: FeatureFlags where
  "FeatureFlags_default =
     \<lparr>ff_save_text_file = False, ff_chmod_file = False, ff_extract_archive = False,
      ff_delete_permanently = False, ff_chown = False\<rparr>"

definition RateLimitConfig_default :: RateLimitConfig where
  "RateLimitConfig_default = \<lparr>rl_max_login_failures = 5, rl_lockout_duration_seconds = 300\<rparr>"

definition HelperConfig_default :: HelperConfig where
  "HelperConfig_default = \<lparr>hc_timeout_seconds = 10\<rparr>"

definition SearchConfig_default :: SearchConfig where
  "SearchConfig_default =
     \<lparr>sr_max_depth = 20, sr_default_max_results = 100, sr_max_results_limit = 1000\<rparr>"

definition AppConfig_default :: AppConfig where
  "AppConfig_default =
     \<lparr>cfg_system_storage = SystemStorageConfig_default, cfg_control_audit = ControlAuditConfig_default,
      cfg_lifecycle = LifecycleConfig_default, cfg_virtual_accounts = VirtualConfig_default,
      cfg_web_accounts = WebAccountsConfig_default, cfg_access_policy = AccessPolicy_default,
      cfg_quota_warning_percent = 80, cfg_server = ServerConfig_default,
      cfg_audit = AuditConfig_default, cfg_journal = JournalConfig_default,
      cfg_proxy = ProxyConfig_default, cfg_session = SessionConfig_default,
      cfg_security = SecurityConfig_default, cfg_roots = [AllowedRoot_default],
      cfg_home_template = None, cfg_sensitive_policy = SensitivePolicyConfig_default,
      cfg_webroot_policy = WebRootPolicyConfig_default,
      cfg_account_policy = AccountPolicyConfig_default, cfg_features = FeatureFlags_default,
      cfg_limits = Limits_default, cfg_trash_retention_days = None,
      cfg_rate_limit = RateLimitConfig_default, cfg_helper = HelperConfig_default,
      cfg_search = SearchConfig_default\<rparr>"

lemmas config_defaults =
  SystemStorageConfig_default_def ControlAuditConfig_default_def LifecycleConfig_default_def
  VirtualConfig_default_def WebAccountsConfig_default_def JournalConfig_default_def
  AuditConfig_default_def ServerConfig_default_def SessionConfig_default_def
  SecurityConfig_default_def SensitivePolicyConfig_default_def WebRootPolicyConfig_default_def
  AccountPolicyConfig_default_def FeatureFlags_default_def RateLimitConfig_default_def
  HelperConfig_default_def SearchConfig_default_def AppConfig_default_def Limits_default_def
  AllowedRoot_default_def ProxyConfig_default_def AccessPolicy_default_def

section \<open>Validation of the parts\<close>

text \<open>The account settings report \<open>StoreError::InvalidInput\<close> or \<open>Validation\<close>; the only caller maps
  both to \<open>Validation\<close>, which the model returns at once.\<close>

definition reject_if :: "bool \<Rightarrow> unit td_result" where
  "reject_if b = (if b then Inl TealDriveError.Validation else Inr ())"

definition WebAccountsConfig_validate :: "WebAccountsConfig \<Rightarrow> unit td_result" where
  "WebAccountsConfig_validate c = reject_if
     ((wa_enabled c \<and> (case wa_server_uid c of None \<Rightarrow> True | Some uid \<Rightarrow> uid = 0))
      \<or> wa_virtual_min_uid c < 1000
      \<or> wa_virtual_min_uid c > wa_virtual_max_uid c
      \<or> length (wa_denied_users c) > 1024
      \<or> length (wa_allowed_nologin_users c) > 1024
      \<or> list_ex (bad_account_name [slash, backslash, CHR '':'']) (wa_allowed_nologin_users c)
      \<or> list_ex (bad_account_name [slash, backslash, CHR '':'']) (wa_denied_users c))"

definition ControlAuditConfig_validate :: "ControlAuditConfig \<Rightarrow> unit td_result" where
  "ControlAuditConfig_validate c = reject_if
     (\<not> (1 \<le> ca_retention_hours c \<and> ca_retention_hours c \<le> 876000)
      \<or> \<not> (100 \<le> ca_max_records c \<and> ca_max_records c \<le> 100000))"

definition LifecycleConfig_validate :: "LifecycleConfig \<Rightarrow> unit td_result" where
  "LifecycleConfig_validate c = reject_if
     (\<not> (1 \<le> lc_trash_retention_hours c \<and> lc_trash_retention_hours c \<le> 876000)
      \<or> \<not> (1 \<le> lc_staging_retention_hours c \<and> lc_staging_retention_hours c \<le> 876000)
      \<or> \<not> (1 \<le> lc_max_cleanup_per_run c \<and> lc_max_cleanup_per_run c \<le> 1000))"

definition VirtualConfig_validate :: "VirtualConfig \<Rightarrow> bool \<Rightarrow> unit td_result" where
  "VirtualConfig_validate c web_enabled = reject_if
     ((vc_enabled c \<and> \<not> web_enabled)
      \<or> \<not> (1 \<le> vc_deleted_retention_hours c \<and> vc_deleted_retention_hours c \<le> 876000)
      \<or> \<not> (1 \<le> vc_max_accounts c \<and> vc_max_accounts c \<le> 100000)
      \<or> \<not> (32 \<le> vc_max_inodes c \<and> vc_max_inodes c \<le> 1000000))"

definition JournalConfig_validate :: "JournalConfig \<Rightarrow> unit td_result" where
  "JournalConfig_validate c = reject_if
     (\<not> (1 \<le> jc_retention_hours c \<and> jc_retention_hours c \<le> 876000)
      \<or> \<not> (1 \<le> jc_undo_max_hours c \<and> jc_undo_max_hours c \<le> jc_retention_hours c)
      \<or> \<not> (100 \<le> jc_max_entries_per_account c \<and> jc_max_entries_per_account c \<le> 100000)
      \<or> \<not> (jc_max_entries_per_account c \<le> jc_max_total_entries c \<and> jc_max_total_entries c \<le> 1000000)
      \<or> \<not> (4096 \<le> jc_max_record_bytes c \<and> jc_max_record_bytes c \<le> 32768))"

definition allows_login :: "AccountPolicyConfig \<Rightarrow> string \<Rightarrow> bool" where
  "allows_login c username \<longleftrightarrow> list_ex (\<lambda>u. u = username) (acp_allowed_users c)"

definition AccountPolicyConfig_validate :: "AccountPolicyConfig \<Rightarrow> bool" where
  "AccountPolicyConfig_validate c \<longleftrightarrow>
     length (acp_allowed_users c) \<le> 1024
     \<and> list_all (\<lambda>name. \<not> bad_account_name [CHR '':'', slash, CHR ''*'', CHR ''?'', CHR '','', backslash] name)
         (acp_allowed_users c)"

definition is_admin :: "AccountPolicyConfig \<Rightarrow> string \<Rightarrow> bool" where
  "is_admin c username \<longleftrightarrow> list_ex (\<lambda>u. u = username) (acp_admin_users c)"

definition effective_retention_hours :: "AuditConfig \<Rightarrow> nat option" where
  "effective_retention_hours c =
     (case au_retention_days c of Some days \<Rightarrow> Some (days * 24) | None \<Rightarrow> au_retention_hours c)"

definition direct_tls :: "ServerConfig \<Rightarrow> bool" where
  "direct_tls s \<longleftrightarrow> sv_tls_cert_path s \<noteq> None \<and> sv_tls_key_path s \<noteq> None"

definition opt_path_eq :: "string option \<Rightarrow> string option \<Rightarrow> bool" where
  "opt_path_eq a b \<longleftrightarrow> (case (a, b) of (None, None) \<Rightarrow> True | (Some p, Some q) \<Rightarrow> path_eq p q | _ \<Rightarrow> False)"

definition same_transport :: "ServerConfig \<Rightarrow> ServerConfig \<Rightarrow> bool" where
  "same_transport s t \<longleftrightarrow>
     sv_bind_addr s = sv_bind_addr t
     \<and> sv_behind_tls_proxy s = sv_behind_tls_proxy t
     \<and> sv_require_tls s = sv_require_tls t
     \<and> opt_path_eq (sv_tls_cert_path s) (sv_tls_cert_path t)
     \<and> opt_path_eq (sv_tls_key_path s) (sv_tls_key_path t)
     \<and> opt_path_eq (sv_channel_key_path s) (sv_channel_key_path t)"

text \<open>The guards of \<open>validate_transport\<close>, in order; the last one parses the bind address and
  fails the same way when it does not parse.\<close>

definition validate_transport :: "ServerConfig \<Rightarrow> SessionConfig \<Rightarrow> SecurityConfig \<Rightarrow> unit td_result" where
  "validate_transport s session security = reject_if
     ((sv_tls_cert_path s \<noteq> None) \<noteq> (sv_tls_key_path s \<noteq> None)
      \<or> (direct_tls s \<and> sv_behind_tls_proxy s)
      \<or> list_ex (\<lambda>p. case p of None \<Rightarrow> False
          | Some p \<Rightarrow> \<not> is_absolute p \<or> list_ex (\<lambda>part. part = ParentDir) (components p))
          [sv_tls_cert_path s, sv_tls_key_path s, sv_channel_key_path s]
      \<or> (sv_require_tls s = Some True \<and> \<not> direct_tls s \<and> \<not> sv_behind_tls_proxy s)
      \<or> ((direct_tls s \<or> sv_require_tls s = Some True)
          \<and> (\<not> se_secure_cookies session
             \<or> list_ex (\<lambda>origin. \<not> prefix ''https://'' origin) (sc_allowed_origins security)))
      \<or> (sv_require_tls s = Some True \<and> sv_behind_tls_proxy s
          \<and> (case parse_socket_ip (sv_bind_addr s) of None \<Rightarrow> True | Some ip \<Rightarrow> \<not> is_loopback ip)))"

section \<open>Validation of the whole\<close>

record UriView =
  uri_scheme_str :: "string option"
  uri_authority :: "string option"
  uri_query :: "string option"
  uri_path :: string

definition storage_invalid :: "AppConfig \<Rightarrow> bool" where
  "storage_invalid c \<longleftrightarrow>
     (let st = cfg_system_storage c in
      ss_max_metadata_db_bytes st < 16 * 1024 * 1024
      \<or> ss_max_metadata_db_bytes st > 64 * 1024 * 1024 * 1024
      \<or> ss_max_staging_bytes st < max_in_flight_upload (cfg_limits c)
      \<or> ss_max_staging_bytes st > 64 * 1024 * 1024 * 1024
      \<or> ss_staging_min_free_bytes st < 64 * 1024 * 1024
      \<or> ss_upload_resume_seconds st > 86400
      \<or> \<not> (1 \<le> ss_max_staging_transfers st \<and> ss_max_staging_transfers st \<le> 4096))"

definition audit_invalid :: "AuditConfig \<Rightarrow> bool" where
  "audit_invalid a \<longleftrightarrow>
     (case au_retention_hours a of None \<Rightarrow> False | Some hours \<Rightarrow> hours = 0 \<or> hours > 876000)
     \<or> au_max_file_bytes a < 1024
     \<or> au_max_file_bytes a > 1024 * 1024 * 1024
     \<or> au_max_archives a > 1000
     \<or> (case au_retention_days a of None \<Rightarrow> False | Some days \<Rightarrow> days = 0 \<or> days > 36500)
     \<or> (case au_path a of None \<Rightarrow> False
        | Some p \<Rightarrow> \<not> is_absolute p \<or> path_file_name p = None
            \<or> list_ex (\<lambda>q. q = ParentDir) (components p))"

definition limits_invalid :: "AppConfig \<Rightarrow> bool" where
  "limits_invalid c \<longleftrightarrow>
     (let l = cfg_limits c in
      max_chunk_size l = 0
      \<or> max_chunk_size l > MAX_CHUNK_SIZE
      \<or> max_frame_payload l = 0
      \<or> max_frame_payload l > MAX_FRAME_PAYLOAD
      \<or> max_control_payload l = 0
      \<or> max_control_payload l > max_frame_payload l
      \<or> max_chunk_size l + RAW_CHUNK_HEADER_LEN > max_frame_payload l
      \<or> max_text_edit_size l = 0
      \<or> max_text_edit_size l > max_control_payload l div 2
      \<or> max_in_flight_upload l = 0
      \<or> max_in_flight_upload l > MAX_UPLOAD_FILE_BYTES
      \<or> max_directory_page_size l = 0
      \<or> max_directory_page_size l > MAX_DIRECTORY_PAGE_SIZE
      \<or> default_directory_page_size l = 0
      \<or> default_directory_page_size l > max_directory_page_size l
      \<or> se_idle_timeout_seconds (cfg_session c) = 0
      \<or> se_absolute_timeout_seconds (cfg_session c) < se_idle_timeout_seconds (cfg_session c)
      \<or> rl_max_login_failures (cfg_rate_limit c) = 0
      \<or> rl_lockout_duration_seconds (cfg_rate_limit c) = 0
      \<or> hc_timeout_seconds (cfg_helper c) = 0
      \<or> hc_timeout_seconds (cfg_helper c) > 3600
      \<or> sr_default_max_results (cfg_search c) = 0
      \<or> sr_default_max_results (cfg_search c) > sr_max_results_limit (cfg_search c)
      \<or> sr_max_results_limit (cfg_search c) > 10000
      \<or> sr_max_depth (cfg_search c) > 128)"

text \<open>The loop over the roots; \<open>ids\<close> is the hash set of identifiers seen so far.\<close>

fun validate_roots :: "RootId list \<Rightarrow> AllowedRoot list \<Rightarrow> unit td_result" where
  "validate_roots ids [] = Inr ()"
| "validate_roots ids (root # roots) =
     (if root_root_id root = []
         \<or> \<not> list_all (\<lambda>b. is_ascii_alphanumeric b \<or> b = CHR ''-'' \<or> b = CHR ''_'') (root_root_id root)
         \<or> root_root_id root \<in> set ids
         \<or> \<not> is_absolute (root_base_path root)
         \<or> list_ex (\<lambda>p. p = ParentDir) (components (root_base_path root))
      then Inl TealDriveError.Validation
      else validate_roots (root_root_id root # ids) roots)"

definition validate_origin :: "(string \<Rightarrow> UriView option) \<Rightarrow> string \<Rightarrow> unit td_result" where
  "validate_origin uri origin =
     and_then (ok_or (uri origin) TealDriveError.Validation) (\<lambda>u. reject_if
       (\<not> (uri_scheme_str u = Some ''https'' \<or> uri_scheme_str u = Some ''http'')
        \<or> uri_authority u = None
        \<or> uri_query u \<noteq> None
        \<or> uri_path u \<noteq> ''/''))"

text \<open>The checks before the home template is looked at, and those after it.\<close>

definition validate_head :: "AppConfig \<Rightarrow> unit td_result" where
  "validate_head c =
     and_then (reject_if (case sv_channel_key_path (cfg_server c) of None \<Rightarrow> False
        | Some p \<Rightarrow> \<not> is_absolute p \<or> sv_require_tls (cfg_server c) \<noteq> Some True)) (\<lambda>_.
     and_then (reject_if (storage_invalid c)) (\<lambda>_.
     and_then (validate_transport (cfg_server c) (cfg_session c) (cfg_security c)) (\<lambda>_.
     and_then (reject_if (sv_require_tls (cfg_server c) = Some True
        \<and> sv_behind_tls_proxy (cfg_server c) \<and> px_trusted_proxies (cfg_proxy c) = [])) (\<lambda>_.
     and_then (WebAccountsConfig_validate (cfg_web_accounts c)) (\<lambda>_.
     and_then (ControlAuditConfig_validate (cfg_control_audit c)) (\<lambda>_.
     and_then (JournalConfig_validate (cfg_journal c)) (\<lambda>_.
     and_then (LifecycleConfig_validate (cfg_lifecycle c)) (\<lambda>_.
     and_then (VirtualConfig_validate (cfg_virtual_accounts c) (wa_enabled (cfg_web_accounts c))) (\<lambda>_.
     and_then (reject_if (vc_enforcement (cfg_virtual_accounts c) = UserQuota
        \<and> (case Option.bind (cfg_home_template c) root_quota_bytes of None \<Rightarrow> False
           | Some b \<Rightarrow> b < 4096 \<or> b mod 1024 \<noteq> 0))) (\<lambda>_.
     and_then (AccessPolicy_validate (cfg_access_policy c)) (\<lambda>_.
     reject_if (\<not> (1 \<le> cfg_quota_warning_percent c \<and> cfg_quota_warning_percent c \<le> 100)))))))))))))"

definition validate_tail :: "(string \<Rightarrow> UriView option) \<Rightarrow> AppConfig \<Rightarrow> unit td_result" where
  "validate_tail uri c =
     and_then (reject_if (cfg_roots c = [])) (\<lambda>_.
     and_then (reject_if (parse_socket_ip (sv_bind_addr (cfg_server c)) = None)) (\<lambda>_.
     and_then (reject_if (audit_invalid (cfg_audit c))) (\<lambda>_.
     and_then (reject_if (\<not> ProxyConfig_validate (cfg_proxy c)
        \<or> \<not> AccountPolicyConfig_validate (cfg_account_policy c))) (\<lambda>_.
     and_then (reject_if (limits_invalid c)) (\<lambda>_.
     and_then (validate_roots [] (cfg_roots c)) (\<lambda>_.
     try_all (validate_origin uri) (sc_allowed_origins (cfg_security c))))))))"

function AppConfig_validate :: "(string \<Rightarrow> UriView option) \<Rightarrow> AppConfig \<Rightarrow> unit td_result" where
  "AppConfig_validate uri c =
     and_then (validate_head c) (\<lambda>_.
       case cfg_home_template c of
         Some template \<Rightarrow>
           if \<not> wa_enabled (cfg_web_accounts c) \<or> cfg_roots c \<noteq> [] then Inl TealDriveError.Validation
           else AppConfig_validate uri (c\<lparr>cfg_home_template := None,
             cfg_roots := [template\<lparr>root_base_path := ''/home/verified-account''\<rparr>]\<rparr>)
       | None \<Rightarrow> validate_tail uri c)"
  by pat_completeness auto
termination
  by (relation "measure (\<lambda>(_, c). if cfg_home_template c = None then 0 else 1)") auto

declare AppConfig_validate.simps [simp del]

section \<open>What validation guarantees\<close>

lemma reject_if_ok [simp, result_simps]: "reject_if b = Inr () \<longleftrightarrow> \<not> b"
  by (simp add: reject_if_def)

lemma reject_if_cases [result_simps]: "reject_if False = Inr ()" "reject_if True = Inl TealDriveError.Validation"
  by (simp_all add: reject_if_def)

text \<open>The root list that a valid configuration is checked with: its own, or the template with the
  placeholder home.\<close>

definition effective_roots :: "AppConfig \<Rightarrow> AllowedRoot list" where
  "effective_roots c =
     (case cfg_home_template c of
        Some t \<Rightarrow> [t\<lparr>root_base_path := ''/home/verified-account''\<rparr>] | None \<Rightarrow> cfg_roots c)"

definition materialized :: "AppConfig \<Rightarrow> AppConfig" where
  "materialized c = c\<lparr>cfg_home_template := None, cfg_roots := effective_roots c\<rparr>"

lemma materialized_id: "cfg_home_template c = None \<Longrightarrow> materialized c = c"
  by (simp add: materialized_def effective_roots_def)

lemma materialized_fields [simp]:
  "cfg_limits (materialized c) = cfg_limits c" "cfg_session (materialized c) = cfg_session c"
  "cfg_server (materialized c) = cfg_server c" "cfg_proxy (materialized c) = cfg_proxy c"
  "cfg_security (materialized c) = cfg_security c" "cfg_roots (materialized c) = effective_roots c"
  "cfg_system_storage (materialized c) = cfg_system_storage c"
  "cfg_rate_limit (materialized c) = cfg_rate_limit c" "cfg_helper (materialized c) = cfg_helper c"
  "cfg_search (materialized c) = cfg_search c"
  "cfg_account_policy (materialized c) = cfg_account_policy c"
  "cfg_access_policy (materialized c) = cfg_access_policy c"
  by (simp_all add: materialized_def)

lemma AppConfig_validate_parts:
  "AppConfig_validate uri c = Inr () \<Longrightarrow>
     validate_head c = Inr () \<and> validate_tail uri (materialized c) = Inr ()"
proof (induction uri c rule: AppConfig_validate.induct)
  case (1 uri c)
  show ?case
  proof (cases "cfg_home_template c")
    case None
    then show ?thesis
      using "1.prems" by (simp add: AppConfig_validate.simps [of uri c] and_then_Inr materialized_id)
  next
    case (Some t)
    then show ?thesis
      using "1.prems" "1.IH"
      by (simp add: AppConfig_validate.simps [of uri c] and_then_Inr
          materialized_def effective_roots_def split: if_splits)
  qed
qed

lemma validate_roots_ok:
  "validate_roots ids roots = Inr () \<Longrightarrow>
     distinct (map root_root_id roots) \<and> set ids \<inter> root_root_id ` set roots = {}
     \<and> (\<forall>r \<in> set roots. root_root_id r \<noteq> [] \<and> is_absolute (root_base_path r)
          \<and> ParentDir \<notin> set (components (root_base_path r)))"
proof (induction roots arbitrary: ids)
  case Nil
  then show ?case by simp
next
  case (Cons r roots)
  have r: "root_root_id r \<noteq> []" "root_root_id r \<notin> set ids" "is_absolute (root_base_path r)"
      "ParentDir \<notin> set (components (root_base_path r))"
    and rest: "validate_roots (root_root_id r # ids) roots = Inr ()"
    using Cons.prems by (simp_all add: list_ex_iff split: if_splits)
  from Cons.IH [OF rest] r show ?case by auto
qed

text \<open>The accepted limits, read off the guards.\<close>

lemma limits_valid:
  "\<not> limits_invalid c \<Longrightarrow>
     (let l = cfg_limits c in
      0 < max_chunk_size l \<and> max_chunk_size l + RAW_CHUNK_HEADER_LEN \<le> max_frame_payload l
      \<and> max_frame_payload l \<le> MAX_FRAME_PAYLOAD \<and> max_control_payload l \<le> max_frame_payload l
      \<and> 0 < max_text_edit_size l \<and> 2 * max_text_edit_size l \<le> max_control_payload l
      \<and> 0 < default_directory_page_size l
      \<and> default_directory_page_size l \<le> max_directory_page_size l
      \<and> max_chunk_size l \<le> MAX_CHUNK_SIZE)
     \<and> 0 < se_idle_timeout_seconds (cfg_session c)
     \<and> se_idle_timeout_seconds (cfg_session c) \<le> se_absolute_timeout_seconds (cfg_session c)
     \<and> 0 < rl_max_login_failures (cfg_rate_limit c) \<and> 0 < rl_lockout_duration_seconds (cfg_rate_limit c)"
  by (auto simp: limits_invalid_def Let_def)

lemma parse_socket_default: "parse_socket_ip ''127.0.0.1:3000'' = Some (V4 0x7F000001)"
  by (simp add: parse_socket_ip_def net_eval read_port_def)

lemma AppConfig_default_head: "validate_head AppConfig_default = Inr ()"
  by (simp add: validate_head_def config_defaults storage_invalid_def limit_defs validate_transport_def
      direct_tls_def WebAccountsConfig_validate_def ControlAuditConfig_validate_def
      JournalConfig_validate_def LifecycleConfig_validate_def VirtualConfig_validate_def
      AccessPolicy_validate_def bad_component_name_def reject_if_cases)

lemma AppConfig_default_tail: "validate_tail uri AppConfig_default = Inr ()"
  by (simp add: validate_tail_def config_defaults parse_socket_default audit_invalid_def
      ProxyConfig_validate_def AccountPolicyConfig_validate_def limits_invalid_def limit_defs
      RAW_CHUNK_HEADER_LEN_def is_ascii_alphanumeric_def components_def reject_if_cases)

lemma AppConfig_default_valid: "AppConfig_validate uri AppConfig_default = Inr ()"
proof -
  have "cfg_home_template AppConfig_default = None" by (simp add: AppConfig_default_def)
  then show ?thesis
    by (simp add: AppConfig_validate.simps AppConfig_default_head AppConfig_default_tail)
qed

section \<open>Properties\<close>

text \<open>The built-in configuration passes its own validation, whatever the URI parser does, so a
  server started without a configuration file starts.\<close>

theorem default_config_validates: "AppConfig_validate uri AppConfig_default = Inr ()"
  by (rule AppConfig_default_valid)

text \<open>C36: a configuration that requires TLS and validates is safe to serve. Either the server
  terminates TLS itself, or it sits behind a TLS proxy, listens on a loopback address only and names
  the proxies it trusts; in both cases session cookies are secure and every allowed origin is an
  https origin.\<close>

theorem required_tls_is_enforced:
  assumes "AppConfig_validate uri c = Inr ()"
    and "sv_require_tls (cfg_server c) = Some True"
  shows "(direct_tls (cfg_server c) \<and> \<not> sv_behind_tls_proxy (cfg_server c)
          \<or> sv_behind_tls_proxy (cfg_server c) \<and> px_trusted_proxies (cfg_proxy c) \<noteq> []
            \<and> (\<exists>ip. parse_socket_ip (sv_bind_addr (cfg_server c)) = Some ip \<and> is_loopback ip))
         \<and> se_secure_cookies (cfg_session c)
         \<and> list_all (prefix ''https://'') (sc_allowed_origins (cfg_security c))"
proof -
  have head: "validate_head c = Inr ()"
    using AppConfig_validate_parts [OF assms(1)] by simp
  then have tr: "validate_transport (cfg_server c) (cfg_session c) (cfg_security c) = Inr ()"
    and px: "sv_behind_tls_proxy (cfg_server c) \<Longrightarrow> px_trusted_proxies (cfg_proxy c) \<noteq> []"
    using assms(2) by (auto simp: validate_head_def and_then_Inr)
  show ?thesis
    using tr px assms(2)
    by (auto simp: validate_transport_def list_ex_iff list_all_iff split: option.splits)
qed

text \<open>validation makes the size limits consistent. A chunk of the maximal size fits a frame
  together with its header, a frame fits the protocol maximum, a text edit fits a control payload
  twice over, the default page size is at most the maximal one, the idle timeout is at most the
  absolute one, one upload fits the staging area, and the roots have distinct identifiers and
  absolute base paths with no parent component. This includes configurations with a home template.\<close>

theorem validated_config_consistent:
  assumes "AppConfig_validate uri c = Inr ()"
  shows "0 < max_chunk_size (cfg_limits c)
     \<and> max_chunk_size (cfg_limits c) + RAW_CHUNK_HEADER_LEN \<le> max_frame_payload (cfg_limits c)
     \<and> max_frame_payload (cfg_limits c) \<le> MAX_FRAME_PAYLOAD
     \<and> 2 * max_text_edit_size (cfg_limits c) \<le> max_control_payload (cfg_limits c)
     \<and> default_directory_page_size (cfg_limits c) \<le> max_directory_page_size (cfg_limits c)
     \<and> se_idle_timeout_seconds (cfg_session c) \<le> se_absolute_timeout_seconds (cfg_session c)
     \<and> max_in_flight_upload (cfg_limits c) \<le> ss_max_staging_bytes (cfg_system_storage c)
     \<and> distinct (map root_root_id (effective_roots c))
     \<and> list_all (\<lambda>r. is_absolute (root_base_path r) \<and> ParentDir \<notin> set (components (root_base_path r)))
         (effective_roots c)"
proof -
  have "\<not> storage_invalid c" "\<not> limits_invalid (materialized c)"
    and roots: "validate_roots [] (effective_roots c) = Inr ()"
    using AppConfig_validate_parts [OF assms]
    by (auto simp: validate_head_def validate_tail_def and_then_Inr)
  then show ?thesis
    using limits_valid [of "materialized c"] validate_roots_ok [OF roots]
    by (auto simp: storage_invalid_def Let_def list_all_iff)
qed

text \<open>A configuration behind a TLS proxy that requires TLS.\<close>

definition example_tls_config :: AppConfig where
  "example_tls_config = AppConfig_default
     \<lparr>cfg_server := ServerConfig_default\<lparr>sv_require_tls := Some True\<rparr>,
      cfg_proxy := ProxyConfig_default\<lparr>px_trusted_proxies := [''127.0.0.1'']\<rparr>\<rparr>"

lemma example_tls_head: "validate_head example_tls_config = Inr ()"
  by (simp add: example_tls_config_def validate_head_def config_defaults storage_invalid_def limit_defs
      validate_transport_def direct_tls_def WebAccountsConfig_validate_def
      ControlAuditConfig_validate_def JournalConfig_validate_def LifecycleConfig_validate_def
      VirtualConfig_validate_def AccessPolicy_validate_def bad_component_name_def reject_if_cases
      parse_socket_default is_loopback_def)

lemma example_tls_tail: "validate_tail uri example_tls_config = Inr ()"
  by (simp add: example_tls_config_def validate_tail_def config_defaults parse_socket_default
      audit_invalid_def ProxyConfig_validate_def AccountPolicyConfig_validate_def limits_invalid_def
      limit_defs RAW_CHUNK_HEADER_LEN_def is_ascii_alphanumeric_def components_def reject_if_cases
      network_def parse_ip_def read_ip_addr_def read_ipv4_addr_Suc read_separator_def read_number_def
      read_given_char_def number_of_def is_digit_def split_once_def)

lemma example_tls_valid: "AppConfig_validate uri example_tls_config = Inr ()"
proof -
  have "cfg_home_template example_tls_config = None"
    by (simp add: example_tls_config_def AppConfig_default_def)
  then show ?thesis
    by (simp add: AppConfig_validate.simps example_tls_head example_tls_tail)
qed

theorem required_tls_is_enforced_witness:
  "se_secure_cookies (cfg_session example_tls_config)
   \<and> sv_require_tls (cfg_server example_tls_config) = Some True"
proof -
  have "sv_require_tls (cfg_server example_tls_config) = Some True"
    by (simp add: example_tls_config_def config_defaults)
  with required_tls_is_enforced [OF example_tls_valid [of "\<lambda>_. None"]] show ?thesis by simp
qed

theorem validated_config_consistent_witness:
  "max_chunk_size (cfg_limits example_tls_config) + RAW_CHUNK_HEADER_LEN
     \<le> max_frame_payload (cfg_limits example_tls_config)"
  using validated_config_consistent [OF example_tls_valid [of "\<lambda>_. None"]] by simp

end
