(* ===== verification/TD_RateLimit.thy ===== *)
theory TD_RateLimit
  imports TD_Config
begin

text \<open>
  Login rate limiting: the in-memory limiter of the network tier (\<open>src/rate_limit/login.rs\<close>) and
  the durable reservations of the account store (\<open>src/accounts/limits.rs\<close>). The clock is an
  argument of the operations that read it.
\<close>

section \<open>The in-memory limiter\<close>

record LoginRateLimitKey =
  lk_username :: string
  lk_ip :: "string option"

datatype LoginRateLimitDecision = Allowed | Limited

record InMemoryLoginRateLimiter =
  li_max_failures :: nat
  li_lockout_duration_seconds :: nat
  li_failures :: "(LoginRateLimitKey \<times> (nat \<times> nat)) list"

definition with_lockout :: "nat \<Rightarrow> nat \<Rightarrow> InMemoryLoginRateLimiter" where
  "with_lockout max_failures lockout =
     \<lparr>li_max_failures = max_failures, li_lockout_duration_seconds = lockout, li_failures = []\<rparr>"

definition limiter_new :: "nat \<Rightarrow> InMemoryLoginRateLimiter" where
  "limiter_new max_failures = with_lockout max_failures 300"

definition set_limits :: "nat \<Rightarrow> nat \<Rightarrow> InMemoryLoginRateLimiter \<Rightarrow> InMemoryLoginRateLimiter" where
  "set_limits max_failures lockout l =
     l\<lparr>li_max_failures := max_failures, li_lockout_duration_seconds := lockout\<rparr>"

definition check_at ::
  "InMemoryLoginRateLimiter \<Rightarrow> LoginRateLimitKey \<Rightarrow> nat \<Rightarrow> nat \<Rightarrow> nat \<Rightarrow> LoginRateLimitDecision" where
  "check_at l key max_failures lockout now =
     (case map_of (li_failures l) key of
        Some (count, last_failed_at) \<Rightarrow>
          if now \<ge> last_failed_at \<and> now - last_failed_at > lockout then Allowed
          else if count \<ge> max_failures then Limited else Allowed
      | None \<Rightarrow> Allowed)"

definition limiter_check :: "InMemoryLoginRateLimiter \<Rightarrow> LoginRateLimitKey \<Rightarrow> nat \<Rightarrow> LoginRateLimitDecision" where
  "limiter_check l key now = check_at l key (li_max_failures l) (li_lockout_duration_seconds l) now"

definition MAX_RATE_LIMIT_ENTRIES :: nat where
  "MAX_RATE_LIMIT_ENTRIES = 10000"

definition limiter_cleanup :: "nat \<Rightarrow> InMemoryLoginRateLimiter \<Rightarrow> nat \<times> InMemoryLoginRateLimiter" where
  "limiter_cleanup now l =
     (let kept = filter (\<lambda>(_, _, last_failed_at). now - last_failed_at \<le> li_lockout_duration_seconds l)
            (li_failures l)
      in (length (li_failures l) - length kept, l\<lparr>li_failures := kept\<rparr>))"

text \<open>\<open>min_by_key\<close> on the time of the last failure: the first of the least elements.\<close>

fun oldest :: "(LoginRateLimitKey \<times> (nat \<times> nat)) list \<Rightarrow> (LoginRateLimitKey \<times> (nat \<times> nat)) option" where
  "oldest [] = None"
| "oldest (e # es) =
     (case oldest es of None \<Rightarrow> Some e
      | Some f \<Rightarrow> if snd (snd e) \<le> snd (snd f) then Some e else Some f)"

text \<open>Making room for a new key in a full table; \<open>None\<close> is the early return \<open>Limited\<close>.\<close>

definition make_room ::
  "LoginRateLimitKey \<Rightarrow> nat \<Rightarrow> InMemoryLoginRateLimiter
   \<Rightarrow> InMemoryLoginRateLimiter \<times> bool" where
  "make_room key now l =
     (if length (li_failures l) \<ge> MAX_RATE_LIMIT_ENTRIES
      then
        let l = snd (limiter_cleanup now l) in
        if length (li_failures l) \<ge> MAX_RATE_LIMIT_ENTRIES \<and> map_of (li_failures l) key = None
        then (case oldest (filter (\<lambda>(_, count, _). count < li_max_failures l) (li_failures l)) of
                None \<Rightarrow> (l, False)
              | Some (k, _) \<Rightarrow> (l\<lparr>li_failures := AList.delete k (li_failures l)\<rparr>, True))
        else (l, True)
      else (l, True))"

text \<open>The count is a \<open>u32\<close>, and its \<open>+= 1\<close> wraps.\<close>

definition bump :: "LoginRateLimitKey \<Rightarrow> nat \<Rightarrow> nat \<Rightarrow> InMemoryLoginRateLimiter \<Rightarrow> InMemoryLoginRateLimiter" where
  "bump key lockout now l =
     (let (count, last) = (case map_of (li_failures l) key of None \<Rightarrow> (0, now) | Some e \<Rightarrow> e);
          entry = (if now \<ge> last \<and> now - last > lockout then (1, now) else ((count + 1) mod 2 ^ 32, now))
      in l\<lparr>li_failures := AList.update key entry (li_failures l)\<rparr>)"

definition record_failure_at ::
  "LoginRateLimitKey \<Rightarrow> nat \<Rightarrow> nat \<Rightarrow> InMemoryLoginRateLimiter
   \<Rightarrow> LoginRateLimitDecision \<times> InMemoryLoginRateLimiter" where
  "record_failure_at key lockout now l =
     (case make_room key now l of
        (l, False) \<Rightarrow> (Limited, l)
      | (l, True) \<Rightarrow>
          let l = bump key lockout now l
          in (check_at l key (li_max_failures l) lockout now, l))"

definition record_failure ::
  "LoginRateLimitKey \<Rightarrow> nat \<Rightarrow> InMemoryLoginRateLimiter
   \<Rightarrow> LoginRateLimitDecision \<times> InMemoryLoginRateLimiter" where
  "record_failure key now l = record_failure_at key (li_lockout_duration_seconds l) now l"

definition record_success :: "LoginRateLimitKey \<Rightarrow> InMemoryLoginRateLimiter \<Rightarrow> InMemoryLoginRateLimiter" where
  "record_success key l = l\<lparr>li_failures := AList.delete key (li_failures l)\<rparr>"

section \<open>Invariant and lockouts\<close>

definition limiter_inv :: "InMemoryLoginRateLimiter \<Rightarrow> bool" where
  "limiter_inv l \<longleftrightarrow>
     distinct (map fst (li_failures l)) \<and> length (li_failures l) \<le> MAX_RATE_LIMIT_ENTRIES"

lemma oldest_mem: "oldest es = Some e \<Longrightarrow> e \<in> set es"
  by (induction es arbitrary: e) (auto split: option.splits if_splits)

lemma cleanup_inv: "limiter_inv l \<Longrightarrow> limiter_inv (snd (limiter_cleanup now l))"
  by (auto simp: limiter_inv_def limiter_cleanup_def distinct_map_filter Let_def
      intro: order.trans [OF length_filter_le])

lemma cleanup_keeps:
  assumes "limiter_inv l" and "map_of (li_failures l) k = Some (c, t)"
    and "now - t \<le> li_lockout_duration_seconds l"
  shows "map_of (li_failures (snd (limiter_cleanup now l))) k = Some (c, t)"
  using assms by (auto simp: limiter_cleanup_def limiter_inv_def Let_def intro!: map_of_filter_keep)

lemma make_room_inv:
  assumes "limiter_inv l" and "make_room key now l = (l', ok)"
  shows "limiter_inv l' \<and> li_max_failures l' = li_max_failures l
     \<and> li_lockout_duration_seconds l' = li_lockout_duration_seconds l
     \<and> (ok \<longrightarrow> map_of (li_failures l') key \<noteq> None \<or> length (li_failures l') < MAX_RATE_LIMIT_ENTRIES)"
proof -
  define c where "c = snd (limiter_cleanup now l)"
  have c: "limiter_inv c" "li_max_failures c = li_max_failures l"
      "li_lockout_duration_seconds c = li_lockout_duration_seconds l"
    using cleanup_inv [OF assms(1)] by (simp_all add: c_def limiter_cleanup_def Let_def)
  have shorter: "(k, v) \<in> set (li_failures c) \<Longrightarrow>
      length (AList.delete k (li_failures c)) < MAX_RATE_LIMIT_ENTRIES" for k v
    using length_delete_less [of "li_failures c" k] c(1)
    by (force simp: limiter_inv_def map_of_eq_None_iff)
  show ?thesis
    using assms c
    unfolding make_room_def Let_def c_def [symmetric]
    by (auto simp: limiter_inv_def distinct_delete split: if_splits option.splits
        dest!: oldest_mem dest: shorter intro: less_imp_le [OF shorter])
qed

lemma make_room_keeps:
  assumes inv: "limiter_inv l" and k: "map_of (li_failures l) k = Some (c, t)"
    and "li_max_failures l \<le> c" and t: "now - t \<le> li_lockout_duration_seconds l"
    and "make_room key now l = (l', ok)"
  shows "map_of (li_failures l') k = Some (c, t)"
proof -
  define d where "d = snd (limiter_cleanup now l)"
  have d: "map_of (li_failures d) k = Some (c, t)" "limiter_inv d" "li_max_failures d = li_max_failures l"
    using cleanup_keeps [OF inv k t] cleanup_inv [OF inv]
    by (simp_all add: d_def limiter_cleanup_def Let_def)
  have other: "j \<noteq> k" if "(j, a, b) \<in> set (li_failures d)" "a < li_max_failures d" for j a b
  proof
    assume "j = k"
    moreover have "map_of (li_failures d) j = Some (a, b)"
      using that(1) d(2) by (simp add: limiter_inv_def)
    ultimately show False using that(2) d assms(3) by simp
  qed
  show ?thesis
    using assms(5) k d(1)
    unfolding make_room_def Let_def d_def [symmetric]
    by (auto simp: delete_conv' split: if_splits option.splits dest!: oldest_mem dest: other)
qed

lemma bump_inv:
  "limiter_inv l \<Longrightarrow> map_of (li_failures l) key \<noteq> None \<or> length (li_failures l) < MAX_RATE_LIMIT_ENTRIES \<Longrightarrow>
     limiter_inv (bump key lockout now l)"
  by (auto simp: limiter_inv_def bump_def Let_def length_update distinct_update split: prod.splits)

lemma bump_keeps:
  "key \<noteq> k \<Longrightarrow> map_of (li_failures (bump key lockout now l)) k = map_of (li_failures l) k"
  by (simp add: bump_def Let_def split: prod.splits)

lemma bump_limits [simp]:
  "li_max_failures (bump key lockout now l) = li_max_failures l"
  "li_lockout_duration_seconds (bump key lockout now l) = li_lockout_duration_seconds l"
  by (simp_all add: bump_def Let_def split: prod.splits)

lemma record_failure_cases:
  assumes "record_failure_at key lockout now l = (d, l')"
  obtains r ok where "make_room key now l = (r, ok)" and "l' = (if ok then bump key lockout now r else r)"
    and "d = (if ok then check_at (bump key lockout now r) key (li_max_failures r) lockout now else Limited)"
  using assms unfolding record_failure_at_def Let_def
  by (cases "make_room key now l") (auto split: bool.splits)

lemma record_failure_inv:
  assumes "limiter_inv l" and "record_failure_at key lockout now l = (d, l')"
  shows "limiter_inv l' \<and> li_max_failures l' = li_max_failures l
     \<and> li_lockout_duration_seconds l' = li_lockout_duration_seconds l"
  using assms(2)
proof (rule record_failure_cases)
  fix r ok
  assume r: "make_room key now l = (r, ok)" and l': "l' = (if ok then bump key lockout now r else r)"
  from make_room_inv [OF assms(1) r] show ?thesis
    by (cases ok) (simp_all add: l' bump_inv)
qed

lemma record_failure_keeps:
  assumes "limiter_inv l" and "map_of (li_failures l) k = Some (c, t)"
    and "li_max_failures l \<le> c" and "now - t \<le> li_lockout_duration_seconds l"
    and "record_failure_at key lockout now l = (d, l')" and "key \<noteq> k"
  shows "map_of (li_failures l') k = Some (c, t)"
  using assms(5)
proof (rule record_failure_cases)
  fix r ok
  assume r: "make_room key now l = (r, ok)" and l': "l' = (if ok then bump key lockout now r else r)"
  from make_room_keeps [OF assms(1-4) r] show ?thesis
    by (cases ok) (simp_all add: l' bump_keeps [OF assms(6)])
qed

lemma record_failure_free:
  "length (li_failures l) < MAX_RATE_LIMIT_ENTRIES \<Longrightarrow>
     snd (record_failure k now l) = bump k (li_lockout_duration_seconds l) now l"
  by (simp add: record_failure_def record_failure_at_def make_room_def Let_def)

text \<open>A flood of failures for other keys, each at its own time.\<close>

definition flood :: "(LoginRateLimitKey \<times> nat) list \<Rightarrow> InMemoryLoginRateLimiter \<Rightarrow> InMemoryLoginRateLimiter" where
  "flood fs l = fold (\<lambda>(key, now) l. snd (record_failure key now l)) fs l"

lemma flood_keeps:
  assumes "limiter_inv l" and "map_of (li_failures l) k = Some (c, t)" and "li_max_failures l \<le> c"
    and "\<forall>(key, now) \<in> set fs. key \<noteq> k \<and> now - t \<le> li_lockout_duration_seconds l"
  shows "limiter_inv (flood fs l) \<and> map_of (li_failures (flood fs l)) k = Some (c, t)
     \<and> li_max_failures (flood fs l) = li_max_failures l
     \<and> li_lockout_duration_seconds (flood fs l) = li_lockout_duration_seconds l"
  using assms
proof (induction fs arbitrary: l)
  case Nil
  then show ?case by (simp add: flood_def)
next
  case (Cons f fs)
  obtain key now where f: "f = (key, now)" by (cases f)
  obtain d m where m: "record_failure_at key (li_lockout_duration_seconds l) now l = (d, m)"
    by (cases "record_failure_at key (li_lockout_duration_seconds l) now l")
  have step: "limiter_inv m" "li_max_failures m = li_max_failures l"
      "li_lockout_duration_seconds m = li_lockout_duration_seconds l"
      "map_of (li_failures m) k = Some (c, t)"
    using record_failure_inv [OF Cons.prems(1) m]
      record_failure_keeps [OF Cons.prems(1-3) _ m] Cons.prems(4) by (auto simp: f)
  have "flood (f # fs) l = flood fs m"
    by (simp add: flood_def f record_failure_def m)
  with Cons.IH [of m] step Cons.prems show ?case by simp
qed

section \<open>Properties\<close>

text \<open>C31: a flood of fresh keys never lifts a lockout and never grows the table past its bound. While
  a key is locked out, any number of failures recorded for other keys within the lockout leaves it
  limited, and the table keeps at most ten thousand entries, one per key.\<close>

theorem lockout_survives_flood:
  assumes "limiter_inv l" and "map_of (li_failures l) k = Some (c, t)" and "li_max_failures l \<le> c"
    and "\<forall>(key, now) \<in> set fs. key \<noteq> k \<and> now - t \<le> li_lockout_duration_seconds l"
    and "now - t \<le> li_lockout_duration_seconds l"
  shows "limiter_check (flood fs l) k now = Limited
     \<and> length (li_failures (flood fs l)) \<le> MAX_RATE_LIMIT_ENTRIES"
  using flood_keeps [OF assms(1-4)] assms(3,5)
  by (auto simp: limiter_check_def check_at_def limiter_inv_def)

text \<open>The limit is reached after the configured number of failures and not before. Starting from
  a key with no record in a table with room, \<open>n\<close> failures at the same time leave the key limited
  exactly when \<open>n\<close> is at least the maximum, and the lockout ends when its duration has passed.\<close>

theorem failures_reach_limit:
  assumes "map_of (li_failures l) k = None" and "length (li_failures l) < MAX_RATE_LIMIT_ENTRIES - 1"
    and "0 < n" and "n < 2 ^ 32" and "now \<le> later"
  shows "limiter_check (((\<lambda>l. snd (record_failure k now l)) ^^ n) l) k later =
     (if later - now \<le> li_lockout_duration_seconds l \<and> li_max_failures l \<le> n then Limited else Allowed)"
proof -
  have "map_of (li_failures (((\<lambda>l. snd (record_failure k now l)) ^^ Suc m) l)) k = Some (Suc m, now)
      \<and> length (li_failures (((\<lambda>l. snd (record_failure k now l)) ^^ Suc m) l)) = Suc (length (li_failures l))
      \<and> li_max_failures (((\<lambda>l. snd (record_failure k now l)) ^^ Suc m) l) = li_max_failures l
      \<and> li_lockout_duration_seconds (((\<lambda>l. snd (record_failure k now l)) ^^ Suc m) l)
          = li_lockout_duration_seconds l" if "Suc m < 2 ^ 32" for m
    using assms(1,2) that by (induction m) (simp_all add: record_failure_free bump_def length_update)
  then have "map_of (li_failures (((\<lambda>l. snd (record_failure k now l)) ^^ n) l)) k = Some (n, now)"
    and "li_max_failures (((\<lambda>l. snd (record_failure k now l)) ^^ n) l) = li_max_failures l"
    and "li_lockout_duration_seconds (((\<lambda>l. snd (record_failure k now l)) ^^ n) l)
      = li_lockout_duration_seconds l"
    using assms(3,4) by (cases n; blast)+
  with assms(5) show ?thesis by (simp add: limiter_check_def check_at_def)
qed

definition example_key :: "string \<Rightarrow> LoginRateLimitKey" where
  "example_key u = \<lparr>lk_username = u, lk_ip = None\<rparr>"

definition example_limiter :: InMemoryLoginRateLimiter where
  "example_limiter =
     \<lparr>li_max_failures = 5, li_lockout_duration_seconds = 300, li_failures = [(example_key ''bob'', 5, 100)]\<rparr>"

theorem lockout_survives_flood_witness:
  "limiter_check (flood [(example_key ''eve'', 200), (example_key ''mal'', 300)] example_limiter)
     (example_key ''bob'') 350 = Limited"
proof -
  have "limiter_inv example_limiter"
    by (simp add: limiter_inv_def example_limiter_def MAX_RATE_LIMIT_ENTRIES_def)
  then show ?thesis
    using lockout_survives_flood [of example_limiter "example_key ''bob''" 5 100
        "[(example_key ''eve'', 200), (example_key ''mal'', 300)]" 350]
    by (simp add: example_limiter_def example_key_def)
qed

theorem failures_reach_limit_witness:
  "limiter_check (((\<lambda>l. snd (record_failure (example_key ''eve'') 100 l)) ^^ 5) example_limiter)
     (example_key ''eve'') 200 = Limited"
  using failures_reach_limit [of example_limiter "example_key ''eve''" 5 100 200]
  by (simp add: example_limiter_def example_key_def MAX_RATE_LIMIT_ENTRIES_def)

end
