(* ===== verification/TD_Policy.thy ===== *)
theory TD_Policy
  imports TD_Config
begin

text \<open>
  The policy engine of the network tier: \<open>src/policy/feature_gate.rs\<close>, \<open>sensitive.rs\<close>,
  \<open>webroot.rs\<close> and \<open>decision.rs\<close>. The engine decides from names alone whether a request may be
  handed to the privileged helper.

  The \<open>uuid\<close> crate is the parameter \<open>uuid\<close>: the canonical text of a string that parses as a UUID.
\<close>

unbundle bit_operations_syntax

section \<open>Feature gate (\<open>feature_gate.rs\<close>)\<close>

datatype (plugins only: code size) DisabledOperation =
  SaveTextFile | ChmodFile | ExtractArchive | DeletePermanently | Chown

datatype FeatureGateResult = Allowed | Disabled DisabledOperation PolicyReason

definition FeatureGate_check :: "MessageType \<Rightarrow> FeatureFlags \<Rightarrow> FeatureGateResult" where
  "FeatureGate_check m fl =
     (let disabled =
        (case m of
           MessageType.SaveTextFile \<Rightarrow>
             if \<not> ff_save_text_file fl then Some DisabledOperation.SaveTextFile else None
         | MessageType.ChmodFile \<Rightarrow>
             if \<not> ff_chmod_file fl then Some DisabledOperation.ChmodFile else None
         | MessageType.ExtractArchive \<Rightarrow>
             if \<not> ff_extract_archive fl then Some DisabledOperation.ExtractArchive else None
         | MessageType.DeletePermanently \<Rightarrow>
             if \<not> ff_delete_permanently fl then Some DisabledOperation.DeletePermanently else None
         | _ \<Rightarrow> None)
      in case disabled of Some op \<Rightarrow> Disabled op PolicyReason.FeatureDisabled | None \<Rightarrow> Allowed)"

section \<open>Sensitive names (\<open>sensitive.rs\<close>)\<close>

record SensitiveMatch =
  sm_is_sensitive :: bool
  sm_matched_pattern :: "string option"
  sm_is_hidden :: bool

datatype SensitivePolicyDecision = Allow | Warn | Deny

definition pattern_matches :: "string \<Rightarrow> string \<Rightarrow> bool" where
  "pattern_matches file_name pat =
     (case strip_prefix ''*.'' pat of
        Some sfx \<Rightarrow> suffix (''.'' @ sfx) file_name
      | None \<Rightarrow>
          (case strip_suffix ''.*'' pat of
             Some pfx \<Rightarrow> file_name = pfx \<or> prefix (pfx @ ''.'') file_name
           | None \<Rightarrow> file_name = pat))"

fun first_match :: "string \<Rightarrow> string list \<Rightarrow> string option" where
  "first_match file_name [] = None"
| "first_match file_name (p # ps) =
     (if pattern_matches file_name (to_ascii_lowercase p) then Some p else first_match file_name ps)"

definition detect_sensitive :: "RelativePath \<Rightarrow> SensitivePolicyConfig \<Rightarrow> SensitiveMatch" where
  "detect_sensitive path config =
     (let file_name = to_ascii_lowercase (last (split_on slash path)) in
      case first_match file_name (sp_deny_edit_patterns config @ sp_warn_read_patterns config) of
        Some p \<Rightarrow> \<lparr>sm_is_sensitive = True, sm_matched_pattern = Some p,
                   sm_is_hidden = is_hidden_relative path\<rparr>
      | None \<Rightarrow> \<lparr>sm_is_sensitive = False, sm_matched_pattern = None,
                 sm_is_hidden = is_hidden_relative path\<rparr>)"

definition hidden_policy_decision :: "bool \<Rightarrow> RelativePath \<Rightarrow> SensitivePolicyDecision" where
  "hidden_policy_decision include_hidden path =
     (if is_hidden_relative path \<and> \<not> include_hidden then Deny else Allow)"

definition sensitive_read_decision ::
  "RelativePath \<Rightarrow> SensitivePolicyConfig \<Rightarrow> bool \<Rightarrow> SensitivePolicyDecision" where
  "sensitive_read_decision path config warning_only =
     (if sm_is_sensitive (detect_sensitive path config)
      then (if warning_only then Warn else Deny) else Allow)"

definition sensitive_edit_decision ::
  "RelativePath \<Rightarrow> SensitivePolicyConfig \<Rightarrow> SensitivePolicyDecision" where
  "sensitive_edit_decision path config =
     (if sm_is_sensitive (detect_sensitive path config) then Deny else Allow)"

section \<open>Web roots (\<open>webroot.rs\<close>)\<close>

datatype PolicyDecision = Allow | Deny PolicyReason | WarnAllowed PolicyReason

definition check_webroot_upload :: "bool \<Rightarrow> SafeFileName \<Rightarrow> WebRootPolicyConfig \<Rightarrow> PolicyDecision" where
  "check_webroot_upload is_webroot fname config =
     (if \<not> is_webroot \<or> \<not> wp_block_executable_uploads config then PolicyDecision.Allow
      else
        let extension = map_option (\<lambda>(_, ext). to_ascii_lowercase ext) (rsplit_once (CHR ''.'') fname)
        in if (case extension of None \<Rightarrow> False
               | Some ext \<Rightarrow> list_ex (\<lambda>blocked. blocked = ext) (wp_blocked_extensions config))
           then PolicyDecision.Deny PolicyReason.WebRootExecutableUpload else PolicyDecision.Allow)"

definition check_webroot_chmod_executable :: "bool \<Rightarrow> u32 \<Rightarrow> PolicyDecision" where
  "check_webroot_chmod_executable is_webroot mode =
     (if is_webroot \<and> mode AND 0x49 \<noteq> 0
      then PolicyDecision.Deny PolicyReason.WebRootExecutableUpload else PolicyDecision.Allow)"

definition check_webroot_archive_extract :: "bool \<Rightarrow> PolicyDecision" where
  "check_webroot_archive_extract is_webroot =
     (if is_webroot then PolicyDecision.Deny PolicyReason.WebRootExecutableUpload
      else PolicyDecision.Allow)"

section \<open>Operations (\<open>decision.rs\<close>)\<close>

datatype (plugins only: code size) FileOperation =
    ListDirectory | FileMetadata | ReadTextFile | DownloadFile | UploadFile | CreateFolder
  | RenameFile | MoveFile | CopyFile | MoveToTrash | RestoreFromTrash | DeletePermanently
  | ChmodFile | SaveTextFile | CompressZip | CompressTarGz | ExtractArchive | Chown

fun as_message_type :: "FileOperation \<Rightarrow> MessageType option" where
  "as_message_type FileOperation.ListDirectory = Some MessageType.ListDirectory"
| "as_message_type FileOperation.FileMetadata = Some MessageType.FileMetadataRequest"
| "as_message_type FileOperation.ReadTextFile = Some MessageType.ReadTextFile"
| "as_message_type FileOperation.DownloadFile = Some MessageType.DownloadBegin"
| "as_message_type FileOperation.UploadFile = Some MessageType.UploadBegin"
| "as_message_type FileOperation.CreateFolder = Some MessageType.CreateFolder"
| "as_message_type FileOperation.RenameFile = Some MessageType.RenameFile"
| "as_message_type FileOperation.MoveFile = Some MessageType.MoveFile"
| "as_message_type FileOperation.CopyFile = Some MessageType.CopyFile"
| "as_message_type FileOperation.MoveToTrash = Some MessageType.MoveToTrash"
| "as_message_type FileOperation.RestoreFromTrash = Some MessageType.RestoreFromTrash"
| "as_message_type FileOperation.DeletePermanently = Some MessageType.DeletePermanently"
| "as_message_type FileOperation.ChmodFile = Some MessageType.ChmodFile"
| "as_message_type FileOperation.SaveTextFile = Some MessageType.SaveTextFile"
| "as_message_type FileOperation.CompressZip = Some MessageType.CompressZip"
| "as_message_type FileOperation.CompressTarGz = Some MessageType.CompressTarGz"
| "as_message_type FileOperation.ExtractArchive = Some MessageType.ExtractArchive"
| "as_message_type FileOperation.Chown = None"

definition is_write :: "FileOperation \<Rightarrow> bool" where
  "is_write op \<longleftrightarrow>
     op \<in> {FileOperation.UploadFile, FileOperation.CreateFolder, FileOperation.RenameFile,
           FileOperation.MoveFile, FileOperation.CopyFile, FileOperation.MoveToTrash,
           FileOperation.RestoreFromTrash, FileOperation.DeletePermanently,
           FileOperation.ChmodFile, FileOperation.SaveTextFile, FileOperation.CompressZip,
           FileOperation.CompressTarGz, FileOperation.ExtractArchive, FileOperation.Chown}"

record PolicyAuditMetadata =
  pam_action :: FileOperation
  pam_root_id :: RootId
  pam_relative_path :: RelativePath
  pam_target_relative_path :: "RelativePath option"
  pam_reason :: PolicyReason
  pam_safe_message :: string

record PolicyEngine =
  pe_config :: AppConfig
  pe_username :: "string option"

definition PolicyEngine_new :: "AppConfig \<Rightarrow> PolicyEngine" where
  "PolicyEngine_new config = \<lparr>pe_config = config, pe_username = None\<rparr>"

definition for_user :: "PolicyEngine \<Rightarrow> string \<Rightarrow> PolicyEngine" where
  "for_user e username = \<lparr>pe_config = pe_config e, pe_username = Some username\<rparr>"

definition engine_user :: "PolicyEngine \<Rightarrow> string" where
  "engine_user e = (case pe_username e of Some u \<Rightarrow> u | None \<Rightarrow> [])"

definition ensure_visible :: "PolicyEngine \<Rightarrow> RootId \<Rightarrow> RelativePath \<Rightarrow> unit td_result" where
  "ensure_visible e root_id path =
     AccessPolicy_check (cfg_access_policy (pe_config e)) (engine_user e) root_id path Discover"

definition internal_trash_id :: "(string \<Rightarrow> string option) \<Rightarrow> RelativePath \<Rightarrow> string option" where
  "internal_trash_id uuid path =
     Option.bind (strip_prefix ''.tealdrive-trash/files/'' path) (\<lambda>i.
     Option.bind (uuid i) (\<lambda>text. if text = i then Some i else None))"

definition check_root_operation :: "FileOperation \<Rightarrow> AllowedRoot \<Rightarrow> PolicyDecision option" where
  "check_root_operation op root =
     (if root_read_only root \<and> is_write op
      then Some (PolicyDecision.Deny PolicyReason.ReadOnlyRoot) else None)"

text \<open>The \<open>match\<close> on the operation: \<open>Some\<close> is an early return.\<close>

definition operation_rules ::
  "AppConfig \<Rightarrow> FileOperation \<Rightarrow> AllowedRoot \<Rightarrow> RelativePath \<Rightarrow> SafeFileName option \<Rightarrow> PolicyDecision option" where
  "operation_rules config op root path fname =
     (let sensitive = cfg_sensitive_policy config;
          edit_denied = (sensitive_edit_decision path sensitive = SensitivePolicyDecision.Deny);
          deny = Some (PolicyDecision.Deny PolicyReason.SensitivePath)
      in case op of
           FileOperation.ReadTextFile \<Rightarrow>
             (case sensitive_read_decision path sensitive False of
                SensitivePolicyDecision.Deny \<Rightarrow> deny
              | Warn \<Rightarrow> Some (PolicyDecision.WarnAllowed PolicyReason.SensitivePath)
              | SensitivePolicyDecision.Allow \<Rightarrow> None)
         | FileOperation.DownloadFile \<Rightarrow>
             (if sensitive_read_decision path sensitive True = Warn
              then Some (PolicyDecision.WarnAllowed PolicyReason.SensitivePath) else None)
         | FileOperation.SaveTextFile \<Rightarrow> (if edit_denied then deny else None)
         | FileOperation.ChmodFile \<Rightarrow> (if edit_denied then deny else None)
         | FileOperation.UploadFile \<Rightarrow>
             (case fname of
                Some f \<Rightarrow> Some (check_webroot_upload (root_is_web_root root) f (cfg_webroot_policy config))
              | None \<Rightarrow> None)
         | FileOperation.CompressZip \<Rightarrow> (if edit_denied then deny else None)
         | FileOperation.CompressTarGz \<Rightarrow> (if edit_denied then deny else None)
         | FileOperation.ExtractArchive \<Rightarrow>
             (if edit_denied then deny
              else Some (check_webroot_archive_extract (root_is_web_root root)))
         | _ \<Rightarrow> None)"

definition target_of :: "RelativePath \<Rightarrow> SafeFileName \<Rightarrow> RelativePath" where
  "target_of path name = (if path = [] then name else path @ ''/'' @ name)"

definition feature_denied :: "FeatureFlags \<Rightarrow> FileOperation \<Rightarrow> bool" where
  "feature_denied fl op \<longleftrightarrow>
     (op = FileOperation.Chown \<and> \<not> ff_chown fl)
     \<or> (case as_message_type op of None \<Rightarrow> False | Some m \<Rightarrow> FeatureGate_check m fl \<noteq> Allowed)"

definition check_operation ::
  "(string \<Rightarrow> string option) \<Rightarrow> PolicyEngine \<Rightarrow> FileOperation \<Rightarrow> RootId \<Rightarrow> RelativePath
   \<Rightarrow> RelativePath option \<Rightarrow> SafeFileName option \<Rightarrow> bool \<Rightarrow> PolicyDecision td_result" where
  "check_operation uuid e op root_id path target fname include_hidden =
     (let config = pe_config e;
          internal_delete = (op = FileOperation.DeletePermanently \<and> internal_trash_id uuid path \<noteq> None)
      in and_then
           (if \<not> internal_delete \<and> op \<noteq> FileOperation.RestoreFromTrash
            then ensure_visible e root_id path else Inr ()) (\<lambda>_.
         and_then
           (case target of
              Some t \<Rightarrow> ensure_visible e root_id t
            | None \<Rightarrow>
                (case fname of Some n \<Rightarrow> ensure_visible e root_id (target_of path n) | None \<Rightarrow> Inr ())) (\<lambda>_.
         if feature_denied (cfg_features config) op
         then Inr (PolicyDecision.Deny PolicyReason.FeatureDisabled)
         else and_then (require_allowed_root (cfg_roots config) root_id) (\<lambda>root.
           case check_root_operation op root of
             Some d \<Rightarrow> Inr d
           | None \<Rightarrow>
               let is_trash_delete = (op = FileOperation.DeletePermanently
                     \<and> prefix ''.tealdrive-trash/files/'' path)
               in if \<not> is_trash_delete \<and> hidden_policy_decision include_hidden path = SensitivePolicyDecision.Deny
                  then Inr (PolicyDecision.Deny PolicyReason.HiddenFile)
                  else (case operation_rules config op root path fname of
                     Some d \<Rightarrow> Inr d
                   | None \<Rightarrow>
                       (case target of
                          None \<Rightarrow> Inr PolicyDecision.Allow
                        | Some t \<Rightarrow>
                            if hidden_policy_decision include_hidden t = SensitivePolicyDecision.Deny
                            then Inr (PolicyDecision.Deny PolicyReason.HiddenFile)
                            else if sensitive_edit_decision t (cfg_sensitive_policy config)
                                    = SensitivePolicyDecision.Deny
                            then Inr (PolicyDecision.Deny PolicyReason.SensitivePath)
                            else Inr PolicyDecision.Allow))))))"

definition policy_denial_audit_metadata ::
  "FileOperation \<Rightarrow> RootId \<Rightarrow> RelativePath \<Rightarrow> RelativePath option \<Rightarrow> PolicyReason \<Rightarrow> PolicyAuditMetadata" where
  "policy_denial_audit_metadata action root_id path target reason =
     \<lparr>pam_action = action, pam_root_id = root_id, pam_relative_path = path,
      pam_target_relative_path = target, pam_reason = reason,
      pam_safe_message = ''Operation denied by TealDrive policy.''\<rparr>"

text \<open>The derived \<open>Debug\<close> text of an operation is its constructor name.\<close>

fun operation_debug :: "FileOperation \<Rightarrow> string" where
  "operation_debug FileOperation.ListDirectory = ''ListDirectory''"
| "operation_debug FileOperation.FileMetadata = ''FileMetadata''"
| "operation_debug FileOperation.ReadTextFile = ''ReadTextFile''"
| "operation_debug FileOperation.DownloadFile = ''DownloadFile''"
| "operation_debug FileOperation.UploadFile = ''UploadFile''"
| "operation_debug FileOperation.CreateFolder = ''CreateFolder''"
| "operation_debug FileOperation.RenameFile = ''RenameFile''"
| "operation_debug FileOperation.MoveFile = ''MoveFile''"
| "operation_debug FileOperation.CopyFile = ''CopyFile''"
| "operation_debug FileOperation.MoveToTrash = ''MoveToTrash''"
| "operation_debug FileOperation.RestoreFromTrash = ''RestoreFromTrash''"
| "operation_debug FileOperation.DeletePermanently = ''DeletePermanently''"
| "operation_debug FileOperation.ChmodFile = ''ChmodFile''"
| "operation_debug FileOperation.SaveTextFile = ''SaveTextFile''"
| "operation_debug FileOperation.CompressZip = ''CompressZip''"
| "operation_debug FileOperation.CompressTarGz = ''CompressTarGz''"
| "operation_debug FileOperation.ExtractArchive = ''ExtractArchive''"
| "operation_debug FileOperation.Chown = ''Chown''"

definition policy_denial_error_payload :: "Uuid \<Rightarrow> FileOperation \<Rightarrow> PolicyReason \<Rightarrow> ErrorPayload" where
  "policy_denial_error_payload request_id op reason =
     policy_denied request_id (operation_debug op) reason ''Operation denied by TealDrive policy.''"

section \<open>What a decision implies\<close>

text \<open>A decision lets the request through unless it is a denial.\<close>

fun permits :: "PolicyDecision \<Rightarrow> bool" where
  "permits (PolicyDecision.Deny _) = False"
| "permits _ = True"

definition is_sensitive :: "SensitivePolicyConfig \<Rightarrow> RelativePath \<Rightarrow> bool" where
  "is_sensitive config path \<longleftrightarrow>
     (\<exists>p \<in> set (sp_deny_edit_patterns config) \<union> set (sp_warn_read_patterns config).
        pattern_matches (to_ascii_lowercase (last (split_on slash path))) (to_ascii_lowercase p))"

lemma first_match_None [simp]:
  "first_match f ps = None \<longleftrightarrow> (\<forall>p \<in> set ps. \<not> pattern_matches f (to_ascii_lowercase p))"
  by (induction ps) auto

lemma detect_sensitive_iff: "sm_is_sensitive (detect_sensitive path config) \<longleftrightarrow> is_sensitive config path"
proof -
  let ?f = "to_ascii_lowercase (last (split_on slash path))"
  let ?ps = "sp_deny_edit_patterns config @ sp_warn_read_patterns config"
  have "sm_is_sensitive (detect_sensitive path config) \<longleftrightarrow> first_match ?f ?ps \<noteq> None"
    by (simp add: detect_sensitive_def Let_def del: first_match_None split: option.split)
  also have "\<dots> \<longleftrightarrow> is_sensitive config path"
    by (auto simp: is_sensitive_def)
  finally show ?thesis .
qed

lemma sensitive_edit_deny [simp]:
  "sensitive_edit_decision path config = SensitivePolicyDecision.Deny \<longleftrightarrow> is_sensitive config path"
  by (simp add: sensitive_edit_decision_def detect_sensitive_iff)

lemma sensitive_read_eq:
  "sensitive_read_decision path config w =
     (if is_sensitive config path then (if w then Warn else SensitivePolicyDecision.Deny)
      else SensitivePolicyDecision.Allow)"
  by (simp add: sensitive_read_decision_def detect_sensitive_iff)

lemma hidden_policy_deny [simp]:
  "hidden_policy_decision inc path = SensitivePolicyDecision.Deny \<longleftrightarrow> is_hidden_relative path \<and> \<not> inc"
  by (simp add: hidden_policy_decision_def)

text \<open>More patterns never make a name less sensitive.\<close>

lemma is_sensitive_mono:
  "set (sp_deny_edit_patterns a) \<union> set (sp_warn_read_patterns a)
     \<subseteq> set (sp_deny_edit_patterns b) \<union> set (sp_warn_read_patterns b) \<Longrightarrow>
   is_sensitive a path \<Longrightarrow> is_sensitive b path"
  by (auto simp: is_sensitive_def)

lemma is_sensitive_ignores_case:
  "to_ascii_lowercase (last (split_on slash p)) = to_ascii_lowercase (last (split_on slash q)) \<Longrightarrow>
     is_sensitive config p = is_sensitive config q"
  by (simp add: is_sensitive_def)

text \<open>The operations whose own path must not be sensitive.\<close>

definition guards_sensitive :: "FileOperation \<Rightarrow> bool" where
  "guards_sensitive op \<longleftrightarrow>
     op \<in> {FileOperation.ReadTextFile, FileOperation.SaveTextFile, FileOperation.ChmodFile,
           FileOperation.CompressZip, FileOperation.CompressTarGz, FileOperation.ExtractArchive}"

lemma operation_rules_permit:
  assumes "case operation_rules config op root path fname of None \<Rightarrow> True | Some d \<Rightarrow> permits d"
  shows "(guards_sensitive op \<longrightarrow> \<not> is_sensitive (cfg_sensitive_policy config) path)
     \<and> (op = FileOperation.ExtractArchive \<longrightarrow> \<not> root_is_web_root root)
     \<and> (op = FileOperation.UploadFile \<longrightarrow>
          (\<forall>f. fname = Some f \<longrightarrow>
             permits (check_webroot_upload (root_is_web_root root) f (cfg_webroot_policy config))))"
  using assms
  by (cases op) (auto simp: operation_rules_def guards_sensitive_def sensitive_read_eq
      check_webroot_archive_extract_def Let_def split: if_splits)

lemma operation_rules_some:
  "operation_rules config op root path fname = Some d \<Longrightarrow> permits d \<Longrightarrow>
     op \<in> {FileOperation.DownloadFile, FileOperation.UploadFile, FileOperation.ExtractArchive}"
  by (cases op) (auto simp: operation_rules_def sensitive_read_eq Let_def split: if_splits)

lemma check_operation_permits:
  assumes "check_operation uuid e op root_id path target fname inc = Inr d" and "permits d"
  obtains root where
    "\<not> (op = FileOperation.DeletePermanently \<and> internal_trash_id uuid path \<noteq> None) \<Longrightarrow>
       op \<noteq> FileOperation.RestoreFromTrash \<Longrightarrow> ensure_visible e root_id path = Inr ()"
    and "\<And>t. target = Some t \<Longrightarrow> ensure_visible e root_id t = Inr ()"
    and "\<And>n. target = None \<Longrightarrow> fname = Some n \<Longrightarrow> ensure_visible e root_id (target_of path n) = Inr ()"
    and "\<not> feature_denied (cfg_features (pe_config e)) op"
    and "require_allowed_root (cfg_roots (pe_config e)) root_id = Inr root"
    and "is_write op \<Longrightarrow> \<not> root_read_only root"
    and "is_hidden_relative path \<Longrightarrow> inc \<or> op = FileOperation.DeletePermanently
           \<and> prefix ''.tealdrive-trash/files/'' path"
    and "case operation_rules (pe_config e) op root path fname of None \<Rightarrow> True | Some d \<Rightarrow> permits d"
    and "\<And>t. target = Some t \<Longrightarrow> operation_rules (pe_config e) op root path fname = None \<Longrightarrow>
           (is_hidden_relative t \<longrightarrow> inc) \<and> \<not> is_sensitive (cfg_sensitive_policy (pe_config e)) t"
proof -
  obtain root where root: "require_allowed_root (cfg_roots (pe_config e)) root_id = Inr root"
    and "\<not> feature_denied (cfg_features (pe_config e)) op"
    using assms by (auto simp: check_operation_def Let_def and_then_Inr split: if_splits)
  then show ?thesis
    using assms
    by (intro that [of root])
      (auto simp: check_operation_def Let_def and_then_Inr check_root_operation_def
        split: if_splits option.splits)
qed

section \<open>Properties\<close>

text \<open>The path an operation will create or reach besides its own: its target, or else the file name it is given
  in the folder that is its own path.\<close>

definition other_path :: "RelativePath \<Rightarrow> RelativePath option \<Rightarrow> SafeFileName option \<Rightarrow> RelativePath option" where
  "other_path path target fname =
     (case target of Some t \<Rightarrow> Some t | None \<Rightarrow> map_option (target_of path) fname)"

text \<open>The operations whose own rules decide, so that the names in a target are not looked at: extraction, an upload
  of a named file, and the download of a sensitive file, which is allowed with a warning.\<close>

definition decides_early :: "SensitivePolicyConfig \<Rightarrow> FileOperation \<Rightarrow> RelativePath \<Rightarrow> SafeFileName option \<Rightarrow> bool" where
  "decides_early sensitive op path fname \<longleftrightarrow>
     op = FileOperation.ExtractArchive \<or> op = FileOperation.UploadFile \<and> fname \<noteq> None
     \<or> op = FileOperation.DownloadFile \<and> is_sensitive sensitive path"

lemma operation_rules_exact:
  "(case operation_rules config op root path fname of None \<Rightarrow> P | Some d \<Rightarrow> permits d) \<longleftrightarrow>
     (guards_sensitive op \<longrightarrow> \<not> is_sensitive (cfg_sensitive_policy config) path)
     \<and> (op = FileOperation.ExtractArchive \<longrightarrow> \<not> root_is_web_root root)
     \<and> (\<forall>f. op = FileOperation.UploadFile \<and> fname = Some f \<longrightarrow>
          permits (check_webroot_upload (root_is_web_root root) f (cfg_webroot_policy config)))
     \<and> (\<not> decides_early (cfg_sensitive_policy config) op path fname \<longrightarrow> P)"
  by (cases op) (auto simp: operation_rules_def guards_sensitive_def decides_early_def sensitive_read_eq
      check_webroot_archive_extract_def Let_def split: if_splits option.splits)

lemma permits_if:
  "(\<exists>d. (case r of
       Some d \<Rightarrow> Inr d
     | None \<Rightarrow>
         (case target of
            None \<Rightarrow> Inr PolicyDecision.Allow
          | Some t \<Rightarrow>
              if a t then Inr (PolicyDecision.Deny PolicyReason.HiddenFile)
              else if b t then Inr (PolicyDecision.Deny PolicyReason.SensitivePath)
              else Inr PolicyDecision.Allow)) = Inr d \<and> permits d)
   \<longleftrightarrow> (case r of None \<Rightarrow> \<forall>t. target = Some t \<longrightarrow> \<not> a t \<and> \<not> b t | Some d \<Rightarrow> permits d)"
  by (cases r; cases target) auto

text \<open>C34: The engine permits an operation exactly when all of these hold: the root is configured; no write goes to a
  read-only root; the feature of the operation is enabled; the access policy lets the user discover the path,
  unless something is restored from the trash or a trash entry is deleted by its identifier; it lets the user
  discover the target too, or else the file name in the folder; the path is not hidden unless the client may
  see hidden files or something below the trash is deleted; text reading, saving, chmod, compression and
  extraction are not of a sensitive name; nothing is extracted into a web root; an upload into a web root has
  no blocked name; and a target is neither hidden, unless hidden files may be seen, nor sensitive, which is
  not asked for extraction, for the file name of an upload and for the download of a sensitive file.\<close>

theorem permitted_operation_exact:
  "(\<exists>d. check_operation uuid e op root_id path target fname inc = Inr d \<and> permits d) \<longleftrightarrow>
   (\<exists>root. require_allowed_root (cfg_roots (pe_config e)) root_id = Inr root
     \<and> (is_write op \<longrightarrow> \<not> root_read_only root)
     \<and> \<not> feature_denied (cfg_features (pe_config e)) op
     \<and> (op = FileOperation.RestoreFromTrash
        \<or> op = FileOperation.DeletePermanently \<and> internal_trash_id uuid path \<noteq> None
        \<or> ensure_visible e root_id path = Inr ())
     \<and> (\<forall>t. other_path path target fname = Some t \<longrightarrow> ensure_visible e root_id t = Inr ())
     \<and> (is_hidden_relative path \<longrightarrow> inc \<or> op = FileOperation.DeletePermanently
          \<and> prefix ''.tealdrive-trash/files/'' path)
     \<and> (guards_sensitive op \<longrightarrow> \<not> is_sensitive (cfg_sensitive_policy (pe_config e)) path)
     \<and> (op = FileOperation.ExtractArchive \<longrightarrow> \<not> root_is_web_root root)
     \<and> (\<forall>f. op = FileOperation.UploadFile \<and> fname = Some f \<longrightarrow>
          permits (check_webroot_upload (root_is_web_root root) f (cfg_webroot_policy (pe_config e))))
     \<and> (\<forall>t. target = Some t \<and> \<not> decides_early (cfg_sensitive_policy (pe_config e)) op path fname \<longrightarrow>
          (is_hidden_relative t \<longrightarrow> inc) \<and> \<not> is_sensitive (cfg_sensitive_policy (pe_config e)) t))"
proof -
  let ?c = "pe_config e"
  let ?rules = "\<lambda>root. case operation_rules ?c op root path fname of
      None \<Rightarrow> \<forall>t. target = Some t \<longrightarrow> \<not> (is_hidden_relative t \<and> \<not> inc) \<and> \<not> is_sensitive (cfg_sensitive_policy ?c) t
    | Some d \<Rightarrow> permits d"
  let ?own = "\<lambda>root. require_allowed_root (cfg_roots ?c) root_id = Inr root
       \<and> \<not> feature_denied (cfg_features ?c) op
       \<and> (\<not> (op = FileOperation.DeletePermanently \<and> internal_trash_id uuid path \<noteq> None)
            \<and> op \<noteq> FileOperation.RestoreFromTrash \<longrightarrow> ensure_visible e root_id path = Inr ())
       \<and> (\<forall>t. other_path path target fname = Some t \<longrightarrow> ensure_visible e root_id t = Inr ())
       \<and> (is_write op \<longrightarrow> \<not> root_read_only root)
       \<and> (is_hidden_relative path \<longrightarrow> inc \<or> op = FileOperation.DeletePermanently
            \<and> prefix ''.tealdrive-trash/files/'' path)
       \<and> ?rules root"
  have "(\<exists>d. check_operation uuid e op root_id path target fname inc = Inr d \<and> permits d) \<longleftrightarrow> (\<exists>root. ?own root)"
  proof
    assume "\<exists>d. check_operation uuid e op root_id path target fname inc = Inr d \<and> permits d"
    then obtain d where "check_operation uuid e op root_id path target fname inc = Inr d" "permits d" by blast
    then show "\<exists>root. ?own root"
      by (rule check_operation_permits) (auto simp: other_path_def split: option.splits)
  next
    assume "\<exists>root. ?own root"
    then obtain root where own: "?own root" by blast
    let ?r = "operation_rules ?c op root path fname"
    let ?hidden = "\<lambda>t. hidden_policy_decision inc t = SensitivePolicyDecision.Deny"
    let ?sensitive = "\<lambda>t. sensitive_edit_decision t (cfg_sensitive_policy ?c) = SensitivePolicyDecision.Deny"
    have seen: "(if \<not> (op = FileOperation.DeletePermanently \<and> internal_trash_id uuid path \<noteq> None)
          \<and> op \<noteq> FileOperation.RestoreFromTrash then ensure_visible e root_id path else Inr ()) = Inr ()"
      using own by auto
    have vis: "(case target of Some t \<Rightarrow> ensure_visible e root_id t
        | None \<Rightarrow> (case fname of Some n \<Rightarrow> ensure_visible e root_id (target_of path n) | None \<Rightarrow> Inr ())) = Inr ()"
      using own by (auto simp: other_path_def split: option.splits)
    have rest: "feature_denied (cfg_features ?c) op = False" "require_allowed_root (cfg_roots ?c) root_id = Inr root"
      "check_root_operation op root = None"
      "(\<not> (op = FileOperation.DeletePermanently \<and> prefix ''.tealdrive-trash/files/'' path)
          \<and> hidden_policy_decision inc path = SensitivePolicyDecision.Deny) = False"
      using own by (auto simp: check_root_operation_def)
    have eq: "check_operation uuid e op root_id path target fname inc = (case ?r of
       Some d \<Rightarrow> Inr d
     | None \<Rightarrow>
         (case target of
            None \<Rightarrow> Inr PolicyDecision.Allow
          | Some t \<Rightarrow>
              if ?hidden t then Inr (PolicyDecision.Deny PolicyReason.HiddenFile)
              else if ?sensitive t then Inr (PolicyDecision.Deny PolicyReason.SensitivePath)
              else Inr PolicyDecision.Allow))"
      unfolding check_operation_def Let_def seen vis and_then_simps rest if_False option.case(1) ..
    have "case ?r of None \<Rightarrow> \<forall>t. target = Some t \<longrightarrow> \<not> ?hidden t \<and> \<not> ?sensitive t | Some d \<Rightarrow> permits d"
      using own by (simp split: option.splits)
    then show "\<exists>d. check_operation uuid e op root_id path target fname inc = Inr d \<and> permits d"
      unfolding eq permits_if .
  qed
  then show ?thesis unfolding operation_rules_exact by blast
qed

text \<open>where an operation has a target path, as rename, move, copy and compression have, the
  engine lets it through only if the target is visible to the user, not hidden unless hidden files
  are allowed, and not a sensitive name. A blocked name cannot be produced by renaming to it.\<close>

theorem permitted_target_sound:
  assumes "check_operation uuid e op root_id path (Some t) fname inc = Inr d" and "permits d"
    and "op \<notin> {FileOperation.DownloadFile, FileOperation.UploadFile, FileOperation.ExtractArchive}"
  shows "ensure_visible e root_id t = Inr () \<and> (is_hidden_relative t \<longrightarrow> inc)
     \<and> \<not> is_sensitive (cfg_sensitive_policy (pe_config e)) t"
  using assms(1,2)
proof (rule check_operation_permits)
  fix root
  assume vis: "\<And>t'. Some t = Some t' \<Longrightarrow> ensure_visible e root_id t' = Inr ()"
    and rules: "case operation_rules (pe_config e) op root path fname of None \<Rightarrow> True | Some d \<Rightarrow> permits d"
    and tgt: "\<And>t'. Some t = Some t' \<Longrightarrow> operation_rules (pe_config e) op root path fname = None \<Longrightarrow>
           (is_hidden_relative t' \<longrightarrow> inc) \<and> \<not> is_sensitive (cfg_sensitive_policy (pe_config e)) t'"
  have "operation_rules (pe_config e) op root path fname = None"
    using rules assms(3) operation_rules_some by (fastforce split: option.splits)
  with vis tgt show ?thesis by blast
qed

lemma hidden_relative_eq: "is_hidden_relative path \<longleftrightarrow>
    (\<exists>p. validate_relative_path path = Inr p \<and> (\<exists>part \<in> set (split_on slash p). prefix ''.'' part))"
  by (auto simp: is_hidden_relative_def split: sum.splits)

lemmas policy_eval =
  check_operation_def internal_trash_id_def ensure_visible_def AccessPolicy_check_def
  validate_relative_path_eq name_parts_def hidden_component_def policy_rules_def feature_denied_def
  FeatureGate_check_def require_allowed_root_def find_allowed_root_def check_root_operation_def
  operation_rules_def target_of_def hidden_policy_decision_def hidden_relative_eq
  sensitive_read_eq sensitive_edit_decision_def detect_sensitive_iff is_sensitive_def pattern_matches_def strip_prefix_def
  strip_suffix_def suffix_def to_ascii_lowercase_def ascii_lower_def engine_user_def

definition example_engine :: PolicyEngine where
  "example_engine = for_user (PolicyEngine_new AppConfig_default) ''alice''"

lemma example_upload:
  "check_operation uuid example_engine FileOperation.UploadFile ''home'' ''docs'' None (Some ''a.txt'') False
     = Inr PolicyDecision.Allow"
  by (simp add: policy_eval example_engine_def for_user_def PolicyEngine_new_def config_defaults
      check_webroot_upload_def)

lemma example_rename:
  "check_operation uuid example_engine FileOperation.RenameFile ''home'' ''docs/a'' (Some ''docs/b'') None False
     = Inr PolicyDecision.Allow"
  by (simp add: policy_eval example_engine_def for_user_def PolicyEngine_new_def config_defaults)

theorem permitted_operation_exact_witness:
  "\<exists>root. require_allowed_root (cfg_roots (pe_config example_engine)) ''home'' = Inr root
     \<and> \<not> root_read_only root \<and> ensure_visible example_engine ''home'' (target_of ''docs'' ''a.txt'') = Inr ()
     \<and> permits (check_webroot_upload (root_is_web_root root) ''a.txt''
         (cfg_webroot_policy (pe_config example_engine)))"
  using iffD1 [OF permitted_operation_exact exI, OF conjI [OF example_upload [of "\<lambda>_. None"]]]
  by (auto simp: is_write_def other_path_def)

theorem permitted_target_sound_witness:
  "\<not> is_sensitive (cfg_sensitive_policy (pe_config example_engine)) ''docs/b''
   \<and> ensure_visible example_engine ''home'' ''docs/b'' = Inr ()"
  using permitted_target_sound [OF example_rename [of "\<lambda>_. None"]] by simp

end
