(* ===== verification/TD_Helper_Types.thy ===== *)
theory TD_Helper_Types
  imports TD_Policy
begin

text \<open>
  Requests and responses between the network tier and the privileged helper
  (\<open>src/helper/types.rs\<close>), the schema types they carry (\<open>src/protocol/schema.rs\<close>,
  \<open>src/protocol/payload.rs\<close>, \<open>src/helper/observation.rs\<close>) and the error responses of
  \<open>src/helper/listing.rs\<close>.
\<close>

section \<open>Schema (\<open>schema.rs\<close>)\<close>

type_synonym UnixMode = u32
type_synonym DirectoryCursor = string

record CapabilitySet =
  cap_can_list :: bool
  cap_can_download :: bool
  cap_can_upload :: bool
  cap_can_create_folder :: bool
  cap_can_rename :: bool
  cap_can_move_to_trash :: bool
  cap_can_restore_from_trash :: bool

definition CapabilitySet_default :: CapabilitySet where
  "CapabilitySet_default =
     \<lparr>cap_can_list = True, cap_can_download = True, cap_can_upload = True,
      cap_can_create_folder = True, cap_can_rename = True, cap_can_move_to_trash = True,
      cap_can_restore_from_trash = True\<rparr>"

datatype (plugins only: code size) FileKind = File | Directory | Symlink | Other

datatype (plugins only: code size) FileFilter =
    All | Folders | Code | Images | Media | Documents | Archives | Hidden | Writable | Symlinks

datatype (plugins only: code size) SortMode =
    NameAsc | NameDesc | ModifiedAsc | ModifiedDesc | SizeAsc | SizeDesc | TypeAsc | TypeDesc

record FilterMode =
  fm_extensions :: "string list option"
  fm_query :: "string option"
  fm_file_kind :: "FileKind option"
  fm_filter :: "FileFilter option"

definition FilterMode_is_valid :: "FilterMode \<Rightarrow> bool" where
  "FilterMode_is_valid f \<longleftrightarrow>
     (case fm_query f of None \<Rightarrow> True | Some q \<Rightarrow> length q \<le> 1024 \<and> nul \<notin> set q)
     \<and> (case fm_extensions f of None \<Rightarrow> True
        | Some es \<Rightarrow> length es \<le> 64
            \<and> list_all (\<lambda>e. e \<noteq> [] \<and> length e \<le> 32
                \<and> list_all (\<lambda>part. part \<noteq> [] \<and> list_all is_ascii_alphanumeric part) (split_on (CHR ''.'') e)) es)"

section \<open>Requests (\<open>types.rs\<close>)\<close>

datatype (plugins only: code size) HelperCommand =
    QuotaUsage | ListDirectory | FileMetadata | DownloadFile | ReadFileRange | ReadTextFile
  | ReadFile | WriteFile | UploadCommit | CreateFolder | Rename | Move | Copy | MoveToTrash
  | RestoreFromTrash | DeletePermanently | Chmod | CompressZip | CompressTarGz | ExtractArchive
  | SearchFiles | ListTrash

record HelperPolicyContext =
  hpc_read_only_root :: bool
  hpc_is_web_root :: bool

record HelperLimits =
  hl_max_directory_page_size :: nat
  hl_max_text_edit_size :: nat
  hl_max_chunk_size :: nat
  hl_max_download_helper_bytes :: nat

record HelperListDirectoryOptions =
  lo_cursor :: "DirectoryCursor option"
  lo_limit :: nat
  lo_include_hidden :: bool
  lo_sort :: SortMode
  lo_filter :: FilterMode

record HelperWriteOptions =
  wo_stream_size :: "nat option"
  wo_expected_revision :: "string option"
  wo_data :: bytes
  wo_offset :: nat
  wo_truncate :: bool

record HelperSearchOptions =
  so_query :: string
  so_extension :: "string option"
  so_max_results :: "nat option"
  so_include_hidden :: bool
  so_max_depth :: "nat option"

record HelperRequest =
  hq_request_id :: Uuid
  hq_username :: string
  hq_uid :: nat
  hq_gid :: nat
  hq_command :: HelperCommand
  hq_root_id :: RootId
  hq_relative_path :: RelativePath
  hq_target_relative_path :: "RelativePath option"
  hq_policy_context :: HelperPolicyContext
  hq_limits :: HelperLimits
  hq_list_options :: "HelperListDirectoryOptions option"
  hq_write_options :: "HelperWriteOptions option"
  hq_chmod_mode :: "UnixMode option"
  hq_archive_source_paths :: "RelativePath list option"
  hq_search_options :: "HelperSearchOptions option"

section \<open>Responses\<close>

record FileState =
  fst_digest :: string
  fst_device :: string
  fst_inode :: string
  fst_kind :: string
  fst_mode :: nat
  fst_uid :: nat
  fst_gid :: nat
  fst_size :: nat
  fst_links :: nat
  fst_mtime_seconds :: int
  fst_mtime_nanos :: int
  fst_ctime_seconds :: int
  fst_ctime_nanos :: int
  fst_content_digest :: "string option"
  fst_tree_digest :: "string option"

record HelperAuditMetadata =
  am_old_mode :: "nat option"
  am_new_mode :: "nat option"
  am_before :: "FileState option"
  am_after :: "FileState option"
  am_request_id :: Uuid
  am_command :: HelperCommand
  am_root_id :: RootId
  am_relative_path :: RelativePath
  am_target_relative_path :: "RelativePath option"
  am_bytes_read :: nat
  am_bytes_written :: nat
  am_status :: string
  am_reason :: "string option"

text \<open>\<open>DirectoryEntryPayload\<close> and \<open>HelperDirectoryEntry\<close> have the same fields.\<close>

record HelperDirectoryEntry =
  de_name :: string
  de_file_type :: FileKind
  de_size :: nat
  de_modified :: "string option"
  de_owner :: "string option"
  de_group :: "string option"
  de_mode :: "UnixMode option"
  de_permissions :: "string option"
  de_is_hidden :: bool
  de_is_sensitive :: bool
  de_is_protected :: bool
  de_is_symlink :: bool
  de_symlink_target :: "RelativePath option"
  de_is_web_root :: bool
  de_is_world_writable :: bool
  de_capabilities :: CapabilitySet

record HelperDirectoryList =
  dl_entries :: "HelperDirectoryEntry list"
  dl_has_more :: bool
  dl_next_cursor :: "DirectoryCursor option"
  dl_total_estimate :: "nat option"

record HelperDownloadChunk =
  dc_chunk_index :: nat
  dc_offset :: nat
  dc_chunk_bytes :: bytes

record HelperDownloadFile =
  df_transfer_id :: Uuid
  df_total_bytes :: nat
  df_chunks :: "HelperDownloadChunk list"

record HelperTextFileContent =
  tf_revision :: string
  tf_name :: string
  tf_content :: string
  tf_encoding :: string
  tf_size :: nat
  tf_modified :: "string option"
  tf_owner :: "string option"
  tf_group :: "string option"
  tf_mode :: "UnixMode option"
  tf_permissions :: "string option"
  tf_is_sensitive :: bool
  tf_is_hidden :: bool
  tf_is_read_only :: bool
  tf_truncated :: bool
  tf_line_count :: "nat option"
  tf_language_hint :: "string option"

record HelperTrashEntry =
  te_trash_id :: string
  te_display_name :: string
  te_deleted_at :: nat
  te_original_relative_path :: RelativePath
  te_original_root_id :: RootId

record SearchMatchEntry =
  sme_relative_path :: RelativePath
  sme_entry :: HelperDirectoryEntry

record SearchResultsPayload =
  srp_root_id :: RootId
  srp_query :: string
  srp_matches :: "SearchMatchEntry list"
  srp_total_matches :: nat
  srp_truncated :: bool

record TrashItemEntry =
  ti_trash_id :: string
  ti_display_name :: string
  ti_original_path :: RelativePath
  ti_original_root_id :: RootId
  ti_deleted_at :: nat
  ti_size :: nat

record TrashListPayload =
  tlp_root_id :: RootId
  tlp_items :: "TrashItemEntry list"

datatype (plugins only: code size) HelperResponsePayload =
    Usage nat "nat option"
  | NoPayload
  | DirectoryList HelperDirectoryList
  | FileMetadata HelperDirectoryEntry
  | DownloadFile HelperDownloadFile
  | FileRange nat nat bytes
  | TextFileContent HelperTextFileContent
  | TrashEntry HelperTrashEntry
  | SearchResults SearchResultsPayload
  | TrashList TrashListPayload

record HelperResponse =
  hr_policy_revision :: "bytes option"
  hr_success :: bool
  hr_error_kind :: "ErrorKind option"
  hr_safe_message :: "string option"
  hr_os_error_code :: "int option"
  hr_bytes_read :: nat
  hr_bytes_written :: nat
  hr_audit_metadata :: "HelperAuditMetadata option"
  hr_payload :: HelperResponsePayload

text \<open>Every constructor fills the audit record from the request in the same way.\<close>

definition request_audit :: "HelperRequest \<Rightarrow> nat \<Rightarrow> string \<Rightarrow> string option \<Rightarrow> HelperAuditMetadata" where
  "request_audit q bytes_read status reason =
     \<lparr>am_old_mode = None, am_new_mode = None, am_before = None, am_after = None,
      am_request_id = hq_request_id q, am_command = hq_command q, am_root_id = hq_root_id q,
      am_relative_path = hq_relative_path q, am_target_relative_path = hq_target_relative_path q,
      am_bytes_read = bytes_read, am_bytes_written = 0, am_status = status, am_reason = reason\<rparr>"

definition response_error :: "HelperRequest \<Rightarrow> ErrorKind \<Rightarrow> string \<Rightarrow> string \<Rightarrow> HelperResponse" where
  "response_error q kind msg reason =
     \<lparr>hr_policy_revision = None, hr_success = False, hr_error_kind = Some kind,
      hr_safe_message = Some msg, hr_os_error_code = None, hr_bytes_read = 0, hr_bytes_written = 0,
      hr_audit_metadata = Some (request_audit q 0 ''denied'' (Some reason)),
      hr_payload = NoPayload\<rparr>"

definition response_not_implemented :: "HelperRequest \<Rightarrow> HelperResponse" where
  "response_not_implemented q =
     response_error q ErrorKind.NotImplemented ''Helper command is not implemented yet.'' ''not_implemented''"

definition response_feature_disabled :: "HelperRequest \<Rightarrow> HelperResponse" where
  "response_feature_disabled q =
     response_error q ErrorKind.FeatureDisabled ''Helper command is disabled in TealDrive V1.'' ''feature_disabled''"

definition response_permission_denied :: "HelperRequest \<Rightarrow> string \<Rightarrow> HelperResponse" where
  "response_permission_denied q msg =
     response_error q ErrorKind.PermissionDenied msg ''permission_denied''"

definition response_success ::
  "HelperRequest \<Rightarrow> nat \<Rightarrow> string option \<Rightarrow> HelperResponsePayload \<Rightarrow> HelperResponse" where
  "response_success q bytes_read msg payload =
     \<lparr>hr_policy_revision = None, hr_success = True, hr_error_kind = None, hr_safe_message = msg,
      hr_os_error_code = None, hr_bytes_read = bytes_read, hr_bytes_written = 0,
      hr_audit_metadata = Some (request_audit q bytes_read ''success'' None), hr_payload = payload\<rparr>"

definition response_directory_list :: "HelperRequest \<Rightarrow> HelperDirectoryList \<Rightarrow> HelperResponse" where
  "response_directory_list q l = response_success q 0 None (DirectoryList l)"

definition response_file_metadata :: "HelperRequest \<Rightarrow> HelperDirectoryEntry \<Rightarrow> HelperResponse" where
  "response_file_metadata q e = response_success q 0 None (HelperResponsePayload.FileMetadata e)"

definition response_download_file :: "HelperRequest \<Rightarrow> HelperDownloadFile \<Rightarrow> HelperResponse" where
  "response_download_file q d =
     response_success q (df_total_bytes d) None (HelperResponsePayload.DownloadFile d)"

definition response_text_file_content :: "HelperRequest \<Rightarrow> HelperTextFileContent \<Rightarrow> HelperResponse" where
  "response_text_file_content q c =
     response_success q (tf_size c) None (HelperResponsePayload.TextFileContent c)"

definition response_trash_entry :: "HelperRequest \<Rightarrow> HelperTrashEntry \<Rightarrow> HelperResponse" where
  "response_trash_entry q e = response_success q 0 (Some ''Moved to trash.'') (TrashEntry e)"

definition response_operation_done :: "HelperRequest \<Rightarrow> string \<Rightarrow> HelperResponse" where
  "response_operation_done q msg = response_success q 0 (Some msg) NoPayload"

definition response_search_results :: "HelperRequest \<Rightarrow> SearchResultsPayload \<Rightarrow> HelperResponse" where
  "response_search_results q r =
     response_success q 0 (Some ''Search completed.'') (HelperResponsePayload.SearchResults r)"

definition response_trash_list :: "HelperRequest \<Rightarrow> TrashListPayload \<Rightarrow> HelperResponse" where
  "response_trash_list q l =
     response_success q 0 (Some ''Trash listed.'') (HelperResponsePayload.TrashList l)"

definition command_disabled_in_v1 :: "HelperCommand \<Rightarrow> bool" where
  "command_disabled_in_v1 c = False"

section \<open>Error responses (\<open>listing.rs\<close>)\<close>

definition helper_error :: "HelperRequest \<Rightarrow> ErrorKind \<Rightarrow> string \<Rightarrow> string \<Rightarrow> HelperResponse" where
  "helper_error q kind msg reason =
     (let r = response_not_implemented q
      in r\<lparr>hr_error_kind := Some kind, hr_safe_message := Some msg,
           hr_audit_metadata := map_option (\<lambda>m. m\<lparr>am_reason := Some reason\<rparr>) (hr_audit_metadata r)\<rparr>)"

definition helper_error_from_tealdrive :: "HelperRequest \<Rightarrow> TealDriveError \<Rightarrow> HelperResponse" where
  "helper_error_from_tealdrive q err =
     (if err \<in> {TealDriveError.SymlinkDenied, TealDriveError.SymlinkEscape}
      then helper_error q ErrorKind.PolicyDenied ''Symlink access denied.'' ''symlink_denied''
      else if err \<in> {TealDriveError.InvalidPath, TealDriveError.PathEscapesRoot}
      then helper_error q ErrorKind.InvalidPath ''Invalid path.'' ''invalid_path''
      else if err = TealDriveError.InvalidTarget
      then helper_error q ErrorKind.InvalidTarget ''Invalid target.'' ''invalid_target''
      else if err \<in> {TealDriveError.InvalidFilename, TealDriveError.NullByteRejected,
                      TealDriveError.ReservedNameRejected}
      then helper_error q ErrorKind.ValidationError ''Invalid filename.'' ''invalid_filename''
      else if err = TealDriveError.PolicyDenied
      then helper_error q ErrorKind.PolicyDenied ''Operation denied by policy.'' ''policy_denied''
      else if err = TealDriveError.NotFound
      then helper_error q ErrorKind.NotFound ''Path not found.'' ''not_found''
      else if err = TealDriveError.TraversalRejected
      then helper_error q ErrorKind.PolicyDenied ''Path traversal rejected.'' ''path_traversal''
      else helper_error q ErrorKind.InternalError ''Helper path validation failed.'' ''path_validation_failed'')"

text \<open>\<open>std::io::Error\<close>: its raw OS error number, if it has one.\<close>

type_synonym IoError = "int option"

definition helper_error_from_io :: "HelperRequest \<Rightarrow> IoError \<Rightarrow> HelperResponse" where
  "helper_error_from_io q err =
     (if err = Some 13 \<or> err = Some 1
      then helper_error q ErrorKind.PermissionDenied ''Permission denied.'' ''permission_denied''
      else if err = Some 17
      then helper_error q ErrorKind.AlreadyExists ''Target already exists.'' ''already_exists''
      else if err = Some 28 \<or> err = Some 122
      then helper_error q ErrorKind.DiskFull ''Disk is full.'' ''disk_full''
      else if err = Some 2 then helper_error q ErrorKind.NotFound ''Path not found.'' ''not_found''
      else if err = Some 20
      then helper_error q ErrorKind.InvalidPath ''Invalid path.'' ''not_directory''
      else if err = Some 40
      then helper_error q ErrorKind.SymlinkLoop ''Symlink loop.'' ''symlink_loop''
      else if err = Some 36
      then helper_error q ErrorKind.NameTooLong ''Name too long.'' ''name_too_long''
      else if err = Some 30
      then helper_error q ErrorKind.ReadOnlyFilesystem ''Read-only filesystem.'' ''read_only_filesystem''
      else helper_error q ErrorKind.InternalError ''Filesystem error.'' ''filesystem_error'')"

lemmas response_defs =
  response_error_def response_not_implemented_def response_feature_disabled_def
  response_permission_denied_def response_success_def response_directory_list_def
  response_file_metadata_def response_download_file_def response_text_file_content_def
  response_trash_entry_def response_operation_done_def response_search_results_def
  response_trash_list_def helper_error_def

lemma error_responses_fail [simp]:
  "\<not> hr_success (response_error q k m r)" "\<not> hr_success (helper_error q k m r)"
  "\<not> hr_success (response_not_implemented q)" "\<not> hr_success (response_feature_disabled q)"
  "\<not> hr_success (response_permission_denied q m)"
  by (simp_all add: response_defs Let_def)

lemma helper_error_from_fail [simp]:
  "\<not> hr_success (helper_error_from_tealdrive q e)" "\<not> hr_success (helper_error_from_io q i)"
  by (simp_all add: helper_error_from_tealdrive_def helper_error_from_io_def)

end
