(* ===== verification/TD_Helper_Policy.thy ===== *)
theory TD_Helper_Policy
  imports TD_Helper_Types
begin

text \<open>
  The authorization of the privileged helper: \<open>src/helper/access.rs\<close>, \<open>src/helper/policy.rs\<close> and
  the gate of \<open>src/helper/ipc.rs\<close>. A request carries a policy snapshot of the network process;
  \<open>restrict\<close> narrows it by the root-owned configuration, the ceiling. The lemmas show that no
  snapshot makes the helper authorize what the ceiling does not, and that the preflight of a tree
  move or deletion has checked every node of the tree.

  Parameters: \<open>uri\<close> (the \<open>http\<close> crate), \<open>uuid\<close> (the \<open>uuid\<close> crate), \<open>digest\<close> (MessagePack and
  SHA-256 of a configuration), and the directory tree as the kernel presents it, \<open>TreeView\<close>.
\<close>

section \<open>Access context (\<open>access.rs\<close>)\<close>

record Context =
  cx_policy :: AccessPolicy
  cx_username :: string
  cx_root_id :: RootId
  cx_aliases :: "(RelativePath \<times> RelativePath) list"

text \<open>The thread-local context during \<open>with_context\<close> and \<open>with_alias\<close>, from the one before.\<close>

definition with_context :: "Context option \<Rightarrow> HelperRequest \<Rightarrow> AppConfig \<Rightarrow> Context option" where
  "with_context previous q config = Some
     \<lparr>cx_policy = cfg_access_policy config, cx_username = hq_username q, cx_root_id = hq_root_id q,
      cx_aliases = (case previous of None \<Rightarrow> []
        | Some c \<Rightarrow> if cx_username c = hq_username q \<and> cx_root_id c = hq_root_id q then cx_aliases c else [])\<rparr>"

definition with_alias :: "Context option \<Rightarrow> RelativePath \<Rightarrow> RelativePath \<Rightarrow> Context option" where
  "with_alias previous source target =
     map_option (\<lambda>c. c\<lparr>cx_aliases := cx_aliases c @ [(source, target)]\<rparr>) previous"

fun translate_aliases :: "(RelativePath \<times> RelativePath) list \<Rightarrow> RelativePath \<Rightarrow> RelativePath" where
  "translate_aliases [] path = path"
| "translate_aliases ((source, target) # rest) path =
     (if path = source then target
      else (case strip_prefix (source @ ''/'') path of
              Some rel \<Rightarrow> target @ ''/'' @ rel
            | None \<Rightarrow> translate_aliases rest path))"

definition translated :: "Context \<Rightarrow> RelativePath \<Rightarrow> RelativePath" where
  "translated c path = translate_aliases (rev (cx_aliases c)) path"

definition context_check :: "Context option \<Rightarrow> RelativePath \<Rightarrow> Access \<Rightarrow> unit td_result" where
  "context_check cx path action =
     (case cx of
        Some c \<Rightarrow> AccessPolicy_check (cx_policy c) (cx_username c) (cx_root_id c) (translated c path) action
      | None \<Rightarrow> Inr ())"

record Metadata =
  md_is_file :: bool
  md_is_dir :: bool
  md_nlink :: nat

definition check_metadata :: "Context option \<Rightarrow> Metadata \<Rightarrow> unit td_result" where
  "check_metadata cx m =
     (if md_is_file m \<and> md_nlink m > 1
         \<and> (case cx of None \<Rightarrow> False | Some c \<Rightarrow> ap_reject_file_hardlinks (cx_policy c))
      then Inl TealDriveError.NotFound else Inr ())"

definition visible :: "Context option \<Rightarrow> RelativePath \<Rightarrow> Metadata \<Rightarrow> bool" where
  "visible cx path m \<longleftrightarrow> is_ok (context_check cx path Discover) \<and> is_ok (check_metadata cx m)"

definition operation_access :: "HelperCommand \<Rightarrow> Access" where
  "operation_access c =
     (if c \<in> {HelperCommand.ListDirectory, HelperCommand.FileMetadata, HelperCommand.SearchFiles,
              HelperCommand.ListTrash, HelperCommand.QuotaUsage} then Discover
      else if c \<in> {HelperCommand.DownloadFile, HelperCommand.ReadFileRange, HelperCommand.ReadTextFile,
              HelperCommand.ReadFile, HelperCommand.Copy, HelperCommand.CompressZip,
              HelperCommand.CompressTarGz, HelperCommand.ExtractArchive} then Read
      else if c \<in> {HelperCommand.WriteFile, HelperCommand.UploadCommit, HelperCommand.CreateFolder,
              HelperCommand.RestoreFromTrash} then Write
      else if c \<in> {HelperCommand.Rename, HelperCommand.Move} then Access.Move
      else if c \<in> {HelperCommand.MoveToTrash, HelperCommand.DeletePermanently} then Delete
      else Access.Chmod)"

text \<open>A rename names its target relative to the parent of the source.\<close>

definition effective_target :: "HelperRequest \<Rightarrow> RelativePath option" where
  "effective_target q =
     map_option (\<lambda>target.
       if hq_command q = HelperCommand.Rename
       then (let parent = (case rsplit_once slash (hq_relative_path q) of Some (p, _) \<Rightarrow> p | None \<Rightarrow> [])
             in if parent = [] then target else parent @ ''/'' @ target)
       else target) (hq_target_relative_path q)"

definition access_authorize ::
  "(string \<Rightarrow> string option) \<Rightarrow> Context option \<Rightarrow> HelperRequest \<Rightarrow> AppConfig \<Rightarrow> unit td_result" where
  "access_authorize uuid cx q config =
     (let action = operation_access (hq_command q);
          check_path = (\<lambda>path access.
            AccessPolicy_check (cfg_access_policy config) (hq_username q) (hq_root_id q)
              (case cx of Some c \<Rightarrow> translated c path | None \<Rightarrow> path) access);
          internal_delete = (hq_command q = HelperCommand.DeletePermanently
            \<and> internal_trash_id uuid (hq_relative_path q) \<noteq> None)
      in and_then
           (if hq_command q \<notin> {HelperCommand.ListTrash, HelperCommand.RestoreFromTrash,
                               HelperCommand.QuotaUsage} \<and> \<not> internal_delete
            then check_path (hq_relative_path q) action else Inr ()) (\<lambda>_.
         and_then
           (case effective_target q of Some t \<Rightarrow> check_path t Write | None \<Rightarrow> Inr ()) (\<lambda>_.
         try_all (\<lambda>p. check_path p Read)
           (case hq_archive_source_paths q of Some ps \<Rightarrow> ps | None \<Rightarrow> []))))"

section \<open>Preflight of whole trees\<close>

record TreeView =
  tv_cancelled :: "nat \<Rightarrow> bool"
  tv_open :: "RelativePath \<Rightarrow> IoError + unit"
  tv_metadata :: "RelativePath \<Rightarrow> IoError + Metadata"
  tv_entries :: "RelativePath \<Rightarrow> IoError + (IoError + string option) list"

definition child_path :: "RelativePath \<Rightarrow> string \<Rightarrow> RelativePath" where
  "child_path path name = (if path = [] then name else path @ ''/'' @ name)"

text \<open>Entries that cannot be read, or whose name is not valid UTF-8 (\<open>None\<close>), stop the walk.\<close>

fun push_children ::
  "RelativePath \<Rightarrow> nat \<Rightarrow> (IoError + string option) list \<Rightarrow> (RelativePath \<times> nat) list
   \<Rightarrow> (RelativePath \<times> nat) list td_result" where
  "push_children path depth [] stack = Inr stack"
| "push_children path depth (Inr (Some name) # es) stack =
     push_children path depth es ((child_path path name, depth + 1) # stack)"
| "push_children path depth (e # es) stack = Inl TealDriveError.PolicyDenied"

definition preflight_target_check ::
  "Context option \<Rightarrow> RelativePath \<Rightarrow> RelativePath option \<Rightarrow> RelativePath \<Rightarrow> unit td_result" where
  "preflight_target_check cx source target path =
     (case target of None \<Rightarrow> Inr ()
      | Some t \<Rightarrow>
          and_then (context_check cx path Read) (\<lambda>_.
          and_then (ok_or (strip_prefix source path) TealDriveError.InvalidPath) (\<lambda>rel.
          context_check cx (t @ rel) Write)))"

lemma and_then_cong [fundef_cong]:
  "r = r' \<Longrightarrow> (\<And>x. r' = Inr x \<Longrightarrow> f x = g x) \<Longrightarrow> and_then r f = and_then r' g"
  by (cases r') simp_all

function preflight_loop ::
  "TreeView \<Rightarrow> Context option \<Rightarrow> RelativePath \<Rightarrow> Access \<Rightarrow> RelativePath option
   \<Rightarrow> (RelativePath \<times> nat) list \<Rightarrow> nat \<Rightarrow> unit td_result" where
  "preflight_loop tv cx source action target [] count = Inr ()"
| "preflight_loop tv cx source action target ((path, depth) # rest) count =
     (if tv_cancelled tv count then Inl TealDriveError.PermissionDenied
      else if count + 1 > 100000 \<or> depth > 128 then Inl TealDriveError.PolicyDenied
      else
        and_then (context_check cx path action) (\<lambda>_.
        and_then (preflight_target_check cx source target path) (\<lambda>_.
        and_then (map_err (\<lambda>e. if e = Some 2 then TealDriveError.NotFound else TealDriveError.PolicyDenied)
          (tv_open tv path)) (\<lambda>_.
        and_then (map_err (\<lambda>_. TealDriveError.PolicyDenied) (tv_metadata tv path)) (\<lambda>m.
        and_then (check_metadata cx m) (\<lambda>_.
        and_then
          (if md_is_dir m
           then and_then (map_err (\<lambda>_. TealDriveError.PolicyDenied) (tv_entries tv path)) (\<lambda>es.
             push_children path depth es rest)
           else Inr rest) (\<lambda>stack.
        preflight_loop tv cx source action target stack (count + 1))))))))"
  by pat_completeness auto
termination
  by (relation "measure (\<lambda>(_, _, _, _, _, _, count). 100001 - count)") auto

definition preflight_tree_inner ::
  "TreeView \<Rightarrow> Context option \<Rightarrow> RelativePath \<Rightarrow> Access \<Rightarrow> RelativePath option \<Rightarrow> unit td_result" where
  "preflight_tree_inner tv cx source action target =
     preflight_loop tv cx source action target [(source, 0)] 0"

definition preflight_tree ::
  "TreeView \<Rightarrow> Context option \<Rightarrow> RelativePath \<Rightarrow> Access \<Rightarrow> unit td_result" where
  "preflight_tree tv cx path action = preflight_tree_inner tv cx path action None"

text \<open>The tree view is that of the root of the request.\<close>

definition preflight ::
  "(AllowedRoot \<Rightarrow> TreeView) \<Rightarrow> Context option \<Rightarrow> HelperRequest \<Rightarrow> AppConfig \<Rightarrow> unit td_result" where
  "preflight tree cx q config =
     (if hq_command q \<notin> {HelperCommand.Rename, HelperCommand.Move, HelperCommand.MoveToTrash,
                         HelperCommand.DeletePermanently}
      then Inr ()
      else and_then (ok_or (find (\<lambda>r. root_root_id r = hq_root_id q) (cfg_roots config))
          TealDriveError.InvalidRootId) (\<lambda>root.
        preflight_tree_inner (tree root) cx (hq_relative_path q) (operation_access (hq_command q))
          (if hq_command q \<in> {HelperCommand.Rename, HelperCommand.Move}
           then effective_target q else None)))"

section \<open>Snapshots and the ceiling (\<open>policy.rs\<close>)\<close>

record PolicySnapshot =
  sn_revision :: bytes
  sn_config :: AppConfig

definition PolicySnapshot_new :: "(AppConfig \<Rightarrow> bytes) \<Rightarrow> AppConfig \<Rightarrow> PolicySnapshot" where
  "PolicySnapshot_new digest config = \<lparr>sn_revision = digest config, sn_config = config\<rparr>"

definition PolicySnapshot_validate ::
  "(string \<Rightarrow> UriView option) \<Rightarrow> (AppConfig \<Rightarrow> bytes) \<Rightarrow> PolicySnapshot \<Rightarrow> unit td_result" where
  "PolicySnapshot_validate uri digest s =
     and_then (AppConfig_validate uri (sn_config s)) (\<lambda>_. reject_if
       (sn_revision (PolicySnapshot_new digest (sn_config s)) \<noteq> sn_revision s))"

definition min_quota :: "nat option \<Rightarrow> nat option \<Rightarrow> nat option" where
  "min_quota a b =
     (case (a, b) of (Some x, Some y) \<Rightarrow> Some (min x y) | (a, None) \<Rightarrow> a | (None, b) \<Rightarrow> b)"

definition narrow_root :: "AllowedRoot \<Rightarrow> AllowedRoot \<Rightarrow> AllowedRoot" where
  "narrow_root root trusted = root
     \<lparr>root_read_only := (root_read_only root \<or> root_read_only trusted),
      root_uploads_allowed := (root_uploads_allowed root \<and> root_uploads_allowed trusted),
      root_hidden_files_allowed := (root_hidden_files_allowed root \<and> root_hidden_files_allowed trusted),
      root_is_web_root := (root_is_web_root root \<or> root_is_web_root trusted),
      root_quota_bytes := min_quota (root_quota_bytes root) (root_quota_bytes trusted)\<rparr>"

fun restrict_roots :: "AllowedRoot list \<Rightarrow> AllowedRoot list \<Rightarrow> AllowedRoot list td_result" where
  "restrict_roots trusted [] = Inr []"
| "restrict_roots trusted (root # roots) =
     and_then (ok_or (find (\<lambda>r. root_root_id r = root_root_id root
           \<and> path_eq (root_base_path r) (root_base_path root)) trusted)
         TealDriveError.PermissionDenied) (\<lambda>t.
     and_then (restrict_roots trusted roots) (\<lambda>rs. Inr (narrow_root root t # rs)))"

definition restrict_features :: "FeatureFlags \<Rightarrow> FeatureFlags \<Rightarrow> FeatureFlags" where
  "restrict_features f c =
     \<lparr>ff_save_text_file = (ff_save_text_file f \<and> ff_save_text_file c),
      ff_chmod_file = (ff_chmod_file f \<and> ff_chmod_file c),
      ff_extract_archive = (ff_extract_archive f \<and> ff_extract_archive c),
      ff_delete_permanently = (ff_delete_permanently f \<and> ff_delete_permanently c),
      ff_chown = (ff_chown f \<and> ff_chown c)\<rparr>"

definition restrict_limits :: "Limits \<Rightarrow> Limits \<Rightarrow> Limits" where
  "restrict_limits l c = l
     \<lparr>max_in_flight_upload := min (max_in_flight_upload l) (max_in_flight_upload c),
      max_chunk_size := min (max_chunk_size l) (max_chunk_size c),
      max_text_edit_size := min (max_text_edit_size l) (max_text_edit_size c),
      max_directory_page_size := min (max_directory_page_size l) (max_directory_page_size c)\<rparr>"

definition restrict ::
  "(string \<Rightarrow> UriView option) \<Rightarrow> (AppConfig \<Rightarrow> bytes) \<Rightarrow> PolicySnapshot \<Rightarrow> AppConfig \<Rightarrow> AppConfig td_result" where
  "restrict uri digest snapshot ceiling =
     and_then (PolicySnapshot_validate uri digest snapshot) (\<lambda>_.
       let config = sn_config snapshot;
           policy = extend_ceiling (cfg_access_policy config) (cfg_access_policy ceiling)
       in and_then (AccessPolicy_validate policy) (\<lambda>_.
          and_then (restrict_roots (cfg_roots ceiling) (cfg_roots config)) (\<lambda>roots. Inr (config
            \<lparr>cfg_virtual_accounts := cfg_virtual_accounts ceiling,
             cfg_web_accounts := cfg_web_accounts ceiling,
             cfg_journal := cfg_journal ceiling,
             cfg_lifecycle := cfg_lifecycle ceiling,
             cfg_control_audit := cfg_control_audit ceiling,
             cfg_access_policy := policy,
             cfg_roots := roots,
             cfg_sensitive_policy :=
               \<lparr>sp_deny_edit_patterns = sp_deny_edit_patterns (cfg_sensitive_policy config)
                  @ sp_deny_edit_patterns (cfg_sensitive_policy ceiling),
                sp_warn_read_patterns = sp_warn_read_patterns (cfg_sensitive_policy config)
                  @ sp_warn_read_patterns (cfg_sensitive_policy ceiling)\<rparr>,
             cfg_webroot_policy :=
               \<lparr>wp_block_executable_uploads = (wp_block_executable_uploads (cfg_webroot_policy config)
                  \<or> wp_block_executable_uploads (cfg_webroot_policy ceiling)),
                wp_blocked_extensions = wp_blocked_extensions (cfg_webroot_policy config)
                  @ wp_blocked_extensions (cfg_webroot_policy ceiling)\<rparr>,
             cfg_features := restrict_features (cfg_features config) (cfg_features ceiling),
             cfg_limits := restrict_limits (cfg_limits config) (cfg_limits ceiling)\<rparr>))))"

section \<open>Authorization (\<open>policy.rs\<close>)\<close>

definition is_read_command :: "HelperCommand \<Rightarrow> bool" where
  "is_read_command c \<longleftrightarrow>
     c \<in> {HelperCommand.QuotaUsage, HelperCommand.ListDirectory, HelperCommand.FileMetadata,
          HelperCommand.DownloadFile, HelperCommand.ReadFileRange, HelperCommand.ReadTextFile,
          HelperCommand.ReadFile, HelperCommand.SearchFiles, HelperCommand.ListTrash}"

text \<open>The bound is \<open>usize::MAX\<close> for the other commands.\<close>

definition write_bound :: "AppConfig \<Rightarrow> HelperCommand \<Rightarrow> nat" where
  "write_bound config c =
     (if c = HelperCommand.WriteFile then max_text_edit_size (cfg_limits config)
      else if c = HelperCommand.UploadCommit then max_in_flight_upload (cfg_limits config)
      else U64_MAX)"

definition authorize_write :: "HelperRequest \<Rightarrow> AppConfig \<Rightarrow> unit td_result" where
  "authorize_write q config =
     (case hq_write_options q of None \<Rightarrow> Inr ()
      | Some options \<Rightarrow>
          if wo_stream_size options \<noteq> None
             \<and> (hq_command q \<noteq> HelperCommand.UploadCommit \<or> wo_data options \<noteq> [])
          then Inl TealDriveError.Validation
          else if (case wo_stream_size options of Some n \<Rightarrow> n | None \<Rightarrow> length (wo_data options))
                  > write_bound config (hq_command q)
          then Inl TealDriveError.FileTooLarge
          else if hq_command q \<in> {HelperCommand.WriteFile, HelperCommand.UploadCommit}
                  \<and> (wo_offset options \<noteq> 0 \<or> \<not> wo_truncate options)
          then Inl TealDriveError.Validation
          else Inr ())"

definition is_internal_trash :: "HelperRequest \<Rightarrow> bool" where
  "is_internal_trash q \<longleftrightarrow>
     hq_command q \<in> {HelperCommand.RestoreFromTrash, HelperCommand.ListTrash}
     \<or> (hq_command q = HelperCommand.DeletePermanently
        \<and> prefix ''.tealdrive-trash/files/'' (hq_relative_path q))"

definition authorize_names :: "HelperRequest \<Rightarrow> AppConfig \<Rightarrow> AllowedRoot \<Rightarrow> unit td_result" where
  "authorize_names q config root =
     (let sensitive = (\<lambda>p. sm_is_sensitive (detect_sensitive p (cfg_sensitive_policy config)));
          deny = (\<lambda>b. if b then Inl TealDriveError.PolicyDenied else Inr ())
      in and_then (deny (\<not> is_internal_trash q \<and> \<not> root_hidden_files_allowed root
            \<and> is_hidden_relative (hq_relative_path q))) (\<lambda>_.
         and_then (try_all (\<lambda>p. deny ((\<not> root_hidden_files_allowed root \<and> is_hidden_relative p)
             \<or> sensitive p))
           ((case hq_archive_source_paths q of Some ps \<Rightarrow> ps | None \<Rightarrow> [])
            @ (case hq_target_relative_path q of Some t \<Rightarrow> [t] | None \<Rightarrow> []))) (\<lambda>_.
         deny (\<not> is_internal_trash q
            \<and> hq_command q \<notin> {HelperCommand.ListDirectory, HelperCommand.FileMetadata,
                               HelperCommand.ListTrash, HelperCommand.SearchFiles}
            \<and> sensitive (hq_relative_path q)))))"

definition authorize_webroot :: "HelperRequest \<Rightarrow> AppConfig \<Rightarrow> AllowedRoot \<Rightarrow> unit td_result" where
  "authorize_webroot q config root =
     (let target = (case hq_target_relative_path q of Some t \<Rightarrow> t | None \<Rightarrow> hq_relative_path q) in
      if \<not> is_read_command (hq_command q) \<and> root_is_web_root root
      then (if hq_command q = HelperCommand.ExtractArchive then Inl TealDriveError.PolicyDenied
            else (case path_file_name target of
                    None \<Rightarrow> Inr ()
                  | Some n \<Rightarrow> and_then (SafeFileName_parse n) (\<lambda>name.
                      if \<not> permits (check_webroot_upload True name (cfg_webroot_policy config))
                      then Inl TealDriveError.PolicyDenied else Inr ())))
      else Inr ())"

definition policy_authorize ::
  "(string \<Rightarrow> string option) \<Rightarrow> Context option \<Rightarrow> HelperRequest \<Rightarrow> AppConfig \<Rightarrow> unit td_result" where
  "policy_authorize uuid cx q config =
     and_then (access_authorize uuid cx q config) (\<lambda>_.
     and_then (authorize_write q config) (\<lambda>_.
     and_then (ok_or (find (\<lambda>r. root_root_id r = hq_root_id q) (cfg_roots config))
       TealDriveError.InvalidRootId) (\<lambda>root.
     if \<not> is_read_command (hq_command q) \<and> root_read_only root then Inl TealDriveError.PolicyDenied
     else if hq_command q = HelperCommand.UploadCommit \<and> \<not> root_uploads_allowed root
     then Inl TealDriveError.PolicyDenied
     else and_then (authorize_names q config root) (\<lambda>_. authorize_webroot q config root))))"

section \<open>The gate (\<open>ipc.rs\<close>)\<close>

text \<open>What the gate hands a request to.\<close>

datatype (plugins only: code size) HelperHandler =
    measure_usage | list_directory_with_roots | file_metadata_with_roots | read_file_range
  | download_file_with_roots | read_text_file_with_roots | create_folder_with_roots
  | rename_with_roots | move_file_with_roots | copy_file_with_roots
  | move_file_to_trash_with_roots | restore_file_from_trash_with_roots | write_file_with_roots
  | delete_permanently_with_roots | chmod_file_with_roots | compress_zip_with_roots
  | compress_targz_with_roots | extract_archive_with_roots | search_files_with_roots
  | list_trash_with_roots

fun helper_handler :: "HelperCommand \<Rightarrow> HelperHandler option" where
  "helper_handler HelperCommand.QuotaUsage = Some measure_usage"
| "helper_handler HelperCommand.ListDirectory = Some list_directory_with_roots"
| "helper_handler HelperCommand.FileMetadata = Some file_metadata_with_roots"
| "helper_handler HelperCommand.ReadFileRange = Some read_file_range"
| "helper_handler HelperCommand.DownloadFile = Some download_file_with_roots"
| "helper_handler HelperCommand.ReadTextFile = Some read_text_file_with_roots"
| "helper_handler HelperCommand.CreateFolder = Some create_folder_with_roots"
| "helper_handler HelperCommand.Rename = Some rename_with_roots"
| "helper_handler HelperCommand.Move = Some move_file_with_roots"
| "helper_handler HelperCommand.Copy = Some copy_file_with_roots"
| "helper_handler HelperCommand.MoveToTrash = Some move_file_to_trash_with_roots"
| "helper_handler HelperCommand.RestoreFromTrash = Some restore_file_from_trash_with_roots"
| "helper_handler HelperCommand.WriteFile = Some write_file_with_roots"
| "helper_handler HelperCommand.UploadCommit = Some write_file_with_roots"
| "helper_handler HelperCommand.DeletePermanently = Some delete_permanently_with_roots"
| "helper_handler HelperCommand.Chmod = Some chmod_file_with_roots"
| "helper_handler HelperCommand.CompressZip = Some compress_zip_with_roots"
| "helper_handler HelperCommand.CompressTarGz = Some compress_targz_with_roots"
| "helper_handler HelperCommand.ExtractArchive = Some extract_archive_with_roots"
| "helper_handler HelperCommand.SearchFiles = Some search_files_with_roots"
| "helper_handler HelperCommand.ListTrash = Some list_trash_with_roots"
| "helper_handler HelperCommand.ReadFile = None"

definition helper_feature_disabled :: "FeatureFlags \<Rightarrow> HelperCommand \<Rightarrow> bool" where
  "helper_feature_disabled fl c =
     (case c of
        HelperCommand.WriteFile \<Rightarrow> \<not> ff_save_text_file fl
      | HelperCommand.Chmod \<Rightarrow> \<not> ff_chmod_file fl
      | HelperCommand.ExtractArchive \<Rightarrow> \<not> ff_extract_archive fl
      | HelperCommand.DeletePermanently \<Rightarrow> \<not> ff_delete_permanently fl
      | _ \<Rightarrow> False)"

text \<open>The result is a refusal or the handler that runs.\<close>

definition handle_helper_operation ::
  "(string \<Rightarrow> string option) \<Rightarrow> (AllowedRoot \<Rightarrow> TreeView) \<Rightarrow> Context option \<Rightarrow> HelperRequest
   \<Rightarrow> AppConfig \<Rightarrow> HelperResponse + HelperHandler" where
  "handle_helper_operation uuid tree cx q config =
     (if hq_uid q = 0 then Inl (response_permission_denied q ''Helper refuses uid 0.'')
      else case and_then (access_authorize uuid cx q config) (\<lambda>_. preflight tree cx q config) of
        Inl err \<Rightarrow> Inl (helper_error_from_tealdrive q err)
      | Inr _ \<Rightarrow>
          if \<not> is_ok (policy_authorize uuid cx q config)
          then Inl (response_permission_denied q ''Operation denied by helper policy.'')
          else if helper_feature_disabled (cfg_features config) (hq_command q)
          then Inl (response_feature_disabled q)
          else if command_disabled_in_v1 (hq_command q) then Inl (response_feature_disabled q)
          else (case helper_handler (hq_command q) of
                  Some h \<Rightarrow> Inr h
                | None \<Rightarrow> Inl (response_not_implemented q)))"

section \<open>Restriction is monotone\<close>

lemma find_distinct_ids:
  "distinct (map root_root_id roots) \<Longrightarrow> t \<in> set roots \<Longrightarrow>
     find (\<lambda>r. root_root_id r = root_root_id t) roots = Some t"
  by (induction roots) auto

lemma restrict_roots_find:
  assumes "restrict_roots trusted roots = Inr roots'"
    and "find (\<lambda>r. root_root_id r = i) roots' = Some r'"
  shows "\<exists>r \<in> set roots. \<exists>t \<in> set trusted.
     root_root_id t = i \<and> path_eq (root_base_path t) (root_base_path r') \<and> r' = narrow_root r t"
  using assms
proof (induction roots arbitrary: roots')
  case Nil
  then show ?case by simp
next
  case (Cons r roots)
  obtain t rs where t: "find (\<lambda>x. root_root_id x = root_root_id r
        \<and> path_eq (root_base_path x) (root_base_path r)) trusted = Some t"
    and rs: "restrict_roots trusted roots = Inr rs" and roots': "roots' = narrow_root r t # rs"
    using Cons.prems(1) by (auto simp: and_then_Inr ok_or_Inr)
  have trusted: "t \<in> set trusted" "root_root_id t = root_root_id r"
      "path_eq (root_base_path t) (root_base_path r)"
    using t by (auto simp: find_Some_iff)
  show ?case
  proof (cases "root_root_id r = i")
    case True
    then have "r' = narrow_root r t"
      using Cons.prems(2) by (simp add: roots' narrow_root_def)
    with True trusted show ?thesis by (auto simp: narrow_root_def)
  next
    case False
    then have "find (\<lambda>r. root_root_id r = i) rs = Some r'"
      using Cons.prems(2) by (simp add: roots' narrow_root_def)
    with Cons.IH [OF rs] show ?thesis by auto
  qed
qed

text \<open>What a restricted configuration is, field by field.\<close>

lemma restrict_fields:
  assumes "restrict uri digest snapshot ceiling = Inr config"
  shows "cfg_access_policy config
           = extend_ceiling (cfg_access_policy (sn_config snapshot)) (cfg_access_policy ceiling)"
    and "restrict_roots (cfg_roots ceiling) (cfg_roots (sn_config snapshot)) = Inr (cfg_roots config)"
    and "cfg_features config = restrict_features (cfg_features (sn_config snapshot)) (cfg_features ceiling)"
    and "cfg_limits config = restrict_limits (cfg_limits (sn_config snapshot)) (cfg_limits ceiling)"
    and "is_sensitive (cfg_sensitive_policy ceiling) p \<Longrightarrow> is_sensitive (cfg_sensitive_policy config) p"
    and "wp_block_executable_uploads (cfg_webroot_policy ceiling) \<Longrightarrow>
           wp_block_executable_uploads (cfg_webroot_policy config)"
    and "set (wp_blocked_extensions (cfg_webroot_policy ceiling))
           \<subseteq> set (wp_blocked_extensions (cfg_webroot_policy config))"
  using assms
  by (auto simp: restrict_def and_then_Inr Let_def elim!: is_sensitive_mono [rotated])

lemma access_authorize_mono:
  assumes pol: "cfg_access_policy config = extend_ceiling p (cfg_access_policy ceiling)"
    and users: "distinct (map fst (ap_users (cfg_access_policy ceiling)))"
    and ok: "access_authorize uuid cx q config = Inr ()"
  shows "access_authorize uuid cx q ceiling = Inr ()"
proof -
  have check: "AccessPolicy_check (cfg_access_policy config) u r x a = Inr () \<Longrightarrow>
      AccessPolicy_check (cfg_access_policy ceiling) u r x a = Inr ()" for u r x a
    using extend_ceiling_check_ok [OF users] by (simp add: pol)
  show ?thesis
    using ok unfolding access_authorize_def Let_def
    by (auto simp: and_then_Inr try_all_ok intro: check split: if_splits option.splits)
qed

lemma authorize_write_mono:
  assumes "authorize_write q config = Inr ()"
    and "write_bound config (hq_command q) \<le> write_bound ceiling (hq_command q)"
  shows "authorize_write q ceiling = Inr ()"
  using assms by (auto simp: authorize_write_def split: option.splits if_splits)

definition extra_paths :: "HelperRequest \<Rightarrow> RelativePath list" where
  "extra_paths q = (case hq_archive_source_paths q of Some ps \<Rightarrow> ps | None \<Rightarrow> [])
     @ (case hq_target_relative_path q of Some t \<Rightarrow> [t] | None \<Rightarrow> [])"

lemma authorize_names_ok:
  "authorize_names q config root = Inr () \<longleftrightarrow>
     (\<not> is_internal_trash q \<and> is_hidden_relative (hq_relative_path q) \<longrightarrow> root_hidden_files_allowed root)
     \<and> (\<forall>p \<in> set (extra_paths q). (is_hidden_relative p \<longrightarrow> root_hidden_files_allowed root)
          \<and> \<not> is_sensitive (cfg_sensitive_policy config) p)
     \<and> (\<not> is_internal_trash q
          \<and> hq_command q \<notin> {HelperCommand.ListDirectory, HelperCommand.FileMetadata,
                             HelperCommand.ListTrash, HelperCommand.SearchFiles} \<longrightarrow>
        \<not> is_sensitive (cfg_sensitive_policy config) (hq_relative_path q))"
proof -
  have deny: "(if b then Inl TealDriveError.PolicyDenied else Inr ()) = Inr () \<longleftrightarrow> \<not> b" for b :: bool
    by simp
  show ?thesis
    unfolding authorize_names_def Let_def and_then_unit try_all_ok deny detect_sensitive_iff
      extra_paths_def by blast
qed

lemma authorize_names_mono:
  assumes "authorize_names q config root = Inr ()"
    and "\<And>p. is_sensitive (cfg_sensitive_policy ceiling) p \<Longrightarrow> is_sensitive (cfg_sensitive_policy config) p"
    and "root_hidden_files_allowed root \<Longrightarrow> root_hidden_files_allowed trusted"
  shows "authorize_names q ceiling trusted = Inr ()"
  using assms unfolding authorize_names_ok by blast

lemma check_webroot_upload_mono:
  assumes "permits (check_webroot_upload True n (cfg_webroot_policy config))"
    and "wp_block_executable_uploads (cfg_webroot_policy ceiling) \<Longrightarrow>
           wp_block_executable_uploads (cfg_webroot_policy config)"
    and "set (wp_blocked_extensions (cfg_webroot_policy ceiling))
           \<subseteq> set (wp_blocked_extensions (cfg_webroot_policy config))"
  shows "permits (check_webroot_upload True n (cfg_webroot_policy ceiling))"
  using assms
  by (auto simp: check_webroot_upload_def Let_def list_ex_iff split: option.splits if_splits)

lemma authorize_webroot_mono:
  assumes "authorize_webroot q config root = Inr ()"
    and "wp_block_executable_uploads (cfg_webroot_policy ceiling) \<Longrightarrow>
           wp_block_executable_uploads (cfg_webroot_policy config)"
    and "set (wp_blocked_extensions (cfg_webroot_policy ceiling))
           \<subseteq> set (wp_blocked_extensions (cfg_webroot_policy config))"
    and "root_is_web_root trusted \<Longrightarrow> root_is_web_root root"
  shows "authorize_webroot q ceiling trusted = Inr ()"
  using assms check_webroot_upload_mono [OF _ assms(2,3)]
  by (auto simp: authorize_webroot_def Let_def and_then_Inr split: if_splits option.splits)

lemma policy_authorize_within_ceiling:
  assumes res: "restrict uri digest snapshot ceiling = Inr config"
    and ids: "distinct (map root_root_id (cfg_roots ceiling))"
    and users: "distinct (map fst (ap_users (cfg_access_policy ceiling)))"
    and ok: "policy_authorize uuid cx q config = Inr ()"
  shows "policy_authorize uuid cx q ceiling = Inr ()"
proof -
  note f = restrict_fields [OF res]
  obtain root where acc: "access_authorize uuid cx q config = Inr ()"
    and wr: "authorize_write q config = Inr ()"
    and root: "find (\<lambda>r. root_root_id r = hq_root_id q) (cfg_roots config) = Some root"
    and flags: "\<not> (\<not> is_read_command (hq_command q) \<and> root_read_only root)"
      "\<not> (hq_command q = HelperCommand.UploadCommit \<and> \<not> root_uploads_allowed root)"
    and names: "authorize_names q config root = Inr ()"
    and web: "authorize_webroot q config root = Inr ()"
    using ok by (auto simp: policy_authorize_def and_then_Inr ok_or_Inr split: if_splits)
  obtain r t where t: "t \<in> set (cfg_roots ceiling)" "root_root_id t = hq_root_id q"
    and narrow: "root = narrow_root r t"
    using restrict_roots_find [OF f(2) root] by auto
  have found: "find (\<lambda>r. root_root_id r = hq_root_id q) (cfg_roots ceiling) = Some t"
    using find_distinct_ids [OF ids t(1)] by (simp add: t(2))
  have bound: "write_bound config (hq_command q) \<le> write_bound ceiling (hq_command q)"
    by (simp add: write_bound_def f(4) restrict_limits_def)
  show ?thesis
    using access_authorize_mono [OF f(1) users acc] authorize_write_mono [OF wr bound] found flags
      authorize_names_mono [OF names f(5), where trusted = t]
      authorize_webroot_mono [OF web f(6,7), where trusted = t]
    by (auto simp: policy_authorize_def narrow narrow_root_def)
qed

section \<open>Preflight covers the tree\<close>

text \<open>The tree the walk sees: \<open>q\<close> is an entry of the directory \<open>p\<close>.\<close>

definition tree_child :: "TreeView \<Rightarrow> RelativePath \<Rightarrow> RelativePath \<Rightarrow> bool" where
  "tree_child tv p q \<longleftrightarrow>
     (\<exists>m es name. tv_metadata tv p = Inr m \<and> md_is_dir m \<and> tv_entries tv p = Inr es
        \<and> Inr (Some name) \<in> set es \<and> q = child_path p name)"

text \<open>What the walk establishes of one node.\<close>

definition node_checked ::
  "TreeView \<Rightarrow> Context option \<Rightarrow> RelativePath \<Rightarrow> Access \<Rightarrow> RelativePath option \<Rightarrow> RelativePath \<Rightarrow> bool" where
  "node_checked tv cx source action target p \<longleftrightarrow>
     context_check cx p action = Inr () \<and> preflight_target_check cx source target p = Inr ()
     \<and> (\<exists>m. tv_metadata tv p = Inr m \<and> check_metadata cx m = Inr ())"

lemma push_children_stack:
  "push_children path depth es stack = Inr stack' \<Longrightarrow>
     set stack \<subseteq> set stack'
     \<and> (\<forall>name. Inr (Some name) \<in> set es \<longrightarrow> (child_path path name, depth + 1) \<in> set stack')"
  by (induction path depth es stack rule: push_children.induct) auto

lemma preflight_loop_covers:
  "preflight_loop tv cx source action target stack count = Inr () \<Longrightarrow>
     (p, d) \<in> set stack \<Longrightarrow> (tree_child tv)\<^sup>*\<^sup>* p q \<Longrightarrow> node_checked tv cx source action target q"
proof (induction tv cx source action target stack count arbitrary: p d rule: preflight_loop.induct)
  case (1 tv cx source action target count)
  then show ?case by simp
next
  case (2 tv cx source action target path depth rest count)
  have ok: "\<not> tv_cancelled tv count" "\<not> (count + 1 > 100000 \<or> depth > 128)"
    using "2.prems"(1) by (auto split: if_splits)
  obtain m stack where checked: "context_check cx path action = Inr ()"
      "preflight_target_check cx source target path = Inr ()"
      "tv_metadata tv path = Inr m" "check_metadata cx m = Inr ()"
    and op: "tv_open tv path = Inr ()"
    and stack: "(if md_is_dir m then and_then (map_err (\<lambda>_. TealDriveError.PolicyDenied) (tv_entries tv path))
        (\<lambda>es. push_children path depth es rest) else Inr rest) = Inr stack"
    and loop: "preflight_loop tv cx source action target stack (count + 1) = Inr ()"
    using "2.prems"(1) ok by (auto simp: and_then_Inr map_err_Inr)
  have rest: "set rest \<subseteq> set stack"
    using stack push_children_stack [of path depth _ rest stack]
    by (cases "md_is_dir m") (auto simp: and_then_Inr)
  have child: "tree_child tv path c \<Longrightarrow> \<exists>d. (c, d) \<in> set stack" for c
    using stack checked(3) push_children_stack
    by (fastforce simp: tree_child_def and_then_Inr map_err_Inr)
  have IH: "(c, e) \<in> set stack \<Longrightarrow> (tree_child tv)\<^sup>*\<^sup>* c q \<Longrightarrow> node_checked tv cx source action target q" for c e
    by (rule "2.IH") (use ok checked op stack loop in \<open>auto\<close>)
  show ?case
  proof (cases "(p, d) \<in> set rest")
    case True
    with rest IH "2.prems"(3) show ?thesis by blast
  next
    case False
    then have p: "p = path" using "2.prems"(2) by simp
    from "2.prems"(3) show ?thesis
    proof (cases rule: converse_rtranclpE)
      case base
      then show ?thesis using checked p by (auto simp: node_checked_def)
    next
      case (step c)
      with child p IH show ?thesis by blast
    qed
  qed
qed

section \<open>Properties\<close>

text \<open>C8: the network process cannot widen what the helper does. Whatever policy snapshot a request
  carries, if the gate running under the configuration restricted by the ceiling hands the request
  to a handler, then the request is not for uid 0, the root-owned ceiling itself authorizes the
  request, and the ceiling has the feature enabled. Root identifiers of a valid configuration and
  the keys of a \<open>BTreeMap\<close> are distinct.\<close>

theorem gate_within_ceiling:
  assumes "restrict uri digest snapshot ceiling = Inr config"
    and "distinct (map root_root_id (cfg_roots ceiling))"
    and "distinct (map fst (ap_users (cfg_access_policy ceiling)))"
    and "handle_helper_operation uuid tree cx q config = Inr h"
  shows "hq_uid q \<noteq> 0 \<and> policy_authorize uuid cx q ceiling = Inr ()
     \<and> \<not> helper_feature_disabled (cfg_features ceiling) (hq_command q)
     \<and> helper_handler (hq_command q) = Some h"
proof -
  have ok: "policy_authorize uuid cx q config = Inr ()"
    and feature: "\<not> helper_feature_disabled (cfg_features config) (hq_command q)"
    and rest: "hq_uid q \<noteq> 0" "helper_handler (hq_command q) = Some h"
    using assms(4)
    by (auto simp: handle_helper_operation_def is_ok_unit split: if_splits sum.splits option.splits)
  have "\<not> helper_feature_disabled (cfg_features ceiling) (hq_command q)"
    using feature restrict_fields(3) [OF assms(1)]
    by (cases "hq_command q") (auto simp: helper_feature_disabled_def restrict_features_def)
  with policy_authorize_within_ceiling [OF assms(1-3) ok] rest show ?thesis by simp
qed

text \<open>C23: before a rename, a move, a move to trash or a permanent deletion, every node of the tree
  has been checked. If the preflight succeeds, then for every node reachable from the source the
  policy allows the action, no node is a hard-linked file where those are rejected, and for a move
  the node may be read and its new name written. The walk is total: it is bounded by one hundred
  thousand nodes and depth 128, and exceeding a bound is a denial.\<close>

theorem preflight_covers_tree:
  assumes "preflight_tree_inner tv cx source action target = Inr ()"
    and "(tree_child tv)\<^sup>*\<^sup>* source node"
  shows "context_check cx node action = Inr ()
     \<and> (\<exists>m. tv_metadata tv node = Inr m \<and> check_metadata cx m = Inr ())
     \<and> (\<forall>t. target = Some t \<longrightarrow> context_check cx node Read = Inr ()
          \<and> (\<exists>rel. node = source @ rel \<and> context_check cx (t @ rel) Write = Inr ()))"
proof -
  have "node_checked tv cx source action target node"
    using assms preflight_loop_covers [of tv cx source action target "[(source, 0)]" 0 source 0 node]
    by (simp add: preflight_tree_inner_def)
  then show ?thesis
    by (auto simp: node_checked_def preflight_target_check_def and_then_Inr ok_or_Inr strip_prefix_Some)
qed

text \<open>the helper's own authorization, independent of the network tier. A request it authorizes
  names a configured root; it writes nothing to a read-only root and uploads nothing to a root that
  forbids uploads; it extracts nothing into a web root; its data is within the limit of the command
  and replaces the whole file; and outside the internal trash neither its path nor its target is
  hidden on a root without hidden files, and a path it reads or changes is not sensitive.\<close>

theorem helper_authorize_sound:
  assumes "policy_authorize uuid cx q config = Inr ()"
  shows "\<exists>root. find (\<lambda>r. root_root_id r = hq_root_id q) (cfg_roots config) = Some root
     \<and> (\<not> is_read_command (hq_command q) \<longrightarrow> \<not> root_read_only root)
     \<and> (hq_command q = HelperCommand.UploadCommit \<longrightarrow> root_uploads_allowed root)
     \<and> (hq_command q = HelperCommand.ExtractArchive \<longrightarrow> \<not> root_is_web_root root)
     \<and> (\<not> is_internal_trash q \<and> is_hidden_relative (hq_relative_path q) \<longrightarrow> root_hidden_files_allowed root)
     \<and> (\<forall>t. hq_target_relative_path q = Some t \<longrightarrow>
          \<not> is_sensitive (cfg_sensitive_policy config) t
          \<and> (is_hidden_relative t \<longrightarrow> root_hidden_files_allowed root))
     \<and> (\<forall>w. hq_write_options q = Some w \<longrightarrow>
          length (wo_data w) \<le> write_bound config (hq_command q)
          \<and> (hq_command q \<in> {HelperCommand.WriteFile, HelperCommand.UploadCommit} \<longrightarrow>
               wo_offset w = 0 \<and> wo_truncate w))"
proof -
  obtain root where root: "find (\<lambda>r. root_root_id r = hq_root_id q) (cfg_roots config) = Some root"
    and wr: "authorize_write q config = Inr ()"
    and flags: "\<not> (\<not> is_read_command (hq_command q) \<and> root_read_only root)"
      "\<not> (hq_command q = HelperCommand.UploadCommit \<and> \<not> root_uploads_allowed root)"
    and names: "authorize_names q config root = Inr ()"
    and web: "authorize_webroot q config root = Inr ()"
    using assms by (auto simp: policy_authorize_def and_then_Inr ok_or_Inr split: if_splits)
  have hidden: "\<not> is_internal_trash q \<and> is_hidden_relative (hq_relative_path q) \<longrightarrow> root_hidden_files_allowed root"
    and target: "hq_target_relative_path q = Some t \<Longrightarrow>
      \<not> is_sensitive (cfg_sensitive_policy config) t
      \<and> (is_hidden_relative t \<longrightarrow> root_hidden_files_allowed root)" for t
    using names unfolding authorize_names_ok by (auto simp: extra_paths_def)
  have data: "hq_write_options q = Some w \<Longrightarrow>
      length (wo_data w) \<le> write_bound config (hq_command q)
      \<and> (hq_command q \<in> {HelperCommand.WriteFile, HelperCommand.UploadCommit} \<longrightarrow>
           wo_offset w = 0 \<and> wo_truncate w)" for w
    using wr by (auto simp: authorize_write_def split: if_splits option.splits)
  have "hq_command q = HelperCommand.ExtractArchive \<longrightarrow> \<not> root_is_web_root root"
    using web by (auto simp: authorize_webroot_def Let_def is_read_command_def split: if_splits)
  with root flags hidden target data show ?thesis by blast
qed

section \<open>Examples\<close>

definition example_request :: "HelperCommand \<Rightarrow> RelativePath \<Rightarrow> RelativePath option \<Rightarrow> HelperRequest" where
  "example_request c p t =
     \<lparr>hq_request_id = 1, hq_username = ''alice'', hq_uid = 1000, hq_gid = 1000, hq_command = c,
      hq_root_id = ''home'', hq_relative_path = p, hq_target_relative_path = t,
      hq_policy_context = \<lparr>hpc_read_only_root = False, hpc_is_web_root = False\<rparr>,
      hq_limits = \<lparr>hl_max_directory_page_size = 500, hl_max_text_edit_size = 1000,
        hl_max_chunk_size = 1000, hl_max_download_helper_bytes = 1000\<rparr>,
      hq_list_options = None, hq_write_options = None, hq_chmod_mode = None,
      hq_archive_source_paths = None, hq_search_options = None\<rparr>"

lemma extend_default_valid:
  "AccessPolicy_validate (extend_ceiling AccessPolicy_default AccessPolicy_default) = Inr ()"
proof -
  let ?xs = "ap_deny_system_components AccessPolicy_default @ ap_deny_system_components AccessPolicy_default"
  have "length (remdups_adj (sort ?xs)) \<le> length (sort ?xs)" by (rule remdups_adj_length)
  then have "length (remdups_adj (sort ?xs)) \<le> 128"
    by (simp add: AccessPolicy_default_def)
  moreover have "\<not> (\<exists>s \<in> set ?xs. bad_component_name s)"
    by (simp add: AccessPolicy_default_def bad_component_name_def)
  ultimately show ?thesis
    by (auto simp: AccessPolicy_validate_def extend_ceiling_def AccessPolicy_default_def)
qed

definition example_restricted :: AppConfig where
  "example_restricted = AppConfig_default
     \<lparr>cfg_access_policy := extend_ceiling AccessPolicy_default AccessPolicy_default,
      cfg_roots := [narrow_root AllowedRoot_default AllowedRoot_default],
      cfg_sensitive_policy :=
        \<lparr>sp_deny_edit_patterns = sp_deny_edit_patterns SensitivePolicyConfig_default
           @ sp_deny_edit_patterns SensitivePolicyConfig_default,
         sp_warn_read_patterns = sp_warn_read_patterns SensitivePolicyConfig_default
           @ sp_warn_read_patterns SensitivePolicyConfig_default\<rparr>,
      cfg_webroot_policy :=
        \<lparr>wp_block_executable_uploads = True,
         wp_blocked_extensions = wp_blocked_extensions WebRootPolicyConfig_default
           @ wp_blocked_extensions WebRootPolicyConfig_default\<rparr>,
      cfg_features := restrict_features FeatureFlags_default FeatureFlags_default,
      cfg_limits := restrict_limits Limits_default Limits_default\<rparr>"

lemma example_restrict:
  "restrict (\<lambda>_. None) (\<lambda>_. []) (PolicySnapshot_new (\<lambda>_. []) AppConfig_default) AppConfig_default
     = Inr example_restricted"
proof -
  have "cfg_access_policy AppConfig_default = AccessPolicy_default"
    and "cfg_roots AppConfig_default = [AllowedRoot_default]"
    and "cfg_sensitive_policy AppConfig_default = SensitivePolicyConfig_default"
    and "cfg_webroot_policy AppConfig_default = WebRootPolicyConfig_default"
    and "cfg_features AppConfig_default = FeatureFlags_default"
    and "cfg_limits AppConfig_default = Limits_default"
    and "wp_block_executable_uploads WebRootPolicyConfig_default"
    by (simp_all add: AppConfig_default_def WebRootPolicyConfig_default_def)
  then show ?thesis
    by (simp add: restrict_def PolicySnapshot_validate_def PolicySnapshot_new_def AppConfig_default_valid
        extend_default_valid Let_def path_eq_def reject_if_cases example_restricted_def)
qed

lemma example_access:
  "AccessPolicy_check (cfg_access_policy example_restricted) ''alice'' ''home'' ''docs'' Write = Inr ()"
proof -
  have "distinct (map fst (ap_users AccessPolicy_default))" by (simp add: AccessPolicy_default_def)
  moreover have "AccessPolicy_check AccessPolicy_default ''alice'' ''home'' ''docs'' Write = Inr ()"
    by (simp add: policy_eval AccessPolicy_default_def)
  ultimately show ?thesis
    by (simp add: example_restricted_def extend_ceiling_check_ok)
qed

lemma example_access_authorize:
  "access_authorize uuid None (example_request HelperCommand.CreateFolder ''docs'' None) example_restricted
     = Inr ()"
  using example_access
  by (simp add: access_authorize_def example_request_def effective_target_def operation_access_def)

lemma example_authorize:
  "policy_authorize uuid None (example_request HelperCommand.CreateFolder ''docs'' None) example_restricted
     = Inr ()"
proof -
  let ?q = "example_request HelperCommand.CreateFolder ''docs'' None"
  let ?root = "narrow_root AllowedRoot_default AllowedRoot_default"
  have "authorize_names ?q example_restricted ?root = Inr ()"
    unfolding authorize_names_ok
    by (simp add: example_request_def extra_paths_def policy_eval example_restricted_def config_defaults)
  moreover have "authorize_webroot ?q example_restricted ?root = Inr ()"
    by (simp add: authorize_webroot_def narrow_root_def AllowedRoot_default_def)
  moreover have "find (\<lambda>r. root_root_id r = hq_root_id ?q) (cfg_roots example_restricted) = Some ?root"
    by (simp add: example_restricted_def narrow_root_def AllowedRoot_default_def example_request_def)
  moreover have "\<not> root_read_only ?root" "hq_command ?q = HelperCommand.CreateFolder"
    "authorize_write ?q example_restricted = Inr ()"
    by (simp_all add: narrow_root_def AllowedRoot_default_def example_request_def authorize_write_def)
  ultimately show ?thesis
    using example_access_authorize by (simp add: policy_authorize_def)
qed

lemma example_gate:
  "handle_helper_operation uuid tree None (example_request HelperCommand.CreateFolder ''docs'' None)
     example_restricted = Inr create_folder_with_roots"
proof -
  have "hq_uid (example_request HelperCommand.CreateFolder ''docs'' None) = 1000"
    and "hq_command (example_request HelperCommand.CreateFolder ''docs'' None) = HelperCommand.CreateFolder"
    by (simp_all add: example_request_def)
  then show ?thesis
    by (simp add: handle_helper_operation_def example_access_authorize preflight_def example_authorize
        helper_feature_disabled_def command_disabled_in_v1_def)
qed

theorem gate_within_ceiling_witness:
  "policy_authorize (\<lambda>_. None) None (example_request HelperCommand.CreateFolder ''docs'' None)
     AppConfig_default = Inr ()"
proof -
  have "distinct (map root_root_id (cfg_roots AppConfig_default))"
    and "distinct (map fst (ap_users (cfg_access_policy AppConfig_default)))"
    by (simp_all add: AppConfig_default_def AccessPolicy_default_def)
  from gate_within_ceiling [OF example_restrict this example_gate [of "\<lambda>_. None" undefined]]
  show ?thesis by simp
qed

theorem helper_authorize_sound_witness:
  "\<exists>root. find (\<lambda>r. root_root_id r = ''home'') (cfg_roots example_restricted) = Some root
     \<and> \<not> root_read_only root"
  using helper_authorize_sound [OF example_authorize [of "\<lambda>_. None"]]
  by (auto simp: example_request_def is_read_command_def)

text \<open>A directory with one file in it.\<close>

definition example_tree :: TreeView where
  "example_tree =
     \<lparr>tv_cancelled = (\<lambda>_. False), tv_open = (\<lambda>_. Inr ()),
      tv_metadata = (\<lambda>p. Inr (if p = ''a'' then \<lparr>md_is_file = False, md_is_dir = True, md_nlink = 2\<rparr>
        else \<lparr>md_is_file = True, md_is_dir = False, md_nlink = 1\<rparr>)),
      tv_entries = (\<lambda>p. Inr (if p = ''a'' then [Inr (Some ''x'')] else []))\<rparr>"

definition example_context :: "Context option" where
  "example_context = with_context None (example_request HelperCommand.Move ''a'' (Some ''b'')) AppConfig_default"

lemma example_context_check [simp]:
  "context_check example_context ''a'' a = Inr ()" "context_check example_context ''a/x'' a = Inr ()"
  "context_check example_context ''b'' a = Inr ()" "context_check example_context ''b/x'' a = Inr ()"
  by (simp_all add: context_check_def example_context_def with_context_def translated_def
      AccessPolicy_check_def validate_relative_path_eq name_parts_def hidden_component_def
      policy_rules_def AppConfig_default_def AccessPolicy_default_def example_request_def)

lemma example_tree_simps [simp]:
  "tv_cancelled example_tree n = False" "tv_open example_tree p = Inr ()"
  "tv_metadata example_tree ''a'' = Inr \<lparr>md_is_file = False, md_is_dir = True, md_nlink = 2\<rparr>"
  "tv_metadata example_tree ''a/x'' = Inr \<lparr>md_is_file = True, md_is_dir = False, md_nlink = 1\<rparr>"
  "tv_entries example_tree ''a'' = Inr [Inr (Some ''x'')]"
  by (simp_all add: example_tree_def)

lemma example_preflight:
  "preflight_tree_inner example_tree example_context ''a'' Access.Move (Some ''b'') = Inr ()"
  by (simp add: preflight_tree_inner_def preflight_target_check_def strip_prefix_def
      check_metadata_def child_path_def)

theorem preflight_covers_tree_witness:
  "context_check example_context ''a/x'' Access.Move = Inr ()
   \<and> (\<exists>rel. ''a/x'' = ''a'' @ rel \<and> context_check example_context (''b'' @ rel) Write = Inr ())"
proof -
  have "tree_child example_tree ''a'' ''a/x''"
    by (simp add: tree_child_def example_tree_def child_path_def)
  then have "(tree_child example_tree)\<^sup>*\<^sup>* ''a'' ''a/x''" by blast
  from preflight_covers_tree [OF example_preflight this] show ?thesis by blast
qed

end
