(* ===== verification/TD_Session.thy ===== *)
theory TD_Session
  imports TD_Config
begin

text \<open>
  Browser sessions: \<open>src/session/store.rs\<close>, \<open>csrf.rs\<close> and \<open>cookie.rs\<close>, with the grant type of
  \<open>src/accounts/grants.rs\<close>. Random identifiers and the clock are arguments of the operations that
  draw them. The \<open>SessionStore\<close> trait is the locale \<open>session_store\<close>; the in-memory store is its
  interpretation. The step relation covers the trait's operations and the store's own ones.
\<close>

unbundle bit_operations_syntax

type_synonym SessionId = Uuid
type_synonym CsrfToken = string

section \<open>Data\<close>

record CallerBinding =
  cb_uid :: nat
  cb_pid :: nat
  cb_start_time :: nat
  cb_boot_id :: string

record SessionGrant =
  gr_nonce :: string
  gr_account_id :: string
  gr_generation :: nat
  gr_caller :: CallerBinding
  gr_expires_at :: nat

record Session =
  ses_session_id :: SessionId
  ses_grant :: "SessionGrant option"
  ses_csrf_token :: CsrfToken
  ses_username :: string
  ses_uid :: nat
  ses_gid :: nat
  ses_created_at :: nat
  ses_last_seen_at :: nat
  ses_expires_at :: nat
  ses_idle_expires_at :: nat
  ses_user_agent :: "string option"
  ses_ip :: "string option"
  ses_revoked :: bool

definition Session_allowed_by :: "Session \<Rightarrow> AppConfig \<Rightarrow> bool" where
  "Session_allowed_by s config =
     (if wa_enabled (cfg_web_accounts config)
      then ses_grant s \<noteq> None \<and> ses_uid s \<noteq> 0 \<and> ses_gid s \<noteq> 0
           \<and> ses_username s \<notin> set (wa_denied_users (cfg_web_accounts config))
      else ses_grant s = None \<and> allows_login (cfg_account_policy config) (ses_username s))"

record SessionCreateInput =
  ci_username :: string
  ci_uid :: nat
  ci_gid :: nat
  ci_user_agent :: "string option"
  ci_ip :: "string option"

datatype SessionLookupResult = Found Session | NotFound | Expired | Revoked

record InMemorySessionStore =
  st_sessions :: "(SessionId \<times> Session) list"
  st_config :: SessionConfig

definition store_new :: "SessionConfig \<Rightarrow> InMemorySessionStore" where
  "store_new config = \<lparr>st_sessions = [], st_config = config\<rparr>"

definition update_config :: "SessionConfig \<Rightarrow> InMemorySessionStore \<Rightarrow> InMemorySessionStore" where
  "update_config config st = st\<lparr>st_config := config\<rparr>"

section \<open>Operations\<close>

definition classify :: "Session \<Rightarrow> nat \<Rightarrow> SessionLookupResult" where
  "classify s now =
     (if ses_revoked s then Revoked
      else if now \<ge> ses_expires_at s \<or> now \<ge> ses_idle_expires_at s then Expired
      else Found s)"

definition create_session ::
  "SessionId \<Rightarrow> CsrfToken \<Rightarrow> SessionCreateInput \<Rightarrow> nat \<Rightarrow> InMemorySessionStore
   \<Rightarrow> Session \<times> InMemorySessionStore" where
  "create_session sid token input now st =
     (let s = \<lparr>ses_session_id = sid, ses_grant = None, ses_csrf_token = token,
            ses_username = ci_username input, ses_uid = ci_uid input, ses_gid = ci_gid input,
            ses_created_at = now, ses_last_seen_at = now,
            ses_expires_at = saturating_add now (se_absolute_timeout_seconds (st_config st)),
            ses_idle_expires_at = saturating_add now (se_idle_timeout_seconds (st_config st)),
            ses_user_agent = ci_user_agent input, ses_ip = ci_ip input, ses_revoked = False\<rparr>
      in (s, st\<lparr>st_sessions := AList.update sid s (st_sessions st)\<rparr>))"

definition get_session :: "InMemorySessionStore \<Rightarrow> SessionId \<Rightarrow> nat \<Rightarrow> SessionLookupResult" where
  "get_session st sid now =
     (case map_of (st_sessions st) sid of None \<Rightarrow> NotFound | Some s \<Rightarrow> classify s now)"

definition touch_session ::
  "SessionId \<Rightarrow> nat \<Rightarrow> InMemorySessionStore \<Rightarrow> SessionLookupResult \<times> InMemorySessionStore" where
  "touch_session sid now st =
     (case map_of (st_sessions st) sid of
        None \<Rightarrow> (NotFound, st)
      | Some s \<Rightarrow>
          (case classify s now of
             Found _ \<Rightarrow>
               let s' = s\<lparr>ses_last_seen_at := now,
                     ses_idle_expires_at := saturating_add now (se_idle_timeout_seconds (st_config st))\<rparr>
               in (Found s', st\<lparr>st_sessions := AList.update sid s' (st_sessions st)\<rparr>)
           | other \<Rightarrow> (other, st)))"

definition revoke_session :: "SessionId \<Rightarrow> InMemorySessionStore \<Rightarrow> bool \<times> InMemorySessionStore" where
  "revoke_session sid st =
     (case map_of (st_sessions st) sid of
        None \<Rightarrow> (False, st)
      | Some s \<Rightarrow> (True, st\<lparr>st_sessions := AList.update sid (s\<lparr>ses_revoked := True\<rparr>) (st_sessions st)\<rparr>))"

definition revoke_all_for_user :: "string \<Rightarrow> InMemorySessionStore \<Rightarrow> nat \<times> InMemorySessionStore" where
  "revoke_all_for_user username st =
     (let hit = (\<lambda>s. ses_username s = username \<and> \<not> ses_revoked s)
      in (length (filter (\<lambda>(_, s). hit s) (st_sessions st)),
          st\<lparr>st_sessions := map (\<lambda>(i, s). (i, if hit s then s\<lparr>ses_revoked := True\<rparr> else s)) (st_sessions st)\<rparr>))"

definition cleanup_expired :: "nat \<Rightarrow> InMemorySessionStore \<Rightarrow> nat \<times> InMemorySessionStore" where
  "cleanup_expired now st =
     (let kept = filter (\<lambda>(_, s). classify s now \<noteq> Expired \<and> classify s now \<noteq> Revoked) (st_sessions st)
      in (length (st_sessions st) - length kept, st\<lparr>st_sessions := kept\<rparr>))"

definition attach_grant ::
  "SessionId \<Rightarrow> SessionGrant \<Rightarrow> nat \<Rightarrow> InMemorySessionStore \<Rightarrow> bool \<times> InMemorySessionStore" where
  "attach_grant sid grant now st =
     (case map_of (st_sessions st) sid of
        None \<Rightarrow> (False, st)
      | Some s \<Rightarrow>
          if ses_revoked s \<or> gr_expires_at grant \<le> now then (False, st)
          else (True, st\<lparr>st_sessions := AList.update sid
            (s\<lparr>ses_expires_at := min (ses_expires_at s) (gr_expires_at grant), ses_grant := Some grant\<rparr>)
            (st_sessions st)\<rparr>))"

text \<open>Removal of collected sessions by their identifier.\<close>

definition remove_all :: "Session list \<Rightarrow> (SessionId \<times> Session) list \<Rightarrow> (SessionId \<times> Session) list" where
  "remove_all removed m = fold (\<lambda>s. AList.delete (ses_session_id s)) removed m"

definition disallowed :: "AccountPolicyConfig \<Rightarrow> Session \<Rightarrow> bool" where
  "disallowed policy s \<longleftrightarrow>
     \<not> ses_revoked s
     \<and> ((ses_grant s = None \<and> \<not> allows_login policy (ses_username s))
        \<or> (acp_reject_root policy \<and> ses_uid s = 0)
        \<or> (acp_reject_system_accounts policy \<and> ses_uid s < acp_minimum_regular_uid policy))"

definition take_disallowed ::
  "AccountPolicyConfig \<Rightarrow> InMemorySessionStore \<Rightarrow> Session list \<times> InMemorySessionStore" where
  "take_disallowed policy st =
     (let removed = filter (disallowed policy) (map snd (st_sessions st))
      in (removed, st\<lparr>st_sessions := remove_all removed (st_sessions st)\<rparr>))"

definition take_expired :: "nat \<Rightarrow> InMemorySessionStore \<Rightarrow> Session list \<times> InMemorySessionStore" where
  "take_expired now st =
     (let expired = filter (\<lambda>s. classify s now = Expired) (map snd (st_sessions st))
      in (expired, st\<lparr>st_sessions :=
           filter (\<lambda>(_, s). \<not> ses_revoked s) (remove_all expired (st_sessions st))\<rparr>))"

section \<open>CSRF tokens (\<open>csrf.rs\<close>)\<close>

definition CsrfToken_validate :: "CsrfToken \<Rightarrow> CsrfToken \<Rightarrow> bool" where
  "CsrfToken_validate token provided \<longleftrightarrow> token = provided"

definition str_bytes :: "string \<Rightarrow> bytes" where
  "str_bytes s = map of_char s"

text \<open>\<open>header\<close> is the value of \<open>x-csrf-token\<close> as text, if it is present and readable. The comparison
  folds the byte differences so that its time does not depend on where they are.\<close>

definition validate_header :: "Session \<Rightarrow> string option \<Rightarrow> bool" where
  "validate_header session header =
     (case header of None \<Rightarrow> False
      | Some provided \<Rightarrow>
          let expected = str_bytes (ses_csrf_token session); actual = str_bytes provided
          in length expected = length actual
             \<and> foldl (\<lambda>diff (a, b). diff OR (a XOR b)) (0 :: u8) (zip expected actual) = 0)"

section \<open>Cookies (\<open>cookie.rs\<close>)\<close>

record SessionCookieConfig =
  ck_name :: string
  ck_http_only :: bool
  ck_secure :: bool
  ck_same_site :: SameSitePolicy
  ck_path :: string
  ck_max_age_seconds :: nat

definition from_session_config :: "SessionConfig \<Rightarrow> SessionCookieConfig" where
  "from_session_config config =
     \<lparr>ck_name = se_cookie_name config, ck_http_only = True, ck_secure = se_secure_cookies config,
      ck_same_site = se_same_site config, ck_path = ''/'',
      ck_max_age_seconds = se_absolute_timeout_seconds config\<rparr>"

definition same_site_text :: "SameSitePolicy \<Rightarrow> string" where
  "same_site_text p = (case p of Strict \<Rightarrow> ''Strict'' | Lax \<Rightarrow> ''Lax'')"

definition cookie_flags :: "SessionCookieConfig \<Rightarrow> string" where
  "cookie_flags c =
     (if ck_http_only c then ''; HttpOnly'' else []) @ (if ck_secure c then ''; Secure'' else [])"

text \<open>\<open>uuid_text\<close> is the \<open>Display\<close> of the \<open>uuid\<close> crate.\<close>

definition build_set_cookie_value :: "(Uuid \<Rightarrow> string) \<Rightarrow> SessionCookieConfig \<Rightarrow> SessionId \<Rightarrow> string" where
  "build_set_cookie_value uuid_text c sid =
     ck_name c @ ''='' @ uuid_text sid @ ''; Path='' @ ck_path c @ ''; Max-Age=''
     @ show_nat (ck_max_age_seconds c) @ ''; SameSite='' @ same_site_text (ck_same_site c) @ cookie_flags c"

definition build_clear_cookie_value :: "SessionCookieConfig \<Rightarrow> string" where
  "build_clear_cookie_value c =
     ck_name c @ ''=; Path='' @ ck_path c @ ''; Max-Age=0; SameSite='' @ same_site_text (ck_same_site c)
     @ cookie_flags c"

section \<open>The trait\<close>

datatype StoreOp =
    Create SessionId CsrfToken SessionCreateInput nat
  | Touch SessionId nat
  | Revoke SessionId
  | RevokeAll string
  | Cleanup nat

fun creates :: "StoreOp \<Rightarrow> SessionId option" where
  "creates (Create i t inp now) = Some i"
| "creates _ = None"

text \<open>
  What a client of \<open>SessionStore\<close> relies on, for states that satisfy the store's invariant:
  \<open>dead i s\<close> says that no lookup of \<open>i\<close> can succeed, and no operation brings a dead identifier
  back, except creating a session under the same one.
\<close>

locale session_store =
  fixes create :: "SessionId \<Rightarrow> CsrfToken \<Rightarrow> SessionCreateInput \<Rightarrow> nat \<Rightarrow> 's \<Rightarrow> Session \<times> 's"
    and get :: "'s \<Rightarrow> SessionId \<Rightarrow> nat \<Rightarrow> SessionLookupResult"
    and touch :: "SessionId \<Rightarrow> nat \<Rightarrow> 's \<Rightarrow> SessionLookupResult \<times> 's"
    and revoke :: "SessionId \<Rightarrow> 's \<Rightarrow> bool \<times> 's"
    and revoke_all :: "string \<Rightarrow> 's \<Rightarrow> nat \<times> 's"
    and cleanup :: "nat \<Rightarrow> 's \<Rightarrow> nat \<times> 's"
    and inv :: "'s \<Rightarrow> bool"
    and dead :: "SessionId \<Rightarrow> 's \<Rightarrow> bool"
  assumes create_inv: "inv s \<Longrightarrow> inv (snd (create j t inp now s))"
    and touch_inv: "inv s \<Longrightarrow> inv (snd (touch j now s))"
    and revoke_inv: "inv s \<Longrightarrow> inv (snd (revoke j s))"
    and revoke_all_inv: "inv s \<Longrightarrow> inv (snd (revoke_all u s))"
    and cleanup_inv: "inv s \<Longrightarrow> inv (snd (cleanup now s))"
    and dead_get: "inv s \<Longrightarrow> dead i s \<Longrightarrow> get s i now \<noteq> Found x"
    and revoke_dead: "inv s \<Longrightarrow> dead i (snd (revoke i s))"
    and create_dead: "inv s \<Longrightarrow> dead i s \<Longrightarrow> i \<noteq> j \<Longrightarrow> dead i (snd (create j t inp now s))"
    and touch_dead: "inv s \<Longrightarrow> dead i s \<Longrightarrow> dead i (snd (touch j now s))"
    and revoke_keeps_dead: "inv s \<Longrightarrow> dead i s \<Longrightarrow> dead i (snd (revoke j s))"
    and revoke_all_dead: "inv s \<Longrightarrow> dead i s \<Longrightarrow> dead i (snd (revoke_all u s))"
    and cleanup_dead: "inv s \<Longrightarrow> dead i s \<Longrightarrow> dead i (snd (cleanup now s))"
begin

fun run_op :: "StoreOp \<Rightarrow> 's \<Rightarrow> 's" where
  "run_op (Create i t inp now) s = snd (create i t inp now s)"
| "run_op (Touch i now) s = snd (touch i now s)"
| "run_op (Revoke i) s = snd (revoke i s)"
| "run_op (RevokeAll u) s = snd (revoke_all u s)"
| "run_op (Cleanup now) s = snd (cleanup now s)"

lemma run_op_inv: "inv s \<Longrightarrow> inv (run_op opn s)"
  by (cases opn) (simp_all add: create_inv touch_inv revoke_inv revoke_all_inv cleanup_inv)

lemma run_op_dead: "inv s \<Longrightarrow> dead i s \<Longrightarrow> creates opn \<noteq> Some i \<Longrightarrow> dead i (run_op opn s)"
  by (cases opn)
    (auto simp: create_dead touch_dead revoke_keeps_dead revoke_all_dead cleanup_dead)

lemma run_inv: "inv s \<Longrightarrow> inv (fold run_op ops s)"
  by (induction ops arbitrary: s) (simp_all add: run_op_inv)

lemma run_dead:
  "inv s \<Longrightarrow> dead i s \<Longrightarrow> \<forall>opn \<in> set ops. creates opn \<noteq> Some i \<Longrightarrow> dead i (fold run_op ops s)"
  by (induction ops arbitrary: s) (simp_all add: run_op_inv run_op_dead)

lemma revoked_for_good:
  assumes "inv s" and "\<forall>opn \<in> set ops. creates opn \<noteq> Some i"
  shows "get (fold run_op ops (snd (revoke i s))) i now \<noteq> Found x"
  by (intro dead_get run_dead run_inv revoke_inv revoke_dead assms)

end

section \<open>The in-memory store\<close>

definition session_dead :: "SessionId \<Rightarrow> InMemorySessionStore \<Rightarrow> bool" where
  "session_dead i st \<longleftrightarrow> (\<forall>s. map_of (st_sessions st) i = Some s \<longrightarrow> ses_revoked s)"

text \<open>The map has one entry per key, filed under the session's own identifier.\<close>

definition store_inv :: "InMemorySessionStore \<Rightarrow> bool" where
  "store_inv st \<longleftrightarrow>
     distinct (map fst (st_sessions st)) \<and> (\<forall>(i, s) \<in> set (st_sessions st). ses_session_id s = i)"

lemma map_of_map_values: "map_of (map (\<lambda>(i, s). (i, f s)) m) k = map_option f (map_of m k)"
  by (induction m) auto

lemma map_fst_map_values: "map (fst \<circ> (\<lambda>(i, s). (i, f s))) m = map fst m"
  by (induction m) auto

lemma map_of_remove_all:
  "map_of (remove_all removed m) i = (if i \<in> ses_session_id ` set removed then None else map_of m i)"
  unfolding remove_all_def
  by (induction removed arbitrary: m) (auto simp: delete_conv')

lemma remove_all_distinct: "distinct (map fst m) \<Longrightarrow> distinct (map fst (remove_all removed m))"
  unfolding remove_all_def
  by (induction removed arbitrary: m) (auto simp: distinct_delete)

lemma set_remove_all: "set (remove_all removed m) \<subseteq> set m"
  unfolding remove_all_def
  by (induction removed arbitrary: m) (fastforce simp: AList.delete_eq)+

lemma set_update_alist: "set (AList.update k v m) \<subseteq> insert (k, v) (set m)"
  by (induction m) auto

lemma store_inv_update:
  "store_inv st \<Longrightarrow> ses_session_id s = i \<Longrightarrow> store_inv (st\<lparr>st_sessions := AList.update i s (st_sessions st)\<rparr>)"
  using set_update_alist [of i s "st_sessions st"]
  by (auto simp: store_inv_def distinct_update)

lemma store_inv_filter:
  "store_inv st \<Longrightarrow> store_inv (st\<lparr>st_sessions := filter P (st_sessions st)\<rparr>)"
  by (auto simp: store_inv_def distinct_map_filter)

lemma store_inv_lookup: "store_inv st \<Longrightarrow> map_of (st_sessions st) i = Some s \<Longrightarrow> ses_session_id s = i"
  by (auto simp: store_inv_def dest!: map_of_SomeD)

lemma store_inv_new: "store_inv (store_new config)"
  by (simp add: store_inv_def store_new_def)

interpretation memory: session_store create_session get_session touch_session revoke_session
  revoke_all_for_user cleanup_expired store_inv session_dead
proof (unfold_locales, goal_cases)
  case 1 then show ?case by (simp add: create_session_def Let_def store_inv_update)
next
  case (2 s j now)
  then show ?case
    by (auto simp: touch_session_def Let_def store_inv_update store_inv_lookup
        split: option.splits SessionLookupResult.splits)
next
  case (3 s j)
  then show ?case
    by (auto simp: revoke_session_def store_inv_update store_inv_lookup split: option.splits)
next
  case (4 s u)
  then show ?case
    by (auto simp: revoke_all_for_user_def store_inv_def Let_def map_fst_map_values)
next
  case (5 s now) then show ?case by (simp add: cleanup_expired_def Let_def store_inv_filter)
next
  case (6 s i now x)
  then show ?case
    by (auto simp: session_dead_def get_session_def classify_def split: option.splits)
next
  case (7 s i)
  then show ?case
    by (auto simp: session_dead_def revoke_session_def split: option.splits)
next
  case (8 s i j t inp now)
  then show ?case by (auto simp: session_dead_def create_session_def Let_def)
next
  case (9 s i j now)
  then show ?case
    by (auto simp: session_dead_def touch_session_def classify_def Let_def split: option.splits if_splits)
next
  case (10 s i j)
  then show ?case by (auto simp: session_dead_def revoke_session_def split: option.splits)
next
  case (11 s i u)
  then show ?case
    by (auto simp: session_dead_def revoke_all_for_user_def map_of_map_values Let_def)
next
  case (12 s i now)
  then show ?case
    using map_of_filter_distinct [of "st_sessions s" "\<lambda>s. classify s now \<noteq> Expired \<and> classify s now \<noteq> Revoked" i]
    unfolding session_dead_def cleanup_expired_def store_inv_def Let_def by simp
qed

section \<open>The life of a session\<close>

text \<open>One step of the store: an operation of the trait or one of the store's own. The optional
  identifier is the one the step creates.\<close>

inductive store_step :: "SessionId option \<Rightarrow> InMemorySessionStore \<Rightarrow> InMemorySessionStore \<Rightarrow> bool" where
  create: "store_step (Some i) st (snd (create_session i t inp now st))"
| touch: "store_step None st (snd (touch_session i now st))"
| revoke: "store_step None st (snd (revoke_session i st))"
| revoke_all: "store_step None st (snd (revoke_all_for_user u st))"
| cleanup: "store_step None st (snd (cleanup_expired now st))"
| attach: "store_step None st (snd (attach_grant i g now st))"
| disallow: "store_step None st (snd (take_disallowed policy st))"
| expire: "store_step None st (snd (take_expired now st))"
| config: "store_step None st (update_config c st)"

text \<open>A run that creates no session under \<open>i\<close>.\<close>

inductive store_run :: "SessionId \<Rightarrow> InMemorySessionStore \<Rightarrow> InMemorySessionStore \<Rightarrow> bool" for i where
  refl: "store_run i st st"
| step: "store_run i st st' \<Longrightarrow> store_step c st' st'' \<Longrightarrow> c \<noteq> Some i \<Longrightarrow> store_run i st st''"

lemma store_step_inv: "store_step c st st' \<Longrightarrow> store_inv st \<Longrightarrow> store_inv st'"
proof (induction rule: store_step.induct)
  case (create i t inp now st) then show ?case by (rule memory.create_inv)
next
  case (touch st i now) then show ?case by (rule memory.touch_inv)
next
  case (revoke st i) then show ?case by (rule memory.revoke_inv)
next
  case (revoke_all st u) then show ?case by (rule memory.revoke_all_inv)
next
  case (cleanup st now) then show ?case by (rule memory.cleanup_inv)
next
  case (attach st i g now)
  then show ?case
    by (auto simp: attach_grant_def store_inv_update store_inv_lookup split: option.splits)
next
  case (disallow st policy)
  then show ?case
    using set_remove_all by (fastforce simp: take_disallowed_def store_inv_def Let_def remove_all_distinct)
next
  case (expire st now)
  have "store_inv (st\<lparr>st_sessions := remove_all xs (st_sessions st)\<rparr>)" for xs
    using expire set_remove_all by (fastforce simp: store_inv_def remove_all_distinct)
  from store_inv_filter [OF this] show ?case by (simp add: take_expired_def Let_def)
next
  case (config st c)
  then show ?case by (simp add: update_config_def store_inv_def)
qed

text \<open>What a step may do to a session: nothing but remove it, revoke it, bring its absolute expiry
  forward, attach a grant and record activity. Identity and token never change.\<close>

definition session_evolves :: "Session \<Rightarrow> Session \<Rightarrow> bool" where
  "session_evolves s s' \<longleftrightarrow>
     ses_expires_at s' \<le> ses_expires_at s \<and> (ses_revoked s \<longrightarrow> ses_revoked s')
     \<and> ses_username s' = ses_username s \<and> ses_uid s' = ses_uid s \<and> ses_gid s' = ses_gid s
     \<and> ses_csrf_token s' = ses_csrf_token s \<and> ses_created_at s' = ses_created_at s"

lemma session_evolves_refl [simp]: "session_evolves s s"
  by (simp add: session_evolves_def)

lemma session_evolves_trans: "session_evolves a b \<Longrightarrow> session_evolves b c \<Longrightarrow> session_evolves a c"
  by (auto simp: session_evolves_def)

lemma store_step_evolves:
  "store_step c st st' \<Longrightarrow> store_inv st \<Longrightarrow> c \<noteq> Some i \<Longrightarrow>
     map_of (st_sessions st') i = Some s' \<Longrightarrow>
     \<exists>s. map_of (st_sessions st) i = Some s \<and> session_evolves s s'"
proof (induction rule: store_step.induct)
  case (create j t inp now st)
  then show ?case by (auto simp: create_session_def Let_def)
next
  case (touch st j now)
  then show ?case
    by (auto simp: touch_session_def classify_def Let_def session_evolves_def split: option.splits if_splits)
next
  case (revoke st j)
  then show ?case
    by (auto simp: revoke_session_def session_evolves_def split: option.splits if_splits)
next
  case (revoke_all st u)
  then show ?case
    by (auto simp: revoke_all_for_user_def map_of_map_values Let_def session_evolves_def split: if_splits)
next
  case (cleanup st now)
  then show ?case
    using map_of_filter_distinct [of "st_sessions st" "\<lambda>s. classify s now \<noteq> Expired \<and> classify s now \<noteq> Revoked" i]
    unfolding cleanup_expired_def store_inv_def Let_def by (simp, metis session_evolves_refl)
next
  case (attach st j g now)
  then show ?case
    by (auto simp: attach_grant_def session_evolves_def split: option.splits if_splits)
next
  case (disallow st policy)
  then show ?case
    by (auto simp: take_disallowed_def map_of_remove_all Let_def split: if_splits)
next
  case (expire st now)
  let ?xs = "filter (\<lambda>s. classify s now = Expired) (map snd (st_sessions st))"
  have "map_of (remove_all ?xs (st_sessions st)) i = Some s'"
    using expire map_of_filter_distinct [of "remove_all ?xs (st_sessions st)" "\<lambda>s. \<not> ses_revoked s" i]
      remove_all_distinct [of "st_sessions st" ?xs]
    unfolding take_expired_def store_inv_def Let_def by simp
  then show ?case by (auto simp: map_of_remove_all split: if_splits)
next
  case (config st c)
  then show ?case by (simp add: update_config_def)
qed

lemma store_run_inv: "store_run i st st' \<Longrightarrow> store_inv st \<Longrightarrow> store_inv st'"
  by (induction rule: store_run.induct) (auto intro: store_step_inv)

lemma store_run_evolves:
  "store_run i st st' \<Longrightarrow> store_inv st \<Longrightarrow> map_of (st_sessions st') i = Some s' \<Longrightarrow>
     \<exists>s. map_of (st_sessions st) i = Some s \<and> session_evolves s s'"
proof (induction arbitrary: s' rule: store_run.induct)
  case (refl st)
  then show ?case by simp
next
  case (step st st' c st'')
  then obtain t where "map_of (st_sessions st') i = Some t" "session_evolves t s'"
    using store_step_evolves store_run_inv by blast
  with step.IH step.prems session_evolves_trans show ?case by blast
qed

section \<open>Constant-time comparison\<close>

lemma word_or_eq_0: "(a OR b = 0) \<longleftrightarrow> a = 0 \<and> (b :: 'w::len word) = 0"
  by (auto simp: bit_eq_iff bit_or_iff)

lemma word_xor_eq_0: "(a XOR b = 0) \<longleftrightarrow> a = (b :: 'w::len word)"
  by (auto simp: bit_eq_iff bit_xor_iff)

lemma fold_difference:
  "foldl (\<lambda>diff (a, b). diff OR (a XOR b)) (d :: u8) ps = 0 \<longleftrightarrow> d = 0 \<and> (\<forall>(a, b) \<in> set ps. a = b)"
  by (induction ps arbitrary: d) (auto simp: word_or_eq_0 word_xor_eq_0)

lemma list_eq_zip: "length xs = length ys \<Longrightarrow> (\<forall>(a, b) \<in> set (zip xs ys). a = b) \<longleftrightarrow> xs = ys"
  by (induction xs ys rule: list_induct2) auto

lemma of_char_inject_u8: "(of_char c :: u8) = of_char d \<longleftrightarrow> c = d"
proof
  have unat: "unat (of_char e :: u8) = of_char e" for e
  proof -
    have "(of_char e :: u8) = word_of_nat (of_char e)" by (simp add: of_nat_of_char)
    moreover have "(of_char e :: nat) < 256" by (cases e) (simp add: of_char_def)
    ultimately show ?thesis by (simp add: unat_of_nat)
  qed
  assume "(of_char c :: u8) = of_char d"
  then have "(of_char c :: nat) = of_char d" using unat by metis
  then show "c = d" by simp
qed simp

lemma str_bytes_inject [simp]: "str_bytes a = str_bytes b \<longleftrightarrow> a = b"
  by (auto simp: str_bytes_def of_char_inject_u8 inj_map_eq_map inj_def)

section \<open>Properties\<close>

text \<open>C30: a revoked session never comes back. After \<open>revoke_session\<close>, whatever sequence of store
  operations follows (touching, attaching grants, cleaning up, changing the configuration, creating
  and revoking other sessions), no lookup at any time finds the session again.\<close>

theorem revoked_session_never_returns:
  assumes "store_inv st" and "store_run i (snd (revoke_session i st)) st'"
  shows "get_session st' i now \<noteq> Found x \<and> fst (touch_session i now st') \<noteq> Found x"
proof -
  have inv: "store_inv (snd (revoke_session i st))" by (rule memory.revoke_inv [OF assms(1)])
  have "session_dead i st'"
    using store_run_evolves [OF assms(2) inv] memory.revoke_dead [OF assms(1), of i]
    unfolding session_dead_def session_evolves_def by metis
  then show ?thesis
    by (auto simp: session_dead_def get_session_def touch_session_def classify_def Let_def
        split: option.splits)
qed

text \<open>the absolute expiry of a session is final. Activity renews only the idle timeout: once the
  clock has reached the expiry a session had at some point, no later state of the store lets a
  lookup or a touch at that time or later succeed, whatever operations came in between.\<close>

theorem absolute_expiry_is_final:
  assumes "store_inv st" and "map_of (st_sessions st) i = Some s"
    and "ses_expires_at s \<le> now" and "store_run i st st'"
  shows "get_session st' i now \<noteq> Found x \<and> fst (touch_session i now st') \<noteq> Found x"
proof -
  have "map_of (st_sessions st') i = Some s' \<Longrightarrow> ses_expires_at s' \<le> now" for s'
    using store_run_evolves [OF assms(4,1)] assms(2,3) by (force simp: session_evolves_def)
  then show ?thesis
    by (auto simp: get_session_def touch_session_def classify_def Let_def split: option.splits)
qed

text \<open>The constant-time CSRF check accepts a request exactly when it carries the session's token:
  the folded byte differences vanish only for equal strings of equal length.\<close>

theorem csrf_header_exact: "validate_header s header \<longleftrightarrow> header = Some (ses_csrf_token s)"
proof (cases header)
  case None
  then show ?thesis by (simp add: validate_header_def)
next
  case (Some provided)
  have "validate_header s header \<longleftrightarrow> str_bytes (ses_csrf_token s) = str_bytes provided"
    unfolding validate_header_def Let_def fold_difference Some
    using list_eq_zip [of "str_bytes (ses_csrf_token s)" "str_bytes provided"] by auto
  with Some show ?thesis by auto
qed

text \<open>A login is usable at once. A session created under a configuration with positive timeouts
  is found by the next lookup, unchanged, until its idle timeout runs out.\<close>

theorem created_session_found:
  assumes "now \<le> later" and "later < saturating_add now (se_idle_timeout_seconds (st_config st))"
    and "se_idle_timeout_seconds (st_config st) \<le> se_absolute_timeout_seconds (st_config st)"
  shows "get_session (snd (create_session i t inp now st)) i later = Found (fst (create_session i t inp now st))"
proof -
  have "later < saturating_add now (se_absolute_timeout_seconds (st_config st))"
    using assms(2) saturating_add_mono [OF assms(3), of now] by linarith
  with assms(2) show ?thesis
    by (simp add: get_session_def create_session_def classify_def Let_def)
qed

definition example_input :: SessionCreateInput where
  "example_input = \<lparr>ci_username = ''alice'', ci_uid = 1000, ci_gid = 1000, ci_user_agent = None, ci_ip = None\<rparr>"

definition example_store :: InMemorySessionStore where
  "example_store = snd (create_session 7 ''token'' example_input 100 (store_new SessionConfig_default))"

lemma example_store_inv: "store_inv example_store"
  unfolding example_store_def by (rule memory.create_inv [OF store_inv_new])

theorem revoked_session_never_returns_witness:
  "(\<nexists>x. get_session (snd (touch_session 7 101 (snd (revoke_session 7 example_store)))) 7 102 = Found x)
   \<and> get_session example_store 7 102 \<noteq> Revoked"
proof -
  have "store_run 7 (snd (revoke_session 7 example_store))
      (snd (touch_session 7 101 (snd (revoke_session 7 example_store))))"
    by (rule store_run.step [OF store_run.refl store_step.touch]) simp
  from revoked_session_never_returns [OF example_store_inv this, of 102] show ?thesis
    by (simp add: example_store_def create_session_def get_session_def store_new_def classify_def Let_def)
qed

theorem absolute_expiry_is_final_witness:
  "\<nexists>x. get_session (snd (touch_session 7 40000 example_store)) 7 43300 = Found x"
proof -
  have "store_run 7 example_store (snd (touch_session 7 40000 example_store))"
    by (rule store_run.step [OF store_run.refl store_step.touch]) simp
  moreover have "\<exists>s. map_of (st_sessions example_store) 7 = Some s \<and> ses_expires_at s \<le> 43300"
    by (simp add: example_store_def create_session_def store_new_def SessionConfig_default_def
        saturating_add_def Let_def)
  ultimately show ?thesis
    using absolute_expiry_is_final [OF example_store_inv, of 7 _ 43300] by blast
qed

theorem created_session_found_witness:
  "get_session (snd (create_session 7 ''token'' example_input 100 (store_new SessionConfig_default))) 7 1000
     = Found (fst (create_session 7 ''token'' example_input 100 (store_new SessionConfig_default)))"
  by (rule created_session_found)
    (simp_all add: store_new_def SessionConfig_default_def saturating_add_def U64_MAX_def)

end
