(* ===== verification/TD_Budget.thy ===== *)
theory TD_Budget
  imports TD_Config
begin

text \<open>
  The filesystem-wide staging budget, \<open>src/upload/budget.rs\<close>: one lease file per transfer in a
  private directory, locked while its process lives. The ledger directory is a list of entries with
  what opening, locking and reading each of them yields; the staging directory is the list of its
  names with \<open>symlink_metadata\<close> of a name as a function. An entry \<open>None\<close> of either list is one the
  operating system failed to deliver. \<open>Uuid::parse_str\<close> is the parameter \<open>uuid\<close>. The theorem says
  that the budget holds over every lease and leftover after a reservation is granted.
\<close>

section \<open>Files and locks\<close>

definition budget_fail :: "'a td_result" where
  "budget_fail = Inl TealDriveError.DiskFull"

record StageMeta =
  sm_is_file :: bool
  sm_own :: bool
  sm_private_mode :: bool
  sm_one_link :: bool
  sm_len :: nat

text \<open>The result of opening a file, with its metadata.\<close>

definition private_file :: "StageMeta option \<Rightarrow> unit td_result" where
  "private_file opened =
     (case opened of None \<Rightarrow> budget_fail
      | Some m \<Rightarrow> if \<not> sm_is_file m \<or> \<not> sm_own m \<or> \<not> sm_private_mode m \<or> \<not> sm_one_link m
                 then budget_fail else Inr ())"

datatype Flock = Taken | WouldBlock | FlockFailed

definition flock :: "Flock \<Rightarrow> bool \<Rightarrow> bool td_result" where
  "flock answer nonblock =
     (case answer of Taken \<Rightarrow> Inr True
      | WouldBlock \<Rightarrow> if nonblock then Inr False else budget_fail
      | FlockFailed \<Rightarrow> budget_fail)"

datatype Stat = Present StageMeta | Missing | StatFailed

text \<open>\<open>directory\<close>: the private directory is created, or exists already, and is a directory of the
  process's own user that others cannot enter. \<open>sm_is_file\<close> is \<open>is_dir\<close> here.\<close>

datatype Created = Made | Existed | CreateFailed

definition directory :: "Created \<Rightarrow> StageMeta option \<Rightarrow> unit td_result" where
  "directory created stat =
     (if created = CreateFailed then budget_fail
      else case stat of None \<Rightarrow> budget_fail
        | Some m \<Rightarrow> if \<not> sm_is_file m \<or> \<not> sm_own m \<or> \<not> sm_private_mode m then budget_fail else Inr ())"

definition stage_name :: "string \<Rightarrow> string" where
  "stage_name i = ''.tdrv-upload-'' @ i @ ''.tmp''"

definition stage_bytes :: "(string \<Rightarrow> Stat) \<Rightarrow> string \<Rightarrow> nat option td_result" where
  "stage_bytes stat i =
     (case stat (stage_name i) of
        Present m \<Rightarrow> if \<not> sm_is_file m \<or> \<not> sm_own m \<or> \<not> sm_one_link m then budget_fail else Inr (Some (sm_len m))
      | Missing \<Rightarrow> Inr None
      | StatFailed \<Rightarrow> budget_fail)"

text \<open>\<open>u64::from_str\<close>.\<close>

definition parse_u64 :: "string \<Rightarrow> nat option" where
  "parse_u64 s =
     (let ds = (case s of c # cs \<Rightarrow> if c = CHR ''+'' then cs else s | [] \<Rightarrow> s) in
      if ds = [] \<or> \<not> list_all (is_digit 10) ds \<or> number_of 10 ds > U64_MAX then None
      else Some (number_of 10 ds))"

section \<open>The ledger\<close>

record Lease =
  ls_name :: "string option"
  ls_opened :: "StageMeta option"
  ls_lock :: Flock
  ls_raw :: "string option"
  ls_len :: "nat option"
  ls_remove_ok :: bool

text \<open>\<open>ls_raw\<close> is the first 32 bytes, if they are readable as UTF-8; \<open>ls_len\<close> the length asked for
  after reading.\<close>

datatype Outcome = Skipped | Removed | Charged nat string

definition lease_charge :: "bool \<Rightarrow> nat option \<Rightarrow> Lease \<Rightarrow> nat td_result" where
  "lease_charge abandoned actual e =
     (let found = (case actual of None \<Rightarrow> 0 | Some n \<Rightarrow> n) in
      if abandoned then Inr found
      else
        and_then (ok_or (ls_raw e) TealDriveError.DiskFull) (\<lambda>raw.
        and_then (ok_or (ls_len e) TealDriveError.DiskFull) (\<lambda>n.
        if n > 20 then budget_fail
        else and_then (ok_or (parse_u64 raw) TealDriveError.DiskFull) (\<lambda>v. Inr (max v found)))))"

definition lease_step :: "(string \<Rightarrow> string option) \<Rightarrow> (string \<Rightarrow> Stat) \<Rightarrow> Lease \<Rightarrow> Outcome td_result" where
  "lease_step uuid stat e =
     and_then (ok_or (ls_name e) TealDriveError.DiskFull) (\<lambda>name.
     if name = ''lock'' then Inr Skipped
     else
       and_then (ok_or (strip_suffix ''.lease'' name) TealDriveError.DiskFull) (\<lambda>i.
       if uuid i = None then budget_fail
       else
         and_then (private_file (ls_opened e)) (\<lambda>_.
         and_then (flock (ls_lock e) True) (\<lambda>abandoned.
         and_then (stage_bytes stat i) (\<lambda>actual.
         if abandoned \<and> actual = None then (if ls_remove_ok e then Inr Removed else budget_fail)
         else and_then (lease_charge abandoned actual e) (\<lambda>c. Inr (Charged c i)))))))"

definition U32_MAX :: nat where
  "U32_MAX = 2 ^ 32 - 1"

type_synonym Tally = "nat \<times> nat \<times> string list"

definition charge :: "nat \<Rightarrow> Tally \<Rightarrow> (nat \<times> nat) td_result" where
  "charge c t =
     (let (tot, count, _) = t in
      and_then (ok_or (checked_add tot c) TealDriveError.DiskFull) (\<lambda>tot'.
        if count + 1 > U32_MAX then budget_fail else Inr (tot', count + 1)))"

text \<open>The loop over the ledger, with the directory as it leaves it.\<close>

fun ledger_scan ::
  "(string \<Rightarrow> string option) \<Rightarrow> (string \<Rightarrow> Stat) \<Rightarrow> nat \<Rightarrow> Lease option list \<Rightarrow> Tally
   \<Rightarrow> Tally td_result \<times> Lease option list" where
  "ledger_scan uuid stat index [] t = (Inr t, [])"
| "ledger_scan uuid stat index (e # es) t =
     (if index > 8192 then (budget_fail, e # es)
      else case e of
        None \<Rightarrow> (budget_fail, e # es)
      | Some l \<Rightarrow>
          (case lease_step uuid stat l of
             Inl err \<Rightarrow> (Inl err, e # es)
           | Inr Removed \<Rightarrow> ledger_scan uuid stat (index + 1) es t
           | Inr Skipped \<Rightarrow>
               (let (r, es') = ledger_scan uuid stat (index + 1) es t in (r, e # es'))
           | Inr (Charged c i) \<Rightarrow>
               (case charge c t of
                  Inl err \<Rightarrow> (Inl err, e # es)
                | Inr (tot, count) \<Rightarrow>
                    (let (r, es') = ledger_scan uuid stat (index + 1) es (tot, count, i # snd (snd t))
                     in (r, e # es')))))"

text \<open>A name of the staging directory that is a staging file no lease accounts for. The entry is
  looked at twice, by \<open>symlink_metadata\<close> and by \<open>stage_bytes\<close>.\<close>

definition orphan_step ::
  "(string \<Rightarrow> string option) \<Rightarrow> (string \<Rightarrow> Stat) \<Rightarrow> string list \<Rightarrow> string option \<Rightarrow> nat option td_result" where
  "orphan_step uuid stat accounted name =
     (case Option.bind (Option.bind name (strip_prefix ''.tdrv-upload-'')) (strip_suffix ''.tmp'') of
        None \<Rightarrow> Inr None
      | Some i \<Rightarrow>
          if uuid i = None \<or> i \<in> set accounted then Inr None
          else
            (case stat (stage_name i) of
               Present m \<Rightarrow>
                 if \<not> sm_own m then Inr None
                 else and_then (stage_bytes stat i) (\<lambda>actual.
                        and_then (ok_or actual TealDriveError.DiskFull) (\<lambda>n. Inr (Some n)))
             | _ \<Rightarrow> budget_fail))"

fun orphan_scan ::
  "(string \<Rightarrow> string option) \<Rightarrow> (string \<Rightarrow> Stat) \<Rightarrow> nat \<Rightarrow> string option option list \<Rightarrow> Tally
   \<Rightarrow> Tally td_result" where
  "orphan_scan uuid stat index [] t = Inr t"
| "orphan_scan uuid stat index (e # es) t =
     (if index > 65536 then budget_fail
      else
        and_then (ok_or e TealDriveError.DiskFull) (\<lambda>name.
        and_then (orphan_step uuid stat (snd (snd t)) name) (\<lambda>found.
        case found of
          None \<Rightarrow> orphan_scan uuid stat (index + 1) es t
        | Some c \<Rightarrow>
            and_then (charge c t) (\<lambda>(tot, count).
              orphan_scan uuid stat (index + 1) es (tot, count, snd (snd t))))))"

section \<open>Reserving\<close>

record BudgetEnv =
  be_parent :: bool
  be_created :: Created
  be_dir :: "StageMeta option"
  be_global :: "StageMeta option"
  be_global_lock :: Flock
  be_ledger_readable :: bool
  be_parent_names :: "string option option list option"
  be_stat :: "string \<Rightarrow> Stat"
  be_create_ok :: bool
  be_own_lock :: Flock
  be_write_ok :: bool
  be_sync_ok :: bool

definition own_meta :: StageMeta where
  "own_meta = \<lparr>sm_is_file = True, sm_own = True, sm_private_mode = True, sm_one_link = True, sm_len = 0\<rparr>"

text \<open>The lease file as other scans see it: locked while its reservation lives.\<close>

definition new_lease :: "string \<Rightarrow> Flock \<Rightarrow> string \<Rightarrow> Lease" where
  "new_lease name lock content =
     \<lparr>ls_name = Some (name @ ''.lease''), ls_opened = Some own_meta, ls_lock = lock,
      ls_raw = Some content, ls_len = Some (length content), ls_remove_ok = True\<rparr>"

definition create_lease ::
  "BudgetEnv \<Rightarrow> string \<Rightarrow> nat \<Rightarrow> Lease option list \<Rightarrow> string td_result \<times> Lease option list" where
  "create_lease env name n ledger =
     (let path = name @ ''.lease'' in
      if \<not> be_create_ok env then (budget_fail, ledger)
      else case flock (be_own_lock env) True of
        Inl err \<Rightarrow> (Inl err, ledger @ [Some (new_lease name Taken [])])
      | Inr False \<Rightarrow> (budget_fail, ledger)
      | Inr True \<Rightarrow>
          if \<not> be_write_ok env then (budget_fail, ledger)
          else if \<not> be_sync_ok env then (budget_fail, ledger @ [Some (new_lease name Taken (show_nat n))])
          else (Inr path, ledger @ [Some (new_lease name WouldBlock (show_nat n))]))"

text \<open>\<open>stage\<close> is the file name of the staging path. The result names the lease.\<close>

definition budget_reserve ::
  "(string \<Rightarrow> string option) \<Rightarrow> BudgetEnv \<Rightarrow> string \<Rightarrow> nat \<Rightarrow> nat \<Rightarrow> nat \<Rightarrow> Lease option list
   \<Rightarrow> string td_result \<times> Lease option list" where
  "budget_reserve uuid env stage n maximum max_transfers ledger =
     (let ready =
        (if \<not> be_parent env then budget_fail
         else and_then (directory (be_created env) (be_dir env)) (\<lambda>_.
              and_then (private_file (be_global env)) (\<lambda>_.
              and_then (flock (be_global_lock env) False) (\<lambda>_.
              if \<not> be_ledger_readable env then budget_fail else Inr ()))))
      in case ready of
        Inl err \<Rightarrow> (Inl err, ledger)
      | Inr _ \<Rightarrow>
          (case ledger_scan uuid (be_stat env) 0 ledger (0, 0, []) of
             (Inl err, ledger') \<Rightarrow> (Inl err, ledger')
           | (Inr t, ledger') \<Rightarrow>
               (case and_then (ok_or (be_parent_names env) TealDriveError.DiskFull) (\<lambda>names.
                     and_then (orphan_scan uuid (be_stat env) 0 names t) (\<lambda>(tot, count, _).
                     if (case checked_add tot n of None \<Rightarrow> True | Some v \<Rightarrow> v > maximum) \<or> count \<ge> max_transfers
                     then budget_fail
                     else
                       and_then (ok_or (Option.bind (strip_prefix ''.tdrv-upload-'' stage) (strip_suffix ''.tmp''))
                         TealDriveError.DiskFull) (\<lambda>name.
                       if uuid name = None then budget_fail else Inr name))) of
                  Inl err \<Rightarrow> (Inl err, ledger')
                | Inr name \<Rightarrow> create_lease env name n ledger')))"

text \<open>Dropping the reservation removes its lease under the global lock.\<close>

definition drop_reservation :: "BudgetEnv \<Rightarrow> string \<Rightarrow> Lease option list \<Rightarrow> Lease option list" where
  "drop_reservation env path ledger =
     (if private_file (be_global env) = Inr () \<and> flock (be_global_lock env) False = Inr True
      then filter (\<lambda>e. case e of Some l \<Rightarrow> ls_name l \<noteq> Some path | None \<Rightarrow> True) ledger
      else ledger)"


section \<open>What a scan counts\<close>

definition charged :: "(string \<Rightarrow> string option) \<Rightarrow> (string \<Rightarrow> Stat) \<Rightarrow> Lease option \<Rightarrow> nat list" where
  "charged uuid stat e =
     (case e of None \<Rightarrow> []
      | Some l \<Rightarrow> (case lease_step uuid stat l of Inr (Charged c i) \<Rightarrow> [c] | _ \<Rightarrow> []))"

definition charged_ids :: "(string \<Rightarrow> string option) \<Rightarrow> (string \<Rightarrow> Stat) \<Rightarrow> Lease option list \<Rightarrow> string set" where
  "charged_ids uuid stat ledger =
     {i. \<exists>l c. Some l \<in> set ledger \<and> lease_step uuid stat l = Inr (Charged c i)}"

text \<open>The charges of all leases of a ledger, and of the leftovers beside it.\<close>

definition ledger_charges :: "(string \<Rightarrow> string option) \<Rightarrow> (string \<Rightarrow> Stat) \<Rightarrow> Lease option list \<Rightarrow> nat list" where
  "ledger_charges uuid stat ledger = concat (map (charged uuid stat) ledger)"

definition orphan_charges ::
  "(string \<Rightarrow> string option) \<Rightarrow> (string \<Rightarrow> Stat) \<Rightarrow> string list \<Rightarrow> string option option list \<Rightarrow> nat list" where
  "orphan_charges uuid stat accounted names =
     concat (map (\<lambda>e. case e of None \<Rightarrow> []
       | Some name \<Rightarrow> (case orphan_step uuid stat accounted name of Inr (Some c) \<Rightarrow> [c] | _ \<Rightarrow> [])) names)"

lemma charge_ok: "charge c t = Inr (tot, count) \<longleftrightarrow>
    tot = fst t + c \<and> count = fst (snd t) + 1 \<and> fst t + c \<le> U64_MAX \<and> count \<le> U32_MAX"
  by (auto simp: charge_def budget_fail_def and_then_Inr ok_or_Inr split: if_split_asm prod.splits)

lemma ledger_charges_Cons:
  "ledger_charges uuid stat (e # es) = charged uuid stat e @ ledger_charges uuid stat es"
  by (simp add: ledger_charges_def)

lemma charged_ids_Cons:
  "charged_ids uuid stat (Some l # es) =
     (case lease_step uuid stat l of Inr (Charged c i) \<Rightarrow> {i} | _ \<Rightarrow> {}) \<union> charged_ids uuid stat es"
  by (auto simp: charged_ids_def split: sum.splits Outcome.splits)

lemma ledger_scan_Cons:
  assumes "ledger_scan uuid stat index (e # es) t = (Inr t', ledger')"
  obtains l where "e = Some l" "lease_step uuid stat l = Inr Removed"
      "ledger_scan uuid stat (index + 1) es t = (Inr t', ledger')"
  | l es' where "e = Some l" "lease_step uuid stat l = Inr Skipped" "ledger' = e # es'"
      "ledger_scan uuid stat (index + 1) es t = (Inr t', es')"
  | l c i tot count es' where "e = Some l" "lease_step uuid stat l = Inr (Charged c i)" "ledger' = e # es'"
      "charge c t = Inr (tot, count)"
      "ledger_scan uuid stat (index + 1) es (tot, count, i # snd (snd t)) = (Inr t', es')"
  using assms
  by (cases e) (auto simp: budget_fail_def split: if_split_asm sum.split_asm Outcome.split_asm prod.split_asm)

lemma ledger_scan_ok:
  "ledger_scan uuid stat index ledger t = (Inr t', ledger') \<Longrightarrow>
     fst t' = fst t + sum_list (ledger_charges uuid stat ledger')
     \<and> fst (snd t') = fst (snd t) + length (ledger_charges uuid stat ledger')
     \<and> set (snd (snd t')) = set (snd (snd t)) \<union> charged_ids uuid stat ledger'"
proof (induction ledger arbitrary: index t t' ledger')
  case Nil
  then show ?case by (simp add: ledger_charges_def charged_ids_def)
next
  case (Cons e es)
  from Cons.prems show ?case
  proof (cases rule: ledger_scan_Cons)
    case (1 l)
    from Cons.IH [OF 1(3)] show ?thesis by simp
  next
    case (2 l es')
    from Cons.IH [OF 2(4)] 2(1-3) show ?thesis
      by (simp add: ledger_charges_Cons charged_ids_Cons charged_def)
  next
    case (3 l c i tot count es')
    from Cons.IH [OF 3(5)] 3(1-4) show ?thesis
      by (auto simp: ledger_charges_Cons charged_ids_Cons charged_def charge_ok)
  qed
qed

lemma orphan_scan_ok:
  "orphan_scan uuid stat index names t = Inr t' \<Longrightarrow>
     fst t' = fst t + sum_list (orphan_charges uuid stat (snd (snd t)) names)
     \<and> fst (snd t') = fst (snd t) + length (orphan_charges uuid stat (snd (snd t)) names)"
proof (induction names arbitrary: index t t')
  case Nil
  then show ?case by (simp add: orphan_charges_def)
next
  case (Cons e es)
  from Cons.prems obtain name found where e: "e = Some name" "orphan_step uuid stat (snd (snd t)) name = Inr found"
    and k: "(case found of None \<Rightarrow> orphan_scan uuid stat (Suc index) es t
        | Some c \<Rightarrow> and_then (charge c t) (\<lambda>(tot, count).
              orphan_scan uuid stat (Suc index) es (tot, count, snd (snd t)))) = Inr t'"
    by (auto simp: and_then_Inr ok_or_Inr budget_fail_def split: if_split_asm)
  show ?case
  proof (cases found)
    case None
    with Cons.IH [of "Suc index" t t'] k e show ?thesis by (simp add: orphan_charges_def)
  next
    case (Some c)
    then obtain tot count where c: "charge c t = Inr (tot, count)"
      "orphan_scan uuid stat (Suc index) es (tot, count, snd (snd t)) = Inr t'"
      using k by (auto simp: and_then_Inr)
    from Cons.IH [OF c(2)] c(1) e Some show ?thesis
      by (simp add: orphan_charges_def charge_ok)
  qed
qed

lemma digit_value_char_of: "d < 10 \<Longrightarrow> digit_value (char_of (48 + d :: nat)) = d"
  by (simp add: of_char_of)

lemma number_of_snoc: "number_of 10 (ds @ [c]) = number_of 10 ds * 10 + digit_value c"
  by (simp add: number_of_def)

lemma show_nat_digits:
  "show_nat n \<noteq> [] \<and> list_all (is_digit 10) (show_nat n) \<and> number_of 10 (show_nat n) = n
   \<and> (\<exists>d ds. (d::nat) < 10 \<and> show_nat n = char_of (48 + d) # ds)"
proof (induction n rule: show_nat.induct)
  case (1 n)
  show ?case
  proof (cases "n < 10")
    case True
    then show ?thesis
      by (simp add: show_nat.simps [of n] is_digit_def digit_value_char_of number_of_def del: digit_value.simps)
        (rule exI [of _ n], simp)
  next
    case False
    with 1 show ?thesis
      by (auto simp: show_nat.simps [of n] is_digit_def digit_value_char_of number_of_snoc simp del: digit_value.simps)
  qed
qed

lemma show_nat_length: "0 < k \<Longrightarrow> n < 10 ^ k \<Longrightarrow> length (show_nat n) \<le> k"
proof (induction k arbitrary: n)
  case (Suc k)
  show ?case
  proof (cases "n < 10")
    case False
    then have "0 < k" using Suc.prems by (cases k) auto
    moreover have "n div 10 < 10 ^ k" using Suc.prems by (simp add: less_mult_imp_div_less mult.commute)
    ultimately show ?thesis using Suc.IH [of "n div 10"] False by (simp add: show_nat.simps [of n])
  qed (simp add: show_nat.simps [of n])
qed simp

lemma parse_show_nat: "n \<le> U64_MAX \<Longrightarrow> parse_u64 (show_nat n) = Some n"
proof -
  assume n: "n \<le> U64_MAX"
  obtain d :: nat and ds where d: "d < 10" "show_nat n = char_of (48 + d) # ds" using show_nat_digits by blast
  have "char_of (48 + d) \<noteq> CHR ''+''"
  proof
    assume "char_of (48 + d) = CHR ''+''"
    then have "of_char (char_of (48 + d)) = (of_char CHR ''+'' :: nat)" by simp
    then show False using d(1) by (simp add: of_char_of)
  qed
  then show ?thesis
    using show_nat_digits [of n] n d(2) by (auto simp: parse_u64_def)
qed

lemma stage_name_id:
  "Option.bind (strip_prefix ''.tdrv-upload-'' (stage_name i)) (strip_suffix ''.tmp'') = Some i"
proof -
  have "strip_prefix ''.tdrv-upload-'' (stage_name i) = Some (i @ ''.tmp'')"
    unfolding stage_name_def strip_prefix_Some by (rule refl)
  then show ?thesis by (simp add: strip_suffix_Some)
qed

lemma new_lease_charged:
  assumes "uuid name \<noteq> None" and "stat (stage_name name) = Missing" and "n \<le> U64_MAX"
  shows "lease_step uuid stat (new_lease name WouldBlock (show_nat n)) = Inr (Charged n name)"
proof -
  have "length (show_nat n) \<le> 20"
    using assms(3) by (intro show_nat_length) (simp_all add: U64_MAX_def)
  moreover have "strip_suffix ''.lease'' (name @ ''.lease'') = Some name" by (simp add: strip_suffix_Some)
  moreover have "name @ ''.lease'' \<noteq> ''lock''"
  proof
    assume "name @ ''.lease'' = ''lock''"
    then have "length (name @ ''.lease'') = length ''lock''" by (rule arg_cong)
    then show False by simp
  qed
  ultimately show ?thesis
    using assms
    by (auto simp: lease_step_def new_lease_def private_file_def own_meta_def flock_def stage_bytes_def
        lease_charge_def parse_show_nat ok_or_def and_then_def)
qed

section \<open>Properties\<close>

text \<open>C38: When the budget grants a reservation for a new staging file, the charges of all leases in the
  ledger, the new one included, together with the sizes of all staging files without a lease stay
  within the configured bytes, and their number within the configured transfers; the new lease is
  charged the bytes it reserves.\<close>

theorem budget_holds_after_reserve:
  assumes "budget_reserve uuid env (stage_name name) n maximum max_transfers ledger = (Inr path, ledger')"
    and "be_stat env (stage_name name) = Missing"
    and "be_parent_names env = Some names" and "n \<le> U64_MAX"
  shows "\<exists>accounted. set accounted \<subseteq> charged_ids uuid (be_stat env) ledger'
     \<and> sum_list (ledger_charges uuid (be_stat env) ledger')
         + sum_list (orphan_charges uuid (be_stat env) accounted names) \<le> maximum
     \<and> length (ledger_charges uuid (be_stat env) ledger')
         + length (orphan_charges uuid (be_stat env) accounted names) \<le> max_transfers
     \<and> (\<exists>l. Some l \<in> set ledger' \<and> ls_name l = Some path
          \<and> lease_step uuid (be_stat env) l = Inr (Charged n name))"
proof -
  let ?stat = "be_stat env" and ?l = "new_lease name WouldBlock (show_nat n)"
  obtain t mid tot count acc where
    scan: "ledger_scan uuid ?stat 0 ledger (0, 0, []) = (Inr t, mid)"
    and orph: "orphan_scan uuid ?stat 0 names t = Inr (tot, count, acc)"
    and fits: "tot + n \<le> maximum" "count < max_transfers"
    and id: "uuid name \<noteq> None" and create: "create_lease env name n mid = (Inr path, ledger')"
    using assms(1,3)
    by (auto simp: budget_reserve_def budget_fail_def and_then_Inr ok_or_Inr checked_add_def Let_def
        stage_name_id split: if_split_asm sum.split_asm prod.split_asm)
  from create have l': "ledger' = mid @ [Some ?l]" "path = name @ ''.lease''"
    by (auto simp: create_lease_def budget_fail_def Let_def split: if_split_asm sum.split_asm bool.split_asm)
  have new: "lease_step uuid ?stat ?l = Inr (Charged n name)"
    using id assms(2,4) by (intro new_lease_charged)
  have sum: "ledger_charges uuid ?stat ledger' = ledger_charges uuid ?stat mid @ [n]"
    by (simp add: ledger_charges_def l' charged_def new)
  have "set (snd (snd t)) \<subseteq> charged_ids uuid ?stat ledger'"
    using ledger_scan_ok [OF scan] by (auto simp: charged_ids_def l')
  moreover have "ls_name ?l = Some path" "Some ?l \<in> set ledger'" by (simp_all add: new_lease_def l')
  ultimately show ?thesis
    using ledger_scan_ok [OF scan] orphan_scan_ok [OF orph] fits new
    by (intro exI [of _ "snd (snd t)"]) (auto simp: sum)
qed

text \<open>A live lease of 60 bytes, an abandoned lease without a file, and a leftover file of 10 bytes.\<close>

definition example_ledger :: "Lease option list" where
  "example_ledger = [Some (new_lease ''b'' Taken ''5''), Some (new_lease ''a'' WouldBlock ''60'')]"

definition example_budget :: BudgetEnv where
  "example_budget =
     \<lparr>be_parent = True, be_created = Existed, be_dir = Some own_meta, be_global = Some own_meta,
      be_global_lock = Taken, be_ledger_readable = True,
      be_parent_names = Some [Some (Some ''.tdrv-upload-c.tmp''), Some None, Some (Some ''other'')],
      be_stat = (\<lambda>p. if p = ''.tdrv-upload-c.tmp'' then Present (own_meta\<lparr>sm_len := 10\<rparr>) else Missing),
      be_create_ok = True, be_own_lock = Taken, be_write_ok = True, be_sync_ok = True\<rparr>"

lemmas budget_eval =
  budget_reserve_def example_budget_def example_ledger_def own_meta_def new_lease_def directory_def
  private_file_def flock_def lease_step_def stage_bytes_def lease_charge_def parse_u64_def is_digit_def
  number_of_def charge_def orphan_step_def checked_add_def U64_MAX_def U32_MAX_def create_lease_def
  stage_name_def strip_suffix_def strip_prefix_def suffix_def budget_fail_def result_simps

lemma example_reserve:
  "budget_reserve Some example_budget (stage_name ''d'') 30 100 3 example_ledger
     = (Inr ''d.lease'', [Some (new_lease ''a'' WouldBlock ''60''), Some (new_lease ''d'' WouldBlock ''30'')])"
proof -
  have "char_of (48 :: nat) = CHR ''0''" "char_of (51 :: nat) = CHR ''3''"
    using char_of_char [of "CHR ''0''", where ?'a = nat] char_of_char [of "CHR ''3''", where ?'a = nat] by simp_all
  then show ?thesis by (simp add: budget_eval show_nat.simps)
qed

theorem budget_holds_after_reserve_witness:
  "\<exists>accounted. 90 + sum_list (orphan_charges Some (be_stat example_budget) accounted
       [Some (Some ''.tdrv-upload-c.tmp''), Some None, Some (Some ''other'')]) \<le> 100"
proof -
  let ?l = "[Some (new_lease ''a'' WouldBlock ''60''), Some (new_lease ''d'' WouldBlock ''30'')]"
  have "be_stat example_budget (stage_name ''d'') = Missing" "(30::nat) \<le> U64_MAX"
    "be_parent_names example_budget = Some [Some (Some ''.tdrv-upload-c.tmp''), Some None, Some (Some ''other'')]"
    by (simp_all add: budget_eval)
  moreover have "ledger_charges Some (be_stat example_budget) ?l = [60, 30]"
    by (simp add: ledger_charges_def charged_def budget_eval)
  ultimately show ?thesis
    using budget_holds_after_reserve [OF example_reserve] by auto
qed
end
