(* ===== verification/TD_Upload.thy ===== *)
theory TD_Upload
  imports TD_Helper_Policy TD_Session TD_Budget
begin

text \<open>
  Uploads: \<open>src/upload/transfer.rs\<close>, \<open>resume.rs\<close> and \<open>temp.rs\<close>, with the connection context of
  \<open>src/ws/connection.rs\<close> and the payloads of \<open>src/protocol/payload.rs\<close>. A staging file is an entry
  of a map from paths to contents. What the operating system answers to an open, a write or a
  capacity query is an argument, \<open>StagingEnv\<close>; SHA-256 is the parameter \<open>sha\<close>; the helper behind the
  \<open>UploadHelper\<close> trait is the parameter \<open>helper\<close>. Random identifiers and the clock are arguments.
\<close>

section \<open>Payloads and state\<close>

record UploadBeginRequest =
  ub_retain_on_disconnect :: bool
  ub_root_id :: RootId
  ub_relative_path :: RelativePath
  ub_filename :: string
  ub_total_size :: nat
  ub_chunk_size :: nat
  ub_sha256 :: "string option"

definition UploadBeginRequest_validate :: "UploadBeginRequest \<Rightarrow> Limits \<Rightarrow> unit td_result" where
  "UploadBeginRequest_validate q limits = reject_if (ub_chunk_size q > max_chunk_size limits)"

record UploadBeginResponse =
  ubr_transfer_id :: Uuid
  ubr_chunk_size :: nat

record UploadEndRequest =
  ue_transfer_id :: Uuid
  ue_total_size :: nat
  ue_sha256 :: "string option"

record UploadEndResponse =
  uer_transfer_id :: Uuid
  uer_bytes_written :: nat
  uer_sha256_verified :: "bool option"

record UploadAbortRequest =
  ua_transfer_id :: Uuid
  ua_reason :: "string option"

record UploadResumeResponse =
  ur_transfer_id :: Uuid
  ur_root_id :: RootId
  ur_relative_path :: RelativePath
  ur_filename :: string
  ur_total_size :: nat
  ur_bytes_received :: nat
  ur_chunk_size :: nat
  ur_prefix_sha256 :: string

record OperationProgressPayload =
  opp_request_id :: Uuid
  opp_operation :: string
  opp_bytes_done :: "nat option"
  opp_bytes_total :: "nat option"
  opp_items_done :: "nat option"
  opp_items_total :: "nat option"

record OperationDonePayload =
  opd_request_id :: Uuid
  opd_operation :: string
  opd_safe_message :: "string option"

record StageUsage =
  sgu_bytes :: nat
  sgu_transfers :: nat

text \<open>\<open>up_reserved\<close> is the byte count of the staging reservation the upload holds.\<close>

record ActiveUpload =
  up_retain_on_disconnect :: bool
  up_reserved :: nat
  up_transfer_id :: Uuid
  up_root_id :: RootId
  up_parent_relative_path :: RelativePath
  up_filename :: SafeFileName
  up_total_size :: nat
  up_chunk_size :: nat
  up_sha256 :: "string option"
  up_bytes_received :: nat
  up_temp_name :: string
  up_staging_path :: string

type_synonym StagedFiles = "string \<rightharpoonup> bytes"

definition TempUploadName_new :: "(Uuid \<Rightarrow> string) \<Rightarrow> Uuid \<Rightarrow> string" where
  "TempUploadName_new uuid_text tid = ''.tdrv-upload-'' @ uuid_text tid @ ''.tmp''"

section \<open>Reservations\<close>

definition reserve_staging :: "nat \<Rightarrow> nat \<Rightarrow> nat \<Rightarrow> StageUsage \<Rightarrow> StageUsage td_result" where
  "reserve_staging n maximum max_transfers held =
     and_then (ok_or (checked_add (sgu_bytes held) n) TealDriveError.DiskFull) (\<lambda>total.
       if total > maximum \<or> sgu_transfers held \<ge> max_transfers then Inl TealDriveError.DiskFull
       else Inr (held\<lparr>sgu_bytes := total, sgu_transfers := sgu_transfers held + 1\<rparr>))"

text \<open>Dropping the last clone of a reservation.\<close>

definition release_staging :: "nat \<Rightarrow> StageUsage \<Rightarrow> StageUsage" where
  "release_staging n held =
     held\<lparr>sgu_bytes := sgu_bytes held - n, sgu_transfers := sgu_transfers held - 1\<rparr>"

record StagingEnv =
  sge_open_ok :: bool
  sge_lock_ok :: bool
  sge_free :: "nat option"
  sge_seek_ok :: bool
  sge_written :: "nat option"
  sge_flush_ok :: bool

text \<open>\<open>sge_free\<close> is the free space \<open>fstatvfs\<close> reports, already saturated. \<open>sge_written\<close> is \<open>None\<close> when
  \<open>write_all\<close> succeeds, and the number of bytes written before the failure otherwise.\<close>

definition check_staging_capacity :: "StagingEnv \<Rightarrow> nat \<Rightarrow> nat \<Rightarrow> unit td_result" where
  "check_staging_capacity env n minimum_free =
     (case sge_free env of None \<Rightarrow> Inl TealDriveError.Internal
      | Some free \<Rightarrow>
          (case checked_add n minimum_free of
             None \<Rightarrow> Inl TealDriveError.DiskFull
           | Some required \<Rightarrow> if free < required then Inl TealDriveError.DiskFull else Inr ()))"

section \<open>Beginning\<close>

definition validate_upload ::
  "(string \<Rightarrow> string option) \<Rightarrow> UserContext \<Rightarrow> UploadBeginRequest \<Rightarrow> AppConfig \<Rightarrow> PolicyEngine
   \<Rightarrow> (RelativePath \<times> SafeFileName) td_result" where
  "validate_upload uuid user q config engine0 =
     (let engine = for_user engine0 (uc_username user) in
      and_then (UploadBeginRequest_validate q (cfg_limits config)) (\<lambda>_.
      and_then (reject_if (ub_total_size q > max_in_flight_upload (cfg_limits config))) (\<lambda>_.
      and_then (validate_relative_path (ub_relative_path q)) (\<lambda>par.
      and_then (SafeFileName_parse (ub_filename q)) (\<lambda>fname.
      let target = target_of par fname in
      and_then (require_allowed_root (cfg_roots config) (ub_root_id q)) (\<lambda>root.
      if root_read_only root \<or> \<not> root_uploads_allowed root then Inl TealDriveError.PolicyDenied
      else if sm_is_sensitive (detect_sensitive target (cfg_sensitive_policy config))
      then Inl TealDriveError.PolicyDenied
      else if \<not> permits (check_webroot_upload (root_is_web_root root) fname (cfg_webroot_policy config))
      then Inl TealDriveError.WebrootExecutableDenied
      else
        and_then (authorize_new_target root par fname) (\<lambda>_.
        and_then (check_operation uuid engine FileOperation.UploadFile (ub_root_id q) par (Some target)
            (Some fname) (root_hidden_files_allowed root)) (\<lambda>d.
        if \<not> permits d then Inl TealDriveError.PolicyDenied
        else if (case root_quota_bytes root of None \<Rightarrow> False | Some limit \<Rightarrow> ub_total_size q > limit)
        then Inl TealDriveError.DiskFull
        else Inr (par, fname)))))))))"

text \<open>The process-wide counter, the ledger of leases and the staging files. The reservation and the lease
  are dropped on every error after they were taken. \<open>tid\<close> is the new transfer id; the staging file is
  created exclusively.\<close>

type_synonym StagingState = "StageUsage \<times> Lease option list \<times> StagedFiles"

definition upload_begin_request ::
  "(string \<Rightarrow> string option) \<Rightarrow> (Uuid \<Rightarrow> string) \<Rightarrow> string \<Rightarrow> BudgetEnv \<Rightarrow> StagingEnv \<Rightarrow> Uuid
   \<Rightarrow> UserContext \<Rightarrow> UploadBeginRequest \<Rightarrow> AppConfig \<Rightarrow> PolicyEngine \<Rightarrow> StagingState
   \<Rightarrow> (ActiveUpload \<times> UploadBeginResponse) td_result \<times> StagingState" where
  "upload_begin_request uuid uuid_text temp_dir benv env tid user q config engine st =
     (let (usage, ledger, files) = st;
          n = ub_total_size q; storage = cfg_system_storage config;
          temp_name = TempUploadName_new uuid_text tid;
          negotiated = max (min (ub_chunk_size q) (max_chunk_size (cfg_limits config))) 1;
          staging_path = path_join temp_dir temp_name
      in case validate_upload uuid user q config engine of
           Inl e \<Rightarrow> (Inl e, st)
         | Inr (par, fname) \<Rightarrow>
             (case reserve_staging n (ss_max_staging_bytes storage) (ss_max_staging_transfers storage) usage of
                Inl e \<Rightarrow> (Inl e, st)
              | Inr usage' \<Rightarrow>
                  (case budget_reserve uuid benv temp_name n (ss_max_staging_bytes storage)
                          (ss_max_staging_transfers storage) ledger of
                     (Inl e, ledger') \<Rightarrow> (Inl e, release_staging n usage', ledger', files)
                   | (Inr lease, ledger') \<Rightarrow>
                       if \<not> sge_open_ok env \<or> files staging_path \<noteq> None
                       then (Inl TealDriveError.Internal, release_staging n usage',
                             drop_reservation benv lease ledger', files)
                       else
                         (case check_staging_capacity env n (ss_staging_min_free_bytes storage) of
                            Inl e \<Rightarrow> (Inl e, release_staging n usage', drop_reservation benv lease ledger', files)
                          | Inr _ \<Rightarrow>
                              (Inr (\<lparr>up_retain_on_disconnect = ub_retain_on_disconnect q, up_reserved = n,
                                     up_transfer_id = tid, up_root_id = ub_root_id q,
                                     up_parent_relative_path = par, up_filename = fname, up_total_size = n,
                                     up_chunk_size = negotiated, up_sha256 = ub_sha256 q,
                                     up_bytes_received = 0, up_temp_name = temp_name,
                                     up_staging_path = staging_path\<rparr>,
                                    \<lparr>ubr_transfer_id = tid, ubr_chunk_size = negotiated\<rparr>),
                               usage', ledger', files(staging_path \<mapsto> []))))))"

section \<open>Chunks\<close>

text \<open>Writing at an offset of an open file; a gap would be filled with zeros.\<close>

definition write_file_at :: "nat \<Rightarrow> bytes \<Rightarrow> bytes \<Rightarrow> bytes" where
  "write_file_at off data old =
     take off (old @ replicate (off - length old) 0) @ data @ drop (off + length data) old"

text \<open>The checks before the write, all of which leave the state alone; the result is the content of
  the opened staging file.\<close>

definition chunk_guard ::
  "StagingEnv \<Rightarrow> RawChunk \<Rightarrow> AppConfig \<Rightarrow> ActiveUpload \<Rightarrow> StagedFiles \<Rightarrow> bytes td_result" where
  "chunk_guard env chunk config up files =
     (if chunk_transfer_id chunk \<noteq> up_transfer_id up then Inl TealDriveError.Validation
      else if length (chunk_bytes chunk) > max_chunk_size (cfg_limits config)
      then Inl TealDriveError.PayloadTooLarge
      else if unat (chunk_offset chunk) \<noteq> up_bytes_received up then Inl TealDriveError.Validation
      else if up_bytes_received up + length (chunk_bytes chunk) > up_total_size up
      then Inl TealDriveError.PayloadTooLarge
      else
        and_then (ok_or (if sge_open_ok env then files (up_staging_path up) else None)
          TealDriveError.Internal) (\<lambda>content.
        if \<not> sge_lock_ok env then Inl TealDriveError.Internal
        else
          and_then (check_staging_capacity env (length (chunk_bytes chunk))
            (ss_staging_min_free_bytes (cfg_system_storage config))) (\<lambda>_.
          if \<not> sge_seek_ok env then Inl TealDriveError.Internal else Inr content)))"

text \<open>The result with the upload and the staged files after it.\<close>

definition upload_chunk_request ::
  "StagingEnv \<Rightarrow> Uuid \<Rightarrow> RawChunk \<Rightarrow> AppConfig \<Rightarrow> ActiveUpload \<times> StagedFiles
   \<Rightarrow> OperationProgressPayload td_result \<times> ActiveUpload \<times> StagedFiles" where
  "upload_chunk_request env rid chunk config st =
     (let (up, files) = st in
      case chunk_guard env chunk config up files of
        Inl e \<Rightarrow> (Inl e, up, files)
      | Inr content \<Rightarrow>
          let next_bytes = up_bytes_received up + length (chunk_bytes chunk);
              put = (\<lambda>data. files(up_staging_path up \<mapsto> write_file_at (unat (chunk_offset chunk)) data content))
          in case sge_written env of
               Some n \<Rightarrow> (Inl TealDriveError.Internal, up, put (take n (chunk_bytes chunk)))
             | None \<Rightarrow>
                 if \<not> sge_flush_ok env then (Inl TealDriveError.Internal, up, put (chunk_bytes chunk))
                 else
                   (Inr \<lparr>opp_request_id = rid, opp_operation = ''UPLOAD'',
                      opp_bytes_done = Some next_bytes, opp_bytes_total = Some (up_total_size up),
                      opp_items_done = None, opp_items_total = None\<rparr>,
                    up\<lparr>up_bytes_received := next_bytes\<rparr>, put (chunk_bytes chunk)))"

section \<open>Ending and aborting\<close>

definition MAX_DOWNLOAD_HELPER_BYTES :: nat where
  "MAX_DOWNLOAD_HELPER_BYTES = 768 * 1024"

definition helper_response_to_error :: "HelperResponse \<Rightarrow> TealDriveError" where
  "helper_response_to_error r =
     (case hr_error_kind r of
        Some ErrorKind.PermissionDenied \<Rightarrow> TealDriveError.PermissionDenied
      | Some ErrorKind.PolicyDenied \<Rightarrow> TealDriveError.PolicyDenied
      | Some ErrorKind.NotFound \<Rightarrow> TealDriveError.NotFound
      | Some ErrorKind.InvalidPath \<Rightarrow> TealDriveError.InvalidPath
      | Some ErrorKind.InvalidTarget \<Rightarrow> TealDriveError.InvalidTarget
      | Some ErrorKind.AlreadyExists \<Rightarrow> TealDriveError.AlreadyExists
      | Some ErrorKind.DiskFull \<Rightarrow> TealDriveError.DiskFull
      | Some ErrorKind.ValidationError \<Rightarrow> TealDriveError.InvalidFilename
      | _ \<Rightarrow> TealDriveError.HelperCommandNotImplemented)"

definition upload_commit_request :: "Uuid \<Rightarrow> UserContext \<Rightarrow> ActiveUpload \<Rightarrow> AppConfig \<Rightarrow> AllowedRoot \<Rightarrow> HelperRequest" where
  "upload_commit_request rid user up config root =
     \<lparr>hq_request_id = rid, hq_username = uc_username user, hq_uid = uc_uid user, hq_gid = uc_gid user,
      hq_command = HelperCommand.UploadCommit, hq_root_id = up_root_id up,
      hq_relative_path = target_of (up_parent_relative_path up) (up_filename up),
      hq_target_relative_path = None,
      hq_policy_context = \<lparr>hpc_read_only_root = root_read_only root, hpc_is_web_root = root_is_web_root root\<rparr>,
      hq_limits = \<lparr>hl_max_directory_page_size = max_directory_page_size (cfg_limits config),
        hl_max_text_edit_size = max_text_edit_size (cfg_limits config),
        hl_max_chunk_size = max_chunk_size (cfg_limits config),
        hl_max_download_helper_bytes = MAX_DOWNLOAD_HELPER_BYTES\<rparr>,
      hq_list_options = None,
      hq_write_options = Some \<lparr>wo_stream_size = Some (up_total_size up), wo_expected_revision = None,
        wo_data = [], wo_offset = 0, wo_truncate = True\<rparr>,
      hq_chmod_mode = None, hq_archive_source_paths = None, hq_search_options = None\<rparr>"

text \<open>The digests of the first and the last request must agree, and one of them, if any is given, is
  compared with that of the staged content, which is read for it (\<open>read_ok\<close>).\<close>

definition verify_digest ::
  "(bytes \<Rightarrow> string) \<Rightarrow> bool \<Rightarrow> string option \<Rightarrow> string option \<Rightarrow> bytes \<Rightarrow> bool option td_result" where
  "verify_digest sha read_ok begin_hash end_hash content =
     and_then (reject_if (case (begin_hash, end_hash) of
        (Some b, Some e) \<Rightarrow> \<not> eq_ignore_ascii_case b e | _ \<Rightarrow> False)) (\<lambda>_.
     case (case begin_hash of Some b \<Rightarrow> Some b | None \<Rightarrow> end_hash) of
       Some expected \<Rightarrow>
         if \<not> read_ok then Inl TealDriveError.Internal
         else if \<not> eq_ignore_ascii_case (sha content) expected then Inl TealDriveError.Validation
         else Inr (Some True)
     | None \<Rightarrow> Inr None)"

text \<open>An operation that sends requests to the helper returns, beside its result, the requests it has sent.\<close>

type_synonym 'a sending = "'a td_result \<times> HelperRequest list"

definition lift_result :: "'a td_result \<Rightarrow> 'a sending" where
  "lift_result r = (r, [])"

definition send :: "(HelperRequest \<Rightarrow> HelperResponse td_result) \<Rightarrow> HelperRequest \<Rightarrow> HelperResponse sending" where
  "send helper q = (helper q, [q])"

definition then_do :: "'a sending \<Rightarrow> ('a \<Rightarrow> 'b sending) \<Rightarrow> 'b sending" where
  "then_do m f =
     (case m of (Inl e, sent) \<Rightarrow> (Inl e, sent)
      | (Inr x, sent) \<Rightarrow> (case f x of (r, later) \<Rightarrow> (r, sent @ later)))"

text \<open>Removing the staging file is tried on every exit, and the result ignored: \<open>unlink_ok\<close> says whether it
  succeeds.\<close>

definition remove_staged :: "bool \<Rightarrow> string \<Rightarrow> StagedFiles \<Rightarrow> StagedFiles" where
  "remove_staged unlink_ok path files = (if unlink_ok then files(path := None) else files)"

text \<open>What is checked before the helper is asked: the content that was staged, what is said of its digest, and
  the root. \<open>open_ok\<close> says whether the staging file can be opened and its size read.\<close>

definition upload_end_checks ::
  "(bytes \<Rightarrow> string) \<Rightarrow> bool \<Rightarrow> bool \<Rightarrow> ActiveUpload \<Rightarrow> UploadEndRequest \<Rightarrow> AppConfig \<Rightarrow> StagedFiles
   \<Rightarrow> (bytes \<times> bool option \<times> AllowedRoot) td_result" where
  "upload_end_checks sha open_ok read_ok up q config files =
     (if ue_transfer_id q \<noteq> up_transfer_id up then Inl TealDriveError.Validation
      else if up_bytes_received up \<noteq> up_total_size up \<or> ue_total_size q \<noteq> up_total_size up
      then Inl TealDriveError.Validation
      else
        and_then (ok_or (if open_ok then files (up_staging_path up) else None) TealDriveError.Internal) (\<lambda>content.
        and_then (reject_if (length content \<noteq> up_total_size up)) (\<lambda>_.
        and_then (verify_digest sha read_ok (up_sha256 up) (ue_sha256 q) content) (\<lambda>verified.
        and_then (require_allowed_root (cfg_roots config) (up_root_id up)) (\<lambda>root.
        Inr (content, verified, root))))))"

definition upload_end_request ::
  "(bytes \<Rightarrow> string) \<Rightarrow> (HelperRequest \<Rightarrow> bytes \<Rightarrow> HelperResponse td_result) \<Rightarrow> bool \<Rightarrow> bool \<Rightarrow> bool \<Rightarrow> Uuid
   \<Rightarrow> UserContext \<Rightarrow> ActiveUpload \<Rightarrow> UploadEndRequest \<Rightarrow> AppConfig \<Rightarrow> StagedFiles
   \<Rightarrow> UploadEndResponse sending \<times> StagedFiles" where
  "upload_end_request sha helper open_ok read_ok unlink_ok rid user up q config files =
     (then_do (lift_result (upload_end_checks sha open_ok read_ok up q config files)) (\<lambda>(content, verified, root).
      then_do (send (\<lambda>request. helper request content) (upload_commit_request rid user up config root)) (\<lambda>response.
      lift_result
        (if \<not> hr_success response then Inl (helper_response_to_error response)
         else if hr_bytes_written response \<noteq> up_total_size up then Inl TealDriveError.HelperMalformedResponse
         else Inr \<lparr>uer_transfer_id = up_transfer_id up, uer_bytes_written = up_bytes_received up,
                   uer_sha256_verified = verified\<rparr>))),
      remove_staged unlink_ok (up_staging_path up) files)"

definition upload_abort_request ::
  "bool \<Rightarrow> Uuid \<Rightarrow> ActiveUpload \<Rightarrow> UploadAbortRequest \<Rightarrow> StagedFiles
   \<Rightarrow> OperationDonePayload td_result \<times> StagedFiles" where
  "upload_abort_request unlink_ok rid up q files =
     (if ua_transfer_id q \<noteq> up_transfer_id up then (Inl TealDriveError.Validation, files)
      else (Inr \<lparr>opd_request_id = rid, opd_operation = ''UPLOAD_ABORT'',
                 opd_safe_message = Some ''Upload aborted.''\<rparr>,
            remove_staged unlink_ok (up_staging_path up) files))"

section \<open>Resuming (\<open>connection.rs\<close>, \<open>resume.rs\<close>)\<close>

record WsSelectedProtocol =
  wsp_protocol_version :: u8
  wsp_selected_encoding :: Encoding
  wsp_selected_compression :: Compression
  wsp_effective_limits :: Limits

record WsConnectionContext =
  cc_session_id :: SessionId
  cc_username :: string
  cc_uid :: nat
  cc_gid :: nat
  cc_user_agent :: "string option"
  cc_ip :: "string option"
  cc_connected_at :: nat
  cc_protocol_ready :: bool
  cc_selected_protocol :: "WsSelectedProtocol option"
  cc_features :: FeatureFlags
  cc_active_uploads :: "(Uuid \<times> ActiveUpload) list"

definition user_context :: "WsConnectionContext \<Rightarrow> UserContext" where
  "user_context c = \<lparr>uc_username = cc_username c, uc_uid = cc_uid c, uc_gid = cc_gid c\<rparr>"

text \<open>While a record is in the map it holds its upload.\<close>

record Suspended =
  sus_session :: SessionId
  sus_username :: string
  sus_uid :: nat
  sus_gid :: nat
  sus_expires :: nat
  sus_upload :: ActiveUpload

type_synonym Pending = "(Uuid \<times> Suspended) list"

text \<open>Dropping records removes their staging files; this removal is taken to succeed.\<close>

definition drop_records :: "Suspended list \<Rightarrow> StagedFiles \<Rightarrow> StagedFiles" where
  "drop_records rs files = (\<lambda>p. if p \<in> (\<lambda>r. up_staging_path (sus_upload r)) ` set rs then None else files p)"

definition retain_records ::
  "(Suspended \<Rightarrow> bool) \<Rightarrow> Pending \<times> StagedFiles \<Rightarrow> Pending \<times> StagedFiles" where
  "retain_records keep st =
     (let (pending, files) = st
      in (filter (\<lambda>(_, r). keep r) pending,
          drop_records (map snd (filter (\<lambda>(_, r). \<not> keep r) pending)) files))"

definition suspend ::
  "nat \<Rightarrow> WsConnectionContext \<Rightarrow> ActiveUpload \<Rightarrow> nat \<Rightarrow> Pending \<times> StagedFiles \<Rightarrow> Pending \<times> StagedFiles" where
  "suspend now context up seconds st =
     (let record = \<lparr>sus_session = cc_session_id context, sus_username = cc_username context,
            sus_uid = cc_uid context, sus_gid = cc_gid context,
            sus_expires = saturating_add now seconds, sus_upload = up\<rparr>;
          (pending, files) = retain_records (\<lambda>r. sus_expires r > now) st
      in if length pending < 4096
         then (AList.update (up_transfer_id up) record pending,
               (case map_of pending (up_transfer_id up) of Some old \<Rightarrow> drop_records [old] files | None \<Rightarrow> files))
         else (pending, drop_records [record] files))"

definition purge :: "nat \<Rightarrow> SessionId option \<Rightarrow> Pending \<times> StagedFiles \<Rightarrow> Pending \<times> StagedFiles" where
  "purge now session st =
     retain_records (\<lambda>r. sus_expires r > now \<and> session \<noteq> Some (sus_session r)) st"

definition clear_pending :: "Pending \<times> StagedFiles \<Rightarrow> Pending \<times> StagedFiles" where
  "clear_pending st = retain_records (\<lambda>_. False) st"

definition other_identity :: "WsConnectionContext \<Rightarrow> Suspended \<Rightarrow> bool" where
  "other_identity context r \<longleftrightarrow>
     sus_session r \<noteq> cc_session_id context \<or> sus_username r \<noteq> cc_username context
     \<or> sus_uid r \<noteq> cc_uid context \<or> sus_gid r \<noteq> cc_gid context"

definition take_for_abort ::
  "WsConnectionContext \<Rightarrow> Uuid \<Rightarrow> Pending \<Rightarrow> ActiveUpload td_result \<times> Pending" where
  "take_for_abort context tid pending =
     (case map_of pending tid of
        None \<Rightarrow> (Inl TealDriveError.NotFound, pending)
      | Some r \<Rightarrow>
          if other_identity context r then (Inl TealDriveError.NotFound, pending)
          else (Inr (sus_upload r), AList.delete tid pending))"

text \<open>What \<open>fstat\<close> says of the opened staging file besides its length, and whether it can be read.\<close>

record StagedStat =
  sst_open_ok :: bool
  sst_stat_ok :: bool
  sst_private :: bool
  sst_read_ok :: bool

definition resume_request :: "ActiveUpload \<Rightarrow> UploadBeginRequest" where
  "resume_request up =
     \<lparr>ub_retain_on_disconnect = True, ub_root_id = up_root_id up,
      ub_relative_path = up_parent_relative_path up, ub_filename = up_filename up,
      ub_total_size = up_total_size up, ub_chunk_size = up_chunk_size up, ub_sha256 = up_sha256 up\<rparr>"

text \<open>After the record has left the map, an error drops it with its file.\<close>

definition resume_checks ::
  "(string \<Rightarrow> string option) \<Rightarrow> (bytes \<Rightarrow> string) \<Rightarrow> StagedStat \<Rightarrow> WsConnectionContext \<Rightarrow> Uuid \<Rightarrow> AppConfig
   \<Rightarrow> ActiveUpload \<Rightarrow> StagedFiles \<Rightarrow> UploadResumeResponse td_result" where
  "resume_checks uuid sha stat context tid config up files =
     and_then (validate_upload uuid (user_context context) (resume_request up) config (PolicyEngine_new config)) (\<lambda>_.
     and_then (ok_or (if sst_open_ok stat then files (up_staging_path up) else None) TealDriveError.NotFound) (\<lambda>content.
     if \<not> sst_stat_ok stat then Inl TealDriveError.Internal
     else if \<not> sst_private stat \<or> length content \<noteq> up_bytes_received up then Inl TealDriveError.PermissionDenied
     else if \<not> sst_read_ok stat then Inl TealDriveError.Internal
     else Inr \<lparr>ur_transfer_id = tid, ur_root_id = up_root_id up,
               ur_relative_path = up_parent_relative_path up, ur_filename = up_filename up,
               ur_total_size = up_total_size up, ur_bytes_received = up_bytes_received up,
               ur_chunk_size = up_chunk_size up, ur_prefix_sha256 = sha content\<rparr>))"

definition take_upload ::
  "(string \<Rightarrow> string option) \<Rightarrow> (bytes \<Rightarrow> string) \<Rightarrow> StagedStat \<Rightarrow> nat \<Rightarrow> WsConnectionContext \<Rightarrow> Uuid
   \<Rightarrow> AppConfig \<Rightarrow> Pending \<times> StagedFiles
   \<Rightarrow> (ActiveUpload \<times> UploadResumeResponse) td_result \<times> Pending \<times> StagedFiles" where
  "take_upload uuid sha stat now context tid config st =
     (if ss_upload_resume_seconds (cfg_system_storage config) = 0
      then (Inl TealDriveError.PermissionDenied, st)
      else
        let (pending, files) = retain_records (\<lambda>r. sus_expires r > now) st in
        case map_of pending tid of
          None \<Rightarrow> (Inl TealDriveError.NotFound, pending, files)
        | Some r \<Rightarrow>
            if other_identity context r then (Inl TealDriveError.NotFound, pending, files)
            else
              let pending = AList.delete tid pending in
              case resume_checks uuid sha stat context tid config (sus_upload r) files of
                Inl e \<Rightarrow> (Inl e, pending, drop_records [r] files)
              | Inr response \<Rightarrow> (Inr (sus_upload r, response), pending, files))"

section \<open>The staged content\<close>

text \<open>\<open>data\<close> has been received: it is at the start of the staging file, and the counter says how much
  it is. A failed write may leave more bytes behind it.\<close>

definition upload_inv :: "bytes \<Rightarrow> ActiveUpload \<times> StagedFiles \<Rightarrow> bool" where
  "upload_inv data st \<longleftrightarrow>
     (case st of (up, files) \<Rightarrow>
        up_bytes_received up = length data \<and> length data \<le> up_total_size up
        \<and> (\<exists>rest. files (up_staging_path up) = Some (data @ rest)))"

lemma write_file_at_append:
  "write_file_at (length data) new (data @ rest) = data @ new @ drop (length new) rest"
  by (simp add: write_file_at_def)

lemma chunk_guard_ok:
  "chunk_guard env chunk config up files = Inr content \<Longrightarrow>
     files (up_staging_path up) = Some content \<and> unat (chunk_offset chunk) = up_bytes_received up
     \<and> up_bytes_received up + length (chunk_bytes chunk) \<le> up_total_size up"
  by (simp add: chunk_guard_def and_then_Inr ok_or_Inr split: if_split_asm)

lemma upload_inv_write:
  assumes "upload_inv data (up, files)" and "files (up_staging_path up) = Some content"
  shows "\<exists>rest. write_file_at (up_bytes_received up) new content = data @ new @ rest"
  using assms by (auto simp: upload_inv_def write_file_at_append)

lemma chunk_accepted:
  assumes inv: "upload_inv data st" and res: "upload_chunk_request env rid chunk config st = (Inr p, st')"
  shows "upload_inv (data @ chunk_bytes chunk) st'
     \<and> fst st' = (fst st)\<lparr>up_bytes_received := length (data @ chunk_bytes chunk)\<rparr>"
proof -
  obtain up files where st: "st = (up, files)" by (cases st)
  obtain content where guard: "chunk_guard env chunk config up files = Inr content"
    using res by (auto simp: st upload_chunk_request_def split: sum.splits)
  note g = chunk_guard_ok [OF guard]
  obtain rest where "write_file_at (up_bytes_received up) (chunk_bytes chunk) content
      = data @ chunk_bytes chunk @ rest"
    using upload_inv_write [OF inv [unfolded st]] g by blast
  moreover have "st' = (up\<lparr>up_bytes_received := up_bytes_received up + length (chunk_bytes chunk)\<rparr>,
      files(up_staging_path up \<mapsto> write_file_at (up_bytes_received up) (chunk_bytes chunk) content))"
    using res g guard by (simp add: st upload_chunk_request_def Let_def split: option.split_asm if_split_asm)
  ultimately show ?thesis
    using inv g by (simp add: st upload_inv_def)
qed

lemma chunk_refused:
  assumes inv: "upload_inv data st" and res: "upload_chunk_request env rid chunk config st = (Inl e, st')"
  shows "upload_inv data st' \<and> fst st' = fst st"
proof -
  obtain up files where st: "st = (up, files)" by (cases st)
  show ?thesis
  proof (cases "chunk_guard env chunk config up files")
    case (Inl err)
    with res inv show ?thesis by (simp add: st upload_chunk_request_def)
  next
    case (Inr content)
    note g = chunk_guard_ok [OF Inr]
    have "\<exists>rest. write_file_at (up_bytes_received up) new content = data @ rest" for new
      using upload_inv_write [OF inv [unfolded st], of content new] g by blast
    moreover obtain new where
      "st' = (up, files(up_staging_path up \<mapsto> write_file_at (up_bytes_received up) new content))"
      using res g Inr by (auto simp: st upload_chunk_request_def Let_def split: option.split_asm if_split_asm)
    ultimately show ?thesis
      using inv by (simp add: st upload_inv_def)
  qed
qed

text \<open>Any sequence of chunks under any behaviour of the disk, with the bytes of those accepted.\<close>

fun feed ::
  "AppConfig \<Rightarrow> (StagingEnv \<times> Uuid \<times> RawChunk) list \<Rightarrow> ActiveUpload \<times> StagedFiles
   \<Rightarrow> bytes \<times> ActiveUpload \<times> StagedFiles" where
  "feed config [] st = ([], st)"
| "feed config ((env, rid, chunk) # cs) st =
     (case upload_chunk_request env rid chunk config st of
        (Inr _, st') \<Rightarrow> (case feed config cs st' of (bs, st'') \<Rightarrow> (chunk_bytes chunk @ bs, st''))
      | (Inl _, st') \<Rightarrow> feed config cs st')"

lemma feed_inv:
  "upload_inv data st \<Longrightarrow> feed config cs st = (bs, st') \<Longrightarrow>
     upload_inv (data @ bs) st' \<and> fst st' = (fst st)\<lparr>up_bytes_received := length (data @ bs)\<rparr>"
proof (induction cs arbitrary: data st bs st')
  case Nil
  then show ?case by (cases "fst st") (auto simp: upload_inv_def)
next
  case (Cons c cs)
  obtain env rid chunk where c: "c = (env, rid, chunk)" by (cases c)
  obtain r mid where r: "upload_chunk_request env rid chunk config st = (r, mid)"
    by (cases "upload_chunk_request env rid chunk config st")
  show ?case
  proof (cases r)
    case (Inl e)
    have rest: "feed config cs mid = (bs, st')" using Cons.prems(2) by (simp add: c r Inl)
    have mid: "upload_inv data mid" "fst mid = fst st"
      using chunk_refused [OF Cons.prems(1) r [unfolded Inl]] by simp_all
    from Cons.IH [OF mid(1) rest] mid(2) show ?thesis by simp
  next
    case (Inr p)
    obtain tail where tail: "feed config cs mid = (tail, st')" and bs: "bs = chunk_bytes chunk @ tail"
      using Cons.prems(2) by (simp add: c r Inr split: prod.split_asm)
    note mid = chunk_accepted [OF Cons.prems(1) r [unfolded Inr]]
    from Cons.IH [OF conjunct1 [OF mid] tail] mid show ?thesis by (simp add: bs)
  qed
qed

lemma upload_end_ok:
  assumes "upload_end_request sha helper open_ok read_ok unlink_ok rid user up q config files = ((Inr resp, sent), files')"
  shows "\<exists>content root response. sent = [upload_commit_request rid user up config root]
     \<and> files (up_staging_path up) = Some content
     \<and> length content = up_total_size up \<and> up_bytes_received up = up_total_size up
     \<and> require_allowed_root (cfg_roots config) (up_root_id up) = Inr root
     \<and> helper (upload_commit_request rid user up config root) content = Inr response
     \<and> hr_success response \<and> hr_bytes_written response = up_total_size up
     \<and> verify_digest sha read_ok (up_sha256 up) (ue_sha256 q) content = Inr (uer_sha256_verified resp)"
  using assms
  by (auto simp: upload_end_request_def upload_end_checks_def then_do_def lift_result_def send_def and_then_Inr ok_or_Inr
      split: if_split_asm sum.split_asm)

lemma upload_end_sent:
  assumes "upload_end_request sha helper open_ok read_ok unlink_ok rid user up q config files = ((r, sent), files')"
    and "h \<in> set sent"
  shows "\<exists>root. h = upload_commit_request rid user up config root
     \<and> require_allowed_root (cfg_roots config) (up_root_id up) = Inr root \<and> up_bytes_received up = up_total_size up"
  using assms
  by (auto simp: upload_end_request_def upload_end_checks_def then_do_def lift_result_def send_def and_then_Inr ok_or_Inr
      split: if_split_asm sum.split_asm)

lemma verify_digest_ok:
  "verify_digest sha read_ok b e content = Inr v \<Longrightarrow> b = Some h \<or> e = Some h \<Longrightarrow>
     eq_ignore_ascii_case (sha content) h"
  by (auto simp: verify_digest_def and_then_unit eq_ignore_ascii_case_def
      split: option.split_asm if_split_asm)

section \<open>Reservations held\<close>

text \<open>The counter against the reservations that are alive.\<close>

definition usage_of :: "nat list \<Rightarrow> StageUsage" where
  "usage_of held = \<lparr>sgu_bytes = sum_list held, sgu_transfers = length held\<rparr>"

inductive staging_reachable :: "nat \<Rightarrow> nat \<Rightarrow> nat list \<Rightarrow> StageUsage \<Rightarrow> bool" for maximum max_transfers where
  start: "staging_reachable maximum max_transfers [] \<lparr>sgu_bytes = 0, sgu_transfers = 0\<rparr>"
| reserve: "staging_reachable maximum max_transfers held u \<Longrightarrow>
    reserve_staging n maximum max_transfers u = Inr u' \<Longrightarrow>
    staging_reachable maximum max_transfers (n # held) u'"
| release: "staging_reachable maximum max_transfers held u \<Longrightarrow> n \<in> set held \<Longrightarrow>
    staging_reachable maximum max_transfers (remove1 n held) (release_staging n u)"

lemma sum_list_remove1: "n \<in> set held \<Longrightarrow> sum_list held = n + sum_list (remove1 (n :: nat) held)"
  by (induction held) auto

lemma staging_reachable_usage:
  "staging_reachable maximum max_transfers held u \<Longrightarrow>
     u = usage_of held \<and> sum_list held \<le> maximum \<and> length held \<le> max_transfers"
proof (induction rule: staging_reachable.induct)
  case start
  then show ?case by (simp add: usage_of_def)
next
  case (reserve held u n u')
  then show ?case
    by (auto simp: reserve_staging_def and_then_Inr ok_or_Inr usage_of_def split: if_split_asm)
next
  case (release held u n)
  then show ?case
    using sum_list_remove1 [OF release.hyps(2)]
    by (auto simp: release_staging_def usage_of_def length_remove1)
qed


lemma resume_checks_ok:
  "resume_checks uuid sha stat context tid config up files = Inr resp \<Longrightarrow>
     (\<exists>d. validate_upload uuid (user_context context) (resume_request up) config (PolicyEngine_new config) = Inr d)
     \<and> (\<exists>content. files (up_staging_path up) = Some content \<and> length content = up_bytes_received up
          \<and> ur_prefix_sha256 resp = sha content)"
  by (auto simp: resume_checks_def and_then_Inr ok_or_Inr split: if_split_asm)

section \<open>Properties\<close>

lemma upload_begin_ok:
  assumes "upload_begin_request uuid uuid_text temp_dir benv env tid user q config engine st
      = (Inr (up, resp), st')"
  shows "up_bytes_received up = 0 \<and> up_total_size up = ub_total_size q \<and> up_sha256 up = ub_sha256 q
     \<and> up_root_id up = ub_root_id q
     \<and> validate_upload uuid user q config engine = Inr (up_parent_relative_path up, up_filename up)
     \<and> snd (snd st') (up_staging_path up) = Some []"
  using assms
  by (auto simp: upload_begin_request_def Let_def
      split: prod.split_asm sum.split_asm if_split_asm)

text \<open>C10: Uploads from begin to end. After a successful begin, any sequence of chunks under any
  behaviour of the disk, and a successful end, the helper has been handed exactly the bytes of the
  accepted chunks, in order and of the size announced at the begin, in one request, for the target that
  the begin validated; a digest given in the first or the last request is that of these bytes, and the
  staging file is gone if it could be removed.\<close>

theorem upload_delivers_accepted_bytes:
  assumes "upload_begin_request uuid uuid_text temp_dir benv env tid user b config engine st
      = (Inr (up, resp0), usage, ledger, files)"
    and "feed config cs (up, files) = (bs, up', files')"
    and "upload_end_request sha helper open_ok read_ok unlink_ok rid user up' q config files' = ((Inr resp, sent), files'')"
  shows "length bs = ub_total_size b \<and> uer_bytes_written resp = length bs
     \<and> (\<exists>par fname root response. validate_upload uuid user b config engine = Inr (par, fname)
          \<and> sent = [upload_commit_request rid user up' config root]
          \<and> hq_relative_path (upload_commit_request rid user up' config root) = target_of par fname
          \<and> helper (upload_commit_request rid user up' config root) bs = Inr response
          \<and> hr_success response \<and> hr_bytes_written response = length bs)
     \<and> (\<forall>h. ub_sha256 b = Some h \<or> ue_sha256 q = Some h \<longrightarrow> eq_ignore_ascii_case (sha bs) h)
     \<and> files'' = remove_staged unlink_ok (up_staging_path up) files'
     \<and> (unlink_ok \<longrightarrow> files'' (up_staging_path up) = None)"
proof -
  note start = upload_begin_ok [OF assms(1)]
  then have "upload_inv [] (up, files)" by (simp add: upload_inv_def)
  from feed_inv [OF this assms(2)] have
    inv: "upload_inv bs (up', files')" and up': "up' = up\<lparr>up_bytes_received := length bs\<rparr>"
    by auto
  obtain content root response where
    sent: "sent = [upload_commit_request rid user up' config root]"
    and c: "files' (up_staging_path up') = Some content" "length content = up_total_size up'"
      "up_bytes_received up' = up_total_size up'"
    and h: "helper (upload_commit_request rid user up' config root) content = Inr response"
      "hr_success response" "hr_bytes_written response = up_total_size up'"
    and v: "verify_digest sha read_ok (up_sha256 up') (ue_sha256 q) content = Inr (uer_sha256_verified resp)"
    using upload_end_ok [OF assms(3)] by blast
  have content: "content = bs" using inv c by (auto simp: upload_inv_def)
  have "hq_relative_path (upload_commit_request rid user up' config root)
      = target_of (up_parent_relative_path up) (up_filename up)"
    by (simp add: upload_commit_request_def up')
  moreover have "files'' = remove_staged unlink_ok (up_staging_path up) files'"
    and "uer_bytes_written resp = up_bytes_received up'"
    using assms(3)
    by (auto simp: upload_end_request_def upload_end_checks_def then_do_def lift_result_def send_def and_then_Inr up'
        split: if_split_asm sum.split_asm)
  moreover have "length bs = ub_total_size b" using c(3) start by (simp add: up')
  ultimately show ?thesis
    using h(1) [unfolded content] h(2,3) start sent verify_digest_ok [OF v, unfolded content]
    by (auto simp: up' remove_staged_def)
qed

text \<open>Whatever reservations are taken and released, the process-wide staging counter is exactly
  the sum and the number of those alive, and stays within the configured bytes and transfers.\<close>

theorem staging_within_budget:
  assumes "staging_reachable maximum max_transfers held u"
  shows "sgu_bytes u = sum_list held \<and> sgu_transfers u = length held
     \<and> sgu_bytes u \<le> maximum \<and> sgu_transfers u \<le> max_transfers"
  using staging_reachable_usage [OF assms] by (simp add: usage_of_def)

theorem staging_within_budget_witness:
  "staging_reachable 100 2 [60] \<lparr>sgu_bytes = 60, sgu_transfers = 1\<rparr> \<and> (60::nat) \<le> 100
   \<and> reserve_staging 60 100 2 \<lparr>sgu_bytes = 60, sgu_transfers = 1\<rparr> = Inl TealDriveError.DiskFull"
proof -
  have r: "staging_reachable 100 2 [60] \<lparr>sgu_bytes = 60, sgu_transfers = 1\<rparr>"
    by (rule staging_reachable.reserve [OF staging_reachable.start])
      (simp add: reserve_staging_def checked_add_def U64_MAX_def result_simps)
  with staging_within_budget [OF r] show ?thesis
    by (simp add: reserve_staging_def checked_add_def U64_MAX_def result_simps)
qed

text \<open>C37: A suspended upload is handed back only to the session, user and ids that started it, before
  it expires and with a staging file of exactly the bytes received, and its upload is validated again;
  the record then leaves the map, so that the same transfer cannot be taken twice.\<close>

theorem resume_bound_to_identity:
  assumes "take_upload uuid sha stat now context tid config (pending, files) = (Inr (up, resp), pending', files')"
    and "distinct (map fst pending)"
  shows "(\<exists>r. map_of pending tid = Some r \<and> sus_upload r = up \<and> now < sus_expires r
        \<and> sus_session r = cc_session_id context \<and> sus_username r = cc_username context
        \<and> sus_uid r = cc_uid context \<and> sus_gid r = cc_gid context)
     \<and> (\<exists>content. files (up_staging_path up) = Some content \<and> length content = up_bytes_received up
        \<and> ur_prefix_sha256 resp = sha content)
     \<and> (\<exists>d. validate_upload uuid (user_context context) (resume_request up) config (PolicyEngine_new config) = Inr d)
     \<and> map_of pending' tid = None"
proof -
  let ?keep = "filter (\<lambda>(_, r). now < sus_expires r) pending"
  let ?files = "drop_records (map snd (filter (\<lambda>(_, r). \<not> now < sus_expires r) pending)) files"
  obtain r where r: "map_of ?keep tid = Some r" "\<not> other_identity context r" "sus_upload r = up"
      "resume_checks uuid sha stat context tid config up ?files = Inr resp"
      "pending' = AList.delete tid ?keep"
    using assms(1)
    by (auto simp: take_upload_def retain_records_def Let_def split: if_split_asm option.split_asm sum.split_asm)
  have "map_of pending tid = Some r" "now < sus_expires r"
    using r(1) map_of_filter_distinct [OF assms(2)] by auto
  moreover from resume_checks_ok [OF r(4)] have "\<exists>content. files (up_staging_path up) = Some content
      \<and> length content = up_bytes_received up \<and> ur_prefix_sha256 resp = sha content"
    by (auto simp: drop_records_def split: if_split_asm)
  moreover have "map_of pending' tid = None" by (simp add: r(5) delete_conv')
  ultimately show ?thesis
    using r(2,3) resume_checks_ok [OF r(4)] by (auto simp: other_identity_def)
qed

section \<open>Examples\<close>

definition example_upload_request :: "string \<Rightarrow> UploadBeginRequest" where
  "example_upload_request name =
     \<lparr>ub_retain_on_disconnect = True, ub_root_id = ''home'', ub_relative_path = ''docs'',
      ub_filename = name, ub_total_size = 3, ub_chunk_size = 1024, ub_sha256 = None\<rparr>"

definition example_user :: UserContext where
  "example_user = \<lparr>uc_username = ''alice'', uc_uid = 1000, uc_gid = 1000\<rparr>"

definition example_active :: "nat \<Rightarrow> ActiveUpload" where
  "example_active received =
     \<lparr>up_retain_on_disconnect = True, up_reserved = 3, up_transfer_id = 5, up_root_id = ''home'',
      up_parent_relative_path = ''docs'', up_filename = ''a.txt'', up_total_size = 3,
      up_chunk_size = 1024, up_sha256 = None, up_bytes_received = received,
      up_temp_name = ''.tdrv-upload-5.tmp'', up_staging_path = ''/tmp/.tdrv-upload-5.tmp''\<rparr>"

definition healthy_disk :: StagingEnv where
  "healthy_disk = \<lparr>sge_open_ok = True, sge_lock_ok = True, sge_free = Some (2 ^ 40), sge_seek_ok = True,
     sge_written = None, sge_flush_ok = True\<rparr>"

definition example_chunk :: "nat \<Rightarrow> bytes \<Rightarrow> RawChunk" where
  "example_chunk off bs = \<lparr>chunk_transfer_id = 5, chunk_index = 0, chunk_offset = of_nat off, chunk_bytes = bs\<rparr>"

text \<open>The first write fails after one byte, its chunk is sent again, and the last byte follows.\<close>

definition example_chunks :: "(StagingEnv \<times> Uuid \<times> RawChunk) list" where
  "example_chunks =
     [(healthy_disk\<lparr>sge_written := Some 1\<rparr>, 1, example_chunk 0 [7, 8]),
      (healthy_disk, 2, example_chunk 0 [7, 8]), (healthy_disk, 3, example_chunk 2 [9])]"

definition example_files :: "bytes \<Rightarrow> StagedFiles" where
  "example_files content = [''/tmp/.tdrv-upload-5.tmp'' \<mapsto> content]"

definition echo_helper :: "HelperRequest \<Rightarrow> bytes \<Rightarrow> HelperResponse td_result" where
  "echo_helper q bs = Inr ((response_operation_done q ''done'')\<lparr>hr_bytes_written := length bs\<rparr>)"

lemmas upload_eval =
  example_active_def example_chunk_def example_chunks_def example_files_def healthy_disk_def
  upload_chunk_request_def chunk_guard_def check_staging_capacity_def checked_add_def U64_MAX_def
  write_file_at_def MAX_CHUNK_SIZE_def MAX_IN_FLIGHT_UPLOAD_def KIB_def MIB_def config_defaults result_simps

lemma example_feed:
  "\<exists>files'. feed AppConfig_default example_chunks (example_active 0, example_files [])
     = ([7, 8, 9], example_active 3, files') \<and> files' ''/tmp/.tdrv-upload-5.tmp'' = Some [7, 8, 9]"
  by (simp add: upload_eval)

lemma example_validate:
  assumes "name = ''.profile'' \<or> name = ''a.txt''"
  shows "validate_upload uuid example_user (example_upload_request name) AppConfig_default
     (PolicyEngine_new AppConfig_default) = Inr (''docs'', name)"
proof -
  have "SafeFileName_parse name = Inr name" "slash \<notin> set name"
    using assms by (auto simp: SafeFileName_parse_def is_reserved_name_def policy_eval)
  then show ?thesis
    using assms
    by (elim disjE) (simp_all add: validate_upload_def example_user_def example_upload_request_def upload_eval
        policy_eval for_user_def PolicyEngine_new_def UploadBeginRequest_validate_def
        check_webroot_upload_def authorize_new_target_def Let_def)
qed

lemma example_begin:
  "\<exists>usage ledger. upload_begin_request Some (\<lambda>_. ''5'') ''/tmp'' example_budget healthy_disk 5 example_user
     (example_upload_request ''a.txt'') AppConfig_default (PolicyEngine_new AppConfig_default)
     (\<lparr>sgu_bytes = 0, sgu_transfers = 0\<rparr>, [], Map.empty)
   = (Inr (example_active 0, \<lparr>ubr_transfer_id = 5, ubr_chunk_size = 1024\<rparr>), usage, ledger, example_files [])"
proof -
  have "\<exists>ledger. budget_reserve Some example_budget (TempUploadName_new (\<lambda>_. ''5'') 5) 3 (4 * 1024 * 1024 * 1024) 128 []
      = (Inr ''5.lease'', ledger)"
    by (simp add: budget_eval TempUploadName_new_def)
  moreover have "ss_max_staging_bytes (cfg_system_storage AppConfig_default) = 4 * 1024 * 1024 * 1024"
    "ss_max_staging_transfers (cfg_system_storage AppConfig_default) = 128"
    "ss_staging_min_free_bytes (cfg_system_storage AppConfig_default) = 1024 * 1024 * 1024"
    "max_chunk_size (cfg_limits AppConfig_default) = 256 * 1024"
    by (simp_all add: upload_eval)
  moreover have "ub_total_size (example_upload_request ''a.txt'') = 3"
    by (simp add: example_upload_request_def)
  moreover have "validate_upload Some example_user (example_upload_request ''a.txt'') AppConfig_default
     (PolicyEngine_new AppConfig_default) = Inr (''docs'', ''a.txt'')" by (rule example_validate) simp
  ultimately show ?thesis
    by (auto simp: upload_begin_request_def reserve_staging_def check_staging_capacity_def healthy_disk_def
        checked_add_def U64_MAX_def result_simps TempUploadName_new_def path_join_def example_files_def
        example_active_def example_upload_request_def Let_def)
qed

theorem upload_delivers_accepted_bytes_witness:
  "\<exists>root response. echo_helper (upload_commit_request 9 example_user (example_active 3) AppConfig_default root)
     [7, 8, 9] = Inr response
   \<and> hq_relative_path (upload_commit_request 9 example_user (example_active 3) AppConfig_default root)
     = ''docs/a.txt''"
proof -
  obtain files' where f: "feed AppConfig_default example_chunks (example_active 0, example_files [])
      = ([7, 8, 9], example_active 3, files')" "files' ''/tmp/.tdrv-upload-5.tmp'' = Some [7, 8, 9]"
    using example_feed by blast
  let ?q = "\<lparr>ue_transfer_id = 5, ue_total_size = 3, ue_sha256 = Some ''42''\<rparr>"
  have "\<exists>resp sent files''. upload_end_request (\<lambda>_. ''42'') echo_helper True True True 9 example_user (example_active 3)
      ?q AppConfig_default files' = ((Inr resp, sent), files'')"
    using f(2)
    by (simp add: upload_end_request_def upload_end_checks_def then_do_def lift_result_def send_def upload_eval verify_digest_def echo_helper_def policy_eval
        response_operation_done_def response_success_def eq_ignore_ascii_case_def)
  then obtain resp sent files'' where e: "upload_end_request (\<lambda>_. ''42'') echo_helper True True True 9 example_user
      (example_active 3) ?q AppConfig_default files' = ((Inr resp, sent), files'')" by blast
  obtain usage ledger where b: "upload_begin_request Some (\<lambda>_. ''5'') ''/tmp'' example_budget healthy_disk 5
      example_user (example_upload_request ''a.txt'') AppConfig_default (PolicyEngine_new AppConfig_default)
      (\<lparr>sgu_bytes = 0, sgu_transfers = 0\<rparr>, [], Map.empty)
    = (Inr (example_active 0, \<lparr>ubr_transfer_id = 5, ubr_chunk_size = 1024\<rparr>), usage, ledger, example_files [])"
    using example_begin by blast
  from upload_delivers_accepted_bytes [OF b f(1) e] show ?thesis
    by (auto simp: example_validate target_of_def)
qed

text \<open>On the default configuration, whose root does not allow hidden files, the network tier accepts
  an upload of a file with a hidden name, which the helper then refuses at the commit: the policy
  engine answers an upload before it reaches its check of hidden targets.\<close>

theorem hidden_upload_name_passes_network_tier:
  "validate_upload uuid example_user (example_upload_request ''.profile'') AppConfig_default
       (PolicyEngine_new AppConfig_default) = Inr (''docs'', ''.profile'')
   \<and> policy_authorize uuid None (upload_commit_request rid example_user
         ((example_active 3)\<lparr>up_filename := ''.profile''\<rparr>) AppConfig_default AllowedRoot_default) AppConfig_default
     \<noteq> Inr ()"
proof
  show "validate_upload uuid example_user (example_upload_request ''.profile'') AppConfig_default
       (PolicyEngine_new AppConfig_default) = Inr (''docs'', ''.profile'')"
    by (rule example_validate) simp
next
  show "policy_authorize uuid None (upload_commit_request rid example_user
         ((example_active 3)\<lparr>up_filename := ''.profile''\<rparr>) AppConfig_default AllowedRoot_default) AppConfig_default
     \<noteq> Inr ()" (is "policy_authorize _ _ ?q _ \<noteq> _")
  proof
    assume "policy_authorize uuid None ?q AppConfig_default = Inr ()"
    then have "authorize_names ?q AppConfig_default AllowedRoot_default = Inr ()"
      by (auto simp: policy_authorize_def and_then_Inr ok_or_Inr upload_commit_request_def upload_eval
          split: if_split_asm)
    then show False
      unfolding authorize_names_ok
      by (simp add: upload_commit_request_def upload_eval policy_eval extra_paths_def is_internal_trash_def)
  qed
qed

lemma retain_all: "\<forall>e \<in> set pending. keep (snd e) \<Longrightarrow> retain_records keep (pending, files) = (pending, files)"
  by (force simp: retain_records_def drop_records_def filter_id_conv case_prod_unfold)

definition example_connection :: WsConnectionContext where
  "example_connection =
     \<lparr>cc_session_id = 7, cc_username = ''alice'', cc_uid = 1000, cc_gid = 1000, cc_user_agent = None,
      cc_ip = None, cc_connected_at = 100, cc_protocol_ready = True, cc_selected_protocol = None,
      cc_features = FeatureFlags_default, cc_active_uploads = []\<rparr>"

theorem resume_bound_to_identity_witness:
  "\<exists>up resp pending files. take_upload (\<lambda>_. None) (\<lambda>_. ''42'')
       \<lparr>sst_open_ok = True, sst_stat_ok = True, sst_private = True, sst_read_ok = True\<rparr> 200
       example_connection 5 AppConfig_default
       (suspend 150 example_connection (example_active 2) 100 ([], example_files [7, 8]))
     = (Inr (up, resp), pending, files) \<and> map_of pending 5 = None \<and> ur_prefix_sha256 resp = ''42''"
proof -
  let ?up = "example_active 2"
  let ?st = "suspend 150 example_connection ?up 100 ([], example_files [7, 8])"
  let ?stat = "\<lparr>sst_open_ok = True, sst_stat_ok = True, sst_private = True, sst_read_ok = True\<rparr>"
  have same: "resume_request ?up = example_upload_request ''a.txt''"
    "user_context example_connection = example_user"
    by (simp_all add: resume_request_def example_active_def example_upload_request_def user_context_def
        example_connection_def example_user_def)
  let ?r = "\<lparr>sus_session = 7, sus_username = ''alice'', sus_uid = 1000, sus_gid = 1000, sus_expires = 250,
    sus_upload = ?up\<rparr>"
  have st: "?st = ([(5, ?r)], example_files [7, 8])" "\<not> other_identity example_connection ?r"
    by (simp_all add: suspend_def retain_records_def drop_records_def other_identity_def example_active_def
        example_connection_def saturating_add_def U64_MAX_def Let_def)
  have enabled: "ss_upload_resume_seconds (cfg_system_storage AppConfig_default) \<noteq> 0"
    by (simp add: config_defaults)
  have "resume_checks (\<lambda>_. None) (\<lambda>_. ''42'') ?stat example_connection 5 AppConfig_default ?up (example_files [7, 8])
      = Inr \<lparr>ur_transfer_id = 5, ur_root_id = ''home'', ur_relative_path = ''docs'', ur_filename = ''a.txt'',
            ur_total_size = 3, ur_bytes_received = 2, ur_chunk_size = 1024, ur_prefix_sha256 = ''42''\<rparr>"
    unfolding resume_checks_def same
    by (simp add: example_validate example_active_def example_files_def result_simps)
  then obtain up resp pending files where
    t: "take_upload (\<lambda>_. None) (\<lambda>_. ''42'') ?stat 200 example_connection 5 AppConfig_default ?st
      = (Inr (up, resp), pending, files)" and resp: "ur_prefix_sha256 resp = ''42''"
    using enabled by (simp add: take_upload_def st retain_all)
  have "distinct (map fst (fst ?st))" by (simp add: st)
  with resume_bound_to_identity [of _ _ _ _ _ _ _ "fst ?st" "snd ?st"] t resp show ?thesis
    by (auto simp del: distinct_map)
qed
end
