(* ===== verification/TD_Fs.thy ===== *)
theory TD_Fs
  imports TD_Upload
begin

text \<open>
  The operations of the network tier that change files: \<open>src/fs/create_folder.rs\<close>, \<open>rename.rs\<close>,
  \<open>move_copy.rs\<close>, \<open>trash.rs\<close>, \<open>chmod.rs\<close> and \<open>archive.rs\<close>, with their payloads. Each validates the names
  it is given, asks the policy engine, and sends one request to the helper. The generic helper of the
  source is the parameter \<open>helper\<close>, and an operation returns, beside its result, the requests it has
  sent, so that what reaches the helper can be stated.
\<close>

section \<open>The common tail\<close>

text \<open>Send the prepared request, turn a failure into an error, and a success into a
  payload.\<close>

definition call_helper ::
  "(HelperRequest \<Rightarrow> HelperResponse td_result) \<Rightarrow> (HelperResponse \<Rightarrow> TealDriveError) \<Rightarrow> HelperRequest td_result
   \<Rightarrow> (HelperRequest \<Rightarrow> HelperResponse \<Rightarrow> 'a td_result) \<Rightarrow> 'a sending" where
  "call_helper helper to_error prepared finish =
     then_do (lift_result prepared) (\<lambda>q.
     then_do (send helper q) (\<lambda>response.
     lift_result (if \<not> hr_success response then Inl (to_error response) else finish q response)))"

definition operation_done :: "string \<Rightarrow> string \<Rightarrow> HelperRequest \<Rightarrow> HelperResponse \<Rightarrow> OperationDonePayload td_result" where
  "operation_done operation message q response =
     Inr \<lparr>opd_request_id = hq_request_id q, opd_operation = operation, opd_safe_message = Some message\<rparr>"

text \<open>The request every operation starts from.\<close>

definition base_request ::
  "Uuid \<Rightarrow> UserContext \<Rightarrow> AppConfig \<Rightarrow> AllowedRoot \<Rightarrow> HelperCommand \<Rightarrow> RootId \<Rightarrow> RelativePath \<Rightarrow> HelperRequest" where
  "base_request rid user config root command root_id path =
     \<lparr>hq_request_id = rid, hq_username = uc_username user, hq_uid = uc_uid user, hq_gid = uc_gid user,
      hq_command = command, hq_root_id = root_id, hq_relative_path = path, hq_target_relative_path = None,
      hq_policy_context = \<lparr>hpc_read_only_root = root_read_only root, hpc_is_web_root = root_is_web_root root\<rparr>,
      hq_limits = \<lparr>hl_max_directory_page_size = max_directory_page_size (cfg_limits config),
        hl_max_text_edit_size = max_text_edit_size (cfg_limits config),
        hl_max_chunk_size = max_chunk_size (cfg_limits config),
        hl_max_download_helper_bytes = MAX_DOWNLOAD_HELPER_BYTES\<rparr>,
      hq_list_options = None, hq_write_options = None, hq_chmod_mode = None,
      hq_archive_source_paths = None, hq_search_options = None\<rparr>"

text \<open>The two ways an operation reads the decision of the policy engine.\<close>

definition require_permitted :: "PolicyDecision td_result \<Rightarrow> unit td_result" where
  "require_permitted decision =
     and_then decision (\<lambda>d. if permits d then Inr () else Inl TealDriveError.PolicyDenied)"

definition require_permitted_reason :: "PolicyDecision td_result \<Rightarrow> unit td_result" where
  "require_permitted_reason decision =
     and_then decision (\<lambda>d.
       case d of
         PolicyDecision.Deny PolicyReason.FeatureDisabled \<Rightarrow> Inl TealDriveError.FeatureDisabled
       | PolicyDecision.Deny PolicyReason.ReadOnlyRoot \<Rightarrow> Inl TealDriveError.ReadOnlyRoot
       | PolicyDecision.Deny _ \<Rightarrow> Inl TealDriveError.PolicyDenied
       | _ \<Rightarrow> Inr ())"

definition not_sensitive :: "AppConfig \<Rightarrow> RelativePath \<Rightarrow> unit td_result" where
  "not_sensitive config path =
     (if sm_is_sensitive (detect_sensitive path (cfg_sensitive_policy config))
      then Inl TealDriveError.PolicyDenied else Inr ())"

definition webroot_name_allowed :: "AppConfig \<Rightarrow> AllowedRoot \<Rightarrow> SafeFileName \<Rightarrow> unit td_result" where
  "webroot_name_allowed config root name =
     (if \<not> permits (check_webroot_upload (root_is_web_root root) name (cfg_webroot_policy config))
      then Inl TealDriveError.WebrootExecutableDenied else Inr ())"

definition join_relative_name :: "RelativePath \<Rightarrow> SafeFileName \<Rightarrow> RelativePath" where
  "join_relative_name parent name = (if parent = [] then name else parent @ ''/'' @ name)"

section \<open>Creating a folder (\<open>create_folder.rs\<close>)\<close>

record CreateFolderRequest =
  cfr_root_id :: RootId
  cfr_parent_relative_path :: RelativePath
  cfr_folder_name :: string

definition create_folder_prepare ::
  "(string \<Rightarrow> string option) \<Rightarrow> Uuid \<Rightarrow> UserContext \<Rightarrow> CreateFolderRequest \<Rightarrow> AppConfig \<Rightarrow> PolicyEngine
   \<Rightarrow> HelperRequest td_result" where
  "create_folder_prepare uuid rid user q config engine0 =
     (let engine = for_user engine0 (uc_username user); root_id = cfr_root_id q in
      and_then (validate_relative_path (cfr_parent_relative_path q)) (\<lambda>parent.
      and_then (ensure_visible engine root_id parent) (\<lambda>_.
      and_then (SafeFileName_parse (cfr_folder_name q)) (\<lambda>name.
      and_then (require_allowed_root (cfg_roots config) root_id) (\<lambda>root.
      let target = join_relative_name parent name in
      and_then (ensure_visible engine root_id target) (\<lambda>_.
      and_then (not_sensitive config target) (\<lambda>_.
      and_then (authorize_new_target root parent name) (\<lambda>_.
      and_then (require_permitted (check_operation uuid engine FileOperation.CreateFolder root_id parent
          (Some target) (Some name) (root_hidden_files_allowed root))) (\<lambda>_.
      Inr ((base_request rid user config root HelperCommand.CreateFolder root_id parent)
        \<lparr>hq_target_relative_path := Some name\<rparr>))))))))))"

definition create_folder_error :: "HelperResponse \<Rightarrow> TealDriveError" where
  "create_folder_error r =
     (case hr_error_kind r of
        Some ErrorKind.PermissionDenied \<Rightarrow> TealDriveError.PermissionDenied
      | Some ErrorKind.PolicyDenied \<Rightarrow> TealDriveError.PolicyDenied
      | Some ErrorKind.NotFound \<Rightarrow> TealDriveError.NotFound
      | Some ErrorKind.InvalidPath \<Rightarrow> TealDriveError.InvalidPath
      | Some ErrorKind.InvalidTarget \<Rightarrow> TealDriveError.InvalidTarget
      | Some ErrorKind.AlreadyExists \<Rightarrow> TealDriveError.AlreadyExists
      | Some ErrorKind.NameTooLong \<Rightarrow> TealDriveError.InvalidFilename
      | Some ErrorKind.DiskFull \<Rightarrow> TealDriveError.DiskFull
      | _ \<Rightarrow> TealDriveError.HelperCommandNotImplemented)"

definition create_folder_request where
  "create_folder_request uuid helper rid user q config engine =
     call_helper helper create_folder_error (create_folder_prepare uuid rid user q config engine)
       (operation_done ''CREATE_FOLDER'' ''Folder created.'')"

section \<open>Renaming (\<open>rename.rs\<close>)\<close>

record RenameFileRequest =
  rfr_root_id :: RootId
  rfr_relative_path :: RelativePath
  rfr_new_name :: string

definition parent_relative_path :: "RelativePath \<Rightarrow> RelativePath" where
  "parent_relative_path path = (case rsplit_once slash path of Some (parent, _) \<Rightarrow> parent | None \<Rightarrow> [])"

definition rename_file_prepare ::
  "(string \<Rightarrow> string option) \<Rightarrow> Uuid \<Rightarrow> UserContext \<Rightarrow> RenameFileRequest \<Rightarrow> AppConfig \<Rightarrow> PolicyEngine
   \<Rightarrow> HelperRequest td_result" where
  "rename_file_prepare uuid rid user q config engine0 =
     (let engine = for_user engine0 (uc_username user); root_id = rfr_root_id q in
      and_then (validate_relative_path (rfr_relative_path q)) (\<lambda>path.
      and_then (ensure_visible engine root_id path) (\<lambda>_.
      and_then (SafeFileName_parse (rfr_new_name q)) (\<lambda>name.
      and_then (require_allowed_root (cfg_roots config) root_id) (\<lambda>root.
      and_then (authorize_existing_path root path False) (\<lambda>source.
      let parent = parent_relative_path (ex_relative_path source);
          target = join_relative_name parent name in
      and_then (ensure_visible engine root_id target) (\<lambda>_.
      and_then (not_sensitive config (ex_relative_path source)) (\<lambda>_.
      and_then (not_sensitive config target) (\<lambda>_.
      and_then (webroot_name_allowed config root name) (\<lambda>_.
      and_then (authorize_new_target root parent name) (\<lambda>_.
      and_then (require_permitted (check_operation uuid engine FileOperation.RenameFile root_id
          (ex_relative_path source) (Some target) (Some name) (root_hidden_files_allowed root))) (\<lambda>_.
      Inr ((base_request rid user config root HelperCommand.Rename root_id (ex_relative_path source))
        \<lparr>hq_target_relative_path := Some name\<rparr>)))))))))))))"

definition rename_error :: "HelperResponse \<Rightarrow> TealDriveError" where
  "rename_error r =
     (case hr_error_kind r of
        Some ErrorKind.CrossDeviceMove \<Rightarrow> TealDriveError.CrossDeviceMove
      | _ \<Rightarrow> create_folder_error r)"

definition rename_file_request where
  "rename_file_request uuid helper rid user q config engine =
     call_helper helper rename_error (rename_file_prepare uuid rid user q config engine)
       (operation_done ''RENAME_FILE'' ''Renamed.'')"

section \<open>Moving and copying (\<open>move_copy.rs\<close>)\<close>

text \<open>\<open>MoveFileRequest\<close> and \<open>CopyFileRequest\<close> have the same fields.\<close>

record MoveFileRequest =
  mfr_root_id :: RootId
  mfr_relative_path :: RelativePath
  mfr_target_root_id :: RootId
  mfr_target_relative_path :: RelativePath

definition split_target_path :: "RelativePath \<Rightarrow> string \<times> string" where
  "split_target_path target = (case rsplit_once slash target of Some p \<Rightarrow> p | None \<Rightarrow> ([], target))"

definition move_copy_prepare ::
  "FileOperation \<Rightarrow> HelperCommand \<Rightarrow> (string \<Rightarrow> string option) \<Rightarrow> Uuid \<Rightarrow> UserContext \<Rightarrow> MoveFileRequest
   \<Rightarrow> AppConfig \<Rightarrow> PolicyEngine \<Rightarrow> HelperRequest td_result" where
  "move_copy_prepare op command uuid rid user q config engine0 =
     (let engine = for_user engine0 (uc_username user); root_id = mfr_root_id q in
      and_then (validate_relative_path (mfr_relative_path q)) (\<lambda>source_path.
      and_then (ensure_visible engine root_id source_path) (\<lambda>_.
      and_then (validate_relative_path (mfr_target_relative_path q)) (\<lambda>target.
      and_then (ensure_visible engine root_id target) (\<lambda>_.
      if root_id \<noteq> mfr_target_root_id q then Inl TealDriveError.InvalidTarget
      else
        and_then (require_allowed_root (cfg_roots config) root_id) (\<lambda>root.
        and_then (authorize_existing_path root source_path False) (\<lambda>source.
        and_then (SafeFileName_parse (snd (split_target_path target))) (\<lambda>name.
        and_then (authorize_new_target root (fst (split_target_path target)) name) (\<lambda>_.
        and_then (not_sensitive config (ex_relative_path source)) (\<lambda>_.
        and_then (not_sensitive config target) (\<lambda>_.
        and_then (webroot_name_allowed config root name) (\<lambda>_.
        and_then (require_permitted (check_operation uuid engine op root_id
            (ex_relative_path source) (Some target) (Some name) (root_hidden_files_allowed root))) (\<lambda>_.
        Inr ((base_request rid user config root command root_id (ex_relative_path source))
          \<lparr>hq_target_relative_path := Some target\<rparr>))))))))))))))"

definition move_file_request where
  "move_file_request uuid helper rid user q config engine =
     call_helper helper rename_error
       (move_copy_prepare FileOperation.MoveFile HelperCommand.Move uuid rid user q config engine)
       (operation_done ''MOVE_FILE'' ''Moved.'')"

definition copy_file_request where
  "copy_file_request uuid helper rid user q config engine =
     call_helper helper rename_error
       (move_copy_prepare FileOperation.CopyFile HelperCommand.Copy uuid rid user q config engine)
       (operation_done ''COPY_FILE'' ''Copied.'')"

section \<open>The trash (\<open>trash.rs\<close>)\<close>

record MoveToTrashRequest =
  mtr_root_id :: RootId
  mtr_relative_path :: RelativePath

record RestoreFromTrashRequest =
  rtr_trash_id :: string
  rtr_target_root_id :: "RootId option"
  rtr_target_relative_path :: "RelativePath option"

record DeletePermanentlyRequest =
  dpr_root_id :: RootId
  dpr_relative_path :: RelativePath

record ListTrashRequest =
  ltr_root_id :: RootId

record MoveToTrashPayload =
  mtp_request_id :: Uuid
  mtp_operation :: string
  mtp_trash_id :: string
  mtp_display_name :: string
  mtp_deleted_at :: nat
  mtp_original_relative_path :: RelativePath
  mtp_original_root_id :: RootId

definition move_to_trash_prepare ::
  "(string \<Rightarrow> string option) \<Rightarrow> Uuid \<Rightarrow> UserContext \<Rightarrow> MoveToTrashRequest \<Rightarrow> AppConfig \<Rightarrow> PolicyEngine
   \<Rightarrow> HelperRequest td_result" where
  "move_to_trash_prepare uuid rid user q config engine0 =
     (let engine = for_user engine0 (uc_username user); root_id = mtr_root_id q in
      and_then (validate_relative_path (mtr_relative_path q)) (\<lambda>path.
      and_then (ensure_visible engine root_id path) (\<lambda>_.
      and_then (require_allowed_root (cfg_roots config) root_id) (\<lambda>root.
      and_then (authorize_existing_path root path False) (\<lambda>source.
      and_then (not_sensitive config (ex_relative_path source)) (\<lambda>_.
      and_then (require_permitted (check_operation uuid engine FileOperation.MoveToTrash root_id
          (ex_relative_path source) None None (root_hidden_files_allowed root))) (\<lambda>_.
      Inr (base_request rid user config root HelperCommand.MoveToTrash root_id (ex_relative_path source)))))))))"

definition move_to_trash_request where
  "move_to_trash_request uuid helper rid user q config engine =
     call_helper helper helper_response_to_error (move_to_trash_prepare uuid rid user q config engine)
       (\<lambda>sent response.
          case hr_payload response of
            TrashEntry e \<Rightarrow> Inr
              \<lparr>mtp_request_id = hq_request_id sent, mtp_operation = ''MOVE_TO_TRASH'',
               mtp_trash_id = te_trash_id e, mtp_display_name = te_display_name e,
               mtp_deleted_at = te_deleted_at e, mtp_original_relative_path = te_original_relative_path e,
               mtp_original_root_id = te_original_root_id e\<rparr>
          | _ \<Rightarrow> Inl TealDriveError.HelperCommandNotImplemented)"

definition restore_from_trash_prepare ::
  "(string \<Rightarrow> string option) \<Rightarrow> Uuid \<Rightarrow> UserContext \<Rightarrow> RestoreFromTrashRequest \<Rightarrow> AppConfig \<Rightarrow> PolicyEngine
   \<Rightarrow> HelperRequest td_result" where
  "restore_from_trash_prepare uuid rid user q config engine0 =
     (let engine = for_user engine0 (uc_username user) in
      and_then (SafeFileName_parse (rtr_trash_id q)) (\<lambda>trash_id.
      and_then (ok_or (rtr_target_root_id q) TealDriveError.InvalidTarget) (\<lambda>root_id.
      and_then (require_allowed_root (cfg_roots config) root_id) (\<lambda>root.
      and_then (require_permitted (check_operation uuid engine FileOperation.RestoreFromTrash root_id
          trash_id None None (root_hidden_files_allowed root))) (\<lambda>_.
      Inr (base_request rid user config root HelperCommand.RestoreFromTrash root_id trash_id))))))"

definition restore_from_trash_request where
  "restore_from_trash_request uuid helper rid user q config engine =
     call_helper helper helper_response_to_error (restore_from_trash_prepare uuid rid user q config engine)
       (operation_done ''RESTORE_FROM_TRASH'' ''Restored.'')"

definition delete_permanently_prepare ::
  "(string \<Rightarrow> string option) \<Rightarrow> Uuid \<Rightarrow> UserContext \<Rightarrow> DeletePermanentlyRequest \<Rightarrow> AppConfig \<Rightarrow> PolicyEngine
   \<Rightarrow> HelperRequest td_result" where
  "delete_permanently_prepare uuid rid user q config engine0 =
     (let engine = for_user engine0 (uc_username user); root_id = dpr_root_id q in
      and_then (validate_relative_path (dpr_relative_path q)) (\<lambda>path.
      and_then (if internal_trash_id uuid path = None then ensure_visible engine root_id path else Inr ()) (\<lambda>_.
      if path = [] then Inl TealDriveError.InvalidTarget
      else
        and_then (require_allowed_root (cfg_roots config) root_id) (\<lambda>root.
        if root_read_only root then Inl TealDriveError.ReadOnlyRoot
        else
          and_then (require_permitted_reason (check_operation uuid engine FileOperation.DeletePermanently
              root_id path None None (root_hidden_files_allowed root))) (\<lambda>_.
          Inr (base_request rid user config root HelperCommand.DeletePermanently root_id path))))))"

definition delete_permanently_request where
  "delete_permanently_request uuid helper rid user q config engine =
     call_helper helper helper_response_to_error (delete_permanently_prepare uuid rid user q config engine)
       (operation_done ''DELETE_PERMANENTLY'' ''Item permanently deleted.'')"

definition list_trash_prepare ::
  "(string \<Rightarrow> string option) \<Rightarrow> Uuid \<Rightarrow> UserContext \<Rightarrow> ListTrashRequest \<Rightarrow> AppConfig \<Rightarrow> PolicyEngine
   \<Rightarrow> HelperRequest td_result" where
  "list_trash_prepare uuid rid user q config engine0 =
     (let engine = for_user engine0 (uc_username user); root_id = ltr_root_id q in
      and_then (require_allowed_root (cfg_roots config) root_id) (\<lambda>root.
      and_then (require_permitted (check_operation uuid engine FileOperation.ListDirectory root_id []
          None None (root_hidden_files_allowed root))) (\<lambda>_.
      Inr (base_request rid user config root HelperCommand.ListTrash root_id []))))"

definition list_trash_request where
  "list_trash_request uuid helper rid user q config engine =
     call_helper helper helper_response_to_error (list_trash_prepare uuid rid user q config engine)
       (\<lambda>_ response. case hr_payload response of TrashList payload \<Rightarrow> Inr payload
          | _ \<Rightarrow> Inl TealDriveError.HelperCommandNotImplemented)"

section \<open>Permissions (\<open>chmod.rs\<close>)\<close>

record ChmodFileRequest =
  cmr_root_id :: RootId
  cmr_relative_path :: RelativePath
  cmr_mode :: UnixMode

definition chmod_file_prepare ::
  "(string \<Rightarrow> string option) \<Rightarrow> Uuid \<Rightarrow> UserContext \<Rightarrow> ChmodFileRequest \<Rightarrow> AppConfig \<Rightarrow> PolicyEngine
   \<Rightarrow> HelperRequest td_result" where
  "chmod_file_prepare uuid rid user q config engine0 =
     (let engine = for_user engine0 (uc_username user); root_id = cmr_root_id q in
      and_then (validate_relative_path (cmr_relative_path q)) (\<lambda>path.
      and_then (ensure_visible engine root_id path) (\<lambda>_.
      if path = [] then Inl TealDriveError.InvalidTarget
      else
        and_then (require_allowed_root (cfg_roots config) root_id) (\<lambda>root.
        if root_read_only root then Inl TealDriveError.ReadOnlyRoot
        else
          and_then (require_permitted_reason (check_operation uuid engine FileOperation.ChmodFile root_id path
              None None (root_hidden_files_allowed root))) (\<lambda>_.
          if cmr_mode q AND 0xE00 \<noteq> 0 then Inl TealDriveError.PermissionDenied
          else if \<not> permits (check_webroot_chmod_executable (root_is_web_root root) (cmr_mode q))
          then Inl TealDriveError.PermissionDenied
          else Inr ((base_request rid user config root HelperCommand.Chmod root_id path)
            \<lparr>hq_chmod_mode := Some (cmr_mode q)\<rparr>))))))"

definition chmod_file_request where
  "chmod_file_request uuid helper rid user q config engine =
     call_helper helper helper_response_to_error (chmod_file_prepare uuid rid user q config engine)
       (operation_done ''CHMOD_FILE'' ''Permissions changed.'')"

section \<open>Archives (\<open>archive.rs\<close>)\<close>

text \<open>\<open>CompressZipRequest\<close> and \<open>CompressTarGzRequest\<close> have the same fields.\<close>

record CompressRequest =
  cpr_root_id :: RootId
  cpr_relative_paths :: "RelativePath list"
  cpr_target_relative_path :: RelativePath

record ExtractArchiveRequest =
  ear_root_id :: RootId
  ear_archive_relative_path :: RelativePath
  ear_target_relative_path :: RelativePath

text \<open>The loop over the sources.\<close>

fun archive_sources ::
  "FileOperation \<Rightarrow> (string \<Rightarrow> string option) \<Rightarrow> PolicyEngine \<Rightarrow> RootId \<Rightarrow> RelativePath \<Rightarrow> bool
   \<Rightarrow> RelativePath list \<Rightarrow> RelativePath list td_result" where
  "archive_sources op uuid engine root_id target hidden [] = Inr []"
| "archive_sources op uuid engine root_id target hidden (src # srcs) =
     and_then (validate_relative_path src) (\<lambda>path.
     and_then (ensure_visible engine root_id path) (\<lambda>_.
     if path = [] then Inl TealDriveError.InvalidPath
     else
       and_then (require_permitted_reason (check_operation uuid engine op root_id path (Some target) None hidden)) (\<lambda>_.
       and_then (archive_sources op uuid engine root_id target hidden srcs) (\<lambda>rest. Inr (path # rest)))))"

definition compress_prepare ::
  "FileOperation \<Rightarrow> HelperCommand \<Rightarrow> string list \<Rightarrow> (string \<Rightarrow> string option) \<Rightarrow> Uuid \<Rightarrow> UserContext
   \<Rightarrow> CompressRequest \<Rightarrow> AppConfig \<Rightarrow> PolicyEngine \<Rightarrow> HelperRequest td_result" where
  "compress_prepare op command endings uuid rid user q config engine0 =
     (let engine = for_user engine0 (uc_username user); root_id = cpr_root_id q in
      if cpr_relative_paths q = [] then Inl TealDriveError.InvalidPath
      else
        and_then (validate_relative_path (cpr_target_relative_path q)) (\<lambda>target.
        and_then (ensure_visible engine root_id target) (\<lambda>_.
        if target = [] then Inl TealDriveError.InvalidTarget
        else if \<not> list_ex (\<lambda>s. suffix s (to_ascii_lowercase target)) endings
        then Inl TealDriveError.InvalidFilename
        else
          and_then (require_allowed_root (cfg_roots config) root_id) (\<lambda>root.
          if root_read_only root then Inl TealDriveError.ReadOnlyRoot
          else
            and_then (archive_sources op uuid engine root_id target (root_hidden_files_allowed root)
                (cpr_relative_paths q)) (\<lambda>sources.
            Inr ((base_request rid user config root command root_id target)
              \<lparr>hq_target_relative_path := Some target, hq_archive_source_paths := Some sources\<rparr>))))))"

definition compress_zip_request where
  "compress_zip_request uuid helper rid user q config engine =
     call_helper helper helper_response_to_error
       (compress_prepare FileOperation.CompressZip HelperCommand.CompressZip [''.zip''] uuid rid user q config engine)
       (operation_done ''COMPRESS_ZIP'' ''Zip archive created.'')"

definition compress_targz_request where
  "compress_targz_request uuid helper rid user q config engine =
     call_helper helper helper_response_to_error
       (compress_prepare FileOperation.CompressTarGz HelperCommand.CompressTarGz [''.tar.gz'', ''.tgz'']
          uuid rid user q config engine)
       (operation_done ''COMPRESS_TARGZ'' ''Tar.gz archive created.'')"

definition extract_archive_prepare ::
  "(string \<Rightarrow> string option) \<Rightarrow> Uuid \<Rightarrow> UserContext \<Rightarrow> ExtractArchiveRequest \<Rightarrow> AppConfig \<Rightarrow> PolicyEngine
   \<Rightarrow> HelperRequest td_result" where
  "extract_archive_prepare uuid rid user q config engine0 =
     (let engine = for_user engine0 (uc_username user); root_id = ear_root_id q in
      and_then (validate_relative_path (ear_archive_relative_path q)) (\<lambda>archive.
      and_then (ensure_visible engine root_id archive) (\<lambda>_.
      if archive = [] then Inl TealDriveError.InvalidPath
      else
        and_then (validate_relative_path (ear_target_relative_path q)) (\<lambda>target.
        and_then (ensure_visible engine root_id target) (\<lambda>_.
        and_then (require_allowed_root (cfg_roots config) root_id) (\<lambda>root.
        if root_read_only root then Inl TealDriveError.ReadOnlyRoot
        else
          and_then (require_permitted_reason (check_operation uuid engine FileOperation.ExtractArchive root_id
              archive (Some target) None (root_hidden_files_allowed root))) (\<lambda>_.
          Inr ((base_request rid user config root HelperCommand.ExtractArchive root_id archive)
            \<lparr>hq_target_relative_path := Some target\<rparr>))))))))"

definition extract_archive_request where
  "extract_archive_request uuid helper rid user q config engine =
     call_helper helper helper_response_to_error (extract_archive_prepare uuid rid user q config engine)
       (operation_done ''EXTRACT_ARCHIVE'' ''Archive extracted.'')"


section \<open>What is sent\<close>

text \<open>The path a request will create, if it creates one.\<close>

definition created_path :: "HelperRequest \<Rightarrow> RelativePath option" where
  "created_path q =
     map_option (\<lambda>t.
       if hq_command q = HelperCommand.CreateFolder then join_relative_name (hq_relative_path q) t
       else if hq_command q = HelperCommand.Rename
       then join_relative_name (parent_relative_path (hq_relative_path q)) t
       else t) (hq_target_relative_path q)"

text \<open>What the network tier guarantees of a request that it decides, and sends, for a user under a configuration:
  every request but the commit of an upload.\<close>

definition sent_ok :: "(string \<Rightarrow> string option) \<Rightarrow> AppConfig \<Rightarrow> UserContext \<Rightarrow> HelperRequest \<Rightarrow> bool" where
  "sent_ok uuid config user q \<longleftrightarrow>
     hq_command q \<noteq> HelperCommand.UploadCommit
     \<and> hq_username q = uc_username user \<and> hq_uid q = uc_uid user \<and> hq_gid q = uc_gid user
     \<and> validate_relative_path (hq_relative_path q) = Inr (hq_relative_path q)
     \<and> \<not> helper_feature_disabled (cfg_features config) (hq_command q)
     \<and> (hq_command q = HelperCommand.RestoreFromTrash
        \<or> hq_command q = HelperCommand.DeletePermanently \<and> internal_trash_id uuid (hq_relative_path q) \<noteq> None
        \<or> AccessPolicy_check (cfg_access_policy config) (uc_username user) (hq_root_id q)
            (hq_relative_path q) Discover = Inr ())
     \<and> (\<exists>root. require_allowed_root (cfg_roots config) (hq_root_id q) = Inr root
          \<and> (\<not> is_read_command (hq_command q) \<longrightarrow> \<not> root_read_only root)
          \<and> (is_hidden_relative (hq_relative_path q) \<longrightarrow> root_hidden_files_allowed root
              \<or> is_internal_trash q \<or> hq_command q = HelperCommand.ListDirectory)
          \<and> (\<forall>t. created_path q = Some t \<longrightarrow>
               AccessPolicy_check (cfg_access_policy config) (uc_username user) (hq_root_id q) t Discover = Inr ()
               \<and> (hq_command q \<noteq> HelperCommand.ExtractArchive \<longrightarrow>
                    (is_hidden_relative t \<longrightarrow> root_hidden_files_allowed root)
                    \<and> \<not> is_sensitive (cfg_sensitive_policy config) t))
          \<and> (\<forall>ps. hq_archive_source_paths q = Some ps \<longrightarrow> ps \<noteq> [] \<and> (\<forall>p \<in> set ps.
               p \<noteq> [] \<and> validate_relative_path p = Inr p
               \<and> AccessPolicy_check (cfg_access_policy config) (uc_username user) (hq_root_id q) p Discover = Inr ()
               \<and> (is_hidden_relative p \<longrightarrow> root_hidden_files_allowed root)
               \<and> \<not> is_sensitive (cfg_sensitive_policy config) p)))"

lemma call_helper_sent: "q \<in> set (snd (call_helper helper to_error prepared finish)) \<Longrightarrow> prepared = Inr q"
  by (cases prepared)
    (auto simp: call_helper_def then_do_def lift_result_def send_def split: sum.splits)

lemma require_permitted_ok: "require_permitted d = Inr () \<longleftrightarrow> (\<exists>x. d = Inr x \<and> permits x)"
  by (auto simp: require_permitted_def and_then_Inr split: if_split_asm)

lemma require_permitted_reason_ok: "require_permitted_reason d = Inr () \<longleftrightarrow> (\<exists>x. d = Inr x \<and> permits x)"
proof -
  have "(case x of
         PolicyDecision.Deny PolicyReason.FeatureDisabled \<Rightarrow> Inl TealDriveError.FeatureDisabled
       | PolicyDecision.Deny PolicyReason.ReadOnlyRoot \<Rightarrow> Inl TealDriveError.ReadOnlyRoot
       | PolicyDecision.Deny _ \<Rightarrow> Inl TealDriveError.PolicyDenied
       | _ \<Rightarrow> Inr ()) = Inr () \<longleftrightarrow> permits x" for x
    by (auto split: PolicyDecision.splits PolicyReason.splits)
  then show ?thesis by (auto simp: require_permitted_reason_def and_then_Inr)
qed

lemma not_sensitive_ok: "not_sensitive config p = Inr () \<longleftrightarrow> \<not> is_sensitive (cfg_sensitive_policy config) p"
  by (simp add: not_sensitive_def detect_sensitive_iff)

lemma engine_check:
  "pe_config (for_user (PolicyEngine_new config) u) = config"
  "ensure_visible (for_user (PolicyEngine_new config) u) root_id path
     = AccessPolicy_check (cfg_access_policy config) u root_id path Discover"
  by (simp_all add: for_user_def PolicyEngine_new_def ensure_visible_def engine_user_def)

lemma base_request_fields [simp]:
  "hq_username (base_request rid user config root c i p) = uc_username user"
  "hq_uid (base_request rid user config root c i p) = uc_uid user"
  "hq_gid (base_request rid user config root c i p) = uc_gid user"
  "hq_command (base_request rid user config root c i p) = c"
  "hq_root_id (base_request rid user config root c i p) = i"
  "hq_relative_path (base_request rid user config root c i p) = p"
  "hq_target_relative_path (base_request rid user config root c i p) = None"
  "hq_archive_source_paths (base_request rid user config root c i p) = None"
  by (simp_all add: base_request_def)

text \<open>One permitted operation of the engine, in terms of the request that follows.\<close>

lemma permitted_sent:
  assumes "check_operation uuid (for_user (PolicyEngine_new config) (uc_username user)) op (hq_root_id q)
      (hq_relative_path q) target fname inc = Inr d" and "permits d"
    and "require_allowed_root (cfg_roots config) (hq_root_id q) = Inr root"
    and "hq_username q = uc_username user" "hq_uid q = uc_uid user" "hq_gid q = uc_gid user"
    and "validate_relative_path (hq_relative_path q) = Inr (hq_relative_path q)"
    and "feature_denied (cfg_features config) op = helper_feature_disabled (cfg_features config) (hq_command q)"
    and "\<not> is_read_command (hq_command q) \<longrightarrow> is_write op"
    and "op = FileOperation.DeletePermanently \<longrightarrow> hq_command q = HelperCommand.DeletePermanently"
    and "op = FileOperation.RestoreFromTrash \<longrightarrow> hq_command q = HelperCommand.RestoreFromTrash"
    and "op \<in> {FileOperation.DownloadFile, FileOperation.UploadFile} \<longrightarrow> created_path q = None"
    and "op = FileOperation.ExtractArchive \<longrightarrow> hq_command q = HelperCommand.ExtractArchive"
    and "created_path q = target \<or> created_path q = None"
    and "inc \<longrightarrow> root_hidden_files_allowed root
      \<or> hq_command q = HelperCommand.ListDirectory \<and> created_path q = None"
    and "hq_archive_source_paths q = None" "hq_command q \<noteq> HelperCommand.UploadCommit"
  shows "sent_ok uuid config user q"
proof -
  let ?e = "for_user (PolicyEngine_new config) (uc_username user)"
  obtain r where r: "require_allowed_root (cfg_roots config) (hq_root_id q) = Inr r"
    and vis: "\<not> (op = FileOperation.DeletePermanently \<and> internal_trash_id uuid (hq_relative_path q) \<noteq> None) \<Longrightarrow>
       op \<noteq> FileOperation.RestoreFromTrash \<Longrightarrow> ensure_visible ?e (hq_root_id q) (hq_relative_path q) = Inr ()"
    and tvis: "\<And>t. target = Some t \<Longrightarrow> ensure_visible ?e (hq_root_id q) t = Inr ()"
    and feat: "\<not> feature_denied (cfg_features config) op"
    and ro: "is_write op \<Longrightarrow> \<not> root_read_only r"
    and hid: "is_hidden_relative (hq_relative_path q) \<Longrightarrow> inc
       \<or> op = FileOperation.DeletePermanently \<and> prefix ''.tealdrive-trash/files/'' (hq_relative_path q)"
    and rules: "case operation_rules config op r (hq_relative_path q) fname of None \<Rightarrow> True | Some d \<Rightarrow> permits d"
    and thid: "\<And>t. target = Some t \<Longrightarrow> operation_rules config op r (hq_relative_path q) fname = None \<Longrightarrow>
       (is_hidden_relative t \<longrightarrow> inc) \<and> \<not> is_sensitive (cfg_sensitive_policy config) t"
    using check_operation_permits [OF assms(1,2)] unfolding engine_check(1) by metis
  have [simp]: "r = root" using r assms(3) by simp
  have none: "operation_rules config op r (hq_relative_path q) fname = None"
    if "op \<notin> {FileOperation.DownloadFile, FileOperation.UploadFile, FileOperation.ExtractArchive}"
    using rules operation_rules_some that by (fastforce split: option.splits)
  have new: "created_path q = Some t \<Longrightarrow>
      AccessPolicy_check (cfg_access_policy config) (uc_username user) (hq_root_id q) t Discover = Inr ()
      \<and> (hq_command q \<noteq> HelperCommand.ExtractArchive \<longrightarrow>
           (is_hidden_relative t \<longrightarrow> root_hidden_files_allowed root)
           \<and> \<not> is_sensitive (cfg_sensitive_policy config) t)" for t
    using assms(12-15) tvis thid none unfolding engine_check(2) by force
  have "is_hidden_relative (hq_relative_path q) \<longrightarrow> root_hidden_files_allowed root
      \<or> is_internal_trash q \<or> hq_command q = HelperCommand.ListDirectory"
    using hid assms(10,15) by (auto simp: is_internal_trash_def)
  moreover have "\<not> helper_feature_disabled (cfg_features config) (hq_command q)"
    using feat assms(8) by simp
  moreover have "hq_command q = HelperCommand.RestoreFromTrash
      \<or> hq_command q = HelperCommand.DeletePermanently \<and> internal_trash_id uuid (hq_relative_path q) \<noteq> None
      \<or> AccessPolicy_check (cfg_access_policy config) (uc_username user) (hq_root_id q)
          (hq_relative_path q) Discover = Inr ()"
    using vis assms(10,11) unfolding engine_check(2) by blast
  ultimately show ?thesis
    unfolding sent_ok_def using assms(3-7,9,16,17) ro new by auto
qed

lemmas prepare_simps =
  Let_def and_then_Inr and_then_unit ok_or_Inr require_permitted_ok require_permitted_reason_ok
  engine_check not_sensitive_ok

lemmas sent_simps =
  created_path_def feature_denied_def FeatureGate_check_def helper_feature_disabled_def
  is_read_command_def is_write_def

lemma existing_path_ok: "authorize_existing_path root path follow = Inr s \<Longrightarrow>
    validate_relative_path path = Inr (ex_relative_path s)
    \<and> validate_relative_path (ex_relative_path s) = Inr (ex_relative_path s)"
  by (auto simp: authorize_existing_path_def and_then_Inr dest: validate_idem)

lemma create_folder_sent:
  assumes "create_folder_prepare uuid rid user q config (PolicyEngine_new config) = Inr h"
  shows "sent_ok uuid config user h"
proof -
  obtain parent name root d where
    *: "validate_relative_path (cfr_parent_relative_path q) = Inr parent"
      "require_allowed_root (cfg_roots config) (cfr_root_id q) = Inr root"
      "check_operation uuid (for_user (PolicyEngine_new config) (uc_username user)) FileOperation.CreateFolder
         (cfr_root_id q) parent (Some (join_relative_name parent name)) (Some name)
         (root_hidden_files_allowed root) = Inr d" "permits d"
      "h = (base_request rid user config root HelperCommand.CreateFolder (cfr_root_id q) parent)
         \<lparr>hq_target_relative_path := Some name\<rparr>"
    using assms by (auto simp: create_folder_prepare_def prepare_simps)
  then show ?thesis
    by (intro permitted_sent [where op = FileOperation.CreateFolder and root = root and d = d and inc = "root_hidden_files_allowed root"
        and target = "Some (join_relative_name parent name)" and fname = "Some name"])
      (simp_all add: sent_simps validate_idem)
qed

lemma rename_sent:
  assumes "rename_file_prepare uuid rid user q config (PolicyEngine_new config) = Inr h"
  shows "sent_ok uuid config user h"
proof -
  obtain path name root source d where
    *: "require_allowed_root (cfg_roots config) (rfr_root_id q) = Inr root"
      "authorize_existing_path root path False = Inr source"
      "check_operation uuid (for_user (PolicyEngine_new config) (uc_username user)) FileOperation.RenameFile
         (rfr_root_id q) (ex_relative_path source)
         (Some (join_relative_name (parent_relative_path (ex_relative_path source)) name)) (Some name)
         (root_hidden_files_allowed root) = Inr d" "permits d"
      "h = (base_request rid user config root HelperCommand.Rename (rfr_root_id q) (ex_relative_path source))
         \<lparr>hq_target_relative_path := Some name\<rparr>"
    using assms by (auto simp: rename_file_prepare_def prepare_simps)
  then show ?thesis
    by (intro permitted_sent [where op = FileOperation.RenameFile and root = root and d = d and inc = "root_hidden_files_allowed root" and fname = "Some name"
        and target = "Some (join_relative_name (parent_relative_path (ex_relative_path source)) name)"])
      (simp_all add: sent_simps existing_path_ok)
qed

lemma move_copy_sent:
  assumes "move_copy_prepare op c uuid rid user q config (PolicyEngine_new config) = Inr h"
    and "(op, c) \<in> {(FileOperation.MoveFile, HelperCommand.Move), (FileOperation.CopyFile, HelperCommand.Copy)}"
  shows "sent_ok uuid config user h"
proof -
  obtain path target name root source d where
    *: "require_allowed_root (cfg_roots config) (mfr_root_id q) = Inr root"
      "authorize_existing_path root path False = Inr source"
      "check_operation uuid (for_user (PolicyEngine_new config) (uc_username user)) op
         (mfr_root_id q) (ex_relative_path source) (Some target) (Some name)
         (root_hidden_files_allowed root) = Inr d" "permits d"
      "h = (base_request rid user config root c (mfr_root_id q) (ex_relative_path source))
         \<lparr>hq_target_relative_path := Some target\<rparr>"
    using assms(1) by (auto simp: move_copy_prepare_def prepare_simps split: if_split_asm)
  then show ?thesis
    using assms(2)
    by (intro permitted_sent [where op = op and root = root and d = d and inc = "root_hidden_files_allowed root" and target = "Some target"
        and fname = "Some name"]) (auto simp: sent_simps existing_path_ok)
qed

lemma move_to_trash_sent:
  assumes "move_to_trash_prepare uuid rid user q config (PolicyEngine_new config) = Inr h"
  shows "sent_ok uuid config user h"
proof -
  obtain path root source d where
    "require_allowed_root (cfg_roots config) (mtr_root_id q) = Inr root"
      "authorize_existing_path root path False = Inr source"
      "check_operation uuid (for_user (PolicyEngine_new config) (uc_username user)) FileOperation.MoveToTrash
         (mtr_root_id q) (ex_relative_path source) None None (root_hidden_files_allowed root) = Inr d" "permits d"
      "h = base_request rid user config root HelperCommand.MoveToTrash (mtr_root_id q) (ex_relative_path source)"
    using assms by (auto simp: move_to_trash_prepare_def prepare_simps)
  then show ?thesis
    by (intro permitted_sent [where op = FileOperation.MoveToTrash and root = root and d = d and inc = "root_hidden_files_allowed root" and target = None
        and fname = None]) (simp_all add: sent_simps existing_path_ok)
qed

lemma restore_sent:
  assumes "restore_from_trash_prepare uuid rid user q config (PolicyEngine_new config) = Inr h"
  shows "sent_ok uuid config user h"
proof -
  obtain trash_id root_id root d where
    "SafeFileName_parse (rtr_trash_id q) = Inr trash_id"
      "require_allowed_root (cfg_roots config) root_id = Inr root"
      "check_operation uuid (for_user (PolicyEngine_new config) (uc_username user)) FileOperation.RestoreFromTrash
         root_id trash_id None None (root_hidden_files_allowed root) = Inr d" "permits d"
      "h = base_request rid user config root HelperCommand.RestoreFromTrash root_id trash_id"
    using assms by (auto simp: restore_from_trash_prepare_def prepare_simps)
  then show ?thesis
    by (intro permitted_sent [where op = FileOperation.RestoreFromTrash and root = root and d = d and inc = "root_hidden_files_allowed root"
        and target = None and fname = None]) (simp_all add: sent_simps safe_name_validates)
qed

lemma delete_permanently_sent:
  assumes "delete_permanently_prepare uuid rid user q config (PolicyEngine_new config) = Inr h"
  shows "sent_ok uuid config user h"
proof -
  obtain path root d where
    "validate_relative_path (dpr_relative_path q) = Inr path"
      "require_allowed_root (cfg_roots config) (dpr_root_id q) = Inr root"
      "check_operation uuid (for_user (PolicyEngine_new config) (uc_username user)) FileOperation.DeletePermanently
         (dpr_root_id q) path None None (root_hidden_files_allowed root) = Inr d" "permits d"
      "h = base_request rid user config root HelperCommand.DeletePermanently (dpr_root_id q) path"
    using assms by (auto simp: delete_permanently_prepare_def prepare_simps split: if_split_asm)
  then show ?thesis
    by (intro permitted_sent [where op = FileOperation.DeletePermanently and root = root and d = d and inc = "root_hidden_files_allowed root"
        and target = None and fname = None]) (simp_all add: sent_simps validate_idem)
qed

lemma list_trash_sent:
  assumes "list_trash_prepare uuid rid user q config (PolicyEngine_new config) = Inr h"
  shows "sent_ok uuid config user h"
proof -
  obtain root d where
    "require_allowed_root (cfg_roots config) (ltr_root_id q) = Inr root"
      "check_operation uuid (for_user (PolicyEngine_new config) (uc_username user)) FileOperation.ListDirectory
         (ltr_root_id q) [] None None (root_hidden_files_allowed root) = Inr d" "permits d"
      "h = base_request rid user config root HelperCommand.ListTrash (ltr_root_id q) []"
    using assms by (auto simp: list_trash_prepare_def prepare_simps)
  then show ?thesis
    by (intro permitted_sent [where op = FileOperation.ListDirectory and root = root and d = d and inc = "root_hidden_files_allowed root"
        and target = None and fname = None])
      (simp_all add: sent_simps validate_relative_path_eq name_parts_def)
qed

lemma chmod_sent:
  assumes "chmod_file_prepare uuid rid user q config (PolicyEngine_new config) = Inr h"
  shows "sent_ok uuid config user h"
proof -
  obtain path root d where
    "validate_relative_path (cmr_relative_path q) = Inr path"
      "require_allowed_root (cfg_roots config) (cmr_root_id q) = Inr root"
      "check_operation uuid (for_user (PolicyEngine_new config) (uc_username user)) FileOperation.ChmodFile
         (cmr_root_id q) path None None (root_hidden_files_allowed root) = Inr d" "permits d"
      "h = (base_request rid user config root HelperCommand.Chmod (cmr_root_id q) path)
         \<lparr>hq_chmod_mode := Some (cmr_mode q)\<rparr>"
    using assms by (auto simp: chmod_file_prepare_def prepare_simps split: if_split_asm)
  then show ?thesis
    by (intro permitted_sent [where op = FileOperation.ChmodFile and root = root and d = d and inc = "root_hidden_files_allowed root"
        and target = None and fname = None]) (simp_all add: sent_simps validate_idem)
qed

lemma extract_sent:
  assumes "extract_archive_prepare uuid rid user q config (PolicyEngine_new config) = Inr h"
  shows "sent_ok uuid config user h"
proof -
  obtain archive target root d where
    "validate_relative_path (ear_archive_relative_path q) = Inr archive"
      "require_allowed_root (cfg_roots config) (ear_root_id q) = Inr root"
      "check_operation uuid (for_user (PolicyEngine_new config) (uc_username user)) FileOperation.ExtractArchive
         (ear_root_id q) archive (Some target) None (root_hidden_files_allowed root) = Inr d" "permits d"
      "h = (base_request rid user config root HelperCommand.ExtractArchive (ear_root_id q) archive)
         \<lparr>hq_target_relative_path := Some target\<rparr>"
    using assms by (auto simp: extract_archive_prepare_def prepare_simps split: if_split_asm)
  then show ?thesis
    by (intro permitted_sent [where op = FileOperation.ExtractArchive and root = root and d = d and inc = "root_hidden_files_allowed root"
        and target = "Some target" and fname = None]) (simp_all add: sent_simps validate_idem)
qed

text \<open>Every source of an archive has been permitted, and is returned in its normal form.\<close>

lemma archive_sources_ok:
  "archive_sources op uuid engine root_id target hidden srcs = Inr paths \<Longrightarrow>
     length paths = length srcs
     \<and> (\<forall>p \<in> set paths. p \<noteq> [] \<and> validate_relative_path p = Inr p
          \<and> (\<exists>d. check_operation uuid engine op root_id p (Some target) None hidden = Inr d \<and> permits d))"
proof (induction srcs arbitrary: paths)
  case Nil
  then show ?case by simp
next
  case (Cons src srcs)
  then obtain path rest where "validate_relative_path src = Inr path" "path \<noteq> []"
    "\<exists>d. check_operation uuid engine op root_id path (Some target) None hidden = Inr d \<and> permits d"
    "archive_sources op uuid engine root_id target hidden srcs = Inr rest" "paths = path # rest"
    by (auto simp: and_then_Inr and_then_unit require_permitted_reason_ok split: if_split_asm)
  with Cons.IH [of rest] show ?case by (auto simp: validate_idem)
qed

lemma compress_sent:
  assumes "compress_prepare op c endings uuid rid user q config (PolicyEngine_new config) = Inr h"
    and "(op, c) \<in> {(FileOperation.CompressZip, HelperCommand.CompressZip),
       (FileOperation.CompressTarGz, HelperCommand.CompressTarGz)}"
  shows "sent_ok uuid config user h"
proof -
  let ?e = "for_user (PolicyEngine_new config) (uc_username user)"
  obtain target root sources where
    h: "cpr_relative_paths q \<noteq> []" "validate_relative_path (cpr_target_relative_path q) = Inr target"
      "ensure_visible ?e (cpr_root_id q) target = Inr ()"
      "require_allowed_root (cfg_roots config) (cpr_root_id q) = Inr root" "\<not> root_read_only root"
      "archive_sources op uuid ?e (cpr_root_id q) target (root_hidden_files_allowed root)
         (cpr_relative_paths q) = Inr sources"
      "h = (base_request rid user config root c (cpr_root_id q) target)
         \<lparr>hq_target_relative_path := Some target, hq_archive_source_paths := Some sources\<rparr>"
    using assms(1)
    by (auto simp: compress_prepare_def Let_def and_then_Inr and_then_unit split: if_split_asm)
  have ops: "op \<noteq> FileOperation.RestoreFromTrash" "op \<noteq> FileOperation.DeletePermanently" "guards_sensitive op"
    using assms(2) by (auto simp: guards_sensitive_def)
  have sources: "p \<noteq> [] \<and> validate_relative_path p = Inr p
      \<and> AccessPolicy_check (cfg_access_policy config) (uc_username user) (cpr_root_id q) p Discover = Inr ()
      \<and> (is_hidden_relative p \<longrightarrow> root_hidden_files_allowed root)
      \<and> \<not> is_sensitive (cfg_sensitive_policy config) p
      \<and> (is_hidden_relative target \<longrightarrow> root_hidden_files_allowed root)
      \<and> \<not> is_sensitive (cfg_sensitive_policy config) target" if "p \<in> set sources" for p
  proof -
    have p: "p \<noteq> []" "validate_relative_path p = Inr p"
      "\<exists>d. check_operation uuid ?e op (cpr_root_id q) p (Some target) None (root_hidden_files_allowed root) = Inr d
        \<and> permits d"
      using archive_sources_ok [OF h(6)] that by blast+
    from p(3) obtain d where "check_operation uuid ?e op (cpr_root_id q) p (Some target) None
        (root_hidden_files_allowed root) = Inr d" "permits d" by blast
    then show ?thesis
    proof (rule check_operation_permits)
      fix r
      assume vis: "\<not> (op = FileOperation.DeletePermanently \<and> internal_trash_id uuid p \<noteq> None) \<Longrightarrow>
          op \<noteq> FileOperation.RestoreFromTrash \<Longrightarrow> ensure_visible ?e (cpr_root_id q) p = Inr ()"
        and hid: "is_hidden_relative p \<Longrightarrow> root_hidden_files_allowed root
          \<or> op = FileOperation.DeletePermanently \<and> prefix ''.tealdrive-trash/files/'' p"
        and rules: "case operation_rules (pe_config ?e) op r p None of None \<Rightarrow> True | Some d \<Rightarrow> permits d"
        and tgt: "\<And>t. Some target = Some t \<Longrightarrow> operation_rules (pe_config ?e) op r p None = None \<Longrightarrow>
          (is_hidden_relative t \<longrightarrow> root_hidden_files_allowed root)
          \<and> \<not> is_sensitive (cfg_sensitive_policy (pe_config ?e)) t"
      have "operation_rules (pe_config ?e) op r p None = None"
        using rules operation_rules_some assms(2) by (fastforce split: option.splits)
      with tgt operation_rules_permit [OF rules] vis hid ops p(1,2) show ?thesis by (simp add: engine_check)
    qed
  qed
  moreover obtain p where "p \<in> set sources" using archive_sources_ok [OF h(6)] h(1) by (cases sources) auto
  ultimately have "sources \<noteq> []" "(is_hidden_relative target \<longrightarrow> root_hidden_files_allowed root)
      \<and> \<not> is_sensitive (cfg_sensitive_policy config) target"
    by auto
  then show ?thesis
    using h assms(2) sources
    by (auto simp: sent_ok_def sent_simps engine_check validate_idem)
qed

section \<open>Where the two tiers disagree\<close>

text \<open>A rule that denies writing to one path, which need not exist yet.\<close>

definition guarded_config :: AppConfig where
  "guarded_config = AppConfig_default\<lparr>cfg_access_policy := AccessPolicy_default
     \<lparr>ap_root_rules := [example_rule ''docs/secret'' [Write]]\<rparr>\<rparr>"

definition guarded_folder :: HelperRequest where
  "guarded_folder = (base_request 1 example_user guarded_config AllowedRoot_default HelperCommand.CreateFolder
     ''home'' ''docs'')\<lparr>hq_target_relative_path := Some ''secret''\<rparr>"

lemma guarded_prepare:
  "create_folder_prepare (\<lambda>_. None) 1 example_user
     \<lparr>cfr_root_id = ''home'', cfr_parent_relative_path = ''docs'', cfr_folder_name = ''secret''\<rparr>
     guarded_config (PolicyEngine_new guarded_config) = Inr guarded_folder"
  by (simp add: create_folder_prepare_def guarded_folder_def guarded_config_def example_user_def policy_eval
      SafeFileName_parse_def is_reserved_name_def join_relative_name_def not_sensitive_def
      authorize_new_target_def require_permitted_def for_user_def PolicyEngine_new_def config_defaults
      AccessPolicy_default_def example_rule_def Let_def result_simps)

text \<open>A rule that denies writing below a path does not stop the creation of a folder there. The
  request names the new folder by its bare name, and the helper checks that name against the access
  rules as if it were a path from the root: the network tier sends the request, the gate of the helper
  hands it to the handler, and the rules deny writing to the path that is created.\<close>

theorem create_folder_write_rule_bypassed:
  "create_folder_prepare (\<lambda>_. None) 1 example_user
     \<lparr>cfr_root_id = ''home'', cfr_parent_relative_path = ''docs'', cfr_folder_name = ''secret''\<rparr>
     guarded_config (PolicyEngine_new guarded_config) = Inr guarded_folder
   \<and> handle_helper_operation (\<lambda>_. None) tree None guarded_folder guarded_config = Inr create_folder_with_roots
   \<and> created_path guarded_folder = Some ''docs/secret''
   \<and> AccessPolicy_check (cfg_access_policy guarded_config) (hq_username guarded_folder)
       (hq_root_id guarded_folder) ''docs/secret'' Write = Inl TealDriveError.PolicyDenied"
proof -
  have access: "access_authorize (\<lambda>_. None) None guarded_folder guarded_config = Inr ()"
    by (simp add: access_authorize_def guarded_folder_def guarded_config_def effective_target_def
        operation_access_def policy_eval AccessPolicy_default_def example_rule_def example_user_def
        base_request_def config_defaults)
  have "policy_authorize (\<lambda>_. None) None guarded_folder guarded_config = Inr ()"
    using access
    by (simp add: policy_authorize_def authorize_write_def authorize_names_ok authorize_webroot_def guarded_folder_def
        guarded_config_def base_request_def config_defaults is_read_command_def extra_paths_def is_internal_trash_def
        policy_eval result_simps)
  with access have "handle_helper_operation (\<lambda>_. None) tree None guarded_folder guarded_config = Inr create_folder_with_roots"
    by (simp add: handle_helper_operation_def preflight_def helper_feature_disabled_def command_disabled_in_v1_def
        guarded_folder_def example_user_def)
  then show ?thesis
    using guarded_prepare
    by (simp add: created_path_def guarded_folder_def join_relative_name_def guarded_config_def policy_eval
        AccessPolicy_default_def example_rule_def example_user_def)
qed
end
