(* ===== verification/TD_Fs_Read.thy ===== *)
theory TD_Fs_Read
  imports TD_Fs
begin

text \<open>
  The operations of the network tier that read files or save text: \<open>src/fs/listing.rs\<close>, \<open>metadata.rs\<close>,
  \<open>text.rs\<close>, \<open>search.rs\<close> and \<open>src/download/transfer.rs\<close>, with their payloads and the size limits of
  \<open>src/protocol/codec.rs\<close>. The serialiser behind \<open>rmp_serde\<close> is a parameter. Reading or saving text and
  downloading ask the helper twice, first for the metadata of the file.
\<close>

section \<open>Control payloads (\<open>codec.rs\<close>)\<close>

definition encode_msgpack :: "('a \<Rightarrow> bytes option) \<Rightarrow> 'a \<Rightarrow> bytes td_result" where
  "encode_msgpack to_vec v =
     and_then (ok_or (to_vec v) TealDriveError.Protocol) (\<lambda>bs.
       if length bs > MAX_CONTROL_PAYLOAD then Inl TealDriveError.PayloadTooLarge else Inr bs)"

definition decode_msgpack :: "(bytes \<Rightarrow> 'a option) \<Rightarrow> bytes \<Rightarrow> 'a td_result" where
  "decode_msgpack from_slice bs =
     (if length bs > MAX_CONTROL_PAYLOAD then Inl TealDriveError.PayloadTooLarge
      else ok_or (from_slice bs) TealDriveError.Protocol)"

section \<open>Listing (\<open>listing.rs\<close>)\<close>

record ListDirectoryRequest =
  ldr_root_id :: RootId
  ldr_relative_path :: RelativePath
  ldr_cursor :: "DirectoryCursor option"
  ldr_limit :: nat
  ldr_include_hidden :: bool
  ldr_sort :: SortMode
  ldr_filter :: FilterMode

definition ListDirectoryRequest_validate :: "ListDirectoryRequest \<Rightarrow> Limits \<Rightarrow> unit td_result" where
  "ListDirectoryRequest_validate q limits =
     reject_if (ldr_limit q = 0 \<or> ldr_limit q > max_directory_page_size limits
       \<or> \<not> FilterMode_is_valid (ldr_filter q))"

record DirectoryListResponse =
  dlr_entries :: "HelperDirectoryEntry list"
  dlr_next_cursor :: "DirectoryCursor option"
  dlr_has_more :: bool
  dlr_total_estimate :: "nat option"
  dlr_current_path :: RelativePath
  dlr_capabilities :: CapabilitySet

definition effective_limit :: "nat \<Rightarrow> AppConfig \<Rightarrow> nat" where
  "effective_limit requested config =
     (if requested = 0 then default_directory_page_size (cfg_limits config)
      else min requested (max_directory_page_size (cfg_limits config)))"

text \<open>Both records have the same fields, and every field is copied.\<close>

definition helper_entry_to_payload :: "HelperDirectoryEntry \<Rightarrow> HelperDirectoryEntry" where
  "helper_entry_to_payload e =
     \<lparr>de_name = de_name e, de_file_type = de_file_type e, de_size = de_size e, de_modified = de_modified e,
      de_owner = de_owner e, de_group = de_group e, de_mode = de_mode e, de_permissions = de_permissions e,
      de_is_hidden = de_is_hidden e, de_is_sensitive = de_is_sensitive e, de_is_protected = de_is_protected e,
      de_is_symlink = de_is_symlink e, de_symlink_target = de_symlink_target e,
      de_is_web_root = de_is_web_root e, de_is_world_writable = de_is_world_writable e,
      de_capabilities =
        \<lparr>cap_can_list = cap_can_list (de_capabilities e),
         cap_can_download = cap_can_download (de_capabilities e),
         cap_can_upload = cap_can_upload (de_capabilities e),
         cap_can_create_folder = cap_can_create_folder (de_capabilities e),
         cap_can_rename = cap_can_rename (de_capabilities e),
         cap_can_move_to_trash = cap_can_move_to_trash (de_capabilities e),
         cap_can_restore_from_trash = cap_can_restore_from_trash (de_capabilities e)\<rparr>\<rparr>"

definition list_directory_error :: "HelperResponse \<Rightarrow> TealDriveError" where
  "list_directory_error r =
     (case hr_error_kind r of
        Some ErrorKind.PermissionDenied \<Rightarrow> TealDriveError.PermissionDenied
      | Some ErrorKind.NotFound \<Rightarrow> TealDriveError.InvalidPath
      | Some ErrorKind.InvalidPath \<Rightarrow> TealDriveError.InvalidPath
      | Some ErrorKind.PolicyDenied \<Rightarrow> TealDriveError.PolicyDenied
      | _ \<Rightarrow> TealDriveError.HelperCommandNotImplemented)"

definition list_directory_prepare ::
  "(string \<Rightarrow> string option) \<Rightarrow> Uuid \<Rightarrow> UserContext \<Rightarrow> ListDirectoryRequest \<Rightarrow> AppConfig \<Rightarrow> PolicyEngine
   \<Rightarrow> (AllowedRoot \<times> HelperRequest) td_result" where
  "list_directory_prepare uuid rid user q0 config engine0 =
     (let engine = for_user engine0 (uc_username user);
          limit = effective_limit (ldr_limit q0) config;
          q = q0\<lparr>ldr_limit := limit\<rparr> in
      and_then (ListDirectoryRequest_validate q (cfg_limits config)) (\<lambda>_.
      and_then (validate_relative_path (ldr_relative_path q)) (\<lambda>path.
      and_then (ensure_visible engine (ldr_root_id q) path) (\<lambda>_.
      and_then (require_allowed_root (cfg_roots config) (ldr_root_id q)) (\<lambda>root.
      and_then (require_permitted (check_operation uuid engine FileOperation.ListDirectory (ldr_root_id q) path
          None None (ldr_include_hidden q))) (\<lambda>_.
      Inr (root, (base_request rid user config root HelperCommand.ListDirectory (ldr_root_id q) path)
        \<lparr>hq_list_options := Some \<lparr>lo_cursor = ldr_cursor q, lo_limit = limit,
           lo_include_hidden = ldr_include_hidden q, lo_sort = ldr_sort q, lo_filter = ldr_filter q\<rparr>\<rparr>)))))))"

definition list_directory_request where
  "list_directory_request uuid helper rid user q config engine =
     then_do (lift_result (list_directory_prepare uuid rid user q config engine)) (\<lambda>(root, req).
     call_helper helper list_directory_error (Inr req) (\<lambda>sent response.
       case hr_payload response of
         DirectoryList l \<Rightarrow> Inr
           \<lparr>dlr_entries = map helper_entry_to_payload (dl_entries l), dlr_next_cursor = dl_next_cursor l,
            dlr_has_more = dl_has_more l, dlr_total_estimate = dl_total_estimate l,
            dlr_current_path = hq_relative_path sent,
            dlr_capabilities =
              \<lparr>cap_can_list = True, cap_can_download = True,
               cap_can_upload = (root_uploads_allowed root \<and> \<not> root_read_only root),
               cap_can_create_folder = (\<not> root_read_only root), cap_can_rename = (\<not> root_read_only root),
               cap_can_move_to_trash = (\<not> root_read_only root),
               cap_can_restore_from_trash = (\<not> root_read_only root)\<rparr>\<rparr>
       | _ \<Rightarrow> Inl TealDriveError.HelperMalformedResponse))"

section \<open>Metadata (\<open>metadata.rs\<close>)\<close>

record FileMetadataRequest =
  fmr_root_id :: RootId
  fmr_relative_path :: RelativePath

record FileMetadataPayload =
  fmp_root_id :: RootId
  fmp_relative_path :: RelativePath
  fmp_entry :: HelperDirectoryEntry

definition file_metadata_error :: "HelperResponse \<Rightarrow> TealDriveError" where
  "file_metadata_error r =
     (case hr_error_kind r of
        Some ErrorKind.PermissionDenied \<Rightarrow> TealDriveError.PermissionDenied
      | Some ErrorKind.NotFound \<Rightarrow> TealDriveError.NotFound
      | Some ErrorKind.InvalidPath \<Rightarrow> TealDriveError.InvalidPath
      | Some ErrorKind.PolicyDenied \<Rightarrow> TealDriveError.PolicyDenied
      | _ \<Rightarrow> TealDriveError.HelperCommandNotImplemented)"

text \<open>The checks shared by metadata, text preview and download: a path, and one permitted operation.\<close>

definition read_prepare ::
  "FileOperation \<Rightarrow> HelperCommand \<Rightarrow> (string \<Rightarrow> string option) \<Rightarrow> Uuid \<Rightarrow> UserContext \<Rightarrow> RootId
   \<Rightarrow> RelativePath \<Rightarrow> AppConfig \<Rightarrow> PolicyEngine \<Rightarrow> HelperRequest td_result" where
  "read_prepare op command uuid rid user root_id raw config engine0 =
     (let engine = for_user engine0 (uc_username user) in
      and_then (validate_relative_path raw) (\<lambda>path.
      and_then (ensure_visible engine root_id path) (\<lambda>_.
      and_then (require_allowed_root (cfg_roots config) root_id) (\<lambda>root.
      and_then (require_permitted (check_operation uuid engine op root_id path None None
          (root_hidden_files_allowed root))) (\<lambda>_.
      Inr (base_request rid user config root command root_id path))))))"

definition file_metadata_request ::
  "(string \<Rightarrow> string option) \<Rightarrow> (HelperRequest \<Rightarrow> HelperResponse td_result) \<Rightarrow> Uuid \<Rightarrow> UserContext
   \<Rightarrow> FileMetadataRequest \<Rightarrow> AppConfig \<Rightarrow> PolicyEngine \<Rightarrow> FileMetadataPayload sending" where
  "file_metadata_request uuid helper rid user q config engine =
     call_helper helper file_metadata_error
       (read_prepare FileOperation.FileMetadata HelperCommand.FileMetadata uuid rid user (fmr_root_id q)
          (fmr_relative_path q) config engine)
       (\<lambda>sent response. case hr_payload response of
          HelperResponsePayload.FileMetadata e \<Rightarrow> Inr
            \<lparr>fmp_root_id = fmr_root_id q, fmp_relative_path = hq_relative_path sent,
             fmp_entry = helper_entry_to_payload e\<rparr>
        | _ \<Rightarrow> Inl TealDriveError.HelperMalformedResponse)"

section \<open>Text (\<open>text.rs\<close>)\<close>

record ReadTextFileRequest =
  rtf_root_id :: RootId
  rtf_relative_path :: RelativePath
  rtf_max_bytes :: "nat option"
  rtf_encoding :: "string option"

definition ReadTextFileRequest_validate :: "ReadTextFileRequest \<Rightarrow> Limits \<Rightarrow> unit td_result" where
  "ReadTextFileRequest_validate q limits =
     and_then (reject_if (case rtf_max_bytes q of None \<Rightarrow> False | Some m \<Rightarrow> m > max_text_edit_size limits)) (\<lambda>_.
     reject_if (case rtf_encoding q of None \<Rightarrow> False | Some e \<Rightarrow> \<not> eq_ignore_ascii_case e ''utf-8''))"

record TextFileContentPayload =
  tfp_root_id :: RootId
  tfp_relative_path :: RelativePath
  tfp_content :: HelperTextFileContent

record SaveTextFileRequest =
  stf_expected_revision :: "string option"
  stf_root_id :: RootId
  stf_relative_path :: RelativePath
  stf_content :: string
  stf_expected_modified :: "string option"

definition SaveTextFileRequest_validate :: "SaveTextFileRequest \<Rightarrow> Limits \<Rightarrow> unit td_result" where
  "SaveTextFileRequest_validate q limits =
     reject_if ((case stf_expected_revision q of None \<Rightarrow> False
         | Some r \<Rightarrow> r \<noteq> ''missing'' \<and> (length r \<noteq> 64 \<or> \<not> list_all is_ascii_hexdigit r))
       \<or> length (stf_content q) > max_text_edit_size limits)"

definition text_error :: "HelperResponse \<Rightarrow> TealDriveError" where
  "text_error r =
     (case hr_error_kind r of
        Some ErrorKind.RevisionConflict \<Rightarrow> TealDriveError.RevisionConflict
      | Some ErrorKind.PermissionDenied \<Rightarrow> TealDriveError.PermissionDenied
      | Some ErrorKind.PolicyDenied \<Rightarrow> TealDriveError.PolicyDenied
      | Some ErrorKind.NotFound \<Rightarrow> TealDriveError.NotFound
      | Some ErrorKind.InvalidPath \<Rightarrow> TealDriveError.InvalidPath
      | Some ErrorKind.InvalidTarget \<Rightarrow> TealDriveError.InvalidTarget
      | Some ErrorKind.FileTooLarge \<Rightarrow> TealDriveError.FileTooLarge
      | Some ErrorKind.DiskFull \<Rightarrow> TealDriveError.DiskFull
      | Some ErrorKind.ReadOnlyFilesystem \<Rightarrow> TealDriveError.ReadOnlyRoot
      | Some ErrorKind.UnsupportedBinaryFile \<Rightarrow> TealDriveError.UnsupportedBinaryFile
      | Some ErrorKind.InvalidTextEncoding \<Rightarrow> TealDriveError.InvalidTextEncoding
      | _ \<Rightarrow> TealDriveError.HelperCommandNotImplemented)"

text \<open>No directory, no symbolic link and nothing sensitive.\<close>

definition plain_file :: "HelperDirectoryEntry \<Rightarrow> unit td_result" where
  "plain_file e =
     (if de_file_type e = Directory then Inl TealDriveError.InvalidTarget
      else if de_is_symlink e \<or> de_is_sensitive e then Inl TealDriveError.PolicyDenied
      else Inr ())"

definition read_text_file_request ::
  "(string \<Rightarrow> string option) \<Rightarrow> (HelperRequest \<Rightarrow> HelperResponse td_result) \<Rightarrow> Uuid \<Rightarrow> Uuid \<Rightarrow> UserContext
   \<Rightarrow> ReadTextFileRequest \<Rightarrow> AppConfig \<Rightarrow> PolicyEngine \<Rightarrow> TextFileContentPayload sending" where
  "read_text_file_request uuid helper rid1 rid2 user q config engine0 =
     (let engine = for_user engine0 (uc_username user);
          maximum = max_text_edit_size (cfg_limits config) in
      then_do (lift_result (ReadTextFileRequest_validate q (cfg_limits config))) (\<lambda>_.
      then_do (lift_result (read_prepare FileOperation.ReadTextFile HelperCommand.ReadTextFile uuid rid2 user
          (rtf_root_id q) (rtf_relative_path q) config engine0)) (\<lambda>req.
      then_do (file_metadata_request uuid helper rid1 user
          \<lparr>fmr_root_id = rtf_root_id q, fmr_relative_path = hq_relative_path req\<rparr> config engine) (\<lambda>meta.
      then_do (lift_result (plain_file (fmp_entry meta))) (\<lambda>_.
      then_do (lift_result (if de_size (fmp_entry meta) > maximum
          \<or> (case rtf_max_bytes q of None \<Rightarrow> False | Some m \<Rightarrow> de_size (fmp_entry meta) > m)
          then Inl TealDriveError.FileTooLarge else Inr ())) (\<lambda>_.
      call_helper helper text_error
        (Inr (req\<lparr>hq_limits := (hq_limits req)\<lparr>hl_max_text_edit_size :=
           min (case rtf_max_bytes q of Some m \<Rightarrow> m | None \<Rightarrow> maximum) maximum\<rparr>\<rparr>))
        (\<lambda>sent response. case hr_payload response of
           HelperResponsePayload.TextFileContent c \<Rightarrow> Inr
             \<lparr>tfp_root_id = rtf_root_id q, tfp_relative_path = hq_relative_path sent, tfp_content = c\<rparr>
         | _ \<Rightarrow> Inl TealDriveError.HelperMalformedResponse)))))))"

definition save_prepare ::
  "(string \<Rightarrow> string option) \<Rightarrow> Uuid \<Rightarrow> UserContext \<Rightarrow> SaveTextFileRequest \<Rightarrow> AppConfig \<Rightarrow> PolicyEngine
   \<Rightarrow> HelperRequest td_result" where
  "save_prepare uuid rid user q config engine0 =
     (let engine = for_user engine0 (uc_username user); root_id = stf_root_id q in
      and_then (SaveTextFileRequest_validate q (cfg_limits config)) (\<lambda>_.
      and_then (validate_relative_path (stf_relative_path q)) (\<lambda>path.
      and_then (ensure_visible engine root_id path) (\<lambda>_.
      and_then (require_allowed_root (cfg_roots config) root_id) (\<lambda>root.
      if root_read_only root then Inl TealDriveError.ReadOnlyRoot
      else
        and_then (require_permitted_reason (check_operation uuid engine FileOperation.SaveTextFile root_id path
            None None (root_hidden_files_allowed root))) (\<lambda>_.
        and_then (SafeFileName_parse (case rsplit_once slash path of Some (_, f) \<Rightarrow> f | None \<Rightarrow> path)) (\<lambda>name.
        and_then (webroot_name_allowed config root name) (\<lambda>_.
        Inr ((base_request rid user config root HelperCommand.WriteFile root_id path)
          \<lparr>hq_write_options := Some \<lparr>wo_stream_size = None, wo_expected_revision = stf_expected_revision q,
             wo_data = str_bytes (stf_content q), wo_offset = 0, wo_truncate = True\<rparr>\<rparr>)))))))))"

text \<open>What the metadata of the file, or its absence, decides about saving.\<close>

definition save_conflict :: "SaveTextFileRequest \<Rightarrow> FileMetadataPayload td_result \<Rightarrow> unit td_result" where
  "save_conflict q found =
     (case found of
        Inr meta \<Rightarrow>
          and_then (plain_file (fmp_entry meta)) (\<lambda>_.
          case (stf_expected_modified q, stf_expected_revision q) of
            (Some expected, None) \<Rightarrow> reject_if (de_modified (fmp_entry meta) \<noteq> Some expected)
          | _ \<Rightarrow> Inr ())
      | Inl TealDriveError.NotFound \<Rightarrow>
          if stf_expected_modified q \<noteq> None then Inl TealDriveError.NotFound else Inr ()
      | Inl e \<Rightarrow> Inl e)"

definition save_text_file_request ::
  "(string \<Rightarrow> string option) \<Rightarrow> (HelperRequest \<Rightarrow> HelperResponse td_result) \<Rightarrow> Uuid \<Rightarrow> Uuid \<Rightarrow> Uuid
   \<Rightarrow> UserContext \<Rightarrow> SaveTextFileRequest \<Rightarrow> AppConfig \<Rightarrow> PolicyEngine \<Rightarrow> OperationDonePayload sending" where
  "save_text_file_request uuid helper rid1 rid2 rid3 user q config engine0 =
     then_do (lift_result (save_prepare uuid rid2 user q config engine0)) (\<lambda>req.
     let (found, asked) = file_metadata_request uuid helper rid1 user
           \<lparr>fmr_root_id = stf_root_id q, fmr_relative_path = hq_relative_path req\<rparr> config
           (for_user engine0 (uc_username user)) in
     then_do (save_conflict q found, asked) (\<lambda>_.
     call_helper helper text_error (Inr req) (\<lambda>_ _.
       Inr \<lparr>opd_request_id = rid3, opd_operation = ''SAVE_TEXT_FILE'',
            opd_safe_message = Some ''File saved successfully.''\<rparr>)))"

section \<open>Search (\<open>search.rs\<close>)\<close>

record SearchFilesRequest =
  sfr_root_id :: RootId
  sfr_base_path :: RelativePath
  sfr_query :: string
  sfr_extension :: "string option"
  sfr_max_results :: "nat option"
  sfr_include_hidden :: bool

definition search_error :: "HelperResponse \<Rightarrow> TealDriveError" where
  "search_error r =
     (case hr_error_kind r of
        Some ErrorKind.PermissionDenied \<Rightarrow> TealDriveError.PermissionDenied
      | Some ErrorKind.PolicyDenied \<Rightarrow> TealDriveError.PolicyDenied
      | Some ErrorKind.NotFound \<Rightarrow> TealDriveError.NotFound
      | Some ErrorKind.InvalidPath \<Rightarrow> TealDriveError.InvalidPath
      | _ \<Rightarrow> TealDriveError.Internal)"

definition search_files_request where
  "search_files_request uuid helper rid user q config engine =
     call_helper helper search_error
       (and_then (read_prepare FileOperation.ListDirectory HelperCommand.SearchFiles uuid rid user
            (sfr_root_id q) (sfr_base_path q) config engine) (\<lambda>req.
          Inr (req\<lparr>hq_limits := (hq_limits req)\<lparr>hl_max_download_helper_bytes := 10 * 1024 * 1024\<rparr>,
            hq_search_options := Some
              \<lparr>so_query = sfr_query q, so_extension = sfr_extension q,
               so_max_results = Some (min (case sfr_max_results q of Some m \<Rightarrow> m
                   | None \<Rightarrow> sr_default_max_results (cfg_search config))
                 (sr_max_results_limit (cfg_search config))),
               so_include_hidden = sfr_include_hidden q,
               so_max_depth = Some (sr_max_depth (cfg_search config))\<rparr>\<rparr>)))
       (\<lambda>_ response. case hr_payload response of
          SearchResults payload \<Rightarrow> Inr payload
        | _ \<Rightarrow> Inl TealDriveError.HelperMalformedResponse)"

section \<open>Download (\<open>download/transfer.rs\<close>)\<close>

record DownloadBeginRequest =
  dbr_root_id :: RootId
  dbr_relative_path :: RelativePath
  dbr_requested_chunk_size :: "nat option"

definition DownloadBeginRequest_validate :: "DownloadBeginRequest \<Rightarrow> Limits \<Rightarrow> unit td_result" where
  "DownloadBeginRequest_validate q limits =
     reject_if (case dbr_requested_chunk_size q of None \<Rightarrow> False | Some n \<Rightarrow> n > max_chunk_size limits)"

record DownloadEndPayload =
  dep_transfer_id :: Uuid
  dep_bytes_sent :: nat
  dep_chunk_count :: nat
  dep_sha256 :: "string option"

record DownloadFrameSet =
  dfs_transfer_id :: Uuid
  dfs_frames :: "TdrvFrame list"
  dfs_total_bytes :: nat
  dfs_chunk_count :: nat

definition download_error :: "HelperResponse \<Rightarrow> TealDriveError" where
  "download_error r =
     (case hr_error_kind r of
        Some ErrorKind.PermissionDenied \<Rightarrow> TealDriveError.PermissionDenied
      | Some ErrorKind.PolicyDenied \<Rightarrow> TealDriveError.PolicyDenied
      | Some ErrorKind.NotFound \<Rightarrow> TealDriveError.NotFound
      | Some ErrorKind.InvalidPath \<Rightarrow> TealDriveError.InvalidPath
      | Some ErrorKind.InvalidTarget \<Rightarrow> TealDriveError.InvalidTarget
      | Some ErrorKind.FileTooLarge \<Rightarrow> TealDriveError.FileTooLarge
      | _ \<Rightarrow> TealDriveError.HelperCommandNotImplemented)"

definition raw_chunk_of :: "Uuid \<Rightarrow> HelperDownloadChunk \<Rightarrow> RawChunk" where
  "raw_chunk_of tid c =
     \<lparr>chunk_transfer_id = tid, chunk_index = word_of_nat (dc_chunk_index c),
      chunk_offset = word_of_nat (dc_offset c), chunk_bytes = dc_chunk_bytes c\<rparr>"

text \<open>One frame per chunk; \<open>rids\<close> are the request ids drawn.\<close>

fun download_frames :: "Uuid \<Rightarrow> (Uuid \<times> HelperDownloadChunk) list \<Rightarrow> TdrvFrame list td_result" where
  "download_frames tid [] = Inr []"
| "download_frames tid ((rid, c) # cs) =
     and_then (chunk_encode (raw_chunk_of tid c)) (\<lambda>payload.
     and_then (frame_new ((header_new MessageType.DownloadChunk rid 0)\<lparr>hdr_encoding := RawBinary\<rparr>) payload) (\<lambda>f.
     and_then (download_frames tid cs) (\<lambda>fs. Inr (f # fs))))"

definition download_frame_set ::
  "(DownloadEndPayload \<Rightarrow> bytes option) \<Rightarrow> (nat \<Rightarrow> Uuid) \<Rightarrow> HelperDownloadFile \<Rightarrow> DownloadFrameSet td_result" where
  "download_frame_set to_vec rids d =
     (let n = length (df_chunks d); tid = df_transfer_id d in
      and_then (download_frames tid (zip (map rids [0..<n]) (df_chunks d))) (\<lambda>fs.
      if n > U32_MAX then Inl TealDriveError.Internal
      else
        and_then (encode_msgpack to_vec \<lparr>dep_transfer_id = tid, dep_bytes_sent = df_total_bytes d,
            dep_chunk_count = n, dep_sha256 = None\<rparr>) (\<lambda>payload.
        and_then (frame_new ((header_new MessageType.DownloadEnd (rids n) 0)\<lparr>hdr_encoding := MessagePack\<rparr>) payload) (\<lambda>last.
        Inr \<lparr>dfs_transfer_id = tid, dfs_frames = fs @ [last], dfs_total_bytes = df_total_bytes d,
             dfs_chunk_count = n\<rparr>))))"

definition download_file_request where
  "download_file_request uuid to_vec rids helper rid1 rid2 user q config engine0 =
     (let engine = for_user engine0 (uc_username user) in
      then_do (lift_result (DownloadBeginRequest_validate q (cfg_limits config))) (\<lambda>_.
      then_do (lift_result (read_prepare FileOperation.DownloadFile HelperCommand.DownloadFile uuid rid2 user
          (dbr_root_id q) (dbr_relative_path q) config engine0)) (\<lambda>req.
      then_do (file_metadata_request uuid helper rid1 user
          \<lparr>fmr_root_id = dbr_root_id q, fmr_relative_path = hq_relative_path req\<rparr> config engine) (\<lambda>meta.
      then_do (lift_result (plain_file (fmp_entry meta))) (\<lambda>_.
      call_helper helper download_error
        (Inr (req\<lparr>hq_limits := (hq_limits req)\<lparr>hl_max_chunk_size :=
           max (min (case dbr_requested_chunk_size q of Some n \<Rightarrow> n | None \<Rightarrow> max_chunk_size (cfg_limits config))
             (max_chunk_size (cfg_limits config))) 1\<rparr>\<rparr>))
        (\<lambda>_ response. case hr_payload response of
           HelperResponsePayload.DownloadFile d \<Rightarrow> download_frame_set to_vec rids d
         | _ \<Rightarrow> Inl TealDriveError.HelperMalformedResponse))))))"

section \<open>What is sent\<close>

lemma sent_lift_result [simp]: "fst (lift_result r) = r" "snd (lift_result r) = []"
  by (simp_all add: lift_result_def)

lemma sent_then_do:
  "q \<in> set (snd (then_do m f)) \<longleftrightarrow> q \<in> set (snd m) \<or> (\<exists>x. fst m = Inr x \<and> q \<in> set (snd (f x)))"
  by (auto simp: then_do_def split: prod.splits sum.splits)

text \<open>The options and limits of a request play no part in what the network tier guarantees of it.\<close>

lemma sent_ok_options [simp]:
  "sent_ok uuid config user (q\<lparr>hq_limits := l\<rparr>) = sent_ok uuid config user q"
  "sent_ok uuid config user (q\<lparr>hq_list_options := lo\<rparr>) = sent_ok uuid config user q"
  "sent_ok uuid config user (q\<lparr>hq_write_options := wo\<rparr>) = sent_ok uuid config user q"
  "sent_ok uuid config user (q\<lparr>hq_search_options := so\<rparr>) = sent_ok uuid config user q"
  by (simp_all add: sent_ok_def created_path_def is_internal_trash_def)

lemma for_user_idem [simp]: "for_user (for_user e u) v = for_user e v"
  by (simp add: for_user_def)

lemma read_prepare_engine [simp]:
  "read_prepare op c uuid rid user i p config (for_user e u) = read_prepare op c uuid rid user i p config e"
  by (simp add: read_prepare_def)

lemma read_prepare_sent:
  assumes "read_prepare op c uuid rid user i p config (PolicyEngine_new config) = Inr h"
    and "(op, c) \<in> {(FileOperation.FileMetadata, HelperCommand.FileMetadata),
      (FileOperation.ReadTextFile, HelperCommand.ReadTextFile), (FileOperation.ListDirectory, HelperCommand.SearchFiles),
      (FileOperation.DownloadFile, HelperCommand.DownloadFile)}"
  shows "sent_ok uuid config user h"
proof -
  obtain path root d where
    "validate_relative_path p = Inr path" "require_allowed_root (cfg_roots config) i = Inr root"
    "check_operation uuid (for_user (PolicyEngine_new config) (uc_username user)) op i path None None
       (root_hidden_files_allowed root) = Inr d" "permits d"
    "h = base_request rid user config root c i path"
    using assms(1) by (auto simp: read_prepare_def prepare_simps)
  then show ?thesis
    using assms(2)
    by (intro permitted_sent [where op = op and root = root and d = d and target = None and fname = None
        and inc = "root_hidden_files_allowed root"]) (auto simp: sent_simps validate_idem)
qed

lemma metadata_sent:
  "h \<in> set (snd (file_metadata_request uuid helper rid user q config (PolicyEngine_new config)))
     \<Longrightarrow> sent_ok uuid config user h"
  by (auto simp: file_metadata_request_def dest!: call_helper_sent intro: read_prepare_sent)

lemma metadata_engine [simp]:
  "file_metadata_request uuid helper rid user q config (for_user e u)
     = file_metadata_request uuid helper rid user q config e"
  by (simp add: file_metadata_request_def)

lemma list_directory_sent:
  assumes "list_directory_prepare uuid rid user q config (PolicyEngine_new config) = Inr (r, h)"
  shows "sent_ok uuid config user h"
proof -
  obtain path root d lo where
    "validate_relative_path (ldr_relative_path q) = Inr path"
    "require_allowed_root (cfg_roots config) (ldr_root_id q) = Inr root"
    "check_operation uuid (for_user (PolicyEngine_new config) (uc_username user)) FileOperation.ListDirectory
       (ldr_root_id q) path None None (ldr_include_hidden q) = Inr d" "permits d"
    and h: "h = (base_request rid user config root HelperCommand.ListDirectory (ldr_root_id q) path)
       \<lparr>hq_list_options := lo\<rparr>"
    using assms by (auto simp: list_directory_prepare_def prepare_simps)
  then have "sent_ok uuid config user
      (base_request rid user config root HelperCommand.ListDirectory (ldr_root_id q) path)"
    by (intro permitted_sent [where op = FileOperation.ListDirectory and root = root and d = d and target = None
        and fname = None and inc = "ldr_include_hidden q"]) (auto simp: sent_simps validate_idem)
  with h show ?thesis by simp
qed

lemma save_prepare_sent:
  assumes "save_prepare uuid rid user q config (PolicyEngine_new config) = Inr h"
  shows "sent_ok uuid config user h"
proof -
  obtain path root d wo where
    "validate_relative_path (stf_relative_path q) = Inr path"
    "require_allowed_root (cfg_roots config) (stf_root_id q) = Inr root"
    "check_operation uuid (for_user (PolicyEngine_new config) (uc_username user)) FileOperation.SaveTextFile
       (stf_root_id q) path None None (root_hidden_files_allowed root) = Inr d" "permits d"
    and h: "h = (base_request rid user config root HelperCommand.WriteFile (stf_root_id q) path)
       \<lparr>hq_write_options := wo\<rparr>"
    using assms by (auto simp: save_prepare_def prepare_simps split: if_split_asm)
  then have "sent_ok uuid config user
      (base_request rid user config root HelperCommand.WriteFile (stf_root_id q) path)"
    by (intro permitted_sent [where op = FileOperation.SaveTextFile and root = root and d = d and target = None
        and fname = None and inc = "root_hidden_files_allowed root"]) (auto simp: sent_simps validate_idem)
  with h show ?thesis by simp
qed

lemma read_sent:
  "read_prepare FileOperation.ReadTextFile HelperCommand.ReadTextFile uuid rid user i p config (PolicyEngine_new config)
     = Inr h \<Longrightarrow> sent_ok uuid config user h"
  "read_prepare FileOperation.ListDirectory HelperCommand.SearchFiles uuid rid user i p config (PolicyEngine_new config)
     = Inr h \<Longrightarrow> sent_ok uuid config user h"
  "read_prepare FileOperation.DownloadFile HelperCommand.DownloadFile uuid rid user i p config (PolicyEngine_new config)
     = Inr h \<Longrightarrow> sent_ok uuid config user h"
  by (rule read_prepare_sent, assumption, simp)+

text \<open>Whatever the helper answers, no operation that reads or saves sends a request the policy of the
  server does not permit.\<close>

lemma list_directory_request_sent:
  "h \<in> set (snd (list_directory_request uuid helper rid user q config (PolicyEngine_new config)))
     \<Longrightarrow> sent_ok uuid config user h"
  by (auto simp: list_directory_request_def sent_then_do split: prod.splits
      dest!: call_helper_sent intro: list_directory_sent)

lemma read_text_file_request_sent:
  "h \<in> set (snd (read_text_file_request uuid helper rid rid' user q config (PolicyEngine_new config)))
     \<Longrightarrow> sent_ok uuid config user h"
  by (auto simp: read_text_file_request_def Let_def sent_then_do dest!: call_helper_sent
      intro: metadata_sent read_sent)

lemma save_text_file_request_sent:
  "h \<in> set (snd (save_text_file_request uuid helper rid rid' rid'' user q config (PolicyEngine_new config)))
     \<Longrightarrow> sent_ok uuid config user h"
  by (auto simp: save_text_file_request_def case_prod_beta sent_then_do dest!: call_helper_sent
      intro: metadata_sent save_prepare_sent)

lemma search_files_request_sent:
  "h \<in> set (snd (search_files_request uuid helper rid user q config (PolicyEngine_new config)))
     \<Longrightarrow> sent_ok uuid config user h"
  by (auto simp: search_files_request_def and_then_Inr dest!: call_helper_sent read_sent)

lemma download_file_request_sent:
  "h \<in> set (snd (download_file_request uuid to_vec rids helper rid rid' user q config (PolicyEngine_new config)))
     \<Longrightarrow> sent_ok uuid config user h"
  by (auto simp: download_file_request_def Let_def sent_then_do dest!: call_helper_sent
      intro: metadata_sent read_sent)

section \<open>What a download delivers\<close>

lemma chunk_header_wf:
  "frame_new ((header_new MessageType.DownloadChunk rid 0)\<lparr>hdr_encoding := RawBinary\<rparr>) p = Inr f
     \<Longrightarrow> frame_wf f \<and> frame_payload f = p"
  "frame_new ((header_new MessageType.DownloadEnd rid 0)\<lparr>hdr_encoding := MessagePack\<rparr>) p = Inr f
     \<Longrightarrow> frame_wf f \<and> frame_payload f = p"
  by (auto simp: frame_new_def frame_wf_def header_wf_def header_new_def is_v1_supported_def
      validate_encoding_for_message_def flags_empty_def limit_defs unat_of_nat split: if_split_asm)

text \<open>The chunk and the end of a transfer, read back from the bytes of a frame.\<close>

definition frame_chunk :: "bytes \<Rightarrow> RawChunk td_result" where
  "frame_chunk w = and_then (frame_decode w) (\<lambda>f. chunk_decode (frame_payload f))"

definition frame_end :: "(bytes \<Rightarrow> DownloadEndPayload option) \<Rightarrow> bytes \<Rightarrow> DownloadEndPayload td_result" where
  "frame_end from_slice w = and_then (frame_decode w) (\<lambda>f. decode_msgpack from_slice (frame_payload f))"

lemma frame_wf_travels: "frame_new h p = Inr f \<Longrightarrow> frame_wf f \<Longrightarrow> \<exists>w. frame_encode f = Inr w \<and> frame_decode w = Inr f"
  using frame_new_encodes frame_codec.decode_encode by blast

lemma download_frames_deliver:
  "download_frames tid (zip rs cs) = Inr fs \<Longrightarrow> length rs = length cs \<Longrightarrow>
     \<exists>ws. map frame_encode fs = map Inr ws \<and> map frame_chunk ws = map (\<lambda>c. Inr (raw_chunk_of tid c)) cs"
proof (induction cs arbitrary: rs fs)
  case Nil
  then show ?case by simp
next
  case (Cons c cs)
  obtain r rs' where rs: "rs = r # rs'" using Cons.prems(2) by (cases rs) auto
  then obtain p f fs' where step: "chunk_encode (raw_chunk_of tid c) = Inr p"
    "frame_new ((header_new MessageType.DownloadChunk r 0)\<lparr>hdr_encoding := RawBinary\<rparr>) p = Inr f"
    "download_frames tid (zip rs' cs) = Inr fs'" "fs = f # fs'"
    using Cons.prems(1) by (auto simp: and_then_Inr)
  obtain w where w: "frame_encode f = Inr w" "frame_decode w = Inr f"
    using frame_wf_travels step(2) chunk_header_wf(1) by blast
  obtain ws where "map frame_encode fs' = map Inr ws"
    "map frame_chunk ws = map (\<lambda>c. Inr (raw_chunk_of tid c)) cs"
    using Cons.IH [OF step(3)] Cons.prems(2) rs by auto
  moreover have "frame_chunk w = Inr (raw_chunk_of tid c)"
    using chunk_codec.decode_encode [OF _ step(1)] chunk_header_wf(1) [OF step(2)] w(2) by (simp add: frame_chunk_def result_simps)
  ultimately have "map frame_encode fs = map Inr (w # ws)
      \<and> map frame_chunk (w # ws) = map (\<lambda>c. Inr (raw_chunk_of tid c)) (c # cs)"
    using step(4) w(1) by simp
  then show ?case by blast
qed

text \<open>A download loses nothing. When the frames of a download are built, every one encodes; the
  receiver reads from them, in order, the chunks the helper produced, with their indices, offsets and
  bytes, and from the last frame the number of chunks and the total that were announced. The serialiser is
  only assumed to read back what it wrote.\<close>

theorem download_delivers_file:
  assumes "download_frame_set to_vec rids d = Inr s"
    and "\<And>v bs. to_vec v = Some bs \<Longrightarrow> from_slice bs = Some v"
  shows "\<exists>ws w. map frame_encode (dfs_frames s) = map Inr (ws @ [w])
    \<and> map frame_chunk ws = map (\<lambda>c. Inr (raw_chunk_of (df_transfer_id d) c)) (df_chunks d)
    \<and> frame_end from_slice w = Inr \<lparr>dep_transfer_id = df_transfer_id d, dep_bytes_sent = df_total_bytes d,
        dep_chunk_count = length (df_chunks d), dep_sha256 = None\<rparr>"
proof -
  let ?last = "\<lparr>dep_transfer_id = df_transfer_id d, dep_bytes_sent = df_total_bytes d,
      dep_chunk_count = length (df_chunks d), dep_sha256 = None\<rparr>"
  let ?rs = "map rids [0..<length (df_chunks d)]"
  obtain fs bs f where
    fs: "download_frames (df_transfer_id d) (zip ?rs (df_chunks d)) = Inr fs" "dfs_frames s = fs @ [f]"
    and f: "frame_new ((header_new MessageType.DownloadEnd (rids (length (df_chunks d))) 0)
        \<lparr>hdr_encoding := MessagePack\<rparr>) bs = Inr f"
    and bs: "to_vec ?last = Some bs" "length bs \<le> MAX_CONTROL_PAYLOAD"
    using assms(1)
    by (auto simp: download_frame_set_def Let_def encode_msgpack_def and_then_Inr ok_or_Inr split: if_split_asm)
  obtain ws where ws: "map frame_encode fs = map Inr ws"
    "map frame_chunk ws = map (\<lambda>c. Inr (raw_chunk_of (df_transfer_id d) c)) (df_chunks d)"
    using download_frames_deliver [OF fs(1)] by auto
  obtain w where w: "frame_encode f = Inr w" "frame_decode w = Inr f"
    using frame_wf_travels [OF f] chunk_header_wf(2) [OF f] by auto
  then have "frame_end from_slice w = Inr ?last"
    using chunk_header_wf(2) [OF f] bs assms(2) [OF bs(1)]
    by (simp add: frame_end_def decode_msgpack_def ok_or_def result_simps)
  with ws w(1) fs(2) have "map frame_encode (dfs_frames s) = map Inr (ws @ [w])
    \<and> map frame_chunk ws = map (\<lambda>c. Inr (raw_chunk_of (df_transfer_id d) c)) (df_chunks d)
    \<and> frame_end from_slice w = Inr ?last"
    by simp
  then show ?thesis by blast
qed

definition example_download :: HelperDownloadFile where
  "example_download = \<lparr>df_transfer_id = 5, df_total_bytes = 2,
     df_chunks = [\<lparr>dc_chunk_index = 0, dc_offset = 0, dc_chunk_bytes = [7, 8]\<rparr>]\<rparr>"

definition example_end :: DownloadEndPayload where
  "example_end = \<lparr>dep_transfer_id = 5, dep_bytes_sent = 2, dep_chunk_count = 1, dep_sha256 = None\<rparr>"

theorem download_delivers_file_witness:
  "\<exists>ws w. map frame_chunk ws = [Inr (raw_chunk_of 5 \<lparr>dc_chunk_index = 0, dc_offset = 0, dc_chunk_bytes = [7, 8]\<rparr>)]
    \<and> frame_end (\<lambda>bs. if bs = [1] then Some example_end else None) w = Inr example_end"
proof -
  let ?to = "\<lambda>v. if v = example_end then Some [1] else None"
  let ?from = "\<lambda>bs. if bs = [1] then Some example_end else None"
  have "\<exists>s. download_frame_set ?to (\<lambda>_. 9) example_download = Inr s"
    by (simp add: download_frame_set_def example_download_def example_end_def raw_chunk_of_def chunk_encode_def
        frame_new_def encode_msgpack_def limit_defs ok_or_def U32_MAX_def Let_def result_simps)
  then obtain s where "download_frame_set ?to (\<lambda>_. 9) example_download = Inr s" ..
  moreover have "?from bs = Some v" if "?to v = Some bs" for v bs
    using that by (simp split: if_split_asm)
  ultimately obtain ws w where "map frame_chunk ws
      = map (\<lambda>c. Inr (raw_chunk_of (df_transfer_id example_download) c)) (df_chunks example_download)"
    "frame_end ?from w = Inr \<lparr>dep_transfer_id = df_transfer_id example_download,
       dep_bytes_sent = df_total_bytes example_download, dep_chunk_count = length (df_chunks example_download),
       dep_sha256 = None\<rparr>"
    using download_delivers_file [of ?to "\<lambda>_. 9" example_download s ?from] by blast
  then show ?thesis by (intro exI [of _ ws] exI [of _ w]) (simp add: example_download_def example_end_def)
qed
end
