(* ===== verification/TD_Dispatch.thy ===== *)
theory TD_Dispatch
  imports TD_Fs_Read
begin

text \<open>
  The WebSocket protocol of the network tier: the handshake (\<open>src/ws/handshake.rs\<close>) and the dispatch of a
  decoded frame to the operation it asks for (\<open>src/ws/dispatch.rs\<close>). A handler takes the connection, the
  staging area and the suspended uploads as one state, and returns the frames to send or an error, the
  requests it has sent to the helper, and the state afterwards. The serialiser of control payloads, the
  helper, the clock, the disk and the identifiers drawn are parameters.
\<close>

section \<open>Payloads\<close>

record AuthenticationCapabilities =
  ac_web_password :: bool
  ac_password_change :: bool
  ac_self_revoke :: bool
  ac_account_management :: bool
  ac_account_pagination :: bool
  ac_audit_history :: bool
  ac_undo :: bool
  ac_linux_approval :: bool
  ac_policy_management :: bool
  ac_virtual_accounts :: bool
  ac_virtual_delete :: bool
  ac_enrollment :: bool
  ac_self_registration :: bool

record ServerHelloPayload =
  sh_upload_resume_seconds :: nat
  sh_authentication :: AuthenticationCapabilities
  sh_protocol_version :: u8
  sh_server_name :: string
  sh_selected_encoding :: "Encoding option"
  sh_supported_encodings :: "Encoding list"
  sh_supported_compressions :: "Compression list"
  sh_max_frame_size :: nat
  sh_max_control_payload_size :: nat
  sh_max_chunk_size :: nat
  sh_feature_flags :: FeatureFlags

record ClientHelloPayload =
  ch_protocol_version :: u8
  ch_supported_encodings :: "Encoding list"
  ch_supported_compressions :: "Compression list"
  ch_max_frame_size :: nat
  ch_max_control_payload_size :: nat
  ch_max_chunk_size :: nat
  ch_feature_flags :: FeatureFlags

definition ClientHelloPayload_validate :: "ClientHelloPayload \<Rightarrow> Limits \<Rightarrow> unit td_result" where
  "ClientHelloPayload_validate p limits =
     reject_if (ch_max_frame_size p > max_frame_payload limits
       \<or> ch_max_control_payload_size p > max_control_payload limits
       \<or> ch_max_chunk_size p > max_chunk_size limits)"

record ProtocolReadyPayload =
  pr_protocol_version :: u8
  pr_selected_encoding :: Encoding
  pr_selected_compression :: Compression
  pr_limits :: Limits
  pr_server_time :: "string option"

record ConnectionStatusPayload =
  cs_protocol_ready :: bool
  cs_message :: "string option"
  cs_shutting_down :: bool
  cs_grace_period_seconds :: "nat option"

record OperationFailedPayload =
  ofp_request_id :: Uuid
  ofp_operation :: string
  ofp_error :: ErrorPayload

record UploadResumeRequest =
  urq_transfer_id :: Uuid

text \<open>\<open>rmp_serde\<close> at the types the dispatcher decodes and encodes.\<close>

record RmpSerde =
  dec_client_hello :: "bytes \<Rightarrow> ClientHelloPayload option"
  dec_list_directory :: "bytes \<Rightarrow> ListDirectoryRequest option"
  dec_file_metadata :: "bytes \<Rightarrow> FileMetadataRequest option"
  dec_download_begin :: "bytes \<Rightarrow> DownloadBeginRequest option"
  dec_read_text_file :: "bytes \<Rightarrow> ReadTextFileRequest option"
  dec_save_text_file :: "bytes \<Rightarrow> SaveTextFileRequest option"
  dec_create_folder :: "bytes \<Rightarrow> CreateFolderRequest option"
  dec_rename_file :: "bytes \<Rightarrow> RenameFileRequest option"
  dec_move_file :: "bytes \<Rightarrow> MoveFileRequest option"
  dec_copy_file :: "bytes \<Rightarrow> MoveFileRequest option"
  dec_move_to_trash :: "bytes \<Rightarrow> MoveToTrashRequest option"
  dec_restore_from_trash :: "bytes \<Rightarrow> RestoreFromTrashRequest option"
  dec_delete_permanently :: "bytes \<Rightarrow> DeletePermanentlyRequest option"
  dec_list_trash :: "bytes \<Rightarrow> ListTrashRequest option"
  dec_chmod_file :: "bytes \<Rightarrow> ChmodFileRequest option"
  dec_compress_zip :: "bytes \<Rightarrow> CompressRequest option"
  dec_compress_targz :: "bytes \<Rightarrow> CompressRequest option"
  dec_extract_archive :: "bytes \<Rightarrow> ExtractArchiveRequest option"
  dec_search_files :: "bytes \<Rightarrow> SearchFilesRequest option"
  dec_upload_begin :: "bytes \<Rightarrow> UploadBeginRequest option"
  dec_upload_resume :: "bytes \<Rightarrow> UploadResumeRequest option"
  dec_upload_end :: "bytes \<Rightarrow> UploadEndRequest option"
  dec_upload_abort :: "bytes \<Rightarrow> UploadAbortRequest option"
  enc_server_hello :: "ServerHelloPayload \<Rightarrow> bytes option"
  enc_protocol_ready :: "ProtocolReadyPayload \<Rightarrow> bytes option"
  enc_error :: "ErrorPayload \<Rightarrow> bytes option"
  enc_operation_failed :: "OperationFailedPayload \<Rightarrow> bytes option"
  enc_connection_status :: "ConnectionStatusPayload \<Rightarrow> bytes option"
  enc_directory_list :: "DirectoryListResponse \<Rightarrow> bytes option"
  enc_file_metadata :: "FileMetadataPayload \<Rightarrow> bytes option"
  enc_download_end :: "DownloadEndPayload \<Rightarrow> bytes option"
  enc_text_file_content :: "TextFileContentPayload \<Rightarrow> bytes option"
  enc_operation_done :: "OperationDonePayload \<Rightarrow> bytes option"
  enc_move_to_trash :: "MoveToTrashPayload \<Rightarrow> bytes option"
  enc_trash_list :: "TrashListPayload \<Rightarrow> bytes option"
  enc_search_results :: "SearchResultsPayload \<Rightarrow> bytes option"
  enc_upload_begin :: "UploadBeginResponse \<Rightarrow> bytes option"
  enc_upload_resume :: "UploadResumeResponse \<Rightarrow> bytes option"
  enc_operation_progress :: "OperationProgressPayload \<Rightarrow> bytes option"
  enc_upload_end :: "UploadEndResponse \<Rightarrow> bytes option"

text \<open>The derived \<open>Debug\<close> formatting of the two enums.\<close>

primrec message_type_debug :: "MessageType \<Rightarrow> string" where
  "message_type_debug MessageType.ServerHello = ''ServerHello''"
| "message_type_debug MessageType.ClientHello = ''ClientHello''"
| "message_type_debug MessageType.ProtocolReady = ''ProtocolReady''"
| "message_type_debug MessageType.ConnectionStatus = ''ConnectionStatus''"
| "message_type_debug MessageType.Error = ''Error''"
| "message_type_debug MessageType.AuthLogin = ''AuthLogin''"
| "message_type_debug MessageType.AuthResult = ''AuthResult''"
| "message_type_debug MessageType.ListDirectory = ''ListDirectory''"
| "message_type_debug MessageType.DirectoryList = ''DirectoryList''"
| "message_type_debug MessageType.FileMetadata = ''FileMetadata''"
| "message_type_debug MessageType.ReadTextFile = ''ReadTextFile''"
| "message_type_debug MessageType.TextFileContent = ''TextFileContent''"
| "message_type_debug MessageType.SaveTextFile = ''SaveTextFile''"
| "message_type_debug MessageType.FileMetadataRequest = ''FileMetadataRequest''"
| "message_type_debug MessageType.SearchFiles = ''SearchFiles''"
| "message_type_debug MessageType.SearchResults = ''SearchResults''"
| "message_type_debug MessageType.ListTrash = ''ListTrash''"
| "message_type_debug MessageType.TrashList = ''TrashList''"
| "message_type_debug MessageType.UploadBegin = ''UploadBegin''"
| "message_type_debug MessageType.UploadChunk = ''UploadChunk''"
| "message_type_debug MessageType.UploadEnd = ''UploadEnd''"
| "message_type_debug MessageType.UploadAbort = ''UploadAbort''"
| "message_type_debug MessageType.UploadResume = ''UploadResume''"
| "message_type_debug MessageType.DownloadBegin = ''DownloadBegin''"
| "message_type_debug MessageType.DownloadChunk = ''DownloadChunk''"
| "message_type_debug MessageType.DownloadEnd = ''DownloadEnd''"
| "message_type_debug MessageType.CreateFolder = ''CreateFolder''"
| "message_type_debug MessageType.RenameFile = ''RenameFile''"
| "message_type_debug MessageType.MoveFile = ''MoveFile''"
| "message_type_debug MessageType.CopyFile = ''CopyFile''"
| "message_type_debug MessageType.MoveToTrash = ''MoveToTrash''"
| "message_type_debug MessageType.RestoreFromTrash = ''RestoreFromTrash''"
| "message_type_debug MessageType.DeletePermanently = ''DeletePermanently''"
| "message_type_debug MessageType.ChmodFile = ''ChmodFile''"
| "message_type_debug MessageType.CompressZip = ''CompressZip''"
| "message_type_debug MessageType.CompressTarGz = ''CompressTarGz''"
| "message_type_debug MessageType.ExtractArchive = ''ExtractArchive''"
| "message_type_debug MessageType.OperationStarted = ''OperationStarted''"
| "message_type_debug MessageType.OperationProgress = ''OperationProgress''"
| "message_type_debug MessageType.OperationDone = ''OperationDone''"
| "message_type_debug MessageType.OperationFailed = ''OperationFailed''"
| "message_type_debug MessageType.PermissionDenied = ''PermissionDenied''"
| "message_type_debug MessageType.PolicyDenied = ''PolicyDenied''"
| "message_type_debug MessageType.ValidationError = ''ValidationError''"

primrec error_kind_debug :: "ErrorKind \<Rightarrow> string" where
  "error_kind_debug ErrorKind.RevisionConflict = ''RevisionConflict''"
| "error_kind_debug ErrorKind.ValidationError = ''ValidationError''"
| "error_kind_debug ErrorKind.PermissionDenied = ''PermissionDenied''"
| "error_kind_debug ErrorKind.PolicyDenied = ''PolicyDenied''"
| "error_kind_debug ErrorKind.FeatureDisabled = ''FeatureDisabled''"
| "error_kind_debug ErrorKind.NotFound = ''NotFound''"
| "error_kind_debug ErrorKind.InvalidPath = ''InvalidPath''"
| "error_kind_debug ErrorKind.AlreadyExists = ''AlreadyExists''"
| "error_kind_debug ErrorKind.InvalidTarget = ''InvalidTarget''"
| "error_kind_debug ErrorKind.CrossDeviceMove = ''CrossDeviceMove''"
| "error_kind_debug ErrorKind.FileTooLarge = ''FileTooLarge''"
| "error_kind_debug ErrorKind.DiskFull = ''DiskFull''"
| "error_kind_debug ErrorKind.UnsupportedBinaryFile = ''UnsupportedBinaryFile''"
| "error_kind_debug ErrorKind.InvalidTextEncoding = ''InvalidTextEncoding''"
| "error_kind_debug ErrorKind.SymlinkLoop = ''SymlinkLoop''"
| "error_kind_debug ErrorKind.NameTooLong = ''NameTooLong''"
| "error_kind_debug ErrorKind.ReadOnlyFilesystem = ''ReadOnlyFilesystem''"
| "error_kind_debug ErrorKind.RateLimited = ''RateLimited''"
| "error_kind_debug ErrorKind.ProtocolError = ''ProtocolError''"
| "error_kind_debug ErrorKind.NotImplemented = ''NotImplemented''"
| "error_kind_debug ErrorKind.InternalError = ''InternalError''"

text \<open>\<open>to_uppercase\<close> on the ASCII names above.\<close>

definition to_uppercase :: "string \<Rightarrow> string" where
  "to_uppercase = map (\<lambda>c. if c \<in> set ''abcdefghijklmnopqrstuvwxyz'' then char_of (of_char c - 32 :: nat) else c)"

text \<open>A control payload as a frame.\<close>

definition reply :: "MessageType \<Rightarrow> Uuid \<Rightarrow> ('a \<Rightarrow> bytes option) \<Rightarrow> 'a \<Rightarrow> TdrvFrame td_result" where
  "reply m rid to_vec v =
     and_then (encode_msgpack to_vec v) (\<lambda>bs.
       frame_new ((header_new m rid 0)\<lparr>hdr_encoding := MessagePack\<rparr>) bs)"

section \<open>Handshake (\<open>handshake.rs\<close>)\<close>

definition TDRV_PROTOCOL_VERSION :: u8 where
  "TDRV_PROTOCOL_VERSION = 1"

definition server_supported_compressions :: "Compression list" where
  "server_supported_compressions = [NoCompression]"

definition server_hello :: "AppConfig \<Rightarrow> ServerHelloPayload" where
  "server_hello config =
     (let web = wa_enabled (cfg_web_accounts config); virt = cfg_virtual_accounts config in
      \<lparr>sh_upload_resume_seconds = ss_upload_resume_seconds (cfg_system_storage config),
       sh_authentication =
         \<lparr>ac_web_password = web, ac_password_change = web, ac_self_revoke = web,
          ac_account_management = web, ac_account_pagination = web,
          ac_audit_history = (web \<and> jc_enabled (cfg_journal config)),
          ac_undo = (web \<and> jc_enabled (cfg_journal config)), ac_linux_approval = web,
          ac_policy_management = web,
          ac_virtual_accounts = (web \<and> vc_enabled virt \<and> cfg_home_template config \<noteq> None),
          ac_virtual_delete = (web \<and> vc_enabled virt \<and> vc_allow_admin_delete virt), ac_enrollment = web,
          ac_self_registration = (web \<and> wa_self_registration (cfg_web_accounts config))\<rparr>,
       sh_protocol_version = TDRV_PROTOCOL_VERSION, sh_server_name = ''TealDrive'',
       sh_selected_encoding = Some MessagePack, sh_supported_encodings = [MessagePack, RawBinary],
       sh_supported_compressions = server_supported_compressions,
       sh_max_frame_size = max_frame_payload (cfg_limits config),
       sh_max_control_payload_size = max_control_payload (cfg_limits config),
       sh_max_chunk_size = max_chunk_size (cfg_limits config),
       sh_feature_flags = cfg_features config\<rparr>)"

definition create_server_hello_frame :: "RmpSerde \<Rightarrow> Uuid \<Rightarrow> AppConfig \<Rightarrow> TdrvFrame td_result" where
  "create_server_hello_frame m rid config =
     reply MessageType.ServerHello rid (enc_server_hello m) (server_hello config)"

definition decode_client_hello :: "RmpSerde \<Rightarrow> TdrvFrame \<Rightarrow> ClientHelloPayload td_result" where
  "decode_client_hello m frame =
     (if hdr_message_type (frame_header frame) \<noteq> MessageType.ClientHello
      then Inl TealDriveError.InvalidMessageDirection
      else if hdr_encoding (frame_header frame) \<noteq> MessagePack then Inl TealDriveError.InvalidEncoding
      else decode_msgpack (dec_client_hello m) (frame_payload frame))"

definition select_compression :: "Compression list \<Rightarrow> Compression td_result" where
  "select_compression client =
     (if NoCompression \<in> set client then Inr NoCompression else Inl TealDriveError.InvalidCompression)"

definition validate_client_hello :: "ClientHelloPayload \<Rightarrow> Limits \<Rightarrow> WsSelectedProtocol td_result" where
  "validate_client_hello p limits =
     (if ch_protocol_version p \<noteq> TDRV_PROTOCOL_VERSION then Inl TealDriveError.UnsupportedVersion
      else if MessagePack \<notin> set (ch_supported_encodings p) then Inl TealDriveError.InvalidEncoding
      else
        and_then (ClientHelloPayload_validate p limits) (\<lambda>_.
        and_then (select_compression (ch_supported_compressions p)) (\<lambda>compression.
        Inr \<lparr>wsp_protocol_version = TDRV_PROTOCOL_VERSION, wsp_selected_encoding = MessagePack,
             wsp_selected_compression = compression, wsp_effective_limits = limits\<rparr>)))"

definition create_protocol_ready_frame :: "RmpSerde \<Rightarrow> Uuid \<Rightarrow> WsSelectedProtocol \<Rightarrow> TdrvFrame td_result" where
  "create_protocol_ready_frame m rid selected =
     reply MessageType.ProtocolReady rid (enc_protocol_ready m)
       \<lparr>pr_protocol_version = TDRV_PROTOCOL_VERSION, pr_selected_encoding = wsp_selected_encoding selected,
        pr_selected_compression = wsp_selected_compression selected,
        pr_limits = wsp_effective_limits selected, pr_server_time = None\<rparr>"

definition apply_protocol_ready :: "WsConnectionContext \<Rightarrow> WsSelectedProtocol \<Rightarrow> WsConnectionContext" where
  "apply_protocol_ready context selected =
     context\<lparr>cc_selected_protocol := Some selected, cc_protocol_ready := True\<rparr>"

section \<open>Answers of the dispatcher (\<open>dispatch.rs\<close>)\<close>

datatype DispatchDecision = Outbound "TdrvFrame list" | DispatchPlaceholder TdrvFrame

datatype InboundFrameKind = Handshake MessageType | Operation MessageType | ProtocolMessage MessageType

definition classify_message :: "MessageType \<Rightarrow> InboundFrameKind" where
  "classify_message m =
     (if is_handshake m then Handshake m else if is_operation m then Operation m else ProtocolMessage m)"

definition error_frame :: "RmpSerde \<Rightarrow> Uuid \<Rightarrow> string \<Rightarrow> TdrvFrame td_result" where
  "error_frame m rid message =
     reply MessageType.Error rid (enc_error m)
       \<lparr>ep_code = ''PROTOCOL_ERROR'', ep_error_kind = ErrorKind.ProtocolError, ep_safe_message = message,
        ep_request_id = rid, ep_operation = None, ep_retryable = False, ep_policy_reason = None,
        ep_debug_ref = None\<rparr>"

definition operation_failed_payload :: "Uuid \<Rightarrow> MessageType \<Rightarrow> ErrorKind \<Rightarrow> string \<Rightarrow> OperationFailedPayload" where
  "operation_failed_payload rid mt kind message =
     \<lparr>ofp_request_id = rid, ofp_operation = message_type_debug mt,
      ofp_error =
        \<lparr>ep_code = (if kind = ErrorKind.RevisionConflict then ''REVISION_CONFLICT''
           else to_uppercase (error_kind_debug kind)),
         ep_error_kind = kind, ep_safe_message = message, ep_request_id = rid,
         ep_operation = Some (message_type_debug mt), ep_retryable = False, ep_policy_reason = None,
         ep_debug_ref = None\<rparr>\<rparr>"

definition operation_failed_frame ::
  "RmpSerde \<Rightarrow> Uuid \<Rightarrow> MessageType \<Rightarrow> ErrorKind \<Rightarrow> string \<Rightarrow> TdrvFrame td_result" where
  "operation_failed_frame m rid mt kind message =
     reply MessageType.OperationFailed rid (enc_operation_failed m) (operation_failed_payload rid mt kind message)"

definition connection_status_frame :: "RmpSerde \<Rightarrow> Uuid \<Rightarrow> WsConnectionContext \<Rightarrow> string \<Rightarrow> TdrvFrame td_result" where
  "connection_status_frame m rid context message =
     reply MessageType.ConnectionStatus rid (enc_connection_status m)
       \<lparr>cs_protocol_ready = cc_protocol_ready context, cs_message = Some message, cs_shutting_down = False,
        cs_grace_period_seconds = None\<rparr>"

definition placeholder_dispatch ::
  "RmpSerde \<Rightarrow> WsConnectionContext \<Rightarrow> TdrvFrame \<Rightarrow> MessageType \<Rightarrow> DispatchDecision td_result" where
  "placeholder_dispatch m context frame mt =
     (let rid = hdr_request_id (frame_header frame) in
      case FeatureGate_check mt (cc_features context) of
        Disabled _ _ \<Rightarrow>
          and_then (operation_failed_frame m rid mt ErrorKind.FeatureDisabled
            ''This operation is disabled in TealDrive V1.'') (\<lambda>f. Inr (Outbound [f]))
      | Allowed \<Rightarrow>
          and_then (operation_failed_frame m rid mt ErrorKind.NotImplemented
            ''This operation is not implemented yet.'') (\<lambda>f. Inr (Outbound [f])))"

text \<open>The result and the connection afterwards.\<close>

definition handle_client_hello ::
  "RmpSerde \<Rightarrow> Uuid \<Rightarrow> TdrvFrame \<Rightarrow> WsConnectionContext \<Rightarrow> DispatchDecision td_result \<times> WsConnectionContext" where
  "handle_client_hello m rid frame context =
     (let limits = (case cc_selected_protocol context of Some p \<Rightarrow> wsp_effective_limits p | None \<Rightarrow> Limits_default) in
      case and_then (decode_client_hello m frame) (\<lambda>p.
           and_then (validate_client_hello p limits) (\<lambda>selected.
           and_then (create_protocol_ready_frame m rid selected) (\<lambda>ready. Inr (selected, ready)))) of
        Inl e \<Rightarrow> (Inl e, context)
      | Inr (selected, ready) \<Rightarrow> (Inr (Outbound [ready]), apply_protocol_ready context selected))"

definition handle_inbound_frame ::
  "RmpSerde \<Rightarrow> Uuid \<Rightarrow> bytes \<Rightarrow> WsConnectionContext \<Rightarrow> DispatchDecision td_result \<times> WsConnectionContext" where
  "handle_inbound_frame m rid bs context =
     (case and_then (frame_decode bs) (\<lambda>f.
           and_then (validate_inbound_client (hdr_message_type (frame_header f))) (\<lambda>_. Inr f)) of
        Inl e \<Rightarrow> (Inl e, context)
      | Inr frame \<Rightarrow>
          (case classify_message (hdr_message_type (frame_header frame)) of
             Handshake MessageType.ClientHello \<Rightarrow> handle_client_hello m rid frame context
           | Handshake _ \<Rightarrow> (Inl TealDriveError.InvalidMessageDirection, context)
           | Operation mt \<Rightarrow>
               if \<not> cc_protocol_ready context then (Inl TealDriveError.Validation, context)
               else (placeholder_dispatch m context frame mt, context)
           | ProtocolMessage _ \<Rightarrow>
               (and_then (connection_status_frame m rid context ''connected'') (\<lambda>f. Inr (Outbound [f])), context)))"

section \<open>Handlers without connection state\<close>

definition frame_guard :: "MessageType \<Rightarrow> Encoding \<Rightarrow> WsConnectionContext \<Rightarrow> TdrvFrame \<Rightarrow> unit td_result" where
  "frame_guard expected encoding context frame =
     (if \<not> cc_protocol_ready context then Inl TealDriveError.Validation
      else if hdr_message_type (frame_header frame) \<noteq> expected then Inl TealDriveError.Validation
      else if hdr_encoding (frame_header frame) \<noteq> encoding then Inl TealDriveError.InvalidEncoding
      else Inr ())"

text \<open>All of them decode a request, run it for the user of the connection, and answer under the
  identifier of the request.\<close>

definition run_service ::
  "MessageType \<Rightarrow> (bytes \<Rightarrow> 'q option) \<Rightarrow> (UserContext \<Rightarrow> 'q \<Rightarrow> AppConfig \<Rightarrow> PolicyEngine \<Rightarrow> 'r sending)
   \<Rightarrow> (Uuid \<Rightarrow> 'r \<Rightarrow> 'f td_result) \<Rightarrow> WsConnectionContext \<Rightarrow> TdrvFrame \<Rightarrow> AppConfig \<Rightarrow> 'f sending" where
  "run_service expected from_slice run answer context frame config =
     then_do (lift_result (and_then (frame_guard expected MessagePack context frame) (\<lambda>_.
       decode_msgpack from_slice (frame_payload frame)))) (\<lambda>q.
     then_do (run (user_context context) q config (PolicyEngine_new config)) (\<lambda>r.
     lift_result (answer (hdr_request_id (frame_header frame)) r)))"

text \<open>What a handler finds around it: the identifiers it draws, the clock, the disk, and the helper.\<close>

record FrameEnv =
  fe_uuid :: "string \<Rightarrow> string option"
  fe_uuid_text :: "Uuid \<Rightarrow> string"
  fe_temp_dir :: string
  fe_rids :: "nat \<Rightarrow> Uuid"
  fe_now :: nat
  fe_budget :: BudgetEnv
  fe_staging :: StagingEnv
  fe_stat :: StagedStat
  fe_sha :: "bytes \<Rightarrow> string"
  fe_open_ok :: bool
  fe_read_ok :: bool
  fe_unlink_ok :: bool
  fe_helper :: "HelperRequest \<Rightarrow> HelperResponse td_result"
  fe_stream_helper :: "HelperRequest \<Rightarrow> bytes \<Rightarrow> HelperResponse td_result"

definition handle_list_directory_frame where
  "handle_list_directory_frame m env =
     run_service MessageType.ListDirectory (dec_list_directory m) (list_directory_request (fe_uuid env) (fe_helper env) (fe_rids env 0))
       (\<lambda>rid. reply MessageType.DirectoryList rid (enc_directory_list m))"

definition handle_file_metadata_frame where
  "handle_file_metadata_frame m env =
     run_service MessageType.FileMetadataRequest (dec_file_metadata m) (file_metadata_request (fe_uuid env) (fe_helper env) (fe_rids env 0))
       (\<lambda>rid. reply MessageType.FileMetadata rid (enc_file_metadata m))"

definition handle_read_text_file_frame where
  "handle_read_text_file_frame m env =
     run_service MessageType.ReadTextFile (dec_read_text_file m) (read_text_file_request (fe_uuid env) (fe_helper env) (fe_rids env 0) (fe_rids env 1))
       (\<lambda>rid. reply MessageType.TextFileContent rid (enc_text_file_content m))"

definition handle_save_text_file_frame where
  "handle_save_text_file_frame m env =
     run_service MessageType.SaveTextFile (dec_save_text_file m) (save_text_file_request (fe_uuid env) (fe_helper env) (fe_rids env 0) (fe_rids env 1) (fe_rids env 2))
       (\<lambda>rid. reply MessageType.OperationDone rid (enc_operation_done m))"

definition handle_create_folder_frame where
  "handle_create_folder_frame m env =
     run_service MessageType.CreateFolder (dec_create_folder m) (create_folder_request (fe_uuid env) (fe_helper env) (fe_rids env 0))
       (\<lambda>rid. reply MessageType.OperationDone rid (enc_operation_done m))"

definition handle_rename_file_frame where
  "handle_rename_file_frame m env =
     run_service MessageType.RenameFile (dec_rename_file m) (rename_file_request (fe_uuid env) (fe_helper env) (fe_rids env 0))
       (\<lambda>rid. reply MessageType.OperationDone rid (enc_operation_done m))"

definition handle_move_file_frame where
  "handle_move_file_frame m env =
     run_service MessageType.MoveFile (dec_move_file m) (move_file_request (fe_uuid env) (fe_helper env) (fe_rids env 0))
       (\<lambda>rid. reply MessageType.OperationDone rid (enc_operation_done m))"

definition handle_copy_file_frame where
  "handle_copy_file_frame m env =
     run_service MessageType.CopyFile (dec_copy_file m) (copy_file_request (fe_uuid env) (fe_helper env) (fe_rids env 0))
       (\<lambda>rid. reply MessageType.OperationDone rid (enc_operation_done m))"

definition handle_move_to_trash_frame where
  "handle_move_to_trash_frame m env =
     run_service MessageType.MoveToTrash (dec_move_to_trash m) (move_to_trash_request (fe_uuid env) (fe_helper env) (fe_rids env 0))
       (\<lambda>rid. reply MessageType.OperationDone rid (enc_move_to_trash m))"

definition handle_restore_from_trash_frame where
  "handle_restore_from_trash_frame m env =
     run_service MessageType.RestoreFromTrash (dec_restore_from_trash m) (restore_from_trash_request (fe_uuid env) (fe_helper env) (fe_rids env 0))
       (\<lambda>rid. reply MessageType.OperationDone rid (enc_operation_done m))"

definition handle_delete_permanently_frame where
  "handle_delete_permanently_frame m env =
     run_service MessageType.DeletePermanently (dec_delete_permanently m) (delete_permanently_request (fe_uuid env) (fe_helper env) (fe_rids env 0))
       (\<lambda>rid. reply MessageType.OperationDone rid (enc_operation_done m))"

definition handle_list_trash_frame where
  "handle_list_trash_frame m env =
     run_service MessageType.ListTrash (dec_list_trash m) (list_trash_request (fe_uuid env) (fe_helper env) (fe_rids env 0))
       (\<lambda>rid. reply MessageType.TrashList rid (enc_trash_list m))"

definition handle_chmod_file_frame where
  "handle_chmod_file_frame m env =
     run_service MessageType.ChmodFile (dec_chmod_file m) (chmod_file_request (fe_uuid env) (fe_helper env) (fe_rids env 0))
       (\<lambda>rid. reply MessageType.OperationDone rid (enc_operation_done m))"

definition handle_compress_zip_frame where
  "handle_compress_zip_frame m env =
     run_service MessageType.CompressZip (dec_compress_zip m) (compress_zip_request (fe_uuid env) (fe_helper env) (fe_rids env 0))
       (\<lambda>rid. reply MessageType.OperationDone rid (enc_operation_done m))"

definition handle_compress_targz_frame where
  "handle_compress_targz_frame m env =
     run_service MessageType.CompressTarGz (dec_compress_targz m) (compress_targz_request (fe_uuid env) (fe_helper env) (fe_rids env 0))
       (\<lambda>rid. reply MessageType.OperationDone rid (enc_operation_done m))"

definition handle_extract_archive_frame where
  "handle_extract_archive_frame m env =
     run_service MessageType.ExtractArchive (dec_extract_archive m) (extract_archive_request (fe_uuid env) (fe_helper env) (fe_rids env 0))
       (\<lambda>rid. reply MessageType.OperationDone rid (enc_operation_done m))"

definition handle_search_files_frame where
  "handle_search_files_frame m env =
     run_service MessageType.SearchFiles (dec_search_files m) (search_files_request (fe_uuid env) (fe_helper env) (fe_rids env 0))
       (\<lambda>rid. reply MessageType.SearchResults rid (enc_search_results m))"

definition handle_download_begin_frame where
  "handle_download_begin_frame m env =
     run_service MessageType.DownloadBegin (dec_download_begin m)
       (download_file_request (fe_uuid env) (enc_download_end m) (\<lambda>n. fe_rids env (n + 2)) (fe_helper env)
          (fe_rids env 0) (fe_rids env 1))
       (\<lambda>rid r. Inr (dfs_frames r))"

section \<open>Handlers of uploads\<close>

record DispatchState =
  ds_context :: WsConnectionContext
  ds_usage :: StageUsage
  ds_ledger :: "Lease option list"
  ds_files :: StagedFiles
  ds_pending :: Pending

definition set_active :: "((Uuid \<times> ActiveUpload) list \<Rightarrow> (Uuid \<times> ActiveUpload) list) \<Rightarrow> DispatchState \<Rightarrow> DispatchState" where
  "set_active f st = st\<lparr>ds_context := (ds_context st)\<lparr>cc_active_uploads := f (cc_active_uploads (ds_context st))\<rparr>\<rparr>"

text \<open>An upload that nobody holds any more gives back its reservation: the counters, and the lease on
  disk. Its lease carries the identifier in the name of its staging file.\<close>

definition lease_path :: "ActiveUpload \<Rightarrow> string" where
  "lease_path up =
     (case Option.bind (strip_prefix ''.tdrv-upload-'' (up_temp_name up)) (strip_suffix ''.tmp'') of
        Some name \<Rightarrow> name @ ''.lease'' | None \<Rightarrow> [])"

definition drop_uploads :: "BudgetEnv \<Rightarrow> ActiveUpload list \<Rightarrow> DispatchState \<Rightarrow> DispatchState" where
  "drop_uploads benv ups st =
     st\<lparr>ds_usage := fold (\<lambda>u. release_staging (up_reserved u)) ups (ds_usage st),
        ds_ledger := fold (\<lambda>u. drop_reservation benv (lease_path u)) ups (ds_ledger st)\<rparr>"

definition handle_upload_begin_frame ::
  "RmpSerde \<Rightarrow> FrameEnv \<Rightarrow> TdrvFrame \<Rightarrow> AppConfig \<Rightarrow> DispatchState \<Rightarrow> TdrvFrame td_result \<times> DispatchState" where
  "handle_upload_begin_frame m env frame config st =
     (case and_then (frame_guard MessageType.UploadBegin MessagePack (ds_context st) frame) (\<lambda>_.
           decode_msgpack (dec_upload_begin m) (frame_payload frame)) of
        Inl e \<Rightarrow> (Inl e, st)
      | Inr q \<Rightarrow>
          (case upload_begin_request (fe_uuid env) (fe_uuid_text env) (fe_temp_dir env) (fe_budget env)
                  (fe_staging env) (fe_rids env 0) (user_context (ds_context st)) q config (PolicyEngine_new config)
                  (ds_usage st, ds_ledger st, ds_files st) of
             (r, usage, ledger, files) \<Rightarrow>
               let st = st\<lparr>ds_usage := usage, ds_ledger := ledger, ds_files := files\<rparr> in
               (case r of
                  Inl e \<Rightarrow> (Inl e, st)
                | Inr (up, response) \<Rightarrow>
                    (reply MessageType.OperationStarted (hdr_request_id (frame_header frame)) (enc_upload_begin m) response,
                     set_active (AList.update (up_transfer_id up) up) st))))"

definition handle_upload_chunk_frame ::
  "RmpSerde \<Rightarrow> FrameEnv \<Rightarrow> TdrvFrame \<Rightarrow> AppConfig \<Rightarrow> DispatchState \<Rightarrow> TdrvFrame td_result \<times> DispatchState" where
  "handle_upload_chunk_frame m env frame config st =
     (case and_then (frame_guard MessageType.UploadChunk RawBinary (ds_context st) frame) (\<lambda>_.
           and_then (chunk_decode (frame_payload frame)) (\<lambda>chunk.
           and_then (ok_or (map_of (cc_active_uploads (ds_context st)) (chunk_transfer_id chunk))
             TealDriveError.NotFound) (\<lambda>up. Inr (chunk, up)))) of
        Inl e \<Rightarrow> (Inl e, st)
      | Inr (chunk, up) \<Rightarrow>
          (case upload_chunk_request (fe_staging env) (fe_rids env 0) chunk config (up, ds_files st) of
             (r, up', files) \<Rightarrow>
               (and_then r (reply MessageType.OperationProgress (hdr_request_id (frame_header frame))
                  (enc_operation_progress m)),
                set_active (AList.update (chunk_transfer_id chunk) up') (st\<lparr>ds_files := files\<rparr>))))"

definition handle_upload_end_frame ::
  "RmpSerde \<Rightarrow> FrameEnv \<Rightarrow> TdrvFrame \<Rightarrow> AppConfig \<Rightarrow> DispatchState \<Rightarrow> TdrvFrame sending \<times> DispatchState" where
  "handle_upload_end_frame m env frame config st =
     (case and_then (frame_guard MessageType.UploadEnd MessagePack (ds_context st) frame) (\<lambda>_.
           and_then (decode_msgpack (dec_upload_end m) (frame_payload frame)) (\<lambda>q.
           and_then (ok_or (map_of (cc_active_uploads (ds_context st)) (ue_transfer_id q))
             TealDriveError.NotFound) (\<lambda>up. Inr (q, up)))) of
        Inl e \<Rightarrow> (lift_result (Inl e), st)
      | Inr (q, up) \<Rightarrow>
          (case upload_end_request (fe_sha env) (fe_stream_helper env) (fe_open_ok env) (fe_read_ok env)
                  (fe_unlink_ok env) (fe_rids env 0) (user_context (ds_context st)) up q config (ds_files st) of
             (s, files) \<Rightarrow>
               (then_do s (\<lambda>r. lift_result
                  (reply MessageType.OperationDone (hdr_request_id (frame_header frame)) (enc_upload_end m) r)),
                drop_uploads (fe_budget env) [up]
                  (set_active (AList.delete (ue_transfer_id q)) (st\<lparr>ds_files := files\<rparr>)))))"

definition handle_upload_abort_frame ::
  "RmpSerde \<Rightarrow> FrameEnv \<Rightarrow> TdrvFrame \<Rightarrow> DispatchState \<Rightarrow> TdrvFrame td_result \<times> DispatchState" where
  "handle_upload_abort_frame m env frame st =
     (case and_then (frame_guard MessageType.UploadAbort MessagePack (ds_context st) frame) (\<lambda>_.
           decode_msgpack (dec_upload_abort m) (frame_payload frame)) of
        Inl e \<Rightarrow> (Inl e, st)
      | Inr q \<Rightarrow>
          (let (taken, st) =
             (case map_of (cc_active_uploads (ds_context st)) (ua_transfer_id q) of
                Some up \<Rightarrow> (Inr up, set_active (AList.delete (ua_transfer_id q)) st)
              | None \<Rightarrow>
                  (case take_for_abort (ds_context st) (ua_transfer_id q) (ds_pending st) of
                     (r, pending) \<Rightarrow> (r, st\<lparr>ds_pending := pending\<rparr>)))
           in case taken of
                Inl e \<Rightarrow> (Inl e, st)
              | Inr up \<Rightarrow>
                  (case upload_abort_request (fe_unlink_ok env) (fe_rids env 0) up q (ds_files st) of
                     (r, files) \<Rightarrow>
                       (and_then r (reply MessageType.OperationDone (hdr_request_id (frame_header frame))
                          (enc_operation_done m)),
                        drop_uploads (fe_budget env) [up] (st\<lparr>ds_files := files\<rparr>)))))"

text \<open>Resuming first forgets the records that have expired; those, and a record that fails its checks, are
  dropped.\<close>

definition handle_upload_resume ::
  "RmpSerde \<Rightarrow> FrameEnv \<Rightarrow> TdrvFrame \<Rightarrow> AppConfig \<Rightarrow> DispatchState \<Rightarrow> TdrvFrame td_result \<times> DispatchState" where
  "handle_upload_resume m env frame config st =
     (case decode_msgpack (dec_upload_resume m) (frame_payload frame) of
        Inl e \<Rightarrow> (Inl e, st)
      | Inr q \<Rightarrow>
          (case take_upload (fe_uuid env) (fe_sha env) (fe_stat env) (fe_now env) (ds_context st)
                  (urq_transfer_id q) config (ds_pending st, ds_files st) of
             (r, pending, files) \<Rightarrow>
               let kept = set (map fst pending) \<union> (case r of Inr _ \<Rightarrow> {urq_transfer_id q} | Inl _ \<Rightarrow> {});
                   gone = map (sus_upload \<circ> snd) (filter (\<lambda>p. fst p \<notin> kept) (ds_pending st));
                   st = drop_uploads (fe_budget env) gone (st\<lparr>ds_pending := pending, ds_files := files\<rparr>)
               in (case r of
                     Inl e \<Rightarrow> (Inl e, st)
                   | Inr (up, response) \<Rightarrow>
                       (reply MessageType.OperationStarted (hdr_request_id (frame_header frame))
                          (enc_upload_resume m) response,
                        set_active (AList.update (up_transfer_id up) up) st))))"

section \<open>Dispatch\<close>

type_synonym dispatched = "DispatchDecision td_result \<times> HelperRequest list \<times> DispatchState"

definition answer_with :: "DispatchState \<Rightarrow> TdrvFrame sending \<Rightarrow> dispatched" where
  "answer_with st s = (and_then (fst s) (\<lambda>f. Inr (Outbound [f])), snd s, st)"

text \<open>The handlers of uploads but the last send nothing to the helper.\<close>

definition answer_upload :: "TdrvFrame td_result \<times> DispatchState \<Rightarrow> dispatched" where
  "answer_upload s = (and_then (fst s) (\<lambda>f. Inr (Outbound [f])), [], snd s)"

definition handle_operation_with_service ::
  "RmpSerde \<Rightarrow> FrameEnv \<Rightarrow> TdrvFrame \<Rightarrow> MessageType \<Rightarrow> AppConfig \<Rightarrow> DispatchState \<Rightarrow> dispatched" where
  "handle_operation_with_service m env frame mt config st =
     (let c = ds_context st in
      case mt of
        MessageType.SearchFiles \<Rightarrow> answer_with st (handle_search_files_frame m env c frame config)
      | MessageType.ListDirectory \<Rightarrow> answer_with st (handle_list_directory_frame m env c frame config)
      | MessageType.FileMetadataRequest \<Rightarrow> answer_with st (handle_file_metadata_frame m env c frame config)
      | MessageType.DownloadBegin \<Rightarrow>
          (case handle_download_begin_frame m env c frame config of
             (r, sent) \<Rightarrow> (and_then r (\<lambda>fs. Inr (Outbound fs)), sent, st))
      | MessageType.ReadTextFile \<Rightarrow> answer_with st (handle_read_text_file_frame m env c frame config)
      | MessageType.SaveTextFile \<Rightarrow> answer_with st (handle_save_text_file_frame m env c frame config)
      | MessageType.CreateFolder \<Rightarrow> answer_with st (handle_create_folder_frame m env c frame config)
      | MessageType.RenameFile \<Rightarrow> answer_with st (handle_rename_file_frame m env c frame config)
      | MessageType.MoveFile \<Rightarrow> answer_with st (handle_move_file_frame m env c frame config)
      | MessageType.CopyFile \<Rightarrow> answer_with st (handle_copy_file_frame m env c frame config)
      | MessageType.MoveToTrash \<Rightarrow> answer_with st (handle_move_to_trash_frame m env c frame config)
      | MessageType.RestoreFromTrash \<Rightarrow> answer_with st (handle_restore_from_trash_frame m env c frame config)
      | MessageType.DeletePermanently \<Rightarrow> answer_with st (handle_delete_permanently_frame m env c frame config)
      | MessageType.ListTrash \<Rightarrow> answer_with st (handle_list_trash_frame m env c frame config)
      | MessageType.ChmodFile \<Rightarrow> answer_with st (handle_chmod_file_frame m env c frame config)
      | MessageType.CompressZip \<Rightarrow> answer_with st (handle_compress_zip_frame m env c frame config)
      | MessageType.CompressTarGz \<Rightarrow> answer_with st (handle_compress_targz_frame m env c frame config)
      | MessageType.ExtractArchive \<Rightarrow> answer_with st (handle_extract_archive_frame m env c frame config)
      | MessageType.UploadBegin \<Rightarrow> answer_upload (handle_upload_begin_frame m env frame config st)
      | MessageType.UploadResume \<Rightarrow> answer_upload (handle_upload_resume m env frame config st)
      | MessageType.UploadChunk \<Rightarrow> answer_upload (handle_upload_chunk_frame m env frame config st)
      | MessageType.UploadEnd \<Rightarrow> (case handle_upload_end_frame m env frame config st of (s, st') \<Rightarrow> answer_with st' s)
      | MessageType.UploadAbort \<Rightarrow> answer_upload (handle_upload_abort_frame m env frame st)
      | _ \<Rightarrow> (placeholder_dispatch m c frame mt, [], st))"

definition handle_decoded_frame_with_service ::
  "RmpSerde \<Rightarrow> FrameEnv \<Rightarrow> TdrvFrame \<Rightarrow> AppConfig \<Rightarrow> DispatchState \<Rightarrow> dispatched" where
  "handle_decoded_frame_with_service m env frame config st =
     (case validate_inbound_client (hdr_message_type (frame_header frame)) of
        Inl e \<Rightarrow> (Inl e, [], st)
      | Inr _ \<Rightarrow>
          (case classify_message (hdr_message_type (frame_header frame)) of
             Handshake MessageType.ClientHello \<Rightarrow>
               (case handle_client_hello m (fe_rids env 0) frame (ds_context st) of
                  (r, c) \<Rightarrow> (r, [], st\<lparr>ds_context := c\<rparr>))
           | Handshake _ \<Rightarrow> (Inl TealDriveError.InvalidMessageDirection, [], st)
           | Operation mt \<Rightarrow>
               if \<not> cc_protocol_ready (ds_context st) then (Inl TealDriveError.Validation, [], st)
               else handle_operation_with_service m env frame mt config st
           | ProtocolMessage _ \<Rightarrow> (Inl TealDriveError.InvalidMessageDirection, [], st)))"

definition handle_inbound_frame_with_service ::
  "RmpSerde \<Rightarrow> FrameEnv \<Rightarrow> bytes \<Rightarrow> AppConfig \<Rightarrow> DispatchState \<Rightarrow> dispatched" where
  "handle_inbound_frame_with_service m env bs config st =
     (case frame_decode bs of
        Inl e \<Rightarrow> (Inl e, [], st)
      | Inr frame \<Rightarrow> handle_decoded_frame_with_service m env frame config st)"

section \<open>What reaches the helper\<close>

lemma run_service_sent:
  assumes "q \<in> set (snd (run_service expected from_slice run answer context frame config))"
    and "\<And>req. q \<in> set (snd (run (user_context context) req config (PolicyEngine_new config))) \<Longrightarrow> P"
  shows P
  using assms by (auto simp: run_service_def sent_then_do)

lemma write_requests_sent:
  "h \<in> set (snd (create_folder_request uuid helper rid user q1 config (PolicyEngine_new config))) \<Longrightarrow> sent_ok uuid config user h"
  "h \<in> set (snd (rename_file_request uuid helper rid user q2 config (PolicyEngine_new config))) \<Longrightarrow> sent_ok uuid config user h"
  "h \<in> set (snd (move_file_request uuid helper rid user q3 config (PolicyEngine_new config))) \<Longrightarrow> sent_ok uuid config user h"
  "h \<in> set (snd (copy_file_request uuid helper rid user q3 config (PolicyEngine_new config))) \<Longrightarrow> sent_ok uuid config user h"
  "h \<in> set (snd (move_to_trash_request uuid helper rid user q4 config (PolicyEngine_new config))) \<Longrightarrow> sent_ok uuid config user h"
  "h \<in> set (snd (restore_from_trash_request uuid helper rid user q5 config (PolicyEngine_new config))) \<Longrightarrow> sent_ok uuid config user h"
  "h \<in> set (snd (delete_permanently_request uuid helper rid user q6 config (PolicyEngine_new config))) \<Longrightarrow> sent_ok uuid config user h"
  "h \<in> set (snd (list_trash_request uuid helper rid user q7 config (PolicyEngine_new config))) \<Longrightarrow> sent_ok uuid config user h"
  "h \<in> set (snd (chmod_file_request uuid helper rid user q8 config (PolicyEngine_new config))) \<Longrightarrow> sent_ok uuid config user h"
  "h \<in> set (snd (compress_zip_request uuid helper rid user q9 config (PolicyEngine_new config))) \<Longrightarrow> sent_ok uuid config user h"
  "h \<in> set (snd (compress_targz_request uuid helper rid user q9 config (PolicyEngine_new config))) \<Longrightarrow> sent_ok uuid config user h"
  "h \<in> set (snd (extract_archive_request uuid helper rid user q10 config (PolicyEngine_new config))) \<Longrightarrow> sent_ok uuid config user h"
  by (auto simp: create_folder_request_def rename_file_request_def move_file_request_def copy_file_request_def
      move_to_trash_request_def restore_from_trash_request_def delete_permanently_request_def
      list_trash_request_def chmod_file_request_def compress_zip_request_def compress_targz_request_def
      extract_archive_request_def dest!: call_helper_sent
      intro: create_folder_sent rename_sent move_copy_sent move_to_trash_sent restore_sent
        delete_permanently_sent list_trash_sent chmod_sent compress_sent extract_sent)

lemmas service_handler_defs =
  handle_list_directory_frame_def handle_file_metadata_frame_def handle_read_text_file_frame_def
  handle_save_text_file_frame_def handle_create_folder_frame_def handle_rename_file_frame_def
  handle_move_file_frame_def handle_copy_file_frame_def handle_move_to_trash_frame_def
  handle_restore_from_trash_frame_def handle_delete_permanently_frame_def handle_list_trash_frame_def
  handle_chmod_file_frame_def handle_compress_zip_frame_def handle_compress_targz_frame_def
  handle_extract_archive_frame_def handle_search_files_frame_def handle_download_begin_frame_def

text \<open>The commit of a finished upload is the one request that is not decided anew: it is that of an upload which is
  open in this connection, whose bytes have all arrived, for a root of the configuration in force.\<close>

definition commit_of :: "(Uuid \<times> ActiveUpload) list \<Rightarrow> AppConfig \<Rightarrow> UserContext \<Rightarrow> HelperRequest \<Rightarrow> bool" where
  "commit_of active config user q \<longleftrightarrow>
     (\<exists>k up root. (k, up) \<in> set active \<and> up_bytes_received up = up_total_size up
        \<and> require_allowed_root (cfg_roots config) (up_root_id up) = Inr root
        \<and> q = upload_commit_request (hq_request_id q) user up config root)"

lemma end_frame_sent:
  assumes "q \<in> set (snd (fst (handle_upload_end_frame m env frame config st)))"
  shows "commit_of (cc_active_uploads (ds_context st)) config (user_context (ds_context st)) q"
proof -
  obtain ueq up s files where
    up: "map_of (cc_active_uploads (ds_context st)) (ue_transfer_id ueq) = Some up"
    and e: "upload_end_request (fe_sha env) (fe_stream_helper env) (fe_open_ok env) (fe_read_ok env) (fe_unlink_ok env)
        (fe_rids env 0) (user_context (ds_context st)) up ueq config (ds_files st) = (s, files)"
    and q: "q \<in> set (snd s)"
    using assms
    by (auto simp: handle_upload_end_frame_def sent_then_do and_then_Inr ok_or_Inr split: sum.split_asm prod.split_asm)
  obtain root where "q = upload_commit_request (fe_rids env 0) (user_context (ds_context st)) up config root"
    "require_allowed_root (cfg_roots config) (up_root_id up) = Inr root" "up_bytes_received up = up_total_size up"
    using upload_end_sent [of _ _ _ _ _ _ _ _ _ _ _ "fst s" "snd s"] e q by (metis prod.collapse)
  moreover from this(1) have "hq_request_id q = fe_rids env 0" by (simp add: upload_commit_request_def)
  ultimately show ?thesis using map_of_SomeD [OF up] unfolding commit_of_def by metis
qed

lemma operation_sent:
  assumes "handle_operation_with_service m env frame mt config st = (r, sent, st')" and "q \<in> set sent"
  shows "sent_ok (fe_uuid env) config (user_context (ds_context st)) q
    \<or> commit_of (cc_active_uploads (ds_context st)) config (user_context (ds_context st)) q"
proof (cases "mt = MessageType.UploadEnd")
  case True
  with assms have "q \<in> set (snd (fst (handle_upload_end_frame m env frame config st)))"
    by (auto simp: handle_operation_with_service_def answer_with_def Let_def split: prod.split_asm)
  then show ?thesis by (simp add: end_frame_sent)
next
  case False
  note request_sent = write_requests_sent list_directory_request_sent read_text_file_request_sent
    save_text_file_request_sent search_files_request_sent download_file_request_sent metadata_sent
  from assms False have "sent_ok (fe_uuid env) config (user_context (ds_context st)) q"
    by (cases mt)
      (auto simp: handle_operation_with_service_def answer_with_def answer_upload_def Let_def
        service_handler_defs split: prod.split_asm elim!: run_service_sent intro: request_sent
        dest!: arg_cong [of _ _ snd])
  then show ?thesis ..
qed

section \<open>What is answered\<close>

text \<open>A frame the client can read: it encodes, its bytes decode to the same frame, and it is a message of
  the server.\<close>

definition deliverable :: "TdrvFrame \<Rightarrow> bool" where
  "deliverable f \<longleftrightarrow>
     (\<exists>w. frame_encode f = Inr w \<and> frame_decode w = Inr f) \<and> direction (hdr_message_type (frame_header f)) = ServerToClient"

lemma reply_deliverable:
  assumes "reply mt rid to_vec v = Inr f" and "direction mt = ServerToClient" and "mt \<noteq> MessageType.DownloadChunk"
  shows "deliverable f \<and> hdr_request_id (frame_header f) = rid \<and> hdr_message_type (frame_header f) = mt"
proof -
  have "mt \<noteq> MessageType.UploadChunk" using assms(2) by (auto simp: direction_def)
  moreover obtain bs where new: "frame_new ((header_new mt rid 0)\<lparr>hdr_encoding := MessagePack\<rparr>) bs = Inr f"
    using assms(1) by (auto simp: reply_def and_then_Inr)
  ultimately have "frame_wf f" "hdr_request_id (frame_header f) = rid" "hdr_message_type (frame_header f) = mt"
    using assms(3)
    by (auto simp: frame_new_def frame_wf_def header_wf_def header_new_def is_v1_supported_def
        validate_encoding_for_message_def flags_empty_def limit_defs unat_of_nat split: if_split_asm)
  with frame_wf_travels [OF new] assms(2) show ?thesis by (auto simp: deliverable_def)
qed

text \<open>A single answer under the identifier of the request.\<close>

definition answers :: "Uuid \<Rightarrow> DispatchDecision \<Rightarrow> bool" where
  "answers rid d \<longleftrightarrow> (\<exists>f. d = Outbound [f] \<and> deliverable f \<and> hdr_request_id (frame_header f) = rid)"

lemma fst_then_do: "fst (then_do m f) = Inr y \<longleftrightarrow> (\<exists>x. fst m = Inr x \<and> fst (f x) = Inr y)"
  by (auto simp: then_do_def split: prod.splits sum.splits)

lemma run_service_result:
  "fst (run_service expected from_slice run answer context frame config) = Inr f \<Longrightarrow>
     \<exists>r. answer (hdr_request_id (frame_header frame)) r = Inr f"
  by (auto simp: run_service_def then_do_def lift_result_def split: prod.split_asm sum.split_asm)

lemma answer_with_service:
  assumes "answer_with st (run_service expected from_slice run (\<lambda>rid. reply mt rid to_vec) context frame config)
      = (Inr d, sent, st')"
    and "direction mt = ServerToClient" and "mt \<noteq> MessageType.DownloadChunk"
  shows "answers (hdr_request_id (frame_header frame)) d"
  using assms(1)
  by (auto simp: answer_with_def and_then_Inr answers_def dest!: run_service_result
      dest: reply_deliverable [OF _ assms(2,3)])

lemma upload_handlers_reply:
  "fst (handle_upload_begin_frame m env frame config st) = Inr f \<Longrightarrow>
     \<exists>v. reply MessageType.OperationStarted (hdr_request_id (frame_header frame)) (enc_upload_begin m) v = Inr f"
  "fst (handle_upload_chunk_frame m env frame config st) = Inr f \<Longrightarrow>
     \<exists>v. reply MessageType.OperationProgress (hdr_request_id (frame_header frame)) (enc_operation_progress m) v = Inr f"
  "fst (fst (handle_upload_end_frame m env frame config st)) = Inr f \<Longrightarrow>
     \<exists>v. reply MessageType.OperationDone (hdr_request_id (frame_header frame)) (enc_upload_end m) v = Inr f"
  "fst (handle_upload_abort_frame m env frame st) = Inr f \<Longrightarrow>
     \<exists>v. reply MessageType.OperationDone (hdr_request_id (frame_header frame)) (enc_operation_done m) v = Inr f"
  "fst (handle_upload_resume m env frame config st) = Inr f \<Longrightarrow>
     \<exists>v. reply MessageType.OperationStarted (hdr_request_id (frame_header frame)) (enc_upload_resume m) v = Inr f"
  by (auto simp: handle_upload_begin_frame_def handle_upload_chunk_frame_def handle_upload_end_frame_def
      handle_upload_abort_frame_def handle_upload_resume_def Let_def and_then_Inr fst_then_do
      split: sum.split_asm prod.split_asm option.split_asm)

lemma placeholder_answers:
  "placeholder_dispatch m context frame mt = Inr d \<Longrightarrow> answers (hdr_request_id (frame_header frame)) d"
  by (auto simp: placeholder_dispatch_def Let_def operation_failed_frame_def and_then_Inr answers_def direction_def
      split: FeatureGateResult.split_asm dest!: reply_deliverable)

lemma upload_answers:
  "answer_upload (handle_upload_begin_frame m env frame config st) = (Inr d, sent, st') \<Longrightarrow>
     answers (hdr_request_id (frame_header frame)) d"
  "answer_upload (handle_upload_chunk_frame m env frame config st) = (Inr d, sent, st') \<Longrightarrow>
     answers (hdr_request_id (frame_header frame)) d"
  "(case handle_upload_end_frame m env frame config st of (s, st1) \<Rightarrow> answer_with st1 s) = (Inr d, sent, st') \<Longrightarrow>
     answers (hdr_request_id (frame_header frame)) d"
  "answer_upload (handle_upload_abort_frame m env frame st) = (Inr d, sent, st') \<Longrightarrow>
     answers (hdr_request_id (frame_header frame)) d"
  "answer_upload (handle_upload_resume m env frame config st) = (Inr d, sent, st') \<Longrightarrow>
     answers (hdr_request_id (frame_header frame)) d"
  by (auto simp: answer_upload_def answer_with_def case_prod_beta and_then_Inr answers_def direction_def
      dest!: upload_handlers_reply dest: reply_deliverable)

lemma operation_answers:
  assumes "handle_operation_with_service m env frame mt config st = (Inr d, sent, st')"
    and "mt \<noteq> MessageType.DownloadBegin"
  shows "answers (hdr_request_id (frame_header frame)) d"
  using assms
  by (cases mt)
    (auto simp: handle_operation_with_service_def Let_def service_handler_defs direction_def
      intro: answer_with_service placeholder_answers upload_answers)

lemma download_frames_deliverable:
  "download_frames tid rcs = Inr fs \<Longrightarrow> f \<in> set fs \<Longrightarrow> deliverable f"
proof (induction rcs arbitrary: fs)
  case (Cons rc rcs)
  obtain rid c where [simp]: "rc = (rid, c)" by (cases rc)
  obtain p g gs where g: "frame_new ((header_new MessageType.DownloadChunk rid 0)\<lparr>hdr_encoding := RawBinary\<rparr>) p = Inr g"
    and gs: "download_frames tid rcs = Inr gs" "fs = g # gs"
    using Cons.prems(1) by (auto simp: and_then_Inr)
  have "hdr_message_type (frame_header g) = MessageType.DownloadChunk"
    using g by (auto simp: frame_new_def header_new_def split: if_split_asm)
  then have "deliverable g"
    using frame_wf_travels [OF g] chunk_header_wf(1) [OF g] by (auto simp: deliverable_def direction_def)
  with Cons.IH gs Cons.prems(2) show ?case by auto
qed simp

lemma frame_new_header: "frame_new h p = Inr f \<Longrightarrow> hdr_request_id (frame_header f) = hdr_request_id h"
  by (auto simp: frame_new_def split: if_split_asm)

lemma download_frames_ids:
  "download_frames tid rcs = Inr fs \<Longrightarrow> map (hdr_request_id \<circ> frame_header) fs = map fst rcs"
proof (induction rcs arbitrary: fs)
  case (Cons rc rcs)
  obtain rid c where [simp]: "rc = (rid, c)" by (cases rc)
  obtain p g gs where g: "frame_new ((header_new MessageType.DownloadChunk rid 0)\<lparr>hdr_encoding := RawBinary\<rparr>) p = Inr g"
    and gs: "download_frames tid rcs = Inr gs" "fs = g # gs"
    using Cons.prems(1) by (auto simp: and_then_Inr)
  from frame_new_header [OF g] Cons.IH [OF gs(1)] gs(2) show ?case by (simp add: header_new_def)
qed simp

lemma download_set_deliverable:
  assumes "download_frame_set to_vec rids d = Inr s" and "f \<in> set (dfs_frames s)"
  shows "deliverable f"
proof -
  obtain fs l where "download_frames (df_transfer_id d) (zip (map rids [0..<length (df_chunks d)]) (df_chunks d)) = Inr fs"
    and "reply MessageType.DownloadEnd (rids (length (df_chunks d))) to_vec \<lparr>dep_transfer_id = df_transfer_id d,
      dep_bytes_sent = df_total_bytes d, dep_chunk_count = length (df_chunks d), dep_sha256 = None\<rparr> = Inr l"
    and "dfs_frames s = fs @ [l]"
    using assms(1)
    by (auto simp: download_frame_set_def Let_def and_then_Inr reply_def split: if_split_asm)
  with assms(2) show ?thesis
    by (auto simp: direction_def dest!: reply_deliverable intro: download_frames_deliverable)
qed

lemma download_set_ids:
  assumes "download_frame_set to_vec rids d = Inr s"
  shows "map (hdr_request_id \<circ> frame_header) (dfs_frames s) = map rids [0..<length (dfs_frames s)]"
proof -
  let ?n = "length (df_chunks d)"
  obtain fs l where fs: "download_frames (df_transfer_id d) (zip (map rids [0..<?n]) (df_chunks d)) = Inr fs"
    and l: "reply MessageType.DownloadEnd (rids ?n) to_vec \<lparr>dep_transfer_id = df_transfer_id d,
      dep_bytes_sent = df_total_bytes d, dep_chunk_count = ?n, dep_sha256 = None\<rparr> = Inr l"
    and s: "dfs_frames s = fs @ [l]"
    using assms by (auto simp: download_frame_set_def Let_def and_then_Inr reply_def split: if_split_asm)
  have ids: "map (hdr_request_id \<circ> frame_header) fs = map rids [0..<?n]"
    using download_frames_ids [OF fs] by simp
  then have "length fs = ?n" by (metis length_map length_upt minus_nat.diff_0)
  moreover have "hdr_request_id (frame_header l) = rids ?n"
    using reply_deliverable [OF l] by (simp add: direction_def)
  ultimately show ?thesis using ids by (simp add: s)
qed

lemma download_request_set:
  assumes "fst (download_file_request uuid to_vec rids helper rid1 rid2 user q config engine) = Inr s"
  shows "\<exists>d. download_frame_set to_vec rids d = Inr s"
  using assms
  by (auto simp: download_file_request_def Let_def call_helper_def fst_then_do
      split: if_split_asm HelperResponsePayload.split_asm)

lemma download_answers:
  assumes "fst (handle_download_begin_frame m env context frame config) = Inr fs" and "f \<in> set fs"
  shows "deliverable f \<and> map (hdr_request_id \<circ> frame_header) fs = map (\<lambda>n. fe_rids env (n + 2)) [0..<length fs]"
proof -
  obtain s where "\<exists>d. download_frame_set (enc_download_end m) (\<lambda>n. fe_rids env (n + 2)) d = Inr s" "fs = dfs_frames s"
    using assms(1)
    by (auto simp: handle_download_begin_frame_def run_service_def fst_then_do dest!: download_request_set)
  with assms(2) download_set_deliverable download_set_ids show ?thesis by blast
qed

section \<open>The life of a connection\<close>

text \<open>What the checks of an upload establish under a configuration.\<close>

definition upload_allowed ::
  "AppConfig \<Rightarrow> UserContext \<Rightarrow> RootId \<Rightarrow> RelativePath \<Rightarrow> SafeFileName \<Rightarrow> nat \<Rightarrow> bool" where
  "upload_allowed config user root_id par fname amount \<longleftrightarrow>
     (\<exists>root. require_allowed_root (cfg_roots config) root_id = Inr root
        \<and> \<not> root_read_only root \<and> root_uploads_allowed root
        \<and> \<not> feature_denied (cfg_features config) FileOperation.UploadFile
        \<and> validate_relative_path par = Inr par \<and> SafeFileName_parse fname = Inr fname
        \<and> AccessPolicy_check (cfg_access_policy config) (uc_username user) root_id par Discover = Inr ()
        \<and> AccessPolicy_check (cfg_access_policy config) (uc_username user) root_id (target_of par fname) Discover = Inr ()
        \<and> (is_hidden_relative par \<longrightarrow> root_hidden_files_allowed root)
        \<and> \<not> is_sensitive (cfg_sensitive_policy config) (target_of par fname)
        \<and> permits (check_webroot_upload (root_is_web_root root) fname (cfg_webroot_policy config))
        \<and> amount \<le> max_in_flight_upload (cfg_limits config)
        \<and> (\<forall>limit. root_quota_bytes root = Some limit \<longrightarrow> amount \<le> limit))"

lemma validate_upload_allowed:
  assumes "validate_upload uuid user q config (PolicyEngine_new config) = Inr (par, fname)"
  shows "upload_allowed config user (ub_root_id q) par fname (ub_total_size q)"
proof -
  obtain root d where
    r: "require_allowed_root (cfg_roots config) (ub_root_id q) = Inr root" "\<not> root_read_only root"
      "root_uploads_allowed root" "\<not> is_sensitive (cfg_sensitive_policy config) (target_of par fname)"
      "permits (check_webroot_upload (root_is_web_root root) fname (cfg_webroot_policy config))"
      "ub_total_size q \<le> max_in_flight_upload (cfg_limits config)"
      "validate_relative_path par = Inr par" "SafeFileName_parse fname = Inr fname"
      "\<forall>limit. root_quota_bytes root = Some limit \<longrightarrow> ub_total_size q \<le> limit"
    and d: "check_operation uuid (for_user (PolicyEngine_new config) (uc_username user)) FileOperation.UploadFile
        (ub_root_id q) par (Some (target_of par fname)) (Some fname) (root_hidden_files_allowed root) = Inr d" "permits d"
    using assms
    by (auto simp: validate_upload_def Let_def and_then_Inr detect_sensitive_iff SafeFileName_parse_Inr
        split: if_split_asm option.split_asm dest: validate_idem)
  from d show ?thesis
  proof (rule check_operation_permits)
    assume "\<not> (FileOperation.UploadFile = FileOperation.DeletePermanently \<and> internal_trash_id uuid par \<noteq> None) \<Longrightarrow>
        FileOperation.UploadFile \<noteq> FileOperation.RestoreFromTrash \<Longrightarrow>
        ensure_visible (for_user (PolicyEngine_new config) (uc_username user)) (ub_root_id q) par = Inr ()"
      and "\<And>t. Some (target_of par fname) = Some t \<Longrightarrow>
        ensure_visible (for_user (PolicyEngine_new config) (uc_username user)) (ub_root_id q) t = Inr ()"
      and "\<not> feature_denied (cfg_features (pe_config (for_user (PolicyEngine_new config) (uc_username user)))) FileOperation.UploadFile"
      and "is_hidden_relative par \<Longrightarrow> root_hidden_files_allowed root
        \<or> FileOperation.UploadFile = FileOperation.DeletePermanently \<and> prefix ''.tealdrive-trash/files/'' par"
    with r show ?thesis by (auto simp: upload_allowed_def engine_check)
  qed
qed

text \<open>An upload that is open was allowed when it was begun or resumed, for this user, under one of the
  configurations \<open>opened\<close>, and has not received more than was announced.\<close>

definition upload_permitted :: "AppConfig set \<Rightarrow> UserContext \<Rightarrow> ActiveUpload \<Rightarrow> bool" where
  "upload_permitted opened user up \<longleftrightarrow>
     up_bytes_received up \<le> up_total_size up
     \<and> (\<exists>config \<in> opened. upload_allowed config user (up_root_id up) (up_parent_relative_path up) (up_filename up)
          (up_total_size up))"

definition pending_ok :: "Pending \<Rightarrow> bool" where
  "pending_ok pending \<longleftrightarrow>
     (\<forall>(k, r) \<in> set pending. k = up_transfer_id (sus_upload r)
        \<and> up_bytes_received (sus_upload r) \<le> up_total_size (sus_upload r)
        \<and> validate_relative_path (up_parent_relative_path (sus_upload r))
          = Inr (up_parent_relative_path (sus_upload r)))"

text \<open>The frames that may open an upload.\<close>

definition opens :: "TdrvFrame \<Rightarrow> bool" where
  "opens frame \<longleftrightarrow> hdr_message_type (frame_header frame) \<in> {MessageType.UploadBegin, MessageType.UploadResume}"

text \<open>Frames are handled one after the other, each under the configuration then in force. Between them other
  connections may change the staging area and the suspended uploads, and the loop of the connection sets its
  features. \<open>opened\<close> collects the configurations under which a frame was handled that may open an upload. The
  trace records what was sent to the helper, under which configuration, and what had been opened before.\<close>

inductive connection ::
  "RmpSerde \<Rightarrow> (string \<Rightarrow> string option) \<Rightarrow> DispatchState \<Rightarrow> AppConfig list
   \<Rightarrow> (AppConfig list \<times> AppConfig \<times> HelperRequest) list \<Rightarrow> DispatchState \<Rightarrow> bool"
  for m uuid st0 where
  connected: "connection m uuid st0 [] [] st0"
| handled: "connection m uuid st0 (if opens frame then config # opened else opened)
    (trace @ map (\<lambda>q. (opened, config, q)) sent) st'"
  if "connection m uuid st0 opened trace st" "fe_uuid env = uuid"
    "handle_decoded_frame_with_service m env frame config st = (r, sent, st')"
| others: "connection m uuid st0 opened trace
    (st\<lparr>ds_context := (ds_context st)\<lparr>cc_features := features\<rparr>, ds_usage := usage, ds_ledger := ledger,
      ds_files := files, ds_pending := pending\<rparr>)"
  if "connection m uuid st0 opened trace st" "pending_ok pending"

lemma set_active_context [simp]:
  "ds_context (set_active f st) = (ds_context st)\<lparr>cc_active_uploads := f (cc_active_uploads (ds_context st))\<rparr>"
  "ds_pending (set_active f st) = ds_pending st"
  by (simp_all add: set_active_def)

lemma drop_uploads_context [simp]:
  "ds_context (drop_uploads benv ups st) = ds_context st" "ds_pending (drop_uploads benv ups st) = ds_pending st"
  by (simp_all add: drop_uploads_def)

lemmas upload_handler_defs =
  handle_upload_begin_frame_def handle_upload_chunk_frame_def handle_upload_end_frame_def
  handle_upload_abort_frame_def handle_upload_resume_def

text \<open>No operation touches the connection but for its open uploads.\<close>

definition no_uploads :: "WsConnectionContext \<Rightarrow> WsConnectionContext" where
  "no_uploads c = c\<lparr>cc_active_uploads := []\<rparr>"

lemma no_uploads_update [simp]: "no_uploads (c\<lparr>cc_active_uploads := ups\<rparr>) = no_uploads c"
  by (simp add: no_uploads_def)

lemma begin_context: "no_uploads (ds_context (snd (handle_upload_begin_frame m env frame config st))) = no_uploads (ds_context st)"
  by (simp add: handle_upload_begin_frame_def Let_def split: sum.split prod.split)

lemma chunk_context: "no_uploads (ds_context (snd (handle_upload_chunk_frame m env frame config st))) = no_uploads (ds_context st)"
  by (simp add: handle_upload_chunk_frame_def split: sum.split prod.split)

lemma end_context: "no_uploads (ds_context (snd (handle_upload_end_frame m env frame config st))) = no_uploads (ds_context st)"
  by (simp add: handle_upload_end_frame_def split: sum.split prod.split)

lemma abort_context: "no_uploads (ds_context (snd (handle_upload_abort_frame m env frame st))) = no_uploads (ds_context st)"
  by (auto simp: handle_upload_abort_frame_def Let_def split: sum.splits prod.splits option.splits)

lemma resume_context: "no_uploads (ds_context (snd (handle_upload_resume m env frame config st))) = no_uploads (ds_context st)"
  by (simp add: handle_upload_resume_def Let_def split: sum.split prod.split)

lemmas upload_contexts = begin_context chunk_context end_context abort_context resume_context

text \<open>What an operation changes of the state: nothing, unless it is one of the five on uploads.\<close>

lemma operation_state:
  assumes "handle_operation_with_service m env frame mt config st = (r, sent, st')"
  obtains "st' = st"
  | "st' = snd (handle_upload_begin_frame m env frame config st)"
  | "st' = snd (handle_upload_chunk_frame m env frame config st)"
  | "st' = snd (handle_upload_end_frame m env frame config st)"
  | "st' = snd (handle_upload_abort_frame m env frame st)"
  | "st' = snd (handle_upload_resume m env frame config st)"
  using assms
  by (cases mt)
    (simp_all add: handle_operation_with_service_def answer_with_def answer_upload_def Let_def split: prod.split_asm)

lemma operation_context:
  assumes "handle_operation_with_service m env frame mt config st = (r, sent, st')"
  shows "no_uploads (ds_context st') = no_uploads (ds_context st)"
  using operation_state [OF assms] by cases (simp_all add: upload_contexts)

definition uploads_ok :: "AppConfig set \<Rightarrow> UserContext \<Rightarrow> DispatchState \<Rightarrow> bool" where
  "uploads_ok opened user st \<longleftrightarrow>
     (\<forall>(k, up) \<in> set (cc_active_uploads (ds_context st)). k = up_transfer_id up \<and> upload_permitted opened user up)
     \<and> pending_ok (ds_pending st)"

lemma uploads_ok_mono: "uploads_ok opened user st \<Longrightarrow> opened \<subseteq> opened' \<Longrightarrow> uploads_ok opened' user st"
  by (fastforce simp: uploads_ok_def upload_permitted_def)

lemma set_alist_update: "set (AList.update k v al) \<subseteq> insert (k, v) (set al)"
  by (induction al) auto

lemma set_alist_delete: "set (AList.delete k al) \<subseteq> set al"
  by (auto simp: AList.delete_eq)

lemma uploads_ok_update:
  "uploads_ok opened user st \<Longrightarrow> upload_permitted opened user up \<Longrightarrow>
     uploads_ok opened user (set_active (AList.update (up_transfer_id up) up) st)"
  using set_alist_update by (fastforce simp: uploads_ok_def)

lemma uploads_ok_delete: "uploads_ok opened user st \<Longrightarrow> uploads_ok opened user (set_active (AList.delete k) st)"
  using set_alist_delete by (fastforce simp: uploads_ok_def)

lemma uploads_ok_staging [simp]:
  "uploads_ok opened user (st\<lparr>ds_files := files\<rparr>) = uploads_ok opened user st"
  "uploads_ok opened user (st\<lparr>ds_usage := u, ds_ledger := l\<rparr>) = uploads_ok opened user st"
  "uploads_ok opened user (drop_uploads benv ups st) = uploads_ok opened user st"
  by (simp_all add: uploads_ok_def)

lemma pending_ok_subset: "pending_ok p \<Longrightarrow> set p' \<subseteq> set p \<Longrightarrow> pending_ok p'"
  by (auto simp: pending_ok_def)

lemma begin_permitted:
  assumes "upload_begin_request uuid uuid_text temp_dir benv env tid user q config (PolicyEngine_new config) st
      = (Inr (up, resp), st')"
  shows "upload_permitted {config} user up"
proof -
  obtain par where "validate_upload uuid user q config (PolicyEngine_new config) = Inr (par, up_filename up)"
    "up_parent_relative_path up = par" "ub_root_id q = up_root_id up" "ub_total_size q = up_total_size up"
    "up_bytes_received up = 0"
    using assms
    by (auto simp: upload_begin_request_def Let_def split: prod.split_asm sum.split_asm if_split_asm)
  then show ?thesis using validate_upload_allowed [of uuid user q config] by (simp add: upload_permitted_def)
qed

lemma chunk_permitted:
  assumes "upload_chunk_request env rid chunk config (up, files) = (r, up', files')" and "upload_permitted opened user up"
  shows "upload_permitted opened user up' \<and> up_transfer_id up' = up_transfer_id up"
proof -
  have "up' = up \<or> up' = up\<lparr>up_bytes_received := up_bytes_received up'\<rparr> \<and> up_bytes_received up' \<le> up_total_size up"
    using assms(1)
    by (auto simp: upload_chunk_request_def chunk_guard_def Let_def
        split: sum.split_asm option.split_asm if_split_asm)
  then obtain n where "up' = up \<or> up' = up\<lparr>up_bytes_received := n\<rparr> \<and> n \<le> up_total_size up" by blast
  moreover have "upload_permitted opened user (up\<lparr>up_bytes_received := n\<rparr>)" if "n \<le> up_total_size up" for n
    using assms(2) that by (simp add: upload_permitted_def)
  ultimately show ?thesis using assms(2) by auto
qed

lemma retain_subset: "set (fst (retain_records keep st)) \<subseteq> set (fst st)"
  by (auto simp: retain_records_def split: prod.splits)

lemma take_for_abort_subset:
  "take_for_abort c tid pending = (r, pending') \<Longrightarrow> set pending' \<subseteq> set pending"
  using set_alist_delete [of tid pending]
  by (auto simp: take_for_abort_def split: option.split_asm if_split_asm)

lemma take_upload_pending:
  assumes "take_upload uuid sha stat now c tid config st = (r, pending', files')"
  shows "set pending' \<subseteq> set (fst st)"
proof -
  obtain p f where rt: "retain_records (\<lambda>r. sus_expires r > now) st = (p, f)" by fastforce
  with retain_subset [of "\<lambda>r. sus_expires r > now" st] have "set p \<subseteq> set (fst st)" by simp
  moreover have "set pending' \<subseteq> set p \<or> pending' = fst st"
    using assms rt set_alist_delete [of tid p]
    by (auto simp: take_upload_def Let_def split: option.split_asm if_split_asm sum.split_asm)
  ultimately show ?thesis by blast
qed

lemma take_upload_permitted:
  assumes "take_upload uuid sha stat now c tid config st = (Inr (up, resp), pending', files')"
    and "pending_ok (fst st)"
  shows "upload_permitted {config} (user_context c) up"
proof -
  obtain p f where rt: "retain_records (\<lambda>r. sus_expires r > now) st = (p, f)" by fastforce
  obtain r where r: "map_of p tid = Some r" "up = sus_upload r"
    "resume_checks uuid sha stat c tid config up f = Inr resp"
    using assms(1) rt
    by (auto simp: take_upload_def Let_def split: option.split_asm if_split_asm sum.split_asm)
  have "(tid, r) \<in> set (fst st)"
    using r(1) rt retain_subset [of "\<lambda>r. sus_expires r > now" st] by (auto dest: map_of_SomeD)
  with assms(2) r(2) have up: "up_bytes_received up \<le> up_total_size up"
    "validate_relative_path (up_parent_relative_path up) = Inr (up_parent_relative_path up)"
    by (auto simp: pending_ok_def)
  obtain par fname where d: "validate_upload uuid (user_context c) (resume_request up) config (PolicyEngine_new config)
      = Inr (par, fname)"
    using r(3) by (auto simp: resume_checks_def and_then_Inr)
  then have "par = up_parent_relative_path up" "fname = up_filename up"
    using up(2)
    by (auto simp: validate_upload_def Let_def and_then_Inr resume_request_def SafeFileName_parse_Inr split: if_split_asm)
  with validate_upload_allowed [OF d] up(1) show ?thesis by (simp add: upload_permitted_def resume_request_def)
qed

section \<open>Invariants of a connection\<close>

lemma user_context_no_uploads: "no_uploads c = no_uploads c' \<Longrightarrow> user_context c = user_context c'"
proof -
  have u: "user_context (no_uploads x) = user_context x" for x
    by (simp add: user_context_def no_uploads_def)
  show "no_uploads c = no_uploads c' \<Longrightarrow> user_context c = user_context c'" by (metis u)
qed

lemma permitted_mono: "upload_permitted opened user up \<Longrightarrow> opened \<subseteq> opened' \<Longrightarrow> upload_permitted opened' user up"
  by (auto simp: upload_permitted_def)

lemma begin_uploads_ok:
  assumes "uploads_ok opened (user_context (ds_context st)) st"
  shows "uploads_ok (insert config opened) (user_context (ds_context st)) (snd (handle_upload_begin_frame m env frame config st))"
  using uploads_ok_mono [OF assms subset_insertI [of opened config]]
  by (auto simp: handle_upload_begin_frame_def Let_def intro!: uploads_ok_update
      dest!: begin_permitted intro: permitted_mono split: sum.splits prod.splits)

lemma chunk_uploads_ok:
  assumes "uploads_ok opened user st"
  shows "uploads_ok opened user (snd (handle_upload_chunk_frame m env frame config st))"
proof -
  have "uploads_ok opened user (set_active (AList.update k up') (st\<lparr>ds_files := files\<rparr>))"
    if "map_of (cc_active_uploads (ds_context st)) k = Some up"
      "upload_chunk_request (fe_staging env) (fe_rids env 0) chunk config (up, ds_files st) = (r, up', files)"
    for k up up' files chunk r
  proof -
    have "k = up_transfer_id up \<and> upload_permitted opened user up"
      using assms that(1) by (auto simp: uploads_ok_def dest!: map_of_SomeD)
    with chunk_permitted [OF that(2)] uploads_ok_update [of opened user "st\<lparr>ds_files := files\<rparr>" up'] assms
    show ?thesis by auto
  qed
  with assms show ?thesis
    by (auto simp: handle_upload_chunk_frame_def and_then_Inr ok_or_Inr split: sum.splits prod.splits)
qed

lemma end_uploads_ok:
  "uploads_ok opened user st \<Longrightarrow> uploads_ok opened user (snd (handle_upload_end_frame m env frame config st))"
  by (simp add: handle_upload_end_frame_def uploads_ok_delete split: sum.split prod.split)

lemma uploads_ok_pending:
  "uploads_ok opened user st \<Longrightarrow> pending_ok p \<Longrightarrow> uploads_ok opened user (st\<lparr>ds_pending := p\<rparr>)"
  "uploads_ok opened user st \<Longrightarrow> pending_ok (ds_pending st)"
  by (auto simp: uploads_ok_def)

lemma abort_uploads_ok:
  assumes "uploads_ok opened user st"
  shows "uploads_ok opened user (snd (handle_upload_abort_frame m env frame st))"
proof -
  have "uploads_ok opened user (st\<lparr>ds_pending := p\<rparr>)" if "take_for_abort c tid (ds_pending st) = (r, p)" for c tid r p
    using pending_ok_subset [OF uploads_ok_pending(2) [OF assms] take_for_abort_subset [OF that]]
    by (rule uploads_ok_pending(1) [OF assms])
  with assms show ?thesis
    by (auto simp: handle_upload_abort_frame_def Let_def uploads_ok_delete
        split: sum.splits prod.splits option.splits)
qed

lemma resume_uploads_ok:
  assumes "uploads_ok opened (user_context (ds_context st)) st"
  shows "uploads_ok (insert config opened) (user_context (ds_context st)) (snd (handle_upload_resume m env frame config st))"
proof -
  let ?opened = "insert config opened" and ?user = "user_context (ds_context st)"
  have ok: "uploads_ok ?opened ?user st" using uploads_ok_mono [OF assms] by blast
  have "uploads_ok ?opened ?user (st\<lparr>ds_pending := p, ds_files := f\<rparr>)
      \<and> (\<forall>up resp. r = Inr (up, resp) \<longrightarrow> upload_permitted ?opened ?user up)"
    if "take_upload (fe_uuid env) (fe_sha env) (fe_stat env) (fe_now env) (ds_context st) tid config
        (ds_pending st, ds_files st) = (r, p, f)" for tid r p f
  proof -
    have "pending_ok p"
      using take_upload_pending [OF that] uploads_ok_pending(2) [OF ok] pending_ok_subset by auto
    then have "uploads_ok ?opened ?user (st\<lparr>ds_pending := p, ds_files := f\<rparr>)"
      using ok by (simp add: uploads_ok_def)
    with that show ?thesis
      by (auto dest!: take_upload_permitted simp: uploads_ok_pending(2) [OF ok] intro: permitted_mono)
  qed
  with ok show ?thesis
    by (auto simp: handle_upload_resume_def Let_def intro!: uploads_ok_update split: sum.splits prod.splits)
qed

lemma decoded_cases:
  assumes "handle_decoded_frame_with_service m env frame config st = (r, sent, st')"
  obtains (refused) e where "r = Inl e" "sent = []" "st' = st"
  | (hello) c where "handle_client_hello m (fe_rids env 0) frame (ds_context st) = (r, c)" "sent = []"
      "st' = st\<lparr>ds_context := c\<rparr>" "hdr_message_type (frame_header frame) = MessageType.ClientHello"
  | (operation) "cc_protocol_ready (ds_context st)"
      "handle_operation_with_service m env frame (hdr_message_type (frame_header frame)) config st = (r, sent, st')"
      "is_operation (hdr_message_type (frame_header frame))"
proof (cases "validate_inbound_client (hdr_message_type (frame_header frame))")
  case (Inl e)
  with assms refused show thesis by (auto simp: handle_decoded_frame_with_service_def)
next
  case (Inr u)
  show thesis
  proof (cases "hdr_message_type (frame_header frame) = MessageType.ClientHello")
    case True
    with assms Inr hello show thesis
      by (auto simp: handle_decoded_frame_with_service_def classify_message_def is_handshake_def split: prod.split_asm)
  next
    case False
    with assms Inr refused operation show thesis
      by (auto simp: handle_decoded_frame_with_service_def classify_message_def is_handshake_def
          split: if_split_asm)
  qed
qed

lemma client_hello_context:
  assumes "handle_client_hello m rid frame c = (r, c')"
  shows "c' = c \<or> c' = c\<lparr>cc_selected_protocol := cc_selected_protocol c', cc_protocol_ready := True\<rparr>
    \<and> cc_selected_protocol c' = Some \<lparr>wsp_protocol_version = TDRV_PROTOCOL_VERSION,
        wsp_selected_encoding = MessagePack, wsp_selected_compression = NoCompression,
        wsp_effective_limits = (case cc_selected_protocol c of Some p \<Rightarrow> wsp_effective_limits p | None \<Rightarrow> Limits_default)\<rparr>"
  using assms
  by (auto simp: handle_client_hello_def Let_def apply_protocol_ready_def validate_client_hello_def
      select_compression_def and_then_Inr split: sum.split_asm if_split_asm)

text \<open>The identity of a connection never changes.\<close>

definition identity :: "WsConnectionContext \<Rightarrow> SessionId \<times> UserContext" where
  "identity c = (cc_session_id c, user_context c)"

lemma identity_no_uploads: "no_uploads c = no_uploads c' \<Longrightarrow> identity c = identity c'"
proof -
  have u: "identity (no_uploads x) = identity x" for x
    by (simp add: identity_def user_context_def no_uploads_def)
  show "no_uploads c = no_uploads c' \<Longrightarrow> identity c = identity c'" by (metis u)
qed

lemma decoded_identity:
  assumes "handle_decoded_frame_with_service m env frame config st = (r, sent, st')"
  shows "identity (ds_context st') = identity (ds_context st)"
  using assms
proof (cases rule: decoded_cases)
  case (hello c)
  obtain p where "c = ds_context st \<or> c = (ds_context st)\<lparr>cc_selected_protocol := p, cc_protocol_ready := True\<rparr>"
    using client_hello_context [OF hello(1)] by blast
  with hello(3) show ?thesis by (auto simp: identity_def user_context_def)
next
  case operation
  then show ?thesis using operation_context identity_no_uploads by blast
qed simp

lemma connection_identity:
  "connection m uuid st0 opened trace st \<Longrightarrow> identity (ds_context st) = identity (ds_context st0)"
proof (induction rule: connection.induct)
  case (others opened trace st pending features usage ledger files)
  then show ?case by (simp add: identity_def user_context_def)
qed (simp_all add: decoded_identity)

lemma connection_user:
  "connection m uuid st0 opened trace st \<Longrightarrow> user_context (ds_context st) = user_context (ds_context st0)"
  by (drule connection_identity) (simp add: identity_def)

lemma decoded_sent:
  assumes "handle_decoded_frame_with_service m env frame config st = (r, sent, st')" and "q \<in> set sent"
  shows "sent_ok (fe_uuid env) config (user_context (ds_context st)) q
    \<or> commit_of (cc_active_uploads (ds_context st)) config (user_context (ds_context st)) q"
  using assms by (cases rule: decoded_cases) (auto dest: operation_sent)

lemma operation_opens:
  assumes "handle_operation_with_service m env frame (hdr_message_type (frame_header frame)) config st = (r, sent, st')"
    and "uploads_ok opened (user_context (ds_context st)) st"
  shows "uploads_ok (if opens frame then insert config opened else opened) (user_context (ds_context st)) st'"
proof (cases "opens frame")
  case True
  with assms(1) have "st' = snd (handle_upload_begin_frame m env frame config st)
      \<or> st' = snd (handle_upload_resume m env frame config st)"
    by (auto simp: opens_def handle_operation_with_service_def answer_upload_def Let_def)
  with True assms(2) begin_uploads_ok resume_uploads_ok show ?thesis by auto
next
  case False
  with assms(1) have "st' = st \<or> st' = snd (handle_upload_chunk_frame m env frame config st)
      \<or> st' = snd (handle_upload_end_frame m env frame config st) \<or> st' = snd (handle_upload_abort_frame m env frame st)"
    by (cases "hdr_message_type (frame_header frame)")
      (auto simp: opens_def handle_operation_with_service_def answer_with_def answer_upload_def Let_def
        split: prod.split_asm)
  with False assms(2) show ?thesis by (auto simp: chunk_uploads_ok end_uploads_ok abort_uploads_ok)
qed

lemma decoded_uploads_ok:
  assumes "handle_decoded_frame_with_service m env frame config st = (r, sent, st')"
    and "uploads_ok opened (user_context (ds_context st)) st"
  shows "uploads_ok (if opens frame then insert config opened else opened) (user_context (ds_context st)) st'"
  using assms(1)
proof (cases rule: decoded_cases)
  case (hello c)
  obtain p where "c = ds_context st \<or> c = (ds_context st)\<lparr>cc_selected_protocol := p, cc_protocol_ready := True\<rparr>"
    using client_hello_context [OF hello(1)] by blast
  with hello(3,4) assms(2) show ?thesis by (auto simp: uploads_ok_def opens_def)
next
  case operation
  from operation_opens [OF operation(2) assms(2)] show ?thesis .
next
  case (refused e)
  with assms(2) uploads_ok_mono [OF assms(2), of "insert config opened"] show ?thesis by auto
qed

lemma connection_uploads:
  assumes "connection m uuid st0 opened trace st" and "cc_active_uploads (ds_context st0) = []"
    and "pending_ok (ds_pending st0)"
  shows "uploads_ok (set opened) (user_context (ds_context st0)) st"
  using assms(1)
proof (induction rule: connection.induct)
  case connected
  with assms show ?case by (simp add: uploads_ok_def)
next
  case (handled opened trace st env frame config r sent st')
  then show ?case
    using connection_user [OF handled.hyps(1)] decoded_uploads_ok [OF handled.hyps(3)]
    by (auto split: if_split_asm)
next
  case (others opened trace st pending features usage ledger files)
  then show ?case by (simp add: uploads_ok_def)
qed

text \<open>A commit is for the user of the connection, for a root of the configuration in force, and for an upload that
  was allowed, with this root, folder, name and size, under a configuration of \<open>opened\<close>.\<close>

definition commit_ok :: "AppConfig set \<Rightarrow> AppConfig \<Rightarrow> UserContext \<Rightarrow> HelperRequest \<Rightarrow> bool" where
  "commit_ok opened config user q \<longleftrightarrow>
     hq_command q = HelperCommand.UploadCommit
     \<and> hq_username q = uc_username user \<and> hq_uid q = uc_uid user \<and> hq_gid q = uc_gid user
     \<and> (\<exists>root. require_allowed_root (cfg_roots config) (hq_root_id q) = Inr root)
     \<and> (\<exists>begun \<in> opened. \<exists>par fname amount.
          upload_allowed begun user (hq_root_id q) par fname amount
          \<and> hq_relative_path q = target_of par fname \<and> hq_target_relative_path q = None
          \<and> hq_archive_source_paths q = None
          \<and> map_option wo_stream_size (hq_write_options q) = Some (Some amount))"

lemma commit_of_ok:
  assumes "commit_of (cc_active_uploads (ds_context st)) config user q" and "uploads_ok opened user st"
  shows "commit_ok opened config user q"
proof -
  obtain k up root where up: "(k, up) \<in> set (cc_active_uploads (ds_context st))"
    "require_allowed_root (cfg_roots config) (up_root_id up) = Inr root"
    and q: "q = upload_commit_request (hq_request_id q) user up config root"
    using assms(1) unfolding commit_of_def by blast
  obtain begun where "begun \<in> opened" "upload_allowed begun user (up_root_id up) (up_parent_relative_path up)
      (up_filename up) (up_total_size up)"
    using up(1) assms(2) by (auto simp: uploads_ok_def upload_permitted_def)
  with up(2) have "commit_ok opened config user (upload_commit_request rid user up config root)" for rid
    by (auto simp: commit_ok_def upload_commit_request_def)
  with q show ?thesis by metis
qed

section \<open>Properties\<close>

text \<open>C9: Whatever frames a client sends, under whatever configurations, every request the network tier sends
  to the helper is made in the name of the user of that connection. Every request but the commit of an
  upload is for a path in normal form, in a root of the configuration then in force, and for a command whose
  feature is enabled; the access rules let the user discover the path, unless it is the identifier of
  something in the trash that is to be restored, or the path in the trash of something that is to be deleted;
  no writing command is sent for a read-only root; no new path but the folder of an extraction is hidden,
  where that is not allowed, or sensitive, and the same holds of every source of an archive. A commit is for
  a root of the configuration then in force, and for a folder, a name and a size that were allowed, as an
  upload of this user into this root, under the configuration of an earlier frame of this connection that
  began or resumed an upload.\<close>

theorem connection_requests_permitted:
  assumes "connection m uuid st0 opened trace st" and "cc_active_uploads (ds_context st0) = []"
    and "pending_ok (ds_pending st0)" and "(before, config, q) \<in> set trace"
  shows "sent_ok uuid config (user_context (ds_context st0)) q
    \<or> commit_ok (set before) config (user_context (ds_context st0)) q"
  using assms(1,4)
proof (induction rule: connection.induct)
  case (handled opened trace st env frame config' r sent st')
  then show ?case
    using connection_user [OF handled.hyps(1)] decoded_sent [OF handled.hyps(3), of q]
      commit_of_ok [OF _ connection_uploads [OF handled.hyps(1) assms(2,3)], of config' q]
    by auto
qed simp_all

text \<open>C20: An open upload was allowed to the user of its connection, with the file name, the folder, the root and the
  size it still has, under the configuration with which this connection handled a frame that begins or
  resumes uploads; it is filed under its own identifier, and it has not received more bytes than were
  announced.\<close>

theorem open_uploads_permitted:
  assumes "connection m uuid st0 opened trace st" and "cc_active_uploads (ds_context st0) = []"
    and "pending_ok (ds_pending st0)" and "(k, up) \<in> set (cc_active_uploads (ds_context st))"
  shows "k = up_transfer_id up \<and> up_bytes_received up \<le> up_total_size up
    \<and> (\<exists>config \<in> set opened. upload_allowed config (user_context (ds_context st0)) (up_root_id up)
         (up_parent_relative_path up) (up_filename up) (up_total_size up))"
  using connection_uploads [OF assms(1-3)] assms(4) by (auto simp: uploads_ok_def upload_permitted_def)

text \<open>C19: On a connection that starts without a handshake nothing reaches the helper and no upload is opened
  until a client hello has been accepted, and from then on the protocol is the one version, encoding and
  compression that there are, with the default limits.\<close>

theorem handshake_comes_first:
  assumes "connection m uuid st0 opened trace st" and "cc_protocol_ready (ds_context st0) = False"
    and "cc_selected_protocol (ds_context st0) = None"
  shows "if cc_protocol_ready (ds_context st)
    then cc_selected_protocol (ds_context st) = Some \<lparr>wsp_protocol_version = 1, wsp_selected_encoding = MessagePack,
      wsp_selected_compression = NoCompression, wsp_effective_limits = Limits_default\<rparr>
    else trace = [] \<and> cc_selected_protocol (ds_context st) = None
      \<and> cc_active_uploads (ds_context st) = cc_active_uploads (ds_context st0)"
  using assms(1)
proof (induction rule: connection.induct)
  case (handled opened trace st env frame config r sent st')
  from handled.hyps(3) show ?case
  proof (cases rule: decoded_cases)
    case (hello c)
    with handled.IH client_hello_context [OF hello(1)] show ?thesis
      by (auto simp: TDRV_PROTOCOL_VERSION_def split: if_split_asm option.split_asm)
  next
    case operation
    have "cc_protocol_ready (no_uploads x) = cc_protocol_ready x"
      "cc_selected_protocol (no_uploads x) = cc_selected_protocol x" for x
      by (simp_all add: no_uploads_def)
    with operation_context [OF operation(2)]
    have "cc_protocol_ready (ds_context st') = cc_protocol_ready (ds_context st)"
      "cc_selected_protocol (ds_context st') = cc_selected_protocol (ds_context st)" by metis+
    with operation(1) handled.IH show ?thesis by simp
  qed (use handled.IH in simp)
qed (use assms(2,3) in \<open>simp_all\<close>)

text \<open>C29: Every answer of the dispatcher can be delivered: each frame encodes, its bytes decode to the same frame,
  and it is a message that servers send. The answer to a client hello is one frame under a fresh identifier,
  the frames of a download carry fresh identifiers in the order in which they are drawn, and every other
  answer is one frame under the identifier of the request.\<close>

theorem every_answer_deliverable:
  assumes "handle_decoded_frame_with_service m env frame config st = (Inr d, sent, st')"
  shows "\<exists>fs. d = Outbound fs \<and> (\<forall>f \<in> set fs. deliverable f)
    \<and> map (hdr_request_id \<circ> frame_header) fs =
        (if hdr_message_type (frame_header frame) = MessageType.ClientHello then [fe_rids env 0]
         else if hdr_message_type (frame_header frame) = MessageType.DownloadBegin
         then map (\<lambda>n. fe_rids env (n + 2)) [0..<length fs]
         else [hdr_request_id (frame_header frame)])"
  using assms
proof (cases rule: decoded_cases)
  case (hello c)
  then have "\<exists>f. d = Outbound [f] \<and> deliverable f \<and> hdr_request_id (frame_header f) = fe_rids env 0"
    by (auto simp: handle_client_hello_def Let_def create_protocol_ready_frame_def and_then_Inr direction_def
        split: sum.split_asm dest!: reply_deliverable)
  with hello(4) show ?thesis by auto
next
  case operation
  have no_hello: "hdr_message_type (frame_header frame) \<noteq> MessageType.ClientHello"
    using operation(3) by (auto simp: is_operation_def)
  show ?thesis
  proof (cases "hdr_message_type (frame_header frame) = MessageType.DownloadBegin")
    case True
    with operation(2) obtain fs where fs: "fst (handle_download_begin_frame m env (ds_context st) frame config) = Inr fs"
      "d = Outbound fs"
      by (auto simp: handle_operation_with_service_def Let_def and_then_Inr split: prod.split_asm)
    have "map (hdr_request_id \<circ> frame_header) fs = map (\<lambda>n. fe_rids env (n + 2)) [0..<length fs]"
      using download_answers [OF fs(1)] by (cases fs) auto
    with True fs download_answers [OF fs(1)] show ?thesis by auto
  next
    case False
    from operation_answers [OF operation(2) this] False no_hello show ?thesis by (auto simp: answers_def)
  qed
qed simp

section \<open>Runs\<close>

definition null_serde :: RmpSerde where
  "null_serde =
     \<lparr>dec_client_hello = (\<lambda>_. None), dec_list_directory = (\<lambda>_. None), dec_file_metadata = (\<lambda>_. None), dec_download_begin = (\<lambda>_. None),
      dec_read_text_file = (\<lambda>_. None), dec_save_text_file = (\<lambda>_. None), dec_create_folder = (\<lambda>_. None), dec_rename_file = (\<lambda>_. None),
      dec_move_file = (\<lambda>_. None), dec_copy_file = (\<lambda>_. None), dec_move_to_trash = (\<lambda>_. None), dec_restore_from_trash = (\<lambda>_. None),
      dec_delete_permanently = (\<lambda>_. None), dec_list_trash = (\<lambda>_. None), dec_chmod_file = (\<lambda>_. None), dec_compress_zip = (\<lambda>_. None),
      dec_compress_targz = (\<lambda>_. None), dec_extract_archive = (\<lambda>_. None), dec_search_files = (\<lambda>_. None), dec_upload_begin = (\<lambda>_. None),
      dec_upload_resume = (\<lambda>_. None), dec_upload_end = (\<lambda>_. None), dec_upload_abort = (\<lambda>_. None), enc_server_hello = (\<lambda>_. None),
      enc_protocol_ready = (\<lambda>_. None), enc_error = (\<lambda>_. None), enc_operation_failed = (\<lambda>_. None), enc_connection_status = (\<lambda>_. None),
      enc_directory_list = (\<lambda>_. None), enc_file_metadata = (\<lambda>_. None), enc_download_end = (\<lambda>_. None), enc_text_file_content = (\<lambda>_. None),
      enc_operation_done = (\<lambda>_. None), enc_move_to_trash = (\<lambda>_. None), enc_trash_list = (\<lambda>_. None), enc_search_results = (\<lambda>_. None),
      enc_upload_begin = (\<lambda>_. None), enc_upload_resume = (\<lambda>_. None), enc_operation_progress = (\<lambda>_. None), enc_upload_end = (\<lambda>_. None)\<rparr>"

definition example_env :: FrameEnv where
  "example_env =
     \<lparr>fe_uuid = Some, fe_uuid_text = (\<lambda>_. ''5''), fe_temp_dir = ''/tmp'', fe_rids = (\<lambda>_. 5), fe_now = 200,
      fe_budget = example_budget, fe_staging = healthy_disk,
      fe_stat = \<lparr>sst_open_ok = True, sst_stat_ok = True, sst_private = True, sst_read_ok = True\<rparr>,
      fe_sha = (\<lambda>_. ''42''), fe_open_ok = True, fe_read_ok = True, fe_unlink_ok = True,
      fe_helper = (\<lambda>_. Inl TealDriveError.Internal), fe_stream_helper = (\<lambda>_ _. Inl TealDriveError.Internal)\<rparr>"

definition example_state :: "WsConnectionContext \<Rightarrow> DispatchState" where
  "example_state c =
     \<lparr>ds_context = c, ds_usage = \<lparr>sgu_bytes = 0, sgu_transfers = 0\<rparr>, ds_ledger = [], ds_files = Map.empty,
      ds_pending = []\<rparr>"

definition control_frame :: "MessageType \<Rightarrow> TdrvFrame" where
  "control_frame mt = \<lparr>frame_header = header_new mt 3 0, frame_payload = []\<rparr>"

lemma connection_one:
  "handle_decoded_frame_with_service m env frame config st0 = (r, sent, st) \<Longrightarrow> fe_uuid env = uuid \<Longrightarrow>
     connection m uuid st0 (if opens frame then [config] else []) (map (\<lambda>q. ([], config, q)) sent) st"
  using connection.handled [OF connection.connected] by fastforce

lemmas dispatch_simps =
  handle_decoded_frame_with_service_def control_frame_def header_new_def validate_inbound_client_def direction_def
  classify_message_def is_handshake_def is_operation_def handle_operation_with_service_def frame_guard_def
  decode_msgpack_def ok_or_def

definition trash_serde :: RmpSerde where
  "trash_serde = null_serde\<lparr>dec_list_trash := (\<lambda>_. Some \<lparr>ltr_root_id = ''home''\<rparr>)\<rparr>"

definition trash_request :: HelperRequest where
  "trash_request = base_request 5 example_user AppConfig_default AllowedRoot_default HelperCommand.ListTrash ''home'' []"

lemma trash_run:
  "handle_decoded_frame_with_service trash_serde example_env (control_frame MessageType.ListTrash) AppConfig_default
     (example_state example_connection)
   = (Inl TealDriveError.Internal, [trash_request], example_state example_connection)"
proof -
  have "user_context example_connection = example_user"
    by (simp add: user_context_def example_connection_def example_user_def)
  moreover have "list_trash_prepare Some 5 example_user \<lparr>ltr_root_id = ''home''\<rparr> AppConfig_default
      (PolicyEngine_new AppConfig_default) = Inr trash_request"
    by (simp add: list_trash_prepare_def trash_request_def policy_eval require_permitted_def for_user_def
        PolicyEngine_new_def config_defaults Let_def result_simps)
  moreover have ready: "cc_protocol_ready example_connection" by (simp add: example_connection_def)
  ultimately show ?thesis
    by (simp add: dispatch_simps answer_with_def handle_list_trash_frame_def run_service_def then_do_def lift_result_def
        list_trash_request_def call_helper_def send_def example_env_def example_state_def trash_serde_def
        ready result_simps)
qed

text \<open>The upload of an empty file: it is begun, and ended at once.\<close>

definition empty_request :: UploadBeginRequest where
  "empty_request = (example_upload_request ''a.txt'')\<lparr>ub_total_size := 0\<rparr>"

definition empty_active :: ActiveUpload where
  "empty_active = (example_active 0)\<lparr>up_reserved := 0, up_total_size := 0\<rparr>"

definition upload_serde :: RmpSerde where
  "upload_serde = null_serde\<lparr>dec_upload_begin := (\<lambda>_. Some empty_request),
     dec_upload_end := (\<lambda>_. Some \<lparr>ue_transfer_id = 5, ue_total_size = 0, ue_sha256 = None\<rparr>)\<rparr>"

lemma empty_validate:
  "validate_upload uuid example_user empty_request AppConfig_default (PolicyEngine_new AppConfig_default)
     = Inr (''docs'', ''a.txt'')"
proof -
  have "SafeFileName_parse ''a.txt'' = Inr ''a.txt''"
    by (simp add: SafeFileName_parse_def is_reserved_name_def policy_eval)
  then show ?thesis
    by (simp add: validate_upload_def example_user_def empty_request_def example_upload_request_def upload_eval
        policy_eval for_user_def PolicyEngine_new_def UploadBeginRequest_validate_def
        check_webroot_upload_def authorize_new_target_def Let_def)
qed

lemma empty_begin:
  "\<exists>usage ledger. upload_begin_request Some (\<lambda>_. ''5'') ''/tmp'' example_budget healthy_disk 5 example_user
     empty_request AppConfig_default (PolicyEngine_new AppConfig_default)
     (\<lparr>sgu_bytes = 0, sgu_transfers = 0\<rparr>, [], Map.empty)
   = (Inr (empty_active, \<lparr>ubr_transfer_id = 5, ubr_chunk_size = 1024\<rparr>), usage, ledger, example_files [])"
proof -
  have "\<exists>ledger. budget_reserve Some example_budget (TempUploadName_new (\<lambda>_. ''5'') 5) 0 (4 * 1024 * 1024 * 1024) 128 []
      = (Inr ''5.lease'', ledger)"
    by (simp add: budget_eval TempUploadName_new_def)
  moreover have "ss_max_staging_bytes (cfg_system_storage AppConfig_default) = 4 * 1024 * 1024 * 1024"
    "ss_max_staging_transfers (cfg_system_storage AppConfig_default) = 128"
    "ss_staging_min_free_bytes (cfg_system_storage AppConfig_default) = 1024 * 1024 * 1024"
    "max_chunk_size (cfg_limits AppConfig_default) = 256 * 1024"
    by (simp_all add: upload_eval)
  moreover have "ub_total_size empty_request = 0" by (simp add: empty_request_def)
  moreover have "validate_upload Some example_user empty_request AppConfig_default (PolicyEngine_new AppConfig_default)
      = Inr (''docs'', ''a.txt'')" by (rule empty_validate)
  ultimately show ?thesis
    by (auto simp: upload_begin_request_def reserve_staging_def check_staging_capacity_def healthy_disk_def
        checked_add_def U64_MAX_def result_simps TempUploadName_new_def path_join_def example_files_def
        example_active_def example_upload_request_def empty_request_def empty_active_def Let_def)
qed

lemma example_user_context: "user_context example_connection = example_user" "cc_protocol_ready example_connection"
    "cc_active_uploads example_connection = []"
  by (simp_all add: user_context_def example_connection_def example_user_def)

lemma begin_run:
  "\<exists>st. handle_decoded_frame_with_service upload_serde example_env (control_frame MessageType.UploadBegin)
      AppConfig_default (example_state example_connection) = (Inl TealDriveError.Protocol, [], st)
    \<and> ds_context st = example_connection\<lparr>cc_active_uploads := [(5, empty_active)]\<rparr>
    \<and> ds_files st = example_files []"
  using empty_begin example_user_context
  by (auto simp: dispatch_simps answer_upload_def handle_upload_begin_frame_def example_env_def example_state_def
      upload_serde_def null_serde_def reply_def encode_msgpack_def empty_active_def example_active_def set_active_def
      result_simps)

lemma begun:
  obtains st where "connection upload_serde Some (example_state example_connection) [AppConfig_default] [] st"
    "ds_context st = example_connection\<lparr>cc_active_uploads := [(5, empty_active)]\<rparr>" "ds_files st = example_files []"
proof -
  obtain st where st: "handle_decoded_frame_with_service upload_serde example_env (control_frame MessageType.UploadBegin)
      AppConfig_default (example_state example_connection) = (Inl TealDriveError.Protocol, [], st)"
    "ds_context st = example_connection\<lparr>cc_active_uploads := [(5, empty_active)]\<rparr>" "ds_files st = example_files []"
    using begin_run by blast
  have "connection upload_serde Some (example_state example_connection) [AppConfig_default] [] st"
    using connection_one [OF st(1)] by (simp add: example_env_def opens_def control_frame_def header_new_def)
  with st that show thesis by blast
qed

definition empty_commit :: HelperRequest where
  "empty_commit = upload_commit_request 5 example_user empty_active AppConfig_default AllowedRoot_default"

lemma end_run:
  assumes "ds_context st = example_connection\<lparr>cc_active_uploads := [(5, empty_active)]\<rparr>" "ds_files st = example_files []"
  shows "\<exists>st'. handle_decoded_frame_with_service upload_serde example_env (control_frame MessageType.UploadEnd)
      AppConfig_default st = (Inl TealDriveError.Internal, [empty_commit], st')"
proof -
  have u: "user_context (example_connection\<lparr>cc_active_uploads := ups\<rparr>) = example_user" for ups
    by (simp add: user_context_def example_connection_def example_user_def)
  have "require_allowed_root (cfg_roots AppConfig_default) (up_root_id empty_active) = Inr AllowedRoot_default"
    by (simp add: empty_active_def example_active_def policy_eval config_defaults result_simps)
  then have "upload_end_request (fe_sha example_env) (fe_stream_helper example_env) True True True 5 example_user empty_active
      \<lparr>ue_transfer_id = 5, ue_total_size = 0, ue_sha256 = None\<rparr> AppConfig_default (example_files [])
    = ((Inl TealDriveError.Internal, [empty_commit]), remove_staged True (up_staging_path empty_active) (example_files []))"
    by (simp add: upload_end_request_def upload_end_checks_def then_do_def lift_result_def send_def verify_digest_def
        empty_commit_def example_files_def example_env_def empty_active_def example_active_def result_simps)
  then show ?thesis
    using example_user_context
    by (simp add: dispatch_simps answer_with_def handle_upload_end_frame_def assms u upload_serde_def null_serde_def
        then_do_def lift_result_def result_simps example_env_def)
qed

theorem connection_requests_permitted_witness:
  "commit_ok {AppConfig_default} AppConfig_default example_user empty_commit"
proof (rule begun)
  fix st
  assume c: "connection upload_serde Some (example_state example_connection) [AppConfig_default] [] st"
    and st: "ds_context st = example_connection\<lparr>cc_active_uploads := [(5, empty_active)]\<rparr>" "ds_files st = example_files []"
  obtain st' where e: "handle_decoded_frame_with_service upload_serde example_env (control_frame MessageType.UploadEnd)
      AppConfig_default st = (Inl TealDriveError.Internal, [empty_commit], st')"
    using end_run [OF st] by blast
  have "connection upload_serde Some (example_state example_connection) [AppConfig_default]
      [([AppConfig_default], AppConfig_default, empty_commit)] st'"
    using connection.handled [OF c _ e] by (simp add: example_env_def opens_def control_frame_def header_new_def)
  from connection_requests_permitted [OF this, of "[AppConfig_default]" AppConfig_default empty_commit]
  have "sent_ok Some AppConfig_default example_user empty_commit
      \<or> commit_ok {AppConfig_default} AppConfig_default example_user empty_commit"
    by (simp add: example_state_def pending_ok_def example_user_context)
  then show ?thesis by (auto simp: sent_ok_def empty_commit_def upload_commit_request_def)
qed

theorem open_uploads_permitted_witness:
  "\<exists>config \<in> {AppConfig_default}. upload_allowed config example_user ''home'' ''docs'' ''a.txt'' 0"
proof (rule begun)
  fix st
  assume c: "connection upload_serde Some (example_state example_connection) [AppConfig_default] [] st"
    and st: "ds_context st = example_connection\<lparr>cc_active_uploads := [(5, empty_active)]\<rparr>"
  from open_uploads_permitted [OF c, of 5 empty_active] st show ?thesis
    by (simp add: example_state_def pending_ok_def example_user_context empty_active_def example_active_def)
qed

definition hello_serde :: RmpSerde where
  "hello_serde = null_serde\<lparr>enc_protocol_ready := (\<lambda>_. Some [1]),
     dec_client_hello := (\<lambda>_. Some \<lparr>ch_protocol_version = 1, ch_supported_encodings = [MessagePack],
       ch_supported_compressions = [NoCompression], ch_max_frame_size = 1024, ch_max_control_payload_size = 1024,
       ch_max_chunk_size = 1024, ch_feature_flags = FeatureFlags_default\<rparr>)\<rparr>"

definition fresh_connection :: WsConnectionContext where
  "fresh_connection = example_connection\<lparr>cc_protocol_ready := False\<rparr>"

lemma hello_run:
  "\<exists>f st. handle_decoded_frame_with_service hello_serde example_env (control_frame MessageType.ClientHello)
     AppConfig_default (example_state fresh_connection) = (Inr (Outbound [f]), [], st)
   \<and> cc_protocol_ready (ds_context st)"
  by (simp add: dispatch_simps handle_client_hello_def decode_client_hello_def validate_client_hello_def
      ClientHelloPayload_validate_def select_compression_def create_protocol_ready_frame_def apply_protocol_ready_def
      reply_def encode_msgpack_def frame_new_def hello_serde_def null_serde_def example_state_def fresh_connection_def
      example_connection_def TDRV_PROTOCOL_VERSION_def Limits_default_def limit_defs reject_if_def result_simps)

theorem handshake_comes_first_witness:
  "\<exists>st. connection hello_serde Some (example_state fresh_connection) [] [] st \<and> cc_protocol_ready (ds_context st)
     \<and> map_option wsp_effective_limits (cc_selected_protocol (ds_context st)) = Some Limits_default"
proof -
  obtain f st where r: "handle_decoded_frame_with_service hello_serde example_env (control_frame MessageType.ClientHello)
      AppConfig_default (example_state fresh_connection) = (Inr (Outbound [f]), [], st)"
    "cc_protocol_ready (ds_context st)"
    using hello_run by blast
  then have c: "connection hello_serde Some (example_state fresh_connection) [] [] st"
    using connection_one [OF r(1)] by (simp add: example_env_def opens_def control_frame_def header_new_def)
  from handshake_comes_first [OF c] r(2) c show ?thesis
    by (auto simp: example_state_def fresh_connection_def example_connection_def)
qed

theorem every_answer_deliverable_witness:
  "\<exists>f st. handle_decoded_frame_with_service hello_serde example_env (control_frame MessageType.ClientHello)
     AppConfig_default (example_state fresh_connection) = (Inr (Outbound [f]), [], st) \<and> deliverable f"
proof -
  obtain f st where r: "handle_decoded_frame_with_service hello_serde example_env (control_frame MessageType.ClientHello)
      AppConfig_default (example_state fresh_connection) = (Inr (Outbound [f]), [], st)"
    using hello_run by blast
  from every_answer_deliverable [OF r] r show ?thesis by auto
qed
end
