(* ===== verification/TD_Home.thy ===== *)
theory TD_Home
  imports TD_Config
begin

text \<open>
  The account record of \<open>src/accounts/store.rs\<close> and the profile of an account (\<open>src/policy/home.rs\<close>): the
  configuration under which its requests are decided, with its own home as the only place its roots can
  be.
\<close>

section \<open>Accounts\<close>

datatype AccountKind = Linux | Virtual

datatype Role = User | Admin

datatype AccountStatus = Active | Suspended | Revoked | Deleted

record Account =
  acc_id :: string
  acc_username :: string
  acc_uid :: nat
  acc_gid :: nat
  acc_home :: string
  acc_kind :: AccountKind
  acc_role :: Role
  acc_global_admin :: bool
  acc_password_change_required :: bool
  acc_owner_admin_id :: "string option"
  acc_status :: AccountStatus
  acc_login_enabled :: bool
  acc_generation :: nat
  acc_password_enrolled :: bool
  acc_quota_bytes :: "nat option"
  acc_undo_hours :: "nat option"
  acc_created_at :: nat
  acc_updated_at :: nat
  acc_deleted_at :: "nat option"
  acc_deny_enrollment :: bool

section \<open>Profiles (\<open>home.rs\<close>)\<close>

definition reserved_trees :: "string list" where
  "reserved_trees =
     [''/etc'', ''/proc'', ''/sys'', ''/dev'', ''/run'', ''/boot'', ''/usr'', ''/bin'', ''/sbin'', ''/lib'',
      ''/lib64'', ''/root'', ''/home/tealdrive'']"

definition safe_home :: "string \<Rightarrow> AccountKind \<Rightarrow> bool" where
  "safe_home path kind =
     (if \<not> is_absolute path \<or> list_ex (\<lambda>c. c = ParentDir \<or> c = CurDir) (components path)
        \<or> nul \<in> set path \<or> path_eq path ''/''
      then False
      else if path_starts_with path ''/home/tealdrive''
      then kind = Virtual \<and> path_parent path = Some (components ''/home/tealdrive/virtual-homes'')
      else \<not> list_ex (path_starts_with path) reserved_trees)"

text \<open>The loop over the roots of a virtual account.\<close>

definition cap_quota :: "Account \<Rightarrow> AllowedRoot \<Rightarrow> AllowedRoot" where
  "cap_quota account root =
     (if acc_kind account = Virtual
      then
        let allocation = (case acc_quota_bytes account of Some q \<Rightarrow> q | None \<Rightarrow> 0)
        in root\<lparr>root_quota_bytes := Some (case root_quota_bytes root of
             None \<Rightarrow> allocation | Some q \<Rightarrow> min q allocation)\<rparr>
      else root)"

definition resolve_home ::
  "(string \<Rightarrow> UriView option) \<Rightarrow> AppConfig \<Rightarrow> Account \<Rightarrow> AllowedRoot option \<Rightarrow> AppConfig td_result" where
  "resolve_home uri config account template =
     (if acc_status account \<noteq> Active \<or> \<not> acc_login_enabled account \<or> acc_uid account = 0
        \<or> acc_generation account = 0 \<or> \<not> safe_home (acc_home account) (acc_kind account)
      then Inl TealDriveError.PermissionDenied
      else
        let kept = filter (\<lambda>root. path_eq (root_base_path root) (acc_home account)) (cfg_roots config) in
        and_then
          (case template of
             None \<Rightarrow> Inr kept
           | Some t \<Rightarrow>
               if kept \<noteq> [] then Inl TealDriveError.Validation
               else Inr [t\<lparr>root_base_path := acc_home account\<rparr>])
          (\<lambda>roots.
           if roots = [] then Inl TealDriveError.PermissionDenied
           else
             let effective = config\<lparr>cfg_home_template := None, cfg_roots := map (cap_quota account) roots\<rparr>
             in and_then (AppConfig_validate uri effective) (\<lambda>_. Inr effective)))"

definition default_template :: AllowedRoot where
  "default_template = AllowedRoot_default\<lparr>root_root_id := ''home'', root_hidden_files_allowed := True\<rparr>"

section \<open>What a profile allows\<close>

text \<open>A root is the account's own home, and for a virtual account has a quota within its allocation.\<close>

definition own_root :: "Account \<Rightarrow> AllowedRoot \<Rightarrow> bool" where
  "own_root account root \<longleftrightarrow>
     components (root_base_path root) = components (acc_home account)
     \<and> (acc_kind account = Virtual \<longrightarrow>
          (\<exists>q. root_quota_bytes root = Some q \<and> q \<le> (case acc_quota_bytes account of Some a \<Rightarrow> a | None \<Rightarrow> 0)))"

text \<open>A tree that no account may have as its home, the homes of virtual accounts apart.\<close>

definition outside_reserved :: "Account \<Rightarrow> string \<Rightarrow> bool" where
  "outside_reserved account path \<longleftrightarrow>
     (\<forall>tree \<in> set reserved_trees. prefix (components tree) (components path) \<longrightarrow>
        tree = ''/home/tealdrive'' \<and> acc_kind account = Virtual
        \<and> (\<exists>name. components path = components ''/home/tealdrive/virtual-homes'' @ [Normal name]))"

lemma reserved_components:
  "components ''/home/tealdrive'' = [RootDir, Normal ''home'', Normal ''tealdrive'']"
  "components ''/home/tealdrive/virtual-homes'' = [RootDir, Normal ''home'', Normal ''tealdrive'', Normal ''virtual-homes'']"
  "map components reserved_trees =
     map (\<lambda>n. [RootDir, Normal n]) [''etc'', ''proc'', ''sys'', ''dev'', ''run'', ''boot'', ''usr'', ''bin'', ''sbin'',
       ''lib'', ''lib64'', ''root''] @ [[RootDir, Normal ''home'', Normal ''tealdrive'']]"
  by (simp_all add: components_def is_absolute_def reserved_trees_def)

lemma home_tree_only:
  assumes "tree \<in> set reserved_trees" and "prefix (components tree) cs"
    and "prefix (components ''/home/tealdrive'') cs"
  shows "tree = ''/home/tealdrive''"
proof -
  have "components tree \<in> set (map components reserved_trees)" using assms(1) by simp
  then have "components tree = components ''/home/tealdrive''"
    using assms(2,3) unfolding reserved_components by (auto simp: prefix_def)
  with assms(1) show ?thesis
    by (auto simp: reserved_trees_def components_def is_absolute_def)
qed

lemma safe_home_outside:
  assumes "safe_home (acc_home account) (acc_kind account)" and "components p = components (acc_home account)"
  shows "outside_reserved account p"
proof (cases "path_starts_with (acc_home account) ''/home/tealdrive''")
  case True
  let ?cs = "components (acc_home account)"
  have v: "acc_kind account = Virtual" "path_parent (acc_home account) = Some (components ''/home/tealdrive/virtual-homes'')"
    "ParentDir \<notin> set ?cs" "CurDir \<notin> set ?cs"
    using assms(1) True by (auto simp: safe_home_def list_ex_iff split: if_split_asm)
  then have ne: "?cs \<noteq> []" "last ?cs \<noteq> RootDir" "butlast ?cs = components ''/home/tealdrive/virtual-homes''"
    by (auto simp: path_parent_def split: list.split_asm if_split_asm)
  moreover obtain name where "last ?cs = Normal name"
    using ne(1,2) v(3,4) last_in_set [OF ne(1)] by (cases "last ?cs") auto
  ultimately have "?cs = components ''/home/tealdrive/virtual-homes'' @ [Normal name]"
    by (metis append_butlast_last_id)
  moreover have "tree = ''/home/tealdrive''" if "tree \<in> set reserved_trees" "prefix (components tree) ?cs" for tree
    using home_tree_only [OF that] True unfolding path_starts_with_def .
  ultimately show ?thesis
    using v(1) unfolding outside_reserved_def assms(2) by blast
next
  case False
  with assms show ?thesis
    by (auto simp: safe_home_def outside_reserved_def path_starts_with_def list_ex_iff split: if_split_asm)
qed

lemma resolve_home_ok:
  assumes "resolve_home uri config account template = Inr profile"
  shows "acc_status account = Active \<and> acc_login_enabled account \<and> acc_uid account \<noteq> 0
    \<and> cfg_roots profile \<noteq> [] \<and> list_all (own_root account) (cfg_roots profile)
    \<and> list_all (\<lambda>r. outside_reserved account (root_base_path r)) (cfg_roots profile)
    \<and> (template = None \<longrightarrow> (\<forall>r \<in> set (cfg_roots profile). \<exists>r' \<in> set (cfg_roots config).
         r = r'\<lparr>root_quota_bytes := root_quota_bytes r\<rparr>))
    \<and> profile = config\<lparr>cfg_home_template := None, cfg_roots := cfg_roots profile\<rparr>
    \<and> AppConfig_validate uri profile = Inr ()"
proof -
  let ?kept = "filter (\<lambda>root. path_eq (root_base_path root) (acc_home account)) (cfg_roots config)"
  obtain roots where acc: "acc_status account = Active" "acc_login_enabled account" "acc_uid account \<noteq> 0"
      "safe_home (acc_home account) (acc_kind account)"
    and roots: "(case template of None \<Rightarrow> Inr ?kept
        | Some t \<Rightarrow> if ?kept \<noteq> [] then Inl TealDriveError.Validation else Inr [t\<lparr>root_base_path := acc_home account\<rparr>])
        = Inr roots" "roots \<noteq> []"
    and profile: "profile = config\<lparr>cfg_home_template := None, cfg_roots := map (cap_quota account) roots\<rparr>"
      "AppConfig_validate uri profile = Inr ()"
    using assms
    by (auto simp: resolve_home_def Let_def and_then_Inr and_then_unit split: if_split_asm)
  have home: "components (root_base_path r) = components (acc_home account)" if "r \<in> set roots" for r
    using roots(1) that by (auto simp: path_eq_def split: option.split_asm if_split_asm)
  have cut: "own_root account (cap_quota account r)" "components (root_base_path (cap_quota account r)) = components (acc_home account)"
    if "r \<in> set roots" for r
    using home [OF that] by (auto simp: own_root_def cap_quota_def Let_def split: option.split)
  have "list_all (own_root account) (cfg_roots profile)
      \<and> list_all (\<lambda>r. outside_reserved account (root_base_path r)) (cfg_roots profile)"
    using cut safe_home_outside [OF acc(4)] by (auto simp: profile(1) list_all_iff)
  moreover have "r \<in> set (cfg_roots profile) \<Longrightarrow> \<exists>r' \<in> set (cfg_roots config).
      r = r'\<lparr>root_quota_bytes := root_quota_bytes r\<rparr>" if "template = None" for r
  proof -
    assume "r \<in> set (cfg_roots profile)"
    then have "r \<in> set (map (cap_quota account) roots)" by (simp add: profile(1))
    then obtain r' where "r' \<in> set roots" "r = cap_quota account r'" by (auto simp: profile(1))
    moreover from this(2) have "r = r'\<lparr>root_quota_bytes := root_quota_bytes r\<rparr>" by (simp add: cap_quota_def Let_def)
    ultimately show ?thesis using roots(1) that by auto
  qed
  ultimately show ?thesis using acc roots(2) profile by simp
qed

text \<open>C22: A resolved profile belongs to an active account that may log in and is not root, has at least one
  root, and every root is the home of the account and lies outside the system's own trees; the roots of a
  virtual account have quotas within its allocation; without a template they are configured roots with at
  most a smaller quota; and the profile as a whole passes validation.\<close>

theorem resolved_home_confined:
  assumes "resolve_home uri config account template = Inr profile"
  shows "acc_status account = Active \<and> acc_login_enabled account \<and> acc_uid account \<noteq> 0
    \<and> cfg_roots profile \<noteq> [] \<and> list_all (own_root account) (cfg_roots profile)
    \<and> list_all (\<lambda>r. outside_reserved account (root_base_path r)) (cfg_roots profile)
    \<and> (template = None \<longrightarrow> (\<forall>r \<in> set (cfg_roots profile). \<exists>r' \<in> set (cfg_roots config).
         r = r'\<lparr>root_quota_bytes := root_quota_bytes r\<rparr>))
    \<and> profile = config\<lparr>cfg_home_template := None, cfg_roots := cfg_roots profile\<rparr>
    \<and> AppConfig_validate uri profile = Inr ()"
  using assms by (rule resolve_home_ok)

definition example_account :: Account where
  "example_account =
     \<lparr>acc_id = ''acct_alice'', acc_username = ''alice'', acc_uid = 1000, acc_gid = 1000, acc_home = ''/home/alice'',
      acc_kind = Linux, acc_role = User, acc_global_admin = False, acc_password_change_required = False,
      acc_owner_admin_id = None, acc_status = Active, acc_login_enabled = True, acc_generation = 1,
      acc_password_enrolled = True, acc_quota_bytes = None, acc_undo_hours = None, acc_created_at = 1,
      acc_updated_at = 1, acc_deleted_at = None, acc_deny_enrollment = False\<rparr>"

lemma example_profile:
  "resolve_home uri AppConfig_default (example_account\<lparr>acc_home := root_base_path AllowedRoot_default\<rparr>) None
     = Inr AppConfig_default"
proof -
  have "AppConfig_default\<lparr>cfg_home_template := None, cfg_roots := [AllowedRoot_default]\<rparr> = AppConfig_default"
    by (simp add: AppConfig_default_def)
  with AppConfig_default_valid [of uri] show ?thesis
    by (simp add: resolve_home_def example_account_def safe_home_def config_defaults components_def is_absolute_def
        path_eq_def path_starts_with_def reserved_trees_def cap_quota_def)
qed

theorem resolved_home_confined_witness:
  "outside_reserved (example_account\<lparr>acc_home := root_base_path AllowedRoot_default\<rparr>) (root_base_path AllowedRoot_default)"
  using resolved_home_confined [OF example_profile [of "\<lambda>_. None"]] by (simp add: AppConfig_default_def)

text \<open>Only homes inside a reserved tree are refused, not homes that contain one.\<close>

theorem home_may_contain_reserved:
  "safe_home ''/home'' Linux \<and> path_starts_with ''/home/tealdrive'' ''/home''"
  by (simp add: safe_home_def components_def is_absolute_def path_eq_def path_starts_with_def reserved_trees_def)

end
