(* ===== verification/TD_Socket.thy ===== *)
theory TD_Socket
  imports TD_Dispatch TD_Home TD_Session
begin

text \<open>
  A WebSocket from its upgrade to its end: the origin and the session it is bound to
  (\<open>src/ws/upgrade.rs\<close>), the account behind the session (\<open>validated_session_account\<close> of
  \<open>src/auth/api.rs\<close>), one pass of the connection's loop and the cleanup of its uploads
  (\<open>src/ws/server.rs\<close>). A pass depends on what happens around it: which event wakes the loop, the session
  store and the clock at each of its lookups, the configuration in force, the answer of the account
  gateway, whether the server admits the work, whether the session is cancelled meanwhile, and how many
  frames the peer takes. All of these are arguments. Audit records are not modelled.
\<close>

section \<open>Upgrade (\<open>upgrade.rs\<close>)\<close>

record WsUpgradeRequest =
  wu_session_id :: "SessionId option"
  wu_origin :: "string option"
  wu_user_agent :: "string option"
  wu_ip :: "string option"
  wu_now :: nat

definition validate_ws_origin :: "SecurityConfig \<Rightarrow> string option \<Rightarrow> unit td_result" where
  "validate_ws_origin security origin =
     (if sc_allow_plain_ws_localhost_only security \<and> sc_allowed_origins security = [] then Inr ()
      else case origin of
        Some v \<Rightarrow>
          if str_trim v = [] then Inl TealDriveError.Validation
          else if sc_allowed_origins security = [] \<or> v \<in> set (sc_allowed_origins security) then Inr ()
          else Inl TealDriveError.PermissionDenied
      | None \<Rightarrow> Inl TealDriveError.Validation)"

definition option_or :: "'a option \<Rightarrow> 'a option \<Rightarrow> 'a option" where
  "option_or a b = (case a of Some x \<Rightarrow> Some x | None \<Rightarrow> b)"

definition context_from_session ::
  "Session \<Rightarrow> string option \<Rightarrow> string option \<Rightarrow> nat \<Rightarrow> FeatureFlags \<Rightarrow> WsConnectionContext" where
  "context_from_session session user_agent ip connected_at features =
     \<lparr>cc_session_id = ses_session_id session, cc_username = ses_username session, cc_uid = ses_uid session,
      cc_gid = ses_gid session, cc_user_agent = option_or user_agent (ses_user_agent session),
      cc_ip = option_or ip (ses_ip session), cc_connected_at = connected_at, cc_protocol_ready = False,
      cc_selected_protocol = None, cc_features = features, cc_active_uploads = []\<rparr>"

definition accept_session_bound_upgrade ::
  "InMemorySessionStore \<Rightarrow> SecurityConfig \<Rightarrow> FeatureFlags \<Rightarrow> WsUpgradeRequest \<Rightarrow> WsConnectionContext td_result" where
  "accept_session_bound_upgrade store security features request =
     and_then (validate_ws_origin security (wu_origin request)) (\<lambda>_.
     and_then (ok_or (wu_session_id request) TealDriveError.PermissionDenied) (\<lambda>session_id.
     case get_session store session_id (wu_now request) of
       Found session \<Rightarrow>
         Inr (context_from_session session (wu_user_agent request) (wu_ip request) (wu_now request) features)
     | _ \<Rightarrow> Inl TealDriveError.PermissionDenied))"

section \<open>The account of a session (\<open>auth/api.rs\<close>)\<close>

datatype GatewayFailure =
  RateLimited | Disabled | Forbidden | InvalidCredentials | Conflict | Unavailable | QuotaExceeded

text \<open>\<open>gateway\<close> is the account gateway asked to validate a grant: an account, another reply (\<open>None\<close>), or a
  failure. \<open>slots_ok\<close> says whether a validation slot and admission were obtained.\<close>

definition validated_session_account ::
  "AppConfig \<Rightarrow> bool \<Rightarrow> (SessionGrant \<Rightarrow> GatewayFailure + Account option) \<Rightarrow> Session
   \<Rightarrow> GatewayFailure + Account option" where
  "validated_session_account config slots_ok gateway session =
     (if \<not> Session_allowed_by session config then Inl GatewayFailure.Forbidden
      else case ses_grant session of
        None \<Rightarrow> Inr None
      | Some grant \<Rightarrow>
          if \<not> slots_ok then Inl GatewayFailure.Unavailable
          else
            and_then (gateway grant) (\<lambda>answer.
              case answer of
                Some account \<Rightarrow>
                  if acc_username account = ses_username session \<and> acc_uid account = ses_uid session
                    \<and> acc_gid account = ses_gid session
                  then Inr (Some account) else Inl GatewayFailure.Forbidden
              | None \<Rightarrow> Inl GatewayFailure.Forbidden))"

section \<open>Answers to errors (\<open>server.rs\<close>)\<close>

definition is_protocol_error :: "TealDriveError \<Rightarrow> bool" where
  "is_protocol_error e \<longleftrightarrow>
     e \<in> {TealDriveError.Validation, TealDriveError.Protocol, TealDriveError.InvalidMagic,
       TealDriveError.UnsupportedVersion, TealDriveError.InvalidHeaderLength, TealDriveError.PayloadTooLarge,
       TealDriveError.UnknownMessageType, TealDriveError.InvalidMessageDirection, TealDriveError.InvalidFlags,
       TealDriveError.InvalidEncoding, TealDriveError.InvalidCompression, TealDriveError.PayloadLengthMismatch,
       TealDriveError.InvalidChunk}"

definition protocol_error_message :: "TealDriveError \<Rightarrow> string" where
  "protocol_error_message e =
     (case e of
        TealDriveError.RevisionConflict \<Rightarrow> ''File revision changed.''
      | TealDriveError.Validation \<Rightarrow> ''Validation failed.''
      | TealDriveError.Protocol \<Rightarrow> ''Protocol error.''
      | TealDriveError.InvalidMagic \<Rightarrow> ''Invalid TDRV magic.''
      | TealDriveError.UnsupportedVersion \<Rightarrow> ''Unsupported TDRV version.''
      | TealDriveError.InvalidHeaderLength \<Rightarrow> ''Invalid header length.''
      | TealDriveError.PayloadTooLarge \<Rightarrow> ''Payload too large.''
      | TealDriveError.UnknownMessageType \<Rightarrow> ''Unknown message type.''
      | TealDriveError.InvalidMessageDirection \<Rightarrow> ''Invalid message direction.''
      | TealDriveError.InvalidFlags \<Rightarrow> ''Invalid flags.''
      | TealDriveError.InvalidEncoding \<Rightarrow> ''Invalid encoding.''
      | TealDriveError.InvalidCompression \<Rightarrow> ''Invalid compression.''
      | TealDriveError.PayloadLengthMismatch \<Rightarrow> ''Payload length mismatch.''
      | TealDriveError.InvalidChunk \<Rightarrow> ''Invalid chunk.''
      | _ \<Rightarrow> ''Protocol error.'')"

definition operation_failure :: "TealDriveError \<Rightarrow> ErrorKind \<times> string" where
  "operation_failure e =
     (case e of
        TealDriveError.RevisionConflict \<Rightarrow>
          (ErrorKind.RevisionConflict, ''File changed. Reload or compare before saving.'')
      | TealDriveError.PermissionDenied \<Rightarrow> (ErrorKind.PermissionDenied, ''Permission denied.'')
      | TealDriveError.PolicyDenied \<Rightarrow> (ErrorKind.PolicyDenied, ''Operation denied by policy.'')
      | TealDriveError.FeatureDisabled \<Rightarrow> (ErrorKind.FeatureDisabled, ''Feature disabled.'')
      | TealDriveError.NotFound \<Rightarrow> (ErrorKind.NotFound, ''Item not found.'')
      | TealDriveError.InvalidPath \<Rightarrow> (ErrorKind.InvalidPath, ''Invalid path.'')
      | TealDriveError.AlreadyExists \<Rightarrow> (ErrorKind.AlreadyExists, ''Target already exists.'')
      | TealDriveError.InvalidTarget \<Rightarrow> (ErrorKind.InvalidTarget, ''Invalid target.'')
      | TealDriveError.CrossDeviceMove \<Rightarrow> (ErrorKind.CrossDeviceMove, ''Cross-device move not supported.'')
      | TealDriveError.FileTooLarge \<Rightarrow> (ErrorKind.FileTooLarge, ''File is too large.'')
      | TealDriveError.DiskFull \<Rightarrow> (ErrorKind.DiskFull, ''Disk is full.'')
      | TealDriveError.UnsupportedBinaryFile \<Rightarrow> (ErrorKind.UnsupportedBinaryFile, ''Binary file is not supported.'')
      | TealDriveError.InvalidTextEncoding \<Rightarrow> (ErrorKind.InvalidTextEncoding, ''Invalid text encoding.'')
      | TealDriveError.InvalidFilename \<Rightarrow> (ErrorKind.NameTooLong, ''Invalid filename.'')
      | TealDriveError.ReadOnlyRoot \<Rightarrow> (ErrorKind.ReadOnlyFilesystem, ''Read-only filesystem.'')
      | TealDriveError.WebrootExecutableDenied \<Rightarrow> (ErrorKind.PermissionDenied, ''Executable upload denied.'')
      | TealDriveError.HelperSpawnFailed \<Rightarrow> (ErrorKind.InternalError, ''Internal error.'')
      | TealDriveError.HelperTimeout \<Rightarrow> (ErrorKind.InternalError, ''Internal error.'')
      | TealDriveError.HelperStdinFailed \<Rightarrow> (ErrorKind.InternalError, ''Internal error.'')
      | TealDriveError.HelperStdoutFailed \<Rightarrow> (ErrorKind.InternalError, ''Internal error.'')
      | TealDriveError.HelperMalformedResponse \<Rightarrow> (ErrorKind.InternalError, ''Internal error.'')
      | TealDriveError.HelperNonZeroExit \<Rightarrow> (ErrorKind.InternalError, ''Internal error.'')
      | TealDriveError.HelperRequestTooLarge \<Rightarrow> (ErrorKind.InternalError, ''Internal error.'')
      | TealDriveError.HelperResponseTooLarge \<Rightarrow> (ErrorKind.InternalError, ''Internal error.'')
      | TealDriveError.HelperDecodeFailed \<Rightarrow> (ErrorKind.InternalError, ''Internal error.'')
      | TealDriveError.HelperEncodeFailed \<Rightarrow> (ErrorKind.InternalError, ''Internal error.'')
      | TealDriveError.HelperCommandNotImplemented \<Rightarrow> (ErrorKind.InternalError, ''Internal error.'')
      | TealDriveError.Internal \<Rightarrow> (ErrorKind.InternalError, ''Internal error.'')
      | _ \<Rightarrow> (ErrorKind.InternalError, ''Operation failed.''))"

definition operation_failed_response :: "RmpSerde \<Rightarrow> Uuid \<Rightarrow> MessageType \<Rightarrow> TealDriveError \<Rightarrow> TdrvFrame td_result" where
  "operation_failed_response m rid mt e =
     (case operation_failure e of (kind, message) \<Rightarrow> operation_failed_frame m rid mt kind message)"

definition shutdown_notification_frame :: "RmpSerde \<Rightarrow> Uuid \<Rightarrow> TdrvFrame td_result" where
  "shutdown_notification_frame m rid =
     reply MessageType.ConnectionStatus rid (enc_connection_status m)
       \<lparr>cs_protocol_ready = False,
        cs_message = Some ''Server is shutting down. Sign in again after it restarts.'',
        cs_shutting_down = True, cs_grace_period_seconds = Some 30\<rparr>"


section \<open>The loop of a connection\<close>

datatype Message = Binary bytes | TextMessage | Ping bytes | Pong | Close

text \<open>What wakes the loop.\<close>

datatype Event = Draining | LeaseCancelled | StreamEnded | ReceiveError | Received Message

datatype Next = Continue | Break | Return TealDriveError

record SocketState =
  so_dispatch :: DispatchState
  so_account :: "Account option"
  so_shutdown_notified :: bool

text \<open>The stores and times are those of the successive session lookups of one pass. \<open>sv_draining\<close> tells why work
  was not admitted, \<open>sv_drain_midway\<close> whether draining begins while the job runs, and \<open>sv_sends\<close> how many
  frames the peer takes.\<close>

record SocketEnv =
  sv_frame :: FrameEnv
  sv_stores :: "nat \<Rightarrow> InMemorySessionStore"
  sv_clock :: "nat \<Rightarrow> nat"
  sv_config :: AppConfig
  sv_state_config :: AppConfig
  sv_uri :: "string \<Rightarrow> UriView option"
  sv_slots_ok :: bool
  sv_gateway :: "SessionGrant \<Rightarrow> GatewayFailure + Account option"
  sv_admitted :: bool
  sv_draining :: bool
  sv_drain_midway :: bool
  sv_cancelled :: bool
  sv_sends :: nat
  sv_fresh :: Uuid

text \<open>The frames the peer was sent, the requests sent to the helper with the configuration they were decided
  under, the time at which the session was touched if it was, how the loop goes on, and the state.\<close>

record SocketStep =
  step_frames :: "TdrvFrame list"
  step_pong :: "bytes option"
  step_requests :: "(AppConfig \<times> HelperRequest) list"
  step_touch :: "nat option"
  step_next :: Next
  step_state :: SocketState

fun send_frames :: "nat \<Rightarrow> TdrvFrame list \<Rightarrow> TdrvFrame list \<times> unit td_result" where
  "send_frames n [] = ([], Inr ())"
| "send_frames n (f # fs) =
     (case frame_encode f of
        Inl e \<Rightarrow> ([], Inl e)
      | Inr _ \<Rightarrow>
          if n = 0 then ([], Inl TealDriveError.Internal)
          else (case send_frames (n - 1) fs of (sent, r) \<Rightarrow> (f # sent, r)))"

definition plain_step :: "SocketState \<Rightarrow> Next \<Rightarrow> SocketStep" where
  "plain_step st next =
     \<lparr>step_frames = [], step_pong = None, step_requests = [], step_touch = None, step_next = next, step_state = st\<rparr>"

text \<open>Make a frame and send it, both with \<open>?\<close>, then go on.\<close>

definition respond :: "SocketEnv \<Rightarrow> SocketStep \<Rightarrow> TdrvFrame td_result \<Rightarrow> SocketStep" where
  "respond env step made =
     (case made of
        Inl e \<Rightarrow> step\<lparr>step_next := Return e\<rparr>
      | Inr f \<Rightarrow>
          (case send_frames (sv_sends env) [f] of
             (sent, Inl e) \<Rightarrow> step\<lparr>step_frames := step_frames step @ sent, step_next := Return e\<rparr>
           | (sent, Inr _) \<Rightarrow> step\<lparr>step_frames := step_frames step @ sent\<rparr>))"

text \<open>\<open>notify_shutdown\<close>: errors are ignored.\<close>

definition notify_shutdown :: "RmpSerde \<Rightarrow> SocketEnv \<Rightarrow> SocketStep \<Rightarrow> SocketStep" where
  "notify_shutdown m env step =
     (if so_shutdown_notified (step_state step) then step
      else case shutdown_notification_frame m (sv_fresh env) of
        Inl _ \<Rightarrow> step
      | Inr f \<Rightarrow> step\<lparr>step_frames := step_frames step @ fst (send_frames (sv_sends env) [f])\<rparr>)"

definition session_lookup :: "SocketEnv \<Rightarrow> nat \<Rightarrow> SocketState \<Rightarrow> SessionLookupResult" where
  "session_lookup env i st =
     get_session (sv_stores env i) (cc_session_id (ds_context (so_dispatch st))) (sv_clock env i)"

text \<open>The account of a virtual administrator is validated again for every frame.\<close>

definition recheck_account :: "SocketEnv \<Rightarrow> SocketState \<Rightarrow> Account option td_result" where
  "recheck_account env st =
     (case so_account st of
        Some a \<Rightarrow>
          if acc_kind a = Virtual \<and> acc_role a = Admin
          then (case session_lookup env 1 st of
                  Found session \<Rightarrow>
                    map_err (\<lambda>_. TealDriveError.PermissionDenied)
                      (validated_session_account (sv_state_config env) (sv_slots_ok env) (sv_gateway env) session)
                | _ \<Rightarrow> Inl TealDriveError.PermissionDenied)
          else Inr (Some a)
      | None \<Rightarrow> Inr None)"

definition effective_config :: "SocketEnv \<Rightarrow> Account option \<Rightarrow> AppConfig td_result" where
  "effective_config env account =
     (case account of
        Some a \<Rightarrow> resolve_home (sv_uri env) (sv_config env) a (cfg_home_template (sv_config env))
      | None \<Rightarrow>
          if cfg_home_template (sv_config env) \<noteq> None then Inl TealDriveError.PermissionDenied
          else Inr (sv_config env))"

text \<open>The job and what is made of its result.\<close>

definition run_job :: "RmpSerde \<Rightarrow> SocketEnv \<Rightarrow> TdrvFrame \<Rightarrow> AppConfig \<Rightarrow> SocketState \<Rightarrow> SocketStep" where
  "run_job m env frame config st =
     (case handle_decoded_frame_with_service m (sv_frame env) frame config (so_dispatch st) of
        (result, sent, ds) \<Rightarrow>
          let step = (plain_step (st\<lparr>so_dispatch := ds\<rparr>) Continue)\<lparr>step_requests := map (Pair config) sent\<rparr>;
              step = (if sv_drain_midway env \<and> \<not> so_shutdown_notified st
                then (notify_shutdown m env step)\<lparr>step_state := st\<lparr>so_dispatch := ds, so_shutdown_notified := True\<rparr>\<rparr>
                else step);
              rid = hdr_request_id (frame_header frame)
          in if sv_cancelled env then step\<lparr>step_next := Break\<rparr>
             else case result of
               Inr (Outbound fs) \<Rightarrow>
                 (case send_frames (sv_sends env) fs of
                    (delivered, Inl e) \<Rightarrow> step\<lparr>step_frames := step_frames step @ delivered, step_next := Return e\<rparr>
                  | (delivered, Inr _) \<Rightarrow>
                      step\<lparr>step_frames := step_frames step @ delivered, step_touch := Some (sv_clock env 3)\<rparr>)
             | Inr (DispatchPlaceholder f) \<Rightarrow> respond env step (Inr f)
             | Inl e \<Rightarrow>
                 if is_protocol_error e
                 then respond env (step\<lparr>step_next := Break\<rparr>) (error_frame m rid (protocol_error_message e))
                 else respond env step (operation_failed_response m rid (hdr_message_type (frame_header frame)) e))"

definition binary_message :: "RmpSerde \<Rightarrow> SocketEnv \<Rightarrow> bytes \<Rightarrow> SocketState \<Rightarrow> SocketStep" where
  "binary_message m env bs st =
     (case frame_decode bs of
        Inl _ \<Rightarrow> respond env (plain_step st Break) (error_frame m (sv_fresh env) ''Malformed websocket frame.'')
      | Inr frame \<Rightarrow>
          let mt = hdr_message_type (frame_header frame); rid = hdr_request_id (frame_header frame) in
          if (case so_account st of Some a \<Rightarrow> acc_password_change_required a | None \<Rightarrow> False) \<and> is_operation mt
          then respond env (plain_step st Continue) (operation_failed_response m rid mt TealDriveError.PermissionDenied)
          else
            (case and_then (recheck_account env st) (\<lambda>account.
                  and_then (effective_config env account) (\<lambda>config. Inr (account, config))) of
               Inl e \<Rightarrow> plain_step st (Return e)
             | Inr (account, config) \<Rightarrow>
                 let st = st\<lparr>so_account := account\<rparr> in
                 if \<not> (case session_lookup env 2 st of Found session \<Rightarrow> Session_allowed_by session config | _ \<Rightarrow> False)
                 then respond env (plain_step st Break) (error_frame m rid ''Session is no longer authorized.'')
                 else
                   let ds = so_dispatch st;
                       st = st\<lparr>so_dispatch := ds\<lparr>ds_context := (ds_context ds)\<lparr>cc_features := cfg_features config\<rparr>\<rparr>\<rparr>
                   in if \<not> sv_admitted env
                      then (if sv_draining env then notify_shutdown m env (plain_step st Break) else plain_step st Break)
                      else run_job m env frame config st))"

definition socket_step :: "RmpSerde \<Rightarrow> SocketEnv \<Rightarrow> Event \<Rightarrow> SocketState \<Rightarrow> SocketStep" where
  "socket_step m env event st =
     (case event of
        Draining \<Rightarrow> notify_shutdown m env (plain_step st Break)
      | LeaseCancelled \<Rightarrow> plain_step st Break
      | StreamEnded \<Rightarrow> plain_step st Break
      | ReceiveError \<Rightarrow> plain_step st Break
      | Received message \<Rightarrow>
          if \<not> (case session_lookup env 0 st of Found _ \<Rightarrow> True | _ \<Rightarrow> False) then plain_step st Break
          else
            (case message of
               Binary bs \<Rightarrow> binary_message m env bs st
             | Ping payload \<Rightarrow>
                 if sv_sends env = 0 then plain_step st (Return TealDriveError.Internal)
                 else (plain_step st Continue)\<lparr>step_pong := Some payload\<rparr>
             | Pong \<Rightarrow> (plain_step st Continue)\<lparr>step_touch := Some (sv_clock env 3)\<rparr>
             | Close \<Rightarrow> plain_step st Break
             | TextMessage \<Rightarrow>
                 respond env (plain_step st Break)
                   (error_frame m (sv_fresh env) ''Binary TDRV/1 frames are required.'')))"

section \<open>The end of a connection\<close>

text \<open>\<open>UploadCleanup\<close>: an upload that may be resumed is suspended, the staging file of any other is removed (which is
  taken to succeed).\<close>

definition cleanup_upload ::
  "nat \<Rightarrow> WsConnectionContext \<Rightarrow> nat \<Rightarrow> bool \<Rightarrow> ActiveUpload \<Rightarrow> Pending \<times> StagedFiles \<Rightarrow> Pending \<times> StagedFiles" where
  "cleanup_upload now context resume_seconds draining up st =
     (if up_retain_on_disconnect up \<and> up_bytes_received up > 0 \<and> resume_seconds > 0 \<and> \<not> draining
      then suspend now context up resume_seconds st
      else (fst st, (snd st)(up_staging_path up := None)))"

definition upload_cleanup ::
  "nat \<Rightarrow> nat \<Rightarrow> bool \<Rightarrow> WsConnectionContext \<Rightarrow> Pending \<times> StagedFiles \<Rightarrow> Pending \<times> StagedFiles" where
  "upload_cleanup now resume_seconds draining context st =
     fold (cleanup_upload now context resume_seconds draining) (map snd (cc_active_uploads context)) st"

section \<open>What a pass can do\<close>

lemma respond_same [simp]:
  "step_requests (respond env step made) = step_requests step" "step_state (respond env step made) = step_state step"
  by (auto simp: respond_def split: sum.split prod.split)

lemma notify_same [simp]:
  "step_requests (notify_shutdown m env step) = step_requests step"
  "step_state (notify_shutdown m env step) = step_state step"
  by (auto simp: notify_shutdown_def split: sum.split)

lemma plain_step_fields [simp]:
  "step_requests (plain_step st next) = []" "step_state (plain_step st next) = st"
  by (simp_all add: plain_step_def)

text \<open>The staging area, the suspended uploads and the uploads of the connection.\<close>

definition uploads_view ::
  "DispatchState \<Rightarrow> StageUsage \<times> Lease option list \<times> StagedFiles \<times> Pending \<times> (Uuid \<times> ActiveUpload) list" where
  "uploads_view ds = (ds_usage ds, ds_ledger ds, ds_files ds, ds_pending ds, cc_active_uploads (ds_context ds))"

definition has_effect :: "SocketState \<Rightarrow> SocketStep \<Rightarrow> bool" where
  "has_effect st step \<longleftrightarrow>
     step_requests step \<noteq> [] \<or> uploads_view (so_dispatch (step_state step)) \<noteq> uploads_view (so_dispatch st)"

lemma run_job_result:
  assumes "handle_decoded_frame_with_service m (sv_frame env) frame config (so_dispatch st) = (r, sent, ds)"
  shows "step_requests (run_job m env frame config st) = map (Pair config) sent
    \<and> so_dispatch (step_state (run_job m env frame config st)) = ds"
  using assms
  by (auto simp: run_job_def Let_def split: sum.split prod.split DispatchDecision.split)

lemma decoded_effect:
  assumes "handle_decoded_frame_with_service m env frame config ds = (r, sent, ds')"
    and "sent \<noteq> [] \<or> uploads_view ds' \<noteq> uploads_view ds"
  shows "is_operation (hdr_message_type (frame_header frame))"
  using assms(1)
proof (cases rule: decoded_cases)
  case (hello c)
  obtain p where "c = ds_context ds \<or> c = (ds_context ds)\<lparr>cc_selected_protocol := p, cc_protocol_ready := True\<rparr>"
    using client_hello_context [OF hello(1)] by blast
  then have "uploads_view ds' = uploads_view ds" using hello(3) by (auto simp: uploads_view_def)
  with assms(2) hello(2) show ?thesis by simp
qed (use assms(2) in auto)

text \<open>The conditions under which a frame is handled.\<close>

definition authorized :: "SocketEnv \<Rightarrow> SocketState \<Rightarrow> Account option \<Rightarrow> AppConfig \<Rightarrow> bool" where
  "authorized env st account config \<longleftrightarrow>
     (\<exists>session. session_lookup env 0 st = Found session)
     \<and> (\<exists>session. session_lookup env 2 st = Found session \<and> Session_allowed_by session config)
     \<and> recheck_account env st = Inr account \<and> effective_config env account = Inr config
     \<and> (case so_account st of Some a \<Rightarrow> \<not> acc_password_change_required a | None \<Rightarrow> True)"

lemma effect_authorized:
  assumes "has_effect st (socket_step m env event st)"
  shows "\<exists>account config r sent ds frame.
      authorized env st account config
      \<and> handle_decoded_frame_with_service m (sv_frame env) frame config
          ((so_dispatch st)\<lparr>ds_context := (ds_context (so_dispatch st))\<lparr>cc_features := cfg_features config\<rparr>\<rparr>) = (r, sent, ds)
      \<and> step_requests (socket_step m env event st) = map (Pair config) sent
      \<and> so_dispatch (step_state (socket_step m env event st)) = ds"
proof -
  obtain bs where ev: "event = Received (Binary bs)"
    and found: "\<exists>session. session_lookup env 0 st = Found session"
    using assms
    by (auto simp: has_effect_def socket_step_def split: Event.split_asm Message.split_asm if_split_asm
        SessionLookupResult.split_asm)
  then have step: "socket_step m env event st = binary_message m env bs st" by (auto simp: socket_step_def)
  obtain frame where frame: "frame_decode bs = Inr frame"
    using assms unfolding step by (cases "frame_decode bs") (auto simp: has_effect_def binary_message_def)
  let ?mt = "hdr_message_type (frame_header frame)"
  let ?pw = "case so_account st of Some a \<Rightarrow> acc_password_change_required a | None \<Rightarrow> False"
  have pw: "\<not> (?pw \<and> is_operation ?mt)"
    using assms frame unfolding step by (auto simp: has_effect_def binary_message_def Let_def)
  obtain account config where ac: "recheck_account env st = Inr account" "effective_config env account = Inr config"
    using assms frame pw unfolding step
    by (auto simp: has_effect_def binary_message_def Let_def and_then_Inr split: sum.split_asm if_split_asm)
  let ?st = "st\<lparr>so_account := account, so_dispatch := (so_dispatch st)\<lparr>ds_context :=
    (ds_context (so_dispatch st))\<lparr>cc_features := cfg_features config\<rparr>\<rparr>\<rparr>"
  have lk: "session_lookup env 2 (st\<lparr>so_account := account\<rparr>) = session_lookup env 2 st"
    by (simp add: session_lookup_def)
  have same: "uploads_view (so_dispatch ?st) = uploads_view (so_dispatch st)" by (simp add: uploads_view_def)
  have "(\<exists>session. session_lookup env 2 st = Found session \<and> Session_allowed_by session config)
      \<and> binary_message m env bs st = run_job m env frame config ?st"
    using assms frame pw ac same unfolding step
    by (auto simp: has_effect_def binary_message_def Let_def lk split: if_split_asm SessionLookupResult.split_asm)
  then have allowed: "\<exists>session. session_lookup env 2 st = Found session \<and> Session_allowed_by session config"
    and job: "socket_step m env event st = run_job m env frame config ?st"
    by (simp_all add: step)
  obtain r sent ds where d: "handle_decoded_frame_with_service m (sv_frame env) frame config (so_dispatch ?st) = (r, sent, ds)"
    using prod_cases3 by blast
  have "sent \<noteq> [] \<or> uploads_view ds \<noteq> uploads_view (so_dispatch ?st)"
    using assms run_job_result [OF d] same by (auto simp: has_effect_def job)
  from decoded_effect [OF d this] pw have "\<not> ?pw" by simp
  then have "authorized env st account config"
    using found allowed ac by (auto simp: authorized_def split: option.split_asm)
  moreover have "handle_decoded_frame_with_service m (sv_frame env) frame config
      ((so_dispatch st)\<lparr>ds_context := (ds_context (so_dispatch st))\<lparr>cc_features := cfg_features config\<rparr>\<rparr>) = (r, sent, ds)"
    using d by simp
  moreover have "step_requests (socket_step m env event st) = map (Pair config) sent"
    "so_dispatch (step_state (socket_step m env event st)) = ds"
    using run_job_result [OF d] by (simp_all add: job)
  ultimately show ?thesis by blast
qed

lemma allowed_root_member: "require_allowed_root roots i = Inr root \<Longrightarrow> root \<in> set roots \<and> root_root_id root = i"
  by (auto simp: require_allowed_root_def find_allowed_root_def ok_or_Inr find_Some_iff)

section \<open>A run of the loop\<close>

text \<open>The passes of one connection, the last one first, each with what it found around it and the state it started
  from. The loop goes on only after a pass that says so. Between the passes other connections may change the
  staging area and the suspended uploads.\<close>

inductive socket_run ::
  "RmpSerde \<Rightarrow> (string \<Rightarrow> string option) \<Rightarrow> SocketState \<Rightarrow> (SocketEnv \<times> SocketState) list \<Rightarrow> SocketState \<Rightarrow> bool"
  for m uuid st0 where
  upgraded: "socket_run m uuid st0 [] st0"
| pass: "socket_run m uuid st0 ((env, st) # passes) (step_state (socket_step m env event st))"
  if "socket_run m uuid st0 passes st" "fe_uuid (sv_frame env) = uuid"
    "step_next (socket_step m env event st) = Continue"
| others: "socket_run m uuid st0 passes (st\<lparr>so_dispatch := (so_dispatch st)
    \<lparr>ds_usage := usage, ds_ledger := ledger, ds_files := files, ds_pending := pending\<rparr>\<rparr>)"
  if "socket_run m uuid st0 passes st" "pending_ok pending"

text \<open>The configurations that some pass was authorized under.\<close>

definition profiles :: "(SocketEnv \<times> SocketState) list \<Rightarrow> AppConfig set" where
  "profiles passes = {config. \<exists>(env, st) \<in> set passes. \<exists>account. authorized env st account config}"

abbreviation socket_user :: "SocketState \<Rightarrow> UserContext" where
  "socket_user st \<equiv> user_context (ds_context (so_dispatch st))"

lemma identity_features [simp]: "identity (c\<lparr>cc_features := f\<rparr>) = identity c"
  by (simp add: identity_def user_context_def)

lemma run_job_identity:
  "identity (ds_context (so_dispatch (step_state (run_job m env frame config st)))) = identity (ds_context (so_dispatch st))"
proof -
  obtain r sent ds where d: "handle_decoded_frame_with_service m (sv_frame env) frame config (so_dispatch st) = (r, sent, ds)"
    using prod_cases3 by blast
  from run_job_result [OF d] decoded_identity [OF d] show ?thesis by simp
qed

lemma binary_identity:
  "identity (ds_context (so_dispatch (step_state (binary_message m env bs st)))) = identity (ds_context (so_dispatch st))"
  by (simp add: binary_message_def Let_def run_job_identity split: sum.split)

lemma socket_step_identity:
  "identity (ds_context (so_dispatch (step_state (socket_step m env event st)))) = identity (ds_context (so_dispatch st))"
  by (simp add: socket_step_def binary_identity split: Event.split Message.split)

lemma socket_run_user: "socket_run m uuid st0 passes st \<Longrightarrow> socket_user st = socket_user st0"
proof -
  assume "socket_run m uuid st0 passes st"
  then have "identity (ds_context (so_dispatch st)) = identity (ds_context (so_dispatch st0))"
    by (induction rule: socket_run.induct) (simp_all add: socket_step_identity)
  then show ?thesis by (simp add: identity_def)
qed

lemma uploads_ok_view: "uploads_view ds' = uploads_view ds \<Longrightarrow> uploads_ok opened user ds' = uploads_ok opened user ds"
  by (simp add: uploads_view_def uploads_ok_def)

lemma socket_step_uploads:
  assumes "uploads_ok opened (socket_user st) (so_dispatch st)"
  shows "uploads_ok (opened \<union> {config. \<exists>account. authorized env st account config}) (socket_user st)
    (so_dispatch (step_state (socket_step m env event st)))"
proof (cases "has_effect st (socket_step m env event st)")
  case False
  then have "uploads_view (so_dispatch (step_state (socket_step m env event st))) = uploads_view (so_dispatch st)"
    by (simp add: has_effect_def)
  from uploads_ok_view [OF this] assms
  have "uploads_ok opened (socket_user st) (so_dispatch (step_state (socket_step m env event st)))" by simp
  then show ?thesis by (rule uploads_ok_mono) simp
next
  case True
  let ?ds = "\<lambda>config. (so_dispatch st)\<lparr>ds_context := (ds_context (so_dispatch st))\<lparr>cc_features := cfg_features config\<rparr>\<rparr>"
  obtain account config r sent ds frame where au: "authorized env st account config"
    and run: "handle_decoded_frame_with_service m (sv_frame env) frame config (?ds config) = (r, sent, ds)"
    and ds: "so_dispatch (step_state (socket_step m env event st)) = ds"
    using effect_authorized [OF True] by blast
  have user: "user_context (ds_context (?ds config)) = socket_user st" by (simp add: user_context_def)
  have "uploads_ok opened (socket_user st) (?ds config)" using assms by (simp add: uploads_ok_def)
  from decoded_uploads_ok [OF run, unfolded user, OF this] ds
  have "uploads_ok (if opens frame then insert config opened else opened) (socket_user st)
      (so_dispatch (step_state (socket_step m env event st)))" by simp
  then show ?thesis by (rule uploads_ok_mono) (use au in auto)
qed

lemma socket_run_uploads:
  assumes "socket_run m uuid st0 passes st" and "cc_active_uploads (ds_context (so_dispatch st0)) = []"
    and "pending_ok (ds_pending (so_dispatch st0))"
  shows "uploads_ok (profiles passes) (socket_user st0) (so_dispatch st)"
  using assms(1)
proof (induction rule: socket_run.induct)
  case upgraded
  with assms(2,3) show ?case by (simp add: uploads_ok_def)
next
  case (pass passes st env event)
  have "profiles passes \<union> {config. \<exists>account. authorized env st account config} = profiles ((env, st) # passes)"
    by (auto simp: profiles_def)
  with socket_step_uploads [of "profiles passes" st env m event] pass.IH socket_run_user [OF pass.hyps(1)]
  show ?case by simp
next
  case (others passes st pending usage ledger files)
  then show ?case by (simp add: uploads_ok_def)
qed

section \<open>Properties\<close>

text \<open>C14: A pass of the loop has an effect, on the helper, on the staging area or on an upload, only for a session
  that was found when the frame arrived and again before it was handled, that the configuration in force
  still allows, and whose account does not have to change its password first; the account of a virtual
  administrator has been validated again, and the configuration is the profile of the account, or the
  server's own when there are no accounts and no home template.\<close>

theorem effects_need_authorization:
  assumes "has_effect st (socket_step m env event st)"
  shows "\<exists>account config. authorized env st account config
    \<and> list_all (\<lambda>(c, _). c = config) (step_requests (socket_step m env event st))"
  using effect_authorized [OF assms] by (fastforce simp: list_all_iff)

text \<open>C1: Every request that a pass of the loop sends to the helper, after any earlier passes of the connection, is
  decided under the profile that was authorized for this pass. Either it is permitted by that profile for the
  user of the connection, or it is the commit of an upload, for a root of that profile, whose root, folder,
  name and size were allowed to this user under the profile that was authorized for an earlier pass. When the
  session has an account, that account is active, and the root is one of its own, which lies outside the
  system's trees.\<close>

theorem requests_stay_home:
  assumes "socket_run m uuid st0 passes st" and "cc_active_uploads (ds_context (so_dispatch st0)) = []"
    and "pending_ok (ds_pending (so_dispatch st0))" and "fe_uuid (sv_frame env) = uuid"
    and "(config, q) \<in> set (step_requests (socket_step m env event st))"
  shows "(sent_ok uuid config (socket_user st0) q \<or> commit_ok (profiles passes) config (socket_user st0) q)
    \<and> (\<exists>account. authorized env st account config
        \<and> (case account of None \<Rightarrow> config = sv_config env
           | Some a \<Rightarrow> acc_status a = Active \<and> (\<exists>root \<in> set (cfg_roots config).
               root_root_id root = hq_root_id q \<and> own_root a root \<and> outside_reserved a (root_base_path root))))"
proof -
  let ?ds = "\<lambda>config. (so_dispatch st)\<lparr>ds_context := (ds_context (so_dispatch st))\<lparr>cc_features := cfg_features config\<rparr>\<rparr>"
  have "has_effect st (socket_step m env event st)" using assms(5) by (auto simp: has_effect_def)
  then obtain account config' r sent ds frame where
    au: "authorized env st account config'"
    and run: "handle_decoded_frame_with_service m (sv_frame env) frame config' (?ds config') = (r, sent, ds)"
    and req: "step_requests (socket_step m env event st) = map (Pair config') sent"
    using effect_authorized by blast
  from assms(5) req have q: "config' = config" "q \<in> set sent" by auto
  have user: "user_context (ds_context (?ds config)) = socket_user st0"
    using socket_run_user [OF assms(1)] by (simp add: user_context_def)
  have ups: "uploads_ok (profiles passes) (socket_user st0) (?ds config)"
    using socket_run_uploads [OF assms(1-3)] by (simp add: uploads_ok_def)
  have sent: "sent_ok uuid config (socket_user st0) q \<or> commit_ok (profiles passes) config (socket_user st0) q"
    using decoded_sent [OF run q(2)] commit_of_ok [OF _ ups] unfolding q(1) user assms(4) by blast
  then obtain root where "require_allowed_root (cfg_roots config) (hq_root_id q) = Inr root"
    by (auto simp: sent_ok_def commit_ok_def)
  then have root: "root \<in> set (cfg_roots config)" "root_root_id root = hq_root_id q"
    using allowed_root_member by blast+
  show ?thesis
  proof (cases account)
    case None
    with au q(1) have "config = sv_config env"
      by (auto simp: authorized_def effective_config_def split: if_split_asm)
    with sent au q(1) None show ?thesis by auto
  next
    case (Some a)
    with au q(1) have "resolve_home (sv_uri env) (sv_config env) a (cfg_home_template (sv_config env)) = Inr config"
      by (simp add: authorized_def effective_config_def)
    from resolve_home_ok [OF this] root have "acc_status a = Active" "own_root a root" "outside_reserved a (root_base_path root)"
      by (auto simp: list_all_iff)
    with sent au q(1) Some root show ?thesis by (intro conjI exI [of _ "Some a"]) auto
  qed
qed

section \<open>A run\<close>

definition alice_config :: AppConfig where
  "alice_config = AppConfig_default\<lparr>cfg_account_policy := AccountPolicyConfig_default\<lparr>acp_allowed_users := [''alice'']\<rparr>\<rparr>"

definition example_socket :: SocketState where
  "example_socket =
     \<lparr>so_dispatch = example_state example_connection, so_account = None, so_shutdown_notified = False\<rparr>"

definition example_socket_env :: SocketEnv where
  "example_socket_env =
     \<lparr>sv_frame = example_env, sv_stores = (\<lambda>_. example_store), sv_clock = (\<lambda>_. 200), sv_config = alice_config,
      sv_state_config = alice_config, sv_uri = (\<lambda>_. None), sv_slots_ok = True,
      sv_gateway = (\<lambda>_. Inl GatewayFailure.Forbidden), sv_admitted = True, sv_draining = False,
      sv_drain_midway = False, sv_cancelled = False, sv_sends = 1, sv_fresh = 9\<rparr>"

lemma control_frame_decodes: "\<exists>w. frame_decode w = Inr (control_frame MessageType.ListTrash)"
proof -
  have "frame_wf (control_frame MessageType.ListTrash)"
    by (simp add: control_frame_def frame_wf_def header_wf_def header_new_def is_v1_supported_def
        validate_encoding_for_message_def flags_empty_def)
  moreover have "frame_encode (control_frame MessageType.ListTrash)
      = Inr (header_encode (header_new MessageType.ListTrash 3 0))"
    by (simp add: control_frame_def frame_encode_def header_new_def)
  ultimately show ?thesis using frame_codec.decode_encode by blast
qed

lemma alice_run:
  "handle_decoded_frame_with_service trash_serde example_env (control_frame MessageType.ListTrash) alice_config
     (example_state (example_connection\<lparr>cc_features := cfg_features alice_config\<rparr>))
   = (Inl TealDriveError.Internal, [trash_request],
      example_state (example_connection\<lparr>cc_features := cfg_features alice_config\<rparr>))"
proof -
  have "user_context (example_connection\<lparr>cc_features := f\<rparr>) = example_user" for f
    by (simp add: user_context_def example_connection_def example_user_def)
  moreover have "list_trash_prepare Some 5 example_user \<lparr>ltr_root_id = ''home''\<rparr> alice_config
      (PolicyEngine_new alice_config) = Inr trash_request"
    by (simp add: list_trash_prepare_def trash_request_def policy_eval require_permitted_def for_user_def alice_config_def
        PolicyEngine_new_def config_defaults base_request_def Let_def result_simps)
  moreover have "cc_protocol_ready example_connection" by (simp add: example_connection_def)
  ultimately show ?thesis
    by (simp add: dispatch_simps answer_with_def handle_list_trash_frame_def run_service_def then_do_def lift_result_def
        list_trash_request_def call_helper_def send_def example_env_def example_state_def trash_serde_def result_simps)
qed

lemma alice_session:
  "\<exists>s. get_session example_store 7 200 = Found s \<and> Session_allowed_by s alice_config"
  by (simp add: get_session_def example_store_def create_session_def store_new_def classify_def SessionConfig_default_def
      example_input_def Session_allowed_by_def allows_login_def alice_config_def config_defaults saturating_add_def
      U64_MAX_def Let_def)

lemma alice_step:
  "\<exists>w. step_requests (socket_step trash_serde example_socket_env (Received (Binary w)) example_socket)
     = [(alice_config, trash_request)]"
proof -
  obtain w where w: "frame_decode w = Inr (control_frame MessageType.ListTrash)" using control_frame_decodes by blast
  have lk: "session_lookup example_socket_env i (example_socket\<lparr>so_account := None\<rparr>) = get_session example_store 7 200"
    "session_lookup example_socket_env i example_socket = get_session example_store 7 200" for i
    by (simp_all add: session_lookup_def example_socket_env_def example_socket_def example_state_def example_connection_def)
  have env: "sv_frame example_socket_env = example_env" "sv_config example_socket_env = alice_config"
    "sv_admitted example_socket_env" "cfg_home_template alice_config = None"
    by (simp_all add: example_socket_env_def alice_config_def AppConfig_default_def)
  have st: "so_account example_socket = None" "so_dispatch example_socket = example_state example_connection"
    "(example_state example_connection)\<lparr>ds_context := c\<rparr> = example_state c"
    "ds_context (example_state example_connection) = example_connection" for c
    by (simp_all add: example_socket_def example_state_def)
  let ?st = "example_socket\<lparr>so_account := None, so_dispatch := example_state (example_connection\<lparr>cc_features := cfg_features alice_config\<rparr>)\<rparr>"
  obtain s where s: "get_session example_store 7 200 = Found s" "Session_allowed_by s alice_config"
    using alice_session by blast
  have "socket_step trash_serde example_socket_env (Received (Binary w)) example_socket
      = run_job trash_serde example_socket_env (control_frame MessageType.ListTrash) alice_config ?st"
    by (simp add: socket_step_def binary_message_def w recheck_account_def effective_config_def st env s lk)
  moreover have "step_requests (run_job trash_serde example_socket_env (control_frame MessageType.ListTrash) alice_config ?st)
      = map (Pair alice_config) [trash_request]"
    using run_job_result [of trash_serde example_socket_env "control_frame MessageType.ListTrash" alice_config ?st] alice_run
    by (simp add: env)
  ultimately show ?thesis by (intro exI [of _ w]) simp
qed

theorem effects_need_authorization_witness:
  "\<exists>account config. authorized example_socket_env example_socket account config"
proof -
  obtain w where "step_requests (socket_step trash_serde example_socket_env (Received (Binary w)) example_socket)
      = [(alice_config, trash_request)]"
    using alice_step by blast
  then have "has_effect example_socket (socket_step trash_serde example_socket_env (Received (Binary w)) example_socket)"
    by (simp add: has_effect_def)
  from effects_need_authorization [OF this] show ?thesis by blast
qed

theorem requests_stay_home_witness:
  "sent_ok Some alice_config (user_context example_connection) trash_request
   \<and> (\<exists>account. authorized example_socket_env example_socket account alice_config)"
proof -
  obtain w where "step_requests (socket_step trash_serde example_socket_env (Received (Binary w)) example_socket)
      = [(alice_config, trash_request)]"
    using alice_step by blast
  moreover have "socket_run trash_serde Some example_socket [] example_socket" by (rule socket_run.upgraded)
  ultimately show ?thesis
    using requests_stay_home [of trash_serde Some example_socket "[]" example_socket example_socket_env alice_config
        trash_request "Received (Binary w)"]
    by (auto simp: example_socket_env_def example_env_def example_socket_def example_state_def example_connection_def
        pending_ok_def commit_ok_def trash_request_def)
qed

section \<open>What a closed connection leaves behind\<close>

definition resumable :: "nat \<Rightarrow> bool \<Rightarrow> ActiveUpload \<Rightarrow> bool" where
  "resumable resume_seconds draining up \<longleftrightarrow>
     up_retain_on_disconnect up \<and> up_bytes_received up > 0 \<and> resume_seconds > 0 \<and> \<not> draining"

definition own_record :: "nat \<Rightarrow> nat \<Rightarrow> WsConnectionContext \<Rightarrow> ActiveUpload \<Rightarrow> Suspended" where
  "own_record now resume_seconds conn up =
     \<lparr>sus_session = cc_session_id conn, sus_username = cc_username conn, sus_uid = cc_uid conn,
      sus_gid = cc_gid conn, sus_expires = saturating_add now resume_seconds, sus_upload = up\<rparr>"

lemma drop_records_le: "drop_records rs files \<subseteq>\<^sub>m files"
  by (auto simp: drop_records_def map_le_def)

lemma retain_files: "snd (retain_records keep st) \<subseteq>\<^sub>m snd st"
  using drop_records_le by (simp add: retain_records_def split: prod.split)

lemma suspend_effect:
  "snd (suspend now conn up seconds st) \<subseteq>\<^sub>m snd st"
  "set (fst (suspend now conn up seconds st))
     \<subseteq> insert (up_transfer_id up, own_record now seconds conn up) (set (fst st))"
proof -
  obtain p f where r: "retain_records (\<lambda>r. sus_expires r > now) st = (p, f)" by fastforce
  have f: "f \<subseteq>\<^sub>m snd st" using retain_files [of "\<lambda>r. sus_expires r > now" st] by (simp add: r)
  have p: "set p \<subseteq> set (fst st)" using retain_subset [of "\<lambda>r. sus_expires r > now" st] by (simp add: r)
  show "snd (suspend now conn up seconds st) \<subseteq>\<^sub>m snd st"
    using f drop_records_le map_le_trans by (auto simp: suspend_def r Let_def split: option.split) blast+
  show "set (fst (suspend now conn up seconds st))
      \<subseteq> insert (up_transfer_id up, own_record now seconds conn up) (set (fst st))"
    using p set_alist_update [of "up_transfer_id up" "own_record now seconds conn up" p]
    by (auto simp: suspend_def r Let_def own_record_def)
qed

lemma cleanup_upload_effect:
  "snd (cleanup_upload now conn seconds draining up st) \<subseteq>\<^sub>m snd st"
  "set (fst (cleanup_upload now conn seconds draining up st)) \<subseteq> set (fst st) \<union>
     (if resumable seconds draining up then {(up_transfer_id up, own_record now seconds conn up)} else {})"
  "\<not> resumable seconds draining up \<Longrightarrow> snd (cleanup_upload now conn seconds draining up st) (up_staging_path up) = None"
  using suspend_effect [of now conn up seconds st]
  by (auto simp: cleanup_upload_def resumable_def map_le_def)

lemma fold_cleanup_effect:
  "snd (fold (cleanup_upload now conn seconds draining) ups st) \<subseteq>\<^sub>m snd st"
  "set (fst (fold (cleanup_upload now conn seconds draining) ups st)) \<subseteq> set (fst st) \<union>
       {(up_transfer_id up, own_record now seconds conn up) |up. up \<in> set ups \<and> resumable seconds draining up}"
  "up \<in> set ups \<Longrightarrow> \<not> resumable seconds draining up \<Longrightarrow> snd (fold (cleanup_upload now conn seconds draining) ups st) (up_staging_path up) = None"
proof (induction ups arbitrary: st)
  case (Cons u ups)
  let ?step = "cleanup_upload now conn seconds draining u"
  {
    case (1 st)
    show ?case
      using map_le_trans [OF Cons.IH(1) [of "?step st"] cleanup_upload_effect(1)] by simp
  next
    case (2 st)
    show ?case
      using Cons.IH(2) [of "?step st"] cleanup_upload_effect(2) [of now conn seconds draining u st]
      by (auto split: if_split_asm)
  next
    case (3 st)
    show ?case
    proof (cases "up \<in> set ups")
      case True
      with Cons.IH(3) 3(2) show ?thesis by simp
    next
      case False
      with 3 have "snd (?step st) (up_staging_path up) = None" using cleanup_upload_effect(3) by simp
      with Cons.IH(1) [of "?step st"] show ?thesis by (auto simp: map_le_def) (metis domIff)
    qed
  }
qed simp_all

text \<open>When a connection closes, the staging file of every upload that cannot be resumed is gone, no other file
  appears, and each record left for resumption is one that was there before or carries the identity of this
  connection, an upload of it that may be resumed, and the configured time to live.\<close>

theorem disconnect_keeps_only_resumable:
  assumes "upload_cleanup now seconds draining conn (pending, files) = (pending', files')"
  shows "files' \<subseteq>\<^sub>m files
    \<and> (\<forall>(k, up) \<in> set (cc_active_uploads conn).
         \<not> resumable seconds draining up \<longrightarrow> files' (up_staging_path up) = None)
    \<and> (\<forall>p \<in> set pending'. p \<in> set pending \<or> (\<exists>k up. (k, up) \<in> set (cc_active_uploads conn)
         \<and> resumable seconds draining up \<and> p = (up_transfer_id up, own_record now seconds conn up)))"
proof -
  let ?ups = "map snd (cc_active_uploads conn)"
  note e = fold_cleanup_effect [where now = now and conn = conn and seconds = seconds and draining = draining
    and ups = ?ups and st = "(pending, files)"]
  have run: "fold (cleanup_upload now conn seconds draining) ?ups (pending, files) = (pending', files')"
    using assms by (simp add: upload_cleanup_def)
  have "files' \<subseteq>\<^sub>m files" using e(1) by (simp add: run)
  moreover have "files' (up_staging_path up) = None"
    if "(k, up) \<in> set (cc_active_uploads conn)" "\<not> resumable seconds draining up" for k up
    using e(3) [where up = up] that by (force simp: run)
  moreover have "p \<in> set pending \<or> (\<exists>k up. (k, up) \<in> set (cc_active_uploads conn)
      \<and> resumable seconds draining up \<and> p = (up_transfer_id up, own_record now seconds conn up))"
    if "p \<in> set pending'" for p
    using e(2) that by (force simp: run)
  ultimately show ?thesis by fast
qed

text \<open>What a closed connection leaves for resumption is what its uploads were: the assumption of the runs above on
  the suspended uploads is kept.\<close>

lemma disconnect_pending_ok:
  assumes "uploads_ok opened user ds"
    and "upload_cleanup now seconds draining (ds_context ds) (ds_pending ds, files) = (pending', files')"
  shows "pending_ok pending'"
proof -
  have active: "up_bytes_received up \<le> up_total_size up
      \<and> validate_relative_path (up_parent_relative_path up) = Inr (up_parent_relative_path up)"
    if "(k, up) \<in> set (cc_active_uploads (ds_context ds))" for k up
    using assms(1) that by (auto simp: uploads_ok_def upload_permitted_def upload_allowed_def)
  have "p \<in> set (ds_pending ds) \<or> (\<exists>k up. (k, up) \<in> set (cc_active_uploads (ds_context ds))
      \<and> p = (up_transfer_id up, own_record now seconds (ds_context ds) up))" if "p \<in> set pending'" for p
    using fold_cleanup_effect(2) [of now "ds_context ds" seconds draining "map snd (cc_active_uploads (ds_context ds))"
        "(ds_pending ds, files)"] assms(2) that
    by (force simp: upload_cleanup_def)
  then have "(\<lambda>(k, r). k = up_transfer_id (sus_upload r)
        \<and> up_bytes_received (sus_upload r) \<le> up_total_size (sus_upload r)
        \<and> validate_relative_path (up_parent_relative_path (sus_upload r))
          = Inr (up_parent_relative_path (sus_upload r))) p" if "p \<in> set pending'" for p
    using that active uploads_ok_pending(2) [OF assms(1)] unfolding pending_ok_def own_record_def by fastforce
  then show ?thesis unfolding pending_ok_def by blast
qed

theorem disconnect_keeps_only_resumable_witness:
  "\<exists>pending files. upload_cleanup 150 100 True (example_connection\<lparr>cc_active_uploads := [(5, example_active 2)]\<rparr>)
     ([], example_files [7, 8]) = (pending, files) \<and> files (up_staging_path (example_active 2)) = None"
proof -
  obtain pending files where r: "upload_cleanup 150 100 True (example_connection\<lparr>cc_active_uploads := [(5, example_active 2)]\<rparr>)
     ([], example_files [7, 8]) = (pending, files)" by fastforce
  from disconnect_keeps_only_resumable [OF r] r show ?thesis by (simp add: resumable_def)
qed
end
