(* ===== verification/TD_Quota.thy ===== *)
theory TD_Quota
  imports TD_Config "HOL-Library.Multiset"
begin

text \<open>
  Storage quotas: the size of a directory as the network tier computes it (\<open>src/fs/quota.rs\<close>), and the
  measurement, the reservation and the bounded writer of the helper (\<open>src/helper/quota.rs\<close>). The file
  system is a parameter: what reading a directory and looking at an entry return.
\<close>

section \<open>The size of a directory (\<open>fs/quota.rs\<close>)\<close>

datatype EntryKind = IsSymlink | IsDir | IsFile nat | IsOther

text \<open>\<open>fv_read\<close> gives the paths of the entries that could be read, or nothing when the directory cannot be
  read; \<open>fv_meta\<close> is \<open>symlink_metadata\<close>.\<close>

record 'p FsView =
  fv_read :: "'p \<Rightarrow> 'p list option"
  fv_meta :: "'p \<Rightarrow> EntryKind option"
  fv_canonicalize :: "'p \<Rightarrow> 'p option"

type_synonym 'p SizeState = "('p \<times> nat) list \<times> 'p set \<times> nat"

text \<open>The body of the inner loop: the queue is a stack with its top first.\<close>

definition size_entry :: "'p FsView \<Rightarrow> nat \<Rightarrow> 'p \<Rightarrow> 'p SizeState \<Rightarrow> 'p SizeState" where
  "size_entry fv depth path st =
     (let (queue, visited, acc) = st in
      case fv_meta fv path of
        Some IsDir \<Rightarrow>
          (case fv_canonicalize fv path of
             Some canon \<Rightarrow>
               if canon \<in> visited then st else ((path, depth + 1) # queue, insert canon visited, acc)
           | None \<Rightarrow> st)
      | Some (IsFile len) \<Rightarrow> (queue, visited, saturating_add acc len)
      | _ \<Rightarrow> st)"

partial_function (option) size_loop :: "'p FsView \<Rightarrow> 'p SizeState \<Rightarrow> nat option" where
  [code]: "size_loop fv st =
     (case st of
        ([], visited, acc) \<Rightarrow> Some acc
      | ((dir, depth) # queue, visited, acc) \<Rightarrow>
          if depth > 40 then size_loop fv (queue, visited, acc)
          else
            (case fv_read fv dir of
               None \<Rightarrow> size_loop fv (queue, visited, acc)
             | Some entries \<Rightarrow> size_loop fv (fold (size_entry fv depth) entries (queue, visited, acc))))"

definition compute_directory_size :: "'p FsView \<Rightarrow> 'p \<Rightarrow> nat option" where
  "compute_directory_size fv root_path =
     size_loop fv ([(root_path, 0)],
       (case fv_canonicalize fv root_path of Some canon \<Rightarrow> {canon} | None \<Rightarrow> {}), 0)"

text \<open>\<open>budget\<close> is what the helper has reserved, if it has.\<close>

definition check_quota :: "string FsView \<Rightarrow> nat option \<Rightarrow> AllowedRoot \<Rightarrow> nat \<Rightarrow> unit td_result option" where
  "check_quota fv budget root additional_bytes =
     (case budget of
        Some available \<Rightarrow> Some (if additional_bytes \<le> available then Inr () else Inl TealDriveError.DiskFull)
      | None \<Rightarrow>
          (case root_quota_bytes root of
             None \<Rightarrow> Some (Inr ())
           | Some quota \<Rightarrow>
               map_option (\<lambda>usage.
                 if saturating_add usage additional_bytes > quota then Inl TealDriveError.DiskFull else Inr ())
               (compute_directory_size fv (root_base_path root))))"

section \<open>Measuring a root (\<open>helper/quota.rs\<close>)\<close>

text \<open>Directories are known by their open descriptors. An entry may fail to be read, to have a name in UTF-8,
  to open, or to be examined.\<close>

datatype QuotaObject =
    QSymlink
  | QDir "nat option"
  | QFile "nat \<times> nat" nat
  | QOther

record QuotaEntry =
  qe_read_ok :: bool
  qe_utf8 :: bool
  qe_open_ok :: bool
  qe_metadata :: "QuotaObject option"

text \<open>\<open>QDir\<close> carries the descriptor of the child when it can be opened; \<open>QFile\<close> the device and inode, and the
  length. \<open>qv_cancelled\<close> is the check for cancellation when the directory is entered.\<close>

record QuotaView =
  qv_read :: "nat \<Rightarrow> QuotaEntry list option"
  qv_cancelled :: "nat \<Rightarrow> bool"

datatype QuotaError = TraversalDepth | EntryLimit | NonUtf8 | Overflow | Cancelled | OsError

function size_dir ::
    "QuotaView \<Rightarrow> nat \<Rightarrow> nat \<Rightarrow> (nat \<times> nat) set \<Rightarrow> nat \<Rightarrow> QuotaError + nat \<times> (nat \<times> nat) set \<times> nat"
  and size_entries ::
    "QuotaView \<Rightarrow> nat \<Rightarrow> QuotaEntry list \<Rightarrow> nat \<Rightarrow> (nat \<times> nat) set \<Rightarrow> nat \<Rightarrow> QuotaError + nat \<times> (nat \<times> nat) set \<times> nat"
where
  "size_dir view depth d seen cnt =
     (if depth > 128 then Inl TraversalDepth
      else if qv_cancelled view d then Inl Cancelled
      else case qv_read view d of
        None \<Rightarrow> Inl OsError
      | Some es \<Rightarrow> size_entries view depth es 0 seen cnt)"
| "size_entries view depth [] tot seen cnt = Inr (tot, seen, cnt)"
| "size_entries view depth (e # es) tot seen cnt =
     (if \<not> qe_read_ok e then Inl OsError
      else if cnt + 1 > 1000000 then Inl EntryLimit
      else if \<not> qe_utf8 e then Inl NonUtf8
      else if \<not> qe_open_ok e then Inl OsError
      else case qe_metadata e of
        None \<Rightarrow> Inl OsError
      | Some QSymlink \<Rightarrow> size_entries view depth es tot seen (cnt + 1)
      | Some (QDir None) \<Rightarrow> Inl OsError
      | Some (QDir (Some child)) \<Rightarrow>
          (case size_dir view (depth + 1) child seen (cnt + 1) of
             Inl err \<Rightarrow> Inl err
           | Inr (n, seen', cnt') \<Rightarrow>
               (case checked_add tot n of
                  None \<Rightarrow> Inl Overflow
                | Some tot' \<Rightarrow> size_entries view depth es tot' seen' cnt'))
      | Some (QFile inode len) \<Rightarrow>
          (if inode \<in> seen then size_entries view depth es tot seen (cnt + 1)
           else
             (case checked_add tot len of
                None \<Rightarrow> Inl Overflow
              | Some tot' \<Rightarrow> size_entries view depth es tot' (insert inode seen) (cnt + 1)))
      | Some QOther \<Rightarrow> size_entries view depth es tot seen (cnt + 1))"
  by pat_completeness auto

text \<open>A directory is entered at most 128 levels deep, and its entries are finitely many.\<close>

termination
  by (relation "inv_image (less_than <*lex*> less_than)
      (\<lambda>x. case x of
         Inl (view, depth, d, seen, cnt) \<Rightarrow> (2 * (129 - depth), 0)
       | Inr (view, depth, es, tot, seen, cnt) \<Rightarrow> (2 * (129 - depth) - 1, length es + 1))")
    auto

definition measure_root :: "QuotaView \<Rightarrow> nat \<Rightarrow> QuotaError + nat" where
  "measure_root view d =
     (case size_dir view 0 d {} 0 of Inl err \<Rightarrow> Inl err | Inr (tot, _, _) \<Rightarrow> Inr tot)"

record Reservation =
  rv_available :: "nat option"
  rv_used_bytes :: nat

text \<open>\<open>opened\<close> is the root directory, when it can be opened and locked.\<close>

definition Reservation_acquire :: "QuotaView \<Rightarrow> nat option \<Rightarrow> AllowedRoot \<Rightarrow> QuotaError + Reservation" where
  "Reservation_acquire view opened root =
     (case opened of
        None \<Rightarrow> Inl OsError
      | Some d \<Rightarrow>
          (case (if root_quota_bytes root \<noteq> None then measure_root view d else Inr 0) of
             Inl err \<Rightarrow> Inl err
           | Inr used \<Rightarrow>
               Inr \<lparr>rv_available = map_option (\<lambda>limit. limit - used) (root_quota_bytes root),
                    rv_used_bytes = used\<rparr>))"

section \<open>The bounded writer\<close>

record BudgetWriter =
  bw_limit :: nat
  bw_position :: nat

definition BudgetWriter_new :: "nat option \<Rightarrow> BudgetWriter" where
  "BudgetWriter_new budget =
     \<lparr>bw_limit = (case budget of Some n \<Rightarrow> n | None \<Rightarrow> U64_MAX), bw_position = 0\<rparr>"

text \<open>\<open>inner\<close> is what the writer below does: the number of bytes taken, or an error.\<close>

datatype WriteError = NoSpace | WriteCancelled | InnerError

definition bw_write :: "bool \<Rightarrow> nat option \<Rightarrow> bytes \<Rightarrow> BudgetWriter \<Rightarrow> (WriteError + nat) \<times> BudgetWriter" where
  "bw_write cancelled inner bs w =
     (if cancelled then (Inl WriteCancelled, w)
      else if length bs > bw_limit w - bw_position w then (Inl NoSpace, w)
      else case inner of
        None \<Rightarrow> (Inl InnerError, w)
      | Some n \<Rightarrow> (Inr n, w\<lparr>bw_position := bw_position w + n\<rparr>))"

definition bw_seek :: "nat option \<Rightarrow> BudgetWriter \<Rightarrow> (WriteError + nat) \<times> BudgetWriter" where
  "bw_seek inner w =
     (case inner of None \<Rightarrow> (Inl InnerError, w) | Some p \<Rightarrow> (Inr p, w\<lparr>bw_position := p\<rparr>))"

section \<open>Termination\<close>

lemma size_entry_queue:
  "\<exists>new. fst (fold (size_entry fv depth) entries st) = new @ fst st \<and> (\<forall>x \<in> set new. snd x = depth + 1)"
proof (induction entries arbitrary: st)
  case (Cons e es)
  have "\<exists>new. fst (size_entry fv depth e st) = new @ fst st \<and> (\<forall>x \<in> set new. snd x = depth + 1)"
    by (cases st) (auto simp: size_entry_def split: option.splits EntryKind.splits)
  with Cons.IH [of "size_entry fv depth e st"] show ?case by fastforce
qed simp

definition levels :: "('p \<times> nat) list \<Rightarrow> nat multiset" where
  "levels queue = mset (map (\<lambda>(_, depth). 41 - depth) queue)"

lemma levels_smaller:
  assumes "\<forall>x \<in> set new. 41 - snd x < 41 - depth"
  shows "(levels (new @ queue), levels ((dir, depth) # queue)) \<in> mult less_than"
proof -
  have "\<forall>k \<in># levels new. \<exists>j \<in># {#41 - depth#}. (k, j) \<in> less_than"
    using assms by (auto simp: levels_def)
  from one_step_implies_mult [OF _ this, of "levels queue"] show ?thesis
    by (simp add: levels_def ac_simps)
qed

text \<open>Every pass takes a directory off the stack and puts only deeper ones on it, down to the depth at which
  they are dropped.\<close>

lemma size_loop_returns: "\<exists>n. size_loop fv (queue, visited, acc) = Some n"
proof (induction queue arbitrary: visited acc rule: wf_induct_rule [OF wf_inv_image [OF wf_mult [OF wf_less_than], of levels]])
  case (1 queue)
  show ?case
  proof (cases queue)
    case Nil
    then show ?thesis by (simp add: size_loop.simps)
  next
    case (Cons d rest)
    obtain dir depth where d: "d = (dir, depth)" by (cases d)
    have rest: "\<exists>n. size_loop fv (rest, v, a) = Some n" for v a
      using 1 levels_smaller [of "[]" depth rest dir] by (simp add: Cons d)
    show ?thesis
    proof (cases "depth > 40 \<or> fv_read fv dir = None")
      case True
      with rest show ?thesis by (subst size_loop.simps) (auto simp: Cons d)
    next
      case False
      then obtain entries where e: "fv_read fv dir = Some entries" by auto
      obtain q v a where f: "fold (size_entry fv depth) entries (rest, visited, acc) = (q, v, a)"
        using prod_cases3 by blast
      with size_entry_queue [of fv depth entries "(rest, visited, acc)"]
      obtain new where "q = new @ rest" "\<forall>x \<in> set new. snd x = depth + 1" by auto
      with False have "(levels q, levels queue) \<in> mult less_than"
        using levels_smaller [of new depth rest dir] by (fastforce simp: Cons d)
      with 1 have "\<exists>n. size_loop fv (q, v, a) = Some n" by simp
      with False e f show ?thesis by (subst size_loop.simps) (auto simp: Cons d)
    qed
  qed
qed

text \<open>C33: Computing the size of a directory always ends, on every file system: with links that form cycles,
  with directories that cannot be read, and with paths that resolve to ever new names.\<close>

theorem compute_directory_size_returns: "\<exists>n. compute_directory_size fv root_path = Some n"
  unfolding compute_directory_size_def by (rule size_loop_returns)


section \<open>What is measured\<close>

declare size_dir.simps [simp del]

text \<open>A file is below a directory when a path of directories leads to it; symbolic links are not followed.\<close>

inductive file_below :: "QuotaView \<Rightarrow> nat \<Rightarrow> nat \<times> nat \<Rightarrow> bool" for view where
  here: "qv_read view d = Some es \<Longrightarrow> e \<in> set es \<Longrightarrow> qe_metadata e = Some (QFile i len) \<Longrightarrow> file_below view d i"
| deeper: "qv_read view d = Some es \<Longrightarrow> e \<in> set es \<Longrightarrow> qe_metadata e = Some (QDir (Some c)) \<Longrightarrow> file_below view c i
    \<Longrightarrow> file_below view d i"

definition entries_below :: "QuotaView \<Rightarrow> QuotaEntry list \<Rightarrow> (nat \<times> nat) set" where
  "entries_below view es =
     {i. \<exists>e \<in> set es. (\<exists>len. qe_metadata e = Some (QFile i len))
        \<or> (\<exists>c. qe_metadata e = Some (QDir (Some c)) \<and> file_below view c i)}"

lemma file_below_unfold: "qv_read view d = Some es \<Longrightarrow> {i. file_below view d i} = entries_below view es"
  unfolding entries_below_def by (subst file_below.simps) fastforce

text \<open>The length of a file belongs to its inode.\<close>

definition lengths :: "QuotaView \<Rightarrow> (nat \<times> nat \<Rightarrow> nat) \<Rightarrow> bool" where
  "lengths view inode_len \<longleftrightarrow>
     (\<forall>d es e i len. qv_read view d = Some es \<longrightarrow> e \<in> set es \<longrightarrow> qe_metadata e = Some (QFile i len) \<longrightarrow> len = inode_len i)"

definition counted :: "(nat \<times> nat \<Rightarrow> nat) \<Rightarrow> (nat \<times> nat) set \<Rightarrow> (nat \<times> nat) set \<Rightarrow> (nat \<times> nat) set \<Rightarrow> nat \<Rightarrow> bool" where
  "counted inode_len new seen seen' n \<longleftrightarrow>
     seen' = seen \<union> new \<and> finite (seen' - seen) \<and> n = (\<Sum>i \<in> seen' - seen. inode_len i)"

lemma counted_trans:
  assumes "counted inode_len A seen s1 n" and "counted inode_len B s1 s2 m"
  shows "counted inode_len (A \<union> B) seen s2 (n + m)"
proof -
  have "s2 - seen = (s1 - seen) \<union> (s2 - s1)" "(s1 - seen) \<inter> (s2 - s1) = {}"
    using assms by (auto simp: counted_def)
  with assms show ?thesis by (auto simp: counted_def sum.union_disjoint)
qed

lemma counted_none [simp]: "counted inode_len {} seen seen 0"
  by (simp add: counted_def)

lemma entries_below_Cons:
  "entries_below view (e # es) = entries_below view [e] \<union> entries_below view es"
  by (auto simp: entries_below_def)

lemma size_counts:
  "size_dir view depth d seen cnt = Inr (n, seen', cnt') \<Longrightarrow> lengths view inode_len \<Longrightarrow>
     counted inode_len {i. file_below view d i} seen seen' n"
  "size_entries view depth es tot seen cnt = Inr (n, seen', cnt') \<Longrightarrow> lengths view inode_len \<Longrightarrow>
     (\<forall>e \<in> set es. \<forall>i len. qe_metadata e = Some (QFile i len) \<longrightarrow> len = inode_len i) \<Longrightarrow>
     \<exists>m. n = tot + m \<and> counted inode_len (entries_below view es) seen seen' m"
proof (induction view depth d seen cnt and view depth es tot seen cnt
    arbitrary: n seen' cnt' and n seen' cnt' rule: size_dir_size_entries.induct)
  case (1 view depth d seen cnt)
  from 1(2) obtain es where es: "qv_read view d = Some es" "size_entries view depth es 0 seen cnt = Inr (n, seen', cnt')"
    "depth \<le> 128" "\<not> qv_cancelled view d"
    by (auto simp: size_dir.simps split: if_split_asm option.split_asm)
  have "\<forall>e \<in> set es. \<forall>i len. qe_metadata e = Some (QFile i len) \<longrightarrow> len = inode_len i"
    using 1(3) es(1) by (auto simp: lengths_def)
  with 1(1) [of es] es 1(3) show ?case by (auto simp: file_below_unfold)
next
  case (2 view depth tot seen cnt)
  then show ?case by (auto simp: entries_below_def)
next
  case (3 view depth e es tot seen cnt)
  have ok: "qe_read_ok e" "\<not> cnt + 1 > 1000000" "qe_utf8 e" "qe_open_ok e"
    using "3.prems"(1) by (auto split: if_split_asm)
  have rest: "\<forall>e \<in> set es. \<forall>i len. qe_metadata e = Some (QFile i len) \<longrightarrow> len = inode_len i" using "3.prems"(3) by simp
  show ?case
  proof (cases "qe_metadata e")
    case None
    with "3.prems"(1) ok show ?thesis by simp
  next
    case (Some obj)
    have join: "\<exists>m. n = tot + m \<and> counted inode_len (entries_below view (e # es)) seen seen' m"
      if "counted inode_len (entries_below view [e]) seen s1 k"
        "\<exists>m. n = (tot + k) + m \<and> counted inode_len (entries_below view es) s1 seen' m" for s1 k
      using that counted_trans entries_below_Cons [of view e es] by (metis add.assoc)
    show ?thesis
    proof (cases obj)
      case QSymlink
      have "\<exists>m. n = tot + m \<and> counted inode_len (entries_below view es) seen seen' m"
        using "3.IH"(1) [OF _ _ _ _ Some QSymlink _ "3.prems"(2) rest] "3.prems"(1) Some QSymlink ok by simp
      with join [of seen 0] Some QSymlink show ?thesis by (simp add: entries_below_def [of view "[e]"])
    next
      case (QDir child)
      with Some ok "3.prems"(1) obtain c k s1 cnt1 tot' where c: "child = Some c"
        "size_dir view (depth + 1) c seen (cnt + 1) = Inr (k, s1, cnt1)" "checked_add tot k = Some tot'"
        "size_entries view depth es tot' s1 cnt1 = Inr (n, seen', cnt')"
        by (auto split: option.split_asm sum.split_asm)
      have "counted inode_len (entries_below view [e]) seen s1 k"
        using "3.IH"(2) [OF _ _ _ _ Some QDir c(1,2) "3.prems"(2)] ok Some QDir c(1) by (simp add: entries_below_def)
      moreover have "\<exists>m. n = tot' + m \<and> counted inode_len (entries_below view es) s1 seen' m"
        using "3.IH"(3) [OF _ _ _ _ Some QDir c(1,2) _ _ c(3,4) "3.prems"(2) rest] ok by simp
      ultimately show ?thesis using join c(3) by simp
    next
      case (QFile i len)
      then have len: "len = inode_len i" using "3.prems"(3) Some by (cases i) simp
      show ?thesis
      proof (cases "i \<in> seen")
        case True
        with Some QFile ok "3.prems"(1) "3.IH"(4) [OF _ _ _ _ Some QFile True _ "3.prems"(2) rest]
        have "\<exists>m. n = tot + m \<and> counted inode_len (entries_below view es) seen seen' m" by simp
        moreover have "counted inode_len (entries_below view [e]) seen seen 0"
          using True Some QFile by (auto simp: entries_below_def counted_def)
        ultimately show ?thesis using join [of seen 0] by simp
      next
        case False
        with Some QFile ok "3.prems"(1) obtain tot' where t: "checked_add tot len = Some tot'"
          "size_entries view depth es tot' (insert i seen) (cnt + 1) = Inr (n, seen', cnt')"
          by (auto split: option.split_asm)
        have "counted inode_len (entries_below view [e]) seen (insert i seen) len"
          using Some QFile False len by (simp add: entries_below_def counted_def insert_Diff_if)
        moreover have "\<exists>m. n = tot' + m \<and> counted inode_len (entries_below view es) (insert i seen) seen' m"
          using "3.IH"(5) [OF _ _ _ _ Some QFile False t "3.prems"(2) rest] ok by simp
        ultimately show ?thesis using join t(1) by simp
      qed
    next
      case QOther
      have "\<exists>m. n = tot + m \<and> counted inode_len (entries_below view es) seen seen' m"
        using "3.IH"(6) [OF _ _ _ _ Some QOther _ "3.prems"(2) rest] "3.prems"(1) Some QOther ok by simp
      with join [of seen 0] Some QOther show ?thesis by (simp add: entries_below_def [of view "[e]"])
    qed
  qed
qed

text \<open>C32: When the helper measures a root it counts every regular file below it exactly once, whatever number
  of hard links it has, follows no symbolic link, and misses nothing: directories that are too deep, too
  many entries, names outside UTF-8, entries that cannot be examined, and a sum past 64 bits are errors,
  never an undercount. What is left of a quota is the quota less that sum.\<close>

theorem reservation_counts_each_file_once:
  assumes "Reservation_acquire view (Some d) root = Inr r" and "root_quota_bytes root = Some limit"
    and "lengths view inode_len"
  shows "finite {i. file_below view d i}
    \<and> rv_used_bytes r = (\<Sum>i | file_below view d i. inode_len i)
    \<and> rv_available r = Some (limit - (\<Sum>i | file_below view d i. inode_len i))"
proof -
  obtain tot seen cnt where "size_dir view 0 d {} 0 = Inr (tot, seen, cnt)"
    and "rv_used_bytes r = tot" "rv_available r = Some (limit - tot)"
    using assms(1,2) by (auto simp: Reservation_acquire_def measure_root_def split: sum.split_asm)
  with size_counts(1) [OF this(1) assms(3)] show ?thesis by (auto simp: counted_def)
qed

definition example_quota_entry :: "QuotaObject \<Rightarrow> QuotaEntry" where
  "example_quota_entry obj = \<lparr>qe_read_ok = True, qe_utf8 = True, qe_open_ok = True, qe_metadata = Some obj\<rparr>"

text \<open>A directory with a file of 5 bytes, and a subdirectory with a second link to it and a file of 10.\<close>

definition example_quota_view :: QuotaView where
  "example_quota_view =
     \<lparr>qv_read = (\<lambda>d. if d = 0 then Some [example_quota_entry (QFile (1, 2) 5), example_quota_entry (QDir (Some 1))]
        else if d = 1 then Some [example_quota_entry (QFile (1, 2) 5), example_quota_entry (QFile (1, 3) 10)] else None),
      qv_cancelled = (\<lambda>_. False)\<rparr>"

theorem reservation_counts_each_file_once_witness:
  "(\<Sum>i | file_below example_quota_view 0 i. if i = (1, 2) then 5 else 10) = (15 :: nat)"
proof -
  have "Reservation_acquire example_quota_view (Some 0) (AllowedRoot_default\<lparr>root_quota_bytes := Some 100\<rparr>)
      = Inr \<lparr>rv_available = Some 85, rv_used_bytes = 15\<rparr>"
    by (simp add: Reservation_acquire_def measure_root_def size_dir.simps example_quota_view_def
        example_quota_entry_def checked_add_def U64_MAX_def)
  moreover have "lengths example_quota_view (\<lambda>i. if i = (1, 2) then 5 else 10)"
    by (auto simp: lengths_def example_quota_view_def example_quota_entry_def split: if_split_asm)
  ultimately show ?thesis
    using reservation_counts_each_file_once [of example_quota_view 0 "AllowedRoot_default\<lparr>root_quota_bytes := Some 100\<rparr>"
      "\<lparr>rv_available = Some 85, rv_used_bytes = 15\<rparr>" 100] by simp
qed

section \<open>The writer stays in its budget\<close>

datatype WriterOp = Write_op bool "nat option" bytes | Seek_op "nat option"

text \<open>The second component is the end of what has been written so far.\<close>

fun bw_run :: "WriterOp list \<Rightarrow> BudgetWriter \<times> nat \<Rightarrow> BudgetWriter \<times> nat" where
  "bw_run [] st = st"
| "bw_run (Write_op cancelled inner bs # ops) (w, extent) =
     (case bw_write cancelled inner bs w of
        (Inr n, w') \<Rightarrow> bw_run ops (w', if n = 0 then extent else max extent (bw_position w'))
      | (Inl _, w') \<Rightarrow> bw_run ops (w', extent))"
| "bw_run (Seek_op inner # ops) (w, extent) = bw_run ops (snd (bw_seek inner w), extent)"

lemma bw_run_bounded:
  assumes "\<forall>c n bs. Write_op c (Some n) bs \<in> set ops \<longrightarrow> n \<le> length bs" and "extent \<le> bw_limit w"
  shows "snd (bw_run ops (w, extent)) \<le> bw_limit w"
  using assms
proof (induction ops "(w, extent)" arbitrary: w extent rule: bw_run.induct)
  case (2 cancelled inner bs ops w extent)
  then show ?case by (fastforce simp: bw_write_def split: option.splits)
next
  case (3 inner ops w extent)
  then show ?case by (auto simp: bw_seek_def split: option.splits)
qed simp

text \<open>However an archive is written, with writes cut short and with seeks forward and back, nothing is ever
  written past the budget. The writer below is only assumed to take no more bytes than it was given.\<close>

theorem budget_writer_bounded:
  assumes "\<forall>c n bs. Write_op c (Some n) bs \<in> set ops \<longrightarrow> n \<le> length bs"
  shows "snd (bw_run ops (BudgetWriter_new (Some budget), 0)) \<le> budget"
  using bw_run_bounded [OF assms, of 0 "BudgetWriter_new (Some budget)"] by (simp add: BudgetWriter_new_def)

theorem budget_writer_bounded_witness:
  "snd (bw_run [Write_op False (Some 2) [1, 2], Seek_op (Some 0), Write_op False (Some 3) [1, 2, 3],
     Write_op False (Some 1) [1]] (BudgetWriter_new (Some 3), 0)) \<le> 3"
  by (rule budget_writer_bounded) auto

section \<open>What the fallback does not count\<close>

text \<open>Directories nested in one another, with a file of ten bytes in the innermost.\<close>

definition nested :: "nat \<Rightarrow> nat FsView" where
  "nested n =
     \<lparr>fv_read = (\<lambda>d. if d \<le> n then Some [Suc d] else None),
      fv_meta = (\<lambda>p. Some (if p \<le> n then IsDir else IsFile 10)),
      fv_canonicalize = Some\<rparr>"

lemma nested_loop:
  assumes "d \<le> 41" and "41 \<le> n" and "\<forall>p \<in> visited. p \<le> d"
  shows "size_loop (nested n) ([(d, d)], visited, 0) = Some 0"
  using assms
proof (induction d arbitrary: visited rule: inc_induct)
  case base
  then show ?case by (simp add: size_loop.simps)
next
  case (step d)
  then have "size_loop (nested n) ([(Suc d, Suc d)], insert (Suc d) visited, 0) = Some 0"
    by (metis insert_iff le_SucI order_refl)
  moreover have "Suc d \<notin> visited" using step.prems by fastforce
  ultimately show ?case
    using step.hyps step.prems
    by (subst size_loop.simps) (simp add: nested_def size_entry_def)
qed

text \<open>The size of a directory as the network tier computes it leaves out everything more than 40 levels down:
  a file there counts as nothing.\<close>

theorem deep_files_not_counted: "compute_directory_size (nested 41) 0 = Some 0"
  by (simp add: compute_directory_size_def nested_loop nested_def [of 41, THEN arg_cong [of _ _ fv_canonicalize]])
end
