(* ===== verification/TD_Resolve.thy ===== *)
theory TD_Resolve
  imports TD_Helper_Policy
begin

text \<open>
  The resolution of paths on the disk, the part of \<open>src/fs/path.rs\<close> the helper runs. The file system is the
  parameter \<open>DiskView\<close>: what \<open>canonicalize\<close>, \<open>metadata\<close>, \<open>symlink_metadata\<close> and \<open>read_dir\<close> answer for a path.
  File names are the bytes the kernel returns; \<open>to_str\<close> and \<open>to_string_lossy\<close> are the conversions of Rust's
  standard library. The lemmas show that a resolved path lies below the canonical base of its root, and
  that both the name that was asked for and the place it leads to may be discovered.
\<close>

section \<open>UTF-8\<close>

definition byte_at :: "string \<Rightarrow> nat \<Rightarrow> nat" where
  "byte_at s i = (if i < length s then of_char (s ! i) else 0)"

definition is_continuation :: "nat \<Rightarrow> bool" where
  "is_continuation b \<longleftrightarrow> 128 \<le> b \<and> b \<le> 191"

text \<open>The second byte a leading byte of a sequence of three or four allows.\<close>

definition second_ok :: "nat \<Rightarrow> nat \<Rightarrow> bool" where
  "second_ok a b =
     (if a = 224 then 160 \<le> b \<and> b \<le> 191
      else if a = 237 then 128 \<le> b \<and> b \<le> 159
      else if a = 240 then 144 \<le> b \<and> b \<le> 191
      else if a = 244 then 128 \<le> b \<and> b \<le> 143
      else is_continuation b)"

text \<open>The first character of a non-empty string: its length in bytes and whether it is well formed. A sequence
  that is not is as long as its longest well-formed beginning.\<close>

definition utf8_step :: "string \<Rightarrow> nat \<times> bool" where
  "utf8_step s =
     (let a = byte_at s 0; b = byte_at s 1; c = byte_at s 2; d = byte_at s 3 in
      if a < 128 then (1, True)
      else if 194 \<le> a \<and> a \<le> 223 then (if is_continuation b then (2, True) else (1, False))
      else if 224 \<le> a \<and> a \<le> 239 then
        (if \<not> second_ok a b then (1, False) else if \<not> is_continuation c then (2, False) else (3, True))
      else if 240 \<le> a \<and> a \<le> 244 then
        (if \<not> second_ok a b then (1, False) else if \<not> is_continuation c then (2, False)
         else if \<not> is_continuation d then (3, False) else (4, True))
      else (1, False))"

lemma utf8_shorter: "s \<noteq> [] \<Longrightarrow> (n, ok) = utf8_step s \<Longrightarrow> 0 < n"
  by (auto simp: utf8_step_def Let_def split: if_split_asm)

function to_string_lossy :: "string \<Rightarrow> string" where
  "to_string_lossy s =
     (if s = [] then []
      else let (n, ok) = utf8_step s in
        (if ok then take n s else [CHR 0xEF, CHR 0xBF, CHR 0xBD]) @ to_string_lossy (drop n s))"
  by pat_completeness auto

termination by (relation "measure length") (simp_all add: utf8_shorter)

declare to_string_lossy.simps [simp del]

function utf8_valid :: "string \<Rightarrow> bool" where
  "utf8_valid s =
     (if s = [] then True
      else let (n, ok) = utf8_step s in (if ok then utf8_valid (drop n s) else False))"
  by pat_completeness auto

termination by (relation "measure length") (simp_all add: utf8_shorter)

declare utf8_valid.simps [simp del]

definition to_str :: "string \<Rightarrow> string option" where
  "to_str s = (if utf8_valid s then Some s else None)"

text \<open>A name in UTF-8 is its own lossy text.\<close>

lemma to_string_lossy_valid: "utf8_valid s \<Longrightarrow> to_string_lossy s = s"
proof (induction s rule: to_string_lossy.induct)
  case (1 s)
  show ?case
  proof (cases "s = []")
    case False
    obtain n ok where step: "utf8_step s = (n, ok)" by fastforce
    with "1.prems" False have "ok" "utf8_valid (drop n s)"
      by (auto simp: utf8_valid.simps [of s] split: if_split_asm)
    with "1.IH" [OF False step [symmetric] refl] step False show ?thesis
      by (simp add: to_string_lossy.simps [of s])
  qed (simp add: to_string_lossy.simps)
qed

lemma utf8_valid_ascii: "\<forall>c \<in> set s. of_char c < (128 :: nat) \<Longrightarrow> utf8_valid s"
proof (induction s)
  case (Cons c s)
  then show ?case
    by (subst utf8_valid.simps) (auto simp: utf8_step_def byte_at_def Let_def)
qed (simp add: utf8_valid.simps)

lemma to_string_lossy_ascii [simp]:
  "\<forall>c \<in> set s. of_char c < (128 :: nat) \<Longrightarrow> to_string_lossy s = s"
  by (simp add: to_string_lossy_valid utf8_valid_ascii)

section \<open>The disk\<close>

text \<open>What the kernel tells of a file; the time of modification is in nanoseconds since the epoch, if the file
  system has one.\<close>

record FileMeta = Metadata +
  st_is_symlink :: bool
  st_len :: nat
  st_modified :: "int option"
  st_uid :: nat
  st_gid :: nat
  st_mode :: u32

record DiskView =
  dv_canonicalize :: "string \<Rightarrow> IoError + string"
  dv_metadata :: "string \<Rightarrow> IoError + FileMeta"
  dv_symlink_metadata :: "string \<Rightarrow> IoError + FileMeta"
  dv_read_dir :: "string \<Rightarrow> IoError + (IoError + string) list"

text \<open>\<open>Path::strip_prefix\<close>: the text that remains, without separators and dots at its ends.\<close>

fun drop_names :: "nat \<Rightarrow> string list \<Rightarrow> string list" where
  "drop_names n [] = []"
| "drop_names n (p # ps) =
     (if p = [] \<or> p = ''.'' then drop_names n ps
      else case n of 0 \<Rightarrow> p # ps | Suc m \<Rightarrow> drop_names m ps)"

definition path_strip_prefix :: "string \<Rightarrow> string \<Rightarrow> string option" where
  "path_strip_prefix p base =
     (if path_starts_with p base
      then Some (join_with slash (rev (dropWhile (\<lambda>q. q = [] \<or> q = ''.'') (rev
        (drop_names (length (filter (\<lambda>c. c \<noteq> RootDir \<and> c \<noteq> CurDir) (components base))) (split_on slash p))))))
      else None)"

section \<open>Resolution (\<open>path.rs\<close>)\<close>

definition map_path_io_error :: "IoError \<Rightarrow> TealDriveError" where
  "map_path_io_error err = (if err = Some 2 then TealDriveError.NotFound else TealDriveError.InvalidPath)"

definition resolve_root :: "DiskView \<Rightarrow> AllowedRoot \<Rightarrow> ResolvedRoot td_result" where
  "resolve_root disk root =
     and_then (map_err (\<lambda>_. TealDriveError.InvalidRootId) (dv_canonicalize disk (root_base_path root))) (\<lambda>base.
     Inr \<lparr>rr_root_id = root_root_id root, rr_canonical_base = base, rr_root = root\<rparr>)"

definition resolve_existing_path ::
  "Context option \<Rightarrow> DiskView \<Rightarrow> AllowedRoot \<Rightarrow> RelativePath \<Rightarrow> bool \<Rightarrow> ExistingPathResolution td_result" where
  "resolve_existing_path cx disk root relative_path follow_symlinks =
     and_then (resolve_root disk root) (\<lambda>resolved_root.
     and_then (validate_relative_path relative_path) (\<lambda>validated.
     and_then (context_check cx validated Discover) (\<lambda>_.
     let base = rr_canonical_base resolved_root;
         candidate = (if validated = [] then base else path_join base validated)
     in and_then (map_err map_path_io_error (dv_symlink_metadata disk candidate)) (\<lambda>symlink_meta.
        let is_symlink = st_is_symlink symlink_meta
        in and_then (map_err map_path_io_error (dv_canonicalize disk candidate)) (\<lambda>canonical.
           if \<not> path_starts_with canonical base
           then Inl (if is_symlink then TealDriveError.SymlinkEscape else TealDriveError.PathEscapesRoot)
           else
             and_then (ok_or (path_strip_prefix canonical base) TealDriveError.PathEscapesRoot)
               (\<lambda>canonical_relative.
             and_then (context_check cx (to_string_lossy canonical_relative) Discover) (\<lambda>_.
             and_then (check_metadata cx (Metadata.truncate symlink_meta)) (\<lambda>_.
             if is_symlink \<and> \<not> follow_symlinks then Inl TealDriveError.SymlinkDenied
             else Inr \<lparr>ex_root = resolved_root, ex_relative_path = validated, ex_resolved_path = canonical,
                       ex_is_symlink = is_symlink\<rparr>))))))))"

definition resolve_new_target ::
  "DiskView \<Rightarrow> AllowedRoot \<Rightarrow> RelativePath \<Rightarrow> string \<Rightarrow> NewTargetResolution td_result" where
  "resolve_new_target disk root parent_path fname =
     and_then (resolve_root disk root) (\<lambda>resolved_root.
     and_then (validate_relative_path parent_path) (\<lambda>parent_relative_path.
     and_then (SafeFileName_parse fname) (\<lambda>name.
     let base = rr_canonical_base resolved_root;
         parent = (if parent_relative_path = [] then base else path_join base parent_relative_path)
     in and_then (map_err map_path_io_error (dv_symlink_metadata disk parent)) (\<lambda>parent_metadata.
        if st_is_symlink parent_metadata then Inl TealDriveError.SymlinkDenied
        else if \<not> md_is_dir parent_metadata then Inl TealDriveError.InvalidTarget
        else and_then (map_err map_path_io_error (dv_canonicalize disk parent)) (\<lambda>resolved_parent.
          if \<not> path_starts_with resolved_parent base then Inl TealDriveError.PathEscapesRoot
          else let resolved_path = path_join resolved_parent name
               in if \<not> path_starts_with resolved_path base then Inl TealDriveError.PathEscapesRoot
                  else Inr \<lparr>nt_root = resolved_root, nt_parent_relative_path = parent_relative_path,
                            nt_filename = name, nt_resolved_parent = resolved_parent,
                            nt_resolved_path = resolved_path\<rparr>)))))"

section \<open>Resolved paths stay in their root\<close>

lemma resolve_root_ok:
  "resolve_root disk root = Inr r \<longleftrightarrow>
     (\<exists>base. dv_canonicalize disk (root_base_path root) = Inr base
       \<and> r = \<lparr>rr_root_id = root_root_id root, rr_canonical_base = base, rr_root = root\<rparr>)"
  by (auto simp: resolve_root_def and_then_Inr map_err_Inr)

lemma resolve_existing_ok:
  assumes "resolve_existing_path cx disk root path follow = Inr r"
  obtains base real m where "dv_canonicalize disk (root_base_path root) = Inr base"
    and "ex_root r = \<lparr>rr_root_id = root_root_id root, rr_canonical_base = base, rr_root = root\<rparr>"
    and "validate_relative_path path = Inr (ex_relative_path r)"
    and "context_check cx (ex_relative_path r) Discover = Inr ()"
    and "path_starts_with (ex_resolved_path r) base"
    and "path_strip_prefix (ex_resolved_path r) base = Some real"
    and "context_check cx (to_string_lossy real) Discover = Inr ()"
    and "dv_symlink_metadata disk
      (if ex_relative_path r = [] then base else path_join base (ex_relative_path r)) = Inr m"
    and "dv_canonicalize disk
      (if ex_relative_path r = [] then base else path_join base (ex_relative_path r)) = Inr (ex_resolved_path r)"
    and "check_metadata cx (Metadata.truncate m) = Inr ()"
    and "ex_is_symlink r = st_is_symlink m" and "st_is_symlink m \<Longrightarrow> follow"
  using assms
  by (auto simp: resolve_existing_path_def resolve_root_ok Let_def and_then_Inr map_err_Inr ok_or_Inr
      split: if_split_asm)

lemma resolve_new_target_ok:
  assumes "resolve_new_target disk root path fname = Inr r"
  obtains base m where "dv_canonicalize disk (root_base_path root) = Inr base"
    and "nt_root r = \<lparr>rr_root_id = root_root_id root, rr_canonical_base = base, rr_root = root\<rparr>"
    and "validate_relative_path path = Inr (nt_parent_relative_path r)"
    and "SafeFileName_parse fname = Inr (nt_filename r)"
    and "path_starts_with (nt_resolved_parent r) base"
    and "path_starts_with (nt_resolved_path r) base"
    and "nt_resolved_path r = path_join (nt_resolved_parent r) (nt_filename r)"
    and "dv_symlink_metadata disk
      (if nt_parent_relative_path r = [] then base else path_join base (nt_parent_relative_path r)) = Inr m"
    and "dv_canonicalize disk
      (if nt_parent_relative_path r = [] then base else path_join base (nt_parent_relative_path r))
      = Inr (nt_resolved_parent r)"
    and "md_is_dir m" and "\<not> st_is_symlink m"
  using assms
  by (auto simp: resolve_new_target_def resolve_root_ok Let_def and_then_Inr map_err_Inr
      split: if_split_asm)


text \<open>The pieces of a path that name something.\<close>

abbreviation (input) names_of :: "string list \<Rightarrow> string list" where
  "names_of ps \<equiv> filter (\<lambda>q. q \<noteq> [] \<and> q \<noteq> ''.'') ps"

lemma names_of_drop_names: "names_of (drop_names n ps) = drop n (names_of ps)"
  by (induction n ps rule: drop_names.induct) (auto split: nat.split)

lemma names_of_trim:
  "names_of (rev (dropWhile (\<lambda>q. q = [] \<or> q = ''.'') (rev ps))) = names_of ps"
  by (induction ps rule: rev_induct) auto

lemma drop_names_hd: "drop_names n ps = q # qs \<Longrightarrow> q \<noteq> [] \<and> q \<noteq> ''.''"
  by (induction n ps rule: drop_names.induct) (auto split: if_split_asm nat.split_asm)

lemma set_drop_names: "set (drop_names n ps) \<subseteq> set ps"
  by (induction n ps rule: drop_names.induct) (auto split: nat.split)

text \<open>What \<open>strip_prefix\<close> leaves of an absolute path are the components after those of the base.\<close>

lemma components_strip_prefix:
  assumes "path_strip_prefix p base = Some rel" and "is_absolute base"
  shows "components p = components base @ components rel"
proof -
  let ?triv = "\<lambda>q. q = [] \<or> q = ''.''"
  define n where "n = length (filter (\<lambda>c. c \<noteq> RootDir \<and> c \<noteq> CurDir) (components base))"
  define ps where "ps = split_on slash p"
  define qs where "qs = rev (dropWhile ?triv (rev (drop_names n ps)))"
  have pre: "prefix (components base) (components p)" and rel: "rel = join_with slash qs"
    using assms(1) by (auto simp: path_strip_prefix_def path_starts_with_def qs_def ps_def n_def split: if_split_asm)
  have n: "n = length (names_of (split_on slash base))"
  proof -
    have "filter (\<lambda>c. c \<noteq> RootDir \<and> c \<noteq> CurDir) (map component_of xs) = map component_of xs" for xs
      by (induction xs) auto
    then show ?thesis using assms(2) by (simp add: components_def Let_def n_def)
  qed
  have abs: "is_absolute p"
  proof -
    have "RootDir \<in> set (components p)"
      using pre assms(2) by (auto simp: components_def Let_def prefix_def split: if_split_asm)
    then show ?thesis by (auto simp: components_def Let_def split: if_split_asm)
  qed
  have base: "components base = RootDir # map component_of (names_of (split_on slash base))"
    and p: "components p = RootDir # map component_of (names_of ps)"
    using assms(2) abs by (simp_all add: components_def Let_def ps_def)
  then have tk: "map component_of (names_of (split_on slash base))
      = take n (map component_of (names_of ps))"
    using pre by (auto simp: n prefix_def)
  have names: "names_of qs = drop n (names_of ps)"
    by (simp add: qs_def names_of_trim names_of_drop_names)
  have "components rel = map component_of (names_of qs)"
  proof (cases qs)
    case Nil
    then show ?thesis by (simp add: rel components_def)
  next
    case (Cons q qs')
    have "drop_names n ps = qs @ rev (takeWhile ?triv (rev (drop_names n ps)))"
      unfolding qs_def rev_append [symmetric] takeWhile_dropWhile_id by simp
    then have q: "q \<noteq> []" "q \<noteq> ''.''" using drop_names_hd [of n ps q] Cons by simp_all
    have "set qs \<subseteq> set ps"
      using set_drop_names [of n ps] set_dropWhileD by (fastforce simp: qs_def)
    then have noslash: "\<forall>r \<in> set qs. slash \<notin> set r"
      by (auto simp: ps_def dest: split_on_pieces)
    then have "split_on slash rel = qs"
      using Cons by (simp add: rel split_on_join)
    moreover have "\<not> is_absolute rel"
      using q noslash by (cases qs'; cases q) (auto simp: rel Cons)
    ultimately show ?thesis using q by (simp add: components_def Let_def Cons)
  qed
  then have "components rel = drop n (map component_of (names_of ps))"
    by (simp only: names drop_map)
  then show ?thesis by (simp only: base p tk append_Cons append_take_drop_id)
qed

text \<open>C25: A path the helper resolves is a place below the canonical base of the root: its components are those
  of the base and those of a real relative path. Both the name the client gave and the real one, which differ
  where a directory on the way is a link, may be discovered, and the last component is a link only where
  links are followed. The hypothesis is that \<open>canonicalize\<close> answers with absolute paths.\<close>

theorem resolution_confined:
  assumes "resolve_existing_path cx disk root path follow = Inr r"
    and "\<forall>p p'. dv_canonicalize disk p = Inr p' \<longrightarrow> is_absolute p'"
  shows "\<exists>base real. dv_canonicalize disk (root_base_path root) = Inr base
    \<and> components (ex_resolved_path r) = components base @ components real
    \<and> context_check cx (ex_relative_path r) Discover = Inr ()
    \<and> context_check cx (to_string_lossy real) Discover = Inr ()
    \<and> (ex_is_symlink r \<longrightarrow> follow)"
  using assms(1)
proof (rule resolve_existing_ok)
  fix base real m
  assume "dv_canonicalize disk (root_base_path root) = Inr base"
    and strip: "path_strip_prefix (ex_resolved_path r) base = Some real"
    and "context_check cx (ex_relative_path r) Discover = Inr ()"
    and "context_check cx (to_string_lossy real) Discover = Inr ()"
    and "ex_is_symlink r = st_is_symlink m" and "st_is_symlink m \<Longrightarrow> follow"
  moreover from this(1) have "components (ex_resolved_path r) = components base @ components real"
    using components_strip_prefix [OF strip] assms(2) by blast
  ultimately show ?thesis by blast
qed

definition plain_disk :: DiskView where
  "plain_disk =
     (let m = \<lparr>md_is_file = True, md_is_dir = False, md_nlink = 1, st_is_symlink = False, st_len = 0,
          st_modified = None, st_uid = 1000, st_gid = 1000, st_mode = 420\<rparr>
      in \<lparr>dv_canonicalize = (\<lambda>p. Inr (if is_absolute p then p else ''/'' @ p)), dv_metadata = (\<lambda>_. Inr m),
          dv_symlink_metadata = (\<lambda>_. Inr m), dv_read_dir = (\<lambda>_. Inl (Some 20))\<rparr>)"

theorem resolution_confined_witness:
  "\<exists>real. components ''/home/a'' = components ''/home'' @ components real
     \<and> context_check example_context (to_string_lossy real) Discover = Inr ()"
proof -
  have a: "to_string_lossy ''a'' = ''a''" by simp
  have "resolve_existing_path example_context plain_disk AllowedRoot_default ''a'' False = Inr
      \<lparr>ex_root = \<lparr>rr_root_id = ''home'', rr_canonical_base = ''/home'', rr_root = AllowedRoot_default\<rparr>,
       ex_relative_path = ''a'', ex_resolved_path = ''/home/a'', ex_is_symlink = False\<rparr>"
    by (simp add: resolve_existing_path_def resolve_root_def plain_disk_def AllowedRoot_default_def Let_def a
        validate_relative_path_eq name_parts_def path_starts_with_def path_strip_prefix_def components_def
        path_join_def check_metadata_def Metadata.truncate_def)
  from resolution_confined [OF this] show ?thesis
    by (auto simp: plain_disk_def Let_def AllowedRoot_default_def)
qed

lemma new_target_confined:
  assumes "resolve_new_target disk root path fname = Inr r"
    and "\<forall>p p'. dv_canonicalize disk p = Inr p' \<longrightarrow> is_absolute p'"
  shows "\<exists>base. dv_canonicalize disk (root_base_path root) = Inr base
    \<and> path_starts_with (nt_resolved_parent r) base
    \<and> components (nt_resolved_path r) = components (nt_resolved_parent r) @ [Normal (nt_filename r)]"
  using assms(1)
proof (rule resolve_new_target_ok)
  fix base m
  assume "dv_canonicalize disk (root_base_path root) = Inr base" "path_starts_with (nt_resolved_parent r) base"
    and name: "SafeFileName_parse fname = Inr (nt_filename r)"
    and join: "nt_resolved_path r = path_join (nt_resolved_parent r) (nt_filename r)"
    and "dv_canonicalize disk
      (if nt_parent_relative_path r = [] then base else path_join base (nt_parent_relative_path r))
      = Inr (nt_resolved_parent r)"
  moreover from this(5) have "nt_resolved_parent r \<noteq> []" using assms(2) by fastforce
  moreover have "nt_filename r \<noteq> []" "nt_filename r \<noteq> ''.''" "nt_filename r \<noteq> ''..''" "slash \<notin> set (nt_filename r)"
    using name by (auto simp: SafeFileName_parse_def split: if_split_asm)
  moreover from this(1,4) have "\<not> is_absolute (nt_filename r)"
    by (cases "nt_filename r") auto
  ultimately show ?thesis by (simp add: join components_path_join split_on_no_sep)
qed

end
