(* ===== verification/TD_Listing.thy ===== *)
theory TD_Listing
  imports TD_Resolve TD_Budget "HOL-Library.Sorting_Algorithms" "HOL-Library.Option_ord"
begin

unbundle bit_operations_syntax

text \<open>
  Directory listings of the helper, \<open>src/helper/listing.rs\<close> and \<open>src/helper/metadata.rs\<close>: the entries of a
  directory are read, hidden and undiscoverable ones are left out, the rest is filtered, sorted and cut into
  pages. \<open>slice::sort_by\<close> is stable and is modelled by the stable sort of \<open>HOL-Library.Sorting_Algorithms\<close>,
  with a comparator per sort mode. The disk is the parameter \<open>DiskView\<close>, the thread-local access context the
  parameter \<open>cx\<close>.
\<close>

section \<open>Entries (\<open>listing.rs\<close>)\<close>

definition unix_mode :: "FileMeta \<Rightarrow> UnixMode option" where
  "unix_mode m = Some (st_mode m)"

definition owner_name :: "FileMeta \<Rightarrow> string option" where
  "owner_name m = Some (show_nat (st_uid m))"

definition group_name :: "FileMeta \<Rightarrow> string option" where
  "group_name m = Some (show_nat (st_gid m))"

definition permission_string :: "FileMeta \<Rightarrow> string option" where
  "permission_string m =
     Some (map (\<lambda>bit. if st_mode m AND bit \<noteq> 0
                      then (if bit \<in> {256, 32, 4} then CHR ''r''
                            else if bit \<in> {128, 16, 2} then CHR ''w'' else CHR ''x'')
                      else CHR ''-'')
       [256, 128, 64, 32, 16, 8, 4, 2, 1])"

definition is_world_writable :: "FileMeta \<Rightarrow> bool" where
  "is_world_writable m \<longleftrightarrow> st_mode m AND 2 \<noteq> 0"

definition file_kind :: "FileMeta \<Rightarrow> FileKind" where
  "file_kind m =
     (if st_is_symlink m then FileKind.Symlink
      else if md_is_dir m then FileKind.Directory
      else if md_is_file m then FileKind.File
      else FileKind.Other)"

definition modified_text :: "FileMeta \<Rightarrow> string option" where
  "modified_text m =
     (case st_modified m of
        Some t \<Rightarrow> if t < 0 then None else Some (show_nat (nat (t div 1000000000)))
      | None \<Rightarrow> None)"

definition directory_entry_from_metadata ::
  "string \<Rightarrow> FileMeta \<Rightarrow> AllowedRoot \<Rightarrow> SensitivePolicyConfig \<Rightarrow> HelperDirectoryEntry" where
  "directory_entry_from_metadata name m root sensitive_config =
     \<lparr>de_name = name, de_file_type = file_kind m, de_size = (if md_is_file m then st_len m else 0),
      de_modified = modified_text m, de_owner = owner_name m, de_group = group_name m, de_mode = unix_mode m,
      de_permissions = permission_string m, de_is_hidden = prefix ''.'' name,
      de_is_sensitive = sm_is_sensitive (detect_sensitive name sensitive_config), de_is_protected = False,
      de_is_symlink = st_is_symlink m, de_symlink_target = None, de_is_web_root = root_is_web_root root,
      de_is_world_writable = is_world_writable m,
      de_capabilities =
        \<lparr>cap_can_list = md_is_dir m \<and> \<not> st_is_symlink m,
         cap_can_download = md_is_file m \<and> \<not> st_is_symlink m,
         cap_can_upload = root_uploads_allowed root \<and> \<not> root_read_only root,
         cap_can_create_folder = \<not> root_read_only root, cap_can_rename = \<not> root_read_only root,
         cap_can_move_to_trash = \<not> root_read_only root, cap_can_restore_from_trash = \<not> root_read_only root\<rparr>\<rparr>"

definition refine_capabilities ::
  "Context option \<Rightarrow> HelperDirectoryEntry \<Rightarrow> RelativePath \<Rightarrow> HelperDirectoryEntry" where
  "refine_capabilities cx e path =
     (let allowed = (\<lambda>access. is_ok (context_check cx path access));
          caps = de_capabilities e
      in e\<lparr>de_capabilities := caps
             \<lparr>cap_can_download := cap_can_download caps \<and> allowed Read,
              cap_can_upload := cap_can_upload caps \<and> allowed Write,
              cap_can_create_folder := cap_can_create_folder caps \<and> allowed Write,
              cap_can_rename := cap_can_rename caps \<and> allowed Access.Move \<and> allowed Read,
              cap_can_move_to_trash := cap_can_move_to_trash caps \<and> allowed Delete,
              cap_can_restore_from_trash := cap_can_restore_from_trash caps \<and> allowed Write\<rparr>,
           de_is_protected := de_is_protected e \<or> \<not> allowed Write \<or> \<not> allowed Access.Chmod
             \<or> \<not> allowed Delete \<or> \<not> allowed Access.Move\<rparr>)"

section \<open>Filters\<close>

definition has_ext :: "string \<Rightarrow> string list \<Rightarrow> bool" where
  "has_ext name exts =
     (case rsplit_once (CHR ''.'') name of
        Some (_, ext) \<Rightarrow> list_ex (\<lambda>candidate. eq_ignore_ascii_case ext candidate) exts
      | None \<Rightarrow> False)"

definition matches_filter ::
  "string \<Rightarrow> FileKind \<Rightarrow> FilterMode \<Rightarrow> bool \<Rightarrow> bool \<Rightarrow> bool" where
  "matches_filter name file_type f is_hidden is_symlink =
     (if (case fm_extensions f of
            Some extensions \<Rightarrow> extensions \<noteq> [] \<and> (file_type \<noteq> FileKind.File
              \<or> \<not> list_ex (\<lambda>e. suffix (''.'' @ to_ascii_lowercase e) (to_ascii_lowercase name)) extensions)
          | None \<Rightarrow> False)
      then False
      else if (case fm_query f of
                 Some query \<Rightarrow> \<not> sublist (to_ascii_lowercase query) (to_ascii_lowercase name)
               | None \<Rightarrow> False)
      then False
      else if (case fm_file_kind f of Some kind \<Rightarrow> kind \<noteq> file_type | None \<Rightarrow> False) then False
      else (case (case fm_filter f of Some x \<Rightarrow> x | None \<Rightarrow> FileFilter.All) of
          FileFilter.All \<Rightarrow> True
        | FileFilter.Folders \<Rightarrow> file_type = FileKind.Directory
        | FileFilter.Hidden \<Rightarrow> is_hidden
        | FileFilter.Symlinks \<Rightarrow> is_symlink
        | FileFilter.Code \<Rightarrow>
            has_ext name [''rs'', ''js'', ''ts'', ''php'', ''py'', ''rb'', ''sh'', ''html'', ''css'']
        | FileFilter.Images \<Rightarrow> has_ext name [''png'', ''jpg'', ''jpeg'', ''gif'', ''webp'', ''svg'']
        | FileFilter.Media \<Rightarrow> has_ext name [''mp3'', ''mp4'', ''mkv'', ''mov'', ''wav'', ''flac'']
        | FileFilter.Documents \<Rightarrow> has_ext name [''txt'', ''md'', ''pdf'', ''doc'', ''docx'', ''odt'']
        | FileFilter.Archives \<Rightarrow> has_ext name [''zip'', ''tar'', ''gz'', ''tgz'', ''xz'', ''7z'']
        | FileFilter.Writable \<Rightarrow> True))"

section \<open>Reading a directory\<close>

text \<open>The body of the loop for one entry; \<open>Inr None\<close> is \<open>continue\<close>.\<close>

definition collect_entry ::
  "Context option \<Rightarrow> DiskView \<Rightarrow> string \<Rightarrow> AllowedRoot \<Rightarrow> SensitivePolicyConfig \<Rightarrow> FilterMode \<Rightarrow> bool
   \<Rightarrow> string \<Rightarrow> IoError + HelperDirectoryEntry option" where
  "collect_entry cx disk dir root sensitive_config f include_hidden file_name =
     (case to_str file_name of
        None \<Rightarrow> Inr None
      | Some name \<Rightarrow>
          let is_hidden = prefix ''.'' name in
          if is_hidden \<and> (\<not> include_hidden \<or> \<not> root_hidden_files_allowed root) then Inr None
          else
            and_then (dv_symlink_metadata disk (path_join dir name)) (\<lambda>m.
            and_then (ok_or (path_strip_prefix (path_join dir name) (root_base_path root)) None) (\<lambda>rel.
            let relative = to_string_lossy rel in
            if \<not> visible cx relative (Metadata.truncate m) then Inr None
            else if \<not> matches_filter name (file_kind m) f is_hidden (st_is_symlink m) then Inr None
            else Inr (Some (refine_capabilities cx
                   (directory_entry_from_metadata name m root sensitive_config) relative)))))"

fun collect_loop :: "('a \<Rightarrow> 'e + 'b option) \<Rightarrow> ('e + 'a) list \<Rightarrow> 'b list \<Rightarrow> 'e + 'b list" where
  "collect_loop f [] acc = Inr acc"
| "collect_loop f (Inl e # es) acc = Inl e"
| "collect_loop f (Inr x # es) acc =
     and_then (f x) (\<lambda>r. collect_loop f es (case r of Some y \<Rightarrow> acc @ [y] | None \<Rightarrow> acc))"

definition collect_entries ::
  "Context option \<Rightarrow> DiskView \<Rightarrow> string \<Rightarrow> AllowedRoot \<Rightarrow> SensitivePolicyConfig \<Rightarrow> FilterMode \<Rightarrow> bool
   \<Rightarrow> IoError + HelperDirectoryEntry list" where
  "collect_entries cx disk dir root sensitive_config f include_hidden =
     and_then (dv_read_dir disk dir) (\<lambda>es.
     collect_loop (collect_entry cx disk dir root sensitive_config f include_hidden) es [])"

section \<open>Sorting\<close>

definition file_kind_order :: "FileKind \<Rightarrow> nat" where
  "file_kind_order k =
     (case k of FileKind.Directory \<Rightarrow> 0 | FileKind.File \<Rightarrow> 1 | FileKind.Symlink \<Rightarrow> 2 | FileKind.Other \<Rightarrow> 3)"

fun sort_comparator :: "SortMode \<Rightarrow> HelperDirectoryEntry comparator" where
  "sort_comparator NameAsc = key de_name default"
| "sort_comparator NameDesc = reversed (key de_name default)"
| "sort_comparator ModifiedAsc = key de_modified default"
| "sort_comparator ModifiedDesc = reversed (key de_modified default)"
| "sort_comparator SizeAsc = key de_size default"
| "sort_comparator SizeDesc = reversed (key de_size default)"
| "sort_comparator TypeAsc = key (\<lambda>e. file_kind_order (de_file_type e)) default"
| "sort_comparator TypeDesc = reversed (key (\<lambda>e. file_kind_order (de_file_type e)) default)"

definition sort_entries :: "HelperDirectoryEntry list \<Rightarrow> SortMode \<Rightarrow> HelperDirectoryEntry list" where
  "sort_entries entries mode = Sorting_Algorithms.sort (sort_comparator mode) entries"

section \<open>Pages\<close>

definition parse_cursor_offset :: "DirectoryCursor option \<Rightarrow> nat option" where
  "parse_cursor_offset cursor =
     Option.bind cursor (\<lambda>c. Option.bind (strip_prefix ''offset:'' c) parse_u64)"

definition default_list_options :: "HelperRequest \<Rightarrow> HelperListDirectoryOptions" where
  "default_list_options q =
     \<lparr>lo_cursor = None, lo_limit = min (hl_max_directory_page_size (hq_limits q)) 200,
      lo_include_hidden = False, lo_sort = NameAsc,
      lo_filter = \<lparr>fm_extensions = None, fm_query = None, fm_file_kind = None, fm_filter = Some FileFilter.All\<rparr>\<rparr>"

text \<open>The cut of the sorted entries into the page the cursor names.\<close>

definition list_page ::
  "nat \<Rightarrow> DirectoryCursor option \<Rightarrow> HelperDirectoryEntry list \<Rightarrow> HelperDirectoryList" where
  "list_page limit cursor entries =
     (let offset = (case parse_cursor_offset cursor of Some n \<Rightarrow> n | None \<Rightarrow> 0);
          paged = take (limit + 1) (drop offset entries);
          has_more = length paged > limit;
          page = (if has_more then take limit paged else paged)
      in \<lparr>dl_entries = page, dl_has_more = has_more,
          dl_next_cursor = (if has_more then Some (''offset:'' @ show_nat (offset + length page)) else None),
          dl_total_estimate = Some (length entries)\<rparr>)"

definition list_directory_with_roots ::
  "Context option \<Rightarrow> DiskView \<Rightarrow> HelperRequest \<Rightarrow> AllowedRoot list \<Rightarrow> SensitivePolicyConfig \<Rightarrow> HelperResponse" where
  "list_directory_with_roots cx disk q roots sensitive_config =
     (if hq_command q \<noteq> HelperCommand.ListDirectory then response_not_implemented q
      else if hq_uid q = 0 then response_permission_denied q ''Helper refuses uid 0.''
      else case find (\<lambda>root. root_root_id root = hq_root_id q) roots of
        None \<Rightarrow> helper_error q ErrorKind.InvalidPath ''Unknown root id.'' ''invalid_root_id''
      | Some root \<Rightarrow>
          let options = (case hq_list_options q of Some l \<Rightarrow> l | None \<Rightarrow> default_list_options q) in
          if \<not> FilterMode_is_valid (lo_filter options)
          then helper_error q ErrorKind.ValidationError ''Invalid directory filter.'' ''invalid_filter''
          else
            let limit = min (lo_limit options) (hl_max_directory_page_size (hq_limits q)) in
            case resolve_existing_path cx disk root (hq_relative_path q) False of
              Inl err \<Rightarrow> helper_error_from_tealdrive q err
            | Inr resolution \<Rightarrow>
                (case dv_metadata disk (ex_resolved_path resolution) of
                   Inl err \<Rightarrow> helper_error_from_io q err
                 | Inr m \<Rightarrow>
                     if \<not> md_is_dir m
                     then helper_error q ErrorKind.InvalidPath ''Path is not a directory.'' ''not_directory''
                     else (case collect_entries cx disk (ex_resolved_path resolution) root sensitive_config
                             (lo_filter options) (lo_include_hidden options) of
                         Inl err \<Rightarrow> helper_error_from_io q err
                       | Inr entries \<Rightarrow>
                           response_directory_list q
                             (list_page limit (lo_cursor options) (sort_entries entries (lo_sort options))))))"

section \<open>Metadata of one path (\<open>metadata.rs\<close>)\<close>

text \<open>\<open>Path::parent\<close> as text: the last component goes, and the separators and dots around it.\<close>

definition path_parent_text :: "string \<Rightarrow> string option" where
  "path_parent_text p =
     (case components p of
        [] \<Rightarrow> None
      | cs \<Rightarrow>
          if last cs = RootDir then None
          else
            let triv = (\<lambda>q. q = [] \<or> q = ''.'');
                ps = rev (dropWhile triv (tl (dropWhile triv (rev (split_on slash p)))))
            in Some (if ps \<noteq> [] then join_with slash ps
                     else if is_absolute p then ''/''
                     else if hd cs = CurDir \<and> tl cs \<noteq> [] then ''.'' else []))"

definition verify_candidate_inside_root ::
  "DiskView \<Rightarrow> AllowedRoot \<Rightarrow> string \<Rightarrow> bool \<Rightarrow> unit td_result" where
  "verify_candidate_inside_root disk root candidate is_symlink =
     and_then (map_err (\<lambda>_. TealDriveError.InvalidPath) (dv_canonicalize disk (root_base_path root))) (\<lambda>base.
     if is_symlink
     then (case path_parent_text candidate of
             None \<Rightarrow> Inl TealDriveError.InvalidPath
           | Some parent \<Rightarrow>
               and_then (map_err (\<lambda>_. TealDriveError.InvalidPath) (dv_canonicalize disk parent)) (\<lambda>canonical_parent.
               if path_starts_with canonical_parent base then Inr () else Inl TealDriveError.PathEscapesRoot))
     else and_then (map_err (\<lambda>_. TealDriveError.InvalidPath) (dv_canonicalize disk candidate)) (\<lambda>canonical.
          if path_starts_with canonical base then Inr () else Inl TealDriveError.PathEscapesRoot))"

definition metadata_name :: "string \<Rightarrow> RelativePath \<Rightarrow> string" where
  "metadata_name candidate relative_path =
     (case Option.bind (path_file_name candidate) to_str of
        Some name \<Rightarrow> name
      | None \<Rightarrow> if relative_path = [] then ''.'' else relative_path)"

text \<open>The check of the real path, where both it and the base resolve.\<close>

definition check_real_path ::
  "Context option \<Rightarrow> DiskView \<Rightarrow> AllowedRoot \<Rightarrow> string \<Rightarrow> unit td_result" where
  "check_real_path cx disk root candidate =
     (case (dv_canonicalize disk candidate, dv_canonicalize disk (root_base_path root)) of
        (Inr canonical, Inr base) \<Rightarrow>
          (case path_strip_prefix canonical base of
             Some relative \<Rightarrow> context_check cx (to_string_lossy relative) Discover
           | None \<Rightarrow> Inr ())
      | _ \<Rightarrow> Inr ())"

definition file_metadata_with_roots ::
  "Context option \<Rightarrow> DiskView \<Rightarrow> HelperRequest \<Rightarrow> AllowedRoot list \<Rightarrow> SensitivePolicyConfig \<Rightarrow> HelperResponse" where
  "file_metadata_with_roots cx disk q roots sensitive_config =
     (if hq_command q \<noteq> HelperCommand.FileMetadata then response_not_implemented q
      else if hq_uid q = 0 then response_permission_denied q ''Helper refuses uid 0.''
      else case find (\<lambda>root. root_root_id root = hq_root_id q) roots of
        None \<Rightarrow> helper_error q ErrorKind.InvalidPath ''Unknown root id.'' ''invalid_root_id''
      | Some root \<Rightarrow>
          (case validate_relative_path (hq_relative_path q) of
             Inl err \<Rightarrow> helper_error_from_tealdrive q err
           | Inr relative_path \<Rightarrow>
               let candidate = (if relative_path = [] then root_base_path root
                                else path_join (root_base_path root) relative_path) in
               case dv_symlink_metadata disk candidate of
                 Inl err \<Rightarrow> helper_error_from_io q err
               | Inr m \<Rightarrow>
                   (case and_then (verify_candidate_inside_root disk root candidate (st_is_symlink m)) (\<lambda>_.
                         and_then (context_check cx relative_path Discover) (\<lambda>_.
                         and_then (check_metadata cx (Metadata.truncate m)) (\<lambda>_.
                         check_real_path cx disk root candidate))) of
                      Inl err \<Rightarrow> helper_error_from_tealdrive q err
                    | Inr _ \<Rightarrow>
                        response_file_metadata q (refine_capabilities cx
                          (directory_entry_from_metadata (metadata_name candidate relative_path) m root
                            sensitive_config) relative_path))))"

section \<open>What the loop collects\<close>

lemma collect_loop_Inr:
  "collect_loop f es acc = Inr ys \<longleftrightarrow>
     (\<exists>xs rs. es = map Inr xs \<and> map f xs = map Inr rs \<and> ys = acc @ List.map_filter id rs)"
proof (induction f es acc arbitrary: ys rule: collect_loop.induct)
  case (1 f acc)
  then show ?case by (auto simp: map_filter_def)
next
  case (2 f e es acc)
  then show ?case by auto
next
  case (3 f x es acc)
  show ?case
  proof (cases "f x")
    case (Inl e)
    then show ?thesis by (auto simp: Cons_eq_map_conv map_eq_Cons_conv)
  next
    case (Inr r)
    let ?acc = "case r of Some y \<Rightarrow> acc @ [y] | None \<Rightarrow> acc"
    have app: "?acc @ List.map_filter id rs = acc @ List.map_filter id (r # rs)" for rs
      by (cases r) (simp_all add: map_filter_simps)
    have eq: "(\<exists>xs rs. Inr x # es = map Inr xs \<and> map f xs = map Inr rs \<and> ys = acc @ List.map_filter id rs)
       \<longleftrightarrow> (\<exists>xs rs. es = map Inr xs \<and> map f xs = map Inr rs \<and> ys = acc @ List.map_filter id (r # rs))"
      by (rule iffI; elim exE conjE)
        (force simp: Cons_eq_map_conv map_eq_Cons_conv Inr,
         metis Inr list.simps(9))
    show ?thesis unfolding collect_loop.simps Inr and_then_simps "3" [OF Inr] app eq ..
  qed
qed

lemma in_map_filter_id: "y \<in> set (List.map_filter id rs) \<longleftrightarrow> Some y \<in> set rs"
  by (force simp: map_filter_def)

lemma length_map_filter: "length (List.map_filter f rs) \<le> length rs"
  by (simp add: map_filter_def)

lemma collect_entries_mem:
  assumes "collect_entries cx disk dir root sens f h = Inr entries" and "e \<in> set entries"
  obtains es name where "dv_read_dir disk dir = Inr es" and "Inr name \<in> set es"
    and "collect_entry cx disk dir root sens f h name = Inr (Some e)"
proof -
  obtain es xs rs where es: "dv_read_dir disk dir = Inr es" "es = map Inr xs"
    and rs: "map (collect_entry cx disk dir root sens f h) xs = map Inr rs"
    and e: "entries = List.map_filter id rs"
    using assms(1) by (auto simp: collect_entries_def and_then_Inr collect_loop_Inr)
  from e assms(2) have "Some e \<in> set rs" by (simp add: in_map_filter_id)
  then have "Inr (Some e) \<in> set (map (collect_entry cx disk dir root sens f h) xs)"
    by (simp add: rs)
  with es show thesis by (auto intro!: that)
qed

lemma length_collect_entries:
  assumes "collect_entries cx disk dir root sens f h = Inr entries" and "dv_read_dir disk dir = Inr es"
  shows "length entries \<le> length es"
proof -
  obtain xs rs where "es = map Inr xs" "map (collect_entry cx disk dir root sens f h) xs = map Inr rs"
    "entries = List.map_filter id rs"
    using assms by (auto simp: collect_entries_def and_then_Inr collect_loop_Inr)
  moreover from this(2) have "length xs = length rs" by (rule map_eq_imp_length_eq)
  ultimately show ?thesis using length_map_filter [of id rs] by simp
qed

text \<open>An entry that is listed may be discovered at its place below the root, and it offers only what the
  access rules and the root allow.\<close>

lemma collect_entry_listed:
  assumes "collect_entry cx disk dir root sens f h name = Inr (Some e)"
  obtains m rel where "dv_symlink_metadata disk (path_join dir name) = Inr m"
    and "path_strip_prefix (path_join dir name) (root_base_path root) = Some rel"
    and "context_check cx (to_string_lossy rel) Discover = Inr ()"
    and "check_metadata cx (Metadata.truncate m) = Inr ()"
    and "prefix ''.'' name \<Longrightarrow> h \<and> root_hidden_files_allowed root"
    and "matches_filter name (file_kind m) f (prefix ''.'' name) (st_is_symlink m)"
    and "e = refine_capabilities cx (directory_entry_from_metadata name m root sens) (to_string_lossy rel)"
    and "utf8_valid name"
  using assms
  by (auto simp: collect_entry_def to_str_def Let_def and_then_Inr ok_or_Inr visible_def is_ok_unit
      split: option.split_asm if_split_asm)

section \<open>Pages deliver every entry once\<close>

text \<open>A client that follows the cursors until there is none, at most \<open>n\<close> pages; \<open>None\<close> when a page fails or
  the pages do not end.\<close>

fun walk_pages ::
  "('p \<Rightarrow> 'a list) \<Rightarrow> ('p \<Rightarrow> 'c option) \<Rightarrow> ('c option \<Rightarrow> 'p option) \<Rightarrow> nat \<Rightarrow> 'c option \<Rightarrow> 'a list option" where
  "walk_pages items follow serve 0 c = None"
| "walk_pages items follow serve (Suc n) c =
     (case serve c of
        None \<Rightarrow> None
      | Some p \<Rightarrow>
          (case follow p of
             None \<Rightarrow> Some (items p)
           | Some c' \<Rightarrow> map_option (\<lambda>rest. items p @ rest) (walk_pages items follow serve n (Some c'))))"

text \<open>The contract of a source of pages: a cursor is a position in the list, a page holds what follows that
  position, and there is a next cursor as long as something is left.\<close>

locale paged_source =
  fixes page :: "nat \<Rightarrow> 'c option \<Rightarrow> 'a list \<Rightarrow> 'p"
    and items :: "'p \<Rightarrow> 'a list"
    and follow :: "'p \<Rightarrow> 'c option"
    and pos :: "'c option \<Rightarrow> nat"
    and bound :: nat
  assumes pos_start: "pos None = 0"
    and items_page: "items (page limit c es) = take limit (drop (pos c) es)"
    and follow_more: "pos c + limit < length es \<Longrightarrow> length es \<le> bound \<Longrightarrow>
      \<exists>c'. follow (page limit c es) = Some c' \<and> pos (Some c') = pos c + limit"
    and follow_last: "length es \<le> pos c + limit \<Longrightarrow> follow (page limit c es) = None"
begin

lemma walk_from:
  assumes "0 < limit" and "length es \<le> bound" and "\<And>c. serve c = Some (page limit c es)"
  shows "length es - pos c < n \<Longrightarrow> walk_pages items follow serve n c = Some (drop (pos c) es)"
proof (induction n arbitrary: c)
  case (Suc n)
  show ?case
  proof (cases "pos c + limit < length es")
    case True
    then obtain c' where c': "follow (page limit c es) = Some c'" "pos (Some c') = pos c + limit"
      using follow_more assms(2) by blast
    with True Suc.prems assms(1) have "walk_pages items follow serve n (Some c') = Some (drop (pos c + limit) es)"
      using Suc.IH [of "Some c'"] by simp
    moreover have "take limit (drop (pos c) es) @ drop (pos c + limit) es = drop (pos c) es"
      by (metis add.commute append_take_drop_id drop_drop)
    ultimately show ?thesis
      by (simp add: assms(3) [of c] c'(1) items_page)
  next
    case False
    then show ?thesis by (simp add: assms(3) [of c] follow_last items_page)
  qed
qed simp

lemma walk_complete:
  assumes "0 < limit" and "length es \<le> bound" and "\<And>c. serve c = Some (page limit c es)"
  shows "walk_pages items follow serve (Suc (length es)) None = Some es"
  using walk_from [OF assms, of None] by (simp add: pos_start del: walk_pages.simps)

end

definition cursor_offset :: "DirectoryCursor option \<Rightarrow> nat" where
  "cursor_offset c = (case parse_cursor_offset c of Some n \<Rightarrow> n | None \<Rightarrow> 0)"

lemma parse_cursor_show:
  "n \<le> U64_MAX \<Longrightarrow> parse_cursor_offset (Some (''offset:'' @ show_nat n)) = Some n"
  by (simp add: parse_cursor_offset_def strip_prefix_def parse_show_nat)

lemma list_page_next:
  "dl_next_cursor (list_page limit c es) =
     (if cursor_offset c + limit < length es then Some (''offset:'' @ show_nat (cursor_offset c + limit)) else None)"
  by (auto simp: list_page_def cursor_offset_def Let_def min_def)

interpretation listing_pages: paged_source list_page dl_entries dl_next_cursor cursor_offset U64_MAX
proof
  fix limit c and es :: "HelperDirectoryEntry list"
  show "cursor_offset None = 0" by (simp add: cursor_offset_def parse_cursor_offset_def)
  show "dl_entries (list_page limit c es) = take limit (drop (cursor_offset c) es)"
    by (auto simp: list_page_def cursor_offset_def Let_def min_def)
  show "\<exists>c'. dl_next_cursor (list_page limit c es) = Some c' \<and> cursor_offset (Some c') = cursor_offset c + limit"
    if "cursor_offset c + limit < length es" "length es \<le> U64_MAX"
    using that parse_cursor_show [of "cursor_offset c + limit"]
    by (simp add: list_page_next cursor_offset_def [of "Some _"])
  show "dl_next_cursor (list_page limit c es) = None" if "length es \<le> cursor_offset c + limit"
    using that by (simp add: list_page_next)
qed

definition with_cursor :: "HelperRequest \<Rightarrow> DirectoryCursor option \<Rightarrow> HelperRequest" where
  "with_cursor q c = q\<lparr>hq_list_options := map_option (\<lambda>l. l\<lparr>lo_cursor := c\<rparr>) (hq_list_options q)\<rparr>"

fun listing_payload :: "HelperResponse \<Rightarrow> HelperDirectoryList option" where
  "listing_payload r = (case hr_payload r of DirectoryList l \<Rightarrow> Some l | _ \<Rightarrow> None)"

definition request_list_options :: "HelperRequest \<Rightarrow> HelperListDirectoryOptions" where
  "request_list_options q = (case hq_list_options q of Some l \<Rightarrow> l | None \<Rightarrow> default_list_options q)"

definition request_page_limit :: "HelperRequest \<Rightarrow> nat" where
  "request_page_limit q = min (lo_limit (request_list_options q)) (hl_max_directory_page_size (hq_limits q))"

text \<open>The stages a listing has passed when it answers with a page.\<close>

definition listing_reads ::
  "Context option \<Rightarrow> DiskView \<Rightarrow> HelperRequest \<Rightarrow> AllowedRoot list \<Rightarrow> SensitivePolicyConfig
   \<Rightarrow> AllowedRoot \<Rightarrow> string \<Rightarrow> HelperDirectoryEntry list \<Rightarrow> bool" where
  "listing_reads cx disk q roots sens root dir entries \<longleftrightarrow>
     hq_command q = HelperCommand.ListDirectory \<and> hq_uid q \<noteq> 0
     \<and> find (\<lambda>root. root_root_id root = hq_root_id q) roots = Some root
     \<and> FilterMode_is_valid (lo_filter (request_list_options q))
     \<and> (\<exists>r m. resolve_existing_path cx disk root (hq_relative_path q) False = Inr r \<and> ex_resolved_path r = dir
          \<and> dv_metadata disk dir = Inr m \<and> md_is_dir m)
     \<and> collect_entries cx disk dir root sens (lo_filter (request_list_options q))
         (lo_include_hidden (request_list_options q)) = Inr entries"

lemma no_listing_payload [simp]:
  "listing_payload (response_not_implemented q) = None"
  "listing_payload (response_permission_denied q m) = None"
  "listing_payload (helper_error q k m r) = None"
  "listing_payload (helper_error_from_tealdrive q err) = None"
  "listing_payload (helper_error_from_io q io) = None"
  "listing_payload (response_directory_list q l) = Some l"
  by (simp_all add: response_defs Let_def helper_error_from_tealdrive_def helper_error_from_io_def)

lemma list_directory_answers:
  "listing_payload (list_directory_with_roots cx disk q roots sens) = Some l \<longleftrightarrow>
     (\<exists>root dir entries. listing_reads cx disk q roots sens root dir entries
       \<and> l = list_page (request_page_limit q) (lo_cursor (request_list_options q))
             (sort_entries entries (lo_sort (request_list_options q))))"
  unfolding list_directory_with_roots_def listing_reads_def request_list_options_def request_page_limit_def Let_def
  by (auto split: option.split sum.split simp del: listing_payload.simps)

lemma listing_reads_with_cursor:
  assumes "hq_list_options q = Some opts"
  shows "listing_reads cx disk (with_cursor q c) roots sens = listing_reads cx disk q roots sens"
    "request_page_limit (with_cursor q c) = request_page_limit q"
    "lo_cursor (request_list_options (with_cursor q c)) = c"
    "lo_sort (request_list_options (with_cursor q c)) = lo_sort (request_list_options q)"
  using assms
  by (simp_all add: listing_reads_def [abs_def] with_cursor_def request_list_options_def request_page_limit_def)

lemma listing_reads_length:
  assumes "listing_reads cx disk q roots sens root dir entries"
    and "\<forall>d es. dv_read_dir disk d = Inr es \<longrightarrow> length es \<le> U64_MAX"
  shows "length entries \<le> U64_MAX"
  using assms length_collect_entries
  by (fastforce simp: listing_reads_def collect_entries_def and_then_Inr)

text \<open>C27: A client that asks for a directory and follows the cursors of the answers, on a disk that does not
  change, gets to the last page after at most one request more than there are entries. The pages together
  hold every entry that was collected, each as often as it was collected, in the order that was asked for
  and with equal entries in the order of the directory.\<close>

theorem listing_pages_complete:
  assumes "hq_list_options q = Some opts" and "0 < lo_limit opts"
    and "0 < hl_max_directory_page_size (hq_limits q)"
    and "\<forall>d es. dv_read_dir disk d = Inr es \<longrightarrow> length es \<le> U64_MAX"
    and "listing_payload (list_directory_with_roots cx disk q roots sens) \<noteq> None"
  shows "\<exists>root dir entries listed. listing_reads cx disk q roots sens root dir entries
    \<and> walk_pages dl_entries dl_next_cursor
        (\<lambda>c. listing_payload (list_directory_with_roots cx disk (with_cursor q c) roots sens))
        (Suc (length entries)) None = Some listed
    \<and> mset listed = mset entries
    \<and> Sorting_Algorithms.sorted (sort_comparator (lo_sort opts)) listed
    \<and> (\<forall>e. filter (\<lambda>x. compare (sort_comparator (lo_sort opts)) e x = Equiv) listed
         = filter (\<lambda>x. compare (sort_comparator (lo_sort opts)) e x = Equiv) entries)"
proof -
  obtain root dir entries where reads: "listing_reads cx disk q roots sens root dir entries"
    using assms(5) list_directory_answers by blast
  let ?sorted = "sort_entries entries (lo_sort opts)"
  have opts: "request_list_options q = opts" by (simp add: request_list_options_def assms(1))
  have serve: "listing_payload (list_directory_with_roots cx disk (with_cursor q c) roots sens)
      = Some (list_page (request_page_limit q) c ?sorted)" for c
    unfolding list_directory_answers listing_reads_with_cursor [OF assms(1)] opts using reads by blast
  have "0 < request_page_limit q" using assms(2,3) opts by (simp add: request_page_limit_def)
  moreover have "length ?sorted \<le> U64_MAX"
    using listing_reads_length [OF reads assms(4)] by (simp add: sort_entries_def)
  ultimately have "walk_pages dl_entries dl_next_cursor
      (\<lambda>c. listing_payload (list_directory_with_roots cx disk (with_cursor q c) roots sens))
      (Suc (length ?sorted)) None = Some ?sorted"
    using serve by (rule listing_pages.walk_complete)
  with reads show ?thesis
    by (intro exI [of _ root] exI [of _ dir] exI [of _ entries] exI [of _ ?sorted])
      (simp add: sort_entries_def stable_sort del: walk_pages.simps)
qed

text \<open>C28: Every entry of a listing may be discovered by the user at the place the listing found it, below the
  root; a hidden name is listed only where the root allows hidden files; and the capabilities an entry
  offers are granted by the access rules and by the root.\<close>

theorem listed_entries_permitted:
  assumes "listing_payload (list_directory_with_roots cx disk q roots sens) = Some l"
    and "e \<in> set (dl_entries l)"
  shows "\<exists>root dir rel m.
      find (\<lambda>root. root_root_id root = hq_root_id q) roots = Some root
    \<and> path_strip_prefix (path_join dir (de_name e)) (root_base_path root) = Some rel
    \<and> dv_symlink_metadata disk (path_join dir (de_name e)) = Inr m
    \<and> visible cx (to_string_lossy rel) (Metadata.truncate m)
    \<and> (prefix ''.'' (de_name e) \<longrightarrow> root_hidden_files_allowed root)
    \<and> (let may = (\<lambda>access. context_check cx (to_string_lossy rel) access = Inr ());
           caps = de_capabilities e in
         (cap_can_list caps \<longrightarrow> md_is_dir m \<and> \<not> st_is_symlink m)
       \<and> (cap_can_download caps \<longrightarrow> md_is_file m \<and> \<not> st_is_symlink m \<and> may Read)
       \<and> (cap_can_upload caps \<longrightarrow> root_uploads_allowed root \<and> \<not> root_read_only root \<and> may Write)
       \<and> (cap_can_create_folder caps \<longrightarrow> \<not> root_read_only root \<and> may Write)
       \<and> (cap_can_rename caps \<longrightarrow> \<not> root_read_only root \<and> may Access.Move \<and> may Read)
       \<and> (cap_can_move_to_trash caps \<longrightarrow> \<not> root_read_only root \<and> may Delete)
       \<and> (\<not> de_is_protected e \<longrightarrow> may Write \<and> may Access.Chmod \<and> may Delete \<and> may Access.Move))"
proof -
  obtain root dir entries where reads: "listing_reads cx disk q roots sens root dir entries"
    and l: "l = list_page (request_page_limit q) (lo_cursor (request_list_options q))
      (sort_entries entries (lo_sort (request_list_options q)))"
    using assms(1) list_directory_answers by blast
  have "e \<in> set entries"
    using assms(2) set_take_subset set_drop_subset
    by (fastforce simp: l listing_pages.items_page sort_entries_def)
  moreover have "find (\<lambda>root. root_root_id root = hq_root_id q) roots = Some root"
    and "collect_entries cx disk dir root sens (lo_filter (request_list_options q))
      (lo_include_hidden (request_list_options q)) = Inr entries"
    using reads by (simp_all add: listing_reads_def)
  ultimately obtain name where entry: "collect_entry cx disk dir root sens (lo_filter (request_list_options q))
      (lo_include_hidden (request_list_options q)) name = Inr (Some e)"
    and root: "find (\<lambda>root. root_root_id root = hq_root_id q) roots = Some root"
    by (elim collect_entries_mem) blast
  from entry show ?thesis
  proof (rule collect_entry_listed)
    fix m rel
    assume facts: "dv_symlink_metadata disk (path_join dir name) = Inr m"
      "path_strip_prefix (path_join dir name) (root_base_path root) = Some rel"
      "context_check cx (to_string_lossy rel) Discover = Inr ()"
      "check_metadata cx (Metadata.truncate m) = Inr ()"
      and hidden: "prefix ''.'' name \<Longrightarrow>
        lo_include_hidden (request_list_options q) \<and> root_hidden_files_allowed root"
      and e: "e = refine_capabilities cx (directory_entry_from_metadata name m root sens) (to_string_lossy rel)"
    show ?thesis
      by (intro exI [of _ root] exI [of _ dir] exI [of _ rel] exI [of _ m])
        (use facts hidden root in \<open>auto simp: e refine_capabilities_def directory_entry_from_metadata_def
          Let_def is_ok_unit visible_def\<close>)
  qed
qed

section \<open>A directory of two files and a link\<close>

definition example_meta :: "string \<Rightarrow> FileMeta" where
  "example_meta name =
     \<lparr>md_is_file = (name \<noteq> ''link''), md_is_dir = False, md_nlink = 1, st_is_symlink = (name = ''link''),
      st_len = length name, st_modified = Some 0, st_uid = 1000, st_gid = 1000, st_mode = 420\<rparr>"

definition example_dir_meta :: FileMeta where
  "example_dir_meta =
     \<lparr>md_is_file = False, md_is_dir = True, md_nlink = 2, st_is_symlink = False, st_len = 0, st_modified = None,
      st_uid = 1000, st_gid = 1000, st_mode = 493\<rparr>"

definition example_disk :: DiskView where
  "example_disk =
     \<lparr>dv_canonicalize = (\<lambda>p. Inr p),
      dv_metadata = (\<lambda>p. if p = ''/srv'' then Inr example_dir_meta else Inl (Some 2)),
      dv_symlink_metadata = (\<lambda>p. if p = ''/srv'' then Inr example_dir_meta
        else case strip_prefix ''/srv/'' p of
          Some name \<Rightarrow> if name \<in> {''b.txt'', ''a.txt'', ''link''} then Inr (example_meta name) else Inl (Some 2)
        | None \<Rightarrow> Inl (Some 2)),
      dv_read_dir = (\<lambda>p. if p = ''/srv'' then Inr [Inr ''b.txt'', Inr ''link'', Inr ''a.txt''] else Inl (Some 2))\<rparr>"

definition example_roots :: "AllowedRoot list" where
  "example_roots = [AllowedRoot_default\<lparr>root_root_id := ''home'', root_base_path := ''/srv''\<rparr>]"

definition example_listing :: HelperRequest where
  "example_listing = (example_request HelperCommand.ListDirectory [] None)
     \<lparr>hq_list_options := Some \<lparr>lo_cursor = None, lo_limit = 2, lo_include_hidden = False, lo_sort = NameAsc,
       lo_filter = \<lparr>fm_extensions = None, fm_query = None, fm_file_kind = None, fm_filter = None\<rparr>\<rparr>\<rparr>"

lemma example_names_discoverable [simp]:
  "context_check example_context [] Discover = Inr ()"
  "context_check example_context ''a.txt'' a = Inr ()" "context_check example_context ''b.txt'' a = Inr ()"
  "context_check example_context ''link'' a = Inr ()"
  by (simp_all add: context_check_def example_context_def with_context_def translated_def
      AccessPolicy_check_def validate_relative_path_eq name_parts_def hidden_component_def
      policy_rules_def AppConfig_default_def AccessPolicy_default_def example_request_def)

lemma example_resolved:
  "resolve_existing_path example_context example_disk (hd example_roots) [] False = Inr
     \<lparr>ex_root = \<lparr>rr_root_id = ''home'', rr_canonical_base = ''/srv'', rr_root = hd example_roots\<rparr>,
      ex_relative_path = [], ex_resolved_path = ''/srv'', ex_is_symlink = False\<rparr>"
  by (simp add: resolve_existing_path_def resolve_root_def example_disk_def example_roots_def Let_def
      validate_relative_path_eq name_parts_def path_starts_with_def path_strip_prefix_def components_def
      example_dir_meta_def check_metadata_def Metadata.truncate_def)

definition example_entry :: "string \<Rightarrow> HelperDirectoryEntry" where
  "example_entry name = refine_capabilities example_context
     (directory_entry_from_metadata name (example_meta name) (hd example_roots) SensitivePolicyConfig_default) name"

lemma example_collect_entry:
  assumes "name \<in> {''b.txt'', ''a.txt'', ''link''}"
  shows "collect_entry example_context example_disk ''/srv'' (hd example_roots) SensitivePolicyConfig_default
     (lo_filter (the (hq_list_options example_listing))) False name = Inr (Some (example_entry name))"
proof -
  have ascii: "\<forall>c \<in> set name. of_char c < (128 :: nat)" using assms by auto
  then have "utf8_valid name" by (rule utf8_valid_ascii)
  moreover have "path_join ''/srv'' name = ''/srv/'' @ name" using assms by (auto simp: path_join_def)
  moreover have "path_strip_prefix (''/srv/'' @ name) ''/srv'' = Some name"
    using assms by (auto simp: path_strip_prefix_def path_starts_with_def components_def)
  moreover have "\<not> prefix ''.'' name" "context_check example_context name Discover = Inr ()"
    using assms by auto
  ultimately show ?thesis
    using assms to_string_lossy_ascii [OF ascii]
    by (simp add: collect_entry_def to_str_def example_disk_def strip_prefix_def example_roots_def
        example_entry_def visible_def check_metadata_def example_meta_def Metadata.truncate_def
        matches_filter_def example_listing_def)
qed

lemma example_reads:
  "listing_reads example_context example_disk example_listing example_roots SensitivePolicyConfig_default
     (hd example_roots) ''/srv'' [example_entry ''b.txt'', example_entry ''link'', example_entry ''a.txt'']"
proof -
  let ?opts = "request_list_options example_listing"
  have "?opts = the (hq_list_options example_listing)" "\<not> lo_include_hidden ?opts"
    "FilterMode_is_valid (lo_filter ?opts)" "hq_relative_path example_listing = []"
    by (simp_all add: request_list_options_def example_listing_def FilterMode_is_valid_def example_request_def)
  moreover have "dv_read_dir example_disk ''/srv'' = Inr [Inr ''b.txt'', Inr ''link'', Inr ''a.txt'']"
    "dv_metadata example_disk ''/srv'' = Inr example_dir_meta" "md_is_dir example_dir_meta"
    by (simp_all add: example_disk_def example_dir_meta_def)
  moreover have "find (\<lambda>root. root_root_id root = hq_root_id example_listing) example_roots = Some (hd example_roots)"
    "hq_command example_listing = HelperCommand.ListDirectory" "hq_uid example_listing \<noteq> 0"
    by (simp_all add: example_roots_def example_listing_def example_request_def)
  ultimately show ?thesis
    by (simp add: listing_reads_def collect_entries_def example_collect_entry example_resolved)
qed

lemma example_answers:
  "listing_payload (list_directory_with_roots example_context example_disk example_listing example_roots
     SensitivePolicyConfig_default) = Some (list_page 2 None
       (sort_entries [example_entry ''b.txt'', example_entry ''link'', example_entry ''a.txt''] NameAsc))"
  unfolding list_directory_answers using example_reads
  by (force simp: request_page_limit_def request_list_options_def example_listing_def example_request_def)

theorem listing_pages_complete_witness:
  "\<exists>root dir entries listed.
     listing_reads example_context example_disk example_listing example_roots SensitivePolicyConfig_default
       root dir entries
   \<and> walk_pages dl_entries dl_next_cursor
       (\<lambda>c. listing_payload (list_directory_with_roots example_context example_disk
          (with_cursor example_listing c) example_roots SensitivePolicyConfig_default))
       (Suc (length entries)) None = Some listed
   \<and> mset listed = mset entries"
proof -
  have "hq_list_options example_listing = Some (request_list_options example_listing)"
    "0 < lo_limit (request_list_options example_listing)"
    "0 < hl_max_directory_page_size (hq_limits example_listing)"
    by (simp_all add: request_list_options_def example_listing_def example_request_def)
  moreover have "\<forall>d es. dv_read_dir example_disk d = Inr es \<longrightarrow> length es \<le> U64_MAX"
    by (auto simp: example_disk_def U64_MAX_def)
  moreover have "listing_payload (list_directory_with_roots example_context example_disk example_listing example_roots
      SensitivePolicyConfig_default) \<noteq> None"
    by (simp only: example_answers) simp
  ultimately show ?thesis by (drule_tac listing_pages_complete) blast+
qed

theorem listed_entries_permitted_witness:
  "\<exists>rel (m :: FileMeta). visible example_context (to_string_lossy rel) (Metadata.truncate m) \<and> md_is_file m
     \<and> context_check example_context (to_string_lossy rel) Read = Inr ()"
proof -
  have "cap_can_download (de_capabilities (example_entry ''a.txt''))"
    by (simp add: example_entry_def refine_capabilities_def directory_entry_from_metadata_def Let_def
        example_meta_def)
  moreover
  have "example_entry ''a.txt'' \<in> set (dl_entries (list_page 2 None
      (sort_entries [example_entry ''b.txt'', example_entry ''link'', example_entry ''a.txt''] NameAsc)))"
    by (simp add: listing_pages.items_page sort_entries_def example_entry_def refine_capabilities_def
        directory_entry_from_metadata_def Let_def cursor_offset_def parse_cursor_offset_def)
  note listed_entries_permitted [OF example_answers this, unfolded Let_def]
  ultimately show ?thesis by blast
qed

text \<open>The time of modification is compared as decimal text: a file of the second before the ten-digit times
  counts as newer than a file of the next second.\<close>

lemma modified_order_is_textual:
  assumes "st_modified older = Some (999999999 * 1000000000)"
    and "st_modified newer = Some (1000000000 * 1000000000)"
  shows "compare (sort_comparator ModifiedAsc) (directory_entry_from_metadata a older root sens)
    (directory_entry_from_metadata b newer root sens) = Greater"
proof -
  have "show_nat 999999999 = ''999999999''" "show_nat 1000000000 = ''1000000000''"
    by (simp_all add: show_nat.simps char_of_def bit_iff_odd)
  then show ?thesis
    by (simp add: assms directory_entry_from_metadata_def modified_text_def less_char_def)
qed

end
