(* ===== verification/TD_Search.thy ===== *)
theory TD_Search
  imports TD_Listing TD_Fs_Read
begin

text \<open>
  The search of the helper, \<open>src/helper/search.rs\<close>: a depth-first walk of the visible directories below a path,
  with a stack of directories. It ends because only directories above the depth limit push their children,
  and a directory has finitely many: the multiset of the depths still allowed decreases. The theorem says
  that a search that was not cut short finds exactly the matching entries that can be reached.
\<close>

section \<open>The walk (\<open>search.rs\<close>)\<close>

record SearchParams =
  sq_query_lower :: string
  sq_ext_filter :: "string option"
  sq_max_results :: nat
  sq_include_hidden :: bool
  sq_max_depth :: nat

type_synonym SearchNode = "string \<times> RelativePath \<times> nat"

text \<open>What remains of an entry after the \<open>continue\<close>s of the loop: its name, its path below the root and its
  metadata.\<close>

definition search_item ::
  "Context option \<Rightarrow> DiskView \<Rightarrow> SearchParams \<Rightarrow> string \<Rightarrow> RelativePath \<Rightarrow> string
   \<Rightarrow> (string \<times> RelativePath \<times> FileMeta) option" where
  "search_item cx disk sq dir_path dir_rel file_name =
     (let name = to_string_lossy file_name in
      if name = [] then None
      else if prefix ''.'' name \<and> \<not> sq_include_hidden sq then None
      else if name = ''.tealdrive-trash'' then None
      else case dv_symlink_metadata disk (path_join dir_path file_name) of
        Inl _ \<Rightarrow> None
      | Inr m \<Rightarrow>
          if st_is_symlink m then None
          else let item_rel = (if dir_rel = [] then name else dir_rel @ ''/'' @ name)
               in if \<not> visible cx item_rel (Metadata.truncate m) then None else Some (name, item_rel, m))"

definition search_matches :: "SearchParams \<Rightarrow> string \<Rightarrow> bool" where
  "search_matches sq name \<longleftrightarrow>
     (let name_lower = to_ascii_lowercase name in
      sublist (sq_query_lower sq) name_lower
      \<and> (case sq_ext_filter sq of
           Some filter_ext \<Rightarrow>
             (case rsplit_once (CHR ''.'') name_lower of Some (_, ext) \<Rightarrow> ext = filter_ext | None \<Rightarrow> False)
         | None \<Rightarrow> True))"

definition search_match_entry ::
  "Context option \<Rightarrow> AllowedRoot \<Rightarrow> SensitivePolicyConfig \<Rightarrow> string \<times> RelativePath \<times> FileMeta \<Rightarrow> SearchMatchEntry" where
  "search_match_entry cx root sens item =
     (let (name, item_rel, m) = item in
      \<lparr>sme_relative_path = item_rel,
       sme_entry = helper_entry_to_payload
         (refine_capabilities cx (directory_entry_from_metadata name m root sens) item_rel)\<rparr>)"

text \<open>The loop over the entries of one directory. The stack has its top first; the flag is \<open>break 'outer\<close>.\<close>

fun search_entries ::
  "Context option \<Rightarrow> DiskView \<Rightarrow> AllowedRoot \<Rightarrow> SensitivePolicyConfig \<Rightarrow> SearchParams \<Rightarrow> SearchNode
   \<Rightarrow> (IoError + string) list \<Rightarrow> SearchNode list \<Rightarrow> SearchMatchEntry list
   \<Rightarrow> SearchNode list \<times> SearchMatchEntry list \<times> bool" where
  "search_entries cx disk root sens sq node [] queue matches = (queue, matches, False)"
| "search_entries cx disk root sens sq node (Inl err # es) queue matches =
     search_entries cx disk root sens sq node es queue matches"
| "search_entries cx disk root sens sq (dir_path, dir_rel, depth) (Inr file_name # es) queue matches =
     (case search_item cx disk sq dir_path dir_rel file_name of
        None \<Rightarrow> search_entries cx disk root sens sq (dir_path, dir_rel, depth) es queue matches
      | Some (name, item_rel, m) \<Rightarrow>
          let matched = search_matches sq name;
              matches' = (if matched then matches @ [search_match_entry cx root sens (name, item_rel, m)]
                          else matches)
          in if matched \<and> length matches' \<ge> sq_max_results sq then (queue, matches', True)
             else search_entries cx disk root sens sq (dir_path, dir_rel, depth) es
               (if md_is_dir m \<and> depth < sq_max_depth sq
                then (path_join dir_path file_name, item_rel, depth + 1) # queue else queue) matches')"

text \<open>The nodes an entry loop pushes lie one level deeper.\<close>

lemma search_entries_queue:
  "search_entries cx disk root sens sq (p, r, d) es queue matches = (queue', matches', b) \<Longrightarrow>
     \<exists>new. queue' = new @ queue \<and> (\<forall>(p', r', d') \<in> set new. d' = Suc d \<and> d < sq_max_depth sq)"
proof (induction es arbitrary: queue matches)
  case (Cons e es)
  show ?case
  proof (cases e)
    case (Inr name)
    with Cons show ?thesis
      by (fastforce simp: Let_def split: option.split_asm if_split_asm prod.split_asm)
  qed (use Cons in simp)
qed simp

definition nodes_left :: "nat \<Rightarrow> SearchNode list \<Rightarrow> nat multiset" where
  "nodes_left max_depth queue = mset (map (\<lambda>(p, r, d). Suc max_depth - d) queue)"

lemma nodes_left_simps [simp]:
  "nodes_left k [] = {#}"
  "nodes_left k ((p, r, d) # queue) = add_mset (Suc k - d) (nodes_left k queue)"
  "nodes_left k (q1 @ q2) = nodes_left k q1 + nodes_left k q2"
  by (simp_all add: nodes_left_def)

lemma nodes_left_decreases:
  assumes "search_entries cx disk root sens sq (p, r, d) es queue matches = (queue', matches', b)"
  shows "(nodes_left (sq_max_depth sq) queue', nodes_left (sq_max_depth sq) ((p, r, d) # queue)) \<in> mult less_than"
proof -
  obtain new where new: "queue' = new @ queue"
    "\<forall>(p', r', d') \<in> set new. d' = Suc d \<and> d < sq_max_depth sq"
    using search_entries_queue [OF assms] by blast
  have "nodes_left k queue + nodes_left k new \<in> {M. (M, nodes_left k queue + {#Suc k - d#}) \<in> mult less_than}"
    if "k = sq_max_depth sq" for k
    unfolding mem_Collect_eq
    by (rule one_step_implies_mult) (use new(2) that in \<open>auto simp: nodes_left_def\<close>)
  then show ?thesis by (simp add: new(1) add.commute)
qed

lemma nodes_left_pop:
  "(nodes_left k queue, add_mset x (nodes_left k queue)) \<in> mult less_than"
  using one_step_implies_mult [of "{#x#}" "{#}" less_than "nodes_left k queue"] by simp

text \<open>The parameters of the walk, from the request and the root.\<close>

definition search_params :: "AllowedRoot \<Rightarrow> HelperSearchOptions option \<Rightarrow> string \<Rightarrow> SearchParams" where
  "search_params root opts query =
     \<lparr>sq_query_lower = to_ascii_lowercase query,
      sq_ext_filter = map_option (\<lambda>e. to_ascii_lowercase (dropWhile (\<lambda>c. c = CHR ''.'') e))
        (Option.bind opts so_extension),
      sq_max_results = max 1 (min (case Option.bind opts so_max_results of Some n \<Rightarrow> n | None \<Rightarrow> 200) 1000),
      sq_include_hidden = (case opts of Some s \<Rightarrow> so_include_hidden s | None \<Rightarrow> False) \<and> root_hidden_files_allowed root,
      sq_max_depth = (case Option.bind opts so_max_depth of Some n \<Rightarrow> n | None \<Rightarrow> 20)\<rparr>"

text \<open>The outer loop. \<open>cancelled n\<close> is the answer of the cancellation flag in round \<open>n\<close>; \<open>None\<close> is the answer of a
  cancelled search.\<close>

function search_loop ::
  "Context option \<Rightarrow> DiskView \<Rightarrow> (nat \<Rightarrow> bool) \<Rightarrow> AllowedRoot \<Rightarrow> SensitivePolicyConfig \<Rightarrow> SearchParams \<Rightarrow> nat
   \<Rightarrow> SearchNode list \<Rightarrow> SearchMatchEntry list \<Rightarrow> (SearchMatchEntry list \<times> bool) option" where
  "search_loop cx disk cancelled root sens sq n [] matches = Some (matches, False)"
| "search_loop cx disk cancelled root sens sq n ((dir_path, dir_rel, depth) # queue) matches =
     (if cancelled n then None
      else if depth > sq_max_depth sq then search_loop cx disk cancelled root sens sq (Suc n) queue matches
      else case dv_read_dir disk dir_path of
        Inl _ \<Rightarrow> search_loop cx disk cancelled root sens sq (Suc n) queue matches
      | Inr es \<Rightarrow>
          (case search_entries cx disk root sens sq (dir_path, dir_rel, depth) es queue matches of
             (queue', matches', stop) \<Rightarrow>
               if stop then Some (matches', True)
               else search_loop cx disk cancelled root sens sq (Suc n) queue' matches'))"
  by pat_completeness auto

termination
proof (relation "inv_image (mult less_than)
    (\<lambda>(cx, disk, cancelled, root, sens, sq, n, queue, matches). nodes_left (sq_max_depth sq) queue)")
  show "wf (inv_image (mult less_than)
      (\<lambda>(cx, disk, cancelled, root, sens, sq, n, queue, matches). nodes_left (sq_max_depth sq) queue))"
    by (intro wf_inv_image wf_mult wf_less_than)
qed (auto dest: nodes_left_decreases [OF sym] intro: nodes_left_pop)

definition search_files_with_roots ::
  "Context option \<Rightarrow> DiskView \<Rightarrow> (nat \<Rightarrow> bool) \<Rightarrow> HelperRequest \<Rightarrow> AllowedRoot list \<Rightarrow> SensitivePolicyConfig
   \<Rightarrow> HelperResponse" where
  "search_files_with_roots cx disk cancelled q roots sensitive_config =
     (if hq_uid q = 0 then response_permission_denied q ''Helper refuses uid 0.''
      else case find (\<lambda>root. root_root_id root = hq_root_id q) roots of
        None \<Rightarrow> helper_error q ErrorKind.InvalidPath ''Unknown root id.'' ''invalid_root_id''
      | Some root \<Rightarrow>
          (case resolve_existing_path cx disk root (hq_relative_path q) False of
             Inl err \<Rightarrow> helper_error_from_tealdrive q err
           | Inr resolution \<Rightarrow>
               let opts = hq_search_options q;
                   query = (case opts of Some s \<Rightarrow> str_trim (so_query s) | None \<Rightarrow> [])
               in if query = []
                  then response_search_results q
                    \<lparr>srp_root_id = hq_root_id q, srp_query = [], srp_matches = [], srp_total_matches = 0,
                     srp_truncated = False\<rparr>
                  else
                    (case search_loop cx disk cancelled root sensitive_config (search_params root opts query) 0
                         [(ex_resolved_path resolution, hq_relative_path q, 0)] [] of
                       None \<Rightarrow> response_permission_denied q ''Operation cancelled.''
                     | Some (found, truncated) \<Rightarrow>
                         response_search_results q
                           \<lparr>srp_root_id = hq_root_id q, srp_query = query, srp_matches = found,
                            srp_total_matches = length found, srp_truncated = truncated\<rparr>)))"

section \<open>What a search finds\<close>

text \<open>The directories the walk goes into from a node, and the matches in a node's directory.\<close>

inductive search_child :: "Context option \<Rightarrow> DiskView \<Rightarrow> SearchParams \<Rightarrow> SearchNode \<Rightarrow> SearchNode \<Rightarrow> bool"
  for cx disk sq where
  search_childI: "dv_read_dir disk p = Inr es \<Longrightarrow> Inr file_name \<in> set es \<Longrightarrow>
     search_item cx disk sq p r file_name = Some (name, item_rel, m) \<Longrightarrow> md_is_dir m \<Longrightarrow> d < sq_max_depth sq \<Longrightarrow>
     search_child cx disk sq (p, r, d) (path_join p file_name, item_rel, Suc d)"

inductive_cases search_childE: "search_child cx disk sq (p, r, d) node"

definition node_hits ::
  "Context option \<Rightarrow> DiskView \<Rightarrow> AllowedRoot \<Rightarrow> SensitivePolicyConfig \<Rightarrow> SearchParams \<Rightarrow> SearchNode
   \<Rightarrow> SearchMatchEntry set" where
  "node_hits cx disk root sens sq node =
     (case node of (p, r, d) \<Rightarrow>
       {search_match_entry cx root sens (name, item_rel, m) | name item_rel m.
          d \<le> sq_max_depth sq \<and> (\<exists>es file_name. dv_read_dir disk p = Inr es \<and> Inr file_name \<in> set es
            \<and> search_item cx disk sq p r file_name = Some (name, item_rel, m)) \<and> search_matches sq name})"

definition hits_below ::
  "Context option \<Rightarrow> DiskView \<Rightarrow> AllowedRoot \<Rightarrow> SensitivePolicyConfig \<Rightarrow> SearchParams \<Rightarrow> SearchNode
   \<Rightarrow> SearchMatchEntry set" where
  "hits_below cx disk root sens sq node =
     (\<Union>n \<in> {n. (search_child cx disk sq)\<^sup>*\<^sup>* node n}. node_hits cx disk root sens sq n)"

lemma hits_below_step:
  "hits_below cx disk root sens sq node =
     node_hits cx disk root sens sq node
     \<union> (\<Union>c \<in> {c. search_child cx disk sq node c}. hits_below cx disk root sens sq c)"
proof -
  have "{n. (search_child cx disk sq)\<^sup>*\<^sup>* node n} =
      insert node (\<Union>c \<in> {c. search_child cx disk sq node c}. {n. (search_child cx disk sq)\<^sup>*\<^sup>* c n})"
    by (auto elim: converse_rtranclpE intro: converse_rtranclp_into_rtranclp)
  then show ?thesis by (auto simp: hits_below_def)
qed

text \<open>The hits and the children among the entries of one directory.\<close>

definition list_hits ::
  "Context option \<Rightarrow> DiskView \<Rightarrow> AllowedRoot \<Rightarrow> SensitivePolicyConfig \<Rightarrow> SearchParams \<Rightarrow> string \<Rightarrow> RelativePath
   \<Rightarrow> (IoError + string) list \<Rightarrow> SearchMatchEntry set" where
  "list_hits cx disk root sens sq p r es =
     {search_match_entry cx root sens (name, item_rel, m) | name item_rel m.
        (\<exists>file_name. Inr file_name \<in> set es
          \<and> search_item cx disk sq p r file_name = Some (name, item_rel, m)) \<and> search_matches sq name}"

definition list_children ::
  "Context option \<Rightarrow> DiskView \<Rightarrow> SearchParams \<Rightarrow> SearchNode \<Rightarrow> (IoError + string) list \<Rightarrow> SearchNode set" where
  "list_children cx disk sq node es =
     (case node of (p, r, d) \<Rightarrow>
       {(path_join p file_name, item_rel, Suc d) | file_name name item_rel m.
          Inr file_name \<in> set es \<and> search_item cx disk sq p r file_name = Some (name, item_rel, m)
          \<and> md_is_dir m \<and> d < sq_max_depth sq})"

lemma list_hits_simps [simp]:
  "list_hits cx disk root sens sq p r [] = {}"
  "list_hits cx disk root sens sq p r (Inl err # es) = list_hits cx disk root sens sq p r es"
  "list_hits cx disk root sens sq p r (Inr f # es) =
     (case search_item cx disk sq p r f of
        Some (name, item_rel, m) \<Rightarrow>
          if search_matches sq name then {search_match_entry cx root sens (name, item_rel, m)} else {}
      | None \<Rightarrow> {}) \<union> list_hits cx disk root sens sq p r es"
  by (auto simp: list_hits_def split: option.split)

lemma list_children_simps [simp]:
  "list_children cx disk sq (p, r, d) [] = {}"
  "list_children cx disk sq (p, r, d) (Inl err # es) = list_children cx disk sq (p, r, d) es"
  "list_children cx disk sq (p, r, d) (Inr f # es) =
     (case search_item cx disk sq p r f of
        Some (name, item_rel, m) \<Rightarrow>
          if md_is_dir m \<and> d < sq_max_depth sq then {(path_join p f, item_rel, Suc d)} else {}
      | None \<Rightarrow> {}) \<union> list_children cx disk sq (p, r, d) es"
  by (auto simp: list_children_def split: option.split)

lemma node_hits_read:
  "dv_read_dir disk p = Inr es \<Longrightarrow> d \<le> sq_max_depth sq \<Longrightarrow>
   node_hits cx disk root sens sq (p, r, d) = list_hits cx disk root sens sq p r es"
  by (auto simp: node_hits_def list_hits_def)

lemma search_child_read:
  "dv_read_dir disk p = Inr es \<Longrightarrow>
   {c. search_child cx disk sq (p, r, d) c} = list_children cx disk sq (p, r, d) es"
  by (auto simp: list_children_def elim!: search_childE intro: search_childI) blast

text \<open>The entry loop adds only hits and, unless it is left early, adds all of them and pushes all children; it
  is left exactly when the limit is reached.\<close>

lemma search_entries_matches:
  "search_entries cx disk root sens sq (p, r, d) es queue matches = (queue', matches', stop) \<Longrightarrow>
   set matches' \<subseteq> set matches \<union> list_hits cx disk root sens sq p r es
   \<and> (\<not> stop \<longrightarrow> set matches' = set matches \<union> list_hits cx disk root sens sq p r es)"
proof (induction es arbitrary: queue matches)
  case (Cons e es)
  then show ?case
    by (cases e) (fastforce simp: Let_def split: option.split_asm if_split_asm prod.split_asm)+
qed simp

lemma search_entries_pushes:
  "search_entries cx disk root sens sq (p, r, d) es queue matches = (queue', matches', False) \<Longrightarrow>
   set queue' = set queue \<union> list_children cx disk sq (p, r, d) es"
proof (induction es arbitrary: queue matches)
  case (Cons e es)
  then show ?case
    by (cases e) (fastforce simp: Let_def split: option.split_asm if_split_asm prod.split_asm)+
qed simp

lemma search_entries_length:
  "search_entries cx disk root sens sq (p, r, d) es queue matches = (queue', matches', stop) \<Longrightarrow>
   length matches < sq_max_results sq \<Longrightarrow>
   (if stop then length matches' = sq_max_results sq else length matches' < sq_max_results sq)"
proof (induction es arbitrary: queue matches)
  case (Cons e es)
  then show ?case
    by (cases e) (fastforce simp: Let_def split: option.split_asm if_split_asm prod.split_asm)+
qed auto

lemma hits_below_dead:
  assumes "sq_max_depth sq < d \<or> dv_read_dir disk p = Inl err"
  shows "hits_below cx disk root sens sq (p, r, d) = {}"
proof -
  have "\<not> search_child cx disk sq (p, r, d) c" for c using assms by (auto elim: search_childE)
  moreover have "node_hits cx disk root sens sq (p, r, d) = {}" using assms by (auto simp: node_hits_def)
  ultimately show ?thesis by (subst hits_below_step) simp
qed

lemma search_loop_exact:
  "search_loop cx disk cancelled root sens sq n queue matches = Some (found, truncated) \<Longrightarrow>
   length matches < sq_max_results sq \<Longrightarrow>
   (let hits = set matches \<union> (\<Union>node \<in> set queue. hits_below cx disk root sens sq node) in
     (if truncated then set found \<subseteq> hits \<and> length found = sq_max_results sq
      else set found = hits \<and> length found < sq_max_results sq))"
proof (induction cx disk cancelled root sens sq n queue matches arbitrary: found truncated
    rule: search_loop.induct)
  case (1 cx disk cancelled root sens sq n matches)
  then show ?case by simp
next
  case (2 cx disk cancelled root sens sq n p r d queue matches)
  note go = "2.prems"(1)
  have alive: "\<not> cancelled n" using go by (auto split: if_split_asm)
  show ?case
  proof (cases "sq_max_depth sq < d \<or> (\<exists>err. dv_read_dir disk p = Inl err)")
    case True
    then have "hits_below cx disk root sens sq (p, r, d) = {}" using hits_below_dead by blast
    moreover have rec: "search_loop cx disk cancelled root sens sq (Suc n) queue matches = Some (found, truncated)"
      using go alive True by (auto split: if_split_asm)
    have "let hits = set matches \<union> (\<Union>node \<in> set queue. hits_below cx disk root sens sq node) in
        if truncated then set found \<subseteq> hits \<and> length found = sq_max_results sq
        else set found = hits \<and> length found < sq_max_results sq"
    proof (cases "sq_max_depth sq < d")
      case deep: True
      show ?thesis by (rule "2.IH"(1) [OF alive deep rec "2.prems"(2)])
    next
      case shallow: False
      with True obtain err where err: "dv_read_dir disk p = Inl err" by blast
      show ?thesis by (rule "2.IH"(2) [OF alive shallow err rec "2.prems"(2)])
    qed
    ultimately show ?thesis by simp
  next
    case False
    then obtain es where es: "dv_read_dir disk p = Inr es" and d: "d \<le> sq_max_depth sq"
      by (cases "dv_read_dir disk p") auto
    obtain queue' matches' stop where
      run: "search_entries cx disk root sens sq (p, r, d) es queue matches = (queue', matches', stop)"
      by (cases "search_entries cx disk root sens sq (p, r, d) es queue matches")
    note sound = search_entries_matches [OF run] search_entries_length [OF run "2.prems"(2)]
    let ?hits = "hits_below cx disk root sens sq"
    have below: "?hits (p, r, d) = node_hits cx disk root sens sq (p, r, d)
        \<union> (\<Union>c \<in> {c. search_child cx disk sq (p, r, d) c}. ?hits c)"
      by (rule hits_below_step)
    show ?thesis
    proof (cases stop)
      case True
      then have "found = matches'" "truncated" using go alive False es d run by auto
      then show ?thesis
        using sound True by (auto simp: Let_def below node_hits_read [OF es d])
    next
      case stop: False
      have rec: "search_loop cx disk cancelled root sens sq (Suc n) queue' matches' = Some (found, truncated)"
        using go alive False es d run stop by auto
      have len: "length matches' < sq_max_results sq" using sound stop by simp
      have "set matches' = set matches \<union> node_hits cx disk root sens sq (p, r, d)"
        "set queue' = set queue \<union> {c. search_child cx disk sq (p, r, d) c}"
        using sound(1) search_entries_pushes run stop
        by (simp_all add: node_hits_read [OF es d] search_child_read [OF es])
      then have "set matches' \<union> (\<Union>node \<in> set queue'. ?hits node)
          = set matches \<union> (\<Union>node \<in> set ((p, r, d) # queue). ?hits node)"
        by (auto simp: below)
      with "2.IH"(3) [OF alive _ es run [symmetric] HOL.refl stop rec len] d show ?thesis by (simp add: Let_def)
    qed
  qed
qed

lemma search_item_visible:
  assumes "search_item cx disk sq p r file_name = Some (name, item_rel, m)"
  shows "visible cx item_rel (Metadata.truncate m)" "\<not> st_is_symlink m"
    "dv_symlink_metadata disk (path_join p file_name) = Inr m"
    "prefix ''.'' name \<longrightarrow> sq_include_hidden sq" "item_rel = (if r = [] then name else r @ ''/'' @ name)"
  using assms by (auto simp: search_item_def Let_def split: if_split_asm sum.split_asm)

lemma search_match_entry_path [simp]:
  "sme_relative_path (search_match_entry cx root sens (name, item_rel, m)) = item_rel"
  by (simp add: search_match_entry_def)

lemma hits_visible:
  assumes "e \<in> hits_below cx disk root sens sq node"
  shows "\<exists>m :: FileMeta. visible cx (sme_relative_path e) (Metadata.truncate m) \<and> \<not> st_is_symlink m"
proof -
  obtain p r d where "e \<in> node_hits cx disk root sens sq (p, r, d)"
    using assms by (auto simp: hits_below_def)
  then obtain file_name name item_rel m where
    "search_item cx disk sq p r file_name = Some (name, item_rel, m)"
    "e = search_match_entry cx root sens (name, item_rel, m)"
    by (auto simp: node_hits_def)
  with search_item_visible(1,2) [of cx disk sq p r file_name name item_rel m] show ?thesis by auto
qed

fun search_payload :: "HelperResponse \<Rightarrow> SearchResultsPayload option" where
  "search_payload r = (case hr_payload r of HelperResponsePayload.SearchResults s \<Rightarrow> Some s | _ \<Rightarrow> None)"

lemma search_payload_simps [simp]:
  "search_payload (response_permission_denied q m) = None"
  "search_payload (helper_error q k m r) = None"
  "search_payload (helper_error_from_tealdrive q err) = None"
  "search_payload (response_search_results q s) = Some s"
  by (simp_all add: response_defs Let_def helper_error_from_tealdrive_def)

text \<open>C26: A search answers with entries the user may discover, none of them a link, and never with more than
  the limit, which is at most a thousand. If it is not marked as truncated, what it answers is exactly the set of
  the matching entries in the directories that can be reached within the depth limit; if it is, it has
  reached the limit and holds some of them.\<close>

theorem search_exact:
  assumes "search_payload (search_files_with_roots cx disk cancelled q roots sens) = Some res"
    and "srp_query res \<noteq> []"
  shows "\<exists>root r. find (\<lambda>root. root_root_id root = hq_root_id q) roots = Some root
    \<and> resolve_existing_path cx disk root (hq_relative_path q) False = Inr r
    \<and> (let sq = search_params root (hq_search_options q) (srp_query res);
           hits = hits_below cx disk root sens sq (ex_resolved_path r, hq_relative_path q, 0) in
         (if srp_truncated res then set (srp_matches res) \<subseteq> hits \<and> length (srp_matches res) = sq_max_results sq
          else set (srp_matches res) = hits)
         \<and> srp_total_matches res = length (srp_matches res) \<and> srp_total_matches res \<le> 1000)
    \<and> (\<forall>e \<in> set (srp_matches res). \<exists>m :: FileMeta.
         visible cx (sme_relative_path e) (Metadata.truncate m) \<and> \<not> st_is_symlink m)"
proof -
  let ?query = "case hq_search_options q of Some s \<Rightarrow> str_trim (so_query s) | None \<Rightarrow> []"
  obtain root r found truncated where root: "find (\<lambda>root. root_root_id root = hq_root_id q) roots = Some root"
    and r: "resolve_existing_path cx disk root (hq_relative_path q) False = Inr r"
    and loop: "search_loop cx disk cancelled root sens (search_params root (hq_search_options q) ?query) 0
      [(ex_resolved_path r, hq_relative_path q, 0)] [] = Some (found, truncated)"
    and res: "res = \<lparr>srp_root_id = hq_root_id q, srp_query = ?query, srp_matches = found,
      srp_total_matches = length found, srp_truncated = truncated\<rparr>"
    using assms unfolding search_files_with_roots_def Let_def
    by (auto split: if_split_asm option.split_asm sum.split_asm simp del: search_payload.simps search_loop.simps)
  let ?sq = "search_params root (hq_search_options q) ?query"
  have max: "0 < sq_max_results ?sq" "sq_max_results ?sq \<le> 1000" by (simp_all add: search_params_def)
  let ?hits = "hits_below cx disk root sens ?sq (ex_resolved_path r, hq_relative_path q, 0)"
  have found: "if truncated then set found \<subseteq> ?hits \<and> length found = sq_max_results ?sq
      else set found = ?hits \<and> length found < sq_max_results ?sq"
    using search_loop_exact [OF loop] max(1) by (simp add: Let_def)
  then have "\<forall>e \<in> set found. \<exists>m :: FileMeta. visible cx (sme_relative_path e) (Metadata.truncate m) \<and> \<not> st_is_symlink m"
    using hits_visible by (fastforce split: if_split_asm)
  moreover have "length found \<le> 1000" using found max(2) by (auto split: if_split_asm)
  ultimately show ?thesis
    using found root r by (intro exI [of _ root] exI [of _ r]) (simp add: res Let_def)
qed

definition example_search :: HelperRequest where
  "example_search = (example_request HelperCommand.SearchFiles [] None)
     \<lparr>hq_search_options := Some \<lparr>so_query = ''txt'', so_extension = None, so_max_results = None,
       so_include_hidden = False, so_max_depth = Some 3\<rparr>\<rparr>"

lemma example_trim: "str_trim ''txt'' = ''txt''"
  by (simp add: str_trim_def trim_spaces.simps white_spaces_def)

lemma example_search_item:
  assumes "name \<in> {''b.txt'', ''a.txt''}"
  shows "search_item example_context example_disk sq ''/srv'' [] name = Some (name, name, example_meta name)"
proof -
  have "to_string_lossy name = name" using assms by auto
  moreover have "path_join ''/srv'' name = ''/srv/'' @ name" using assms by (auto simp: path_join_def)
  ultimately show ?thesis
    using assms
    by (auto simp: search_item_def example_disk_def strip_prefix_def example_meta_def visible_def
        check_metadata_def Metadata.truncate_def Let_def)
qed

lemma example_search_link: "search_item example_context example_disk sq ''/srv'' [] ''link'' = None"
  by (simp add: search_item_def example_disk_def strip_prefix_def example_meta_def path_join_def)

theorem search_exact_witness:
  "\<exists>res. search_payload (search_files_with_roots example_context example_disk (\<lambda>_. False) example_search example_roots
       SensitivePolicyConfig_default) = Some res
     \<and> map sme_relative_path (srp_matches res) = [''b.txt'', ''a.txt''] \<and> srp_total_matches res \<le> 1000"
proof -
  let ?sens = SensitivePolicyConfig_default
  let ?m = "\<lambda>name. search_match_entry example_context (hd example_roots) ?sens (name, name, example_meta name)"
  let ?res = "\<lparr>srp_root_id = ''home'', srp_query = ''txt'', srp_matches = [?m ''b.txt'', ?m ''a.txt''],
    srp_total_matches = 2, srp_truncated = False\<rparr>"
  let ?sq = "search_params (hd example_roots) (hq_search_options example_search) ''txt''"
  have files: "\<not> md_is_dir (example_meta name)" for name by (simp add: example_meta_def)
  have sq: "search_matches ?sq ''b.txt''" "search_matches ?sq ''a.txt''" "sq_max_results ?sq = 200"
    "sq_max_depth ?sq = 3"
    by (simp_all add: search_params_def search_matches_def example_search_def to_ascii_lowercase_def ascii_lower_def
        sublist_Cons_right)
  have "dv_read_dir example_disk ''/srv'' = Inr [Inr ''b.txt'', Inr ''link'', Inr ''a.txt'']"
    by (simp add: example_disk_def)
  then have loop: "search_loop example_context example_disk (\<lambda>_. False) (hd example_roots) ?sens ?sq 0 [(''/srv'', [], 0)] []
      = Some ([?m ''b.txt'', ?m ''a.txt''], False)"
    by (simp add: example_search_item example_search_link Let_def sq files)
  have req: "hq_uid example_search \<noteq> 0" "hq_relative_path example_search = []" "hq_root_id example_search = ''home''"
    "find (\<lambda>root. root_root_id root = ''home'') example_roots = Some (hd example_roots)"
    "(case hq_search_options example_search of Some s \<Rightarrow> str_trim (so_query s) | None \<Rightarrow> []) = ''txt''"
    by (simp_all add: example_search_def example_request_def example_roots_def example_trim)
  have "search_payload (search_files_with_roots example_context example_disk (\<lambda>_. False) example_search example_roots
      ?sens) = Some ?res"
    unfolding search_files_with_roots_def Let_def req option.case example_resolved sum.case
      ExistingPathResolution.select_convs loop
    by (simp add: req del: search_payload.simps)
  from this search_exact [OF this] show ?thesis by (intro exI [of _ ?res]) simp
qed

end
