(* ===== verification/TD_Helper_Read.thy ===== *)
theory TD_Helper_Read
  imports TD_Listing TD_Fs_Read
begin

unbundle bit_operations_syntax

text \<open>
  The operations of the helper that read a file: \<open>src/helper/download.rs\<close>, \<open>revision.rs\<close> and \<open>text.rs\<close>, on
  top of the confined open of \<open>src/helper/sandbox.rs\<close>. The kernel is the parameter \<open>Kernel\<close>: what opening the
  base of a root and opening beneath it answer. An open file answers \<open>metadata\<close>, with the identity the
  revision is made of, for each time it is asked, \<open>seek\<close>, and \<open>read\<close> at a position for a number of bytes; \<open>sha_hex\<close> is SHA-256 as text. The
  theorems say that a download of the helper holds the file, and that it arrives at the client.
\<close>

section \<open>Opening beneath a root (\<open>sandbox.rs\<close>)\<close>

record OpenFile =
  of_metadata :: "nat \<Rightarrow> IoError + FileMeta \<times> string"
  of_seek :: "nat \<Rightarrow> IoError + unit"
  of_read :: "nat \<Rightarrow> nat \<Rightarrow> IoError + bytes"

record Kernel =
  kn_open_base :: "string \<Rightarrow> IoError + unit"
  kn_openat2 :: "string \<Rightarrow> string \<Rightarrow> u32 \<Rightarrow> u32 \<Rightarrow> IoError + OpenFile"

definition O_RDONLY :: u32 where "O_RDONLY = 0"
definition O_WRONLY :: u32 where "O_WRONLY = 1"
definition O_RDWR :: u32 where "O_RDWR = 2"
definition O_CREAT :: u32 where "O_CREAT = 64"
definition O_PATH :: u32 where "O_PATH = 2097152"

text \<open>Errors made from an \<open>ErrorKind\<close> carry no number of the operating system.\<close>

datatype SandboxError = KindNotFound | KindPermissionDenied | KindOther | Os IoError

fun raw_os_error :: "SandboxError \<Rightarrow> IoError" where
  "raw_os_error (Os e) = e"
| "raw_os_error _ = None"

definition is_not_found :: "SandboxError \<Rightarrow> bool" where
  "is_not_found e \<longleftrightarrow> e = KindNotFound \<or> e = Os (Some 2)"

definition open_access :: "u32 \<Rightarrow> Access" where
  "open_access flags =
     (if flags AND (O_WRONLY OR O_RDWR OR O_CREAT) \<noteq> 0 then Write
      else if flags AND O_PATH \<noteq> 0 then Discover else Read)"

definition sandbox_open ::
  "Context option \<Rightarrow> Kernel \<Rightarrow> AllowedRoot \<Rightarrow> RelativePath \<Rightarrow> u32 \<Rightarrow> u32 \<Rightarrow> SandboxError + OpenFile" where
  "sandbox_open cx kn root path flags mode =
     and_then (map_err (\<lambda>_. KindOther) (validate_relative_path path)) (\<lambda>path.
     and_then (map_err (\<lambda>e. if e = TealDriveError.NotFound then KindNotFound else KindPermissionDenied)
       (context_check cx path (open_access flags))) (\<lambda>_.
     if nul \<in> set (root_base_path root) then Inl KindOther
     else
       and_then (map_err Os (kn_open_base kn (root_base_path root))) (\<lambda>_.
       and_then (map_err Os (kn_openat2 kn (root_base_path root) (if path = [] then ''.'' else path) flags mode))
         (\<lambda>file.
       and_then (map_err Os (of_metadata file 0)) (\<lambda>(m, _).
       and_then (map_err (\<lambda>_. KindNotFound) (check_metadata cx (Metadata.truncate m))) (\<lambda>_.
       Inr file))))))"

section \<open>Reading (\<open>download.rs\<close>)\<close>

text \<open>\<open>Read::read\<close> on a file limited by \<open>take\<close>, with \<open>left\<close> bytes of the limit to go.\<close>

definition read_limited :: "OpenFile \<Rightarrow> nat \<Rightarrow> nat \<Rightarrow> nat \<Rightarrow> IoError + bytes" where
  "read_limited file pos left want = (if left = 0 then Inr [] else of_read file pos (min want left))"

function read_chunks ::
  "OpenFile \<Rightarrow> nat \<Rightarrow> nat \<Rightarrow> nat \<Rightarrow> nat \<Rightarrow> HelperDownloadChunk list \<Rightarrow> IoError + HelperDownloadChunk list" where
  "read_chunks file limit chunk_size offset idx chunks =
     (case read_limited file offset (limit + 1 - offset) chunk_size of
        Inl e \<Rightarrow> Inl e
      | Inr buffer \<Rightarrow>
          if buffer = [] then Inr chunks
          else
            let chunks = chunks @ [\<lparr>dc_chunk_index = idx, dc_offset = offset, dc_chunk_bytes = buffer\<rparr>];
                offset' = offset + length buffer
            in if offset' > limit then Inl None
               else if idx + 1 > U32_MAX then Inl None
               else read_chunks file limit chunk_size offset' (idx + 1) chunks)"
  by pat_completeness auto

termination
  by (relation "measure (\<lambda>(file, limit, chunk_size, offset, idx, chunks). limit + 1 - offset)")
    (auto simp flip: length_greater_0_conv)

declare read_chunks.simps [simp del]

definition read_download_file ::
  "Context option \<Rightarrow> Kernel \<Rightarrow> Uuid \<Rightarrow> HelperRequest \<Rightarrow> AllowedRoot \<Rightarrow> nat \<Rightarrow> IoError + HelperDownloadFile" where
  "read_download_file cx kn transfer_id q root total_bytes =
     (let chunk_size = max 1 (min (hl_max_chunk_size (hq_limits q)) MAX_CHUNK_SIZE) in
      and_then (map_err raw_os_error (sandbox_open cx kn root (hq_relative_path q) O_RDONLY 0)) (\<lambda>file.
      and_then (read_chunks file (hl_max_download_helper_bytes (hq_limits q)) chunk_size 0 0 []) (\<lambda>chunks.
      Inr \<lparr>df_transfer_id = transfer_id, df_total_bytes = total_bytes, df_chunks = chunks\<rparr>)))"

definition download_file_with_roots ::
  "Context option \<Rightarrow> DiskView \<Rightarrow> Kernel \<Rightarrow> Uuid \<Rightarrow> HelperRequest \<Rightarrow> AllowedRoot list \<Rightarrow> HelperResponse" where
  "download_file_with_roots cx disk kn transfer_id q roots =
     (if hq_command q \<noteq> HelperCommand.DownloadFile then response_not_implemented q
      else if hq_uid q = 0 then response_permission_denied q ''Helper refuses uid 0.''
      else case find (\<lambda>root. root_root_id root = hq_root_id q) roots of
        None \<Rightarrow> helper_error q ErrorKind.InvalidPath ''Unknown root id.'' ''invalid_root_id''
      | Some root \<Rightarrow>
          (case resolve_existing_path cx disk root (hq_relative_path q) False of
             Inl err \<Rightarrow> helper_error_from_tealdrive q err
           | Inr resolution \<Rightarrow>
               (case dv_symlink_metadata disk (ex_resolved_path resolution) of
                  Inl err \<Rightarrow> helper_error_from_io q err
                | Inr m \<Rightarrow>
                    if st_is_symlink m
                    then helper_error q ErrorKind.PolicyDenied ''Symlink download denied.'' ''symlink_denied''
                    else if md_is_dir m
                    then helper_error q ErrorKind.InvalidTarget ''Directories cannot be downloaded in this phase.''
                      ''directory_download_unsupported''
                    else if \<not> md_is_file m
                    then helper_error q ErrorKind.InvalidTarget ''Target is not a regular file.'' ''invalid_target''
                    else if st_len m > hl_max_download_helper_bytes (hq_limits q)
                    then helper_error q ErrorKind.FileTooLarge ''File is too large for bounded helper download.''
                      ''file_too_large''
                    else (case read_download_file cx kn transfer_id q root (st_len m) of
                        Inr download \<Rightarrow> response_download_file q download
                      | Inl err \<Rightarrow> helper_error_from_io q err))))"

text \<open>\<open>Read::read_to_end\<close> on a limited file: reads until one returns nothing.\<close>

function read_to_end :: "OpenFile \<Rightarrow> nat \<Rightarrow> nat \<Rightarrow> bytes \<Rightarrow> IoError + bytes" where
  "read_to_end file pos left data =
     (case read_limited file pos left left of
        Inl e \<Rightarrow> Inl e
      | Inr buffer \<Rightarrow>
          if buffer = [] then Inr data
          else read_to_end file (pos + length buffer) (left - length buffer) (data @ buffer))"
  by pat_completeness auto

termination
  by (relation "measure (\<lambda>(file, pos, left, data). left)")
    (auto simp: read_limited_def split: if_split_asm)

declare read_to_end.simps [simp del]

definition read_file_range ::
  "Context option \<Rightarrow> DiskView \<Rightarrow> Kernel \<Rightarrow> HelperRequest \<Rightarrow> AllowedRoot list \<Rightarrow> SensitivePolicyConfig \<Rightarrow> HelperResponse" where
  "read_file_range cx disk kn q roots sensitive =
     (case find (\<lambda>r. root_root_id r = hq_root_id q) roots of
        None \<Rightarrow> response_permission_denied q ''Unknown root.''
      | Some root \<Rightarrow>
          if sm_is_sensitive (detect_sensitive (hq_relative_path q) sensitive)
             \<or> (\<not> root_hidden_files_allowed root \<and> is_hidden_relative (hq_relative_path q))
          then response_permission_denied q ''Read denied by policy.''
          else (case resolve_existing_path cx disk root (hq_relative_path q) False of
              Inl err \<Rightarrow> helper_error_from_tealdrive q err
            | Inr _ \<Rightarrow>
                (case sandbox_open cx kn root (hq_relative_path q) O_RDONLY 0 of
                   Inl err \<Rightarrow> helper_error_from_io q (raw_os_error err)
                 | Inr file \<Rightarrow>
                     (case of_metadata file 1 of
                        Inr (m, _) \<Rightarrow>
                          if \<not> md_is_file m then response_permission_denied q ''Not a regular file.''
                          else
                            let offset = (case hq_write_options q of Some w \<Rightarrow> wo_offset w | None \<Rightarrow> 0);
                                len = min (hl_max_chunk_size (hq_limits q)) MAX_CHUNK_SIZE
                            in (case and_then (of_seek file offset) (\<lambda>_. read_to_end file offset len []) of
                                   Inl err \<Rightarrow> helper_error_from_io q err
                                 | Inr data \<Rightarrow>
                                     (response_operation_done q ''Read completed.'')
                                       \<lparr>hr_bytes_read := length data,
                                        hr_payload := FileRange (st_len m) offset data\<rparr>)
                      | Inl _ \<Rightarrow> response_permission_denied q ''Not a regular file.''))))"

section \<open>Revisions (\<open>revision.rs\<close>)\<close>

datatype RevisionError = InvalidData | FileChanged | Sandbox SandboxError

fun revision_os_error :: "RevisionError \<Rightarrow> IoError" where
  "revision_os_error (Sandbox e) = raw_os_error e"
| "revision_os_error _ = None"

text \<open>\<open>ErrorKind::WouldBlock\<close>, which is also the kind of \<open>EAGAIN\<close>.\<close>

definition would_block :: "RevisionError \<Rightarrow> bool" where
  "would_block e \<longleftrightarrow> e = FileChanged \<or> e = Sandbox (Os (Some 11))"

definition revision_read ::
  "(bytes \<Rightarrow> string) \<Rightarrow> Context option \<Rightarrow> Kernel \<Rightarrow> AllowedRoot \<Rightarrow> RelativePath \<Rightarrow> nat
   \<Rightarrow> RevisionError + bytes \<times> string \<times> FileMeta" where
  "revision_read sha_hex cx kn root path limit =
     and_then (map_err Sandbox (sandbox_open cx kn root path O_RDONLY 0)) (\<lambda>file.
     and_then (map_err (\<lambda>e. Sandbox (Os e)) (of_metadata file 1)) (\<lambda>(m_before, id_before).
     if \<not> md_is_file m_before \<or> st_len m_before > limit then Inl InvalidData
     else
       and_then (map_err (\<lambda>e. Sandbox (Os e)) (read_to_end file 0 (limit + 1) [])) (\<lambda>data.
       and_then (map_err (\<lambda>e. Sandbox (Os e)) (of_metadata file 2)) (\<lambda>(m_after, id_after).
       if length data > limit \<or> id_before \<noteq> id_after then Inl FileChanged
       else Inr (data, sha_hex (map of_char id_after @ 0 # data), m_after)))))"

definition revision_matches ::
  "(bytes \<Rightarrow> string) \<Rightarrow> Context option \<Rightarrow> Kernel \<Rightarrow> AllowedRoot \<Rightarrow> RelativePath \<Rightarrow> string \<Rightarrow> nat \<Rightarrow> bool" where
  "revision_matches sha_hex cx kn root path expected limit =
     (if expected = ''missing''
      then (case sandbox_open cx kn root path O_PATH 0 of Inl e \<Rightarrow> is_not_found e | Inr _ \<Rightarrow> False)
      else (case revision_read sha_hex cx kn root path limit of
          Inr (_, revision, _) \<Rightarrow> revision = expected
        | Inl _ \<Rightarrow> False))"

section \<open>Text (\<open>text.rs\<close>)\<close>

definition too_many_control_chars :: "bytes \<Rightarrow> bool" where
  "too_many_control_chars data =
     (if data = [] then False
      else length (filter (\<lambda>b. b < 32 \<and> b \<notin> {10, 13, 9}) data) * 100 > length data * 10)"

definition language_hint :: "string \<Rightarrow> string option" where
  "language_hint name =
     Option.bind (rsplit_once (CHR ''.'') name) (\<lambda>(_, ext).
     map_of [(''rs'', ''rust''), (''js'', ''javascript''), (''ts'', ''typescript''), (''json'', ''json''),
             (''html'', ''html''), (''css'', ''css''), (''md'', ''markdown''), (''toml'', ''toml''),
             (''yaml'', ''yaml''), (''yml'', ''yaml''), (''sh'', ''shell''), (''py'', ''python''),
             (''php'', ''php''), (''txt'', ''text'')] (to_ascii_lowercase ext))"

text \<open>\<open>str::lines\<close>: a final newline does not begin another line.\<close>

definition line_count :: "string \<Rightarrow> nat" where
  "line_count s =
     length (filter (\<lambda>c. c = CHR 0x0A) s) + (if s \<noteq> [] \<and> last s \<noteq> CHR 0x0A then 1 else 0)"

definition read_text_file_with_roots ::
  "(bytes \<Rightarrow> string) \<Rightarrow> Context option \<Rightarrow> DiskView \<Rightarrow> Kernel \<Rightarrow> HelperRequest \<Rightarrow> AllowedRoot list
   \<Rightarrow> SensitivePolicyConfig \<Rightarrow> HelperResponse" where
  "read_text_file_with_roots sha_hex cx disk kn q roots sensitive_config =
     (if hq_command q \<noteq> HelperCommand.ReadTextFile then response_not_implemented q
      else if hq_uid q = 0 then response_permission_denied q ''Helper refuses uid 0.''
      else case find (\<lambda>root. root_root_id root = hq_root_id q) roots of
        None \<Rightarrow> helper_error q ErrorKind.InvalidPath ''Unknown root id.'' ''invalid_root_id''
      | Some root \<Rightarrow>
          (case resolve_existing_path cx disk root (hq_relative_path q) False of
             Inl err \<Rightarrow> helper_error_from_tealdrive q err
           | Inr resolution \<Rightarrow>
               let limit = hl_max_text_edit_size (hq_limits q) in
               (case dv_symlink_metadata disk (ex_resolved_path resolution) of
                  Inl err \<Rightarrow> helper_error_from_io q err
                | Inr m \<Rightarrow>
                    if st_is_symlink m
                    then helper_error q ErrorKind.PolicyDenied ''Symlink text preview denied.'' ''symlink_denied''
                    else if md_is_dir m
                    then helper_error q ErrorKind.InvalidTarget ''Directories cannot be previewed as text.''
                      ''directory_preview_unsupported''
                    else if \<not> md_is_file m
                    then helper_error q ErrorKind.InvalidTarget ''Target is not a regular file.'' ''invalid_target''
                    else if st_len m > limit
                    then helper_error q ErrorKind.FileTooLarge ''File is too large for text preview.'' ''file_too_large''
                    else
                      let entry_name = (case Option.bind (path_file_name (ex_resolved_path resolution)) to_str of
                            Some name \<Rightarrow> name | None \<Rightarrow> ''.'') in
                      (case revision_read sha_hex cx kn root (hq_relative_path q) limit of
                         Inl err \<Rightarrow>
                           if would_block err
                           then helper_error q ErrorKind.RevisionConflict ''File changed while reading.''
                             ''revision_conflict''
                           else helper_error_from_io q (revision_os_error err)
                       | Inr (data, revision, m) \<Rightarrow>
                           if length data > limit
                           then helper_error q ErrorKind.FileTooLarge ''File grew beyond text limit.'' ''file_too_large''
                           else if 0 \<in> set data \<or> too_many_control_chars data
                           then helper_error q ErrorKind.UnsupportedBinaryFile
                             ''Binary files cannot be previewed as text.'' ''unsupported_binary_file''
                           else
                             let content = map (\<lambda>b. char_of (unat b)) data in
                             if \<not> utf8_valid content
                             then helper_error q ErrorKind.InvalidTextEncoding ''File is not valid UTF-8 text.''
                               ''invalid_text_encoding''
                             else
                               let entry = directory_entry_from_metadata entry_name m root sensitive_config in
                               response_text_file_content q
                                 \<lparr>tf_revision = revision, tf_name = de_name entry, tf_content = content,
                                  tf_encoding = ''utf-8'', tf_size = st_len m, tf_modified = de_modified entry,
                                  tf_owner = de_owner entry, tf_group = de_group entry, tf_mode = de_mode entry,
                                  tf_permissions = de_permissions entry, tf_is_sensitive = de_is_sensitive entry,
                                  tf_is_hidden = de_is_hidden entry,
                                  tf_is_read_only = hpc_read_only_root (hq_policy_context q), tf_truncated = False,
                                  tf_line_count = Some (line_count content),
                                  tf_language_hint = language_hint (de_name entry)\<rparr>))))"

section \<open>A download holds the file\<close>

text \<open>What a regular file with this content answers to reads, as long as nobody changes it: a read that succeeds
  returns some of what follows the position, and nothing only at the end.\<close>

definition reads_file :: "OpenFile \<Rightarrow> bytes \<Rightarrow> bool" where
  "reads_file f content \<longleftrightarrow>
     (\<forall>pos n bs. 0 < n \<longrightarrow> of_read f pos n = Inr bs \<longrightarrow>
        bs = take (length bs) (drop pos content) \<and> length bs \<le> n \<and> (bs = [] \<longrightarrow> length content \<le> pos))"

fun contiguous :: "nat \<Rightarrow> nat \<Rightarrow> HelperDownloadChunk list \<Rightarrow> bool" where
  "contiguous offset idx [] = True"
| "contiguous offset idx (c # cs) \<longleftrightarrow>
     dc_offset c = offset \<and> dc_chunk_index c = idx \<and> dc_chunk_bytes c \<noteq> []
     \<and> contiguous (offset + length (dc_chunk_bytes c)) (idx + 1) cs"

lemma read_limited_file:
  assumes "reads_file f content" and "read_limited f pos left want = Inr bs" and "0 < left" and "0 < want"
  shows "bs = take (length bs) (drop pos content)" "length bs \<le> want" "bs = [] \<Longrightarrow> drop pos content = []"
proof -
  have "of_read f pos (min want left) = Inr bs" "0 < min want left"
    using assms by (auto simp: read_limited_def)
  with assms(1) have "bs = take (length bs) (drop pos content) \<and> length bs \<le> min want left
      \<and> (bs = [] \<longrightarrow> length content \<le> pos)"
    unfolding reads_file_def by blast
  then show "bs = take (length bs) (drop pos content)" "length bs \<le> want" "bs = [] \<Longrightarrow> drop pos content = []"
    by simp_all
qed

lemma drop_after_read: "bs = take (length bs) xs \<Longrightarrow> bs @ drop (length bs) xs = xs"
  by (metis append_take_drop_id)

lemma read_chunks_exact:
  assumes "reads_file f content" and "0 < chunk_size"
  shows "read_chunks f limit chunk_size offset idx chunks = Inr cs \<Longrightarrow> offset \<le> limit \<Longrightarrow>
    \<exists>new. cs = chunks @ new \<and> contiguous offset idx new
      \<and> concat (map dc_chunk_bytes new) = drop offset content
      \<and> (\<forall>c \<in> set new. length (dc_chunk_bytes c) \<le> chunk_size)"
  using assms
proof (induction f limit chunk_size offset idx chunks arbitrary: cs rule: read_chunks.induct)
  case (1 f limit chunk_size offset idx chunks)
  obtain bs where bs: "read_limited f offset (limit + 1 - offset) chunk_size = Inr bs"
    using "1.prems"(1) by (auto simp: read_chunks.simps [of f limit] split: sum.split_asm)
  have left: "0 < limit + 1 - offset" using "1.prems"(2) by simp
  note read = read_limited_file [OF "1.prems"(3) bs left "1.prems"(4)]
  show ?case
  proof (cases "bs = []")
    case True
    with bs "1.prems"(1) have "cs = chunks" by (simp add: read_chunks.simps [of f limit])
    with read(3) True show ?thesis by (intro exI [of _ "[]"]) simp
  next
    case False
    let ?c = "\<lparr>dc_chunk_index = idx, dc_offset = offset, dc_chunk_bytes = bs\<rparr>"
    have bounds: "\<not> offset + length bs > limit" "\<not> idx + 1 > U32_MAX"
      and rec: "read_chunks f limit chunk_size (offset + length bs) (idx + 1) (chunks @ [?c]) = Inr cs"
      using "1.prems"(1) bs False by (auto simp: read_chunks.simps [of f limit _ offset] Let_def split: if_split_asm)
    from "1.IH" [OF bs False HOL.refl HOL.refl bounds rec _ "1.prems"(3,4)] bounds(1)
    obtain new where new: "cs = (chunks @ [?c]) @ new" "contiguous (offset + length bs) (idx + 1) new"
      "concat (map dc_chunk_bytes new) = drop (offset + length bs) content"
      "\<forall>c \<in> set new. length (dc_chunk_bytes c) \<le> chunk_size" by auto
    have "bs @ drop (offset + length bs) content = drop offset content"
      using drop_after_read [OF read(1)] by (simp add: add.commute)
    with new False read(2) show ?thesis by (intro exI [of _ "?c # new"]) simp
  qed
qed

text \<open>It also returns: without errors of the disk, a file within the limit is read to its end.\<close>

lemma read_chunks_returns:
  assumes "reads_file f content" and "0 < chunk_size" and "length content \<le> limit"
    and "\<And>pos n e. of_read f pos n \<noteq> Inl e"
  shows "offset \<le> length content \<Longrightarrow> idx + (length content - offset) \<le> U32_MAX \<Longrightarrow>
    \<exists>cs. read_chunks f limit chunk_size offset idx chunks = Inr cs"
  using assms
proof (induction f limit chunk_size offset idx chunks rule: read_chunks.induct)
  case (1 f limit chunk_size offset idx chunks)
  have left: "0 < limit + 1 - offset" using "1.prems" by simp
  obtain bs where bs: "read_limited f offset (limit + 1 - offset) chunk_size = Inr bs"
    using "1.prems"(6) by (cases "read_limited f offset (limit + 1 - offset) chunk_size")
      (auto simp: read_limited_def split: if_split_asm)
  note read = read_limited_file [OF "1.prems"(3) bs left "1.prems"(4)]
  show ?case
  proof (cases "bs = []")
    case True
    with bs show ?thesis by (simp add: read_chunks.simps [of f limit])
  next
    case False
    have "length bs \<le> length content - offset"
      using read(1) by (metis length_drop length_take min.cobounded1 min.commute)
    moreover have "0 < length bs" using False by simp
    ultimately have bounds: "\<not> offset + length bs > limit" "\<not> idx + 1 > U32_MAX"
      "offset + length bs \<le> length content" "idx + 1 + (length content - (offset + length bs)) \<le> U32_MAX"
      using "1.prems"(1,2,5) by linarith+
    from "1.IH" [OF bs False HOL.refl HOL.refl bounds "1.prems"(3-6)] bs False bounds(1,2)
    show ?thesis by (simp add: read_chunks.simps [of f limit _ offset] Let_def)
  qed
qed

lemma sandbox_open_reads:
  "sandbox_open cx kn root path O_RDONLY 0 = Inr f \<Longrightarrow>
     \<exists>p. validate_relative_path path = Inr p \<and> context_check cx p Read = Inr ()"
  by (auto simp: sandbox_open_def and_then_Inr map_err_Inr open_access_def O_RDONLY_def)

fun download_payload :: "HelperResponse \<Rightarrow> HelperDownloadFile option" where
  "download_payload r = (case hr_payload r of HelperResponsePayload.DownloadFile d \<Rightarrow> Some d | _ \<Rightarrow> None)"

lemma download_payload_simps [simp]:
  "download_payload (response_not_implemented q) = None"
  "download_payload (response_permission_denied q m) = None"
  "download_payload (helper_error q k m r) = None"
  "download_payload (helper_error_from_tealdrive q err) = None"
  "download_payload (helper_error_from_io q io) = None"
  "download_payload (response_download_file q d) = Some d"
  by (simp_all add: response_defs Let_def helper_error_from_tealdrive_def helper_error_from_io_def)

lemma download_file_answers:
  assumes "download_payload (download_file_with_roots cx disk kn tid q roots) = Some d"
  obtains root r m where "find (\<lambda>root. root_root_id root = hq_root_id q) roots = Some root"
    and "resolve_existing_path cx disk root (hq_relative_path q) False = Inr r"
    and "dv_symlink_metadata disk (ex_resolved_path r) = Inr m" and "\<not> st_is_symlink m" and "md_is_file m"
    and "read_download_file cx kn tid q root (st_len m) = Inr d"
  using assms unfolding download_file_with_roots_def
  by (auto split: if_split_asm option.split_asm sum.split_asm simp del: download_payload.simps)

lemma read_download_file_exact:
  assumes "read_download_file cx kn tid q root n = Inr d"
    and "\<forall>f. sandbox_open cx kn root (hq_relative_path q) O_RDONLY 0 = Inr f \<longrightarrow> reads_file f content"
  shows "contiguous 0 0 (df_chunks d) \<and> concat (map dc_chunk_bytes (df_chunks d)) = content
    \<and> (\<forall>c \<in> set (df_chunks d). length (dc_chunk_bytes c) \<le> MAX_CHUNK_SIZE)"
proof -
  let ?size = "max 1 (min (hl_max_chunk_size (hq_limits q)) MAX_CHUNK_SIZE)"
  obtain f where "sandbox_open cx kn root (hq_relative_path q) O_RDONLY 0 = Inr f"
    and "read_chunks f (hl_max_download_helper_bytes (hq_limits q)) ?size 0 0 [] = Inr (df_chunks d)"
    using assms(1) by (auto simp: read_download_file_def Let_def and_then_Inr map_err_Inr)
  then obtain new where "df_chunks d = [] @ new" "contiguous 0 0 new"
    "concat (map dc_chunk_bytes new) = drop 0 content" "\<forall>c \<in> set new. length (dc_chunk_bytes c) \<le> ?size"
    using read_chunks_exact [of f content ?size _ 0 0 "[]" "df_chunks d"] assms(2) by auto
  then show ?thesis by (auto simp: limit_defs)
qed

text \<open>C24: A download arrives whole. When the helper answers a download request and the server makes frames of
  the answer, every frame encodes, the chunks the client decodes from them give, one after the other, the
  content of the file, and the last frame announces their number; the user may read the path. The file is
  only assumed to answer reads with parts of its content, and the serialiser to read back what it wrote.\<close>

theorem download_end_to_end:
  assumes "find (\<lambda>root. root_root_id root = hq_root_id q) roots = Some root"
    and "download_payload (download_file_with_roots cx disk kn tid q roots) = Some d"
    and "\<forall>f. sandbox_open cx kn root (hq_relative_path q) O_RDONLY 0 = Inr f \<longrightarrow> reads_file f content"
    and "download_frame_set to_vec rids d = Inr s"
    and "\<forall>v bs. to_vec v = Some bs \<longrightarrow> from_slice bs = Some v"
  shows "\<exists>ws w cs fin. map frame_encode (dfs_frames s) = map Inr (ws @ [w])
    \<and> map frame_chunk ws = map Inr cs \<and> concat (map chunk_bytes cs) = content
    \<and> frame_end from_slice w = Inr fin \<and> dep_chunk_count fin = length cs
    \<and> (\<exists>path. validate_relative_path (hq_relative_path q) = Inr path \<and> context_check cx path Read = Inr ())"
proof -
  obtain n where read: "read_download_file cx kn tid q root n = Inr d"
    using assms(1,2) by (elim download_file_answers) auto
  note exact = read_download_file_exact [OF read assms(3)]
  obtain ws w where frames: "map frame_encode (dfs_frames s) = map Inr (ws @ [w])"
    "map frame_chunk ws = map (\<lambda>c. Inr (raw_chunk_of (df_transfer_id d) c)) (df_chunks d)"
    "frame_end from_slice w = Inr \<lparr>dep_transfer_id = df_transfer_id d, dep_bytes_sent = df_total_bytes d,
        dep_chunk_count = length (df_chunks d), dep_sha256 = None\<rparr>"
    using download_delivers_file [OF assms(4), of from_slice] assms(5) by blast
  let ?cs = "map (raw_chunk_of (df_transfer_id d)) (df_chunks d)"
  have "concat (map chunk_bytes ?cs) = content"
    using exact by (simp add: raw_chunk_of_def comp_def)
  moreover have "\<exists>path. validate_relative_path (hq_relative_path q) = Inr path \<and> context_check cx path Read = Inr ()"
    using read sandbox_open_reads by (auto simp: read_download_file_def Let_def and_then_Inr map_err_Inr)
  moreover have "map frame_chunk ws = map Inr ?cs" using frames(2) by (simp add: comp_def)
  ultimately show ?thesis
    using frames(1,3) by (intro exI [of _ ws] exI [of _ w] exI [of _ ?cs]) simp
qed

definition example_file :: OpenFile where
  "example_file =
     \<lparr>of_metadata = (\<lambda>_. Inr (example_meta ''a.txt'', ''1'')), of_seek = (\<lambda>_. Inr ()),
      of_read = (\<lambda>pos n. Inr (take (min n 1) (drop pos [7, 8])))\<rparr>"

definition example_kernel :: Kernel where
  "example_kernel = \<lparr>kn_open_base = (\<lambda>_. Inr ()), kn_openat2 = (\<lambda>_ _ _ _. Inr example_file)\<rparr>"

definition example_download_request :: HelperRequest where
  "example_download_request = example_request HelperCommand.DownloadFile ''a.txt'' None"

lemma example_file_reads: "reads_file example_file [7, 8]"
  unfolding reads_file_def
proof (intro allI impI)
  fix pos n bs
  assume "0 < n" "of_read example_file pos n = Inr bs"
  moreover from this(1) have "min n 1 = 1" by simp
  ultimately have "bs = (if pos = 0 then [7] else if pos = 1 then [8] else [])"
    by (auto simp: example_file_def drop_Cons')
  with \<open>0 < n\<close> show "bs = take (length bs) (drop pos [7, 8]) \<and> length bs \<le> n
      \<and> (bs = [] \<longrightarrow> length [7 :: u8, 8] \<le> pos)"
    by (auto split: if_split_asm)
qed

lemma example_opens:
  "sandbox_open example_context example_kernel (hd example_roots) ''a.txt'' O_RDONLY 0 = Inr example_file"
  by (simp add: sandbox_open_def validate_relative_path_eq name_parts_def open_access_def O_RDONLY_def
      example_roots_def example_kernel_def example_file_def example_meta_def check_metadata_def
      Metadata.truncate_def)

lemma example_resolves_file:
  "\<exists>r. resolve_existing_path example_context example_disk (hd example_roots) ''a.txt'' False = Inr r
     \<and> ex_resolved_path r = ''/srv/a.txt''"
proof -
  have "to_string_lossy ''a.txt'' = ''a.txt''" by simp
  then show ?thesis
    by (simp add: resolve_existing_path_def resolve_root_def example_disk_def example_roots_def Let_def
        validate_relative_path_eq name_parts_def path_starts_with_def path_strip_prefix_def components_def
        path_join_def strip_prefix_def example_meta_def check_metadata_def Metadata.truncate_def)
qed

definition example_chunks :: "HelperDownloadChunk list" where
  "example_chunks = [\<lparr>dc_chunk_index = 0, dc_offset = 0, dc_chunk_bytes = [7]\<rparr>,
     \<lparr>dc_chunk_index = 1, dc_offset = 1, dc_chunk_bytes = [8]\<rparr>]"

lemma example_reads_chunks: "read_chunks example_file 1000 1000 0 0 [] = Inr example_chunks"
  by (simp add: read_chunks.simps read_limited_def example_file_def U32_MAX_def example_chunks_def)

lemma example_downloads:
  "download_payload (download_file_with_roots example_context example_disk example_kernel 5
     example_download_request example_roots)
   = Some \<lparr>df_transfer_id = 5, df_total_bytes = 5, df_chunks = example_chunks\<rparr>"
proof -
  obtain r where r: "resolve_existing_path example_context example_disk (hd example_roots) ''a.txt'' False = Inr r"
    "ex_resolved_path r = ''/srv/a.txt''" using example_resolves_file by blast
  have req: "hq_command example_download_request = HelperCommand.DownloadFile" "hq_uid example_download_request \<noteq> 0"
    "hq_relative_path example_download_request = ''a.txt''"
    "find (\<lambda>root. root_root_id root = hq_root_id example_download_request) example_roots = Some (hd example_roots)"
    "hl_max_download_helper_bytes (hq_limits example_download_request) = 1000"
    "hl_max_chunk_size (hq_limits example_download_request) = 1000"
    by (simp_all add: example_download_request_def example_request_def example_roots_def)
  have m: "dv_symlink_metadata example_disk ''/srv/a.txt'' = Inr (example_meta ''a.txt'')"
    by (simp add: example_disk_def strip_prefix_def)
  have meta: "\<not> st_is_symlink (example_meta ''a.txt'')" "\<not> md_is_dir (example_meta ''a.txt'')"
    "md_is_file (example_meta ''a.txt'')" "st_len (example_meta ''a.txt'') = 5"
    by (simp_all add: example_meta_def)
  have chunk: "max 1 (min 1000 MAX_CHUNK_SIZE) = (1000 :: nat)" by (simp add: limit_defs)
  have "read_download_file example_context example_kernel 5 example_download_request (hd example_roots) 5
      = Inr \<lparr>df_transfer_id = 5, df_total_bytes = 5, df_chunks = example_chunks\<rparr>"
    unfolding read_download_file_def Let_def req example_opens chunk
    by (simp add: example_reads_chunks)
  then show ?thesis
    unfolding download_file_with_roots_def req
    by (simp add: req r m meta del: download_payload.simps)
qed

theorem download_end_to_end_witness:
  "\<exists>(s :: DownloadFrameSet) ws w cs. map frame_encode (dfs_frames s) = map Inr (ws @ [w])
     \<and> map frame_chunk ws = map Inr cs \<and> concat (map chunk_bytes cs) = [7, 8]"
proof -
  let ?last = "\<lparr>dep_transfer_id = 5, dep_bytes_sent = 5, dep_chunk_count = 2, dep_sha256 = None\<rparr>"
  let ?to = "\<lambda>v. if v = ?last then Some [1 :: u8] else None"
  let ?from = "\<lambda>bs. if bs = [1 :: u8] then Some ?last else None"
  let ?d = "\<lparr>df_transfer_id = 5, df_total_bytes = 5, df_chunks = example_chunks\<rparr>"
  have root: "find (\<lambda>root. root_root_id root = hq_root_id example_download_request) example_roots = Some (hd example_roots)"
    by (simp add: example_download_request_def example_request_def example_roots_def)
  have opens: "\<forall>f. sandbox_open example_context example_kernel (hd example_roots)
      (hq_relative_path example_download_request) O_RDONLY 0 = Inr f \<longrightarrow> reads_file f [7, 8]"
    using example_opens example_file_reads by (simp add: example_download_request_def example_request_def)
  have "\<exists>s. download_frame_set ?to (\<lambda>_. 9) ?d = Inr s"
    by (simp add: download_frame_set_def example_chunks_def raw_chunk_of_def chunk_encode_def
        frame_new_def encode_msgpack_def limit_defs ok_or_def U32_MAX_def Let_def result_simps)
  then obtain s where s: "download_frame_set ?to (\<lambda>_. 9) ?d = Inr s" ..
  have from_ok: "\<forall>v bs. ?to v = Some bs \<longrightarrow> ?from bs = Some v"
    by (simp split: if_split_asm)
  from download_end_to_end [where from_slice = ?from, OF root example_downloads opens s from_ok]
  show ?thesis by blast
qed

end
