(* ===== verification/TD_Store.thy ===== *)
theory TD_Store
  imports TD_Listing TD_Home TD_Budget TD_Session
begin

text \<open>
  The account store (\<open>src/accounts/store.rs\<close>, \<open>password.rs\<close>): the tables of \<open>schema.sql\<close> as a record and
  every operation that reads or changes accounts, roles, quotas and passwords. An operation runs in one
  immediate transaction, so it is a function from the store before to an error, and then nothing is
  changed, or to the store after. Integer columns hold the values \<open>number\<close> lets through; the \<open>i64\<close>
  subtractions of the source wrap around as in a release build, and a sum that does not fit is the
  database error SQLite raises. The text of a JSON value is represented by the value. \<open>Uuid::new_v4\<close> and
  \<open>now\<close> are arguments; \<open>argon2\<close> is the parameter \<open>Argon\<close>.
\<close>

section \<open>Errors and integers\<close>

datatype StoreError =
    RateLimited | InvalidInput | Conflict | NotFound | Forbidden | QuotaExceeded | InvalidCredentials
  | UntrustedStore | UnsupportedSchema | PasswordHash | Database | Io

type_synonym 'a store_result = "StoreError + 'a"

definition I64_MAX :: nat where
  "I64_MAX = 2 ^ 63 - 1"

definition number :: "nat \<Rightarrow> nat store_result" where
  "number value = (if value \<le> I64_MAX then Inr value else Inl InvalidInput)"

text \<open>Subtraction and checked addition on \<open>i64\<close>.\<close>

definition sub64 :: "int \<Rightarrow> int \<Rightarrow> int" where
  "sub64 a b = (a - b + 2 ^ 63) mod 2 ^ 64 - 2 ^ 63"

definition add64 :: "nat \<Rightarrow> nat \<Rightarrow> nat option" where
  "add64 a b = (if a + b \<le> I64_MAX then Some (a + b) else None)"

text \<open>\<open>i64::from_str\<close>.\<close>

definition parse_i64 :: "string \<Rightarrow> int option" where
  "parse_i64 s =
     (let (neg, ds) = (case s of c # cs \<Rightarrow> if c = CHR ''-'' then (True, cs) else if c = CHR ''+'' then (False, cs)
                                            else (False, s) | [] \<Rightarrow> (False, s)) in
      if ds = [] \<or> \<not> list_all (is_digit 10) ds
        \<or> (if neg then number_of 10 ds > I64_MAX + 1 else number_of 10 ds > I64_MAX) then None
      else Some (if neg then - int (number_of 10 ds) else int (number_of 10 ds)))"

section \<open>Tables (\<open>schema.sql\<close>, \<open>migrations/002.sql\<close>)\<close>

record AccountRow =
  row_id :: string
  row_username :: string
  row_uid :: nat
  row_gid :: nat
  row_home :: string
  row_kind :: AccountKind
  row_role :: Role
  row_owner_admin_id :: "string option"
  row_status :: AccountStatus
  row_login_enabled :: bool
  row_generation :: nat
  row_web_password_hash :: "string option"
  row_quota_bytes :: "nat option"
  row_undo_hours :: "nat option"
  row_created_at :: nat
  row_updated_at :: nat
  row_deleted_at :: "nat option"
  row_deny_enrollment :: bool

record GrantRow =
  sr_nonce :: string
  sr_account_id :: string
  sr_generation :: nat
  sr_caller :: CallerBinding
  sr_expires_at :: nat
  sr_revoked :: bool

record EnrollmentRow =
  er_token_hash :: string
  er_username :: string
  er_uid :: nat
  er_gid :: nat
  er_home :: string
  er_caller :: CallerBinding
  er_expires_at :: nat
  er_consumed :: bool

record LimitRow =
  lr_scope :: string
  lr_key_hash :: string
  lr_failures :: nat
  lr_lock_until :: nat
  lr_updated_at :: nat

text \<open>The values of \<open>security_state\<close>: plain text, a provisioning intent (\<open>virtuals.rs\<close>), the rules of an
  account (\<open>policies.rs\<close>), and the small JSON records of quota synchronisation and purging.\<close>

record Intent =
  in_version :: nat
  in_owner :: string
  in_name :: string
  in_quota :: nat
  in_uid :: nat
  in_account_id :: "string option"

datatype StateValue =
    SText string
  | SIntent Intent
  | SRules nat UserRules
  | SSync string
  | SPurgeIntent string nat string
  | SPurged nat nat

record Store =
  accounts :: "AccountRow list"
  quota_pool :: nat
  admin_budgets :: "(string \<times> nat) list"
  security_state :: "(string \<times> StateValue) list"
  session_grants :: "GrantRow list"
  enrollment :: "EnrollmentRow list"
  login_limits :: "LimitRow list"

subsection \<open>SQL\<close>

text \<open>\<open>LIKE\<close>: \<open>_\<close> stands for any character, a final \<open>%\<close> for any rest, and the letters of ASCII compare
  without case. Only the pattern of the intents is used.\<close>

fun sql_like :: "string \<Rightarrow> string \<Rightarrow> bool" where
  "sql_like [] t \<longleftrightarrow> t = []"
| "sql_like (p # ps) t \<longleftrightarrow>
     (if p = CHR ''%'' \<and> ps = [] then True
      else (case t of [] \<Rightarrow> False
            | c # cs \<Rightarrow> (p = CHR ''_'' \<or> ascii_lower p = ascii_lower c) \<and> sql_like ps cs))"

definition intent_pattern :: string where
  "intent_pattern = ''virtual_create_v1:%''"

text \<open>\<open>coalesce(sum(...),0)\<close> of a column without negative values.\<close>

definition sql_sum :: "nat list \<Rightarrow> nat store_result" where
  "sql_sum xs = (if sum_list xs \<le> I64_MAX then Inr (sum_list xs) else Inl Database)"

text \<open>\<open>INSERT\<close>, with and without \<open>ON CONFLICT(key) DO UPDATE\<close>, on \<open>security_state\<close>.\<close>

definition state_upsert :: "string \<Rightarrow> StateValue \<Rightarrow> Store \<Rightarrow> Store" where
  "state_upsert k v s = s\<lparr>security_state := AList.update k v (security_state s)\<rparr>"

definition state_insert :: "string \<Rightarrow> StateValue \<Rightarrow> Store \<Rightarrow> Store store_result" where
  "state_insert k v s =
     (if map_of (security_state s) k \<noteq> None then Inl Database else Inr (state_upsert k v s))"

definition state_delete :: "string \<Rightarrow> Store \<Rightarrow> Store" where
  "state_delete k s = s\<lparr>security_state := AList.delete k (security_state s)\<rparr>"

text \<open>\<open>UPDATE accounts SET ..., generation=generation+1 WHERE ...\<close>. A generation past \<open>i64\<close> would become a
  real number, which the \<open>STRICT\<close> table refuses.\<close>

definition update_bumping :: "(AccountRow \<Rightarrow> bool) \<Rightarrow> (AccountRow \<Rightarrow> AccountRow) \<Rightarrow> Store \<Rightarrow> Store store_result" where
  "update_bumping sel f s =
     (if list_ex (\<lambda>r. sel r \<and> row_generation r \<ge> I64_MAX) (accounts s) then Inl Database
      else Inr (s\<lparr>accounts := map (\<lambda>r. if sel r then (f r)\<lparr>row_generation := row_generation r + 1\<rparr> else r)
                                (accounts s)\<rparr>))"

definition forget_enrollment :: "string \<Rightarrow> Store \<Rightarrow> Store" where
  "forget_enrollment name s = s\<lparr>enrollment := filter (\<lambda>e. er_username e \<noteq> name) (enrollment s)\<rparr>"

section \<open>Reading accounts\<close>

definition panel_scope_key :: "string \<Rightarrow> string" where
  "panel_scope_key i = ''panel_scope:'' @ i"

definition password_change_key :: "string \<Rightarrow> string" where
  "password_change_key i = ''password_change_required:'' @ i"

definition own_quota_key :: "string \<Rightarrow> string" where
  "own_quota_key i = ''admin_own_quota_v1:'' @ i"

definition quota_sync_key :: "string \<Rightarrow> string" where
  "quota_sync_key i = ''virtual_quota_sync_v1:'' @ i"

text \<open>\<open>row_account\<close> on the columns \<open>COLUMNS\<close>.\<close>

definition row_account :: "Store \<Rightarrow> AccountRow \<Rightarrow> Account" where
  "row_account s r =
     \<lparr>acc_id = row_id r, acc_username = row_username r, acc_uid = row_uid r, acc_gid = row_gid r,
      acc_home = row_home r, acc_kind = row_kind r, acc_role = row_role r,
      acc_global_admin = (row_role r = Admin
        \<and> (case map_of (security_state s) (panel_scope_key (row_id r)) of
             None \<Rightarrow> row_kind r = Linux | Some v \<Rightarrow> v = SText ''global'')),
      acc_password_change_required = (map_of (security_state s) (password_change_key (row_id r)) \<noteq> None),
      acc_owner_admin_id = row_owner_admin_id r, acc_status = row_status r,
      acc_login_enabled = row_login_enabled r, acc_generation = row_generation r,
      acc_password_enrolled = (row_web_password_hash r \<noteq> None), acc_quota_bytes = row_quota_bytes r,
      acc_undo_hours = row_undo_hours r, acc_created_at = row_created_at r, acc_updated_at = row_updated_at r,
      acc_deleted_at = row_deleted_at r, acc_deny_enrollment = row_deny_enrollment r\<rparr>"

definition find_row :: "Store \<Rightarrow> string \<Rightarrow> AccountRow option" where
  "find_row s i = find (\<lambda>r. row_id r = i) (accounts s)"

definition account :: "Store \<Rightarrow> string \<Rightarrow> Account store_result" where
  "account s i = ok_or (map_option (row_account s) (find_row s i)) NotFound"

definition find_username :: "Store \<Rightarrow> string \<Rightarrow> Account option" where
  "find_username s name = map_option (row_account s) (find (\<lambda>r. row_username r = name) (accounts s))"

definition find_uid :: "Store \<Rightarrow> nat \<Rightarrow> Account option" where
  "find_uid s u = map_option (row_account s) (find (\<lambda>r. row_uid r = u) (accounts s))"

datatype Authority = Root | Account_authority string nat

definition store_authorized :: "Store \<Rightarrow> Authority \<Rightarrow> Account option store_result" where
  "store_authorized s actor =
     (case actor of
        Root \<Rightarrow> Inr None
      | Account_authority i g \<Rightarrow>
          and_then (account s i) (\<lambda>a.
          if acc_generation a \<noteq> g \<or> \<not> acc_login_enabled a \<or> acc_status a \<noteq> Active then Inl Forbidden
          else Inr (Some a)))"

definition manage :: "Store \<Rightarrow> Authority \<Rightarrow> Account \<Rightarrow> unit store_result" where
  "manage s actor target =
     and_then (store_authorized s actor) (\<lambda>caller.
     case caller of
       None \<Rightarrow> Inr ()
     | Some a \<Rightarrow>
         if acc_role a \<noteq> Admin \<or> acc_owner_admin_id target \<noteq> Some (acc_id a) \<or> acc_kind target \<noteq> Virtual
         then Inl Forbidden else Inr ())"

definition list_accounts :: "Store \<Rightarrow> Authority \<Rightarrow> AccountKind \<Rightarrow> Account list store_result" where
  "list_accounts s actor kind =
     and_then (store_authorized s actor) (\<lambda>caller.
     if (case caller of None \<Rightarrow> False | Some a \<Rightarrow> acc_role a \<noteq> Admin) then Inl Forbidden
     else if caller \<noteq> None \<and> kind = Linux then Inl Forbidden
     else Inr (map (row_account s) (take 1025 (Sorting_Algorithms.sort (key row_username default)
            (filter (\<lambda>r. row_kind r = kind
                       \<and> (case caller of None \<Rightarrow> True | Some a \<Rightarrow> row_owner_admin_id r = Some (acc_id a)))
              (accounts s))))))"

definition verify_generation :: "Store \<Rightarrow> string \<Rightarrow> nat \<Rightarrow> nat \<Rightarrow> nat \<Rightarrow> Account store_result" where
  "verify_generation s i generation uid gid =
     and_then (account s i) (\<lambda>a.
     if acc_generation a \<noteq> generation \<or> acc_uid a \<noteq> uid \<or> acc_gid a \<noteq> gid \<or> \<not> acc_login_enabled a
       \<or> acc_status a \<noteq> Active
     then Inl Forbidden else Inr a)"

section \<open>Reservations\<close>

text \<open>What a row of \<open>security_state\<close> reserves for an owner; \<open>json_extract\<close> refuses a value that is not JSON.
  A quota past \<open>i64\<close> would make the sum a real number.\<close>

definition reserves :: "string \<Rightarrow> string \<Rightarrow> string \<times> StateValue \<Rightarrow> nat" where
  "reserves own exclude e =
     (if sql_like intent_pattern (fst e)
      then (case snd e of
              SIntent n \<Rightarrow> if in_owner n = own \<and> in_account_id n = None \<and> fst e \<noteq> exclude then in_quota n else 0
            | _ \<Rightarrow> 0)
      else 0)"

definition pending_reserved :: "Store \<Rightarrow> string \<Rightarrow> string \<Rightarrow> nat store_result" where
  "pending_reserved s own exclude =
     (if list_ex (\<lambda>e. sql_like intent_pattern (fst e) \<and> (case snd e of SText _ \<Rightarrow> True | _ \<Rightarrow> False)) (security_state s)
      then Inl Database
      else sql_sum (map (reserves own exclude) (security_state s)))"

definition fixed_own :: "Store \<Rightarrow> string \<Rightarrow> nat option store_result" where
  "fixed_own s i =
     (case map_of (security_state s) (own_quota_key i) of
        None \<Rightarrow> Inr None
      | Some (SText t) \<Rightarrow>
          (case parse_i64 t of
             Some v \<Rightarrow> if v > 0 then Inr (Some (nat v)) else Inl InvalidInput
           | None \<Rightarrow> Inl InvalidInput)
      | Some _ \<Rightarrow> Inl InvalidInput)"

definition allocated_to :: "Store \<Rightarrow> string \<Rightarrow> nat store_result" where
  "allocated_to s i =
     sql_sum (map (\<lambda>r. case row_quota_bytes r of None \<Rightarrow> 0 | Some q \<Rightarrow> q)
                (filter (\<lambda>r. row_owner_admin_id r = Some i) (accounts s)))"

definition delegated :: "Store \<Rightarrow> nat store_result" where
  "delegated s = sql_sum (map snd (admin_budgets s))"

definition budget_of :: "Store \<Rightarrow> string \<Rightarrow> nat" where
  "budget_of s i = (case map_of (admin_budgets s) i of None \<Rightarrow> 0 | Some b \<Rightarrow> b)"

definition the_or0 :: "nat option \<Rightarrow> nat" where
  "the_or0 v = (case v of None \<Rightarrow> 0 | Some n \<Rightarrow> n)"

section \<open>Passwords (\<open>password.rs\<close>)\<close>

definition MIN_PASSWORD_CHARS :: nat where
  "MIN_PASSWORD_CHARS = 12"

definition MAX_PASSWORD_BYTES :: nat where
  "MAX_PASSWORD_BYTES = 1024"

text \<open>What the \<open>argon2\<close> crate does: salted hashing, parsing of a PHC string, and verification.\<close>

record Phc =
  phc_algorithm :: string
  phc_version :: "nat option"
  phc_salt_len :: "nat option"
  phc_hash_len :: "nat option"
  phc_m :: "nat option"
  phc_t :: "nat option"
  phc_p :: "nat option"

record Argon =
  argon_hash :: "string \<Rightarrow> string option"
  argon_parse :: "string \<Rightarrow> Phc option"
  argon_verify :: "string \<Rightarrow> string \<Rightarrow> bool"

definition hash_password :: "Argon \<Rightarrow> string \<Rightarrow> string store_result" where
  "hash_password ar password =
     (if length (str_chars password) < MIN_PASSWORD_CHARS \<or> length password > MAX_PASSWORD_BYTES
        \<or> nul \<in> set password
      then Inl InvalidInput
      else ok_or (argon_hash ar password) PasswordHash)"

definition outside :: "nat \<Rightarrow> nat \<Rightarrow> nat option \<Rightarrow> bool" where
  "outside lo hi v = (case v of None \<Rightarrow> True | Some n \<Rightarrow> n < lo \<or> n > hi)"

definition verify_hash :: "Argon \<Rightarrow> string \<Rightarrow> string \<Rightarrow> bool store_result" where
  "verify_hash ar password encoded =
     (if length password > MAX_PASSWORD_BYTES \<or> length encoded > 512 then Inl InvalidInput
      else and_then (ok_or (argon_parse ar encoded) PasswordHash) (\<lambda>p.
        if phc_algorithm p \<noteq> ''argon2id'' \<or> phc_version p \<noteq> Some 19
          \<or> (case phc_salt_len p of None \<Rightarrow> True | Some n \<Rightarrow> n < 16)
          \<or> (case phc_hash_len p of None \<Rightarrow> True | Some n \<Rightarrow> n \<noteq> 32)
          \<or> outside 19456 262144 (phc_m p) \<or> outside 2 10 (phc_t p) \<or> outside 1 4 (phc_p p)
        then Inl PasswordHash
        else Inr (argon_verify ar password encoded)))"

section \<open>Operations\<close>

definition set_panel_scope ::
  "nat \<Rightarrow> Store \<Rightarrow> Authority \<Rightarrow> string \<Rightarrow> bool \<Rightarrow> (Account \<times> Store) store_result" where
  "set_panel_scope now s actor i global =
     (if actor \<noteq> Root then Inl Forbidden
      else and_then (account s i) (\<lambda>target.
        if acc_role target \<noteq> Admin \<or> acc_status target \<noteq> Active then Inl Forbidden
        else
          let s1 = state_upsert (panel_scope_key i) (SText (if global then ''global'' else ''tenant'')) s in
          and_then (number now) (\<lambda>t.
          and_then (update_bumping (\<lambda>r. row_id r = i) (\<lambda>r. r\<lparr>row_updated_at := t\<rparr>) s1) (\<lambda>s2.
          let s3 = forget_enrollment (acc_username target) s2 in
          and_then (account s3 i) (\<lambda>result. Inr (result, s3))))))"

definition set_role ::
  "nat \<Rightarrow> Store \<Rightarrow> Authority \<Rightarrow> string \<Rightarrow> Role \<Rightarrow> (Account \<times> Store) store_result" where
  "set_role now s actor i role =
     (if actor \<noteq> Root then Inl Forbidden
      else and_then (account s i) (\<lambda>target.
        if acc_kind target \<noteq> Linux \<or> acc_status target \<noteq> Active then Inl Forbidden
        else and_then (number now) (\<lambda>t.
          and_then (update_bumping (\<lambda>r. row_id r = i) (\<lambda>r. r\<lparr>row_role := role, row_updated_at := t\<rparr>) s) (\<lambda>s1.
          let s2 = state_upsert (panel_scope_key i) (SText (if role = Admin then ''global'' else ''tenant'')) s1;
              s3 = forget_enrollment (acc_username target) s2 in
          and_then (account s3 i) (\<lambda>result. Inr (result, s3))))))"

subsection \<open>Creation\<close>

record NewAccount =
  na_username :: string
  na_uid :: nat
  na_gid :: nat
  na_home :: string
  na_kind :: AccountKind
  na_role :: Role
  na_owner_admin_id :: "string option"
  na_quota_bytes :: "nat option"

definition bad_identity :: "string \<Rightarrow> nat \<Rightarrow> nat \<Rightarrow> string \<Rightarrow> bool" where
  "bad_identity username uid gid home \<longleftrightarrow>
     username = [] \<or> length username > 256 \<or> slash \<in> set username \<or> backslash \<in> set username \<or> nul \<in> set username
     \<or> uid = 0 \<or> gid = 0 \<or> \<not> is_absolute home \<or> path_eq home ''/'' \<or> ParentDir \<in> set (components home)"

text \<open>The constraints of the table that an inserted row can violate.\<close>

definition insert_account :: "AccountRow \<Rightarrow> Store \<Rightarrow> Store store_result" where
  "insert_account r s =
     (if list_ex (\<lambda>q. row_id q = row_id r \<or> row_username q = row_username r \<or> row_uid q = row_uid r) (accounts s)
        \<or> row_uid r < 1 \<or> row_uid r > 4294967295 \<or> row_gid r < 1 \<or> row_gid r > 4294967295
        \<or> take 1 (row_home r) \<noteq> ''/''
        \<or> \<not> (row_kind r = Virtual \<or> row_owner_admin_id r = None \<and> row_quota_bytes r = None)
        \<or> \<not> (row_kind r = Linux
              \<or> row_role r = Admin \<and> row_owner_admin_id r = None \<and> row_quota_bytes r = None
              \<or> row_role r = User \<and> row_owner_admin_id r \<noteq> None \<and> row_quota_bytes r \<noteq> None)
        \<or> (case row_owner_admin_id r of None \<Rightarrow> False | Some o' \<Rightarrow> find_row s o' = None \<and> o' \<noteq> row_id r)
      then Inl Database
      else Inr (s\<lparr>accounts := accounts s @ [r]\<rparr>))"

definition insert_budget :: "string \<Rightarrow> nat \<Rightarrow> Store \<Rightarrow> Store store_result" where
  "insert_budget i b s =
     (if map_of (admin_budgets s) i \<noteq> None then Inl Database
      else Inr (s\<lparr>admin_budgets := admin_budgets s @ [(i, b)]\<rparr>))"

text \<open>The quota of a virtual user must fit what is left of its administrator's budget.\<close>

definition owner_allows :: "Store \<Rightarrow> string option \<Rightarrow> nat option \<Rightarrow> string \<Rightarrow> unit store_result" where
  "owner_allows s owner_id quota_bytes exclude =
     (case quota_bytes of
        None \<Rightarrow> Inl InvalidInput
      | Some quota \<Rightarrow>
        if quota = 0 then Inl InvalidInput
        else and_then (ok_or owner_id InvalidInput) (\<lambda>own.
          and_then (account s own) (\<lambda>owner_account.
          if acc_role owner_account \<noteq> Admin \<or> acc_status owner_account \<noteq> Active then Inl Forbidden
          else and_then (ok_or (map_of (admin_budgets s) own) QuotaExceeded) (\<lambda>budget.
          and_then (allocated_to s own) (\<lambda>allocated.
          and_then (pending_reserved s own exclude) (\<lambda>pending.
          and_then (number quota) (\<lambda>q.
          and_then (fixed_own s own) (\<lambda>fixed.
          if int q > sub64 (sub64 (sub64 (int budget) (int allocated)) (int pending)) (int (the_or0 fixed))
          then Inl QuotaExceeded else Inr ()))))))))"

text \<open>The budget a new virtual administrator takes from the pool.\<close>

definition root_budget :: "Store \<Rightarrow> NewAccount \<Rightarrow> (string \<times> Intent) option \<Rightarrow> nat option store_result" where
  "root_budget s new request_state =
     (if na_kind new = Virtual \<and> na_role new = Admin
      then (case request_state of
              None \<Rightarrow> Inr None
            | Some (k, state) \<Rightarrow>
                if in_owner state \<noteq> ''__root__'' \<or> \<not> prefix ''virtual_create_v1:__root__:'' k then Inl Forbidden
                else and_then (delegated s) (\<lambda>allocated.
                  and_then (number (in_quota state)) (\<lambda>budget.
                  and_then (pending_reserved s ''__root__'' k) (\<lambda>pending.
                  if int budget > sub64 (sub64 (int (quota_pool s)) (int allocated)) (int pending)
                  then Inl QuotaExceeded else Inr (Some (in_quota state))))))
      else Inr None)"

definition creation_allowed ::
  "Store \<Rightarrow> Account option \<Rightarrow> NewAccount \<Rightarrow> (string \<times> Intent) option \<Rightarrow> unit store_result" where
  "creation_allowed s caller new request_state =
     (if (case caller of
            None \<Rightarrow> False
          | Some a \<Rightarrow> na_kind new \<noteq> Virtual \<or> na_role new \<noteq> User \<or> na_owner_admin_id new \<noteq> Some (acc_id a)
              \<or> acc_role a \<noteq> Admin)
      then Inl Forbidden
      else if na_kind new = Virtual \<and> na_role new = Admin
      then (if caller \<noteq> None \<or> na_owner_admin_id new \<noteq> None \<or> na_quota_bytes new \<noteq> None then Inl Forbidden
            else Inr ())
      else if na_kind new = Virtual
      then owner_allows s (na_owner_admin_id new) (na_quota_bytes new)
             (case request_state of None \<Rightarrow> [] | Some (k, _) \<Rightarrow> k)
      else if na_owner_admin_id new \<noteq> None \<or> na_quota_bytes new \<noteq> None then Inl InvalidInput
      else Inr ())"

definition new_row :: "string \<Rightarrow> NewAccount \<Rightarrow> nat \<Rightarrow> AccountRow" where
  "new_row i new time =
     \<lparr>row_id = i, row_username = na_username new, row_uid = na_uid new, row_gid = na_gid new,
      row_home = na_home new, row_kind = na_kind new, row_role = na_role new,
      row_owner_admin_id = na_owner_admin_id new, row_status = Active, row_login_enabled = True,
      row_generation = 1, row_web_password_hash = None, row_quota_bytes = na_quota_bytes new,
      row_undo_hours = None, row_created_at = time, row_updated_at = time, row_deleted_at = None,
      row_deny_enrollment = False\<rparr>"

definition set_hash :: "string \<Rightarrow> string \<Rightarrow> Store \<Rightarrow> Store" where
  "set_hash i h s =
     s\<lparr>accounts := map (\<lambda>r. if row_id r = i then r\<lparr>row_web_password_hash := Some h\<rparr> else r) (accounts s)\<rparr>"

definition create_record ::
  "string \<Rightarrow> nat \<Rightarrow> Store \<Rightarrow> Authority \<Rightarrow> NewAccount \<Rightarrow> string option \<Rightarrow> (string \<times> Intent) option
     \<Rightarrow> (Account \<times> Store) store_result" where
  "create_record fresh now s actor new hash request_state =
     (if bad_identity (na_username new) (na_uid new) (na_gid new) (na_home new) then Inl InvalidInput
      else and_then (store_authorized s actor) (\<lambda>caller.
        and_then (creation_allowed s caller new request_state) (\<lambda>_.
        and_then (root_budget s new request_state) (\<lambda>root_budget.
        if \<not> utf8_valid (na_home new) then Inl InvalidInput
        else and_then (case na_quota_bytes new of None \<Rightarrow> Inr None | Some q \<Rightarrow> map_sum id Some (number q)) (\<lambda>_.
        and_then (number now) (\<lambda>time.
        and_then (insert_account (new_row fresh new time) s) (\<lambda>s1.
        and_then (case root_budget of None \<Rightarrow> Inr s1
                  | Some b \<Rightarrow> and_then (number b) (\<lambda>n. insert_budget fresh n s1)) (\<lambda>s2.
        and_then (case hash of
                    None \<Rightarrow> Inr s2
                  | Some h \<Rightarrow>
                      if caller \<noteq> None then state_insert (password_change_key fresh) (SText ''1'') (set_hash fresh h s2)
                      else Inr (set_hash fresh h s2)) (\<lambda>s3.
        let s4 = (case request_state of
                    None \<Rightarrow> s3
                  | Some (k, state) \<Rightarrow> state_upsert k (SIntent (state\<lparr>in_account_id := Some fresh\<rparr>)) s3) in
        and_then (account s4 fresh) (\<lambda>result. Inr (result, s4)))))))))))"

definition create ::
  "string \<Rightarrow> nat \<Rightarrow> Store \<Rightarrow> Authority \<Rightarrow> NewAccount \<Rightarrow> (Account \<times> Store) store_result" where
  "create fresh now s actor new = create_record fresh now s actor new None None"

definition create_enrolled ::
  "Argon \<Rightarrow> string \<Rightarrow> nat \<Rightarrow> Store \<Rightarrow> Authority \<Rightarrow> NewAccount \<Rightarrow> string \<Rightarrow> (string \<times> Intent) option
     \<Rightarrow> (Account \<times> Store) store_result" where
  "create_enrolled ar fresh now s actor new password request_state =
     and_then (hash_password ar password) (\<lambda>h. create_record fresh now s actor new (Some h) request_state)"

subsection \<open>Quotas\<close>

definition effective_quota :: "Store \<Rightarrow> string \<Rightarrow> nat option store_result" where
  "effective_quota s i =
     and_then (account s i) (\<lambda>target.
     if acc_kind target = Linux then Inr None
     else if acc_role target = User then Inr (acc_quota_bytes target)
     else and_then (allocated_to s i) (\<lambda>children.
       and_then (pending_reserved s i []) (\<lambda>pending.
       and_then (ok_or (add64 children pending) QuotaExceeded) (\<lambda>allocated.
       if allocated > budget_of s i then Inl QuotaExceeded
       else and_then (fixed_own s i) (\<lambda>own.
         if (case own of None \<Rightarrow> False | Some v \<Rightarrow> v > budget_of s i - allocated) then Inl QuotaExceeded
         else Inr (Some (case own of None \<Rightarrow> budget_of s i - allocated | Some v \<Rightarrow> v)))))))"

definition set_pool :: "Store \<Rightarrow> Authority \<Rightarrow> nat \<Rightarrow> Store store_result" where
  "set_pool s actor nbytes =
     (if actor \<noteq> Root then Inl Forbidden
      else and_then (delegated s) (\<lambda>budgets.
        and_then (pending_reserved s ''__root__'' []) (\<lambda>pending.
        and_then (ok_or (add64 budgets pending) QuotaExceeded) (\<lambda>allocated.
        and_then (number nbytes) (\<lambda>b.
        if b < allocated then Inl QuotaExceeded else Inr (s\<lparr>quota_pool := b\<rparr>))))))"

definition set_admin_budget_with ::
  "(nat \<Rightarrow> unit store_result) \<Rightarrow> Store \<Rightarrow> Authority \<Rightarrow> string \<Rightarrow> nat \<Rightarrow> Store store_result" where
  "set_admin_budget_with before_commit s actor i nbytes =
     (if actor \<noteq> Root then Inl Forbidden
      else and_then (account s i) (\<lambda>target.
        if acc_role target \<noteq> Admin \<or> acc_status target \<noteq> Active then Inl Forbidden
        else and_then (delegated s) (\<lambda>allocated.
          and_then (allocated_to s i) (\<lambda>quotas.
          and_then (pending_reserved s i []) (\<lambda>pending.
          and_then (ok_or (add64 quotas pending) QuotaExceeded) (\<lambda>children.
          and_then (number nbytes) (\<lambda>b.
          and_then (fixed_own s i) (\<lambda>own.
          and_then (ok_or (add64 children (the_or0 own)) QuotaExceeded) (\<lambda>needed.
          if b < needed then Inl QuotaExceeded
          else and_then (pending_reserved s ''__root__'' []) (\<lambda>root_pending.
            if int b > sub64 (sub64 (int (quota_pool s)) (sub64 (int allocated) (int (budget_of s i)))) (int root_pending)
            then Inl QuotaExceeded
            else and_then (before_commit (case own of None \<Rightarrow> b - children | Some v \<Rightarrow> v)) (\<lambda>_.
              Inr (s\<lparr>admin_budgets := AList.update i b (admin_budgets s)\<rparr>))))))))))))"

definition set_admin_budget :: "Store \<Rightarrow> Authority \<Rightarrow> string \<Rightarrow> nat \<Rightarrow> Store store_result" where
  "set_admin_budget = set_admin_budget_with (\<lambda>_. Inr ())"

definition set_admin_own_with ::
  "(nat \<Rightarrow> unit store_result) \<Rightarrow> nat \<Rightarrow> Store \<Rightarrow> Authority \<Rightarrow> string \<Rightarrow> nat \<Rightarrow> Store store_result" where
  "set_admin_own_with before now s actor i nbytes =
     (if actor \<noteq> Root then Inl Forbidden
      else and_then (number nbytes) (\<lambda>b.
        if b = 0 then Inl InvalidInput
        else and_then (account s i) (\<lambda>target.
          if acc_kind target \<noteq> Virtual \<or> acc_role target \<noteq> Admin \<or> acc_status target \<noteq> Active then Inl Forbidden
          else and_then (allocated_to s i) (\<lambda>children.
            and_then (pending_reserved s i []) (\<lambda>pending.
            if int b > sub64 (sub64 (int (budget_of s i)) (int children)) (int pending) then Inl QuotaExceeded
            else and_then (before b) (\<lambda>_.
              let s1 = state_upsert (own_quota_key i) (SText (show_nat b)) s;
                  s2 = state_upsert (quota_sync_key i) (SSync i) s1 in
              and_then (number now) (\<lambda>t.
              update_bumping (\<lambda>r. row_id r = i) (\<lambda>r. r\<lparr>row_updated_at := t\<rparr>) s2)))))))"

subsection \<open>Credentials\<close>

definition invalidate_restored_sessions ::
  "string \<Rightarrow> nat \<Rightarrow> Store \<Rightarrow> Authority \<Rightarrow> Store store_result" where
  "invalidate_restored_sessions fresh now s actor =
     (if actor \<noteq> Root then Inl Forbidden
      else
        let s1 = state_upsert ''undo_epoch_v1'' (SText fresh) (s\<lparr>session_grants := [], enrollment := []\<rparr>) in
        and_then (number now) (\<lambda>t. update_bumping (\<lambda>_. True) (\<lambda>r. r\<lparr>row_updated_at := t\<rparr>) s1))"

definition copy_admin_credentials ::
  "nat \<Rightarrow> Store \<Rightarrow> Authority \<Rightarrow> string \<Rightarrow> nat \<Rightarrow> string \<Rightarrow> nat \<Rightarrow> Store store_result" where
  "copy_admin_credentials now s actor source source_generation target target_generation =
     (if actor \<noteq> Root then Inl Forbidden
      else and_then (account s source) (\<lambda>src.
        and_then (account s target) (\<lambda>dst.
        if acc_kind src \<noteq> Linux \<or> acc_kind dst \<noteq> Virtual \<or> acc_role src \<noteq> Admin \<or> acc_role dst \<noteq> Admin
          \<or> acc_status src \<noteq> Active \<or> acc_status dst \<noteq> Active \<or> \<not> acc_password_enrolled src
          \<or> acc_generation src \<noteq> source_generation \<or> acc_generation dst \<noteq> target_generation
        then Inl Forbidden
        else and_then (number now) (\<lambda>t.
          and_then (update_bumping (\<lambda>r. row_id r = target)
                      (\<lambda>r. r\<lparr>row_web_password_hash := Option.bind (find_row s source) row_web_password_hash,
                             row_updated_at := t\<rparr>) s) (\<lambda>s1.
          let s2 = state_delete (password_change_key target) s1 in
          if acc_password_change_required src then state_insert (password_change_key target) (SText ''1'') s2
          else Inr s2)))))"

definition require_password_change ::
  "nat \<Rightarrow> Store \<Rightarrow> Authority \<Rightarrow> string \<Rightarrow> (Account \<times> Store) store_result" where
  "require_password_change now s actor i =
     (if actor \<noteq> Root then Inl Forbidden
      else and_then (account s i) (\<lambda>target.
        if acc_status target \<noteq> Active then Inl Forbidden
        else
          let s1 = state_upsert (password_change_key i) (SText ''1'') s in
          and_then (number now) (\<lambda>t.
          and_then (update_bumping (\<lambda>r. row_id r = i) (\<lambda>r. r\<lparr>row_updated_at := t\<rparr>) s1) (\<lambda>s2.
          and_then (account s2 i) (\<lambda>result. Inr (result, s2))))))"

text \<open>The caller may change its own password or that of an account it manages.\<close>

definition own_or_managed :: "Store \<Rightarrow> Authority \<Rightarrow> Account \<Rightarrow> unit store_result" where
  "own_or_managed s actor target =
     and_then (store_authorized s actor) (\<lambda>caller.
     case caller of
       None \<Rightarrow> Inr ()
     | Some c \<Rightarrow> if acc_id c \<noteq> acc_id target then manage s actor target else Inr ())"

definition set_password ::
  "Argon \<Rightarrow> nat \<Rightarrow> Store \<Rightarrow> Authority \<Rightarrow> string \<Rightarrow> string \<Rightarrow> (Account \<times> Store) store_result" where
  "set_password ar now s actor i password =
     and_then (hash_password ar password) (\<lambda>h.
     and_then (account s i) (\<lambda>target.
     and_then (own_or_managed s actor target) (\<lambda>_.
     if acc_status target = Deleted then Inl Forbidden
     else and_then (if acc_password_change_required target
                    then (case Option.bind (find_row s i) row_web_password_hash of
                            None \<Rightarrow> Inl Database
                          | Some old \<Rightarrow> and_then (verify_hash ar password old) (\<lambda>same.
                              if same then Inl InvalidInput else Inr ()))
                    else Inr ()) (\<lambda>_.
       let s1 = state_delete (password_change_key i) s in
       and_then (number now) (\<lambda>t.
       and_then (update_bumping (\<lambda>r. row_id r = i)
                   (\<lambda>r. r\<lparr>row_web_password_hash := Some h, row_updated_at := t\<rparr>) s1) (\<lambda>s2.
       and_then (account s2 i) (\<lambda>result. Inr (result, s2))))))))"

definition dummy_hash :: "Store \<Rightarrow> string store_result" where
  "dummy_hash s =
     (case map_of (security_state s) ''dummy_password_hash'' of Some (SText h) \<Rightarrow> Inr h | _ \<Rightarrow> Inl Database)"

definition verify_password :: "Argon \<Rightarrow> Store \<Rightarrow> string \<Rightarrow> string \<Rightarrow> Account store_result" where
  "verify_password ar s username password =
     (let found = find (\<lambda>r. row_username r = username) (accounts s) in
      and_then (case Option.bind found row_web_password_hash of None \<Rightarrow> dummy_hash s | Some h \<Rightarrow> Inr h) (\<lambda>h.
      and_then (verify_hash ar password h) (\<lambda>valid.
      case found of
        Some r \<Rightarrow>
          let a = row_account s r in
          if valid \<and> acc_password_enrolled a \<and> acc_login_enabled a \<and> acc_status a = Active then Inr a
          else Inl InvalidCredentials
      | None \<Rightarrow> Inl InvalidCredentials)))"

subsection \<open>Status\<close>

definition transition_checked ::
  "nat \<Rightarrow> Store \<Rightarrow> Authority \<Rightarrow> string \<Rightarrow> AccountStatus \<Rightarrow> bool \<Rightarrow> nat option \<Rightarrow> (Account \<times> Store) store_result" where
  "transition_checked now s actor i status allow_admin_delete generation =
     and_then (account s i) (\<lambda>target.
     if (case generation of None \<Rightarrow> False | Some g \<Rightarrow> g \<noteq> acc_generation target) then Inl Conflict
     else and_then (store_authorized s actor) (\<lambda>caller.
       and_then (case caller of
                   None \<Rightarrow> Inr ()
                 | Some c \<Rightarrow>
                     and_then (if acc_id c = acc_id target \<and> acc_kind target = Linux \<and> status = AccountStatus.Revoked then Inr ()
                               else manage s actor target) (\<lambda>_.
                     if status = Deleted \<and> \<not> allow_admin_delete then Inl Forbidden else Inr ())) (\<lambda>_.
       if acc_status target = Deleted then Inl Conflict
       else
         let self_revoke = (case actor of Root \<Rightarrow> False | Account_authority a _ \<Rightarrow> a = acc_id target)
                             \<and> acc_kind target = Linux \<and> status = AccountStatus.Revoked in
         and_then (number now) (\<lambda>t.
         and_then (update_bumping (\<lambda>r. row_id r = i)
                     (\<lambda>r. r\<lparr>row_status := status, row_login_enabled := (status = Active), row_updated_at := t,
                            row_deleted_at := (if status = Deleted then Some t else None),
                            row_deny_enrollment := (status \<noteq> Active \<and> \<not> self_revoke)\<rparr>) s) (\<lambda>s1.
         let s2 = forget_enrollment (acc_username target) s1 in
         and_then (account s2 i) (\<lambda>result. Inr (result, s2)))))))"

definition transition ::
  "nat \<Rightarrow> Store \<Rightarrow> Authority \<Rightarrow> string \<Rightarrow> AccountStatus \<Rightarrow> bool \<Rightarrow> (Account \<times> Store) store_result" where
  "transition now s actor i status allow_admin_delete =
     transition_checked now s actor i status allow_admin_delete None"

definition transition_expected ::
  "nat \<Rightarrow> Store \<Rightarrow> Authority \<Rightarrow> string \<Rightarrow> AccountStatus \<Rightarrow> bool \<Rightarrow> nat \<Rightarrow> (Account \<times> Store) store_result" where
  "transition_expected now s actor i status allow_admin_delete generation =
     transition_checked now s actor i status allow_admin_delete (Some generation)"
end
