(* ===== verification/TD_Grants.thy ===== *)
theory TD_Grants
  imports TD_Store TD_Net
begin

text \<open>
  The proofs the account store keeps (\<open>src/accounts/grants.rs\<close>), its login reservations (\<open>limits.rs\<close>), the
  rules stored for an account (\<open>policies.rs\<close>) and the paged listing (\<open>listing.rs\<close>), on the tables of
  \<open>TD_Store\<close>. \<open>Uuid::parse_str\<close> followed by \<open>to_string\<close> is the parameter \<open>uuid\<close>, the hexadecimal SHA-256 of a
  text the parameter \<open>sha\<close>, the length of a value's JSON text the parameter \<open>json_len\<close>.
\<close>

section \<open>Session grants (\<open>grants.rs\<close>)\<close>

definition CallerBinding_validate :: "(string \<Rightarrow> string option) \<Rightarrow> CallerBinding \<Rightarrow> unit store_result" where
  "CallerBinding_validate uuid c =
     (if cb_pid c = 0 \<or> cb_start_time c = 0 \<or> uuid (cb_boot_id c) = None then Inl InvalidInput
      else and_then (number (cb_start_time c)) (\<lambda>_. Inr ()))"

text \<open>The rows \<open>issue_grant\<close> keeps; a comparison with the generation of a missing account is \<open>NULL\<close>, which
  does not delete.\<close>

definition live_grant :: "Store \<Rightarrow> nat \<Rightarrow> GrantRow \<Rightarrow> bool" where
  "live_grant s at g \<longleftrightarrow>
     \<not> (sr_expires_at g \<le> at \<or> sr_revoked g
         \<or> (case find_row s (sr_account_id g) of None \<Rightarrow> False | Some r \<Rightarrow> sr_generation g \<noteq> row_generation r))"

definition insert_grant :: "GrantRow \<Rightarrow> Store \<Rightarrow> Store store_result" where
  "insert_grant g s =
     (if list_ex (\<lambda>h. sr_nonce h = sr_nonce g) (session_grants s) \<or> find_row s (sr_account_id g) = None
        \<or> sr_generation g = 0 \<or> cb_pid (sr_caller g) = 0 \<or> cb_start_time (sr_caller g) = 0
      then Inl Database
      else Inr (s\<lparr>session_grants := session_grants s @ [g]\<rparr>))"

definition issue_grant ::
  "(string \<Rightarrow> string option) \<Rightarrow> string \<Rightarrow> Store \<Rightarrow> string \<Rightarrow> nat \<Rightarrow> CallerBinding \<Rightarrow> nat \<Rightarrow> nat
     \<Rightarrow> (SessionGrant \<times> Store) store_result" where
  "issue_grant uuid fresh s i generation caller at lifetime =
     and_then (CallerBinding_validate uuid caller) (\<lambda>_.
     if lifetime = 0 \<or> lifetime > 43200 then Inl InvalidInput
     else and_then (ok_or (checked_add at lifetime) InvalidInput) (\<lambda>expiry.
       and_then (number expiry) (\<lambda>_.
       and_then (account s i) (\<lambda>target.
       if acc_generation target \<noteq> generation \<or> acc_status target \<noteq> Active \<or> \<not> acc_login_enabled target
       then Inl Forbidden
       else and_then (number at) (\<lambda>_.
         let s1 = s\<lparr>session_grants := filter (live_grant s at) (session_grants s)\<rparr> in
         if length (session_grants s1) \<ge> 8192
           \<or> length (filter (\<lambda>g. sr_account_id g = i) (session_grants s1)) \<ge> 64
         then Inl Conflict
         else and_then (number generation) (\<lambda>_.
           and_then (insert_grant \<lparr>sr_nonce = fresh, sr_account_id = i, sr_generation = generation,
                        sr_caller = caller, sr_expires_at = expiry, sr_revoked = False\<rparr> s1) (\<lambda>s2.
           Inr (\<lparr>gr_nonce = fresh, gr_account_id = i, gr_generation = generation, gr_caller = caller,
                  gr_expires_at = expiry\<rparr>, s2))))))))"

definition verify_restricted_grant ::
  "Store \<Rightarrow> SessionGrant \<Rightarrow> CallerBinding \<Rightarrow> nat \<Rightarrow> Account store_result" where
  "verify_restricted_grant s grant caller at =
     (if gr_caller grant \<noteq> caller \<or> gr_expires_at grant \<le> at then Inl Forbidden
      else and_then (number (gr_generation grant)) (\<lambda>_.
        and_then (number (cb_start_time caller)) (\<lambda>_.
        and_then (number (gr_expires_at grant)) (\<lambda>_.
        and_then (number at) (\<lambda>_.
        if \<not> list_ex (\<lambda>g. sr_nonce g = gr_nonce grant \<and> sr_account_id g = gr_account_id grant
                      \<and> sr_generation g = gr_generation grant \<and> sr_caller g = caller
                      \<and> sr_expires_at g = gr_expires_at grant \<and> sr_expires_at g > at \<and> \<not> sr_revoked g)
                (session_grants s)
        then Inl Forbidden
        else and_then (account s (gr_account_id grant)) (\<lambda>target.
          verify_generation s (acc_id target) (gr_generation grant) (acc_uid target) (acc_gid target)))))))"

definition verify_grant :: "Store \<Rightarrow> SessionGrant \<Rightarrow> CallerBinding \<Rightarrow> nat \<Rightarrow> Account store_result" where
  "verify_grant s grant caller at =
     and_then (verify_restricted_grant s grant caller at) (\<lambda>a.
     if acc_password_change_required a then Inl Forbidden else Inr a)"

definition revoke_grant :: "Store \<Rightarrow> SessionGrant \<Rightarrow> CallerBinding \<Rightarrow> nat \<Rightarrow> Store store_result" where
  "revoke_grant s grant caller at =
     and_then (verify_restricted_grant s grant caller at) (\<lambda>_.
     Inr (s\<lparr>session_grants := map (\<lambda>g. if sr_nonce g = gr_nonce grant then g\<lparr>sr_revoked := True\<rparr> else g)
             (session_grants s)\<rparr>))"

definition grant_count :: "Store \<Rightarrow> string \<Rightarrow> nat" where
  "grant_count s i = length (filter (\<lambda>g. sr_account_id g = i \<and> \<not> sr_revoked g) (session_grants s))"

section \<open>Enrollment (\<open>grants.rs\<close>)\<close>

record EnrollmentProof =
  ep_id :: string
  ep_expires_at :: nat

record EnrollmentIdentity =
  ei_username :: string
  ei_uid :: nat
  ei_gid :: nat
  ei_home :: string

definition EnrollmentIdentity_validate :: "EnrollmentIdentity \<Rightarrow> unit store_result" where
  "EnrollmentIdentity_validate e =
     (if bad_identity (ei_username e) (ei_uid e) (ei_gid e) (ei_home e) then Inl InvalidInput else Inr ())"

text \<open>The derived equality compares the homes as paths.\<close>

definition EnrollmentIdentity_eq :: "EnrollmentIdentity \<Rightarrow> EnrollmentIdentity \<Rightarrow> bool" where
  "EnrollmentIdentity_eq a b \<longleftrightarrow>
     ei_username a = ei_username b \<and> ei_uid a = ei_uid b \<and> ei_gid a = ei_gid b \<and> path_eq (ei_home a) (ei_home b)"

definition token_hash :: "(string \<Rightarrow> string option) \<Rightarrow> (string \<Rightarrow> string) \<Rightarrow> string \<Rightarrow> string store_result" where
  "token_hash uuid sha token =
     and_then (ok_or (uuid token) InvalidCredentials) (\<lambda>canonical.
     if canonical \<noteq> token then Inl InvalidCredentials else Inr (sha token))"

text \<open>When an existing account with the name of the identity may be enrolled.\<close>

definition enrollable :: "Account \<Rightarrow> EnrollmentIdentity \<Rightarrow> bool" where
  "enrollable target e \<longleftrightarrow>
     \<not> (acc_kind target \<noteq> Linux \<or> acc_uid target \<noteq> ei_uid e \<or> acc_gid target \<noteq> ei_gid e
         \<or> \<not> path_eq (acc_home target) (ei_home e) \<or> acc_deny_enrollment target
         \<or> acc_status target = Suspended \<or> acc_status target = Deleted)"

definition insert_enrollment :: "EnrollmentRow \<Rightarrow> Store \<Rightarrow> Store store_result" where
  "insert_enrollment e s =
     (if list_ex (\<lambda>f. er_token_hash f = er_token_hash e) (enrollment s) \<or> er_uid e = 0 \<or> er_gid e = 0
        \<or> cb_pid (er_caller e) = 0 \<or> cb_start_time (er_caller e) = 0
      then Inl Database
      else Inr (s\<lparr>enrollment := enrollment s @ [e]\<rparr>))"

definition begin_enrollment ::
  "(string \<Rightarrow> string option) \<Rightarrow> (string \<Rightarrow> string) \<Rightarrow> string \<Rightarrow> Store \<Rightarrow> EnrollmentIdentity \<Rightarrow> CallerBinding \<Rightarrow> nat \<Rightarrow> nat
     \<Rightarrow> (EnrollmentProof \<times> Store) store_result" where
  "begin_enrollment uuid sha fresh s e caller at lifetime =
     and_then (EnrollmentIdentity_validate e) (\<lambda>_.
     and_then (CallerBinding_validate uuid caller) (\<lambda>_.
     if lifetime = 0 \<or> lifetime > 300 then Inl InvalidInput
     else and_then (ok_or (checked_add at lifetime) InvalidInput) (\<lambda>expiry.
       and_then (number expiry) (\<lambda>_.
       if (case find_username s (ei_username e) of
             None \<Rightarrow> False
           | Some target \<Rightarrow>
               \<not> enrollable target e
               \<or> acc_password_enrolled target \<and> \<not> (acc_status target = AccountStatus.Revoked \<and> \<not> acc_deny_enrollment target))
       then Inl Forbidden
       else and_then (number at) (\<lambda>_.
         let s1 = s\<lparr>enrollment := filter (\<lambda>f. \<not> (er_expires_at f \<le> at \<or> er_consumed f
                     \<or> er_username f = ei_username e \<and> cb_uid (er_caller f) = cb_uid caller
                         \<and> cb_pid (er_caller f) = cb_pid caller)) (enrollment s)\<rparr> in
         if length (enrollment s1) \<ge> 1024 then Inl Conflict
         else and_then (token_hash uuid sha fresh) (\<lambda>h.
           if \<not> utf8_valid (ei_home e) then Inl InvalidInput
           else and_then (insert_enrollment \<lparr>er_token_hash = h, er_username = ei_username e, er_uid = ei_uid e,
                            er_gid = ei_gid e, er_home = ei_home e, er_caller = caller, er_expires_at = expiry,
                            er_consumed = False\<rparr> s1) (\<lambda>s2.
             Inr (\<lparr>ep_id = fresh, ep_expires_at = expiry\<rparr>, s2))))))))"

definition usable :: "string \<Rightarrow> CallerBinding \<Rightarrow> nat \<Rightarrow> EnrollmentRow \<Rightarrow> bool" where
  "usable h caller at e \<longleftrightarrow>
     er_token_hash e = h \<and> er_caller e = caller \<and> er_expires_at e > at \<and> \<not> er_consumed e"

definition enrollment_identity ::
  "(string \<Rightarrow> string option) \<Rightarrow> (string \<Rightarrow> string) \<Rightarrow> Store \<Rightarrow> string \<Rightarrow> CallerBinding \<Rightarrow> nat
     \<Rightarrow> EnrollmentIdentity store_result" where
  "enrollment_identity uuid sha s token caller at =
     and_then (token_hash uuid sha token) (\<lambda>h.
     and_then (number (cb_start_time caller)) (\<lambda>_.
     and_then (number at) (\<lambda>_.
     and_then (ok_or (find (usable h caller at) (enrollment s)) InvalidCredentials) (\<lambda>r.
     let e = \<lparr>ei_username = er_username r, ei_uid = er_uid r, ei_gid = er_gid r, ei_home = er_home r\<rparr> in
     and_then (EnrollmentIdentity_validate e) (\<lambda>_. Inr e)))))"

definition enrolled_row :: "string \<Rightarrow> EnrollmentIdentity \<Rightarrow> nat \<Rightarrow> AccountRow" where
  "enrolled_row i e at =
     new_row i \<lparr>na_username = ei_username e, na_uid = ei_uid e, na_gid = ei_gid e, na_home = ei_home e,
       na_kind = Linux, na_role = User, na_owner_admin_id = None, na_quota_bytes = None\<rparr> at"

definition complete_enrollment ::
  "(string \<Rightarrow> string option) \<Rightarrow> (string \<Rightarrow> string) \<Rightarrow> Argon \<Rightarrow> string \<Rightarrow> Store \<Rightarrow> string \<Rightarrow> CallerBinding
     \<Rightarrow> EnrollmentIdentity \<Rightarrow> string \<Rightarrow> nat \<Rightarrow> (Account \<times> Store) store_result" where
  "complete_enrollment uuid sha ar fresh s token caller current password at =
     and_then (enrollment_identity uuid sha s token caller at) (\<lambda>snapshot.
     if \<not> EnrollmentIdentity_eq snapshot current then Inl Forbidden
     else and_then (hash_password ar password) (\<lambda>h.
       and_then (token_hash uuid sha token) (\<lambda>th.
       and_then (number (cb_start_time caller)) (\<lambda>_.
       and_then (number at) (\<lambda>t.
       if length (filter (usable th caller at) (enrollment s)) \<noteq> 1 then Inl InvalidCredentials
       else
         let s1 = s\<lparr>enrollment := map (\<lambda>e. if usable th caller at e then e\<lparr>er_consumed := True\<rparr> else e)
                     (enrollment s)\<rparr> in
         and_then (case find_username s1 (ei_username current) of
                     Some target \<Rightarrow>
                       if \<not> enrollable target current \<or> acc_password_enrolled target \<and> acc_status target \<noteq> AccountStatus.Revoked
                       then Inl Forbidden else Inr (acc_id target, s1)
                   | None \<Rightarrow>
                       if \<not> utf8_valid (ei_home current) then Inl InvalidInput
                       else and_then (insert_account (enrolled_row fresh current t) s1) (\<lambda>s2. Inr (fresh, s2)))
           (\<lambda>(i, s2).
         and_then (update_bumping (\<lambda>r. row_id r = i)
                     (\<lambda>r. r\<lparr>row_web_password_hash := Some h, row_status := Active, row_login_enabled := True,
                            row_deny_enrollment := False, row_updated_at := t\<rparr>) s2) (\<lambda>s3.
         and_then (account s3 i) (\<lambda>enrolled. Inr (enrolled, s3)))))))))"

section \<open>Login reservations (\<open>limits.rs\<close>)\<close>

text \<open>\<open>Display\<close> of an address: dotted decimal, or the eight groups in hexadecimal with the first longest run of
  at least two zero groups written as \<open>::\<close>, and the last two groups of a mapped address in dotted decimal.\<close>

fun show_hex :: "nat \<Rightarrow> string" where
  "show_hex n = (let d = n mod 16; c = char_of (if d < 10 then 48 + d else 87 + d) in
                 if n < 16 then [c] else show_hex (n div 16) @ [c])"

declare show_hex.simps [simp del]

definition show_v4 :: "nat \<Rightarrow> string" where
  "show_v4 a = join_with (CHR ''.'') (map (\<lambda>k. show_nat (a div 256 ^ k mod 256)) [3, 2, 1, 0])"

text \<open>Start and length of the first longest run of zero groups.\<close>

fun zero_run :: "nat \<Rightarrow> nat \<times> nat \<Rightarrow> nat \<times> nat \<Rightarrow> nat list \<Rightarrow> nat \<times> nat" where
  "zero_run pos best current [] = best"
| "zero_run pos best current (g # gs) =
     (if g = 0
      then (let current = (if snd current = 0 then (pos, 1) else (fst current, snd current + 1)) in
            zero_run (pos + 1) (if snd current > snd best then current else best) current gs)
      else zero_run (pos + 1) best (0, 0) gs)"

definition show_v6 :: "nat \<Rightarrow> string" where
  "show_v6 a =
     (let gs = map (\<lambda>k. a div 65536 ^ k mod 65536) [7, 6, 5, 4, 3, 2, 1, 0];
          hex = join_with (CHR '':'') \<circ> map show_hex;
          (start, run) = zero_run 0 (0, 0) (0, 0) gs in
      if take 5 gs = [0, 0, 0, 0, 0] \<and> gs ! 5 = 65535 then ''::ffff:'' @ show_v4 (a mod 4294967296)
      else if run > 1 then hex (take start gs) @ ''::'' @ hex (drop (start + run) gs)
      else hex gs)"

definition show_ip :: "IpAddr \<Rightarrow> string" where
  "show_ip a = (case a of V4 w \<Rightarrow> show_v4 (unat w) | V6 w \<Rightarrow> show_v6 (unat w))"

type_synonym Reservation_entry = "string \<times> string \<times> nat"

definition login_scopes :: "string \<Rightarrow> IpAddr option \<Rightarrow> RateLimitConfig \<Rightarrow> (string \<times> string \<times> nat) list" where
  "login_scopes username ip config =
     [(''account'', username, rl_max_login_failures config),
      (''global'', ''all'', min (rl_max_login_failures config * 40) I64_MAX)]
     @ (case ip of None \<Rightarrow> [] | Some a \<Rightarrow> [(''ip'', show_ip a, min (rl_max_login_failures config * 5) I64_MAX)])"

definition scope_hash :: "(string \<Rightarrow> string) \<Rightarrow> string \<Rightarrow> string \<Rightarrow> string" where
  "scope_hash sha scope k = sha (''tealdrive-login-v1:'' @ scope @ '':'' @ k)"

definition find_limit :: "Store \<Rightarrow> string \<Rightarrow> string \<Rightarrow> LimitRow option" where
  "find_limit s scope h = find (\<lambda>l. lr_scope l = scope \<and> lr_key_hash l = h) (login_limits s)"

text \<open>\<open>INSERT ... ON CONFLICT(scope,key_hash) DO UPDATE SET failures=failures+1\<close>.\<close>

definition charge_limit :: "string \<Rightarrow> string \<Rightarrow> nat \<Rightarrow> nat \<Rightarrow> Store \<Rightarrow> Store" where
  "charge_limit scope h deadline at s =
     (case find_limit s scope h of
        None \<Rightarrow> s\<lparr>login_limits := login_limits s @ [\<lparr>lr_scope = scope, lr_key_hash = h, lr_failures = 1,
                    lr_lock_until = deadline, lr_updated_at = at\<rparr>]\<rparr>
      | Some _ \<Rightarrow> s\<lparr>login_limits := map (\<lambda>l. if lr_scope l = scope \<and> lr_key_hash l = h
                    then l\<lparr>lr_failures := lr_failures l + 1, lr_updated_at := at\<rparr> else l) (login_limits s)\<rparr>)"

text \<open>The loop over the scopes; \<open>rows\<close> is the number of rows before it.\<close>

fun reserve_scopes ::
  "(string \<Rightarrow> string) \<Rightarrow> nat \<Rightarrow> nat \<Rightarrow> nat \<Rightarrow> (string \<times> string \<times> nat) list \<Rightarrow> Reservation_entry list \<Rightarrow> Store
     \<Rightarrow> (Reservation_entry list \<times> Store) store_result" where
  "reserve_scopes sha rows until at [] reserved s = Inr (reserved, s)"
| "reserve_scopes sha rows until at ((scope, k, mx) # scopes) reserved s =
     (let h = scope_hash sha scope k;
          existing = find_limit s scope h;
          (failures, deadline) = (case existing of None \<Rightarrow> (0, until) | Some l \<Rightarrow> (lr_failures l, lr_lock_until l)) in
      if failures \<ge> mx \<or> existing = None \<and> rows + length reserved \<ge> 10000 then Inl RateLimited
      else reserve_scopes sha rows until at scopes (reserved @ [(scope, h, deadline)])
             (charge_limit scope h deadline at s))"

definition reserve_login ::
  "(string \<Rightarrow> string) \<Rightarrow> Store \<Rightarrow> string \<Rightarrow> string option \<Rightarrow> RateLimitConfig \<Rightarrow> nat
     \<Rightarrow> (Reservation_entry list \<times> Store) store_result" where
  "reserve_login sha s username ip config at =
     (if length username > 256 \<or> rl_max_login_failures config = 0 \<or> rl_lockout_duration_seconds config = 0
      then Inl InvalidInput
      else and_then (number at) (\<lambda>_.
        and_then (number (rl_lockout_duration_seconds config)) (\<lambda>d.
        and_then (ok_or (add64 at d) InvalidInput) (\<lambda>until.
        and_then (case ip of None \<Rightarrow> Inr None
                  | Some t \<Rightarrow> (case parse_ip t of None \<Rightarrow> Inl InvalidInput | Some a \<Rightarrow> Inr (Some a))) (\<lambda>addr.
        let s1 = s\<lparr>login_limits := filter (\<lambda>l. lr_lock_until l > at) (login_limits s)\<rparr> in
        reserve_scopes sha (length (login_limits s1)) until at (login_scopes username addr config) [] s1)))))"

definition refund_limit :: "Reservation_entry \<Rightarrow> Store \<Rightarrow> Store" where
  "refund_limit e s =
     (case e of (scope, h, deadline) \<Rightarrow>
        s\<lparr>login_limits := map (\<lambda>l. if lr_scope l = scope \<and> lr_key_hash l = h \<and> lr_lock_until l = deadline
              then l\<lparr>lr_failures := lr_failures l - 1\<rparr> else l) (login_limits s)\<rparr>)"

definition finish_login :: "Store \<Rightarrow> Reservation_entry list \<Rightarrow> Store" where
  "finish_login s reservation = fold refund_limit reservation s"

section \<open>Rules of an account (\<open>policies.rs\<close>)\<close>

datatype PolicyLayer = RootLayer | AdminLayer | PersonalLayer

definition policy_key :: "string \<Rightarrow> string" where
  "policy_key i = ''account_policy_v1:'' @ i"

definition validate_policy :: "UserRules \<Rightarrow> unit store_result" where
  "validate_policy rules =
     (if length (ur_root_rules rules) > 512 \<or> length (ur_admin_rules rules) > 512
        \<or> length (ur_personal_rules rules) > 512
      then Inl InvalidInput
      else map_err (\<lambda>_. InvalidInput)
             (AccessPolicy_validate (AccessPolicy_default\<lparr>ap_users := [(''subject'', rules)]\<rparr>)))"

definition load_policy :: "(StateValue \<Rightarrow> nat) \<Rightarrow> Store \<Rightarrow> string \<Rightarrow> UserRules store_result" where
  "load_policy json_len s i =
     (case map_of (security_state s) (policy_key i) of
        None \<Rightarrow> Inr UserRules_default
      | Some v \<Rightarrow>
          if json_len v \<le> 524288
          then (case v of
                  SRules version rules \<Rightarrow>
                    if version \<noteq> 1 then Inl InvalidInput
                    else and_then (validate_policy rules) (\<lambda>_. Inr rules)
                | _ \<Rightarrow> Inl InvalidInput)
          else Inl InvalidInput)"

definition policy :: "(StateValue \<Rightarrow> nat) \<Rightarrow> Store \<Rightarrow> Authority \<Rightarrow> string \<Rightarrow> UserRules store_result" where
  "policy json_len s actor i =
     and_then (account s i) (\<lambda>target.
     and_then (own_or_managed s actor target) (\<lambda>_. load_policy json_len s i))"

fun replace_layer :: "PolicyLayer \<Rightarrow> Rule list \<Rightarrow> UserRules \<Rightarrow> UserRules" where
  "replace_layer RootLayer rs u = u\<lparr>ur_root_rules := rs\<rparr>"
| "replace_layer AdminLayer rs u = u\<lparr>ur_admin_rules := rs\<rparr>"
| "replace_layer PersonalLayer rs u = u\<lparr>ur_personal_rules := rs\<rparr>"

definition set_policy ::
  "(StateValue \<Rightarrow> nat) \<Rightarrow> nat \<Rightarrow> Store \<Rightarrow> Authority \<Rightarrow> string \<Rightarrow> nat \<Rightarrow> PolicyLayer \<Rightarrow> Rule list
     \<Rightarrow> (Account \<times> Store) store_result" where
  "set_policy json_len now s actor i expected_generation layer replacement =
     and_then (account s i) (\<lambda>target.
     and_then (store_authorized s actor) (\<lambda>caller.
     and_then (case caller of
                 None \<Rightarrow> Inr ()
               | Some c \<Rightarrow>
                   (case layer of
                      RootLayer \<Rightarrow> Inl Forbidden
                    | PersonalLayer \<Rightarrow> if acc_id c = acc_id target then Inr () else Inl Forbidden
                    | AdminLayer \<Rightarrow> manage s actor target)) (\<lambda>_.
     if acc_generation target \<noteq> expected_generation \<or> acc_status target = Deleted then Inl Conflict
     else and_then (load_policy json_len s i) (\<lambda>rules0.
       let rules = replace_layer layer replacement rules0 in
       and_then (validate_policy rules) (\<lambda>_.
       if json_len (SRules 1 rules) > 524288 then Inl InvalidInput
       else
         let s1 = state_upsert (policy_key i) (SRules 1 rules) s in
         and_then (number now) (\<lambda>t.
         and_then (update_bumping (\<lambda>r. row_id r = i) (\<lambda>r. r\<lparr>row_updated_at := t\<rparr>) s1) (\<lambda>s2.
         let s3 = forget_enrollment (acc_username target) s2 in
         and_then (account s3 i) (\<lambda>updated. Inr (updated, s3)))))))))"

section \<open>Pages of accounts (\<open>listing.rs\<close>)\<close>

record AccountQuery =
  aq_limit :: nat
  aq_cursor :: "string option"
  aq_filter :: "string option"
  aq_status :: "AccountStatus option"
  aq_enrolled :: "bool option"

definition AccountQuery_default :: AccountQuery where
  "AccountQuery_default =
     \<lparr>aq_limit = 100, aq_cursor = None, aq_filter = None, aq_status = None, aq_enrolled = None\<rparr>"

record AccountPage =
  page_items :: "Account list"
  page_next_cursor :: "string option"
  page_has_more :: bool

definition bad_text :: "nat \<Rightarrow> string option \<Rightarrow> bool" where
  "bad_text bound v =
     (case v of None \<Rightarrow> False | Some t \<Rightarrow> length t > bound \<or> list_ex is_control (str_chars t))"

definition admits :: "'a option \<Rightarrow> ('a \<Rightarrow> bool) \<Rightarrow> bool" where
  "admits v P = (case v of None \<Rightarrow> True | Some x \<Rightarrow> P x)"

definition query_selects :: "Account option \<Rightarrow> AccountKind \<Rightarrow> AccountQuery \<Rightarrow> AccountRow \<Rightarrow> bool" where
  "query_selects caller kind q r \<longleftrightarrow>
     row_kind r = kind \<and> admits caller (\<lambda>a. row_owner_admin_id r = Some (acc_id a))
     \<and> admits (aq_cursor q) (\<lambda>c. row_username r > c)
     \<and> admits (aq_filter q) (\<lambda>f. sublist (to_ascii_lowercase f) (to_ascii_lowercase (row_username r)))
     \<and> admits (aq_status q) (\<lambda>st. row_status r = st)
     \<and> admits (aq_enrolled q) (\<lambda>b. (row_web_password_hash r \<noteq> None) = b)"

definition make_page :: "nat \<Rightarrow> Account list \<Rightarrow> AccountPage" where
  "make_page limit found =
     (let has_more = length found > limit;
          items = (if has_more then butlast found else found) in
      \<lparr>page_items = items,
       page_next_cursor = (if has_more \<and> items \<noteq> [] then Some (acc_username (last items)) else None),
       page_has_more = has_more\<rparr>)"

definition accounts_list_page :: "Store \<Rightarrow> Authority \<Rightarrow> AccountKind \<Rightarrow> AccountQuery \<Rightarrow> AccountPage store_result" where
  "accounts_list_page s actor kind q =
     (if aq_limit q < 1 \<or> aq_limit q > 200 \<or> bad_text 256 (aq_cursor q) \<or> bad_text 128 (aq_filter q)
      then Inl InvalidInput
      else and_then (store_authorized s actor) (\<lambda>caller.
        if (case caller of None \<Rightarrow> False | Some a \<Rightarrow> acc_role a \<noteq> Admin \<or> kind = Linux) then Inl Forbidden
        else Inr (make_page (aq_limit q) (map (row_account s) (take (aq_limit q + 1)
               (Sorting_Algorithms.sort (key row_username default)
                 (filter (query_selects caller kind q) (accounts s))))))))"

lemma page_more_nonempty:
  assumes page: "accounts_list_page s actor kind q = Inr page" and more: "page_has_more page"
  shows "0 < length (page_items page)"
proof -
  from page obtain found where "page = make_page (aq_limit q) found" "1 \<le> aq_limit q"
    unfolding accounts_list_page_def by (auto simp: and_then_Inr split: if_split_asm)
  with more show ?thesis by (simp add: make_page_def Let_def del: length_greater_0_conv)
qed

text \<open>The loop of \<open>all_accounts\<close>. It ends when the result passes 100000 accounts, at the latest.\<close>

function pages_from ::
  "Store \<Rightarrow> Authority \<Rightarrow> AccountKind \<Rightarrow> AccountQuery \<Rightarrow> Account list \<Rightarrow> Account list store_result" where
  "pages_from s actor kind q result =
     (case accounts_list_page s actor kind q of
        Inl e \<Rightarrow> Inl e
      | Inr page \<Rightarrow>
          let result = result @ page_items page in
          if length result > 100000 then Inl InvalidInput
          else if \<not> page_has_more page then Inr result
          else pages_from s actor kind (q\<lparr>aq_cursor := page_next_cursor page\<rparr>) result)"
  by pat_completeness auto

termination
proof (relation "measure (\<lambda>(s, actor, kind, q, result). 100001 - length result)", goal_cases)
  case (2 s actor kind q result page result')
  then have "0 < length (page_items page)" by (intro page_more_nonempty) simp_all
  with 2 show ?case by (simp del: length_greater_0_conv)
qed simp

declare pages_from.simps [simp del]

definition all_accounts :: "Store \<Rightarrow> Authority \<Rightarrow> AccountKind \<Rightarrow> Account list store_result" where
  "all_accounts s actor kind = pages_from s actor kind (AccountQuery_default\<lparr>aq_limit := 200\<rparr>) []"
end
