(* ===== verification/TD_Subids.thy ===== *)
theory TD_Subids
  imports TD_Store TD_Net "HOL-Library.Product_Lexorder"
begin

text \<open>
  The numeric identities of virtual accounts: the subordinate-id tables of the system
  (\<open>src/accounts/subids.rs\<close>) and the choice of a user id (\<open>allocate\<close> of \<open>virtuals.rs\<close>). A file is its text;
  reading, locking and publishing it is left to the operating system.
\<close>

section \<open>Subordinate ids (\<open>subids.rs\<close>)\<close>

record Range =
  rg_start :: nat
  rg_end :: nat
  rg_root :: bool

text \<open>\<open>str::lines\<close>: pieces between line feeds, a final empty one dropped, a carriage return at the end of a
  piece dropped.\<close>

definition drop_cr :: "string \<Rightarrow> string" where
  "drop_cr l = (if l \<noteq> [] \<and> last l = CHR 0x0D then butlast l else l)"

definition str_lines :: "string \<Rightarrow> string list" where
  "str_lines t =
     (let ps = split_on (CHR 0x0A) t in map drop_cr (if last ps = [] then butlast ps else ps))"

definition parse_u32 :: "string \<Rightarrow> nat option" where
  "parse_u32 t = Option.bind (parse_u64 t) (\<lambda>n. if n \<le> U32_MAX then Some n else None)"

definition parse_range :: "string \<Rightarrow> Range store_result" where
  "parse_range line =
     (case split_on (CHR '':'') line of
        [owner, first, amount] \<Rightarrow>
          if owner = [] \<or> length owner > 256 \<or> list_ex is_whitespace (str_chars owner) then Inl InvalidInput
          else and_then (ok_or (parse_u32 first) InvalidInput) (\<lambda>start.
            and_then (ok_or (parse_u32 amount) InvalidInput) (\<lambda>cnt.
            if cnt = 0 \<or> start + (cnt - 1) > U32_MAX then Inl InvalidInput
            else if start = 0 \<or> start + (cnt - 1) = U32_MAX then Inl InvalidInput
            else Inr \<lparr>rg_start = start, rg_end = start + (cnt - 1), rg_root = (owner = ''root'' \<or> owner = ''0'')\<rparr>))
      | _ \<Rightarrow> Inl InvalidInput)"

definition kept_line :: "string \<Rightarrow> bool" where
  "kept_line l \<longleftrightarrow> str_trim l \<noteq> [] \<and> take 1 (trim_spaces white_spaces l) \<noteq> ''#''"

fun parse_lines :: "string list \<Rightarrow> Range list \<Rightarrow> Range list store_result" where
  "parse_lines [] ranges = Inr ranges"
| "parse_lines (l # ls) ranges =
     (if length ranges \<ge> 16384 then Inl InvalidInput
      else and_then (parse_range l) (\<lambda>r. parse_lines ls (ranges @ [r])))"

definition parse_subids :: "string \<Rightarrow> Range list store_result" where
  "parse_subids t = parse_lines (filter kept_line (str_lines t)) []"

text \<open>The ids between \<open>mn\<close> and \<open>mx\<close> that no range covers, as segments.\<close>

fun gaps_from :: "nat \<Rightarrow> nat \<Rightarrow> (nat \<times> nat) list \<Rightarrow> (nat \<times> nat) list" where
  "gaps_from mx nxt [] = (if nxt \<le> mx then [(nxt, mx)] else [])"
| "gaps_from mx nxt ((start, end') # occupied) =
     (if start > nxt then [(nxt, start - 1)] else []) @ gaps_from mx (max nxt (end' + 1)) occupied"

definition missing_ranges :: "nat \<Rightarrow> nat \<Rightarrow> Range list \<Rightarrow> (nat \<times> nat) list" where
  "missing_ranges mn mx ranges =
     gaps_from mx mn (sort_key (\<lambda>p. p) (map (\<lambda>r. (max (rg_start r) mn, min (rg_end r) mx))
       (filter (\<lambda>r. rg_end r \<ge> mn \<and> rg_start r \<le> mx) ranges)))"

definition free_segments :: "nat \<Rightarrow> nat \<Rightarrow> (nat \<times> nat) list \<Rightarrow> (nat \<times> nat) list" where
  "free_segments mn mx blocked =
     missing_ranges mn mx (map (\<lambda>(start, end'). \<lparr>rg_start = start, rg_end = end', rg_root = False\<rparr>) blocked)"

text \<open>\<open>reserve\<close>: the new text of a table, in which the gaps belong to the root user, and its ranges.\<close>

definition gap_line :: "nat \<times> nat \<Rightarrow> string" where
  "gap_line g = ''0:'' @ show_nat (fst g) @ '':'' @ show_nat (snd g - fst g + 1) @ [CHR 0x0A]"

definition reserve_subids :: "string \<Rightarrow> nat \<Rightarrow> nat \<Rightarrow> (Range list \<times> string) store_result" where
  "reserve_subids content mn mx =
     and_then (parse_subids content) (\<lambda>ranges.
     let gaps = missing_ranges mn mx ranges in
     if gaps = [] then Inr (ranges, content)
     else
       let content = (if content \<noteq> [] \<and> last content \<noteq> CHR 0x0A then content @ [CHR 0x0A] else content)
                       @ concat (map gap_line gaps) in
       if length content > 1048576 then Inl InvalidInput
       else and_then (parse_subids content) (\<lambda>ranges. Inr (ranges, content)))"

text \<open>\<open>prepare\<close> on the two tables, for an effective root user with \<open>subid: files\<close> (\<open>switch_ok\<close>) and the lock held.\<close>

definition prepare_subids ::
  "bool \<Rightarrow> bool \<Rightarrow> bool \<Rightarrow> string \<Rightarrow> string \<Rightarrow> nat \<Rightarrow> nat \<Rightarrow> (nat \<times> nat) list store_result" where
  "prepare_subids is_root switch_ok locked subuid subgid mn mx =
     (if \<not> is_root \<or> mn = 0 \<or> mx < mn \<or> mx = U32_MAX then Inl Forbidden
      else if \<not> switch_ok then Inl Forbidden
      else if \<not> locked then Inl Conflict
      else and_then (reserve_subids subuid mn mx) (\<lambda>(us, _).
        and_then (reserve_subids subgid mn mx) (\<lambda>(gs, _).
        Inr (sort_key (\<lambda>p. p) (map (\<lambda>r. (rg_start r, rg_end r)) (filter (\<lambda>r. \<not> rg_root r) us)
                   @ map (\<lambda>r. (rg_start r, rg_end r)) (filter (\<lambda>r. \<not> rg_root r) gs))))))"

section \<open>Choosing a user id (\<open>virtuals.rs\<close>)\<close>

definition uid_retired_key :: "nat \<Rightarrow> string" where
  "uid_retired_key u = ''virtual_uid_retired:'' @ show_nat u"

text \<open>The intents a query over \<open>json_extract\<close> sees.\<close>

definition intents :: "Store \<Rightarrow> Intent list store_result" where
  "intents s =
     (let rows = filter (\<lambda>e. sql_like intent_pattern (fst e)) (security_state s) in
      if list_ex (\<lambda>e. case snd e of SText _ \<Rightarrow> True | _ \<Rightarrow> False) rows then Inl Database
      else Inr (concat (map (\<lambda>e. case snd e of SIntent n \<Rightarrow> [n] | _ \<Rightarrow> []) rows)))"

definition retired :: "Store \<Rightarrow> nat \<Rightarrow> bool store_result" where
  "retired s u =
     (if list_ex (\<lambda>r. row_uid r = u) (accounts s) \<or> map_of (security_state s) (uid_retired_key u) \<noteq> None
      then Inr True
      else and_then (intents s) (\<lambda>ns. Inr (list_ex (\<lambda>n. in_uid n = u) ns)))"

definition candidates :: "(nat \<times> nat) list \<Rightarrow> nat \<Rightarrow> nat list" where
  "candidates segments start =
     take 1024 (concat (map (\<lambda>(first, end'). [max first start..<Suc end']) (filter (\<lambda>(_, end'). end' \<ge> start) segments))
       @ concat (map (\<lambda>(first, end'). [first..<Suc (min end' (start - 1))])
           (filter (\<lambda>(first, _). first < start) segments)))"

fun first_free ::
  "(nat \<Rightarrow> bool store_result) \<Rightarrow> Store \<Rightarrow> (nat \<times> nat) list \<Rightarrow> nat list \<Rightarrow> nat store_result" where
  "first_free free_id s blocked [] = Inl QuotaExceeded"
| "first_free free_id s blocked (u # us) =
     and_then (retired s u) (\<lambda>used.
     if used \<or> list_ex (\<lambda>(start, end'). start \<le> u \<and> u \<le> end') blocked then first_free free_id s blocked us
     else and_then (free_id u) (\<lambda>free. if free then Inr u else first_free free_id s blocked us))"

definition allocate ::
  "(nat \<Rightarrow> bool store_result) \<Rightarrow> (nat \<times> nat) list store_result \<Rightarrow> AppConfig \<Rightarrow> Store \<Rightarrow> (nat \<times> Store) store_result" where
  "allocate free_id prepared cfg s =
     (let mn = wa_virtual_min_uid (cfg_web_accounts cfg); mx = wa_virtual_max_uid (cfg_web_accounts cfg) in
      and_then prepared (\<lambda>blocked.
      and_then (case map_of (security_state s) ''virtual_uid_cursor'' of
                  None \<Rightarrow> Inr mn
                | Some (SText t) \<Rightarrow> ok_or (parse_u32 t) InvalidInput
                | Some _ \<Rightarrow> Inl InvalidInput) (\<lambda>start.
      if start < mn \<or> start > mx then Inl InvalidInput
      else and_then (first_free free_id s blocked (candidates (free_segments mn mx blocked) start)) (\<lambda>u.
        Inr (u, state_upsert ''virtual_uid_cursor'' (SText (show_nat (if u = mx then mn else u + 1))) s)))))"

section \<open>Exactness\<close>

definition covers :: "(nat \<times> nat) list \<Rightarrow> nat \<Rightarrow> bool" where
  "covers segs x \<longleftrightarrow> (\<exists>(a, b) \<in> set segs. a \<le> x \<and> x \<le> b)"

lemma covers_simps [simp]:
  "\<not> covers [] x"
  "covers ((a, b) # segs) x \<longleftrightarrow> a \<le> x \<and> x \<le> b \<or> covers segs x"
  "covers (segs @ segs') x \<longleftrightarrow> covers segs x \<or> covers segs' x"
  by (auto simp: covers_def)

text \<open>Over segments sorted by their start, the gaps are the complement above \<open>nxt\<close>.\<close>

lemma gaps_from_exact:
  assumes "sorted_wrt (\<le>) (map fst occupied)" and "\<forall>p \<in> set occupied. fst p \<le> max mx nxt \<and> snd p \<le> mx"
  shows "covers (gaps_from mx nxt occupied) x \<longleftrightarrow> nxt \<le> x \<and> x \<le> mx \<and> \<not> covers occupied x"
  using assms
proof (induction mx nxt occupied rule: gaps_from.induct)
  case (1 mx nxt)
  then show ?case by auto
next
  case (2 mx nxt start end' occupied)
  have bound: "\<forall>p \<in> set occupied. fst p \<le> max mx (max nxt (end' + 1)) \<and> snd p \<le> mx"
    using 2(3) by (simp add: le_max_iff_disj) blast
  then have IH: "covers (gaps_from mx (max nxt (end' + 1)) occupied) x
      \<longleftrightarrow> max nxt (end' + 1) \<le> x \<and> x \<le> mx \<and> \<not> covers occupied x"
    using 2(1,2) by simp
  have later: "start \<le> x" if "covers occupied x"
    using that 2 by (fastforce simp: covers_def)
  have here: "end' \<le> mx" "start \<le> max mx nxt" using 2 by simp_all
  show ?case
  proof (cases "x < start")
    case True
    with later have "\<not> covers occupied x" by auto
    with True here IH show ?thesis by (cases "start > nxt") (auto simp: max_def split: if_split_asm)
  next
    case False
    with here IH show ?thesis by (cases "start > nxt") (auto simp: max_def)
  qed
qed

lemma sorted_fst: "sorted_wrt (\<le>) (xs :: (nat \<times> nat) list) \<Longrightarrow> sorted_wrt (\<le>) (map fst xs)"
  by (induction xs) (fastforce simp: less_eq_prod_def)+

theorem missing_exact:
  "covers (missing_ranges mn mx ranges) x
     \<longleftrightarrow> mn \<le> x \<and> x \<le> mx \<and> \<not> (\<exists>r \<in> set ranges. rg_start r \<le> x \<and> x \<le> rg_end r)"
proof -
  let ?occ = "sort_key (\<lambda>p. p) (map (\<lambda>r. (max (rg_start r) mn, min (rg_end r) mx))
       (filter (\<lambda>r. rg_end r \<ge> mn \<and> rg_start r \<le> mx) ranges))"
  have "covers (gaps_from mx mn ?occ) x \<longleftrightarrow> mn \<le> x \<and> x \<le> mx \<and> \<not> covers ?occ x"
    by (rule gaps_from_exact) (auto simp: sorted_fst max_def)
  moreover have "covers ?occ x \<longleftrightarrow> (\<exists>r \<in> set ranges. rg_start r \<le> x \<and> x \<le> rg_end r)" if "mn \<le> x" "x \<le> mx"
    using that by (auto simp: covers_def)
  ultimately show ?thesis unfolding missing_ranges_def by blast
qed

lemma free_segments_exact:
  "covers (free_segments mn mx blocked) x \<longleftrightarrow> mn \<le> x \<and> x \<le> mx \<and> \<not> covers blocked x"
  unfolding free_segments_def missing_exact by (force simp: covers_def)

lemma candidates_covered:
  assumes "u \<in> set (candidates segs start)"
  shows "covers segs u"
proof -
  from assms have "\<exists>a b. (a, b) \<in> set segs \<and> a \<le> u \<and> u \<le> b"
    unfolding candidates_def by (auto dest!: in_set_takeD simp: less_Suc_eq_le simp del: upt_Suc) blast+
  then show ?thesis unfolding covers_def by auto
qed

lemma first_free_sound:
  "first_free free_id s blocked us = Inr u \<Longrightarrow>
     u \<in> set us \<and> retired s u = Inr False \<and> \<not> covers blocked u \<and> free_id u = Inr True"
  by (induction us) (fastforce simp: and_then_Inr covers_def list_ex_iff split: if_split_asm)+

theorem allocate_sound:
  assumes "allocate free_id prepared cfg s = Inr (u, s')"
  obtains blocked where "prepared = Inr blocked" "\<not> covers blocked u" "free_id u = Inr True" "retired s u = Inr False"
    "wa_virtual_min_uid (cfg_web_accounts cfg) \<le> u" "u \<le> wa_virtual_max_uid (cfg_web_accounts cfg)"
    "s' = state_upsert ''virtual_uid_cursor''
       (SText (show_nat (if u = wa_virtual_max_uid (cfg_web_accounts cfg)
          then wa_virtual_min_uid (cfg_web_accounts cfg) else u + 1))) s"
proof -
  from assms obtain blocked start where prepared: "prepared = Inr blocked"
    and first: "first_free free_id s blocked (candidates (free_segments (wa_virtual_min_uid (cfg_web_accounts cfg))
           (wa_virtual_max_uid (cfg_web_accounts cfg)) blocked) start) = Inr u"
    and s': "s' = state_upsert ''virtual_uid_cursor''
       (SText (show_nat (if u = wa_virtual_max_uid (cfg_web_accounts cfg)
          then wa_virtual_min_uid (cfg_web_accounts cfg) else u + 1))) s"
    by (auto simp: allocate_def Let_def and_then_Inr split: if_split_asm)
  from first_free_sound [OF first] have "covers (free_segments (wa_virtual_min_uid (cfg_web_accounts cfg))
           (wa_virtual_max_uid (cfg_web_accounts cfg)) blocked) u"
    using candidates_covered by blast
  with first_free_sound [OF first] that [OF prepared _ _ _ _ _ s'] show ?thesis
    by (auto simp: free_segments_exact)
qed
end
