(* ===== verification/TD_Virtuals.thy ===== *)
theory TD_Virtuals
  imports TD_Grants TD_Subids
begin

text \<open>
  Provisioning and quotas of virtual accounts (\<open>src/accounts/virtuals.rs\<close>). A creation is first recorded as an
  intent that reserves its quota, then the operating system gets the identity, then the account is created
  and the intent is closed. What the operating system answers is the parameter \<open>Os\<close>; an operation gives the
  store it leaves, also when it fails, since the intent and the cursor of user ids are committed on the way.
\<close>

section \<open>Configuration and names\<close>

definition is_reserved_service_username :: "string \<Rightarrow> bool" where
  "is_reserved_service_username username =
     list_ex (eq_ignore_ascii_case username)
       [''root'', ''caddy'', ''www-data'', ''wwwdata'', ''nginx'', ''apache'', ''apache2'', ''httpd'', ''tealdrive'',
        ''postgres'', ''postgresql'', ''mysql'', ''mariadb'', ''redis'', ''memcached'', ''nobody'', ''_www'', ''_caddy'']"

definition create_key :: "(string \<Rightarrow> string option) \<Rightarrow> string \<Rightarrow> string \<Rightarrow> string store_result" where
  "create_key uuid own request =
     and_then (ok_or (uuid request) InvalidInput) (\<lambda>r. Inr (''virtual_create_v1:'' @ own @ '':'' @ r))"

definition virtual_home :: "nat \<Rightarrow> string" where
  "virtual_home u = ''/home/tealdrive/virtual-homes/tdv_'' @ show_nat u"

definition minimum_quota :: "AppConfig \<Rightarrow> nat" where
  "minimum_quota cfg =
     (if jc_enabled (cfg_journal cfg)
      then max 65536 ((jc_max_record_bytes (cfg_journal cfg) + 4095) div 4096 * 8192 + 8192)
      else if vc_enforcement (cfg_virtual_accounts cfg) = UserQuota then 4096 else 1)"

definition is_lower :: "char \<Rightarrow> bool" where
  "is_lower c \<longleftrightarrow> (let n = (of_char c :: nat) in 97 \<le> n \<and> n \<le> 122)"

definition validate_input_scope :: "AppConfig \<Rightarrow> string \<Rightarrow> nat \<Rightarrow> bool \<Rightarrow> unit store_result" where
  "validate_input_scope cfg name quota root_admin =
     (if \<not> vc_enabled (cfg_virtual_accounts cfg) \<or> cfg_home_template cfg = None then Inl Forbidden
      else if name = [] \<or> length name > 64 \<or> \<not> is_lower (hd name)
        \<or> \<not> list_all (\<lambda>c. is_lower c \<or> is_digit 10 c \<or> c \<in> set ''_.-'') name
        \<or> quota < minimum_quota cfg \<or> quota > I64_MAX
        \<or> is_reserved_service_username name \<and> \<not> (root_admin \<and> name = ''tealdrive'')
      then Inl InvalidInput
      else if vc_enforcement (cfg_virtual_accounts cfg) = UserQuota \<and> (quota < 4096 \<or> quota mod 1024 \<noteq> 0)
      then Inl InvalidInput
      else Inr ())"

definition validate_input :: "AppConfig \<Rightarrow> string \<Rightarrow> nat \<Rightarrow> unit store_result" where
  "validate_input cfg name quota = validate_input_scope cfg name quota False"

section \<open>Status of pool and budgets\<close>

definition pool_limit :: "Store \<Rightarrow> nat" where
  "pool_limit s = quota_pool s"

record PoolStatus =
  ps_limit :: nat
  ps_delegated :: nat
  ps_unassigned :: nat
  ps_children :: nat

definition pool_status :: "Store \<Rightarrow> PoolStatus store_result" where
  "pool_status s =
     and_then (delegated s) (\<lambda>d.
     and_then (sql_sum (map (\<lambda>r. the_or0 (row_quota_bytes r))
                 (filter (\<lambda>r. row_kind r = Virtual \<and> row_role r = User) (accounts s)))) (\<lambda>children.
     Inr \<lparr>ps_limit = pool_limit s, ps_delegated = d, ps_unassigned = pool_limit s - d, ps_children = children\<rparr>))"

record BudgetView =
  bv_limit :: nat
  bv_reserved :: nat
  bv_remaining :: nat
  bv_own :: "nat option"

definition budget :: "Store \<Rightarrow> string \<Rightarrow> BudgetView store_result" where
  "budget s i =
     and_then (account s i) (\<lambda>target.
     if acc_role target \<noteq> Admin then Inl Forbidden
     else and_then (allocated_to s i) (\<lambda>quotas.
       and_then (pending_reserved s i []) (\<lambda>pending.
       and_then (ok_or (add64 quotas pending) QuotaExceeded) (\<lambda>reserved.
       and_then (fixed_own s i) (\<lambda>own.
       and_then (ok_or (add64 reserved (the_or0 own)) QuotaExceeded) (\<lambda>needed.
       if needed > budget_of s i then Inl QuotaExceeded
       else Inr \<lparr>bv_limit = budget_of s i, bv_reserved = reserved,
                  bv_remaining = budget_of s i - reserved - the_or0 own, bv_own = own\<rparr>))))))"

definition purged_key :: "string \<Rightarrow> string" where
  "purged_key i = ''virtual_purged_v1:'' @ i"

text \<open>The fields \<open>version\<close> and \<open>uid\<close> of a JSON value; \<open>None\<close> for text that is no JSON.\<close>

fun version_and_uid :: "StateValue \<Rightarrow> (nat option \<times> nat option) option" where
  "version_and_uid (SText t) = None"
| "version_and_uid (SIntent n) = Some (Some (in_version n), Some (in_uid n))"
| "version_and_uid (SRules v u) = Some (Some v, None)"
| "version_and_uid (SSync i) = Some (Some 1, None)"
| "version_and_uid (SPurgeIntent i u home) = Some (Some 1, Some u)"
| "version_and_uid (SPurged v u) = Some (Some v, Some u)"

definition is_purged :: "Store \<Rightarrow> string \<Rightarrow> bool store_result" where
  "is_purged s i =
     (case map_of (security_state s) (purged_key i) of
        None \<Rightarrow> Inr False
      | Some value \<Rightarrow>
          and_then (ok_or (version_and_uid value) InvalidInput) (\<lambda>(version, u).
          and_then (account s i) (\<lambda>a.
          if version \<noteq> Some 1 \<or> u \<noteq> Some (acc_uid a) \<or> acc_status a \<noteq> Deleted \<or> acc_quota_bytes a \<noteq> Some 0
            \<or> acc_password_enrolled a
          then Inl InvalidInput else Inr True)))"

section \<open>Quota of a child\<close>

text \<open>What is left to the administrator itself when a child's quota goes from \<open>old\<close> to \<open>b\<close>.\<close>

definition left_to_owner :: "nat \<Rightarrow> nat \<Rightarrow> nat option \<Rightarrow> nat \<Rightarrow> nat \<Rightarrow> nat" where
  "left_to_owner limit allocated own old b =
     (case own of None \<Rightarrow> nat (int limit - int allocated + int old - int b) | Some v \<Rightarrow> v)"

definition set_child_quota_with ::
  "(nat \<Rightarrow> unit store_result) \<Rightarrow> nat \<Rightarrow> Store \<Rightarrow> Authority \<Rightarrow> string \<Rightarrow> nat \<Rightarrow> nat \<Rightarrow> (Account \<times> Store) store_result" where
  "set_child_quota_with before now s actor i generation nbytes =
     (if nbytes = 0 then Inl InvalidInput
      else and_then (account s i) (\<lambda>target.
        and_then (manage s actor target) (\<lambda>_.
        if acc_kind target \<noteq> Virtual \<or> acc_role target \<noteq> User \<or> acc_status target = Deleted
          \<or> acc_generation target \<noteq> generation
        then Inl Conflict
        else and_then (ok_or (acc_owner_admin_id target) Forbidden) (\<lambda>own_id.
          let limit = budget_of s own_id; old = the_or0 (acc_quota_bytes target) in
          and_then (allocated_to s own_id) (\<lambda>quotas.
          and_then (pending_reserved s own_id []) (\<lambda>pending.
          and_then (ok_or (add64 quotas pending) QuotaExceeded) (\<lambda>allocated.
          and_then (fixed_own s own_id) (\<lambda>own.
          and_then (number nbytes) (\<lambda>b.
          and_then (number old) (\<lambda>_.
          if int b > sub64 (sub64 (int limit) (sub64 (int allocated) (int old))) (int (the_or0 own))
          then Inl QuotaExceeded
          else and_then (before (left_to_owner limit allocated own old b)) (\<lambda>_.
            let s1 = state_upsert (quota_sync_key i) (SSync i) s in
            and_then (number now) (\<lambda>t.
            and_then (update_bumping (\<lambda>r. row_id r = i) (\<lambda>r. r\<lparr>row_quota_bytes := Some b, row_updated_at := t\<rparr>) s1) (\<lambda>s2.
            and_then (account s2 i) (\<lambda>result. Inr (result, s2)))))))))))))))"

section \<open>Intents\<close>

definition new_intent :: "string \<Rightarrow> string \<Rightarrow> nat \<Rightarrow> nat \<Rightarrow> Intent" where
  "new_intent own name quota u =
     \<lparr>in_version = 1, in_owner = own, in_name = name, in_quota = quota, in_uid = u, in_account_id = None\<rparr>"

text \<open>The transaction in which \<open>provision\<close> records its intent.\<close>

definition reserve_intent :: "Store \<Rightarrow> Account \<Rightarrow> string \<Rightarrow> Intent \<Rightarrow> Store store_result" where
  "reserve_intent s actor request_key intent =
     and_then (store_authorized s (Account_authority (acc_id actor) (acc_generation actor))) (\<lambda>caller.
     and_then (ok_or caller Forbidden) (\<lambda>current.
     if acc_role current \<noteq> Admin then Inl Forbidden
     else and_then (allocated_to s (acc_id actor)) (\<lambda>allocated.
       and_then (number (in_quota intent)) (\<lambda>q.
       and_then (pending_reserved s (acc_id actor) []) (\<lambda>pending.
       and_then (fixed_own s (acc_id actor)) (\<lambda>own.
       if int q > sub64 (sub64 (sub64 (int (budget_of s (acc_id actor))) (int allocated)) (int pending)) (int (the_or0 own))
       then Inl QuotaExceeded
       else state_insert request_key (SIntent intent) s))))))"

text \<open>The transaction in which \<open>create_admin\<close> records its intent.\<close>

definition reserve_admin_intent :: "Store \<Rightarrow> string \<Rightarrow> Intent \<Rightarrow> Store store_result" where
  "reserve_admin_intent s request_key intent =
     and_then (delegated s) (\<lambda>allocated.
     and_then (number (in_quota intent)) (\<lambda>b.
     and_then (pending_reserved s ''__root__'' []) (\<lambda>pending.
     if int b > sub64 (sub64 (int (quota_pool s)) (int allocated)) (int pending) then Inl QuotaExceeded
     else state_insert request_key (SIntent intent) s)))"

text \<open>Whether an open intent holds the name, and how many accounts there are, open intents included.\<close>

definition pending_name :: "Store \<Rightarrow> string \<Rightarrow> bool store_result" where
  "pending_name s name =
     and_then (intents s) (\<lambda>ns. Inr (list_ex (\<lambda>n. in_name n = name \<and> in_account_id n = None) ns))"

definition virtual_count :: "Store \<Rightarrow> nat store_result" where
  "virtual_count s =
     and_then (intents s) (\<lambda>ns.
     Inr (length (filter (\<lambda>r. row_kind r = Virtual \<and> row_status r \<noteq> Deleted) (accounts s))
          + length (filter (\<lambda>n. in_account_id n = None) ns)))"

section \<open>The operating system\<close>

record Os =
  os_lock :: "unit store_result"
  os_name_exists :: "string \<Rightarrow> bool store_result"
  os_free_id :: "nat \<Rightarrow> bool store_result"
  os_blocked :: "(nat \<times> nat) list store_result"
  os_home_trusted :: "Account \<Rightarrow> unit store_result"
  os_held_bytes :: "Account \<Rightarrow> nat option"
  os_native_bytes :: "Account \<Rightarrow> nat option"
  os_ledger_bytes :: "Account \<Rightarrow> nat store_result"
  os_native_set :: "nat \<Rightarrow> nat \<Rightarrow> nat \<Rightarrow> bool"
  os_identity :: "nat \<Rightarrow> nat \<Rightarrow> string store_result"
  os_home_exists :: "string \<Rightarrow> bool store_result"

text \<open>\<open>root\<close>: the allowed root of a virtual account, here only whether it is given.\<close>

definition virtual_root :: "Os \<Rightarrow> AppConfig \<Rightarrow> Account \<Rightarrow> AllowedRoot store_result" where
  "virtual_root os cfg target =
     (if acc_kind target \<noteq> Virtual \<or> \<not> path_eq (acc_home target) (virtual_home (acc_uid target))
        \<or> acc_uid target < wa_virtual_min_uid (cfg_web_accounts cfg)
        \<or> acc_uid target > wa_virtual_max_uid (cfg_web_accounts cfg)
      then Inl Forbidden
      else and_then (os_home_trusted os target) (\<lambda>_.
        and_then (ok_or (cfg_home_template cfg) Forbidden) (\<lambda>root.
        Inr (root\<lparr>root_base_path := acc_home target,
                  root_quota_bytes := map_option (\<lambda>q. case root_quota_bytes root of None \<Rightarrow> q | Some c \<Rightarrow> min q c)
                                        (acc_quota_bytes target)\<rparr>))))"

definition native_set :: "Os \<Rightarrow> AppConfig \<Rightarrow> nat \<Rightarrow> nat \<Rightarrow> unit store_result" where
  "native_set os cfg u nbytes =
     (if vc_enforcement (cfg_virtual_accounts cfg) = UserQuota
      then (if os_native_set os u (case Option.bind (cfg_home_template cfg) root_quota_bytes of
                                     None \<Rightarrow> nbytes | Some limit \<Rightarrow> min nbytes limit)
                 (vc_max_inodes (cfg_virtual_accounts cfg))
            then Inr () else Inl Forbidden)
      else Inr ())"

text \<open>What an account uses, measured while its root is reserved.\<close>

definition measured :: "Os \<Rightarrow> AppConfig \<Rightarrow> Account \<Rightarrow> nat store_result" where
  "measured os cfg a =
     and_then (ok_or (os_held_bytes os a) Forbidden) (\<lambda>held.
     if vc_enforcement (cfg_virtual_accounts cfg) = UserQuota then ok_or (os_native_bytes os a) Forbidden
     else and_then (os_ledger_bytes os a) (\<lambda>l. ok_or (checked_add held l) InvalidInput))"

definition own_reservation :: "Os \<Rightarrow> AppConfig \<Rightarrow> Store \<Rightarrow> Account \<Rightarrow> nat option store_result" where
  "own_reservation os cfg s parent =
     (if acc_kind parent \<noteq> Virtual then Inr None
      else and_then (virtual_root os cfg parent) (\<lambda>_.
        and_then (effective_quota s (acc_id parent)) (\<lambda>_.
        and_then (measured os cfg parent) (\<lambda>used. Inr (Some used)))))"

section \<open>Provisioning\<close>

text \<open>A saved intent must be the same request; a closed one gives its account.\<close>

definition saved_intent :: "(StateValue \<Rightarrow> nat) \<Rightarrow> Store \<Rightarrow> string \<Rightarrow> string \<Rightarrow> string \<Rightarrow> nat \<Rightarrow> Intent option store_result" where
  "saved_intent json_len s request_key own name quota =
     (case map_of (security_state s) request_key of
        None \<Rightarrow> Inr None
      | Some v \<Rightarrow>
          if json_len v > 8192 then Inl InvalidInput
          else (case v of
                  SIntent n \<Rightarrow>
                    if in_version n \<noteq> 1 \<or> in_owner n \<noteq> own \<or> in_name n \<noteq> name \<or> in_quota n \<noteq> quota then Inl Conflict
                    else Inr (Some n)
                | _ \<Rightarrow> Inl InvalidInput))"

definition name_free :: "Os \<Rightarrow> AppConfig \<Rightarrow> Store \<Rightarrow> bool \<Rightarrow> string \<Rightarrow> unit store_result" where
  "name_free os cfg s check_os name =
     (if find_username s name \<noteq> None then Inl Conflict
      else and_then (if check_os then os_name_exists os name else Inr False) (\<lambda>taken.
        if taken then Inl Conflict
        else and_then (pending_name s name) (\<lambda>held.
          if held then Inl Conflict
          else and_then (virtual_count s) (\<lambda>n.
            if n \<ge> vc_max_accounts (cfg_virtual_accounts cfg) then Inl QuotaExceeded else Inr ()))))"

text \<open>The parent's own limit after the reservation, lowered before the intent is recorded.\<close>

definition lower_parent :: "Os \<Rightarrow> AppConfig \<Rightarrow> Store \<Rightarrow> Account \<Rightarrow> nat option \<Rightarrow> nat \<Rightarrow> unit store_result" where
  "lower_parent os cfg s actor parent quota =
     and_then (effective_quota s (acc_id actor)) (\<lambda>eq.
     let old_limit = the_or0 eq in
     case parent of
       None \<Rightarrow> Inr ()
     | Some used \<Rightarrow>
         and_then (fixed_own s (acc_id actor)) (\<lambda>own.
         and_then (if own \<noteq> None then Inr old_limit
                   else if quota \<le> old_limit then Inr (old_limit - quota) else Inl QuotaExceeded) (\<lambda>next_limit.
         if next_limit < used then Inl QuotaExceeded else native_set os cfg (acc_uid actor) next_limit)))"

definition new_provision ::
  "Os \<Rightarrow> AppConfig \<Rightarrow> Store \<Rightarrow> Account \<Rightarrow> string \<Rightarrow> string \<Rightarrow> nat \<Rightarrow> nat option \<Rightarrow> Store \<times> Intent store_result" where
  "new_provision os cfg s actor request_key name quota parent =
     (case and_then (name_free os cfg s True name) (\<lambda>_.
           and_then (budget s (acc_id actor)) (\<lambda>b.
           if bv_remaining b < quota then Inl QuotaExceeded
           else allocate (os_free_id os) (os_blocked os) cfg s)) of
        Inl e \<Rightarrow> (s, Inl e)
      | Inr (u, s1) \<Rightarrow>
          (case and_then (lower_parent os cfg s1 actor parent quota) (\<lambda>_.
                reserve_intent s1 actor request_key (new_intent (acc_id actor) name quota u)) of
             Inl e \<Rightarrow> (s1, Inl e)
           | Inr s2 \<Rightarrow> (s2, Inr (new_intent (acc_id actor) name quota u))))"

definition resume_provision :: "Os \<Rightarrow> AppConfig \<Rightarrow> Store \<Rightarrow> Account \<Rightarrow> nat option \<Rightarrow> unit store_result" where
  "resume_provision os cfg s actor parent =
     (case parent of
        None \<Rightarrow> Inr ()
      | Some used \<Rightarrow>
          and_then (effective_quota s (acc_id actor)) (\<lambda>eq.
          if the_or0 eq < used then Inl QuotaExceeded else native_set os cfg (acc_uid actor) (the_or0 eq)))"

definition finish_provision ::
  "Os \<Rightarrow> Argon \<Rightarrow> string \<Rightarrow> nat \<Rightarrow> Authority \<Rightarrow> string \<Rightarrow> string \<Rightarrow> Role \<Rightarrow> string option \<Rightarrow> nat option \<Rightarrow> string
     \<Rightarrow> Store \<Rightarrow> Intent \<Rightarrow> Store \<times> Account store_result" where
  "finish_provision os ar fresh now authority request_key name role own quota password s intent =
     (case and_then (os_identity os (in_uid intent) (in_quota intent)) (\<lambda>home.
           create_enrolled ar fresh now s authority
             \<lparr>na_username = name, na_uid = in_uid intent, na_gid = in_uid intent, na_home = home,
              na_kind = Virtual, na_role = role, na_owner_admin_id = own, na_quota_bytes = quota\<rparr>
             password (Some (request_key, intent))) of
        Inl e \<Rightarrow> (s, Inl e)
      | Inr (a, s') \<Rightarrow> (s', Inr a))"

definition provision ::
  "(string \<Rightarrow> string option) \<Rightarrow> (StateValue \<Rightarrow> nat) \<Rightarrow> Os \<Rightarrow> Argon \<Rightarrow> string \<Rightarrow> nat \<Rightarrow> AppConfig \<Rightarrow> Store \<Rightarrow> Account
     \<Rightarrow> string \<Rightarrow> nat \<Rightarrow> string \<Rightarrow> string \<Rightarrow> Store \<times> Account store_result" where
  "provision uuid json_len os ar fresh now cfg s actor name quota password request =
     (let finish = finish_provision os ar fresh now (Account_authority (acc_id actor) (acc_generation actor)) in
      case and_then (validate_input cfg name quota) (\<lambda>_.
           if acc_role actor \<noteq> Admin then Inl Forbidden
           else and_then (hash_password ar password) (\<lambda>_.
             and_then (os_lock os) (\<lambda>_.
             and_then (create_key uuid (acc_id actor) request) (\<lambda>request_key.
             and_then (saved_intent json_len s request_key (acc_id actor) name quota) (\<lambda>existing.
             Inr (request_key, existing)))))) of
        Inl e \<Rightarrow> (s, Inl e)
      | Inr (request_key, existing) \<Rightarrow>
          (case Option.bind existing in_account_id of
             Some i \<Rightarrow>
               (s, and_then (account s i) (\<lambda>target.
                   if acc_owner_admin_id target \<noteq> Some (acc_id actor) \<or> acc_kind target \<noteq> Virtual then Inl Forbidden
                   else Inr target))
           | None \<Rightarrow>
               (case own_reservation os cfg s actor of
                  Inl e \<Rightarrow> (s, Inl e)
                | Inr parent \<Rightarrow>
                    (case (case existing of
                             Some n \<Rightarrow> (s, and_then (resume_provision os cfg s actor parent) (\<lambda>_. Inr n))
                           | None \<Rightarrow> new_provision os cfg s actor request_key name quota parent) of
                       (s1, Inl e) \<Rightarrow> (s1, Inl e)
                     | (s1, Inr intent) \<Rightarrow>
                         finish request_key name User (Some (acc_id actor)) (Some quota) password s1 intent))))"

text \<open>A virtual administrator, created by root alone with a budget from the pool.\<close>

definition new_admin_intent ::
  "Os \<Rightarrow> AppConfig \<Rightarrow> Store \<Rightarrow> string \<Rightarrow> string \<Rightarrow> nat \<Rightarrow> Store \<times> Intent store_result" where
  "new_admin_intent os cfg s request_key name nbudget =
     (case and_then (name_free os cfg s (name \<noteq> ''tealdrive'') name) (\<lambda>_.
           allocate (os_free_id os) (os_blocked os) cfg s) of
        Inl e \<Rightarrow> (s, Inl e)
      | Inr (u, s1) \<Rightarrow>
          (case reserve_admin_intent s1 request_key (new_intent ''__root__'' name nbudget u) of
             Inl e \<Rightarrow> (s1, Inl e)
           | Inr s2 \<Rightarrow> (s2, Inr (new_intent ''__root__'' name nbudget u))))"

definition create_admin ::
  "(string \<Rightarrow> string option) \<Rightarrow> (StateValue \<Rightarrow> nat) \<Rightarrow> Os \<Rightarrow> Argon \<Rightarrow> string \<Rightarrow> nat \<Rightarrow> AppConfig \<Rightarrow> Store
     \<Rightarrow> string \<Rightarrow> nat \<Rightarrow> string \<Rightarrow> string \<Rightarrow> Store \<times> Account store_result" where
  "create_admin uuid json_len os ar fresh now cfg s name nbudget password request =
     (case and_then (validate_input_scope cfg name nbudget True) (\<lambda>_.
           if \<not> wa_enabled (cfg_web_accounts cfg) \<or> cfg_home_template cfg = None then Inl Forbidden
           else and_then (hash_password ar password) (\<lambda>_.
             and_then (os_lock os) (\<lambda>_.
             and_then (create_key uuid ''__root__'' request) (\<lambda>request_key.
             and_then (saved_intent json_len s request_key ''__root__'' name nbudget) (\<lambda>existing.
             Inr (request_key, existing)))))) of
        Inl e \<Rightarrow> (s, Inl e)
      | Inr (request_key, existing) \<Rightarrow>
          (case Option.bind existing in_account_id of
             Some i \<Rightarrow>
               (s, and_then (account s i) (\<lambda>target.
                   if acc_kind target \<noteq> Virtual \<or> acc_role target \<noteq> Admin \<or> acc_owner_admin_id target \<noteq> None
                   then Inl Forbidden else Inr target))
           | None \<Rightarrow>
               (case (case existing of Some n \<Rightarrow> (s, Inr n) | None \<Rightarrow> new_admin_intent os cfg s request_key name nbudget) of
                  (s1, Inl e) \<Rightarrow> (s1, Inl e)
                | (s1, Inr intent) \<Rightarrow>
                    finish_provision os ar fresh now Root request_key name Admin None None password s1 intent)))"

section \<open>Changing limits\<close>

text \<open>\<open>set_quota\<close> up to the transaction: the owner, what it uses, and what it has left now.\<close>

definition set_quota_checks ::
  "Os \<Rightarrow> AppConfig \<Rightarrow> Store \<Rightarrow> Account \<Rightarrow> nat \<Rightarrow> (Account \<times> nat option) store_result" where
  "set_quota_checks os cfg s target nbytes =
     and_then (validate_input cfg (acc_username target) nbytes) (\<lambda>_.
     if acc_kind target \<noteq> Virtual \<or> acc_role target \<noteq> User then Inl Forbidden
     else and_then (os_lock os) (\<lambda>_.
       and_then (ok_or (acc_owner_admin_id target) Forbidden) (\<lambda>own_id.
       and_then (account s own_id) (\<lambda>own_account.
       and_then (own_reservation os cfg s own_account) (\<lambda>parent.
       and_then (virtual_root os cfg target) (\<lambda>_.
       and_then (measured os cfg target) (\<lambda>used.
       if nbytes < used then Inl QuotaExceeded
       else and_then (effective_quota s (acc_id own_account)) (\<lambda>eq.
         and_then (fixed_own s (acc_id own_account)) (\<lambda>own.
         and_then (if own \<noteq> None then Inr (the_or0 eq)
                   else and_then (ok_or (checked_add (the_or0 eq) (the_or0 (acc_quota_bytes target))) QuotaExceeded) (\<lambda>v.
                     if nbytes \<le> v then Inr (v - nbytes) else Inl QuotaExceeded)) (\<lambda>new_parent.
         if (case parent of None \<Rightarrow> False | Some pused \<Rightarrow> new_parent < pused) then Inl QuotaExceeded
         else Inr (own_account, parent)))))))))))"

text \<open>The callback of the transaction: a lowered limit is set in the operating system before the commit.\<close>

definition quota_callback ::
  "Os \<Rightarrow> AppConfig \<Rightarrow> Account \<Rightarrow> Account \<Rightarrow> nat option \<Rightarrow> nat \<Rightarrow> nat \<Rightarrow> unit store_result" where
  "quota_callback os cfg target own_account parent nbytes remaining =
     (let old = the_or0 (acc_quota_bytes target) in
      and_then (case parent of
                  None \<Rightarrow> Inr ()
                | Some pused \<Rightarrow>
                    if remaining < pused then Inl QuotaExceeded
                    else if nbytes > old then native_set os cfg (acc_uid own_account) remaining else Inr ()) (\<lambda>_.
      if nbytes < old then native_set os cfg (acc_uid target) nbytes else Inr ()))"

text \<open>The values the callbacks of the two transactions are given.\<close>

definition remaining_after :: "Store \<Rightarrow> string \<Rightarrow> nat \<Rightarrow> nat store_result" where
  "remaining_after s i nbytes =
     and_then (account s i) (\<lambda>target.
     and_then (ok_or (acc_owner_admin_id target) Forbidden) (\<lambda>own_id.
     and_then (allocated_to s own_id) (\<lambda>quotas.
     and_then (pending_reserved s own_id []) (\<lambda>pending.
     and_then (fixed_own s own_id) (\<lambda>own.
     Inr (left_to_owner (budget_of s own_id) (quotas + pending) own (the_or0 (acc_quota_bytes target)) nbytes))))))"

definition remaining_of_budget :: "Store \<Rightarrow> string \<Rightarrow> nat \<Rightarrow> nat store_result" where
  "remaining_of_budget s i nbytes =
     and_then (allocated_to s i) (\<lambda>quotas.
     and_then (pending_reserved s i []) (\<lambda>pending.
     and_then (fixed_own s i) (\<lambda>own.
     Inr (case own of None \<Rightarrow> nbytes - (quotas + pending) | Some v \<Rightarrow> v))))"

text \<open>The limits are set again after the commit.\<close>

definition set_quota ::
  "Os \<Rightarrow> nat \<Rightarrow> AppConfig \<Rightarrow> Store \<Rightarrow> Authority \<Rightarrow> Account \<Rightarrow> nat \<Rightarrow> nat \<Rightarrow> Store \<times> Account store_result" where
  "set_quota os now cfg s authority target generation nbytes =
     (case set_quota_checks os cfg s target nbytes of
        Inl e \<Rightarrow> (s, Inl e)
      | Inr (own_account, parent) \<Rightarrow>
          (case set_child_quota_with (quota_callback os cfg target own_account parent nbytes)
                  now s authority (acc_id target) generation nbytes of
             Inl e \<Rightarrow> (s, Inl e)
           | Inr (updated, s1) \<Rightarrow>
               (case and_then (native_set os cfg (acc_uid target) nbytes) (\<lambda>_.
                     if parent = None then Inr ()
                     else and_then (remaining_after s (acc_id target) nbytes) (native_set os cfg (acc_uid own_account))) of
                  Inl e \<Rightarrow> (s1, Inl e)
                | Inr _ \<Rightarrow> (state_delete (quota_sync_key (acc_id target)) s1, Inr updated))))"

definition set_budget ::
  "Os \<Rightarrow> AppConfig \<Rightarrow> Store \<Rightarrow> string \<Rightarrow> nat \<Rightarrow> Store \<times> unit store_result" where
  "set_budget os cfg s i nbytes =
     (case and_then (os_lock os) (\<lambda>_.
           and_then (account s i) (\<lambda>target.
           if vc_enforcement (cfg_virtual_accounts cfg) = UserQuota \<and> nbytes mod 1024 \<noteq> 0 then Inl InvalidInput
           else and_then (own_reservation os cfg s target) (\<lambda>held.
             and_then (effective_quota s i) (\<lambda>eq.
             and_then (set_admin_budget_with (\<lambda>remaining.
                 case held of
                   None \<Rightarrow> Inr ()
                 | Some used \<Rightarrow>
                     if remaining < used then Inl QuotaExceeded
                     else if remaining < the_or0 eq then native_set os cfg (acc_uid target) remaining else Inr ())
               s Root i nbytes) (\<lambda>s1. Inr (target, held, s1)))))) of
        Inl e \<Rightarrow> (s, Inl e)
      | Inr (target, held, s1) \<Rightarrow>
          (s1, if held = None then Inr ()
               else and_then (remaining_of_budget s i nbytes) (native_set os cfg (acc_uid target))))"

definition set_own_quota ::
  "Os \<Rightarrow> nat \<Rightarrow> AppConfig \<Rightarrow> Store \<Rightarrow> string \<Rightarrow> nat \<Rightarrow> Store \<times> unit store_result" where
  "set_own_quota os now cfg s i nbytes =
     (case and_then (os_lock os) (\<lambda>_.
           if vc_enforcement (cfg_virtual_accounts cfg) = UserQuota \<and> nbytes mod 1024 \<noteq> 0 then Inl InvalidInput
           else and_then (account s i) (\<lambda>target.
             if acc_kind target \<noteq> Virtual \<or> acc_role target \<noteq> Admin then Inl Forbidden
             else and_then (own_reservation os cfg s target) (\<lambda>held.
               and_then (effective_quota s i) (\<lambda>eq.
               and_then (ok_or eq InvalidInput) (\<lambda>old.
               and_then (set_admin_own_with (\<lambda>limit.
                   case held of
                     None \<Rightarrow> Inr ()
                   | Some used \<Rightarrow>
                       if limit < used then Inl QuotaExceeded
                       else if limit < old then native_set os cfg (acc_uid target) limit else Inr ())
                 now s Root i nbytes) (\<lambda>s1. Inr (target, held, s1))))))) of
        Inl e \<Rightarrow> (s, Inl e)
      | Inr (target, held, s1) \<Rightarrow>
          (case (if held = None then Inr () else native_set os cfg (acc_uid target) nbytes) of
             Inl e \<Rightarrow> (s1, Inl e)
           | Inr _ \<Rightarrow> (state_delete (quota_sync_key i) s1, Inr ())))"

text \<open>An open intent is cancelled while nothing of it exists in the system; its user id is retired.\<close>

definition retire_uid :: "nat \<Rightarrow> nat \<Rightarrow> Store \<Rightarrow> Store" where
  "retire_uid u now s =
     (if map_of (security_state s) (uid_retired_key u) \<noteq> None then s
      else state_upsert (uid_retired_key u) (SText (show_nat now)) s)"

definition cancel_pending ::
  "Os \<Rightarrow> nat \<Rightarrow> AppConfig \<Rightarrow> Store \<Rightarrow> string \<Rightarrow> Store \<times> unit store_result" where
  "cancel_pending os now cfg s request_key =
     (case and_then (os_lock os) (\<lambda>_.
           if \<not> prefix ''virtual_create_v1:'' request_key then Inl InvalidInput
           else (case map_of (security_state s) request_key of
                   None \<Rightarrow> Inl Database
                 | Some (SIntent n) \<Rightarrow>
                     if in_version n \<noteq> 1 \<or> in_account_id n \<noteq> None
                       \<or> in_uid n < wa_virtual_min_uid (cfg_web_accounts cfg)
                       \<or> in_uid n > wa_virtual_max_uid (cfg_web_accounts cfg)
                     then Inl Forbidden
                     else and_then (os_free_id os (in_uid n)) (\<lambda>free.
                       if \<not> free then Inl Conflict
                       else and_then (os_home_exists os (virtual_home (in_uid n))) (\<lambda>there.
                         if there then Inl Conflict
                         else and_then (if in_owner n = ''__root__'' then Inr None
                                        else and_then (account s (in_owner n)) (\<lambda>own_account.
                                          and_then (own_reservation os cfg s own_account) (\<lambda>held.
                                          Inr (if held = None then None else Some own_account)))) (\<lambda>parent.
                           Inr (n, parent))))
                 | Some _ \<Rightarrow> Inl InvalidInput)) of
        Inl e \<Rightarrow> (s, Inl e)
      | Inr (n, parent) \<Rightarrow>
          let s1 = retire_uid (in_uid n) now (state_delete request_key s) in
          (s1, case parent of
                 None \<Rightarrow> Inr ()
               | Some own_account \<Rightarrow>
                   and_then (effective_quota s1 (acc_id own_account)) (\<lambda>eq.
                   and_then (ok_or eq Forbidden) (\<lambda>q. native_set os cfg (acc_uid own_account) q))))"

section \<open>Purging\<close>

definition purge_intent_key :: "string \<Rightarrow> string" where
  "purge_intent_key i = ''virtual_purge_intent_v1:'' @ i"

text \<open>The accounts that are due, at most a hundred; \<open>NULL\<close> in \<open>deleted_at\<close> selects nothing.\<close>

definition due_for_purge :: "AppConfig \<Rightarrow> nat \<Rightarrow> Store \<Rightarrow> AccountRow list" where
  "due_for_purge cfg now s =
     (let deadline = now - min (vc_deleted_retention_hours (cfg_virtual_accounts cfg) * 3600) U64_MAX in
      take 100 (sort_key (\<lambda>r. the_or0 (row_deleted_at r))
        (filter (\<lambda>r. row_kind r = Virtual \<and> row_role r = User \<and> row_status r = Deleted
                    \<and> (case row_deleted_at r of None \<Rightarrow> False | Some d \<Rightarrow> d \<le> deadline)
                    \<and> map_of (security_state s) (purged_key (row_id r)) = None) (accounts s))))"

text \<open>The transaction before the home is cleared, and the one after the identity is gone.\<close>

definition begin_purge :: "nat \<Rightarrow> Store \<Rightarrow> Account \<Rightarrow> Store store_result" where
  "begin_purge now s target =
     and_then (state_insert (purge_intent_key (acc_id target))
                 (SPurgeIntent (acc_id target) (acc_uid target) (acc_home target)) s) (\<lambda>s1.
     Inr (retire_uid (acc_uid target) now s1))"

definition finish_purge :: "nat \<Rightarrow> Store \<Rightarrow> Account \<Rightarrow> Store store_result" where
  "finish_purge now s target =
     (let s1 = retire_uid (acc_uid target) now s in
      and_then (state_insert (purged_key (acc_id target)) (SPurged 1 (acc_uid target)) s1) (\<lambda>s2.
      and_then (update_bumping (\<lambda>r. row_id r = acc_id target)
                  (\<lambda>r. r\<lparr>row_quota_bytes := Some 0, row_web_password_hash := None\<rparr>) s2) (\<lambda>s3.
      Inr (s3\<lparr>session_grants := filter (\<lambda>g. sr_account_id g \<noteq> acc_id target) (session_grants s3)\<rparr>))))"
end
