(* ===== verification/TD_Accounts.thy ===== *)
theory TD_Accounts
  imports TD_Virtuals
begin

text \<open>
  The account store as a whole: every operation that changes it as one step, and what all of them keep. The
  theorems are over arbitrary sequences of operations, by any callers, with any outcomes.
\<close>

section \<open>Steps\<close>

text \<open>The third-party code the operations call.\<close>

record Env =
  ev_uuid :: "string \<Rightarrow> string option"
  ev_sha :: "string \<Rightarrow> string"
  ev_argon :: Argon
  ev_json_len :: "StateValue \<Rightarrow> nat"

text \<open>An operation with its arguments, what the clock and \<open>Uuid::new_v4\<close> give it, and what the operating system
  answers.\<close>

datatype AccountOp =
    SetPanelScope nat Authority string bool
  | SetRole nat Authority string Role
  | Create string nat Authority NewAccount
  | CreateEnrolled string nat Authority NewAccount string "(string \<times> Intent) option"
  | SetPool Authority nat
  | SetAdminBudget "nat \<Rightarrow> unit store_result" Authority string nat
  | SetAdminOwn "nat \<Rightarrow> unit store_result" nat Authority string nat
  | InvalidateRestored string nat Authority
  | CopyAdminCredentials nat Authority string nat string nat
  | RequirePasswordChange nat Authority string
  | SetPassword nat Authority string string
  | Transition nat Authority string AccountStatus bool "nat option"
  | IssueGrant string string nat CallerBinding nat nat
  | RevokeGrant SessionGrant CallerBinding nat
  | BeginEnrollment string EnrollmentIdentity CallerBinding nat nat
  | CompleteEnrollment string string CallerBinding EnrollmentIdentity string nat
  | ReserveLogin string "string option" RateLimitConfig nat
  | FinishLogin "Reservation_entry list"
  | SetPolicy nat Authority string nat PolicyLayer "Rule list"
  | SetChildQuota "nat \<Rightarrow> unit store_result" nat Authority string nat nat
  | Provision Os string nat AppConfig Account string nat string string
  | CreateAdmin Os string nat AppConfig string nat string string
  | SetQuota Os nat AppConfig Authority Account nat nat
  | SetBudget Os AppConfig string nat
  | SetOwnQuota Os nat AppConfig string nat
  | CancelPending Os nat AppConfig string
  | BeginPurge nat Account
  | FinishPurge nat Account

definition committed :: "Store \<Rightarrow> 'e + Store \<Rightarrow> Store" where
  "committed s r = (case r of Inl _ \<Rightarrow> s | Inr s' \<Rightarrow> s')"

definition committed_snd :: "Store \<Rightarrow> 'e + 'a \<times> Store \<Rightarrow> Store" where
  "committed_snd s r = (case r of Inl _ \<Rightarrow> s | Inr (_, s') \<Rightarrow> s')"

fun exec :: "Env \<Rightarrow> AccountOp \<Rightarrow> Store \<Rightarrow> Store" where
  "exec ev (SetPanelScope now a i g) s = committed_snd s (set_panel_scope now s a i g)"
| "exec ev (SetRole now a i r) s = committed_snd s (set_role now s a i r)"
| "exec ev (Create fresh now a new) s = committed_snd s (create fresh now s a new)"
| "exec ev (CreateEnrolled fresh now a new pw req) s =
     committed_snd s (create_enrolled (ev_argon ev) fresh now s a new pw req)"
| "exec ev (SetPool a b) s = committed s (set_pool s a b)"
| "exec ev (SetAdminBudget cb a i b) s = committed s (set_admin_budget_with cb s a i b)"
| "exec ev (SetAdminOwn cb now a i b) s = committed s (set_admin_own_with cb now s a i b)"
| "exec ev (InvalidateRestored fresh now a) s = committed s (invalidate_restored_sessions fresh now s a)"
| "exec ev (CopyAdminCredentials now a src sg dst dg) s = committed s (copy_admin_credentials now s a src sg dst dg)"
| "exec ev (RequirePasswordChange now a i) s = committed_snd s (require_password_change now s a i)"
| "exec ev (SetPassword now a i pw) s = committed_snd s (set_password (ev_argon ev) now s a i pw)"
| "exec ev (Transition now a i st d g) s = committed_snd s (transition_checked now s a i st d g)"
| "exec ev (IssueGrant fresh i g c at l) s = committed_snd s (issue_grant (ev_uuid ev) fresh s i g c at l)"
| "exec ev (RevokeGrant g c at) s = committed s (revoke_grant s g c at)"
| "exec ev (BeginEnrollment fresh e c at l) s =
     committed_snd s (begin_enrollment (ev_uuid ev) (ev_sha ev) fresh s e c at l)"
| "exec ev (CompleteEnrollment fresh t c e pw at) s =
     committed_snd s (complete_enrollment (ev_uuid ev) (ev_sha ev) (ev_argon ev) fresh s t c e pw at)"
| "exec ev (ReserveLogin u ip cfg at) s = committed_snd s (reserve_login (ev_sha ev) s u ip cfg at)"
| "exec ev (FinishLogin r) s = finish_login s r"
| "exec ev (SetPolicy now a i g l rs) s = committed_snd s (set_policy (ev_json_len ev) now s a i g l rs)"
| "exec ev (SetChildQuota cb now a i g b) s = committed_snd s (set_child_quota_with cb now s a i g b)"
| "exec ev (Provision os fresh now cfg a n q pw req) s =
     fst (provision (ev_uuid ev) (ev_json_len ev) os (ev_argon ev) fresh now cfg s a n q pw req)"
| "exec ev (CreateAdmin os fresh now cfg n q pw req) s =
     fst (create_admin (ev_uuid ev) (ev_json_len ev) os (ev_argon ev) fresh now cfg s n q pw req)"
| "exec ev (SetQuota os now cfg a t g b) s = fst (set_quota os now cfg s a t g b)"
| "exec ev (SetBudget os cfg i b) s = fst (set_budget os cfg s i b)"
| "exec ev (SetOwnQuota os now cfg i b) s = fst (set_own_quota os now cfg s i b)"
| "exec ev (CancelPending os now cfg k) s = fst (cancel_pending os now cfg s k)"
| "exec ev (BeginPurge now t) s = committed s (begin_purge now s t)"
| "exec ev (FinishPurge now t) s = committed s (finish_purge now s t)"

definition exec_all :: "Env \<Rightarrow> AccountOp list \<Rightarrow> Store \<Rightarrow> Store" where
  "exec_all ev ops s = fold (exec ev) ops s"

text \<open>What every legal step keeps, a run of legal steps keeps.\<close>

locale kept_by_steps =
  fixes step :: "'op \<Rightarrow> 'st \<Rightarrow> 'st" and legal :: "'op \<Rightarrow> bool" and inv :: "'st \<Rightarrow> bool"
  assumes step_keeps: "legal op' \<Longrightarrow> inv s \<Longrightarrow> inv (step op' s)"
begin

lemma run_keeps: "\<forall>op' \<in> set ops. legal op' \<Longrightarrow> inv s \<Longrightarrow> inv (fold step ops s)"
  by (induction ops arbitrary: s) (auto intro: step_keeps)

end

text \<open>The store \<open>initialize_schema\<close> leaves.\<close>

definition initial_store :: "string \<Rightarrow> Store" where
  "initial_store dummy =
     \<lparr>accounts = [], quota_pool = 0, admin_budgets = [], security_state = [(''dummy_password_hash'', SText dummy)],
      session_grants = [], enrollment = [], login_limits = []\<rparr>"

text \<open>The identifiers \<open>Uuid::new_v4\<close> gives an operation for a new account.\<close>

fun fresh_id :: "AccountOp \<Rightarrow> string option" where
  "fresh_id (Create fresh now a new) = Some fresh"
| "fresh_id (CreateEnrolled fresh now a new pw req) = Some fresh"
| "fresh_id (CompleteEnrollment fresh t c e pw at) = Some fresh"
| "fresh_id (Provision os fresh now cfg a n q pw req) = Some fresh"
| "fresh_id (CreateAdmin os fresh now cfg n q pw req) = Some fresh"
| "fresh_id op' = None"

section \<open>Sums over the tables\<close>

lemma sum_update:
  fixes f :: "'k \<times> 'v \<Rightarrow> nat"
  assumes "distinct (map fst al)"
  shows "sum_list (map f (AList.update k v al)) + (case map_of al k of None \<Rightarrow> 0 | Some w \<Rightarrow> f (k, w))
           = sum_list (map f al) + f (k, v)"
  using assms by (induction al) (auto simp: map_of_eq_None_iff [THEN iffD2] split: option.splits)

lemma sum_delete:
  fixes f :: "'k \<times> 'v \<Rightarrow> nat"
  assumes "distinct (map fst al)"
  shows "sum_list (map f (AList.delete k al)) + (case map_of al k of None \<Rightarrow> 0 | Some w \<Rightarrow> f (k, w))
           = sum_list (map f al)"
  using assms
proof (induction al)
  case Nil
  then show ?case by simp
next
  case (Cons e al)
  then show ?case
    by (cases e) (auto simp: AList.delete_eq filter_id_conv image_iff split: option.splits
        dest!: map_of_SomeD)
qed

definition children :: "Store \<Rightarrow> string \<Rightarrow> nat" where
  "children s i = sum_list (map (\<lambda>r. the_or0 (row_quota_bytes r))
     (filter (\<lambda>r. row_owner_admin_id r = Some i) (accounts s)))"

definition pend :: "Store \<Rightarrow> string \<Rightarrow> nat" where
  "pend s i = sum_list (map (reserves i []) (security_state s))"

definition own_bytes :: "Store \<Rightarrow> string \<Rightarrow> nat" where
  "own_bytes s i = (case fixed_own s i of Inr (Some v) \<Rightarrow> v | _ \<Rightarrow> 0)"

definition budgets :: "Store \<Rightarrow> nat" where
  "budgets s = sum_list (map snd (admin_budgets s))"

text \<open>The invariant: what root delegates fits the pool, and what an administrator hands out, has promised to open
  creations and keeps for itself fits its budget.\<close>

definition within_budgets :: "Store \<Rightarrow> bool" where
  "within_budgets s \<longleftrightarrow>
     distinct (map fst (security_state s)) \<and> distinct (map fst (admin_budgets s)) \<and> distinct (map row_id (accounts s))
     \<and> quota_pool s \<le> I64_MAX \<and> ''__root__'' \<notin> row_id ` set (accounts s)
     \<and> budgets s + pend s ''__root__'' \<le> quota_pool s
     \<and> (\<forall>i. i \<noteq> ''__root__'' \<longrightarrow> children s i + pend s i + own_bytes s i \<le> budget_of s i)"

lemma like_nonempty: "sql_like intent_pattern k \<Longrightarrow> k \<noteq> []"
  by (auto simp: intent_pattern_def)

lemma reserves_exclude: "reserves i k (k', v) = (if k' = k then 0 else reserves i [] (k', v))"
  by (auto simp: reserves_def dest!: like_nonempty split: StateValue.splits)

lemma sub64_exact: "0 \<le> a - b \<Longrightarrow> a - b \<le> int I64_MAX \<Longrightarrow> sub64 a b = a - b"
  by (simp add: sub64_def I64_MAX_def)

lemma sum_member_le: "x \<in> set xs \<Longrightarrow> f x \<le> sum_list (map f xs)" for f :: "'a \<Rightarrow> nat"
  by (simp add: member_le_sum_list)

lemma budget_of_le: "budget_of s i \<le> budgets s"
proof (cases "map_of (admin_budgets s) i")
  case (Some b)
  then have "(i, b) \<in> set (admin_budgets s)" by (rule map_of_SomeD)
  from sum_member_le [OF this, of snd] Some show ?thesis by (simp add: budget_of_def budgets_def)
qed (simp add: budget_of_def)

lemma pending_reserved_Inr: "pending_reserved s i [] = Inr v \<Longrightarrow> v = pend s i \<and> v \<le> I64_MAX"
  by (auto simp: pending_reserved_def sql_sum_def pend_def split: if_split_asm)

lemma allocated_to_Inr: "allocated_to s i = Inr v \<Longrightarrow> v = children s i \<and> v \<le> I64_MAX"
  by (auto simp: allocated_to_def sql_sum_def children_def the_or0_def split: if_split_asm)

lemma delegated_Inr: "delegated s = Inr v \<Longrightarrow> v = budgets s \<and> v \<le> I64_MAX"
  by (auto simp: delegated_def sql_sum_def budgets_def split: if_split_asm)

lemma fixed_own_Inr: "fixed_own s i = Inr v \<Longrightarrow> the_or0 v = own_bytes s i"
  by (auto simp: own_bytes_def the_or0_def split: option.splits)

lemma number_Inr: "number v = Inr w \<longleftrightarrow> w = v \<and> v \<le> I64_MAX"
  by (auto simp: number_def)

lemma add64_Some: "add64 a b = Some c \<longleftrightarrow> c = a + b \<and> a + b \<le> I64_MAX"
  by (auto simp: add64_def)

lemma pending_excluding_Inr:
  assumes "distinct (map fst (security_state s))" "pending_reserved s i k = Inr v"
  shows "v + (case map_of (security_state s) k of None \<Rightarrow> 0 | Some w \<Rightarrow> reserves i [] (k, w)) = pend s i"
proof -
  have "map (reserves i k) (security_state s) = map (\<lambda>e. if fst e = k then 0 else reserves i [] e) (security_state s)"
    by (auto simp: reserves_exclude)
  moreover have "sum_list (map (\<lambda>e. if fst e = k then 0 else f e) al) = sum_list (map f (AList.delete k al))"
    for f :: "string \<times> StateValue \<Rightarrow> nat" and al
    by (induction al) auto
  ultimately have "sum_list (map (reserves i k) (security_state s))
      = sum_list (map (reserves i []) (AList.delete k (security_state s)))"
    by metis
  moreover have "v = sum_list (map (reserves i k) (security_state s))"
    using assms(2) by (auto simp: pending_reserved_def sql_sum_def split: if_split_asm)
  ultimately show ?thesis
    using sum_delete [OF assms(1), of "reserves i []" k] by (simp add: pend_def)
qed

section \<open>Changes that take nothing from a budget\<close>

text \<open>\<open>frugal s s'\<close>: the same pool, budgets and accounts, and nobody has more handed out than before.\<close>

definition frugal :: "Store \<Rightarrow> Store \<Rightarrow> bool" where
  "frugal s s' \<longleftrightarrow>
     (distinct (map fst (security_state s)) \<longrightarrow>
        distinct (map fst (security_state s')) \<and> (\<forall>i. pend s' i \<le> pend s i \<and> own_bytes s' i \<le> own_bytes s i))
     \<and> admin_budgets s' = admin_budgets s \<and> quota_pool s' = quota_pool s
     \<and> map row_id (accounts s') = map row_id (accounts s) \<and> (\<forall>i. children s' i \<le> children s i)"

named_theorems frugal_intros \<open>steps that are frugal\<close>

lemma frugal_refl [frugal_intros]: "frugal s s"
  by (simp add: frugal_def)

lemma frugal_trans: "frugal s s' \<Longrightarrow> frugal s' s'' \<Longrightarrow> frugal s s''"
  unfolding frugal_def by (metis order_trans)

lemma frugal_within: "within_budgets s \<Longrightarrow> frugal s s' \<Longrightarrow> within_budgets s'"
proof -
  assume w: "within_budgets s" and f: "frugal s s'"
  from f have "row_id ` set (accounts s') = row_id ` set (accounts s)"
    unfolding frugal_def by (metis list.set_map)
  moreover have "budgets s' = budgets s" "budget_of s' i = budget_of s i" for i
    using f by (simp_all add: frugal_def budgets_def budget_of_def)
  moreover have "children s' i + pend s' i + own_bytes s' i \<le> budget_of s i" if "i \<noteq> ''__root__''" for i
    using w f that unfolding frugal_def within_budgets_def
    by (meson add_mono order_trans)
  moreover have "pend s' ''__root__'' \<le> pend s ''__root__''"
    using w f unfolding frugal_def within_budgets_def by blast
  moreover have "distinct (map fst (security_state s'))" "distinct (map fst (admin_budgets s'))"
      "distinct (map row_id (accounts s'))" "quota_pool s' = quota_pool s"
    using w f by (simp_all add: within_budgets_def frugal_def)
  ultimately show ?thesis
    using w unfolding within_budgets_def by simp
qed

text \<open>Only the four tables matter.\<close>

lemma frugal_tables:
  assumes "security_state s' = security_state s" "admin_budgets s' = admin_budgets s" "quota_pool s' = quota_pool s"
    "accounts s' = accounts s"
  shows "frugal s s'"
  using assms by (simp add: frugal_def pend_def own_bytes_def fixed_own_def children_def)

lemma frugal_rows:
  assumes "\<And>r. row_id (f r) = row_id r \<and> row_owner_admin_id (f r) = row_owner_admin_id r
             \<and> the_or0 (row_quota_bytes (f r)) \<le> the_or0 (row_quota_bytes r)"
  shows "frugal s (s\<lparr>accounts := map f (accounts s)\<rparr>)"
proof -
  have "children (s\<lparr>accounts := map f (accounts s)\<rparr>) i \<le> children s i" for i
  proof -
    have "sum_list (map (\<lambda>r. the_or0 (row_quota_bytes r)) (filter (\<lambda>r. row_owner_admin_id r = Some i) (map f rs)))
        \<le> sum_list (map (\<lambda>r. the_or0 (row_quota_bytes r)) (filter (\<lambda>r. row_owner_admin_id r = Some i) rs))" for rs
      using assms by (induction rs) (auto intro: add_mono)
    then show ?thesis by (simp add: children_def)
  qed
  with assms show ?thesis by (simp add: frugal_def pend_def own_bytes_def fixed_own_def comp_def)
qed

lemma frugal_bumping:
  assumes "update_bumping sel f s = Inr s'"
    and "\<And>r. row_id (f r) = row_id r \<and> row_owner_admin_id (f r) = row_owner_admin_id r
             \<and> the_or0 (row_quota_bytes (f r)) \<le> the_or0 (row_quota_bytes r)"
  shows "frugal s s'"
proof -
  from assms(1) have "s' = s\<lparr>accounts := map (\<lambda>r. if sel r then (f r)\<lparr>row_generation := row_generation r + 1\<rparr> else r)
      (accounts s)\<rparr>"
    by (auto simp: update_bumping_def split: if_split_asm)
  moreover have "frugal s (s\<lparr>accounts := map (\<lambda>r. if sel r then (f r)\<lparr>row_generation := row_generation r + 1\<rparr> else r)
      (accounts s)\<rparr>)"
    by (rule frugal_rows) (use assms(2) in auto)
  ultimately show ?thesis by simp
qed

text \<open>A value under a key that reserves nothing.\<close>

definition neutral :: "string \<Rightarrow> StateValue \<Rightarrow> bool" where
  "neutral k v \<longleftrightarrow> (\<forall>i. reserves i [] (k, v) = 0) \<and> (\<forall>i. k \<noteq> own_quota_key i)"

lemma frugal_upsert:
  assumes "neutral k v"
  shows "frugal s (state_upsert k v s)"
proof -
  have "pend (state_upsert k v s) i \<le> pend s i" if "distinct (map fst (security_state s))" for i
    using sum_update [OF that, of "reserves i []" k v] assms
    by (simp add: pend_def state_upsert_def neutral_def split: option.split_asm)
  moreover have "own_bytes (state_upsert k v s) i = own_bytes s i" for i
  proof -
    from assms have "own_quota_key i \<noteq> k" by (auto simp: neutral_def)
    then show ?thesis by (simp add: own_bytes_def fixed_own_def state_upsert_def)
  qed
  ultimately show ?thesis
    by (simp add: frugal_def state_upsert_def children_def distinct_update)
qed

lemma frugal_delete: "frugal s (state_delete k s)"
proof -
  have "pend (state_delete k s) i \<le> pend s i" if "distinct (map fst (security_state s))" for i
    using sum_delete [OF that, of "reserves i []" k]
    by (simp add: pend_def state_delete_def split: option.split_asm)
  moreover have "own_bytes (state_delete k s) i \<le> own_bytes s i" for i
    by (simp add: own_bytes_def fixed_own_def state_delete_def delete_conv')
  ultimately show ?thesis
    by (simp add: frugal_def state_delete_def children_def distinct_delete)
qed

lemma frugal_insert: "state_insert k v s = Inr s' \<Longrightarrow> neutral k v \<Longrightarrow> frugal s s'"
  by (auto simp: state_insert_def intro: frugal_upsert split: if_split_asm)

lemma neutral_keys [simp]:
  "neutral (panel_scope_key i) v" "neutral (password_change_key i) v" "neutral (quota_sync_key i) v"
  "neutral (policy_key i) v" "neutral ''undo_epoch_v1'' v" "neutral ''virtual_uid_cursor'' v"
  "neutral (uid_retired_key n) v" "neutral (purge_intent_key i) v" "neutral (purged_key i) v"
  by (simp_all add: neutral_def reserves_def intent_pattern_def own_quota_key_def panel_scope_key_def
      password_change_key_def quota_sync_key_def policy_key_def uid_retired_key_def purge_intent_key_def
      purged_key_def ascii_lower_def)

text \<open>The same as rules that extend a frugal change by one more statement.\<close>

lemma frugal_more:
  "frugal s s1 \<Longrightarrow> frugal s (forget_enrollment n s1)"
  "frugal s s1 \<Longrightarrow> neutral k v \<Longrightarrow> frugal s (state_upsert k v s1)"
  "frugal s s1 \<Longrightarrow> frugal s (state_delete k s1)"
  "frugal s s1 \<Longrightarrow> frugal s (s1\<lparr>session_grants := gs\<rparr>)"
  "frugal s s1 \<Longrightarrow> frugal s (s1\<lparr>session_grants := gs, enrollment := es\<rparr>)"
  by (erule frugal_trans, simp add: frugal_tables frugal_upsert frugal_delete forget_enrollment_def)+

lemma frugal_bump:
  assumes "update_bumping sel f s1 = Inr s2"
    and "frugal s s1"
    and "\<And>r. row_id (f r) = row_id r \<and> row_owner_admin_id (f r) = row_owner_admin_id r
             \<and> the_or0 (row_quota_bytes (f r)) \<le> the_or0 (row_quota_bytes r)"
  shows "frugal s s2"
  by (rule frugal_trans [OF assms(2) frugal_bumping [OF assms(1,3)]])

lemma frugal_inserted: "state_insert k v s1 = Inr s2 \<Longrightarrow> frugal s s1 \<Longrightarrow> neutral k v \<Longrightarrow> frugal s s2"
  by (blast intro: frugal_trans frugal_insert)

lemma frugal_set_panel_scope: "set_panel_scope now s a i g = Inr (r, s') \<Longrightarrow> frugal s s'"
  by (auto simp: set_panel_scope_def and_then_Inr Let_def split: if_split_asm
      intro!: frugal_more frugal_refl elim!: frugal_bump frugal_inserted)

lemma frugal_set_role: "set_role now s a i ro = Inr (r, s') \<Longrightarrow> frugal s s'"
  by (auto simp: set_role_def and_then_Inr Let_def split: if_split_asm
      intro!: frugal_more frugal_refl elim!: frugal_bump frugal_inserted)

lemma frugal_invalidate: "invalidate_restored_sessions fresh now s a = Inr s' \<Longrightarrow> frugal s s'"
  by (auto simp: invalidate_restored_sessions_def and_then_Inr Let_def split: if_split_asm
      intro!: frugal_more frugal_refl elim!: frugal_bump frugal_inserted)

lemma frugal_copy_admin_credentials: "copy_admin_credentials now s a src sg dst dg = Inr s' \<Longrightarrow> frugal s s'"
  by (auto simp: copy_admin_credentials_def and_then_Inr Let_def split: if_split_asm
      intro!: frugal_more frugal_refl elim!: frugal_bump frugal_inserted)

lemma frugal_require_password_change: "require_password_change now s a i = Inr (r, s') \<Longrightarrow> frugal s s'"
  by (auto simp: require_password_change_def and_then_Inr Let_def split: if_split_asm
      intro!: frugal_more frugal_refl elim!: frugal_bump frugal_inserted)

lemma frugal_set_password: "set_password ar now s a i pw = Inr (r, s') \<Longrightarrow> frugal s s'"
  by (auto simp: set_password_def and_then_Inr Let_def split: if_split_asm
      intro!: frugal_more frugal_refl elim!: frugal_bump frugal_inserted)

lemma frugal_transition: "transition_checked now s a i st d g = Inr (r, s') \<Longrightarrow> frugal s s'"
  by (auto simp: transition_checked_def and_then_Inr Let_def split: if_split_asm
      intro!: frugal_more frugal_refl elim!: frugal_bump frugal_inserted)

lemma frugal_set_policy: "set_policy jl now s a i g l rs = Inr (r, s') \<Longrightarrow> frugal s s'"
  by (auto simp: set_policy_def and_then_Inr Let_def split: if_split_asm
      intro!: frugal_more frugal_refl elim!: frugal_bump frugal_inserted)

lemma frugal_issue_grant: "issue_grant uuid fresh s i g c at l = Inr (r, s') \<Longrightarrow> frugal s s'"
  by (auto simp: issue_grant_def insert_grant_def and_then_Inr Let_def split: if_split_asm intro!: frugal_tables)

lemma frugal_revoke_grant: "revoke_grant s g c at = Inr s' \<Longrightarrow> frugal s s'"
  by (auto simp: revoke_grant_def and_then_Inr intro!: frugal_tables)

lemma frugal_begin_enrollment: "begin_enrollment uuid sha fresh s e c at l = Inr (r, s') \<Longrightarrow> frugal s s'"
  by (auto simp: begin_enrollment_def insert_enrollment_def and_then_Inr Let_def split: if_split_asm intro!: frugal_tables)

lemma charge_limit_tables:
  "security_state (charge_limit sc h d at s) = security_state s" "accounts (charge_limit sc h d at s) = accounts s"
  "admin_budgets (charge_limit sc h d at s) = admin_budgets s" "quota_pool (charge_limit sc h d at s) = quota_pool s"
  "session_grants (charge_limit sc h d at s) = session_grants s" "enrollment (charge_limit sc h d at s) = enrollment s"
  by (auto simp: charge_limit_def split: option.splits)

lemma reserve_scopes_tables:
  "reserve_scopes sha n until at scs res s = Inr (r, s') \<Longrightarrow>
     security_state s' = security_state s \<and> accounts s' = accounts s \<and> admin_budgets s' = admin_budgets s
     \<and> quota_pool s' = quota_pool s \<and> session_grants s' = session_grants s \<and> enrollment s' = enrollment s"
  by (induction sha n until at scs res s rule: reserve_scopes.induct)
    (auto simp: Let_def charge_limit_tables split: if_split_asm prod.split_asm)

lemma reserve_login_tables:
  "reserve_login sha s u ip cfg at = Inr (r, s') \<Longrightarrow>
     security_state s' = security_state s \<and> accounts s' = accounts s \<and> admin_budgets s' = admin_budgets s
     \<and> quota_pool s' = quota_pool s \<and> session_grants s' = session_grants s \<and> enrollment s' = enrollment s"
  by (auto simp: reserve_login_def and_then_Inr Let_def split: if_split_asm dest!: reserve_scopes_tables)

lemma finish_login_tables:
  "security_state (finish_login s r) = security_state s \<and> accounts (finish_login s r) = accounts s
   \<and> admin_budgets (finish_login s r) = admin_budgets s \<and> quota_pool (finish_login s r) = quota_pool s
   \<and> session_grants (finish_login s r) = session_grants s \<and> enrollment (finish_login s r) = enrollment s"
  unfolding finish_login_def
  by (induction r arbitrary: s) (auto simp: refund_limit_def split: prod.splits)

lemma frugal_reserve_login: "reserve_login sha s u ip cfg at = Inr (r, s') \<Longrightarrow> frugal s s'"
  by (drule reserve_login_tables) (simp add: frugal_tables)

lemma frugal_finish_login: "frugal s (finish_login s r)"
  using finish_login_tables [of s r] by (simp add: frugal_tables)

lemma frugal_allocate: "allocate free_id prepared cfg s = Inr (u, s') \<Longrightarrow> frugal s s'"
  by (erule allocate_sound) (simp add: frugal_upsert)

lemma frugal_retire: "frugal s (retire_uid u now s)"
  by (simp add: retire_uid_def frugal_refl frugal_upsert)

lemma frugal_begin_purge: "begin_purge now s t = Inr s' \<Longrightarrow> frugal s s'"
  unfolding begin_purge_def by (auto simp: and_then_Inr intro: frugal_trans [OF frugal_insert frugal_retire] neutral_keys)

lemma frugal_finish_purge: "finish_purge now s t = Inr s' \<Longrightarrow> frugal s s'"
  by (auto simp: finish_purge_def and_then_Inr Let_def the_or0_def
      intro!: frugal_more frugal_retire elim!: frugal_bump frugal_inserted)

lemma frugal_cancel_pending: "frugal s (fst (cancel_pending os now cfg s k))"
  by (auto simp: cancel_pending_def Let_def intro: frugal_refl frugal_trans [OF frugal_delete frugal_retire] split: sum.splits)

section \<open>Changes that use a budget\<close>

text \<open>What a row of \<open>security_state\<close> holds for an owner, and the sums after the row is replaced.\<close>

definition held :: "Store \<Rightarrow> string \<Rightarrow> string \<Rightarrow> nat" where
  "held s k i = (case map_of (security_state s) k of None \<Rightarrow> 0 | Some w \<Rightarrow> reserves i [] (k, w))"

lemma held_empty [simp]: "held s [] i = 0"
  by (auto simp: held_def reserves_def intent_pattern_def split: option.splits)

lemma pend_upsert:
  "distinct (map fst (security_state s)) \<Longrightarrow> pend (state_upsert k v s) i + held s k i = pend s i + reserves i [] (k, v)"
  using sum_update [of "security_state s" "reserves i []" k v] by (simp add: pend_def held_def state_upsert_def)

lemma pending_held:
  "within_budgets s \<Longrightarrow> pending_reserved s i k = Inr v \<Longrightarrow> v + held s k i = pend s i"
  using pending_excluding_Inr [of s i k v] by (simp add: within_budgets_def held_def)

lemma left_of_budget:
  assumes "within_budgets s" "i \<noteq> ''__root__''" "pending_reserved s i k = Inr p"
  shows "sub64 (sub64 (sub64 (int (budget_of s i)) (int (children s i))) (int p)) (int (own_bytes s i))
           = int (budget_of s i) - int (children s i) - int p - int (own_bytes s i)"
    and "children s i + p + own_bytes s i \<le> budget_of s i"
proof -
  show fits: "children s i + p + own_bytes s i \<le> budget_of s i"
    using assms pending_held [OF assms(1,3)] by (fastforce simp: within_budgets_def)
  have "budget_of s i \<le> I64_MAX"
    using assms(1) budget_of_le [of s i] by (simp add: within_budgets_def)
  with fits show "sub64 (sub64 (sub64 (int (budget_of s i)) (int (children s i))) (int p)) (int (own_bytes s i))
           = int (budget_of s i) - int (children s i) - int p - int (own_bytes s i)"
    by (simp add: sub64_exact)
qed

lemma left_of_pool:
  assumes "within_budgets s" "pending_reserved s ''__root__'' k = Inr p"
  shows "sub64 (sub64 (int (quota_pool s)) (int (budgets s))) (int p) = int (quota_pool s) - int (budgets s) - int p"
    and "budgets s + p \<le> quota_pool s"
proof -
  show fits: "budgets s + p \<le> quota_pool s"
    using assms pending_held [OF assms] by (fastforce simp: within_budgets_def)
  with assms(1) show "sub64 (sub64 (int (quota_pool s)) (int (budgets s))) (int p) = int (quota_pool s) - int (budgets s) - int p"
    by (simp add: sub64_exact within_budgets_def)
qed

lemma account_Inr: "account s i = Inr a \<Longrightarrow> \<exists>r. find_row s i = Some r \<and> a = row_account s r \<and> r \<in> set (accounts s) \<and> row_id r = i"
  by (auto simp: account_def ok_or_Inr find_row_def find_Some_iff)

lemma account_not_root: "within_budgets s \<Longrightarrow> account s i = Inr a \<Longrightarrow> i \<noteq> ''__root__'' \<and> acc_id a = i"
  by (drule account_Inr) (auto simp: within_budgets_def row_account_def image_iff)

lemma set_pool_within: "within_budgets s \<Longrightarrow> set_pool s a b = Inr s' \<Longrightarrow> within_budgets s'"
  by (auto simp: set_pool_def and_then_Inr ok_or_Inr number_Inr add64_Some within_budgets_def budget_of_def
      budgets_def pend_def own_bytes_def fixed_own_def children_def split: if_split_asm
      dest!: delegated_Inr pending_reserved_Inr)

lemma set_admin_budget_within:
  assumes w: "within_budgets s" and ok: "set_admin_budget_with cb s a i b = Inr s'"
  shows "within_budgets s'"
proof -
  from ok obtain t p rp own where t: "account s i = Inr t" and p: "pending_reserved s i [] = Inr p"
    and rp: "pending_reserved s ''__root__'' [] = Inr rp" and own: "fixed_own s i = Inr own"
    and fits: "children s i + p + the_or0 own \<le> b"
    and pool: "int b \<le> sub64 (sub64 (int (quota_pool s)) (sub64 (int (budgets s)) (int (budget_of s i)))) (int rp)"
    and s': "s' = s\<lparr>admin_budgets := AList.update i b (admin_budgets s)\<rparr>"
    by (auto simp: set_admin_budget_with_def and_then_Inr ok_or_Inr add64_Some number_Inr split: if_split_asm
        dest!: delegated_Inr allocated_to_Inr)
  have "pend s i = p" "pend s ''__root__'' = rp" using p rp by (auto dest!: pending_reserved_Inr)
  moreover from this w have "budgets s + rp \<le> quota_pool s" "quota_pool s \<le> I64_MAX" by (simp_all add: within_budgets_def)
  then have "sub64 (sub64 (int (quota_pool s)) (sub64 (int (budgets s)) (int (budget_of s i)))) (int rp)
      = int (quota_pool s) - (int (budgets s) - int (budget_of s i)) - int rp"
    using budget_of_le [of s i] by (simp add: sub64_exact)
  ultimately have b: "b + budgets s + pend s ''__root__'' \<le> quota_pool s + budget_of s i"
    using pool \<open>budgets s + rp \<le> quota_pool s\<close> by simp
  have "budgets s' + budget_of s i = budgets s + b"
  proof -
    have "distinct (map fst (admin_budgets s))" using w by (simp add: within_budgets_def)
    from sum_update [OF this, of snd i b] show ?thesis
      by (cases "map_of (admin_budgets s) i") (simp_all add: s' budgets_def budget_of_def)
  qed
  with b have "budgets s' + pend s ''__root__'' \<le> quota_pool s" by simp
  moreover have "budget_of s' j = (if j = i then b else budget_of s j)" for j
    by (simp add: s' budget_of_def)
  moreover have "pend s' = pend s" "children s' = children s" "own_bytes s' = own_bytes s"
    by (auto simp: s' pend_def children_def own_bytes_def fixed_own_def fun_eq_iff)
  ultimately show ?thesis
    using w fits fixed_own_Inr [OF own] \<open>pend s i = p\<close> by (auto simp: within_budgets_def s' distinct_update)
qed

lemma parse_i64_show_nat: "n \<le> I64_MAX \<Longrightarrow> parse_i64 (show_nat n) = Some (int n)"
proof -
  assume n: "n \<le> I64_MAX"
  from show_nat_digits [of n] obtain d :: nat and ds where d: "d < 10" and ds: "show_nat n = char_of (48 + d) # ds" by auto
  from d have "char_of (48 + d) \<noteq> CHR ''-'' \<and> char_of (48 + d) \<noteq> CHR ''+''"
    by (auto simp: of_char_eq_iff [where 'a = nat, symmetric] of_char_of simp del: of_char_eq_iff)
  with show_nat_digits [of n] n show ?thesis unfolding ds by (simp add: parse_i64_def ds)
qed

lemma fixed_own_upsert:
  "own_bytes (state_upsert (own_quota_key i) (SText (show_nat b)) s) j =
     (if j = i \<and> 0 < b \<and> b \<le> I64_MAX then b else if j = i then own_bytes (state_upsert (own_quota_key i) (SText (show_nat b)) s) j
      else own_bytes s j)"
  by (auto simp: own_bytes_def fixed_own_def state_upsert_def own_quota_key_def parse_i64_show_nat)

lemma set_admin_own_within:
  assumes w: "within_budgets s" and ok: "set_admin_own_with cb now s a i b = Inr s'"
  shows "within_budgets s'"
proof -
  from ok obtain t p tm where t: "account s i = Inr t" and p: "pending_reserved s i [] = Inr p" and b: "0 < b" "b \<le> I64_MAX"
    and fits: "int b \<le> sub64 (sub64 (int (budget_of s i)) (int (children s i))) (int p)"
    and bump: "update_bumping (\<lambda>r. row_id r = i) (\<lambda>r. r\<lparr>row_updated_at := tm\<rparr>)
      (state_upsert (quota_sync_key i) (SSync i) (state_upsert (own_quota_key i) (SText (show_nat b)) s)) = Inr s'"
    by (auto simp: set_admin_own_with_def and_then_Inr number_Inr Let_def split: if_split_asm dest!: allocated_to_Inr)
  let ?s1 = "state_upsert (own_quota_key i) (SText (show_nat b)) s"
  have root: "i \<noteq> ''__root__''" using w t by (simp add: account_not_root)
  have p': "pend s i = p" using p by (auto dest!: pending_reserved_Inr)
  have d: "distinct (map fst (security_state s))" using w by (simp add: within_budgets_def)
  have le: "budget_of s i \<le> I64_MAX" "children s i + p \<le> budget_of s i"
    using w root p' budget_of_le [of s i] by (fastforce simp: within_budgets_def)+
  then have room: "b + children s i + p \<le> budget_of s i" using fits by (simp add: sub64_exact)
  have pend: "pend ?s1 j \<le> pend s j" for j
    using pend_upsert [OF d, of "own_quota_key i" "SText (show_nat b)" j]
    by (simp add: reserves_def intent_pattern_def own_quota_key_def ascii_lower_def)
  have same: "children ?s1 = children s" "budgets ?s1 = budgets s" "budget_of ?s1 = budget_of s" "quota_pool ?s1 = quota_pool s"
    "accounts ?s1 = accounts s" "admin_budgets ?s1 = admin_budgets s"
    by (auto simp: state_upsert_def children_def budgets_def budget_of_def fun_eq_iff)
  have "children ?s1 j + pend ?s1 j + own_bytes ?s1 j \<le> budget_of ?s1 j" if "j \<noteq> ''__root__''" for j
  proof (cases "j = i")
    case True
    have "own_bytes ?s1 i = b" using fixed_own_upsert [of i b s i] b by simp
    with True room pend [of i] p' show ?thesis unfolding same by simp
  next
    case False
    then have "own_bytes ?s1 j = own_bytes s j" using fixed_own_upsert [of i b s j] by simp
    moreover have "children s j + pend s j + own_bytes s j \<le> budget_of s j" using w that by (simp add: within_budgets_def)
    ultimately show ?thesis unfolding same using pend [of j] by simp
  qed
  moreover have "budgets s + pend ?s1 ''__root__'' \<le> quota_pool s"
    using w pend [of "''__root__''"] by (simp add: within_budgets_def)
  ultimately have "within_budgets ?s1"
    using w d unfolding within_budgets_def same by (simp add: state_upsert_def distinct_update)
  moreover from bump have "frugal ?s1 s'" by (auto intro!: frugal_more frugal_refl elim!: frugal_bump)
  ultimately show ?thesis by (rule frugal_within)
qed

text \<open>An intent for \<open>own\<close> under an unused key.\<close>

lemma intent_upsert:
  assumes "map_of (security_state s) k = None" "distinct (map fst (security_state s))" "in_owner n = own"
  defines "s' \<equiv> state_upsert k (SIntent n) s"
  shows "pend s' i \<le> pend s i + (if i = own then in_quota n else 0)" "own_bytes s' i \<le> own_bytes s i"
    "children s' = children s" "budgets s' = budgets s" "budget_of s' = budget_of s" "quota_pool s' = quota_pool s"
    "accounts s' = accounts s" "admin_budgets s' = admin_budgets s" "distinct (map fst (security_state s'))"
proof -
  show "pend s' i \<le> pend s i + (if i = own then in_quota n else 0)"
    using pend_upsert [OF assms(2), of k "SIntent n" i] assms(1,3) by (auto simp: s'_def reserves_def held_def)
qed (use assms in \<open>auto simp: state_upsert_def children_def budgets_def budget_of_def fun_eq_iff own_bytes_def
      fixed_own_def distinct_update split: option.splits\<close>)

lemma reserve_intent_within:
  assumes w: "within_budgets s" and ok: "reserve_intent s a k n = Inr s'" and own: "in_owner n = acc_id a"
  shows "within_budgets s'"
proof -
  from ok obtain c p fo where "account s (acc_id a) = Inr c" and p: "pending_reserved s (acc_id a) [] = Inr p"
    and fo: "fixed_own s (acc_id a) = Inr fo" and absent: "map_of (security_state s) k = None"
    and fits: "int (in_quota n) \<le> sub64 (sub64 (sub64 (int (budget_of s (acc_id a))) (int (children s (acc_id a)))) (int p))
        (int (the_or0 fo))"
    and s': "s' = state_upsert k (SIntent n) s"
    by (auto simp: reserve_intent_def and_then_Inr ok_or_Inr number_Inr store_authorized_def state_insert_def
        split: if_split_asm dest!: allocated_to_Inr)
  then have root: "acc_id a \<noteq> ''__root__''" using w by (simp add: account_not_root)
  have room: "children s (acc_id a) + p + own_bytes s (acc_id a) + in_quota n \<le> budget_of s (acc_id a)"
    using left_of_budget [OF w root p] fits unfolding fixed_own_Inr [OF fo] by simp
  have p': "pend s (acc_id a) = p" using p by (auto dest!: pending_reserved_Inr)
  have d: "distinct (map fst (security_state s))" using w by (simp add: within_budgets_def)
  note up = intent_upsert [OF absent d own, folded s']
  have "children s i + pend s' i + own_bytes s' i \<le> budget_of s i" if "i \<noteq> ''__root__''" for i
    using up(1,2) [of i] room p' w that by (cases "i = acc_id a") (fastforce simp: within_budgets_def)+
  moreover have "pend s' ''__root__'' \<le> pend s ''__root__''"
    using up(1) [of "''__root__''"] root by (simp split: if_split_asm)
  ultimately show ?thesis using w up(9) unfolding within_budgets_def up(3-8) by simp
qed

lemma reserve_admin_intent_within:
  assumes w: "within_budgets s" and ok: "reserve_admin_intent s k n = Inr s'" and own: "in_owner n = ''__root__''"
  shows "within_budgets s'"
proof -
  from ok obtain p where p: "pending_reserved s ''__root__'' [] = Inr p" and absent: "map_of (security_state s) k = None"
    and fits: "int (in_quota n) \<le> sub64 (sub64 (int (quota_pool s)) (int (budgets s))) (int p)"
    and s': "s' = state_upsert k (SIntent n) s"
    by (auto simp: reserve_admin_intent_def and_then_Inr number_Inr state_insert_def split: if_split_asm dest!: delegated_Inr)
  have room: "budgets s + p + in_quota n \<le> quota_pool s" using left_of_pool [OF w p] fits by simp
  have p': "pend s ''__root__'' = p" using p by (auto dest!: pending_reserved_Inr)
  have d: "distinct (map fst (security_state s))" using w by (simp add: within_budgets_def)
  note up = intent_upsert [OF absent d own, folded s']
  have "children s i + pend s' i + own_bytes s' i \<le> budget_of s i" if "i \<noteq> ''__root__''" for i
    using up(1,2) [of i] w that by (fastforce simp: within_budgets_def)
  moreover have "budgets s + pend s' ''__root__'' \<le> quota_pool s"
    using up(1) [of "''__root__''"] room p' by simp
  ultimately show ?thesis using w up(9) unfolding within_budgets_def up(3-8) by simp
qed

text \<open>One row changes its quota.\<close>

lemma children_changed:
  assumes "distinct (map row_id (accounts s))" "r \<in> set (accounts s)" "row_id r = i" "row_owner_admin_id r = Some own"
    and "s' = s\<lparr>accounts := map (\<lambda>r. if row_id r = i then g r else r) (accounts s)\<rparr>"
    and "row_owner_admin_id (g r) = Some own" "the_or0 (row_quota_bytes (g r)) = b"
  shows "children s' j + (if j = own then the_or0 (row_quota_bytes r) else 0) = children s j + (if j = own then b else 0)"
proof -
  have "sum_list (map (\<lambda>r. the_or0 (row_quota_bytes r)) (filter (\<lambda>r. row_owner_admin_id r = Some j)
           (map (\<lambda>r. if row_id r = i then g r else r) rs))) + (if j = own then the_or0 (row_quota_bytes r) else 0)
      = sum_list (map (\<lambda>r. the_or0 (row_quota_bytes r)) (filter (\<lambda>r. row_owner_admin_id r = Some j) rs))
         + (if j = own then b else 0)"
    if "distinct (map row_id rs)" "r \<in> set rs" for rs
    using that
  proof (induction rs)
    case (Cons q rs)
    show ?case
    proof (cases "q = r")
      case True
      then have "map (\<lambda>r. if row_id r = i then g r else r) rs = rs"
        using Cons.prems(1) assms(3) by (intro map_idI) (auto simp: image_iff)
      with True assms(3,4,6,7) show ?thesis by simp
    next
      case False
      with Cons.prems assms(3) have "row_id q \<noteq> i" "r \<in> set rs" by (auto simp: image_iff)
      with Cons show ?thesis by auto
    qed
  qed simp
  from this [OF assms(1,2)] show ?thesis by (simp add: children_def assms(5))
qed

lemma set_child_quota_within:
  assumes w: "within_budgets s" and ok: "set_child_quota_with cb now s a i g b = Inr (x, s')"
  shows "within_budgets s'"
proof -
  from ok obtain r own p fo tm where r: "find_row s i = Some r" and kind: "row_owner_admin_id r = Some own"
    and p: "pending_reserved s own [] = Inr p" and fo: "fixed_own s own = Inr fo"
    and fits: "int b \<le> sub64 (sub64 (int (budget_of s own)) (sub64 (int (children s own + p)) (int (the_or0 (row_quota_bytes r)))))
        (int (the_or0 fo))"
    and bump: "update_bumping (\<lambda>r. row_id r = i) (\<lambda>r. r\<lparr>row_quota_bytes := Some b, row_updated_at := tm\<rparr>)
      (state_upsert (quota_sync_key i) (SSync i) s) = Inr s'"
    by (auto simp: set_child_quota_with_def and_then_Inr ok_or_Inr number_Inr add64_Some Let_def account_def row_account_def
        split: if_split_asm dest!: allocated_to_Inr)
  let ?s1 = "state_upsert (quota_sync_key i) (SSync i) s"
  have w1: "within_budgets ?s1" by (rule frugal_within [OF w frugal_upsert]) simp
  from r have mem: "r \<in> set (accounts s)" "row_id r = i" by (auto simp: find_row_def find_Some_iff)
  let ?g = "\<lambda>r. r\<lparr>row_quota_bytes := Some b, row_updated_at := tm, row_generation := row_generation r + 1\<rparr>"
  have s': "s' = ?s1\<lparr>accounts := map (\<lambda>r. if row_id r = i then ?g r else r) (accounts ?s1)\<rparr>"
    using bump by (auto simp: update_bumping_def split: if_split_asm)
  have ch: "children s' j + (if j = own then the_or0 (row_quota_bytes r) else 0) = children ?s1 j + (if j = own then b else 0)" for j
    using w1 by (intro children_changed [OF _ _ mem(2) kind s'])
      (simp_all add: mem within_budgets_def state_upsert_def kind the_or0_def)
  have same: "children ?s1 = children s" "budget_of ?s1 = budget_of s" "own_bytes ?s1 = own_bytes s"
    by (auto simp: children_def budget_of_def own_bytes_def fixed_own_def state_upsert_def own_quota_key_def quota_sync_key_def fun_eq_iff)
  have same': "budgets s' = budgets ?s1" "pend s' = pend ?s1" "own_bytes s' = own_bytes ?s1" "budget_of s' = budget_of ?s1"
    "quota_pool s' = quota_pool ?s1" "security_state s' = security_state ?s1" "admin_budgets s' = admin_budgets ?s1"
    "map row_id (accounts s') = map row_id (accounts ?s1)"
    unfolding s' by (auto simp: budgets_def pend_def own_bytes_def fixed_own_def budget_of_def fun_eq_iff comp_def)
  have ids: "row_id ` set (accounts s') = row_id ` set (accounts ?s1)" using same'(8) by (metis list.set_map)
  have "children s' j + pend s' j + own_bytes s' j \<le> budget_of s' j" if j: "j \<noteq> ''__root__''" for j
  proof (cases "j = own")
    case False
    then have "children s' j = children ?s1 j" using ch [of j] by simp
    with w1 j show ?thesis unfolding same'(1-7) by (simp add: within_budgets_def)
  next
    case True
    have old: "the_or0 (row_quota_bytes r) \<le> children s own"
      using sum_member_le [of r "filter (\<lambda>r. row_owner_admin_id r = Some own) (accounts s)" "\<lambda>r. the_or0 (row_quota_bytes r)"]
        mem kind by (simp add: children_def)
    have p': "pend s own = p" using p by (auto dest!: pending_reserved_Inr)
    have le: "children s own + p + own_bytes s own \<le> budget_of s own" "budget_of s own \<le> I64_MAX"
      using w j True p' budget_of_le [of s own] by (fastforce simp: within_budgets_def)+
    then have room: "b + children s own + p + own_bytes s own \<le> budget_of s own + the_or0 (row_quota_bytes r)"
      using fits old unfolding fixed_own_Inr [OF fo] by (simp add: sub64_exact)
    have "pend ?s1 own \<le> p"
      using frugal_upsert [of "quota_sync_key i" "SSync i" s] w p' by (auto simp: frugal_def within_budgets_def)
    then show ?thesis using ch [of own] room old True unfolding same' same by simp
  qed
  then show ?thesis
    using w1 unfolding within_budgets_def same'(1-7) same'(8) ids by simp
qed

subsection \<open>Creation\<close>

lemma insert_account_Inr:
  "insert_account r s = Inr s' \<Longrightarrow> s' = s\<lparr>accounts := accounts s @ [r]\<rparr> \<and> row_id r \<notin> row_id ` set (accounts s)"
  by (auto simp: insert_account_def list_ex_iff image_iff split: if_split_asm)

lemma insert_budget_Inr:
  "insert_budget i b s = Inr s' \<Longrightarrow> s' = s\<lparr>admin_budgets := admin_budgets s @ [(i, b)]\<rparr> \<and> map_of (admin_budgets s) i = None"
  by (auto simp: insert_budget_def split: if_split_asm)

lemma frugal_set_hash: "frugal s (set_hash i h s)"
  unfolding set_hash_def by (rule frugal_rows) simp

text \<open>An account with a new identifier, and a budget for it, before anything is charged.\<close>

lemma added_account:
  assumes ins: "insert_account r s = Inr s1" and rid: "row_id r = f"
    and bud: "(case rb of None \<Rightarrow> Inr s1 | Some b \<Rightarrow> and_then (number b) (\<lambda>n. insert_budget f n s1)) = Inr s2"
  shows "accounts s2 = accounts s @ [r]" "security_state s2 = security_state s" "quota_pool s2 = quota_pool s"
    "children s2 j = children s j + (if row_owner_admin_id r = Some j then the_or0 (row_quota_bytes r) else 0)"
    "budgets s2 = budgets s + the_or0 rb" "budget_of s j \<le> budget_of s2 j" "pend s2 j = pend s j" "own_bytes s2 j = own_bytes s j"
    "distinct (map fst (admin_budgets s)) \<Longrightarrow> distinct (map fst (admin_budgets s2))"
    "f \<notin> row_id ` set (accounts s)"
proof -
  have s1: "s1 = s\<lparr>accounts := accounts s @ [r]\<rparr>" and new: "f \<notin> row_id ` set (accounts s)"
    using insert_account_Inr [OF ins] rid by auto
  have s2: "s2 = s1\<lparr>admin_budgets := admin_budgets s @ (case rb of None \<Rightarrow> [] | Some b \<Rightarrow> [(f, b)])\<rparr>"
    and absent: "rb \<noteq> None \<Longrightarrow> map_of (admin_budgets s) f = None"
    using bud s1 by (auto simp: and_then_Inr number_Inr split: option.splits dest!: insert_budget_Inr)
  show "accounts s2 = accounts s @ [r]" "security_state s2 = security_state s" "quota_pool s2 = quota_pool s"
    by (simp_all add: s1 s2)
  then show "children s2 j = children s j + (if row_owner_admin_id r = Some j then the_or0 (row_quota_bytes r) else 0)"
    "pend s2 j = pend s j" "own_bytes s2 j = own_bytes s j"
    by (simp_all add: children_def pend_def own_bytes_def fixed_own_def)
  show "budgets s2 = budgets s + the_or0 rb"
    by (cases rb) (simp_all add: s2 budgets_def the_or0_def)
  show "budget_of s j \<le> budget_of s2 j"
    using absent by (cases rb) (auto simp: s2 budget_of_def map_add_def split: option.splits)
  show "distinct (map fst (admin_budgets s)) \<Longrightarrow> distinct (map fst (admin_budgets s2))"
    using absent by (cases rb) (auto simp: s2 map_of_eq_None_iff)
  show "f \<notin> row_id ` set (accounts s)" by (rule new)
qed

text \<open>The rest of the transaction: the password, and the intent that is closed.\<close>

lemma closed_account:
  assumes hash: "(case hash of None \<Rightarrow> Inr s2
      | Some h \<Rightarrow> if c then state_insert (password_change_key i) (SText ''1'') (set_hash i h s2) else Inr (set_hash i h s2)) = Inr s3"
    and s4: "s4 = (case req of None \<Rightarrow> s3 | Some (k, n) \<Rightarrow> state_upsert k (SIntent (n\<lparr>in_account_id := Some f\<rparr>)) s3)"
    and d: "distinct (map fst (security_state s2))"
  shows "frugal s2 s4" "pend s4 j + held s2 (case req of None \<Rightarrow> [] | Some (k, _) \<Rightarrow> k) j \<le> pend s2 j"
proof -
  have f3: "frugal s2 s3"
    using hash by (auto split: option.splits if_split_asm intro: frugal_refl frugal_set_hash elim!: frugal_inserted)
  have kept: "held s2 k j \<le> held s3 k j" for k
    using hash by (auto simp: held_def state_insert_def state_upsert_def set_hash_def split: option.splits if_split_asm)
  have d3: "distinct (map fst (security_state s3))" "pend s3 j \<le> pend s2 j"
    using f3 d by (auto simp: frugal_def)
  have "frugal s3 s4 \<and> pend s4 j + held s3 (case req of None \<Rightarrow> [] | Some (k, _) \<Rightarrow> k) j \<le> pend s3 j"
  proof (cases req)
    case None
    then show ?thesis by (simp add: s4 frugal_refl)
  next
    case (Some kn)
    obtain k n where kn: "kn = (k, n)" by (cases kn)
    let ?v = "SIntent (n\<lparr>in_account_id := Some f\<rparr>)"
    have up: "pend (state_upsert k ?v s3) m + held s3 k m = pend s3 m" for m
      using pend_upsert [OF d3(1), of k ?v m] by (simp add: reserves_def)
    have "own_bytes (state_upsert k ?v s3) m \<le> own_bytes s3 m" for m
      by (simp add: own_bytes_def fixed_own_def state_upsert_def)
    then have "frugal s3 (state_upsert k ?v s3)"
      using up d3(1) by (simp add: frugal_def state_upsert_def children_def distinct_update) (metis le_add1)
    with up [of j] show ?thesis by (simp add: s4 Some kn)
  qed
  with f3 kept [of "case req of None \<Rightarrow> [] | Some (k, _) \<Rightarrow> k"] d3(2)
  show "frugal s2 s4" "pend s4 j + held s2 (case req of None \<Rightarrow> [] | Some (k, _) \<Rightarrow> k) j \<le> pend s2 j"
    by (auto intro: frugal_trans)
qed

lemma owner_allows_room:
  assumes "within_budgets s" "owner_allows s own_id q k = Inr ()"
  shows "\<exists>own v. own_id = Some own \<and> own \<noteq> ''__root__'' \<and> q = Some v
    \<and> children s own + v + pend s own + own_bytes s own \<le> budget_of s own + held s k own"
proof -
  from assms(2) obtain v own a p fo where v: "q = Some v" "own_id = Some own" "account s own = Inr a"
    and p: "pending_reserved s own k = Inr p" and fo: "fixed_own s own = Inr fo"
    and b: "map_of (admin_budgets s) own \<noteq> None"
    and fits: "int v \<le> sub64 (sub64 (sub64 (int (budget_of s own)) (int (children s own))) (int p)) (int (the_or0 fo))"
    by (auto simp: owner_allows_def and_then_Inr ok_or_Inr number_Inr budget_of_def split: option.splits if_split_asm
        dest!: allocated_to_Inr)
  have root: "own \<noteq> ''__root__''" using assms(1) v(3) by (simp add: account_not_root)
  from fits left_of_budget [OF assms(1) root p] pending_held [OF assms(1) p]
  have "children s own + v + pend s own + own_bytes s own \<le> budget_of s own + held s k own"
    unfolding fixed_own_Inr [OF fo] by simp
  with v root show ?thesis by blast
qed

lemma root_budget_room:
  assumes "within_budgets s" "root_budget s new req = Inr rb"
  shows "budgets s + the_or0 rb + pend s ''__root__'' \<le> quota_pool s + held s (case req of None \<Rightarrow> [] | Some (k, _) \<Rightarrow> k) ''__root__''"
proof -
  have "budgets s + pend s ''__root__'' \<le> quota_pool s" using assms(1) by (simp add: within_budgets_def)
  moreover {
    fix k n p
    assume "pending_reserved s ''__root__'' k = Inr p"
      and "\<not> sub64 (sub64 (int (quota_pool s)) (int (budgets s))) (int p) < int (in_quota n)"
    with left_of_pool [OF assms(1)] pending_held [OF assms(1), of "''__root__''" k p]
    have "budgets s + in_quota n + pend s ''__root__'' \<le> quota_pool s + held s k ''__root__''" by fastforce
  }
  ultimately show ?thesis
    using assms(2) unfolding root_budget_def
    by (auto simp: and_then_Inr number_Inr the_or0_def split: if_split_asm option.splits dest!: delegated_Inr)
qed

lemma create_record_within:
  assumes w: "within_budgets s" and ok: "create_record fresh now s a new h req = Inr (x, s')" and fresh: "fresh \<noteq> ''__root__''"
  shows "within_budgets s'"
proof -
  let ?k = "case req of None \<Rightarrow> [] | Some (k, _) \<Rightarrow> k"
  from ok obtain caller rb tm s1 s2 s3 where allowed: "creation_allowed s caller new req = Inr ()"
    and rb: "root_budget s new req = Inr rb" and ins: "insert_account (new_row fresh new tm) s = Inr s1"
    and bud: "(case rb of None \<Rightarrow> Inr s1 | Some b \<Rightarrow> and_then (number b) (\<lambda>n. insert_budget fresh n s1)) = Inr s2"
    and hash: "(case h of None \<Rightarrow> Inr s2 | Some h \<Rightarrow> if caller \<noteq> None
        then state_insert (password_change_key fresh) (SText ''1'') (set_hash fresh h s2) else Inr (set_hash fresh h s2)) = Inr s3"
    and s': "s' = (case req of None \<Rightarrow> s3 | Some (k, n) \<Rightarrow> state_upsert k (SIntent (n\<lparr>in_account_id := Some fresh\<rparr>)) s3)"
    by (auto simp: create_record_def and_then_Inr Let_def split: if_split_asm)
  let ?r = "new_row fresh new tm"
  have rid: "row_id ?r = fresh" by (simp add: new_row_def)
  note add = added_account [OF ins rid bud]
  have d: "distinct (map fst (security_state s2))" using w by (simp add: add(2) within_budgets_def)
  note cl = closed_account [OF hash s' d]
  have held: "held s2 ?k j = held s ?k j" for j by (simp add: held_def add(2))
  have room: "children s j + (if row_owner_admin_id ?r = Some j then the_or0 (row_quota_bytes ?r) else 0) + pend s j + own_bytes s j
      \<le> budget_of s j + held s ?k j" if "j \<noteq> ''__root__''" for j
  proof (cases "na_kind new = Virtual \<and> na_role new = User")
    case True
    with allowed have "owner_allows s (na_owner_admin_id new) (na_quota_bytes new) ?k = Inr ()"
      by (auto simp: creation_allowed_def split: if_split_asm)
    from owner_allows_room [OF w this] w that show ?thesis
      by (auto simp: new_row_def the_or0_def within_budgets_def intro: trans_le_add1)
  next
    case False
    with allowed have "na_owner_admin_id new = None"
      by (cases "na_kind new"; cases "na_role new") (auto simp: creation_allowed_def split: if_split_asm)
    with w that show ?thesis by (auto simp: new_row_def within_budgets_def intro: trans_le_add1)
  qed
  have fr: "children s' j \<le> children s2 j" "own_bytes s' j \<le> own_bytes s2 j" "budgets s' = budgets s2" "budget_of s' j = budget_of s2 j"
    for j using cl(1) d by (auto simp: frugal_def budgets_def budget_of_def)
  have "children s' j + pend s' j + own_bytes s' j \<le> budget_of s' j" if "j \<noteq> ''__root__''" for j
    using room [OF that] fr(1,2,4) [of j] cl(2) [of j] add(4,6,7,8) [of j] held [of j] by linarith
  moreover have "budgets s' + pend s' ''__root__'' \<le> quota_pool s'"
    using root_budget_room [OF w rb] cl(2) [of "''__root__''"] add(5) add(7) [of "''__root__''"] held [of "''__root__''"]
      fr(3) cl(1) add(3) by (simp add: frugal_def)
  moreover have "map row_id (accounts s') = map row_id (accounts s) @ [fresh]"
    using cl(1) by (simp add: frugal_def add(1) rid)
  moreover from this have "row_id ` set (accounts s') = insert fresh (row_id ` set (accounts s))"
    by (metis list.set_map list.simps(15) set_append empty_set Un_insert_right sup_bot_right)
  moreover have "distinct (map fst (security_state s'))" "distinct (map fst (admin_budgets s'))" "quota_pool s' = quota_pool s"
    using cl(1) d add(9) w add(3) by (auto simp: frugal_def within_budgets_def)
  ultimately show ?thesis
    using w fresh add(10) unfolding within_budgets_def by (simp add: rid)
qed

lemma unowned_account_within:
  assumes w: "within_budgets s" and ins: "insert_account r s = Inr s1" and r: "row_owner_admin_id r = None" "row_id r \<noteq> ''__root__''"
  shows "within_budgets s1"
proof -
  note add = added_account [OF ins HOL.refl, of None s1, simplified]
  have "admin_budgets s1 = admin_budgets s" using insert_account_Inr [OF ins] by simp
  then have "budget_of s1 = budget_of s" "budgets s1 = budgets s" by (simp_all add: budget_of_def budgets_def fun_eq_iff)
  then show ?thesis using w r add(10) unfolding within_budgets_def
    by (simp add: add(1-3) add(4,7,8) \<open>admin_budgets s1 = admin_budgets s\<close>)
qed

lemma complete_enrollment_within:
  assumes w: "within_budgets s" and ok: "complete_enrollment uuid sha ar fresh s t c e pw at = Inr (x, s')" and "fresh \<noteq> ''__root__''"
  shows "within_budgets s'"
proof -
  from ok obtain es i s2 h tm where pick: "(case find_username (s\<lparr>enrollment := es\<rparr>) (ei_username e) of
         Some target \<Rightarrow> if \<not> enrollable target e \<or> acc_password_enrolled target \<and> acc_status target \<noteq> AccountStatus.Revoked
                         then Inl Forbidden else Inr (acc_id target, s\<lparr>enrollment := es\<rparr>)
       | None \<Rightarrow> if \<not> utf8_valid (ei_home e) then Inl InvalidInput
           else and_then (insert_account (enrolled_row fresh e tm) (s\<lparr>enrollment := es\<rparr>)) (\<lambda>s2. Inr (fresh, s2))) = Inr (i, s2)"
    and bump: "update_bumping (\<lambda>r. row_id r = i)
                     (\<lambda>r. r\<lparr>row_web_password_hash := Some h, row_status := Active, row_login_enabled := True,
                            row_deny_enrollment := False, row_updated_at := tm\<rparr>) s2 = Inr s'"
    unfolding complete_enrollment_def by (auto simp: and_then_Inr Let_def split: if_split_asm)
  have "within_budgets (s\<lparr>enrollment := es\<rparr>)" by (rule frugal_within [OF w frugal_tables]) simp_all
  with pick have "within_budgets s2"
    using assms(3) by (auto simp: and_then_Inr enrolled_row_def new_row_def split: option.splits if_split_asm
        intro: unowned_account_within)
  moreover have "frugal s2 s'" using bump by (rule frugal_bumping) simp
  ultimately show ?thesis by (rule frugal_within)
qed

lemma create_enrolled_within:
  "within_budgets s \<Longrightarrow> create_enrolled ar fresh now s a new pw req = Inr (x, s') \<Longrightarrow> fresh \<noteq> ''__root__'' \<Longrightarrow> within_budgets s'"
  unfolding create_enrolled_def by (auto simp: and_then_Inr intro: create_record_within)

lemma finish_provision_within:
  "within_budgets s \<Longrightarrow> fresh \<noteq> ''__root__'' \<Longrightarrow>
     within_budgets (fst (finish_provision os ar fresh now au k n ro own q pw s intent))"
  unfolding finish_provision_def by (auto split: sum.splits simp: and_then_Inr intro: create_enrolled_within)

lemma new_provision_within:
  assumes "within_budgets s"
  shows "within_budgets (fst (new_provision os cfg s a k n q parent))"
proof -
  have "within_budgets s1" if "allocate (os_free_id os) (os_blocked os) cfg s = Inr (u, s1)" for u s1
    by (rule frugal_within [OF assms frugal_allocate [OF that]])
  moreover have "within_budgets s2" if "within_budgets s1" "reserve_intent s1 a k (new_intent (acc_id a) n q u) = Inr s2" for s1 s2 u
    by (rule reserve_intent_within [OF that]) (simp add: new_intent_def)
  ultimately show ?thesis
    using assms by (auto simp: new_provision_def and_then_Inr split: sum.splits prod.splits if_split_asm)
qed

lemma new_admin_intent_within:
  assumes "within_budgets s"
  shows "within_budgets (fst (new_admin_intent os cfg s k n q))"
proof -
  have "within_budgets s1" if "allocate (os_free_id os) (os_blocked os) cfg s = Inr (u, s1)" for u s1
    by (rule frugal_within [OF assms frugal_allocate [OF that]])
  moreover have "within_budgets s2" if "within_budgets s1" "reserve_admin_intent s1 k (new_intent ''__root__'' n q u) = Inr s2" for s1 s2 u
    by (rule reserve_admin_intent_within [OF that]) (simp add: new_intent_def)
  ultimately show ?thesis
    using assms by (auto simp: new_admin_intent_def and_then_Inr split: sum.splits prod.splits)
qed

lemma provision_within:
  assumes "within_budgets s" "fresh \<noteq> ''__root__''"
  shows "within_budgets (fst (provision uuid jl os ar fresh now cfg s a n q pw req))"
proof -
  have new: "within_budgets s1" if "new_provision os cfg s a k n q parent = (s1, r)" for s1 r k parent
    using new_provision_within [OF assms(1), of os cfg a k n q parent] that by simp
  note fin = finish_provision_within [OF _ assms(2)]
  show ?thesis
    using assms(1) unfolding provision_def
    by (auto simp: Let_def split: sum.splits prod.splits option.splits intro: fin dest: new)
qed

lemma create_admin_within:
  assumes "within_budgets s" "fresh \<noteq> ''__root__''"
  shows "within_budgets (fst (create_admin uuid jl os ar fresh now cfg s n q pw req))"
proof -
  have new: "within_budgets s1" if "new_admin_intent os cfg s k n q = (s1, r)" for s1 r k
    using new_admin_intent_within [OF assms(1), of os cfg k n q] that by simp
  note fin = finish_provision_within [OF _ assms(2)]
  show ?thesis
    using assms(1) unfolding create_admin_def
    by (auto split: sum.splits prod.splits option.splits intro: fin dest: new)
qed

lemma set_quota_within:
  assumes "within_budgets s"
  shows "within_budgets (fst (set_quota os now cfg s a t g b))"
proof -
  have "within_budgets s1" if "set_child_quota_with cb now s a i g b = Inr (x, s1)" for cb i x s1
    by (rule set_child_quota_within [OF assms that])
  then show ?thesis
    using assms unfolding set_quota_def by (auto split: sum.split prod.split intro: frugal_within [OF _ frugal_delete])
qed

lemma set_budget_within:
  assumes "within_budgets s"
  shows "within_budgets (fst (set_budget os cfg s i b))"
proof -
  have "within_budgets s1" if "set_admin_budget_with cb s Root i b = Inr s1" for cb s1
    by (rule set_admin_budget_within [OF assms that])
  then show ?thesis
    using assms unfolding set_budget_def by (auto simp: and_then_Inr split: sum.split if_split_asm)
qed

lemma set_own_quota_within:
  assumes "within_budgets s"
  shows "within_budgets (fst (set_own_quota os now cfg s i b))"
proof -
  have "within_budgets s1" if "set_admin_own_with cb now s Root i b = Inr s1" for cb s1
    by (rule set_admin_own_within [OF assms that])
  then show ?thesis
    using assms unfolding set_own_quota_def
    by (auto simp: and_then_Inr split: sum.split if_split_asm intro: frugal_within [OF _ frugal_delete])
qed

section \<open>Every operation keeps the budgets\<close>

lemma committed_within: "within_budgets s \<Longrightarrow> (\<And>s'. r = Inr s' \<Longrightarrow> within_budgets s') \<Longrightarrow> within_budgets (committed s r)"
  by (cases r) (simp_all add: committed_def)

lemma committed_snd_within:
  "within_budgets s \<Longrightarrow> (\<And>x s'. r = Inr (x, s') \<Longrightarrow> within_budgets s') \<Longrightarrow> within_budgets (committed_snd s r)"
  by (cases r) (auto simp: committed_snd_def)

text \<open>A transaction whose changes are frugal, or one that keeps the budgets by itself.\<close>

lemmas frugal_op = frugal_set_panel_scope frugal_set_role frugal_invalidate frugal_copy_admin_credentials
  frugal_require_password_change frugal_set_password frugal_transition frugal_set_policy frugal_issue_grant frugal_revoke_grant
  frugal_begin_enrollment frugal_reserve_login frugal_begin_purge frugal_finish_purge

lemmas within_op = create_record_within create_enrolled_within set_pool_within set_admin_budget_within set_admin_own_within
  complete_enrollment_within set_child_quota_within

lemma exec_within:
  assumes w: "within_budgets s" and fresh: "\<And>f. fresh_id op' = Some f \<Longrightarrow> f \<noteq> ''__root__''"
  shows "within_budgets (exec ev op' s)"
proof -
  note frug = frugal_within [OF w]
  show ?thesis
  proof (cases op')
    case (Create f now a new)
    then have "f \<noteq> ''__root__''" using fresh by simp
    then show ?thesis unfolding Create exec.simps create_def
      by (blast intro: committed_snd_within [OF w] create_record_within [OF w])
  next
    case (CreateEnrolled f now a new pw req)
    then have "f \<noteq> ''__root__''" using fresh by simp
    then show ?thesis unfolding CreateEnrolled exec.simps
      by (blast intro: committed_snd_within [OF w] create_enrolled_within [OF w])
  next
    case (CompleteEnrollment f t c e pw at)
    then have "f \<noteq> ''__root__''" using fresh by simp
    then show ?thesis unfolding CompleteEnrollment exec.simps
      by (blast intro: committed_snd_within [OF w] complete_enrollment_within [OF w])
  qed (simp_all only: exec.simps fresh_id.simps,
      ((rule committed_within [OF w] committed_snd_within [OF w], erule frugal_op [THEN frug] within_op [OF w])
        | (use w fresh in \<open>simp add: provision_within create_admin_within set_quota_within set_budget_within set_own_quota_within
             frug [OF frugal_finish_login] frug [OF frugal_cancel_pending]\<close>))+)
qed

lemma initial_within: "within_budgets (initial_store dummy)"
  by (simp add: within_budgets_def initial_store_def budgets_def pend_def reserves_def intent_pattern_def children_def
      own_bytes_def fixed_own_def own_quota_key_def budget_of_def ascii_lower_def)

interpretation budgets_kept: kept_by_steps "exec ev" "\<lambda>op'. \<forall>f. fresh_id op' = Some f \<longrightarrow> f \<noteq> ''__root__''" within_budgets for ev
  by unfold_locales (auto intro: exec_within)

lemma exec_all_within:
  "within_budgets s \<Longrightarrow> \<forall>op' \<in> set ops. \<forall>f. fresh_id op' = Some f \<longrightarrow> f \<noteq> ''__root__'' \<Longrightarrow> within_budgets (exec_all ev ops s)"
  unfolding exec_all_def by (rule budgets_kept.run_keeps)

text \<open>C11: Whatever sequence of operations is applied to a new account store, by whom and with which outcomes, the
  budgets handed to administrators and the budgets promised to pending creations of administrators fit the
  pool, and what an administrator has handed to its accounts, has promised to pending creations and keeps for
  itself fits its budget. New identifiers are UUIDs, never the reserved owner \<open>__root__\<close>.\<close>

theorem budgets_never_exceeded:
  assumes "\<forall>op' \<in> set ops. \<forall>f. fresh_id op' = Some f \<longrightarrow> f \<noteq> ''__root__''"
  shows "let s = exec_all ev ops (initial_store dummy) in budgets s + pend s ''__root__'' \<le> quota_pool s
    \<and> (\<forall>i. i \<noteq> ''__root__'' \<longrightarrow> children s i + pend s i + own_bytes s i \<le> budget_of s i)"
  using exec_all_within [OF initial_within assms(1)] by (simp add: Let_def within_budgets_def)

definition example_new :: "string \<Rightarrow> nat \<Rightarrow> Role \<Rightarrow> string option \<Rightarrow> nat option \<Rightarrow> NewAccount" where
  "example_new n u ro own q =
     \<lparr>na_username = n, na_uid = u, na_gid = u, na_home = ''/home/'' @ n, na_kind = Virtual, na_role = ro,
      na_owner_admin_id = own, na_quota_bytes = q\<rparr>"

definition example_ops :: "AccountOp list" where
  "example_ops =
     [SetPool Root 100, Create ''id1'' 5 Root (example_new ''ada'' 3001 Admin None None),
      SetAdminBudget (\<lambda>_. Inr ()) Root ''id1'' 60,
      Create ''id2'' 6 (Account_authority ''id1'' 1) (example_new ''bob'' 3002 User (Some ''id1'') (Some 40)),
      Create ''id3'' 7 (Account_authority ''id1'' 1) (example_new ''cyd'' 3003 User (Some ''id1'') (Some 30))]"

definition account_env :: Env where
  "account_env = \<lparr>ev_uuid = Some, ev_sha = id,
     ev_argon = \<lparr>argon_hash = Some, argon_parse = (\<lambda>_. None), argon_verify = (=)\<rparr>, ev_json_len = (\<lambda>_. 0)\<rparr>"

definition example_rows :: "AccountRow list" where
  "example_rows = [new_row ''id1'' (example_new ''ada'' 3001 Admin None None) 5,
     new_row ''id2'' (example_new ''bob'' 3002 User (Some ''id1'') (Some 40)) 6]"

definition account_example :: "nat \<Rightarrow> nat \<Rightarrow> (string \<times> nat) list \<Rightarrow> Store" where
  "account_example pool n bs = (initial_store ''x'')\<lparr>quota_pool := pool, accounts := take n example_rows, admin_budgets := bs\<rparr>"

lemmas example_defs = account_example_def example_rows_def initial_store_def example_new_def new_row_def committed_def
  committed_snd_def and_then_def number_def I64_MAX_def account_def find_row_def row_account_def store_authorized_def
  pending_reserved_def sql_sum_def delegated_def allocated_to_def reserves_def intent_pattern_def ascii_lower_def
  fixed_own_def own_quota_key_def budget_of_def add64_def the_or0_def sub64_def ok_or_def

lemma example_utf8: "utf8_valid ''/home/ada''" "utf8_valid ''/home/bob''" "utf8_valid ''/home/cyd''"
  by code_simp+

lemma example_identity:
  "\<not> bad_identity ''ada'' 3001 3001 ''/home/ada''" "\<not> bad_identity ''bob'' 3002 3002 ''/home/bob''"
  "\<not> bad_identity ''cyd'' 3003 3003 ''/home/cyd''"
  by (simp_all add: bad_identity_def is_absolute_def path_eq_def components_def)

lemma example_steps:
  "exec ev (SetPool Root 100) (initial_store ''x'') = account_example 100 0 []"
  "exec ev (Create ''id1'' 5 Root (example_new ''ada'' 3001 Admin None None)) (account_example 100 0 []) = account_example 100 1 []"
  "exec ev (SetAdminBudget (\<lambda>_. Inr ()) Root ''id1'' 60) (account_example 100 1 []) = account_example 100 1 [(''id1'', 60)]"
  subgoal by (simp add: example_defs set_pool_def)
  subgoal by (simp add: example_defs create_def create_record_def example_identity example_utf8 creation_allowed_def root_budget_def
        insert_account_def panel_scope_key_def password_change_key_def)
  subgoal by (simp add: example_defs set_admin_budget_with_def panel_scope_key_def password_change_key_def)
  done

lemma example_children:
  "exec ev (Create ''id2'' 6 (Account_authority ''id1'' 1) (example_new ''bob'' 3002 User (Some ''id1'') (Some 40)))
     (account_example 100 1 [(''id1'', 60)]) = account_example 100 2 [(''id1'', 60)]"
  "exec ev (Create ''id3'' 7 (Account_authority ''id1'' 1) (example_new ''cyd'' 3003 User (Some ''id1'') (Some 30)))
     (account_example 100 2 [(''id1'', 60)]) = account_example 100 2 [(''id1'', 60)]"
  by (simp_all add: example_defs create_def create_record_def example_identity example_utf8 creation_allowed_def root_budget_def
        owner_allows_def insert_account_def panel_scope_key_def password_change_key_def)

lemma example_end: "exec_all account_env example_ops (initial_store ''x'') = account_example 100 2 [(''id1'', 60)]"
  by (simp add: exec_all_def example_ops_def example_steps example_children del: exec.simps One_nat_def)

theorem budgets_never_exceeded_witness:
  "let s = exec_all account_env example_ops (initial_store ''x'') in
     quota_pool s = 100 \<and> budgets s = 60 \<and> children s ''id1'' = 40
     \<and> budgets s + pend s ''__root__'' \<le> quota_pool s \<and> children s ''id1'' + pend s ''id1'' + own_bytes s ''id1'' \<le> budget_of s ''id1''"
proof -
  have "\<forall>op' \<in> set example_ops. \<forall>f. fresh_id op' = Some f \<longrightarrow> f \<noteq> ''__root__''"
    by (simp add: example_ops_def)
  from budgets_never_exceeded [OF this, of account_env "''x''"]
  have "budgets (account_example 100 2 [(''id1'', 60)]) + pend (account_example 100 2 [(''id1'', 60)]) ''__root__''
      \<le> quota_pool (account_example 100 2 [(''id1'', 60)])"
    and "children (account_example 100 2 [(''id1'', 60)]) ''id1'' + pend (account_example 100 2 [(''id1'', 60)]) ''id1''
      + own_bytes (account_example 100 2 [(''id1'', 60)]) ''id1'' \<le> budget_of (account_example 100 2 [(''id1'', 60)]) ''id1''"
    by (simp_all add: Let_def example_end)
  moreover have "quota_pool (account_example 100 2 [(''id1'', 60)]) = 100" "budgets (account_example 100 2 [(''id1'', 60)]) = 60"
      "children (account_example 100 2 [(''id1'', 60)]) ''id1'' = 40"
    by (simp_all add: example_defs budgets_def children_def)
  ultimately show ?thesis by (simp add: Let_def example_end)
qed
end
