(* ===== verification/TD_Tenants.thy ===== *)
theory TD_Tenants
  imports TD_Accounts
begin

text \<open>
  Who can change what in the account store: the authority of an account reaches itself and, for an
  administrator, its own virtual accounts; a change of an account's credentials, status, role, rules or quota
  raises its generation, and a session grant of an older generation is refused ever after.
\<close>

section \<open>How the rows evolve\<close>

text \<open>The selected rows get the next generation and keep their identity; with \<open>keep\<close>, also their role.\<close>

definition bumps :: "bool \<Rightarrow> (string \<Rightarrow> bool) \<Rightarrow> AccountRow list \<Rightarrow> AccountRow list \<Rightarrow> bool" where
  "bumps keep sel rs rs' \<longleftrightarrow>
     (\<exists>f. rs' = map (\<lambda>r. if sel (row_id r) then f r else r) rs
        \<and> (\<forall>r. row_id (f r) = row_id r \<and> row_generation (f r) = row_generation r + 1
              \<and> row_owner_admin_id (f r) = row_owner_admin_id r \<and> row_kind (f r) = row_kind r
              \<and> (keep \<longrightarrow> row_role (f r) = row_role r)))"

lemma accounts_kept [simp]:
  "accounts (state_upsert k v s) = accounts s" "accounts (state_delete k s) = accounts s"
  "accounts (forget_enrollment n s) = accounts s" "accounts (retire_uid u now s) = accounts s"
  by (simp_all add: state_upsert_def state_delete_def forget_enrollment_def retire_uid_def)

lemma accounts_inserted [simp]: "state_insert k v s = Inr s' \<Longrightarrow> accounts s' = accounts s"
  by (auto simp: state_insert_def split: if_split_asm)

lemma bumping_bumps:
  assumes "update_bumping (\<lambda>r. row_id r = i) f s1 = Inr s2" "accounts s1 = rs"
    and "\<And>r. row_id (f r) = row_id r \<and> row_owner_admin_id (f r) = row_owner_admin_id r \<and> row_kind (f r) = row_kind r
             \<and> (keep \<longrightarrow> row_role (f r) = row_role r)"
  shows "bumps keep ((=) i) rs (accounts s2)"
proof -
  have "accounts s2 = map (\<lambda>r. if i = row_id r then (f r)\<lparr>row_generation := row_generation r + 1\<rparr> else r) rs"
    using assms(1,2) by (auto simp: update_bumping_def split: if_split_asm)
  then show ?thesis unfolding bumps_def
    by (intro exI [of _ "\<lambda>r. (f r)\<lparr>row_generation := row_generation r + 1\<rparr>"]) (use assms(3) in auto)
qed

lemma bumps_set_panel_scope: "set_panel_scope now s a i g = Inr (x, s') \<Longrightarrow> bumps True ((=) i) (accounts s) (accounts s')"
  unfolding set_panel_scope_def by (auto simp: and_then_Inr Let_def split: if_split_asm elim!: bumping_bumps)

lemma bumps_set_role: "set_role now s a i ro = Inr (x, s') \<Longrightarrow> bumps False ((=) i) (accounts s) (accounts s')"
  unfolding set_role_def by (auto simp: and_then_Inr Let_def split: if_split_asm elim!: bumping_bumps)

lemma bumps_set_admin_own: "set_admin_own_with cb now s a i b = Inr s' \<Longrightarrow> bumps True ((=) i) (accounts s) (accounts s')"
  unfolding set_admin_own_with_def by (auto simp: and_then_Inr Let_def split: if_split_asm elim!: bumping_bumps)

lemma bumps_copy_admin_credentials:
  "copy_admin_credentials now s a src sg dst dg = Inr s' \<Longrightarrow> bumps True ((=) dst) (accounts s) (accounts s')"
  unfolding copy_admin_credentials_def by (auto simp: and_then_Inr Let_def split: if_split_asm elim!: bumping_bumps)

lemma bumps_require_password_change:
  "require_password_change now s a i = Inr (x, s') \<Longrightarrow> bumps True ((=) i) (accounts s) (accounts s')"
  unfolding require_password_change_def by (auto simp: and_then_Inr Let_def split: if_split_asm elim!: bumping_bumps)

lemma bumps_set_password: "set_password ar now s a i pw = Inr (x, s') \<Longrightarrow> bumps True ((=) i) (accounts s) (accounts s')"
  unfolding set_password_def by (auto simp: and_then_Inr Let_def split: if_split_asm elim!: bumping_bumps)

lemma bumps_transition: "transition_checked now s a i st d g = Inr (x, s') \<Longrightarrow> bumps True ((=) i) (accounts s) (accounts s')"
  unfolding transition_checked_def by (auto simp: and_then_Inr Let_def split: if_split_asm elim!: bumping_bumps)

lemma bumps_set_policy: "set_policy jl now s a i g l rs = Inr (x, s') \<Longrightarrow> bumps True ((=) i) (accounts s) (accounts s')"
  unfolding set_policy_def by (auto simp: and_then_Inr Let_def split: if_split_asm elim!: bumping_bumps)

lemma bumps_set_child_quota: "set_child_quota_with cb now s a i g b = Inr (x, s') \<Longrightarrow> bumps True ((=) i) (accounts s) (accounts s')"
  unfolding set_child_quota_with_def by (auto simp: and_then_Inr Let_def split: if_split_asm elim!: bumping_bumps)

lemma bumps_finish_purge: "finish_purge now s t = Inr s' \<Longrightarrow> bumps True ((=) (acc_id t)) (accounts s) (accounts s')"
  unfolding finish_purge_def by (auto simp: and_then_Inr Let_def elim!: bumping_bumps)

text \<open>All rows stay, in place, related by \<open>Q\<close>; new ones come after them.\<close>

definition evolves :: "(AccountRow \<Rightarrow> AccountRow \<Rightarrow> bool) \<Rightarrow> AccountRow list \<Rightarrow> AccountRow list \<Rightarrow> bool" where
  "evolves Q rs rs' \<longleftrightarrow> (\<exists>f new. rs' = map f rs @ new \<and> (\<forall>r \<in> set rs. row_id (f r) = row_id r \<and> Q r (f r)))"

lemma evolves_refl: "(\<And>r. Q r r) \<Longrightarrow> evolves Q rs rs"
  unfolding evolves_def by (intro exI [of _ id] exI [of _ "[]"]) simp

lemma evolves_append: "(\<And>r. Q r r) \<Longrightarrow> evolves Q rs (rs @ new)"
  unfolding evolves_def by (intro exI [of _ id] exI [of _ new]) simp

lemma evolves_trans:
  assumes "evolves Q rs rs'" "evolves Q rs' rs''" "\<And>x y z. Q x y \<Longrightarrow> Q y z \<Longrightarrow> Q x z"
  shows "evolves Q rs rs''"
proof -
  from assms(1) obtain f new where f: "rs' = map f rs @ new" "\<forall>r \<in> set rs. row_id (f r) = row_id r \<and> Q r (f r)"
    unfolding evolves_def by blast
  from assms(2) obtain g new' where g: "rs'' = map g rs' @ new'" "\<forall>r \<in> set rs'. row_id (g r) = row_id r \<and> Q r (g r)"
    unfolding evolves_def by blast
  have "rs'' = map (g \<circ> f) rs @ (map g new @ new')" by (simp add: f(1) g(1))
  moreover have "row_id ((g \<circ> f) r) = row_id r \<and> Q r ((g \<circ> f) r)" if "r \<in> set rs" for r
    using that f g(2) assms(3) by auto
  ultimately show ?thesis unfolding evolves_def by blast
qed

lemma evolves_find:
  assumes "evolves Q rs rs'" "find (\<lambda>r. row_id r = i) rs = Some r"
  shows "\<exists>r'. find (\<lambda>r. row_id r = i) rs' = Some r' \<and> Q r r'"
proof -
  from assms(1) obtain f new where f: "rs' = map f rs @ new" "\<forall>r \<in> set rs. row_id (f r) = row_id r \<and> Q r (f r)"
    unfolding evolves_def by blast
  have "find (\<lambda>r. row_id r = i) (map f rs @ new) = Some (f r)"
    using assms(2) f(2) by (induction rs) (auto split: if_split_asm)
  moreover have "r \<in> set rs" using assms(2) by (auto simp: find_Some_iff)
  ultimately show ?thesis using f by blast
qed

lemma bumps_evolves:
  assumes "bumps keep sel rs rs'"
    and "\<And>r. Q r r"
    and "\<And>r r'. sel (row_id r) \<Longrightarrow> row_id r' = row_id r \<Longrightarrow> row_generation r' = row_generation r + 1
           \<Longrightarrow> row_owner_admin_id r' = row_owner_admin_id r \<Longrightarrow> row_kind r' = row_kind r
           \<Longrightarrow> (keep \<Longrightarrow> row_role r' = row_role r) \<Longrightarrow> Q r r'"
  shows "evolves Q rs rs'"
proof -
  from assms(1) obtain f where f: "rs' = map (\<lambda>r. if sel (row_id r) then f r else r) rs"
    "\<forall>r. row_id (f r) = row_id r \<and> row_generation (f r) = row_generation r + 1
       \<and> row_owner_admin_id (f r) = row_owner_admin_id r \<and> row_kind (f r) = row_kind r
       \<and> (keep \<longrightarrow> row_role (f r) = row_role r)"
    unfolding bumps_def by blast
  show ?thesis unfolding evolves_def
    by (intro exI [of _ "\<lambda>r. if sel (row_id r) then f r else r"] exI [of _ "[]"]) (use f assms(2,3) in auto)
qed

subsection \<open>New rows\<close>

lemma set_hash_new:
  "i \<notin> row_id ` set rs \<Longrightarrow> accounts s = rs @ [r] \<Longrightarrow> row_id r = i
     \<Longrightarrow> accounts (set_hash i h s) = rs @ [r\<lparr>row_web_password_hash := Some h\<rparr>]"
  by (auto simp: set_hash_def image_iff intro!: map_idI)

lemma create_record_extends:
  assumes "create_record fresh now s a new h req = Inr (x, s')"
  shows "\<exists>r. accounts s' = accounts s @ [r] \<and> row_kind r = na_kind new \<and> row_role r = na_role new
    \<and> row_owner_admin_id r = na_owner_admin_id new"
proof -
  from assms obtain rb tm s1 s2 s3 c where ins: "insert_account (new_row fresh new tm) s = Inr s1"
    and bud: "(case rb of None \<Rightarrow> Inr s1 | Some b \<Rightarrow> and_then (number b) (\<lambda>n. insert_budget fresh n s1)) = Inr s2"
    and hash: "(case h of None \<Rightarrow> Inr s2 | Some h \<Rightarrow> if c \<noteq> (None :: Account option)
        then state_insert (password_change_key fresh) (SText ''1'') (set_hash fresh h s2) else Inr (set_hash fresh h s2)) = Inr s3"
    and s': "s' = (case req of None \<Rightarrow> s3 | Some (k, n) \<Rightarrow> state_upsert k (SIntent (n\<lparr>in_account_id := Some fresh\<rparr>)) s3)"
    by (auto simp: create_record_def and_then_Inr Let_def split: if_split_asm)
  have rid: "row_id (new_row fresh new tm) = fresh" by (simp add: new_row_def)
  note add = added_account [OF ins rid bud]
  have "accounts s' = accounts s3" by (auto simp: s' split: option.splits)
  moreover have "accounts s3 = accounts s2 \<or> (\<exists>h. accounts s3 = accounts (set_hash fresh h s2))"
    using hash by (auto split: option.splits if_split_asm)
  ultimately show ?thesis using set_hash_new [OF add(10,1) rid] add(1) by (auto simp: new_row_def)
qed

lemma create_enrolled_extends:
  "create_enrolled ar fresh now s a new pw req = Inr (x, s') \<Longrightarrow>
     \<exists>r. accounts s' = accounts s @ [r] \<and> row_kind r = na_kind new \<and> row_role r = na_role new
       \<and> row_owner_admin_id r = na_owner_admin_id new"
  by (auto simp: create_enrolled_def and_then_Inr dest!: create_record_extends)

lemma reserve_intent_accounts: "reserve_intent s a k n = Inr s' \<Longrightarrow> accounts s' = accounts s"
  by (auto simp: reserve_intent_def and_then_Inr split: if_split_asm)

lemma allocate_accounts: "allocate free_id prepared cfg s = Inr (u, s') \<Longrightarrow> accounts s' = accounts s"
  by (auto elim!: allocate_sound)

lemma new_provision_accounts: "accounts (fst (new_provision os cfg s a k n q parent)) = accounts s"
  by (auto simp: new_provision_def and_then_Inr split: sum.splits prod.splits if_split_asm
      dest!: reserve_intent_accounts allocate_accounts)

lemma new_admin_intent_accounts: "accounts (fst (new_admin_intent os cfg s k n q)) = accounts s"
  by (auto simp: new_admin_intent_def reserve_admin_intent_def and_then_Inr split: sum.splits prod.splits if_split_asm
      dest!: allocate_accounts)

lemma finish_provision_extends:
  "\<exists>new. accounts (fst (finish_provision os ar fresh now au k n ro own q pw s intent)) = accounts s @ new
     \<and> (\<forall>r \<in> set new. row_kind r = Virtual \<and> row_role r = ro \<and> row_owner_admin_id r = own)"
  by (auto simp: finish_provision_def and_then_Inr split: sum.split dest!: create_enrolled_extends)

lemma provision_extends:
  "\<exists>new. accounts (fst (provision uuid jl os ar fresh now cfg s a n q pw req)) = accounts s @ new
     \<and> (\<forall>r \<in> set new. row_kind r = Virtual \<and> row_role r = User \<and> row_owner_admin_id r = Some (acc_id a))"
proof -
  have new: "accounts s1 = accounts s" if "new_provision os cfg s a k n q parent = (s1, r)" for s1 r k parent
    using new_provision_accounts [of os cfg s a k n q parent] that by simp
  have fin: "\<exists>new. accounts (fst (finish_provision os ar fresh now au k m User (Some (acc_id a)) b pw s1 intent)) = accounts s @ new
     \<and> (\<forall>r \<in> set new. row_kind r = Virtual \<and> row_role r = User \<and> row_owner_admin_id r = Some (acc_id a))"
    if "accounts s1 = accounts s" for s1 au k m b intent
    using finish_provision_extends [of os ar fresh now au k m User "Some (acc_id a)" b pw s1 intent] that by simp
  show ?thesis unfolding provision_def
    by (auto simp: Let_def split: sum.split prod.split option.split intro: fin dest!: new)
qed

lemma create_admin_extends: "\<exists>new. accounts (fst (create_admin uuid jl os ar fresh now cfg s n q pw req)) = accounts s @ new"
proof -
  have new: "accounts s1 = accounts s" if "new_admin_intent os cfg s k n q = (s1, r)" for s1 r k
    using new_admin_intent_accounts [of os cfg s k n q] that by simp
  have fin: "\<exists>new. accounts (fst (finish_provision os ar fresh now au k m ro own b pw s1 intent)) = accounts s @ new"
    if "accounts s1 = accounts s" for s1 au k m ro own b intent
    using finish_provision_extends [of os ar fresh now au k m ro own b pw s1 intent] that by auto
  show ?thesis unfolding create_admin_def
    by (auto split: sum.split prod.split option.split intro: fin dest!: new)
qed

lemma complete_enrollment_rows:
  assumes "complete_enrollment uuid sha ar fresh s t c e pw at = Inr (x, s')"
  shows "bumps True ((=) (acc_id x)) (accounts s) (accounts s') \<or> (\<exists>r. accounts s' = accounts s @ [r])"
proof -
  from assms obtain es i s2 h tm where pick: "(case find_username (s\<lparr>enrollment := es\<rparr>) (ei_username e) of
         Some target \<Rightarrow> if \<not> enrollable target e \<or> acc_password_enrolled target \<and> acc_status target \<noteq> AccountStatus.Revoked
                         then Inl Forbidden else Inr (acc_id target, s\<lparr>enrollment := es\<rparr>)
       | None \<Rightarrow> if \<not> utf8_valid (ei_home e) then Inl InvalidInput
           else and_then (insert_account (enrolled_row fresh e tm) (s\<lparr>enrollment := es\<rparr>)) (\<lambda>s2. Inr (fresh, s2))) = Inr (i, s2)"
    and bump: "update_bumping (\<lambda>r. row_id r = i)
                     (\<lambda>r. r\<lparr>row_web_password_hash := Some h, row_status := Active, row_login_enabled := True,
                            row_deny_enrollment := False, row_updated_at := tm\<rparr>) s2 = Inr s'"
    and x: "account s' i = Inr x"
    unfolding complete_enrollment_def by (auto simp: and_then_Inr Let_def split: if_split_asm)
  have b: "bumps True ((=) i) (accounts s2) (accounts s')" using bump by (rule bumping_bumps) simp_all
  have i: "acc_id x = i" using account_Inr [OF x] by (auto simp: row_account_def)
  show ?thesis
  proof (cases "find_username (s\<lparr>enrollment := es\<rparr>) (ei_username e)")
    case (Some target)
    with pick have "accounts s2 = accounts s" by (auto split: if_split_asm)
    with b i show ?thesis by simp
  next
    case None
    with pick have s2: "accounts s2 = accounts s @ [enrolled_row fresh e tm]" "i = fresh" "fresh \<notin> row_id ` set (accounts s)"
      by (auto simp: and_then_Inr enrolled_row_def new_row_def split: if_split_asm dest!: insert_account_Inr)
    with b show ?thesis unfolding bumps_def by (auto simp: image_iff intro!: map_idI)
  qed
qed

section \<open>Generations\<close>

abbreviation older :: "AccountRow \<Rightarrow> AccountRow \<Rightarrow> bool" where
  "older r r' \<equiv> row_generation r \<le> row_generation r'"

lemma evolves_committed:
  "(\<And>r. Q r r) \<Longrightarrow> (\<And>s'. res = Inr s' \<Longrightarrow> evolves Q (accounts s) (accounts s')) \<Longrightarrow> evolves Q (accounts s) (accounts (committed s res))"
  by (cases res) (simp_all add: committed_def evolves_refl)

lemma evolves_committed_snd:
  "(\<And>r. Q r r) \<Longrightarrow> (\<And>x s'. res = Inr (x, s') \<Longrightarrow> evolves Q (accounts s) (accounts s'))
     \<Longrightarrow> evolves Q (accounts s) (accounts (committed_snd s res))"
  by (cases res) (auto simp: committed_snd_def evolves_refl)

lemma bumps_older: "bumps keep sel rs rs' \<Longrightarrow> evolves older rs rs'"
  by (erule bumps_evolves) simp_all

lemma extends_evolves: "(\<And>r. Q r r) \<Longrightarrow> \<exists>new. rs' = rs @ new \<Longrightarrow> evolves Q rs rs'"
  by (auto intro: evolves_append)

lemma same_evolves: "(\<And>r. Q r r) \<Longrightarrow> rs' = rs \<Longrightarrow> evolves Q rs rs'"
  by (simp add: evolves_refl)

lemma invalidate_bumps: "invalidate_restored_sessions fresh now s a = Inr s' \<Longrightarrow> bumps True (\<lambda>_. True) (accounts s) (accounts s')"
  unfolding bumps_def invalidate_restored_sessions_def
  by (auto simp: and_then_Inr Let_def update_bumping_def split: if_split_asm
      intro!: exI [of _ "\<lambda>r. r\<lparr>row_updated_at := now, row_generation := row_generation r + 1\<rparr>"] simp: number_Inr)

lemma plain_accounts:
  "set_pool s a b = Inr s' \<Longrightarrow> accounts s' = accounts s"
  "set_admin_budget_with cb s a i b = Inr s' \<Longrightarrow> accounts s' = accounts s"
  "issue_grant uuid fresh s i g c at l = Inr (x, s') \<Longrightarrow> accounts s' = accounts s"
  "revoke_grant s gr c at = Inr s' \<Longrightarrow> accounts s' = accounts s"
  "begin_enrollment uuid sha fresh s e c at l = Inr (y, s') \<Longrightarrow> accounts s' = accounts s"
  "reserve_login sha s u ip cfg at = Inr (z, s') \<Longrightarrow> accounts s' = accounts s"
  "begin_purge now s t = Inr s' \<Longrightarrow> accounts s' = accounts s"
  by (auto simp: set_pool_def set_admin_budget_with_def issue_grant_def insert_grant_def revoke_grant_def begin_enrollment_def
      insert_enrollment_def begin_purge_def and_then_Inr Let_def split: if_split_asm dest!: reserve_login_tables)

lemma cancel_pending_accounts: "accounts (fst (cancel_pending os now cfg s k)) = accounts s"
  by (auto simp: cancel_pending_def Let_def split: sum.split)

lemma set_budget_accounts: "accounts (fst (set_budget os cfg s i b)) = accounts s"
  by (auto simp: set_budget_def and_then_Inr split: sum.split if_split_asm dest!: plain_accounts(2))

lemma set_quota_rows:
  "accounts (fst (set_quota os now cfg s a t g b)) = accounts s
   \<or> (\<exists>cb x s1. set_child_quota_with cb now s a (acc_id t) g b = Inr (x, s1) \<and> accounts (fst (set_quota os now cfg s a t g b)) = accounts s1)"
  by (auto simp: set_quota_def split: sum.split prod.split)

lemma set_own_quota_rows:
  "accounts (fst (set_own_quota os now cfg s i b)) = accounts s
   \<or> bumps True ((=) i) (accounts s) (accounts (fst (set_own_quota os now cfg s i b)))"
  by (auto simp: set_own_quota_def and_then_Inr split: sum.split if_split_asm dest!: bumps_set_admin_own)

lemmas bumps_op = bumps_set_panel_scope bumps_set_role bumps_set_admin_own bumps_copy_admin_credentials
  bumps_require_password_change bumps_set_password bumps_transition bumps_set_policy bumps_set_child_quota bumps_finish_purge
  invalidate_bumps

lemma exec_older: "evolves older (accounts s) (accounts (exec ev op' s))"
proof -
  note same = same_evolves [of older, OF order_refl] and ext = extends_evolves [of older, OF order_refl]
  show ?thesis
  proof (cases op')
    case (CompleteEnrollment f t c e pw at)
    show ?thesis unfolding CompleteEnrollment exec.simps
      by (rule evolves_committed_snd [OF order_refl])
        (use complete_enrollment_rows in \<open>blast intro: bumps_older ext\<close>)
  next
    case (Create f now a new)
    show ?thesis unfolding Create exec.simps create_def
      by (rule evolves_committed_snd [OF order_refl]) (use create_record_extends in \<open>blast intro: ext\<close>)
  next
    case (CreateEnrolled f now a new pw req)
    show ?thesis unfolding CreateEnrolled exec.simps
      by (rule evolves_committed_snd [OF order_refl]) (use create_enrolled_extends in \<open>blast intro: ext\<close>)
  next
    case (SetQuota os now cfg a t g b)
    show ?thesis unfolding SetQuota exec.simps
      using set_quota_rows [of os now cfg s a t g b] by (auto intro: same bumps_older dest!: bumps_set_child_quota)
  next
    case (SetOwnQuota os now cfg i b)
    show ?thesis unfolding SetOwnQuota exec.simps
      using set_own_quota_rows [of os now cfg s i b] by (auto intro: same bumps_older)
  qed (simp_all only: exec.simps,
      ((rule evolves_committed [OF order_refl] evolves_committed_snd [OF order_refl],
         erule bumps_op [THEN bumps_older] plain_accounts [THEN same])
        | (simp add: same finish_login_tables cancel_pending_accounts set_budget_accounts ext create_admin_extends)
        | (use provision_extends in \<open>blast intro: ext\<close>))+)
qed

lemma exec_all_older: "evolves older (accounts s) (accounts (exec_all ev ops s))"
  unfolding exec_all_def
proof (induction ops arbitrary: s)
  case (Cons op' ops)
  have "evolves older (accounts s) (accounts (exec ev op' s))" by (rule exec_older)
  with Cons show ?case by (auto intro: evolves_trans order_trans)
qed (simp add: evolves_refl)

lemma stale_refused:
  assumes "find_row s i = Some r" "gr_account_id grant = i" "gr_generation grant < row_generation r"
  shows "\<exists>e. verify_restricted_grant s grant caller at = Inl e"
proof -
  have acc: "account s i = Inr (row_account s r)" using assms(1) by (simp add: account_def)
  have "acc_id (row_account s r) = i" using assms(1) by (auto simp: row_account_def find_row_def find_Some_iff)
  moreover have "verify_generation s i (gr_generation grant) u g = Inl Forbidden" for u g
    using assms(3) by (simp add: verify_generation_def acc row_account_def)
  ultimately have "verify_restricted_grant s grant caller at \<noteq> Inr a" for a
    using assms(2) by (auto simp: verify_restricted_grant_def and_then_Inr acc split: if_split_asm)
  then show ?thesis by (cases "verify_restricted_grant s grant caller at") auto
qed

text \<open>The account an operation changes when it takes effect.\<close>

fun changed_account :: "AccountOp \<Rightarrow> string option" where
  "changed_account (SetPanelScope now a i g) = Some i"
| "changed_account (SetRole now a i ro) = Some i"
| "changed_account (SetAdminOwn cb now a i b) = Some i"
| "changed_account (CopyAdminCredentials now a src sg dst dg) = Some dst"
| "changed_account (RequirePasswordChange now a i) = Some i"
| "changed_account (SetPassword now a i pw) = Some i"
| "changed_account (Transition now a i st d g) = Some i"
| "changed_account (SetPolicy now a i g l rs) = Some i"
| "changed_account (SetChildQuota cb now a i g b) = Some i"
| "changed_account (FinishPurge now t) = Some (acc_id t)"
| "changed_account op' = None"

lemma committed_changed: "committed s res \<noteq> s \<Longrightarrow> (\<And>s'. res = Inr s' \<Longrightarrow> P s') \<Longrightarrow> P (committed s res)"
  by (cases res) (simp_all add: committed_def)

lemma committed_snd_changed: "committed_snd s res \<noteq> s \<Longrightarrow> (\<And>x s'. res = Inr (x, s') \<Longrightarrow> P s') \<Longrightarrow> P (committed_snd s res)"
  by (cases res) (auto simp: committed_snd_def)

lemma target_bumped:
  assumes "changed_account op' = Some i" "exec ev op' s \<noteq> s"
  shows "\<exists>keep. bumps keep ((=) i) (accounts s) (accounts (exec ev op' s))"
  using assms
  by (cases op')
    (auto elim!: committed_changed committed_snd_changed dest!: bumps_op intro: exI)

lemma bumps_find:
  assumes "bumps keep ((=) i) rs rs'" "find (\<lambda>r. row_id r = i) rs = Some r"
  shows "\<exists>r'. find (\<lambda>r. row_id r = i) rs' = Some r' \<and> row_generation r' = row_generation r + 1"
proof -
  from assms(1) have "evolves (\<lambda>r r'. row_id r = i \<longrightarrow> row_generation r' = row_generation r + 1) rs rs'"
    unfolding bumps_def evolves_def
    by (elim exE conjE) (rule exI [of _ "\<lambda>r. if i = row_id r then _ r else r"], auto)
  from evolves_find [OF this assms(2)] assms(2) show ?thesis by (auto simp: find_Some_iff)
qed


definition example_grant :: SessionGrant where
  "example_grant = \<lparr>gr_nonce = ''n'', gr_account_id = ''id2'', gr_generation = 1,
     gr_caller = \<lparr>cb_uid = 990, cb_pid = 4, cb_start_time = 7, cb_boot_id = ''b''\<rparr>, gr_expires_at = 900\<rparr>"

lemma example_row2: "find_row (account_example 100 2 [(''id1'', 60)]) ''id2'' =
    Some (new_row ''id2'' (example_new ''bob'' 3002 User (Some ''id1'') (Some 40)) 6)"
  by (simp add: find_row_def account_example_def example_rows_def new_row_def)

lemma example_suspended:
  "exec account_env (Transition 9 Root ''id2'' Suspended False None) (account_example 100 2 [(''id1'', 60)])
     \<noteq> account_example 100 2 [(''id1'', 60)]"
proof -
  let ?s = "exec account_env (Transition 9 Root ''id2'' Suspended False None) (account_example 100 2 [(''id1'', 60)])"
  have "map row_generation (accounts ?s) = [1, 2]"
    by (simp add: example_defs transition_checked_def update_bumping_def forget_enrollment_def panel_scope_key_def
        password_change_key_def)
  moreover have "map row_generation (accounts (account_example 100 2 [(''id1'', 60)])) = [1, 1]"
    by (simp add: example_defs)
  ultimately show ?thesis by auto
qed


section \<open>Tenants\<close>

text \<open>The authority under which an operation runs; the others are called by the server for itself, or by root.\<close>

fun actor_of :: "AccountOp \<Rightarrow> Authority option" where
  "actor_of (SetPanelScope now a i g) = Some a"
| "actor_of (SetRole now a i ro) = Some a"
| "actor_of (Create fresh now a new) = Some a"
| "actor_of (CreateEnrolled fresh now a new pw req) = Some a"
| "actor_of (SetPool a b) = Some a"
| "actor_of (SetAdminBudget cb a i b) = Some a"
| "actor_of (SetAdminOwn cb now a i b) = Some a"
| "actor_of (InvalidateRestored fresh now a) = Some a"
| "actor_of (CopyAdminCredentials now a src sg dst dg) = Some a"
| "actor_of (RequirePasswordChange now a i) = Some a"
| "actor_of (SetPassword now a i pw) = Some a"
| "actor_of (Transition now a i st d g) = Some a"
| "actor_of (SetPolicy now a i g l rs) = Some a"
| "actor_of (SetChildQuota cb now a i g b) = Some a"
| "actor_of (Provision os fresh now cfg a n q pw req) = Some (Account_authority (acc_id a) (acc_generation a))"
| "actor_of (SetQuota os now cfg a t g b) = Some a"
| "actor_of op' = None"

text \<open>What an account governs: itself while its authority is current, and as an administrator its own virtual
  accounts.\<close>

definition governs :: "Store \<Rightarrow> string \<Rightarrow> nat \<Rightarrow> string \<Rightarrow> bool" where
  "governs s a g i \<longleftrightarrow>
     (\<exists>c. find_row s a = Some c \<and> row_generation c = g \<and> row_login_enabled c \<and> row_status c = Active
        \<and> (i = a \<or> row_role c = Admin \<and> (\<exists>r. find_row s i = Some r \<and> row_owner_admin_id r = Some a \<and> row_kind r = Virtual)))"

lemma authorized_account:
  "store_authorized s (Account_authority a g) = Inr c \<Longrightarrow> \<exists>r. c = Some (row_account s r) \<and> find_row s a = Some r \<and> row_id r = a
     \<and> row_generation r = g \<and> row_login_enabled r \<and> row_status r = Active"
  by (auto simp: store_authorized_def and_then_Inr row_account_def split: if_split_asm dest!: account_Inr)

lemma manage_governs: "manage s (Account_authority a g) t = Inr () \<Longrightarrow> account s i = Inr t \<Longrightarrow> governs s a g i"
  by (auto simp: manage_def and_then_Inr governs_def row_account_def split: if_split_asm option.splits
      dest!: authorized_account account_Inr)

lemma caller_governs:
  assumes c: "store_authorized s (Account_authority a g) = Inr c" and t: "account s i = Inr t"
    and m: "\<forall>c'. c = Some c' \<longrightarrow> acc_id c' = acc_id t \<or> manage s (Account_authority a g) t = Inr ()"
  shows "governs s a g i"
proof -
  from authorized_account [OF c] obtain r where r: "c = Some (row_account s r)" "find_row s a = Some r" "row_id r = a"
     "row_generation r = g" "row_login_enabled r" "row_status r = Active" by blast
  have i: "acc_id t = i" using account_Inr [OF t] by (auto simp: row_account_def)
  show ?thesis
  proof (cases "i = a")
    case True
    with r show ?thesis by (auto simp: governs_def)
  next
    case False
    with m r(1) i r(3) have "manage s (Account_authority a g) t = Inr ()" by (auto simp: row_account_def)
    then show ?thesis by (rule manage_governs [OF _ t])
  qed
qed

lemma own_or_managed_governs: "own_or_managed s (Account_authority a g) t = Inr () \<Longrightarrow> account s i = Inr t \<Longrightarrow> governs s a g i"
  by (subst (asm) own_or_managed_def) (auto simp: and_then_Inr intro!: caller_governs split: if_split_asm)

lemma set_password_governs: "set_password ar now s (Account_authority a g) i pw = Inr x \<Longrightarrow> governs s a g i"
  unfolding set_password_def by (auto simp: and_then_Inr intro: own_or_managed_governs split: if_split_asm)

lemma transition_governs: "transition_checked now s (Account_authority a g) i st d ge = Inr x \<Longrightarrow> governs s a g i"
  by (subst (asm) transition_checked_def)
    (auto simp: and_then_Inr intro!: caller_governs split: if_split_asm)

lemma set_policy_governs: "set_policy jl now s (Account_authority a g) i ge l rs = Inr x \<Longrightarrow> governs s a g i"
  by (subst (asm) set_policy_def)
    (auto simp: and_then_Inr intro!: caller_governs split: if_split_asm PolicyLayer.split_asm)

lemma set_child_quota_governs: "set_child_quota_with cb now s (Account_authority a g) i ge b = Inr x \<Longrightarrow> governs s a g i"
  unfolding set_child_quota_with_def by (auto simp: and_then_Inr intro: manage_governs split: if_split_asm)

text \<open>What the authority of an account may do to the rows: change those it governs, never in kind, role or owner, and
  add virtual users of its own.\<close>

definition isolated :: "Store \<Rightarrow> string \<Rightarrow> nat \<Rightarrow> AccountRow list \<Rightarrow> AccountRow list \<Rightarrow> bool" where
  "isolated s a g rs rs' \<longleftrightarrow>
     (\<exists>f new. rs' = map f rs @ new
        \<and> (\<forall>r \<in> set rs. row_id (f r) = row_id r \<and> row_role (f r) = row_role r \<and> row_kind (f r) = row_kind r
              \<and> row_owner_admin_id (f r) = row_owner_admin_id r \<and> (governs s a g (row_id r) \<or> f r = r))
        \<and> (\<forall>r \<in> set new. row_kind r = Virtual \<and> row_role r = User \<and> row_owner_admin_id r = Some a))"

lemma isolated_refl: "isolated s a g rs rs"
  unfolding isolated_def by (intro exI [of _ id] exI [of _ "[]"]) simp

lemma isolated_append:
  "\<exists>new. rs' = rs @ new \<and> (\<forall>r \<in> set new. row_kind r = Virtual \<and> row_role r = User \<and> row_owner_admin_id r = Some a)
     \<Longrightarrow> isolated s a g rs rs'"
  unfolding isolated_def by (metis list.map_id0 id_apply)

lemma isolated_bumps: "bumps True ((=) i) rs rs' \<Longrightarrow> governs s a g i \<Longrightarrow> isolated s a g rs rs'"
proof -
  assume "bumps True ((=) i) rs rs'" and gov: "governs s a g i"
  then obtain f where f: "rs' = map (\<lambda>r. if i = row_id r then f r else r) rs"
    "\<forall>r. row_id (f r) = row_id r \<and> row_owner_admin_id (f r) = row_owner_admin_id r \<and> row_kind (f r) = row_kind r \<and> row_role (f r) = row_role r"
    unfolding bumps_def by blast
  show ?thesis unfolding isolated_def
    by (intro exI [of _ "\<lambda>r. if i = row_id r then f r else r"] exI [of _ "[]"]) (use f gov in auto)
qed

lemma isolated_committed_snd:
  "(\<And>x s'. res = Inr (x, s') \<Longrightarrow> isolated s a g (accounts s) (accounts s')) \<Longrightarrow> isolated s a g (accounts s) (accounts (committed_snd s res))"
  by (cases res) (auto simp: committed_snd_def isolated_refl)

lemma create_isolated:
  assumes "create_record fresh now s (Account_authority a g) new h req = Inr (x, s')"
  shows "isolated s a g (accounts s) (accounts s')"
proof -
  from assms obtain c where c: "store_authorized s (Account_authority a g) = Inr c" "creation_allowed s c new req = Inr ()"
    by (auto simp: create_record_def and_then_Inr split: if_split_asm)
  from authorized_account [OF c(1)] c(2) have "na_kind new = Virtual" "na_role new = User" "na_owner_admin_id new = Some a"
    by (auto simp: creation_allowed_def row_account_def split: if_split_asm)
  with create_record_extends [OF assms] show ?thesis by (intro isolated_append) fastforce
qed

lemma exec_isolated:
  assumes "actor_of op' = Some (Account_authority a g)"
  shows "isolated s a g (accounts s) (accounts (exec ev op' s))"
  using assms
proof (cases op')
  case (SetQuota os now cfg au t ge b)
  then have "au = Account_authority a g" using assms by simp
  with set_quota_rows [of os now cfg s au t ge b] show ?thesis unfolding SetQuota exec.simps
    by (auto intro: isolated_refl) (metis isolated_bumps bumps_set_child_quota set_child_quota_governs)
next
  case (Provision os fresh now cfg b n q pw req)
  then have "a = acc_id b" using assms by simp
  with provision_extends show ?thesis unfolding Provision exec.simps by (intro isolated_append) blast
qed (simp_all add: set_panel_scope_def set_role_def set_pool_def set_admin_budget_with_def set_admin_own_with_def
      invalidate_restored_sessions_def copy_admin_credentials_def require_password_change_def committed_def isolated_refl,
    (simp add: committed_snd_def isolated_refl; fail
     | (rule isolated_committed_snd,
        (auto simp: create_def create_enrolled_def and_then_Inr intro: create_isolated isolated_bumps
          dest: bumps_set_password set_password_governs bumps_transition transition_governs bumps_set_policy set_policy_governs
          bumps_set_child_quota set_child_quota_governs; fail)))+)

subsection \<open>Budgets are root's\<close>

definition same_budgets :: "Store \<Rightarrow> Store \<Rightarrow> bool" where
  "same_budgets s s' \<longleftrightarrow> quota_pool s' = quota_pool s \<and> admin_budgets s' = admin_budgets s"

lemma frugal_same: "frugal s s' \<Longrightarrow> same_budgets s s'"
  by (simp add: frugal_def same_budgets_def)

lemma same_refl [simp]: "same_budgets s s"
  by (simp add: same_budgets_def)

lemma same_trans: "same_budgets s s' \<Longrightarrow> same_budgets s' s'' \<Longrightarrow> same_budgets s s''"
  by (simp add: same_budgets_def)

lemma same_upsert [simp]: "same_budgets s (state_upsert k v s') = same_budgets s s'" "same_budgets s (state_delete k s') = same_budgets s s'"
  "same_budgets s (set_hash i h s') = same_budgets s s'"
  by (simp_all add: same_budgets_def state_upsert_def state_delete_def set_hash_def)

lemma same_insert: "state_insert k v s' = Inr s'' \<Longrightarrow> same_budgets s s'' = same_budgets s s'"
proof -
  assume "state_insert k v s' = Inr s''"
  then have "s'' = state_upsert k v s'"
    unfolding state_insert_def by (cases "map_of (security_state s') k = None") simp_all
  then show ?thesis by (simp only: same_upsert)
qed

lemma same_bump: "update_bumping sel f s1 = Inr s2 \<Longrightarrow> same_budgets s s1 \<Longrightarrow> same_budgets s s2"
  by (auto simp: update_bumping_def same_budgets_def split: if_split_asm)

lemma same_child_quota: "set_child_quota_with cb now s a i g b = Inr (x, s') \<Longrightarrow> same_budgets s s'"
proof -
  assume "set_child_quota_with cb now s a i g b = Inr (x, s')"
  then obtain tm where "update_bumping (\<lambda>r. row_id r = i) (\<lambda>r. r\<lparr>row_quota_bytes := Some b, row_updated_at := tm\<rparr>)
      (state_upsert (quota_sync_key i) (SSync i) s) = Inr s'"
    by (auto simp: set_child_quota_with_def and_then_Inr number_Inr Let_def split: if_split_asm)
  then show ?thesis by (rule same_bump) simp
qed

lemma same_create:
  assumes "create_record fresh now s (Account_authority a g) new h req = Inr (x, s')"
  shows "same_budgets s s'"
proof -
  from assms obtain c tm s1 s2 s3 rb where c: "store_authorized s (Account_authority a g) = Inr c" "creation_allowed s c new req = Inr ()"
    and rb: "root_budget s new req = Inr rb" and ins: "insert_account (new_row fresh new tm) s = Inr s1"
    and s2: "(case rb of None \<Rightarrow> Inr s1 | Some b \<Rightarrow> and_then (number b) (\<lambda>n. insert_budget fresh n s1)) = Inr s2"
    and s3: "(case h of None \<Rightarrow> Inr s2 | Some h \<Rightarrow> if c \<noteq> None
        then state_insert (password_change_key fresh) (SText ''1'') (set_hash fresh h s2) else Inr (set_hash fresh h s2)) = Inr s3"
    and s': "s' = (case req of None \<Rightarrow> s3 | Some (k, n) \<Rightarrow> state_upsert k (SIntent (n\<lparr>in_account_id := Some fresh\<rparr>)) s3)"
    by (auto simp: create_record_def and_then_Inr Let_def split: if_split_asm)
  from authorized_account [OF c(1)] c(2) have "na_role new = User"
    by (auto simp: creation_allowed_def row_account_def split: if_split_asm)
  with rb have "rb = None" by (simp add: root_budget_def)
  with s2 insert_account_Inr [OF ins] have "same_budgets s s2" by (auto simp: same_budgets_def)
  then have "same_budgets s s3" using s3 by (auto simp: same_insert split: option.splits if_split_asm)
  then show ?thesis by (simp add: s' split: option.splits)
qed

lemma same_provision: "same_budgets s (fst (provision uuid jl os ar fresh now cfg s a n q pw req))"
proof -
  have "same_budgets s s1" if "allocate (os_free_id os) (os_blocked os) cfg s = Inr (u, s1)" for u s1
    using that by (auto elim!: allocate_sound)
  moreover have "same_budgets s s2" if "same_budgets s s1" "reserve_intent s1 a k i = Inr s2" for s1 s2 k i
    using that by (auto simp: reserve_intent_def and_then_Inr same_insert split: if_split_asm)
  ultimately have new: "same_budgets s s1" if "new_provision os cfg s a k n q parent = (s1, r)" for s1 r k parent
    using that by (auto simp: new_provision_def and_then_Inr split: sum.splits prod.splits if_split_asm)
  have fin: "same_budgets s (fst (finish_provision os ar fresh now (Account_authority b g) k m ro own v pw s1 intent))"
    if "same_budgets s s1" for s1 b g k m ro own v intent
    using that unfolding finish_provision_def create_enrolled_def
    by (auto simp: and_then_Inr split: sum.split dest!: same_create intro: same_trans)
  show ?thesis unfolding provision_def
    by (auto simp: Let_def split: sum.split prod.split option.split intro: fin dest!: new)
qed

lemma same_committed_snd: "(\<And>x s'. res = Inr (x, s') \<Longrightarrow> same_budgets s s') \<Longrightarrow> same_budgets s (committed_snd s res)"
  by (cases res) (auto simp: committed_snd_def)

lemma exec_same_budgets:
  assumes "actor_of op' = Some (Account_authority a g)"
  shows "same_budgets s (exec ev op' s)"
  using assms
proof (cases op')
  case (SetQuota os now cfg au t ge b)
  show ?thesis unfolding SetQuota exec.simps set_quota_def
    by (auto split: sum.split prod.split dest!: same_child_quota)
qed (simp_all add: set_panel_scope_def set_role_def set_pool_def set_admin_budget_with_def set_admin_own_with_def
      invalidate_restored_sessions_def copy_admin_credentials_def require_password_change_def committed_def same_provision,
    (simp add: committed_snd_def; fail
     | (rule same_committed_snd,
        (auto simp: create_def create_enrolled_def and_then_Inr intro: same_create same_child_quota
          frugal_same frugal_set_password frugal_transition frugal_set_policy; fail)))+)

text \<open>C12: Under the authority of an account, whatever the operation and its arguments, no account outside what that
  account governs changes; no existing account changes its kind, role or owner; every account that appears is
  a virtual user owned by the caller; and the pool and the budgets stay as they are. An account governs itself,
  while it is active and its generation is current, and as an administrator the virtual accounts it owns.\<close>

theorem tenant_isolation:
  assumes "actor_of op' = Some (Account_authority a g)"
  shows "(\<forall>i r. find_row s i = Some r \<longrightarrow>
            (\<exists>r'. find_row (exec ev op' s) i = Some r' \<and> row_role r' = row_role r \<and> row_kind r' = row_kind r
               \<and> row_owner_admin_id r' = row_owner_admin_id r \<and> (governs s a g i \<or> r' = r)))
    \<and> (\<forall>r \<in> set (accounts (exec ev op' s)). row_id r \<notin> row_id ` set (accounts s) \<longrightarrow>
          row_kind r = Virtual \<and> row_role r = User \<and> row_owner_admin_id r = Some a)
    \<and> quota_pool (exec ev op' s) = quota_pool s \<and> admin_budgets (exec ev op' s) = admin_budgets s"
proof -
  from exec_isolated [OF assms] obtain f new where f: "accounts (exec ev op' s) = map f (accounts s) @ new"
    "\<forall>r \<in> set (accounts s). row_id (f r) = row_id r \<and> row_role (f r) = row_role r \<and> row_kind (f r) = row_kind r
       \<and> row_owner_admin_id (f r) = row_owner_admin_id r \<and> (governs s a g (row_id r) \<or> f r = r)"
    "\<forall>r \<in> set new. row_kind r = Virtual \<and> row_role r = User \<and> row_owner_admin_id r = Some a"
    unfolding isolated_def by blast
  have ev': "evolves (\<lambda>r r'. row_id r' = row_id r \<and> row_role r' = row_role r \<and> row_kind r' = row_kind r
      \<and> row_owner_admin_id r' = row_owner_admin_id r \<and> (governs s a g (row_id r) \<or> r' = r)) (accounts s) (accounts (exec ev op' s))"
    unfolding evolves_def using f by blast
  have rows: "\<exists>r'. find_row (exec ev op' s) i = Some r' \<and> row_role r' = row_role r \<and> row_kind r' = row_kind r
      \<and> row_owner_admin_id r' = row_owner_admin_id r \<and> (governs s a g i \<or> r' = r)" if "find_row s i = Some r" for i r
  proof -
    have "row_id r = i" using that by (auto simp: find_row_def find_Some_iff)
    with evolves_find [OF ev' that [unfolded find_row_def]] show ?thesis unfolding find_row_def by blast
  qed
  moreover have "row_kind r = Virtual \<and> row_role r = User \<and> row_owner_admin_id r = Some a"
    if "r \<in> set (accounts (exec ev op' s))" "row_id r \<notin> row_id ` set (accounts s)" for r
    using that f by (auto simp: image_iff)
  ultimately show ?thesis
    using exec_same_budgets [OF assms, of s ev] unfolding same_budgets_def by blast
qed

text \<open>A user asks to suspend its own administrator: the administrator stays as it is.\<close>

theorem tenant_isolation_witness:
  "(\<exists>r'. find_row (exec account_env (Transition 9 (Account_authority ''id2'' 1) ''id1'' Suspended False None)
      (account_example 100 2 [(''id1'', 60)])) ''id1'' = Some r' \<and> row_role r' = Admin)
   \<and> quota_pool (exec account_env (Transition 9 (Account_authority ''id2'' 1) ''id1'' Suspended False None)
      (account_example 100 2 [(''id1'', 60)])) = 100"
proof -
  have "find_row (account_example 100 2 [(''id1'', 60)]) ''id1'' =
      Some (new_row ''id1'' (example_new ''ada'' 3001 Admin None None) 5)"
    by (simp add: find_row_def account_example_def example_rows_def new_row_def)
  moreover have "row_role (new_row ''id1'' (example_new ''ada'' 3001 Admin None None) 5) = Admin"
    by (simp add: new_row_def example_new_def)
  moreover have "quota_pool (account_example 100 2 [(''id1'', 60)]) = 100" by (simp add: account_example_def)
  ultimately show ?thesis
    using tenant_isolation [of "Transition 9 (Account_authority ''id2'' 1) ''id1'' Suspended False None" "''id2''" 1
        "account_example 100 2 [(''id1'', 60)]" account_env]
    unfolding actor_of.simps by metis
qed

end
