(* ===== verification/TD_Login.thy ===== *)
theory TD_Login
  imports TD_Accounts
begin

text \<open>
  Bounds on guessing: the durable login reservations (\<open>limits.rs\<close>) admit at most the configured number of
  attempts for an account in a lockout window, and an enrollment token (\<open>grants.rs\<close>) completes at most once.
\<close>

section \<open>Login attempts\<close>

record Attempt =
  at_user :: string
  at_ip :: "string option"
  at_time :: nat

text \<open>Attempts one after the other, none of them refunded; the attempts of \<open>u\<close> that got a reservation are counted.\<close>

fun admitted :: "(string \<Rightarrow> string) \<Rightarrow> RateLimitConfig \<Rightarrow> string \<Rightarrow> Attempt list \<Rightarrow> Store \<Rightarrow> nat" where
  "admitted sha cfg u [] s = 0"
| "admitted sha cfg u (a # as) s =
     (case reserve_login sha s (at_user a) (at_ip a) cfg (at_time a) of
        Inl _ \<Rightarrow> admitted sha cfg u as s
      | Inr (_, s') \<Rightarrow> (if at_user a = u then 1 else 0) + admitted sha cfg u as s')"

definition of_account :: "(string \<Rightarrow> string) \<Rightarrow> string \<Rightarrow> LimitRow \<Rightarrow> bool" where
  "of_account sha u l \<longleftrightarrow> lr_scope l = ''account'' \<and> lr_key_hash l = scope_hash sha ''account'' u"

text \<open>\<open>n\<close> attempts have been counted in the window of length \<open>d\<close> from \<open>t0\<close>.\<close>

definition attempts_counted :: "(string \<Rightarrow> string) \<Rightarrow> string \<Rightarrow> nat \<Rightarrow> nat \<Rightarrow> nat \<Rightarrow> LimitRow list \<Rightarrow> bool" where
  "attempts_counted sha u t0 d n ls \<longleftrightarrow>
     (\<forall>l \<in> set ls. of_account sha u l \<longrightarrow> lr_lock_until l \<le> t0 \<or> t0 + d \<le> lr_lock_until l \<and> n \<le> lr_failures l)
     \<and> (0 < n \<longrightarrow> (\<exists>l \<in> set ls. of_account sha u l \<and> t0 + d \<le> lr_lock_until l))"

lemma counted_charge_other: "sc \<noteq> ''account'' \<Longrightarrow> attempts_counted sha u t0 d n (login_limits s) \<Longrightarrow> attempts_counted sha u t0 d n (login_limits (charge_limit sc h dl at s))"
  by (auto simp: attempts_counted_def charge_limit_def of_account_def split: option.splits)

lemma counted_reserve_others:
  "reserve_scopes sha rows until at scs res s = Inr (x, s') \<Longrightarrow> \<forall>sc \<in> set scs. fst sc \<noteq> ''account'' \<Longrightarrow>
     attempts_counted sha u t0 d n (login_limits s) \<Longrightarrow> attempts_counted sha u t0 d n (login_limits s')"
  by (induction sha rows until at scs res s rule: reserve_scopes.induct)
    (auto simp: Let_def counted_charge_other split: if_split_asm prod.split_asm)

lemma find_limit_mem: "find_limit s sc h = Some l \<Longrightarrow> l \<in> set (login_limits s) \<and> lr_scope l = sc \<and> lr_key_hash l = h"
  by (auto simp: find_limit_def find_Some_iff)

text \<open>Charging the account of \<open>v\<close> within the window, on the rows that are still locked.\<close>

lemma counted_charge:
  assumes c: "attempts_counted sha u t0 d n (login_limits s)" and live: "\<forall>l \<in> set (login_limits s). t0 < lr_lock_until l"
    and dl: "dl = (case find_limit s ''account'' (scope_hash sha ''account'' v) of None \<Rightarrow> until | Some l \<Rightarrow> lr_lock_until l)"
    and until: "t0 + d \<le> until"
  shows "attempts_counted sha u t0 d (n + (if v = u then 1 else 0)) (login_limits (charge_limit ''account'' (scope_hash sha ''account'' v) dl at s))"
proof (cases "find_limit s ''account'' (scope_hash sha ''account'' v)")
  case None
  then have none: "\<forall>l \<in> set (login_limits s). \<not> of_account sha v l"
    by (auto simp: find_limit_def find_None_iff of_account_def)
  then have "v = u \<Longrightarrow> n = 0" using c by (auto simp: attempts_counted_def)
  with None c none until dl show ?thesis
    by (auto simp: attempts_counted_def charge_limit_def of_account_def)
next
  case (Some l)
  define f :: "LimitRow \<Rightarrow> LimitRow" where "f = (\<lambda>l. if lr_scope l = ''account'' \<and> lr_key_hash l = scope_hash sha ''account'' v
      then l\<lparr>lr_failures := lr_failures l + 1, lr_updated_at := at\<rparr> else l)"
  have after: "login_limits (charge_limit ''account'' (scope_hash sha ''account'' v) dl at s) = map f (login_limits s)"
    by (simp add: charge_limit_def Some f_def)
  have f: "of_account sha u (f q) = of_account sha u q" "lr_lock_until (f q) = lr_lock_until q"
      "of_account sha u q \<Longrightarrow> lr_failures q + (if v = u then 1 else 0) \<le> lr_failures (f q)" for q
    by (auto simp: f_def of_account_def)
  have mem: "l \<in> set (login_limits s)" "of_account sha v l"
    using find_limit_mem [OF Some] by (auto simp: of_account_def)
  have good: "t0 + d \<le> lr_lock_until q \<and> n \<le> lr_failures q" if "q \<in> set (login_limits s)" "of_account sha u q" for q
    using c live that unfolding attempts_counted_def by (meson not_less)
  have "\<exists>q \<in> set (login_limits s). of_account sha u q \<and> t0 + d \<le> lr_lock_until q" if "0 < n + (if v = u then 1 else 0)"
  proof (cases "v = u")
    case True
    with mem good [OF mem(1)] show ?thesis by blast
  next
    case False
    with that c show ?thesis by (simp add: attempts_counted_def)
  qed
  then show ?thesis unfolding after attempts_counted_def using good f by (force intro: order_trans [OF add_right_mono])
qed

lemma reserve_login_counted:
  assumes c: "attempts_counted sha u t0 d n (login_limits s)" and d: "rl_lockout_duration_seconds cfg = d"
    and t: "t0 \<le> at" "at < t0 + d" and ok: "reserve_login sha s v ip cfg at = Inr (x, s')"
  shows "attempts_counted sha u t0 d (n + (if v = u then 1 else 0)) (login_limits s') \<and> (v = u \<longrightarrow> n < rl_max_login_failures cfg)"
proof -
  let ?s1 = "s\<lparr>login_limits := filter (\<lambda>l. lr_lock_until l > at) (login_limits s)\<rparr>"
  let ?h = "scope_hash sha ''account'' v"
  from ok obtain addr where "reserve_scopes sha (length (login_limits ?s1)) (at + d) at (login_scopes v addr cfg) [] ?s1 = Inr (x, s')"
    unfolding reserve_login_def d by (auto simp: and_then_Inr ok_or_Inr add64_Some number_Inr split: if_split_asm)
  then obtain rest where rs: "reserve_scopes sha (length (login_limits ?s1)) (at + d) at
        ((''account'', v, rl_max_login_failures cfg) # rest) [] ?s1 = Inr (x, s')" and rest: "\<forall>sc \<in> set rest. fst sc \<noteq> ''account''"
    unfolding login_scopes_def by (auto split: option.splits)
  have c1: "attempts_counted sha u t0 d n (login_limits ?s1)" using c t by (fastforce simp: attempts_counted_def)
  have live: "\<forall>l \<in> set (login_limits ?s1). t0 < lr_lock_until l" using t by auto
  define dl where "dl = (case find_limit ?s1 ''account'' ?h of None \<Rightarrow> at + d | Some l \<Rightarrow> lr_lock_until l)"
  from rs have loop: "reserve_scopes sha (length (login_limits ?s1)) (at + d) at rest [(''account'', ?h, dl)]
        (charge_limit ''account'' ?h dl at ?s1) = Inr (x, s')"
    and room: "\<forall>l. find_limit ?s1 ''account'' ?h = Some l \<longrightarrow> lr_failures l < rl_max_login_failures cfg"
    and room0: "find_limit ?s1 ''account'' ?h = None \<longrightarrow> 0 < rl_max_login_failures cfg"
    by (auto simp: Let_def dl_def split: option.splits if_split_asm)
  have "attempts_counted sha u t0 d (n + (if v = u then 1 else 0)) (login_limits (charge_limit ''account'' ?h dl at ?s1))"
    by (rule counted_charge [OF c1 live dl_def]) (use t in simp)
  from counted_reserve_others [OF loop rest this]
  have "attempts_counted sha u t0 d (n + (if v = u then 1 else 0)) (login_limits s')" .
  moreover have "n < rl_max_login_failures cfg" if "v = u"
  proof (cases "find_limit ?s1 ''account'' ?h")
    case None
    then have "n = 0" using c1 that by (auto simp: attempts_counted_def find_limit_def find_None_iff of_account_def)
    with room0 None show ?thesis by simp
  next
    case (Some l)
    then have "l \<in> set (login_limits ?s1)" "of_account sha u l" using that find_limit_mem [OF Some] by (auto simp: of_account_def)
    with c1 live have "n \<le> lr_failures l" by (fastforce simp: attempts_counted_def)
    with room Some show ?thesis by fastforce
  qed
  ultimately show ?thesis by blast
qed

lemma admitted_bounded:
  assumes "attempts_counted sha u t0 d n (login_limits s)" "rl_lockout_duration_seconds cfg = d" "n \<le> rl_max_login_failures cfg"
    "\<forall>a \<in> set as. t0 \<le> at_time a \<and> at_time a < t0 + d"
  shows "n + admitted sha cfg u as s \<le> rl_max_login_failures cfg"
  using assms
proof (induction as arbitrary: s n)
  case (Cons a as)
  show ?case
  proof (cases "reserve_login sha s (at_user a) (at_ip a) cfg (at_time a)")
    case (Inl e)
    with Cons show ?thesis by simp
  next
    case (Inr y)
    obtain x s' where y: "y = (x, s')" by (cases y)
    from reserve_login_counted [OF Cons.prems(1,2) _ _ Inr [unfolded y]] Cons.prems(4)
    have step: "attempts_counted sha u t0 d (n + (if at_user a = u then 1 else 0)) (login_limits s')"
      "at_user a = u \<longrightarrow> n < rl_max_login_failures cfg" by auto
    from Cons.IH [OF step(1) Cons.prems(2)] step(2) Cons.prems(3,4) Inr y show ?thesis
      by (auto split: if_split_asm)
  qed
qed simp

text \<open>C16: When no lockout window of an account is open at \<open>t0\<close>, then among any attempts made in the next lockout
  period, for whichever accounts and from whichever addresses, at most \<open>max_login_failures\<close> attempts for that
  account get to the verification of a password, as long as none succeeds. Attempts are counted before the
  password is verified, so concurrent attempts cannot pass the limit.\<close>

theorem login_attempts_bounded:
  assumes "\<forall>l \<in> set (login_limits s). of_account sha u l \<longrightarrow> lr_lock_until l \<le> t0"
    and "\<forall>a \<in> set as. t0 \<le> at_time a \<and> at_time a < t0 + rl_lockout_duration_seconds cfg"
  shows "admitted sha cfg u as s \<le> rl_max_login_failures cfg"
  using admitted_bounded [of sha u t0 "rl_lockout_duration_seconds cfg" 0 s cfg as] assms
  by (simp add: attempts_counted_def)

definition example_attempts :: "Attempt list" where
  "example_attempts = [\<lparr>at_user = ''bob'', at_ip = None, at_time = 100\<rparr>, \<lparr>at_user = ''ada'', at_ip = None, at_time = 105\<rparr>,
     \<lparr>at_user = ''bob'', at_ip = None, at_time = 110\<rparr>]"

theorem login_attempts_bounded_witness:
  "admitted id \<lparr>rl_max_login_failures = 1, rl_lockout_duration_seconds = 60\<rparr> ''bob'' example_attempts (initial_store ''x'') \<le> 1"
  using login_attempts_bounded [of "initial_store ''x''" id "''bob''" 100 example_attempts
      "\<lparr>rl_max_login_failures = 1, rl_lockout_duration_seconds = 60\<rparr>"]
  by (simp add: initial_store_def example_attempts_def)

section \<open>Enrollment tokens\<close>

text \<open>All rows with the hash are consumed; no two rows have the same hash.\<close>

definition spent :: "string \<Rightarrow> Store \<Rightarrow> bool" where
  "spent h s \<longleftrightarrow> (\<forall>e \<in> set (enrollment s). er_token_hash e = h \<longrightarrow> er_consumed e)"

definition unique_tokens :: "Store \<Rightarrow> bool" where
  "unique_tokens s \<longleftrightarrow> distinct (map er_token_hash (enrollment s))"

definition thins :: "Store \<Rightarrow> Store \<Rightarrow> bool" where
  "thins s s' \<longleftrightarrow> (\<exists>P. enrollment s' = filter P (enrollment s))"

lemma thins_same: "enrollment s' = enrollment s \<Longrightarrow> thins s s'"
  unfolding thins_def by (intro exI [of _ "\<lambda>_. True"]) simp

lemma thins_spent: "thins s s' \<Longrightarrow> spent h s \<Longrightarrow> spent h s'"
  by (auto simp: thins_def spent_def)

lemma thins_unique: "thins s s' \<Longrightarrow> unique_tokens s \<Longrightarrow> unique_tokens s'"
  by (auto simp: thins_def unique_tokens_def intro: distinct_map_filter)

lemma enrollment_kept [simp]:
  "enrollment (state_upsert k v s) = enrollment s" "enrollment (state_delete k s) = enrollment s"
  "enrollment (retire_uid u now s) = enrollment s" "enrollment (set_hash i h s) = enrollment s"
  by (simp_all add: state_upsert_def state_delete_def retire_uid_def set_hash_def)

lemma thins_bump: "update_bumping sel f s1 = Inr s2 \<Longrightarrow> thins s s1 \<Longrightarrow> thins s s2"
  by (auto simp: update_bumping_def thins_def split: if_split_asm)

lemma thins_insert: "state_insert k v s1 = Inr s2 \<Longrightarrow> thins s s1 \<Longrightarrow> thins s s2"
  by (auto simp: state_insert_def thins_def split: if_split_asm)

lemma thins_more:
  "thins s s"
  "thins s s1 \<Longrightarrow> thins s (forget_enrollment n s1)"
  "thins s s1 \<Longrightarrow> thins s (state_upsert k v s1)"
  "thins s s1 \<Longrightarrow> thins s (state_delete k s1)"
  "thins s s1 \<Longrightarrow> thins s (retire_uid u now s1)"
  "thins s s1 \<Longrightarrow> thins s (s1\<lparr>session_grants := gs\<rparr>)"
  "thins s s1 \<Longrightarrow> thins s (s1\<lparr>session_grants := gs, enrollment := []\<rparr>)"
  by (auto simp: thins_def forget_enrollment_def intro: exI [of _ "\<lambda>_. True"] exI [of _ "\<lambda>_. False"])

lemma thins_trans: "thins s s1 \<Longrightarrow> thins s1 s2 \<Longrightarrow> thins s s2"
  by (auto simp: thins_def)

lemma thins_set_panel_scope: "set_panel_scope now s a i g = Inr (x, s') \<Longrightarrow> thins s s'"
  unfolding set_panel_scope_def
  by (auto simp: and_then_Inr Let_def split: if_split_asm intro!: thins_more elim!: thins_bump thins_insert)

lemma thins_set_role: "set_role now s a i ro = Inr (x, s') \<Longrightarrow> thins s s'"
  unfolding set_role_def
  by (auto simp: and_then_Inr Let_def split: if_split_asm intro!: thins_more elim!: thins_bump thins_insert)

lemma thins_set_admin_own_with: "set_admin_own_with cb now s a i b = Inr s' \<Longrightarrow> thins s s'"
  unfolding set_admin_own_with_def
  by (auto simp: and_then_Inr Let_def split: if_split_asm intro!: thins_more elim!: thins_bump thins_insert)

lemma thins_invalidate_restored_sessions: "invalidate_restored_sessions fresh now s a = Inr s' \<Longrightarrow> thins s s'"
  unfolding invalidate_restored_sessions_def
  by (auto simp: and_then_Inr Let_def split: if_split_asm intro!: thins_more elim!: thins_bump thins_insert)

lemma thins_copy_admin_credentials: "copy_admin_credentials now s a src sg dst dg = Inr s' \<Longrightarrow> thins s s'"
  unfolding copy_admin_credentials_def
  by (auto simp: and_then_Inr Let_def split: if_split_asm intro!: thins_more elim!: thins_bump thins_insert)

lemma thins_require_password_change: "require_password_change now s a i = Inr (x, s') \<Longrightarrow> thins s s'"
  unfolding require_password_change_def
  by (auto simp: and_then_Inr Let_def split: if_split_asm intro!: thins_more elim!: thins_bump thins_insert)

lemma thins_set_password: "set_password ar now s a i pw = Inr (x, s') \<Longrightarrow> thins s s'"
  unfolding set_password_def
  by (auto simp: and_then_Inr Let_def split: if_split_asm intro!: thins_more elim!: thins_bump thins_insert)

lemma thins_transition_checked: "transition_checked now s a i st d g = Inr (x, s') \<Longrightarrow> thins s s'"
  unfolding transition_checked_def
  by (auto simp: and_then_Inr Let_def split: if_split_asm intro!: thins_more elim!: thins_bump thins_insert)

lemma thins_set_policy: "set_policy jl now s a i g l rs = Inr (x, s') \<Longrightarrow> thins s s'"
  unfolding set_policy_def
  by (auto simp: and_then_Inr Let_def split: if_split_asm intro!: thins_more elim!: thins_bump thins_insert)

lemma thins_set_child_quota_with: "set_child_quota_with cb now s a i g b = Inr (x, s') \<Longrightarrow> thins s s'"
  unfolding set_child_quota_with_def
  by (auto simp: and_then_Inr Let_def split: if_split_asm intro!: thins_more elim!: thins_bump thins_insert)

lemma thins_begin_purge: "begin_purge now s t = Inr s' \<Longrightarrow> thins s s'"
  unfolding begin_purge_def
  by (auto simp: and_then_Inr Let_def split: if_split_asm intro!: thins_more elim!: thins_bump thins_insert)

lemma thins_finish_purge: "finish_purge now s t = Inr s' \<Longrightarrow> thins s s'"
  unfolding finish_purge_def
  by (auto simp: and_then_Inr Let_def split: if_split_asm intro!: thins_more elim!: thins_bump thins_insert)

lemma thins_plain:
  "set_pool s a b = Inr s' \<Longrightarrow> thins s s'"
  "set_admin_budget_with cb s a i b = Inr s' \<Longrightarrow> thins s s'"
  "issue_grant uuid fresh s i g c at l = Inr (x, s') \<Longrightarrow> thins s s'"
  "revoke_grant s gr c at = Inr s' \<Longrightarrow> thins s s'"
  "reserve_login sha s u ip cfg at = Inr (z, s') \<Longrightarrow> thins s s'"
  by (auto simp: set_pool_def set_admin_budget_with_def issue_grant_def insert_grant_def revoke_grant_def
      and_then_Inr Let_def split: if_split_asm dest!: reserve_login_tables intro!: thins_same)

lemma create_record_enrollment:
  assumes "create_record fresh now s a new h req = Inr (x, s')"
  shows "enrollment s' = enrollment s"
proof -
  from assms obtain c tm s1 s2 s3 rb where ins: "insert_account (new_row fresh new tm) s = Inr s1"
    and s2: "(case rb of None \<Rightarrow> Inr s1 | Some b \<Rightarrow> and_then (number b) (\<lambda>n. insert_budget fresh n s1)) = Inr s2"
    and s3: "(case h of None \<Rightarrow> Inr s2 | Some h \<Rightarrow> if c \<noteq> (None :: Account option)
        then state_insert (password_change_key fresh) (SText ''1'') (set_hash fresh h s2) else Inr (set_hash fresh h s2)) = Inr s3"
    and s': "s' = (case req of None \<Rightarrow> s3 | Some (k, n) \<Rightarrow> state_upsert k (SIntent (n\<lparr>in_account_id := Some fresh\<rparr>)) s3)"
    by (auto simp: create_record_def and_then_Inr Let_def split: if_split_asm)
  have "enrollment s1 = enrollment s" using insert_account_Inr [OF ins] by simp
  moreover have "enrollment s2 = enrollment s1"
    using s2 by (auto simp: and_then_Inr split: option.splits dest!: insert_budget_Inr)
  moreover have "enrollment s3 = enrollment s2"
    using s3 by (auto simp: state_insert_def split: option.splits if_split_asm)
  moreover have "enrollment s' = enrollment s3" by (auto simp: s' split: option.splits)
  ultimately show ?thesis by simp
qed

lemma create_enrolled_enrollment: "create_enrolled ar fresh now s a new pw req = Inr (x, s') \<Longrightarrow> enrollment s' = enrollment s"
  by (auto simp: create_enrolled_def and_then_Inr dest!: create_record_enrollment)

lemma allocate_enrollment: "allocate free_id prepared cfg s = Inr (u, s') \<Longrightarrow> enrollment s' = enrollment s"
  by (auto elim!: allocate_sound)

lemma reserve_enrollment:
  "reserve_intent s a k n = Inr s' \<Longrightarrow> enrollment s' = enrollment s"
  "reserve_admin_intent s k n = Inr s' \<Longrightarrow> enrollment s' = enrollment s"
  by (auto simp: reserve_intent_def reserve_admin_intent_def and_then_Inr state_insert_def split: if_split_asm)

lemma finish_provision_enrollment:
  "enrollment (fst (finish_provision os ar fresh now au k n ro own q pw s intent)) = enrollment s"
  by (auto simp: finish_provision_def and_then_Inr split: sum.split dest!: create_enrolled_enrollment)

lemma new_provision_enrollment: "new_provision os cfg s a k n q parent = (s1, r) \<Longrightarrow> enrollment s1 = enrollment s"
  by (auto simp: new_provision_def and_then_Inr split: sum.splits prod.splits if_split_asm
      dest!: reserve_enrollment allocate_enrollment)

lemma new_admin_intent_enrollment: "new_admin_intent os cfg s k n q = (s1, r) \<Longrightarrow> enrollment s1 = enrollment s"
  by (auto simp: new_admin_intent_def and_then_Inr split: sum.splits prod.splits if_split_asm
      dest!: reserve_enrollment allocate_enrollment)

lemma provision_enrollment: "enrollment (fst (provision uuid jl os ar fresh now cfg s a n q pw req)) = enrollment s"
  unfolding provision_def
  by (auto simp: Let_def finish_provision_enrollment split: sum.split prod.split option.split dest!: new_provision_enrollment)

lemma create_admin_enrollment: "enrollment (fst (create_admin uuid jl os ar fresh now cfg s n q pw req)) = enrollment s"
  unfolding create_admin_def
  by (auto simp: finish_provision_enrollment split: sum.split prod.split option.split dest!: new_admin_intent_enrollment)

lemma thins_set_quota: "thins s (fst (set_quota os now cfg s a t g b))"
  unfolding set_quota_def by (auto split: sum.split prod.split intro: thins_more dest!: thins_set_child_quota_with)

lemma thins_set_own_quota: "thins s (fst (set_own_quota os now cfg s i b))"
  unfolding set_own_quota_def
  by (auto simp: and_then_Inr split: sum.split if_split_asm intro: thins_more dest!: thins_set_admin_own_with)

lemma thins_set_budget: "thins s (fst (set_budget os cfg s i b))"
  unfolding set_budget_def by (auto simp: and_then_Inr split: sum.split if_split_asm intro: thins_more dest!: thins_plain(2))

lemma thins_cancel_pending: "thins s (fst (cancel_pending os now cfg s k))"
  unfolding cancel_pending_def by (auto simp: Let_def split: sum.split intro: thins_more)

lemma begin_enrollment_rows:
  assumes "begin_enrollment uuid sha fresh s e c at l = Inr (x, s')"
  shows "\<exists>P n. enrollment s' = filter P (enrollment s) @ [n] \<and> er_token_hash n = sha fresh
    \<and> (\<forall>f \<in> set (filter P (enrollment s)). er_token_hash f \<noteq> sha fresh)"
  using assms unfolding begin_enrollment_def
  by (auto simp: and_then_Inr Let_def insert_enrollment_def token_hash_def list_ex_iff split: if_split_asm) fastforce

text \<open>The consumed mark of completing, on the rows.\<close>

lemma complete_enrollment_marks:
  assumes "complete_enrollment uuid sha ar fresh s t c e pw at = Inr (x, s')"
  shows "enrollment s' = map (\<lambda>e. if usable (sha t) c at e then e\<lparr>er_consumed := True\<rparr> else e) (enrollment s)
    \<and> length (filter (usable (sha t) c at) (enrollment s)) = 1"
proof -
  let ?s1 = "s\<lparr>enrollment := map (\<lambda>e. if usable (sha t) c at e then e\<lparr>er_consumed := True\<rparr> else e) (enrollment s)\<rparr>"
  from assms obtain i s2 h tm where one: "length (filter (usable (sha t) c at) (enrollment s)) = 1"
    and pick: "(case find_username ?s1 (ei_username e) of
         Some target \<Rightarrow> if \<not> enrollable target e \<or> acc_password_enrolled target \<and> acc_status target \<noteq> AccountStatus.Revoked
                         then Inl Forbidden else Inr (acc_id target, ?s1)
       | None \<Rightarrow> if \<not> utf8_valid (ei_home e) then Inl InvalidInput
           else and_then (insert_account (enrolled_row fresh e tm) ?s1) (\<lambda>s2. Inr (fresh, s2))) = Inr (i, s2)"
    and bump: "update_bumping (\<lambda>r. row_id r = i)
                     (\<lambda>r. r\<lparr>row_web_password_hash := Some h, row_status := Active, row_login_enabled := True,
                            row_deny_enrollment := False, row_updated_at := tm\<rparr>) s2 = Inr s'"
    unfolding complete_enrollment_def by (auto simp: and_then_Inr Let_def token_hash_def split: if_split_asm)
  have "enrollment s' = enrollment s2" using bump by (auto simp: update_bumping_def split: if_split_asm)
  moreover have "enrollment s2 = enrollment ?s1"
    using pick by (auto simp: and_then_Inr split: option.splits if_split_asm dest!: insert_account_Inr)
  ultimately show ?thesis using one by simp
qed

lemma complete_enrollment_keeps:
  assumes "complete_enrollment uuid sha ar fresh s t c e pw at = Inr (x, s')"
  shows "unique_tokens s \<Longrightarrow> unique_tokens s'" "spent h s \<Longrightarrow> spent h s'" "unique_tokens s \<Longrightarrow> spent (sha t) s'"
proof -
  note m = complete_enrollment_marks [OF assms]
  from m show "unique_tokens s \<Longrightarrow> unique_tokens s'" by (simp add: unique_tokens_def comp_def if_distrib cong: if_cong)
  from m show "spent h s \<Longrightarrow> spent h s'" by (auto simp: spent_def)
  assume u: "unique_tokens s"
  have "filter (usable (sha t) c at) (enrollment s) \<noteq> []" using m by auto
  then obtain r where r: "r \<in> set (enrollment s)" "usable (sha t) c at r" by (auto simp: filter_empty_conv)
  have "q = r" if "q \<in> set (enrollment s)" "er_token_hash q = sha t" for q
    using u that r unfolding unique_tokens_def usable_def distinct_map by (metis inj_onD)
  with m r show "spent (sha t) s'" by (fastforce simp: spent_def)
qed

definition begins :: "AccountOp \<Rightarrow> string \<Rightarrow> bool" where
  "begins op' fresh \<longleftrightarrow> (\<exists>e c at l. op' = BeginEnrollment fresh e c at l)"

lemma thins_committed: "(\<And>s'. r = Inr s' \<Longrightarrow> thins s s') \<Longrightarrow> thins s (committed s r)"
  by (cases r) (simp_all add: committed_def thins_more)

lemma thins_committed_snd: "(\<And>x s'. r = Inr (x, s') \<Longrightarrow> thins s s') \<Longrightarrow> thins s (committed_snd s r)"
  by (cases r) (auto simp: committed_snd_def thins_more)

lemmas thins_op = thins_set_panel_scope thins_set_role thins_set_admin_own_with thins_invalidate_restored_sessions
  thins_copy_admin_credentials thins_require_password_change thins_set_password thins_transition_checked thins_set_policy
  thins_set_child_quota_with thins_begin_purge thins_finish_purge thins_plain create_enrolled_enrollment [THEN thins_same]
  create_record_enrollment [THEN thins_same]

lemma exec_thins:
  assumes "\<nexists>f. begins op' f" "\<nexists>f t c e pw at. op' = CompleteEnrollment f t c e pw at"
  shows "thins s (exec ev op' s)"
proof (cases op')
  case (BeginEnrollment f e c at l)
  with assms(1) show ?thesis by (auto simp: begins_def)
next
  case (CompleteEnrollment f t c e pw at)
  with assms(2) show ?thesis by simp
qed (simp_all only: exec.simps create_def,
    ((rule thins_committed thins_committed_snd, erule thins_op)
     | (simp add: thins_same finish_login_tables provision_enrollment create_admin_enrollment thins_set_quota thins_set_own_quota
          thins_set_budget thins_cancel_pending))+)

lemma exec_unique: "unique_tokens s \<Longrightarrow> unique_tokens (exec ev op' s)"
proof (cases "(\<exists>f. begins op' f) \<or> (\<exists>f t c e pw at. op' = CompleteEnrollment f t c e pw at)")
  case False
  then show "unique_tokens s \<Longrightarrow> ?thesis" by (intro thins_unique [OF exec_thins]) blast+
next
  case True
  assume u: "unique_tokens s"
  from True show ?thesis
  proof (elim disjE exE)
    fix f assume "begins op' f"
    then obtain e c at l where op': "op' = BeginEnrollment f e c at l" by (auto simp: begins_def)
    show ?thesis
    proof (cases "begin_enrollment (ev_uuid ev) (ev_sha ev) f s e c at l")
      case (Inr y)
      from begin_enrollment_rows [of _ _ _ _ _ _ _ _ "fst y" "snd y"] Inr u show ?thesis
        by (fastforce simp: op' committed_snd_def unique_tokens_def intro: distinct_map_filter split: prod.splits)
    qed (simp add: op' committed_snd_def u)
  next
    fix f t c e pw at assume op': "op' = CompleteEnrollment f t c e pw at"
    show ?thesis
      by (cases "complete_enrollment (ev_uuid ev) (ev_sha ev) (ev_argon ev) f s t c e pw at")
        (auto simp: op' committed_snd_def u intro: complete_enrollment_keeps(1))
  qed
qed

lemma exec_spent:
  assumes sp: "spent h s" and fresh: "\<forall>f. begins op' f \<longrightarrow> ev_sha ev f \<noteq> h"
  shows "spent h (exec ev op' s)"
proof (cases "(\<exists>f. begins op' f) \<or> (\<exists>f t c e pw at. op' = CompleteEnrollment f t c e pw at)")
  case False
  then show ?thesis by (intro thins_spent [OF exec_thins sp]) blast+
next
  case True
  then show ?thesis
  proof (elim disjE exE)
    fix f assume b: "begins op' f"
    then obtain e c at l where op': "op' = BeginEnrollment f e c at l" by (auto simp: begins_def)
    show ?thesis
    proof (cases "begin_enrollment (ev_uuid ev) (ev_sha ev) f s e c at l")
      case (Inr y)
      from begin_enrollment_rows [of _ _ _ _ _ _ _ _ "fst y" "snd y"] Inr sp fresh b show ?thesis
        by (fastforce simp: op' committed_snd_def spent_def split: prod.splits)
    qed (simp add: op' committed_snd_def sp)
  next
    fix f t c e pw at assume op': "op' = CompleteEnrollment f t c e pw at"
    show ?thesis
      by (cases "complete_enrollment (ev_uuid ev) (ev_sha ev) (ev_argon ev) f s t c e pw at")
        (auto simp: op' committed_snd_def sp intro: complete_enrollment_keeps(2))
  qed
qed

interpretation tokens_kept: kept_by_steps "exec ev" "\<lambda>_. True" unique_tokens for ev
  by unfold_locales (rule exec_unique)

interpretation spent_kept: kept_by_steps "exec ev" "\<lambda>op'. \<forall>f. begins op' f \<longrightarrow> ev_sha ev f \<noteq> h" "spent h" for ev h
  by unfold_locales (rule exec_spent)

lemma exec_all_unique: "unique_tokens s \<Longrightarrow> unique_tokens (exec_all ev ops s)"
  unfolding exec_all_def by (rule tokens_kept.run_keeps) simp_all

lemma exec_all_spent:
  "spent h s \<Longrightarrow> \<forall>op' \<in> set ops. \<forall>f. begins op' f \<longrightarrow> ev_sha ev f \<noteq> h \<Longrightarrow> spent h (exec_all ev ops s)"
  unfolding exec_all_def by (rule spent_kept.run_keeps)

lemma spent_refused: "spent (sha t) s \<Longrightarrow> \<exists>e. complete_enrollment uuid sha ar fresh s t c cur pw at = Inl e"
proof -
  assume "spent (sha t) s"
  then have "filter (usable (sha t) c at) (enrollment s) = []" by (auto simp: spent_def usable_def filter_empty_conv)
  then have "complete_enrollment uuid sha ar fresh s t c cur pw at \<noteq> Inr y" for y
    using complete_enrollment_marks [of uuid sha ar fresh s t c cur pw at "fst y" "snd y"] by auto
  then show ?thesis by (cases "complete_enrollment uuid sha ar fresh s t c cur pw at") auto
qed

text \<open>C15: An enrollment token completes at most once. After any history of a new store, when completing an
  enrollment with a token succeeds, a second completion with that token is refused, after any further
  operations, with any caller, identity, password and time, as long as no later enrollment draws a token
  with the same hash.\<close>

theorem enrollment_token_single_use:
  assumes "complete_enrollment (ev_uuid ev) (ev_sha ev) (ev_argon ev) fresh (exec_all ev before (initial_store dummy))
      token caller current pw at = Inr (a, s1)"
    and "\<forall>op' \<in> set later. \<forall>f. begins op' f \<longrightarrow> ev_sha ev f \<noteq> ev_sha ev token"
  shows "\<exists>e. complete_enrollment (ev_uuid ev) (ev_sha ev) (ev_argon ev) fresh' (exec_all ev later s1)
      token caller' current' pw' at' = Inl e"
proof -
  have "unique_tokens (exec_all ev before (initial_store dummy))"
    by (rule exec_all_unique) (simp add: unique_tokens_def initial_store_def)
  then have "spent (ev_sha ev token) s1" by (rule complete_enrollment_keeps(3) [OF assms(1)])
  then show ?thesis by (intro spent_refused exec_all_spent assms(2))
qed

definition example_identity_record :: EnrollmentIdentity where
  "example_identity_record = \<lparr>ei_username = ''bob'', ei_uid = 3002, ei_gid = 3002, ei_home = ''/home/bob''\<rparr>"

definition example_binding :: CallerBinding where
  "example_binding = \<lparr>cb_uid = 990, cb_pid = 4, cb_start_time = 7, cb_boot_id = ''b''\<rparr>"

definition example_enrolling :: Store where
  "example_enrolling = (initial_store ''x'')\<lparr>enrollment := [\<lparr>er_token_hash = ''tok'', er_username = ''bob'', er_uid = 3002,
     er_gid = 3002, er_home = ''/home/bob'', er_caller = example_binding, er_expires_at = 160, er_consumed = False\<rparr>]\<rparr>"

lemmas enrollment_defs = CallerBinding_validate_def EnrollmentIdentity_validate_def EnrollmentIdentity_eq_def token_hash_def
  insert_enrollment_def usable_def enrollment_identity_def account_env_def example_identity_record_def example_binding_def
  example_enrolling_def find_username_def hash_password_def MIN_PASSWORD_CHARS_def MAX_PASSWORD_BYTES_def

lemma example_begins:
  "exec_all account_env [BeginEnrollment ''tok'' example_identity_record example_binding 100 60] (initial_store ''x'') = example_enrolling"
  by (simp add: exec_all_def begin_enrollment_def enrollment_defs example_defs checked_add_def U64_MAX_def example_identity(2)
      example_utf8(2))

lemma example_password: "length (str_chars ''long-password'') = 13"
  by code_simp

lemma example_completes:
  "\<exists>a s1. complete_enrollment Some id (ev_argon account_env) ''u1'' example_enrolling ''tok'' example_binding example_identity_record
     ''long-password'' 120 = Inr (a, s1)"
  by (simp add: complete_enrollment_def enrollment_defs example_defs example_identity(2) example_utf8(2) path_eq_def example_password
      insert_account_def enrolled_row_def update_bumping_def)

theorem enrollment_token_single_use_witness:
  "\<exists>a s1 e. complete_enrollment Some id (ev_argon account_env) ''u1'' example_enrolling ''tok'' example_binding example_identity_record
       ''long-password'' 120 = Inr (a, s1)
     \<and> complete_enrollment Some id (ev_argon account_env) ''u2'' s1 ''tok'' example_binding example_identity_record
       ''other-password'' 130 = Inl e"
proof -
  obtain a s1 where ok: "complete_enrollment Some id (ev_argon account_env) ''u1'' example_enrolling ''tok'' example_binding
      example_identity_record ''long-password'' 120 = Inr (a, s1)" using example_completes by blast
  have env: "ev_uuid account_env = Some" "ev_sha account_env = id" by (simp_all add: account_env_def)
  have "\<exists>e. complete_enrollment (ev_uuid account_env) (ev_sha account_env) (ev_argon account_env) ''u2'' (exec_all account_env [] s1)
      ''tok'' example_binding example_identity_record ''other-password'' 130 = Inl e"
    by (rule enrollment_token_single_use [of account_env "''u1''"
          "[BeginEnrollment ''tok'' example_identity_record example_binding 100 60]" "''x''" "''tok''" example_binding
          example_identity_record "''long-password''" 120 a s1])
      (simp_all add: env example_begins ok)
  with ok show ?thesis by (auto simp: env exec_all_def)
qed
end
