(* ===== verification/TD_Effects.thy ===== *)
theory TD_Effects
  imports TD_Helper_Read TD_Quota
begin

unbundle bit_operations_syntax

text \<open>
  Programs that change the disk. The operating system is the parameter \<open>System\<close>: what each system call answers
  and the disk it leaves, and what the disk shows to calls that only read. A program reads and changes a
  \<open>World\<close>, the disk together with the calls made so far, and ends with a value or an early return. The open of
  \<open>src/helper/sandbox.rs\<close> and \<open>rename\<close> of \<open>src/helper/transaction.rs\<close>, which every operation goes through,
  are modelled here. The rules of \<open>makes\<close> follow a program and say that each call it makes has a property; a
  poll of the cancellation flag is a call too, so that the flag may be raised at any poll.
\<close>

section \<open>System calls\<close>

text \<open>An open file with the path it was opened by.\<close>

record Handle =
  h_fd :: nat
  h_path :: string

text \<open>What the archive crates are asked to put into the archive they write.\<close>

datatype (plugins only: code size) ArchiveItem =
    ZipDirectory string | ZipStartFile string | ZipData nat | ZipFinish
  | TarDirectory string string | TarFile string nat | TarFinish

datatype (plugins only: code size) SysCall =
    Poll
  | OpenBase string
  | OpenExisting string
  | OpenAt string string u32 u32
  | CreateFile string
  | CreateDir string
  | CreateDirAll string
  | WriteWhole string bytes
  | RemoveFile string
  | RemoveDirAll string
  | SetPermissions string u32
  | ArchiveAdd string ArchiveItem
  | UnpackEntry string nat
  | WriteFd Handle bytes
  | SeekFd Handle nat
  | SyncFd Handle
  | FchmodFd Handle u32
  | FchmodAt2 Handle u32
  | FchownFd Handle nat nat
  | SetAclFd Handle bytes
  | RenameAt Handle string Handle string bool
  | UnlinkAt Handle string

text \<open>What \<open>fstat\<close> tells beyond \<open>FileMeta\<close>.\<close>

record FileStat = FileMeta +
  s_dev :: nat
  s_ino :: nat
  s_mtime :: int
  s_mtime_nsec :: int
  s_ctime :: int
  s_ctime_nsec :: int

record 'd System =
  sys_call :: "SysCall \<Rightarrow> 'd \<Rightarrow> (IoError + nat) \<times> 'd"
  sys_file :: "'d \<Rightarrow> nat \<Rightarrow> OpenFile"
  sys_fstat :: "'d \<Rightarrow> nat \<Rightarrow> IoError + FileStat"
  sys_acl :: "'d \<Rightarrow> nat \<Rightarrow> nat \<Rightarrow> IoError + bytes"
  sys_view :: "'d \<Rightarrow> DiskView"
  sys_tree :: "'d \<Rightarrow> AllowedRoot \<Rightarrow> TreeView"
  sys_sizes :: "'d \<Rightarrow> string FsView"
  sys_read_file :: "'d \<Rightarrow> string \<Rightarrow> IoError + bytes"

record 'd World =
  w_disk :: 'd
  w_calls :: "(SysCall \<times> bool) list"

text \<open>A call that opens for writing, creating or truncating changes the disk.\<close>

definition O_EXCL :: u32 where "O_EXCL = 128"
definition O_TRUNC :: u32 where "O_TRUNC = 512"
definition O_NONBLOCK :: u32 where "O_NONBLOCK = 2048"
definition O_DIRECTORY :: u32 where "O_DIRECTORY = 65536"

definition opens_for_writing :: "u32 \<Rightarrow> bool" where
  "opens_for_writing flags \<longleftrightarrow> flags AND (O_WRONLY OR O_RDWR OR O_CREAT OR O_TRUNC) \<noteq> 0"

text \<open>The paths a call may change.\<close>

fun targets :: "SysCall \<Rightarrow> string list" where
  "targets Poll = []"
| "targets (OpenBase _) = []"
| "targets (OpenExisting _) = []"
| "targets (OpenAt base path flags _) = (if opens_for_writing flags then [path_join base path] else [])"
| "targets (CreateFile p) = [p]"
| "targets (CreateDir p) = [p]"
| "targets (CreateDirAll p) = [p]"
| "targets (WriteWhole p _) = [p]"
| "targets (RemoveFile p) = [p]"
| "targets (RemoveDirAll p) = [p]"
| "targets (SetPermissions p _) = [p]"
| "targets (ArchiveAdd p _) = [p]"
| "targets (UnpackEntry p _) = [p]"
| "targets (WriteFd h _) = [h_path h]"
| "targets (SeekFd h _) = []"
| "targets (SyncFd h) = []"
| "targets (FchmodFd h _) = [h_path h]"
| "targets (FchmodAt2 h _) = [h_path h]"
| "targets (FchownFd h _ _) = [h_path h]"
| "targets (SetAclFd h _) = [h_path h]"
| "targets (RenameAt src sn dst tn _) = [path_join (h_path src) sn, path_join (h_path dst) tn]"
| "targets (UnlinkAt h n) = [path_join (h_path h) n]"

section \<open>Programs\<close>

type_synonym ('d, 'e, 'a) prog = "'d World \<Rightarrow> ('e + 'a) \<times> 'd World"

definition lift :: "'e + 'a \<Rightarrow> ('d, 'e, 'a) prog" where
  "lift r w = (r, w)"

abbreviation give :: "'a \<Rightarrow> ('d, 'e, 'a) prog" where
  "give x \<equiv> lift (Inr x)"

abbreviation stop :: "'e \<Rightarrow> ('d, 'e, 'a) prog" where
  "stop e \<equiv> lift (Inl e)"

definition bindp :: "('d, 'e, 'a) prog \<Rightarrow> ('a \<Rightarrow> ('d, 'e, 'b) prog) \<Rightarrow> ('d, 'e, 'b) prog" where
  "bindp m f w = (case m w of (Inl e, w') \<Rightarrow> (Inl e, w') | (Inr x, w') \<Rightarrow> f x w')"

text \<open>The disk as it is now.\<close>

definition look :: "('d \<Rightarrow> 'a) \<Rightarrow> ('d, 'e, 'a) prog" where
  "look f w = (Inr (f (w_disk w)), w)"

definition with_err :: "('e \<Rightarrow> 'f) \<Rightarrow> ('d, 'e, 'a) prog \<Rightarrow> ('d, 'f, 'a) prog" where
  "with_err g m w = (case m w of (r, w') \<Rightarrow> (map_err g r, w'))"

text \<open>\<open>match\<close> on a result, without an early return.\<close>

definition attempt :: "('d, 'e, 'a) prog \<Rightarrow> ('d, 'f, 'e + 'a) prog" where
  "attempt m w = (case m w of (r, w') \<Rightarrow> (Inr r, w'))"

text \<open>\<open>let _ = m;\<close>\<close>

definition ignore :: "('d, 'e, 'a) prog \<Rightarrow> ('d, 'f, unit) prog" where
  "ignore m = bindp (attempt m) (\<lambda>_. give ())"

text \<open>An error is passed on after a clean-up.\<close>

definition on_error :: "('d, 'e, 'a) prog \<Rightarrow> ('d, 'e, unit) prog \<Rightarrow> ('d, 'e, 'a) prog" where
  "on_error m cleanup = bindp (attempt m) (\<lambda>r. case r of Inr x \<Rightarrow> give x | Inl e \<Rightarrow> bindp cleanup (\<lambda>_. stop e))"

text \<open>The answer of a function whose early returns are answers too.\<close>

definition answering :: "('d, 'r, 'r) prog \<Rightarrow> 'd World \<Rightarrow> 'r \<times> 'd World" where
  "answering m w = (case m w of (Inl r, w') \<Rightarrow> (r, w') | (Inr r, w') \<Rightarrow> (r, w'))"

definition run :: "('d World \<Rightarrow> 'r \<times> 'd World) \<Rightarrow> ('d, 'e, 'r) prog" where
  "run m w = (case m w of (r, w') \<Rightarrow> (Inr r, w'))"

definition perform :: "'d System \<Rightarrow> SysCall \<Rightarrow> ('d, IoError, nat) prog" where
  "perform sys c w =
     (case sys_call sys c (w_disk w) of
        (r, d) \<Rightarrow> (r, \<lparr>w_disk = d, w_calls = w_calls w @ [(c, is_ok r)]\<rparr>))"

text \<open>\<open>cancellation::check\<close>: its error carries no number.\<close>

definition poll_cancelled :: "'d System \<Rightarrow> ('d, IoError, unit) prog" where
  "poll_cancelled sys = bindp (with_err (\<lambda>_. None) (perform sys Poll)) (\<lambda>_. give ())"

text \<open>A loop over a list that stops at the first error of its body.\<close>

fun each :: "('a \<Rightarrow> ('d, 'e, unit) prog) \<Rightarrow> 'a list \<Rightarrow> ('d, 'e, unit) prog" where
  "each f [] = give ()"
| "each f (x # xs) = bindp (f x) (\<lambda>_. each f xs)"

lemma bindp_cong [fundef_cong]:
  "m = m' \<Longrightarrow> (\<And>x. f x = g x) \<Longrightarrow> bindp m f = bindp m' g"
  by presburger

lemma each_cong [fundef_cong]:
  "xs = ys \<Longrightarrow> (\<And>x. x \<in> set ys \<Longrightarrow> f x = g x) \<Longrightarrow> each f xs = each g ys"
proof (induction xs arbitrary: ys)
  case (Cons x xs)
  then show ?case by auto
qed simp

text \<open>A loop that collects what its body gives.\<close>

fun collect :: "('a \<Rightarrow> ('d, 'e, 'b) prog) \<Rightarrow> 'a list \<Rightarrow> ('d, 'e, 'b list) prog" where
  "collect f [] = give []"
| "collect f (x # xs) = bindp (f x) (\<lambda>y. bindp (collect f xs) (\<lambda>ys. give (y # ys)))"

section \<open>Opening and renaming beneath a root (\<open>sandbox.rs\<close>, \<open>transaction.rs\<close>)\<close>

definition opened_path :: "AllowedRoot \<Rightarrow> RelativePath \<Rightarrow> string" where
  "opened_path root path = path_join (root_base_path root) (if path = [] then ''.'' else path)"

definition open_beneath ::
  "'d System \<Rightarrow> Context option \<Rightarrow> AllowedRoot \<Rightarrow> RelativePath \<Rightarrow> u32 \<Rightarrow> u32 \<Rightarrow> ('d, SandboxError, Handle) prog" where
  "open_beneath sys cx root path flags mode =
     bindp (lift (map_err (\<lambda>_. KindOther) (validate_relative_path path))) (\<lambda>path.
     bindp (lift (map_err (\<lambda>e. if e = TealDriveError.NotFound then KindNotFound else KindPermissionDenied)
       (context_check cx path (open_access flags)))) (\<lambda>_.
     if nul \<in> set (root_base_path root) then stop KindOther
     else
       bindp (with_err Os (perform sys (OpenBase (root_base_path root)))) (\<lambda>_.
       bindp (with_err Os (perform sys
         (OpenAt (root_base_path root) (if path = [] then ''.'' else path) flags mode))) (\<lambda>fd.
       bindp (look (\<lambda>d. of_metadata (sys_file sys d fd) 0)) (\<lambda>m.
       bindp (lift (map_err Os m)) (\<lambda>(m, _).
       bindp (lift (map_err (\<lambda>_. KindNotFound) (check_metadata cx (Metadata.truncate m)))) (\<lambda>_.
       give \<lparr>h_fd = fd, h_path = opened_path root path\<rparr>)))))))"

text \<open>What opening shows to the functions that only read: the kernel of the component Helper reads.\<close>

definition kernel_of :: "'d System \<Rightarrow> 'd \<Rightarrow> Kernel" where
  "kernel_of sys d =
     \<lparr>kn_open_base = (\<lambda>base. case sys_call sys (OpenBase base) d of (Inl e, _) \<Rightarrow> Inl e | (Inr _, _) \<Rightarrow> Inr ()),
      kn_openat2 = (\<lambda>base path flags mode.
        case sys_call sys (OpenAt base path flags mode) d of
          (Inl e, _) \<Rightarrow> Inl e
        | (Inr fd, d') \<Rightarrow> Inr (sys_file sys d' fd))\<rparr>"

definition split_target :: "RelativePath \<Rightarrow> SandboxError + RelativePath \<times> string" where
  "split_target p =
     and_then (map_err (\<lambda>_. KindOther) (validate_relative_path p)) (\<lambda>clean.
     case rsplit_once slash clean of
       Some pn \<Rightarrow> Inr pn
     | None \<Rightarrow> if clean \<noteq> [] then Inr ([], clean) else Inl KindOther)"

definition transaction_rename ::
  "'d System \<Rightarrow> Context option \<Rightarrow> AllowedRoot \<Rightarrow> RelativePath \<Rightarrow> RelativePath \<Rightarrow> bool \<Rightarrow> ('d, SandboxError, unit) prog" where
  "transaction_rename sys cx root source target replace =
     bindp (lift (split_target source)) (\<lambda>(sp, sn).
     bindp (lift (split_target target)) (\<lambda>(tp, tn).
     bindp (open_beneath sys cx root sp (O_PATH OR O_DIRECTORY) 0) (\<lambda>src.
     bindp (open_beneath sys cx root tp (O_PATH OR O_DIRECTORY) 0) (\<lambda>dst.
     if nul \<in> set sn \<or> nul \<in> set tn then stop KindOther
     else bindp (with_err Os (perform sys (RenameAt src sn dst tn replace))) (\<lambda>_. give ())))))"

section \<open>Results of programs\<close>

lemma prog_results [simp]:
  "fst (lift r w) = r" "snd (lift r w) = w" "fst (look f w) = Inr (f (w_disk w))" "snd (look f w) = w"
  "fst (with_err g m w) = map_err g (fst (m w))" "fst (attempt m w) = Inr (fst (m w))"
  "fst (run k w) = Inr (fst (k w))"
  by (simp_all add: lift_def look_def with_err_def attempt_def run_def split: prod.split)

lemma bindp_Inr: "fst (bindp m f w) = Inr y \<longleftrightarrow> (\<exists>x. fst (m w) = Inr x \<and> fst (f x (snd (m w))) = Inr y)"
  by (auto simp: bindp_def split: prod.split sum.split)

section \<open>Which calls a program makes\<close>

named_theorems makes_rules \<open>rules that follow the structure of a program\<close>

definition makes :: "(SysCall \<Rightarrow> bool) \<Rightarrow> ('d, 'e, 'a) prog \<Rightarrow> bool" where
  "makes P m \<longleftrightarrow> (\<forall>w. \<exists>cs. w_calls (snd (m w)) = w_calls w @ cs \<and> (\<forall>c \<in> set cs. P (fst c)))"

definition makesR :: "(SysCall \<Rightarrow> bool) \<Rightarrow> ('d World \<Rightarrow> 'r \<times> 'd World) \<Rightarrow> bool" where
  "makesR P m \<longleftrightarrow> (\<forall>w. \<exists>cs. w_calls (snd (m w)) = w_calls w @ cs \<and> (\<forall>c \<in> set cs. P (fst c)))"

lemma makes_lift [makes_rules, simp]: "makes P (lift r)"
  by (simp add: makes_def lift_def)

lemma makes_look [makes_rules, simp]: "makes P (look f)"
  by (simp add: makes_def look_def)

lemma makes_perform [makes_rules]: "P c \<Longrightarrow> makes P (perform sys c)"
  by (simp add: makes_def perform_def split: prod.split)

lemma makes_bind_fst:
  assumes "makes P m" and "\<And>w x. fst (m w) = Inr x \<Longrightarrow> makes P (f x)"
  shows "makes P (bindp m f)"
  unfolding makes_def
proof
  fix w
  obtain r w1 where m: "m w = (r, w1)" by fastforce
  obtain cs where cs: "w_calls w1 = w_calls w @ cs" "\<forall>c \<in> set cs. P (fst c)"
    using assms(1) m unfolding makes_def by (metis snd_conv)
  show "\<exists>cs. w_calls (snd (bindp m f w)) = w_calls w @ cs \<and> (\<forall>c \<in> set cs. P (fst c))"
  proof (cases r)
    case (Inr x)
    then have "makes P (f x)" using assms(2) [of w x] m by simp
    then obtain cs' where "w_calls (snd (f x w1)) = w_calls w1 @ cs'" "\<forall>c \<in> set cs'. P (fst c)"
      unfolding makes_def by blast
    with cs m Inr show ?thesis by (intro exI [of _ "cs @ cs'"]) (auto simp: bindp_def)
  qed (use m cs in \<open>auto simp: bindp_def\<close>)
qed

lemma makes_bind: "makes P m \<Longrightarrow> (\<And>x. makes P (f x)) \<Longrightarrow> makes P (bindp m f)"
  by (rule makes_bind_fst)

lemma makes_bind_lift [makes_rules]: "(\<And>x. r = Inr x \<Longrightarrow> makes P (f x)) \<Longrightarrow> makes P (bindp (lift r) f)"
  by (rule makes_bind_fst) (auto simp: lift_def)

lemma makes_bind_look [makes_rules]: "(\<And>d. makes P (f (g d))) \<Longrightarrow> makes P (bindp (look g) f)"
  by (rule makes_bind_fst) (auto simp: look_def)

lemma wrapped_world [simp]:
  "snd (with_err g m w) = snd (m w)" "snd (attempt m w) = snd (m w)" "snd (answering n w) = snd (n w)"
  "snd (run k w) = snd (k w)"
  by (simp_all add: with_err_def attempt_def answering_def run_def split: prod.split sum.split)

lemma makes_with_err [makes_rules]: "makes P m \<Longrightarrow> makes P (with_err g m)"
  by (simp add: makes_def)

lemma makes_attempt [makes_rules]: "makes P m \<Longrightarrow> makes P (attempt m)"
  by (simp add: makes_def)

lemma makes_ignore [makes_rules]: "makes P m \<Longrightarrow> makes P (ignore m)"
  unfolding ignore_def by (intro makes_bind makes_attempt makes_lift)

lemma makes_respond [makes_rules]: "makes P m \<Longrightarrow> makesR P (answering m)"
  by (simp add: makes_def makesR_def)

lemma makes_run [makes_rules]: "makesR P m \<Longrightarrow> makes P (run m)"
  by (simp add: makes_def makesR_def)

lemma makes_poll [makes_rules]: "P Poll \<Longrightarrow> makes P (poll_cancelled sys)"
  unfolding poll_cancelled_def by (intro makes_bind makes_with_err makes_perform makes_lift)

lemma makes_each [makes_rules]: "(\<And>x. x \<in> set xs \<Longrightarrow> makes P (f x)) \<Longrightarrow> makes P (each f xs)"
  by (induction xs) (auto intro: makes_bind)

lemma makes_collect [makes_rules]: "(\<And>x. x \<in> set xs \<Longrightarrow> makes P (f x)) \<Longrightarrow> makes P (collect f xs)"
  by (induction xs) (auto intro!: makes_bind)

lemma makes_if [makes_rules]: "(b \<Longrightarrow> makes P m) \<Longrightarrow> (\<not> b \<Longrightarrow> makes P n) \<Longrightarrow> makes P (if b then m else n)"
  by simp

lemma makes_option [makes_rules]:
  "(x = None \<Longrightarrow> makes P m) \<Longrightarrow> (\<And>y. x = Some y \<Longrightarrow> makes P (f y)) \<Longrightarrow> makes P (case x of None \<Rightarrow> m | Some y \<Rightarrow> f y)"
  by (cases x) simp_all

lemma makes_sum [makes_rules]:
  "(\<And>e. r = Inl e \<Longrightarrow> makes P (g e)) \<Longrightarrow> (\<And>y. r = Inr y \<Longrightarrow> makes P (h y)) \<Longrightarrow>
     makes P (case r of Inl e \<Rightarrow> g e | Inr y \<Rightarrow> h y)"
  by (cases r) simp_all

lemma makes_list [makes_rules]:
  "(xs = [] \<Longrightarrow> makes P m) \<Longrightarrow> (\<And>y ys. xs = y # ys \<Longrightarrow> makes P (k y ys)) \<Longrightarrow>
     makes P (case xs of [] \<Rightarrow> m | y # ys \<Rightarrow> k y ys)"
  by (cases xs) simp_all

lemma makes_prod [makes_rules]:
  "(\<And>a b. x = (a, b) \<Longrightarrow> makes P (l a b)) \<Longrightarrow> makes P (case x of (a, b) \<Rightarrow> l a b)"
  by (cases x) simp

lemma makes_on_error [makes_rules]: "makes P m \<Longrightarrow> makes P n \<Longrightarrow> makes P (on_error m n)"
  unfolding on_error_def by (intro makes_bind makes_attempt makes_sum makes_lift)

lemma makes_let [makes_rules]: "makes P (f x) \<Longrightarrow> makes P (Let x f)"
  by simp

lemma makesR_let: "makesR P (f x) \<Longrightarrow> makesR P (Let x f)"
  by simp

section \<open>Which paths a program touches\<close>

text \<open>A call touches only permitted paths. The one exception is the creation of a directory with all those missing above
  it, which is also allowed for a directory above a permitted path: a property stated with \<open>touches\<close> does not exclude
  that such directories appear.\<close>

definition touches :: "(string \<Rightarrow> bool) \<Rightarrow> SysCall \<Rightarrow> bool" where
  "touches Q c \<longleftrightarrow>
     (case c of CreateDirAll p \<Rightarrow> (\<exists>below. Q below \<and> path_starts_with below p) | _ \<Rightarrow> (\<forall>p \<in> set (targets c). Q p))"

lemma touches_simps [simp]:
  "touches Q Poll" "touches Q (OpenBase b)" "touches Q (OpenExisting p)" "touches Q (SeekFd h n)" "touches Q (SyncFd h)"
  "touches Q (OpenAt b p flags mode) \<longleftrightarrow> (opens_for_writing flags \<longrightarrow> Q (path_join b p))"
  "touches Q (CreateFile p) \<longleftrightarrow> Q p" "touches Q (CreateDir p) \<longleftrightarrow> Q p" "touches Q (CreateDirAll p) \<longleftrightarrow> (\<exists>below. Q below \<and> path_starts_with below p)"
  "touches Q (WriteWhole p bs) \<longleftrightarrow> Q p" "touches Q (RemoveFile p) \<longleftrightarrow> Q p" "touches Q (RemoveDirAll p) \<longleftrightarrow> Q p"
  "touches Q (SetPermissions p m) \<longleftrightarrow> Q p" "touches Q (ArchiveAdd p x) \<longleftrightarrow> Q p" "touches Q (UnpackEntry p i) \<longleftrightarrow> Q p"
  "touches Q (WriteFd h bs) \<longleftrightarrow> Q (h_path h)" "touches Q (FchmodFd h m) \<longleftrightarrow> Q (h_path h)"
  "touches Q (FchmodAt2 h m) \<longleftrightarrow> Q (h_path h)" "touches Q (FchownFd h u g) \<longleftrightarrow> Q (h_path h)"
  "touches Q (SetAclFd h bs) \<longleftrightarrow> Q (h_path h)"
  "touches Q (RenameAt src sn dst tn b') \<longleftrightarrow> Q (path_join (h_path src) sn) \<and> Q (path_join (h_path dst) tn)"
  "touches Q (UnlinkAt h n') \<longleftrightarrow> Q (path_join (h_path h) n')"
  by (auto simp: touches_def)

lemma read_flags [simp]:
  "\<not> opens_for_writing O_RDONLY" "\<not> opens_for_writing O_PATH" "\<not> opens_for_writing (O_PATH OR O_DIRECTORY)"
  "\<not> opens_for_writing (O_RDONLY OR O_NONBLOCK)"
  by (simp_all add: opens_for_writing_def O_RDONLY_def O_PATH_def O_DIRECTORY_def O_NONBLOCK_def O_WRONLY_def
      O_RDWR_def O_CREAT_def O_TRUNC_def)

lemma open_beneath_handle:
  assumes "fst (open_beneath sys cx root path flags mode w) = Inr h"
  obtains p where "validate_relative_path path = Inr p" and "context_check cx p (open_access flags) = Inr ()"
    and "h_path h = opened_path root p"
  using assms
  by (auto simp: open_beneath_def bindp_def lift_def with_err_def look_def map_err_Inr and_then_Inr
      split: if_split_asm sum.split_asm prod.split_asm)

lemma makes_open_beneath [makes_rules]:
  assumes "\<And>p. validate_relative_path path = Inr p \<Longrightarrow> opens_for_writing flags \<Longrightarrow> Q (opened_path root p)"
  shows "makes (touches Q) (open_beneath sys cx root path flags mode)"
  unfolding open_beneath_def
  by (intro makes_rules makes_bind) (use assms in \<open>auto simp: map_err_Inr opened_path_def\<close>)

lemma makes_bind_open_err [makes_rules]:
  assumes "\<And>p. validate_relative_path path = Inr p \<Longrightarrow> opens_for_writing flags \<Longrightarrow> Q (opened_path root p)"
    and "\<And>p h. validate_relative_path path = Inr p \<Longrightarrow> h_path h = opened_path root p \<Longrightarrow> makes (touches Q) (f h)"
  shows "makes (touches Q) (bindp (with_err g (open_beneath sys cx root path flags mode)) f)"
proof (rule makes_bind_fst)
  show "makes (touches Q) (with_err g (open_beneath sys cx root path flags mode))"
    by (intro makes_with_err makes_open_beneath assms(1))
  fix w h
  assume "fst (with_err g (open_beneath sys cx root path flags mode) w) = Inr h"
  then have "fst (open_beneath sys cx root path flags mode w) = Inr h"
    by (auto simp: with_err_def map_err_Inr split: prod.split_asm)
  then show "makes (touches Q) (f h)" by (rule open_beneath_handle) (rule assms(2))
qed

lemma makes_bind_open [makes_rules]:
  assumes "\<And>p. validate_relative_path path = Inr p \<Longrightarrow> opens_for_writing flags \<Longrightarrow> Q (opened_path root p)"
    and "\<And>p h. validate_relative_path path = Inr p \<Longrightarrow> h_path h = opened_path root p \<Longrightarrow> makes (touches Q) (f h)"
  shows "makes (touches Q) (bindp (open_beneath sys cx root path flags mode) f)"
  by (rule makes_bind_fst) (use assms in \<open>auto intro!: makes_open_beneath elim: open_beneath_handle\<close>)

end
