(* ===== verification/TD_Mutations.thy ===== *)
theory TD_Mutations
  imports TD_Effects
begin

unbundle bit_operations_syntax

text \<open>
  The operations of the helper that change one entry of the disk: \<open>src/helper/create_folder.rs\<close>, \<open>rename.rs\<close>,
  \<open>move_copy.rs\<close>, \<open>chmod.rs\<close> and \<open>upload.rs\<close>. The thread-local values they read (budget, policy snapshot,
  staged upload, name of the operation) are the record \<open>Task\<close>. A write or a read that a signal interrupts is
  repeated by the standard library; the answer of the call is that of its last attempt.
\<close>

section \<open>The environment of an operation\<close>

record Task =
  tk_budget :: "nat option"
  tk_artifact :: "string option"
  tk_uuid :: string
  tk_snapshot :: "AppConfig option"
  tk_stream :: "nat option"
  tk_now :: nat

definition already_exists :: "SandboxError \<Rightarrow> bool" where
  "already_exists e \<longleftrightarrow> e = Os (Some 17)"

definition kind_permission_denied :: "SandboxError \<Rightarrow> bool" where
  "kind_permission_denied e \<longleftrightarrow> e = KindPermissionDenied \<or> e = Os (Some 1) \<or> e = Os (Some 13)"

section \<open>Folders (\<open>create_folder.rs\<close>)\<close>

definition folder_io_error :: "HelperRequest \<Rightarrow> SandboxError \<Rightarrow> HelperResponse" where
  "folder_io_error q e =
     (if already_exists e then helper_error q ErrorKind.AlreadyExists ''Target already exists.'' ''already_exists''
      else if is_not_found e then helper_error q ErrorKind.NotFound ''Parent not found.'' ''not_found''
      else if kind_permission_denied e
      then helper_error q ErrorKind.PermissionDenied ''Permission denied.'' ''permission_denied''
      else if e = Os (Some 20)
      then helper_error q ErrorKind.InvalidTarget ''Parent is not a directory.'' ''parent_not_directory''
      else if e = Os (Some 28) \<or> e = Os (Some 122)
      then helper_error q ErrorKind.DiskFull ''Disk is full.'' ''disk_full''
      else if e = Os (Some 36) then helper_error q ErrorKind.NameTooLong ''Name too long.'' ''name_too_long''
      else helper_error q ErrorKind.InternalError ''Filesystem error.'' ''filesystem_error'')"

definition create_folder_with_roots ::
  "'d System \<Rightarrow> HelperRequest \<Rightarrow> AllowedRoot list \<Rightarrow> 'd World \<Rightarrow> HelperResponse \<times> 'd World" where
  "create_folder_with_roots sys q roots = answering
     (if hq_command q \<noteq> HelperCommand.CreateFolder then stop (response_not_implemented q)
      else if hq_uid q = 0 then stop (response_permission_denied q ''Helper refuses uid 0.'')
      else
        bindp (lift (ok_or (find (\<lambda>root. root_root_id root = hq_root_id q) roots)
          (helper_error q ErrorKind.InvalidPath ''Unknown root id.'' ''invalid_root_id''))) (\<lambda>root.
        bindp (lift (ok_or (hq_target_relative_path q)
          (helper_error q ErrorKind.ValidationError ''Folder name is required.'' ''missing_folder_name''))) (\<lambda>folder_name.
        if slash \<in> set folder_name \<or> CHR 0x5C \<in> set folder_name
        then stop (helper_error q ErrorKind.ValidationError ''Invalid folder name.'' ''invalid_folder_name'')
        else
          bindp (look (\<lambda>d. resolve_new_target (sys_view sys d) root (hq_relative_path q) folder_name)) (\<lambda>r.
          bindp (lift (map_err (helper_error_from_tealdrive q) r)) (\<lambda>target.
          bindp (with_err (\<lambda>e. folder_io_error q (Os e)) (perform sys (CreateDir (nt_resolved_path target)))) (\<lambda>_.
          give (response_operation_done q ''Folder created.'')))))))"

section \<open>Renaming (\<open>rename.rs\<close>)\<close>

definition source_parent :: "RelativePath \<Rightarrow> RelativePath" where
  "source_parent path = (case rsplit_once slash path of Some (parent, _) \<Rightarrow> parent | None \<Rightarrow> [])"

definition rename_io_error :: "HelperRequest \<Rightarrow> SandboxError \<Rightarrow> HelperResponse" where
  "rename_io_error q e =
     (if already_exists e then helper_error q ErrorKind.AlreadyExists ''Target already exists.'' ''already_exists''
      else if is_not_found e then helper_error q ErrorKind.NotFound ''Source not found.'' ''not_found''
      else if kind_permission_denied e
      then helper_error q ErrorKind.PermissionDenied ''Permission denied.'' ''permission_denied''
      else if e = Os (Some 18)
      then helper_error q ErrorKind.CrossDeviceMove ''Cross-device rename is not supported.'' ''cross_device_move''
      else if e = Os (Some 20)
      then helper_error q ErrorKind.InvalidTarget ''Parent is not a directory.'' ''parent_not_directory''
      else if e = Os (Some 28) \<or> e = Os (Some 122)
      then helper_error q ErrorKind.DiskFull ''Disk is full.'' ''disk_full''
      else if e = Os (Some 36) then helper_error q ErrorKind.NameTooLong ''Name too long.'' ''name_too_long''
      else helper_error q ErrorKind.InternalError ''Filesystem error.'' ''filesystem_error'')"

definition rename_with_roots ::
  "'d System \<Rightarrow> Context option \<Rightarrow> HelperRequest \<Rightarrow> AllowedRoot list \<Rightarrow> 'd World \<Rightarrow> HelperResponse \<times> 'd World" where
  "rename_with_roots sys cx q roots = answering
     (if hq_command q \<noteq> HelperCommand.Rename then stop (response_not_implemented q)
      else if hq_uid q = 0 then stop (response_permission_denied q ''Helper refuses uid 0.'')
      else
        bindp (lift (ok_or (find (\<lambda>root. root_root_id root = hq_root_id q) roots)
          (helper_error q ErrorKind.InvalidPath ''Unknown root id.'' ''invalid_root_id''))) (\<lambda>root.
        bindp (lift (ok_or (hq_target_relative_path q)
          (helper_error q ErrorKind.ValidationError ''New name is required.'' ''missing_new_name''))) (\<lambda>new_name.
        if slash \<in> set new_name \<or> CHR 0x5C \<in> set new_name
        then stop (helper_error q ErrorKind.ValidationError ''Invalid new name.'' ''invalid_new_name'')
        else
          bindp (look (\<lambda>d. resolve_existing_path cx (sys_view sys d) root (hq_relative_path q) False)) (\<lambda>r.
          bindp (lift (map_err (helper_error_from_tealdrive q) r)) (\<lambda>source.
          bindp (look (\<lambda>d. resolve_new_target (sys_view sys d) root
            (source_parent (ex_relative_path source)) new_name)) (\<lambda>r.
          bindp (lift (map_err (helper_error_from_tealdrive q) r)) (\<lambda>target.
          bindp (look (\<lambda>d. is_ok (dv_symlink_metadata (sys_view sys d) (nt_resolved_path target)))) (\<lambda>taken.
          if taken then stop (helper_error q ErrorKind.AlreadyExists ''Target already exists.'' ''already_exists'')
          else
            bindp (with_err (rename_io_error q) (transaction_rename sys cx root (ex_relative_path source)
              (if nt_parent_relative_path target = [] then nt_filename target
               else nt_parent_relative_path target @ ''/'' @ nt_filename target) False)) (\<lambda>_.
            give (response_operation_done q ''Renamed.'')))))))))) "

section \<open>Moving and copying (\<open>move_copy.rs\<close>)\<close>

definition move_io_error :: "HelperRequest \<Rightarrow> SandboxError \<Rightarrow> HelperResponse" where
  "move_io_error q e =
     (if already_exists e then helper_error q ErrorKind.AlreadyExists ''Target already exists.'' ''already_exists''
      else if is_not_found e then helper_error q ErrorKind.NotFound ''Source not found.'' ''not_found''
      else if kind_permission_denied e
      then helper_error q ErrorKind.PermissionDenied ''Permission denied.'' ''permission_denied''
      else if e = Os (Some 18)
      then helper_error q ErrorKind.CrossDeviceMove ''Cross-device move is not supported.'' ''cross_device_move''
      else if e = Os (Some 20)
      then helper_error q ErrorKind.InvalidTarget ''Parent is not a directory.'' ''parent_not_directory''
      else if e = Os (Some 28) \<or> e = Os (Some 122)
      then helper_error q ErrorKind.DiskFull ''Disk is full.'' ''disk_full''
      else if e = Os (Some 36) then helper_error q ErrorKind.NameTooLong ''Name too long.'' ''name_too_long''
      else helper_error q ErrorKind.InternalError ''Filesystem error.'' ''filesystem_error'')"

definition copy_io_error :: "HelperRequest \<Rightarrow> SandboxError \<Rightarrow> HelperResponse" where
  "copy_io_error q e =
     (if already_exists e then helper_error q ErrorKind.AlreadyExists ''Target already exists.'' ''already_exists''
      else if is_not_found e then helper_error q ErrorKind.NotFound ''Source not found.'' ''not_found''
      else if kind_permission_denied e
      then helper_error q ErrorKind.PermissionDenied ''Permission denied.'' ''permission_denied''
      else if e = Os (Some 28) \<or> e = Os (Some 122)
      then helper_error q ErrorKind.DiskFull ''Disk is full.'' ''disk_full''
      else if e = Os (Some 36) then helper_error q ErrorKind.NameTooLong ''Name too long.'' ''name_too_long''
      else helper_error q ErrorKind.InternalError ''Filesystem error.'' ''filesystem_error'')"

definition resolve_safe_target_path ::
  "DiskView \<Rightarrow> string \<Rightarrow> string \<Rightarrow> HelperRequest \<Rightarrow> HelperResponse + string" where
  "resolve_safe_target_path disk canonical_base target_rel q =
     (let (parent_rel, filename) = (case rsplit_once slash target_rel of Some pf \<Rightarrow> pf | None \<Rightarrow> ([], target_rel));
          parent_path = (if parent_rel = [] then canonical_base else path_join canonical_base parent_rel)
      in case dv_symlink_metadata disk parent_path of
        Inl _ \<Rightarrow> Inl (helper_error q ErrorKind.NotFound ''Target parent directory not found.'' ''target_parent_not_found'')
      | Inr m \<Rightarrow>
          if st_is_symlink m
          then Inl (helper_error q ErrorKind.PolicyDenied ''Target parent directory cannot be a symlink.'' ''symlink_denied'')
          else if \<not> md_is_dir m
          then Inl (helper_error q ErrorKind.InvalidTarget ''Target parent must be a directory.'' ''invalid_target'')
          else (case dv_canonicalize disk parent_path of
              Inl _ \<Rightarrow> Inl (helper_error q ErrorKind.InvalidPath ''Failed to resolve target parent directory.''
                ''invalid_target_parent'')
            | Inr canonical_parent \<Rightarrow>
                if \<not> path_starts_with canonical_parent canonical_base
                then Inl (helper_error q ErrorKind.PolicyDenied ''Target escapes root.'' ''target_escapes_root'')
                else
                  let target_path = path_join canonical_parent filename in
                  if \<not> path_starts_with target_path canonical_base
                  then Inl (helper_error q ErrorKind.PolicyDenied ''Target escapes root.'' ''target_escapes_root'')
                  else if is_ok (dv_symlink_metadata disk target_path)
                  then Inl (helper_error q ErrorKind.AlreadyExists ''Target already exists.'' ''already_exists'')
                  else Inr target_path))"

text \<open>What moving and copying check alike, up to the resolution of the source.\<close>

definition move_copy_source ::
  "'d System \<Rightarrow> Context option \<Rightarrow> HelperRequest \<Rightarrow> AllowedRoot list
   \<Rightarrow> ('d, HelperResponse, AllowedRoot \<times> RelativePath \<times> ExistingPathResolution) prog" where
  "move_copy_source sys cx q roots =
     (if hq_uid q = 0 then stop (response_permission_denied q ''Helper refuses uid 0.'')
      else
        bindp (lift (ok_or (find (\<lambda>root. root_root_id root = hq_root_id q) roots)
          (helper_error q ErrorKind.InvalidPath ''Unknown root id.'' ''invalid_root_id''))) (\<lambda>root.
        bindp (lift (ok_or (hq_target_relative_path q)
          (helper_error q ErrorKind.ValidationError ''Target path is required.'' ''missing_target''))) (\<lambda>target_rel.
        bindp (lift (map_err (helper_error_from_tealdrive q) (validate_relative_path target_rel))) (\<lambda>target.
        if target = [] then stop (helper_error q ErrorKind.InvalidTarget ''Target path cannot be empty.'' ''empty_target'')
        else
          bindp (look (\<lambda>d. resolve_existing_path cx (sys_view sys d) root (hq_relative_path q) False)) (\<lambda>r.
          bindp (lift (map_err (helper_error_from_tealdrive q) r)) (\<lambda>source.
          give (root, target, source)))))))"

definition move_file_with_roots ::
  "'d System \<Rightarrow> Context option \<Rightarrow> HelperRequest \<Rightarrow> AllowedRoot list \<Rightarrow> 'd World \<Rightarrow> HelperResponse \<times> 'd World" where
  "move_file_with_roots sys cx q roots = answering
     (if hq_command q \<noteq> HelperCommand.Move then stop (response_not_implemented q)
      else
        bindp (move_copy_source sys cx q roots) (\<lambda>(root, target, source).
        bindp (look (\<lambda>d. resolve_safe_target_path (sys_view sys d) (rr_canonical_base (ex_root source)) target q)) (\<lambda>r.
        bindp (lift r) (\<lambda>_.
        bindp (with_err (move_io_error q) (transaction_rename sys cx root (ex_relative_path source) target False)) (\<lambda>_.
        give (response_operation_done q ''Moved.''))))))"

text \<open>\<open>write_all\<close> on a file, and on a file behind a \<open>BudgetWriter\<close>, whose position is kept in the argument.\<close>

function write_all :: "'d System \<Rightarrow> Handle \<Rightarrow> bytes \<Rightarrow> ('d, IoError, unit) prog" where
  "write_all sys h bs =
     (if bs = [] then give ()
      else bindp (perform sys (WriteFd h bs)) (\<lambda>n. if n = 0 then stop None else write_all sys h (drop n bs)))"
  by pat_completeness auto
termination by (relation "measure (\<lambda>(_, _, bs). length bs)") auto

declare write_all.simps [simp del]

function budget_write_all ::
  "'d System \<Rightarrow> nat \<Rightarrow> nat \<Rightarrow> Handle \<Rightarrow> bytes \<Rightarrow> ('d, IoError, nat) prog" where
  "budget_write_all sys limit position h bs =
     (if bs = [] then give position
      else
        bindp (poll_cancelled sys) (\<lambda>_.
        if length bs > limit - position then stop (Some 28)
        else bindp (perform sys (WriteFd h bs)) (\<lambda>n.
          if n = 0 then stop None else budget_write_all sys limit (position + n) h (drop n bs))))"
  by pat_completeness auto
termination by (relation "measure (\<lambda>(_, _, _, _, bs). length bs)") auto

declare budget_write_all.simps [simp del]

text \<open>\<open>io::copy\<close> from a reader limited to \<open>left\<close> bytes into a \<open>BudgetWriter\<close>; the buffer has 8192 bytes.\<close>

function copy_loop ::
  "'d System \<Rightarrow> ('d \<Rightarrow> OpenFile) \<Rightarrow> nat \<Rightarrow> nat \<Rightarrow> nat \<Rightarrow> nat \<Rightarrow> Handle \<Rightarrow> ('d, IoError, nat) prog" where
  "copy_loop sys src pos left limit position dst =
     bindp (look (\<lambda>d. read_limited (src d) pos left 8192)) (\<lambda>r.
     bindp (lift r) (\<lambda>buffer.
     if buffer = [] \<or> left = 0 then give pos
     else bindp (budget_write_all sys limit position dst buffer) (\<lambda>position.
       copy_loop sys src (pos + length buffer) (left - length buffer) limit position dst)))"
  by pat_completeness auto
termination by (relation "measure (\<lambda>(_, _, _, left, _). left)") auto

declare copy_loop.simps [simp del]

definition copy_contents ::
  "'d System \<Rightarrow> Context option \<Rightarrow> Task \<Rightarrow> AllowedRoot \<Rightarrow> RelativePath \<Rightarrow> RelativePath \<Rightarrow> ('d, SandboxError, nat) prog" where
  "copy_contents sys cx tk root source_path target =
     bindp (open_beneath sys cx root source_path O_RDONLY 0) (\<lambda>source.
     let available = (case tk_budget tk of Some n \<Rightarrow> n | None \<Rightarrow> U64_MAX - 1) in
     bindp (look (\<lambda>d. sys_fstat sys d (h_fd source))) (\<lambda>m.
     bindp (lift (map_err Os m)) (\<lambda>m.
     if st_len m > available then stop (Os (Some 28))
     else
       bindp (open_beneath sys cx root target (O_WRONLY OR O_CREAT OR O_EXCL) 0x180) (\<lambda>dst.
       bindp (with_err Os (copy_loop sys (\<lambda>d. sys_file sys d (h_fd source)) 0 (saturating_add available 1)
         (bw_limit (BudgetWriter_new (tk_budget tk))) 0 dst)) (\<lambda>count.
       if count > available then stop (Os (Some 28))
       else bindp (with_err Os (perform sys (SyncFd dst))) (\<lambda>_. give count))))))"

definition copy_file_with_roots ::
  "'d System \<Rightarrow> Context option \<Rightarrow> Task \<Rightarrow> HelperRequest \<Rightarrow> AllowedRoot list \<Rightarrow> 'd World \<Rightarrow> HelperResponse \<times> 'd World" where
  "copy_file_with_roots sys cx tk q roots = answering
     (if hq_command q \<noteq> HelperCommand.Copy then stop (response_not_implemented q)
      else
        bindp (move_copy_source sys cx q roots) (\<lambda>(root, target, source).
        bindp (look (\<lambda>d. case dv_metadata (sys_view sys d) (ex_resolved_path source) of
          Inr m \<Rightarrow> md_is_dir m | Inl _ \<Rightarrow> False)) (\<lambda>is_dir.
        if is_dir
        then stop (helper_error q ErrorKind.InvalidTarget ''Directories cannot be copied.'' ''directory_copy_unsupported'')
        else
          bindp (look (\<lambda>d. resolve_safe_target_path (sys_view sys d) (rr_canonical_base (ex_root source)) target q)) (\<lambda>r.
          bindp (lift r) (\<lambda>_.
          bindp (with_err (copy_io_error q) (copy_contents sys cx tk root (hq_relative_path q) target)) (\<lambda>_.
          give (response_operation_done q ''Copied.'')))))))"

section \<open>Permissions (\<open>chmod.rs\<close>, and \<open>FileState\<close> of \<open>observation.rs\<close>)\<close>

text \<open>\<open>sha_json\<close> is SHA-256, as text, of the JSON form of a state.\<close>

definition FileState_metadata :: "FileStat \<Rightarrow> FileState" where
  "FileState_metadata m =
     \<lparr>fst_digest = [], fst_device = show_nat (s_dev m), fst_inode = show_nat (s_ino m),
      fst_kind = (if md_is_file m then ''file'' else if md_is_dir m then ''directory'' else ''other''),
      fst_mode = unat (st_mode m AND 0xFFF), fst_uid = st_uid m, fst_gid = st_gid m, fst_size = st_len m,
      fst_links = md_nlink m, fst_mtime_seconds = s_mtime m, fst_mtime_nanos = s_mtime_nsec m,
      fst_ctime_seconds = s_ctime m, fst_ctime_nanos = s_ctime_nsec m,
      fst_content_digest = None, fst_tree_digest = None\<rparr>"

definition FileState_finish :: "(FileState \<Rightarrow> string) \<Rightarrow> FileState \<Rightarrow> FileState" where
  "FileState_finish sha_json s = (let s = s\<lparr>fst_digest := []\<rparr> in s\<lparr>fst_digest := sha_json s\<rparr>)"

definition chmod_pinned ::
  "'d System \<Rightarrow> Context option \<Rightarrow> AllowedRoot \<Rightarrow> RelativePath \<Rightarrow> Handle \<Rightarrow> u32 \<Rightarrow> ('d, SandboxError, unit) prog" where
  "chmod_pinned sys cx root path pinned mode =
     bindp (attempt (perform sys (FchmodAt2 pinned mode))) (\<lambda>result.
     case result of
       Inr _ \<Rightarrow> give ()
     | Inl e \<Rightarrow>
         if e \<notin> {Some 38, Some 22, Some 95} then stop (Os e)
         else
           bindp (open_beneath sys cx root path (O_RDONLY OR O_NONBLOCK) 0) (\<lambda>readable.
           bindp (look (\<lambda>d. (sys_fstat sys d (h_fd pinned), sys_fstat sys d (h_fd readable)))) (\<lambda>(original, reopened).
           bindp (lift (map_err Os original)) (\<lambda>original.
           bindp (lift (map_err Os reopened)) (\<lambda>reopened.
           if s_dev original \<noteq> s_dev reopened \<or> s_ino original \<noteq> s_ino reopened then stop KindOther
           else bindp (with_err Os (perform sys (FchmodFd readable mode))) (\<lambda>_. give ()))))))"

definition chmod_with_expected_state ::
  "'d System \<Rightarrow> (FileState \<Rightarrow> string) \<Rightarrow> Context option \<Rightarrow> HelperRequest \<Rightarrow> AllowedRoot list \<Rightarrow> SensitivePolicyConfig
   \<Rightarrow> FileState option \<Rightarrow> 'd World \<Rightarrow> HelperResponse \<times> 'd World" where
  "chmod_with_expected_state sys sha_json cx q roots sensitive_config expected = answering
     (if hq_command q \<noteq> HelperCommand.Chmod then stop (response_not_implemented q)
      else if hq_uid q = 0 then stop (response_permission_denied q ''Helper refuses uid 0.'')
      else
        bindp (lift (ok_or (find (\<lambda>root. root_root_id root = hq_root_id q) roots)
          (helper_error q ErrorKind.InvalidPath ''Unknown root id.'' ''invalid_root_id''))) (\<lambda>root.
        if root_read_only root
        then stop (helper_error q ErrorKind.PolicyDenied ''Root is read-only.'' ''read_only_root'')
        else
        bindp (lift (ok_or (hq_chmod_mode q)
          (helper_error q ErrorKind.ValidationError ''Mode required for chmod.'' ''missing_chmod_mode''))) (\<lambda>mode.
        bindp (lift (map_err (helper_error_from_tealdrive q) (validate_relative_path (hq_relative_path q)))) (\<lambda>path.
        if path = []
        then stop (helper_error q ErrorKind.InvalidPath ''Cannot chmod root directory.'' ''invalid_target'')
        else if sm_is_sensitive (detect_sensitive path sensitive_config)
        then stop (helper_error q ErrorKind.PolicyDenied ''Target path is sensitive.'' ''sensitive_path'')
        else if (case check_webroot_chmod_executable (root_is_web_root root) mode of PolicyDecision.Deny _ \<Rightarrow> True | _ \<Rightarrow> False)
        then stop (helper_error q ErrorKind.PolicyDenied ''Executable permissions denied in webroot.''
          ''webroot_executable_denied'')
        else
        bindp (look (\<lambda>d. resolve_existing_path cx (sys_view sys d) root path False)) (\<lambda>r.
        bindp (lift (map_err (\<lambda>e.
          if e = TealDriveError.SymlinkDenied
          then helper_error q ErrorKind.PolicyDenied ''Cannot chmod symlinks.'' ''symlink_denied''
          else helper_error_from_tealdrive q e) r)) (\<lambda>_.
        if mode AND 0xE00 \<noteq> 0
        then stop (helper_error q ErrorKind.PolicyDenied
          ''Special permission bits (SUID/SGID/Sticky) are forbidden.'' ''special_bits_denied'')
        else
        bindp (lift (map_err (helper_error_from_tealdrive q) (context_check cx path Access.Chmod))) (\<lambda>_.
        bindp (with_err (\<lambda>e. helper_error_from_io q (raw_os_error e)) (open_beneath sys cx root path O_PATH 0)) (\<lambda>pinned.
        bindp (look (\<lambda>d. sys_fstat sys d (h_fd pinned))) (\<lambda>m.
        bindp (lift (map_err (helper_error_from_io q) m)) (\<lambda>original.
        let before = FileState_finish sha_json (FileState_metadata original) in
        if (case expected of None \<Rightarrow> False | Some s \<Rightarrow> before \<noteq> s)
        then stop (helper_error q ErrorKind.RevisionConflict ''Target changed since the recorded operation.''
          ''undo_expected_state_mismatch'')
        else
        bindp (with_err (\<lambda>e. helper_error_from_io q (raw_os_error e))
          (chmod_pinned sys cx root path pinned (mode AND 0x1FF))) (\<lambda>_.
        bindp (look (\<lambda>d. sys_fstat sys d (h_fd pinned))) (\<lambda>m.
        let response = response_operation_done q ''Permissions changed.'' in
        give (response\<lparr>hr_audit_metadata := map_option (\<lambda>audit.
          let audit = audit\<lparr>am_old_mode := Some (unat (st_mode original AND 0xFFF)), am_before := Some before\<rparr>
          in case m of
            Inl _ \<Rightarrow> audit
          | Inr m \<Rightarrow> audit\<lparr>am_new_mode := Some (unat (st_mode m AND 0xFFF)),
                          am_after := Some (FileState_finish sha_json (FileState_metadata m))\<rparr>)
          (hr_audit_metadata response)\<rparr>)))))))))))))"

definition chmod_file_with_roots ::
  "'d System \<Rightarrow> (FileState \<Rightarrow> string) \<Rightarrow> Context option \<Rightarrow> HelperRequest \<Rightarrow> AllowedRoot list \<Rightarrow> SensitivePolicyConfig
   \<Rightarrow> 'd World \<Rightarrow> HelperResponse \<times> 'd World" where
  "chmod_file_with_roots sys sha_json cx q roots sensitive_config =
     chmod_with_expected_state sys sha_json cx q roots sensitive_config None"

section \<open>Writing (\<open>upload.rs\<close>)\<close>

text \<open>The descriptor an upload is handed over by: what \<open>fcntl\<close> and \<open>fstat\<close> answer about it, and the real user.\<close>

record SourceFd =
  sf_flags :: "nat option"
  sf_duplicate :: "IoError + nat"
  sf_stat :: "IoError + FileStat"
  sf_uid :: nat

definition upload_source :: "SourceFd \<Rightarrow> HelperRequest \<Rightarrow> SandboxError + nat option" where
  "upload_source fd q =
     (case Option.bind (hq_write_options q) wo_stream_size of
        None \<Rightarrow> Inr None
      | Some expected_len \<Rightarrow>
          if hq_command q \<noteq> HelperCommand.UploadCommit
             \<or> (case hq_write_options q of None \<Rightarrow> True
                | Some v \<Rightarrow> wo_data v \<noteq> [] \<or> wo_offset v \<noteq> 0 \<or> \<not> wo_truncate v)
          then Inl KindPermissionDenied
          else if (case sf_flags fd of None \<Rightarrow> True | Some flags \<Rightarrow> flags mod 4 \<noteq> 0) then Inl KindPermissionDenied
          else
            and_then (map_err Os (sf_duplicate fd)) (\<lambda>file.
            and_then (map_err Os (sf_stat fd)) (\<lambda>m.
            if \<not> md_is_file m \<or> st_uid m \<noteq> sf_uid fd \<or> md_nlink m \<noteq> 1 \<or> st_len m \<noteq> expected_len
               \<or> st_mode m AND 0x3F \<noteq> 0
            then Inl KindPermissionDenied else Inr (Some file))))"

function stream_loop :: "'d System \<Rightarrow> nat \<Rightarrow> nat \<Rightarrow> nat \<Rightarrow> Handle \<Rightarrow> ('d, IoError, unit) prog" where
  "stream_loop sys src pos remaining dst =
     (if remaining = 0 then give ()
      else
        bindp (poll_cancelled sys) (\<lambda>_.
        bindp (look (\<lambda>d. of_read (sys_file sys d src) pos (min remaining 65536))) (\<lambda>r.
        bindp (lift r) (\<lambda>buffer.
        if buffer = [] then stop None
        else
          bindp (write_all sys dst buffer) (\<lambda>_.
          stream_loop sys src (pos + length buffer) (remaining - length buffer) dst)))))"
  by pat_completeness auto
termination by (relation "measure (\<lambda>(_, _, _, remaining, _). remaining)") auto

declare stream_loop.simps [simp del]

definition write_contents :: "'d System \<Rightarrow> Task \<Rightarrow> HelperWriteOptions \<Rightarrow> Handle \<Rightarrow> ('d, IoError, nat) prog" where
  "write_contents sys tk wo file =
     (case wo_stream_size wo of
        Some expected_len \<Rightarrow>
          bindp (lift (ok_or (tk_stream tk) None)) (\<lambda>source.
          bindp (perform sys (SeekFd \<lparr>h_fd = source, h_path = []\<rparr> 0)) (\<lambda>_.
          bindp (stream_loop sys source 0 expected_len file) (\<lambda>_. give expected_len)))
      | None \<Rightarrow> bindp (write_all sys file (wo_data wo)) (\<lambda>_. give (length (wo_data wo))))"

text \<open>Flushing a file does nothing in the standard library.\<close>

definition write_file_with_roots ::
  "'d System \<Rightarrow> Context option \<Rightarrow> Task \<Rightarrow> HelperRequest \<Rightarrow> AllowedRoot list \<Rightarrow> SensitivePolicyConfig
   \<Rightarrow> 'd World \<Rightarrow> HelperResponse \<times> 'd World" where
  "write_file_with_roots sys cx tk q roots sensitive_config = answering
     (if hq_command q \<noteq> HelperCommand.WriteFile \<and> hq_command q \<noteq> HelperCommand.UploadCommit
      then stop (response_not_implemented q)
      else if hq_uid q = 0 then stop (response_permission_denied q ''Helper refuses uid 0.'')
      else
        bindp (lift (ok_or (find (\<lambda>root. root_root_id root = hq_root_id q) roots)
          (helper_error q ErrorKind.InvalidPath ''Unknown root id.'' ''invalid_root_id''))) (\<lambda>root.
        if root_read_only root
        then stop (helper_error q ErrorKind.PolicyDenied ''Root is read-only.'' ''read_only_root'')
        else if hq_command q = HelperCommand.UploadCommit \<and> \<not> root_uploads_allowed root
        then stop (helper_error q ErrorKind.PolicyDenied ''Uploads not allowed in this root.'' ''uploads_disallowed'')
        else
        bindp (lift (ok_or (hq_write_options q)
          (helper_error q ErrorKind.ValidationError ''Write options required.'' ''missing_write_options''))) (\<lambda>wo.
        bindp (lift (map_err (helper_error_from_tealdrive q) (validate_relative_path (hq_relative_path q)))) (\<lambda>path.
        if sm_is_sensitive (detect_sensitive path sensitive_config)
        then stop (helper_error q ErrorKind.PolicyDenied ''Target path is sensitive.'' ''sensitive_path'')
        else
        let (parent, name) = (case rsplit_once slash path of Some pf \<Rightarrow> pf | None \<Rightarrow> ([], path)) in
        bindp (lift (map_err (helper_error_from_tealdrive q) (SafeFileName_parse name))) (\<lambda>filename.
        if (case check_webroot_upload (root_is_web_root root) filename
              (case tk_snapshot tk of Some c \<Rightarrow> cfg_webroot_policy c | None \<Rightarrow> WebRootPolicyConfig_default) of
              PolicyDecision.Deny _ \<Rightarrow> True | _ \<Rightarrow> False)
        then stop (helper_error q ErrorKind.PolicyDenied ''Executable upload denied in webroot.'' ''webroot_executable_denied'')
        else
        bindp (look (\<lambda>d. resolve_new_target (sys_view sys d) root parent filename)) (\<lambda>r.
        bindp (lift (map_err (helper_error_from_tealdrive q) r)) (\<lambda>_.
        bindp (look (\<lambda>d. check_quota (sys_sizes sys d) (tk_budget tk) root
          (case wo_stream_size wo of Some n \<Rightarrow> n | None \<Rightarrow> length (wo_data wo)))) (\<lambda>quota.
        if (case quota of Some (Inl _) \<Rightarrow> True | _ \<Rightarrow> False)
        then stop (helper_error q ErrorKind.DiskFull ''Storage quota exceeded.'' ''quota_exceeded'')
        else
        let flags = O_WRONLY OR O_CREAT OR (if hq_command q = HelperCommand.UploadCommit then O_EXCL else 0)
                    OR (if wo_truncate wo then O_TRUNC else 0) in
        bindp (with_err (\<lambda>e. helper_error_from_io q (raw_os_error e)) (open_beneath sys cx root path flags 0x180)) (\<lambda>file.
        bindp (if wo_offset wo > 0 then with_err (helper_error_from_io q) (perform sys (SeekFd file (wo_offset wo)))
               else give 0) (\<lambda>_.
        bindp (with_err (helper_error_from_io q) (write_contents sys tk wo file)) (\<lambda>written.
        give ((response_operation_done q ''Written.'')\<lparr>hr_bytes_written := written\<rparr>))))))))))))"

end
