(* ===== verification/TD_Archive.thy ===== *)
theory TD_Archive
  imports TD_Mutations
begin

unbundle bit_operations_syntax

text \<open>
  Archives: \<open>src/helper/archive.rs\<close>. The crates that read and write archives are parameters. A crate that writes is
  a sequence of calls \<open>ArchiveAdd\<close> on its output, whose answers are those of the crate; what it writes goes
  through the bounded writer of the component Quotas. A crate that reads gives the entries of an archive: for a ZIP
  entry its mode, the name it may be extracted to (\<open>enclosed_name\<close>) and its contents; for a tar entry its path,
  whether it is a link, and the size of its header.
\<close>

section \<open>What is put into an archive\<close>

definition archive_hidden_allowed :: "Task \<Rightarrow> HelperRequest \<Rightarrow> bool" where
  "archive_hidden_allowed tk q =
     (case Option.bind (tk_snapshot tk) (\<lambda>c. find (\<lambda>r. root_root_id r = hq_root_id q) (cfg_roots c)) of
        Some r \<Rightarrow> root_hidden_files_allowed r
      | None \<Rightarrow> False)"

definition path_depth :: "string \<Rightarrow> nat" where
  "path_depth p = length (split_on slash p)"

lemma path_depth_child: "path_depth (p @ slash # n) = path_depth p + path_depth n"
  by (simp add: path_depth_def split_on_append)

lemma path_depth_pos: "0 < path_depth p"
  by (simp add: path_depth_def split_on_not_Nil)

text \<open>An entry of a directory that goes into a tar archive: its path, its path from the root, its kind. Others are left
  out.\<close>

definition tar_entry ::
  "Context option \<Rightarrow> DiskView \<Rightarrow> AllowedRoot \<Rightarrow> SensitivePolicyConfig \<Rightarrow> bool \<Rightarrow> string \<Rightarrow> string
   \<Rightarrow> IoError + (string \<times> RelativePath \<times> FileMeta) option" where
  "tar_entry cx disk root sensitive allow_hidden dir name =
     (let path = path_join dir name; shown = to_string_lossy name in
      and_then (dv_symlink_metadata disk path) (\<lambda>m.
      and_then (ok_or (path_strip_prefix path (root_base_path root)) None) (\<lambda>rel.
      let relative = to_string_lossy rel in
      if \<not> visible cx relative (Metadata.truncate m) \<or> \<not> is_ok (context_check cx relative Read)
         \<or> st_is_symlink m \<or> (\<not> allow_hidden \<and> prefix ''.'' shown)
         \<or> sm_is_sensitive (detect_sensitive relative sensitive)
      then Inr None else Inr (Some (path, relative, m)))))"

function add_dir_to_tar ::
  "'d System \<Rightarrow> Context option \<Rightarrow> string \<Rightarrow> string \<Rightarrow> string \<Rightarrow> AllowedRoot \<Rightarrow> SensitivePolicyConfig \<Rightarrow> bool
   \<Rightarrow> ('d, SandboxError, unit) prog" where
  "add_dir_to_tar sys cx out dir pre root sensitive allow_hidden =
     (if path_depth pre > 128 then stop KindOther
      else
        bindp (with_err Os (perform sys (ArchiveAdd out (TarDirectory pre dir)))) (\<lambda>_.
        bindp (look (\<lambda>d. dv_read_dir (sys_view sys d) dir)) (\<lambda>entries.
        bindp (lift (map_err Os entries)) (\<lambda>entries.
        each (\<lambda>entry.
          bindp (lift (map_err Os entry)) (\<lambda>name.
          bindp (look (\<lambda>d. tar_entry cx (sys_view sys d) root sensitive allow_hidden dir name)) (\<lambda>r.
          bindp (lift (map_err Os r)) (\<lambda>item.
          case item of
            None \<Rightarrow> give ()
          | Some (path, relative, m) \<Rightarrow>
              if md_is_dir m
              then add_dir_to_tar sys cx out path (pre @ slash # to_string_lossy name) root sensitive allow_hidden
              else if md_is_file m
              then bindp (open_beneath sys cx root relative O_RDONLY 0) (\<lambda>file.
                bindp (with_err Os (perform sys
                  (ArchiveAdd out (TarFile (pre @ slash # to_string_lossy name) (h_fd file))))) (\<lambda>_. give ()))
              else give ())))) entries))))"
  by pat_completeness auto
termination
  by (relation "measure (\<lambda>(_, _, _, _, pre, _). 129 - path_depth pre)")
    (auto simp: path_depth_child intro!: diff_less_mono2 simp: path_depth_pos)

declare add_dir_to_tar.simps [simp del]

definition zip_entry ::
  "Context option \<Rightarrow> DiskView \<Rightarrow> SensitivePolicyConfig \<Rightarrow> string \<Rightarrow> bool \<Rightarrow> string \<Rightarrow> string
   \<Rightarrow> TealDriveError + (string \<times> FileMeta) option" where
  "zip_entry cx disk sensitive canonical_base allow_hidden dir name =
     (let path = path_join dir name; shown = to_string_lossy name in
      and_then (map_err (\<lambda>_. TealDriveError.Internal) (dv_symlink_metadata disk path)) (\<lambda>m.
      if st_is_symlink m \<or> (\<not> allow_hidden \<and> prefix ''.'' shown) then Inr None
      else case path_strip_prefix path canonical_base of
        None \<Rightarrow> Inr (Some (path, m))
      | Some rel \<Rightarrow>
          let relative = to_string_lossy rel in
          if \<not> visible cx relative (Metadata.truncate m) \<or> \<not> is_ok (context_check cx relative Read)
             \<or> sm_is_sensitive (detect_sensitive relative sensitive)
          then Inr None else Inr (Some (path, m))))"

function add_dir_to_zip ::
  "'d System \<Rightarrow> Context option \<Rightarrow> string \<Rightarrow> string \<Rightarrow> string \<Rightarrow> SensitivePolicyConfig \<Rightarrow> string \<Rightarrow> bool
   \<Rightarrow> ('d, TealDriveError, unit) prog" where
  "add_dir_to_zip sys cx out dir pre sensitive canonical_base allow_hidden =
     (if path_depth pre > 128 then stop TealDriveError.Validation
      else
        bindp (with_err (\<lambda>_. TealDriveError.Internal) (perform sys (ArchiveAdd out (ZipDirectory pre)))) (\<lambda>_.
        bindp (look (\<lambda>d. dv_read_dir (sys_view sys d) dir)) (\<lambda>entries.
        bindp (lift (map_err (\<lambda>_. TealDriveError.InvalidPath) entries)) (\<lambda>entries.
        each (\<lambda>entry.
          bindp (lift (map_err (\<lambda>_. TealDriveError.InvalidPath) entry)) (\<lambda>name.
          bindp (look (\<lambda>d. zip_entry cx (sys_view sys d) sensitive canonical_base allow_hidden dir name)) (\<lambda>r.
          bindp (lift r) (\<lambda>item.
          case item of
            None \<Rightarrow> give ()
          | Some (path, m) \<Rightarrow>
              if md_is_dir m
              then add_dir_to_zip sys cx out path (pre @ slash # to_string_lossy name) sensitive canonical_base allow_hidden
              else if md_is_file m
              then
                bindp (with_err (\<lambda>_. TealDriveError.Internal) (perform sys
                  (ArchiveAdd out (ZipStartFile (pre @ slash # to_string_lossy name))))) (\<lambda>_.
                bindp (lift (ok_or (path_strip_prefix path canonical_base) TealDriveError.InvalidPath)) (\<lambda>rel.
                bindp (with_err (\<lambda>_. TealDriveError.Internal) (open_beneath sys cx
                  (AllowedRoot_default\<lparr>root_base_path := canonical_base\<rparr>) (to_string_lossy rel) O_RDONLY 0)) (\<lambda>file.
                bindp (with_err (\<lambda>_. TealDriveError.Internal) (perform sys (ArchiveAdd out (ZipData (h_fd file))))) (\<lambda>_.
                give ()))))
              else give ())))) entries))))"
  by pat_completeness auto
termination
  by (relation "measure (\<lambda>(_, _, _, _, pre, _). 129 - path_depth pre)")
    (auto simp: path_depth_child intro!: diff_less_mono2 simp: path_depth_pos)

declare add_dir_to_zip.simps [simp del]

section \<open>Compression\<close>

text \<open>The checks of both kinds of archive, up to the list of sources.\<close>

definition compress_source ::
  "'d System \<Rightarrow> Context option \<Rightarrow> HelperRequest \<Rightarrow> SensitivePolicyConfig \<Rightarrow> AllowedRoot \<Rightarrow> RelativePath
   \<Rightarrow> ('d, HelperResponse, RelativePath \<times> ExistingPathResolution) prog" where
  "compress_source sys cx q sensitive_config root src =
     bindp (lift (map_err (helper_error_from_tealdrive q) (validate_relative_path src))) (\<lambda>path.
     if path = [] then stop (helper_error q ErrorKind.InvalidPath ''Cannot archive root directory.'' ''invalid_source'')
     else if sm_is_sensitive (detect_sensitive path sensitive_config)
     then stop (helper_error q ErrorKind.PolicyDenied ''Source path is sensitive.'' ''sensitive_path'')
     else
       bindp (look (\<lambda>d. resolve_existing_path cx (sys_view sys d) root path False)) (\<lambda>r.
       bindp (lift (map_err (helper_error_from_tealdrive q) r)) (\<lambda>resolved. give (path, resolved))))"

definition compress_checks ::
  "'d System \<Rightarrow> Context option \<Rightarrow> HelperRequest \<Rightarrow> AllowedRoot list \<Rightarrow> SensitivePolicyConfig \<Rightarrow> string list \<Rightarrow> string
   \<Rightarrow> ('d, HelperResponse, AllowedRoot \<times> NewTargetResolution \<times> (RelativePath \<times> ExistingPathResolution) list) prog" where
  "compress_checks sys cx q roots sensitive_config extensions extension_message =
     (if hq_uid q = 0 then stop (response_permission_denied q ''Helper refuses uid 0.'')
      else
        bindp (lift (ok_or (find (\<lambda>root. root_root_id root = hq_root_id q) roots)
          (helper_error q ErrorKind.InvalidPath ''Unknown root id.'' ''invalid_root_id''))) (\<lambda>root.
        if root_read_only root
        then stop (helper_error q ErrorKind.PolicyDenied ''Root is read-only.'' ''read_only_root'')
        else
        bindp (lift (ok_or (hq_target_relative_path q) (helper_error q ErrorKind.ValidationError
          ''Target relative path required.'' ''missing_target_relative_path''))) (\<lambda>target_rel.
        bindp (lift (map_err (helper_error_from_tealdrive q) (validate_relative_path target_rel))) (\<lambda>target.
        if target = []
        then stop (helper_error q ErrorKind.InvalidPath ''Cannot write archive to root directory.'' ''invalid_target'')
        else if \<not> list_ex (\<lambda>ext. suffix ext (to_ascii_lowercase target)) extensions
        then stop (helper_error q ErrorKind.ValidationError extension_message ''invalid_extension'')
        else if sm_is_sensitive (detect_sensitive target sensitive_config)
        then stop (helper_error q ErrorKind.PolicyDenied ''Target path is sensitive.'' ''sensitive_path'')
        else
        bindp (lift (ok_or (hq_archive_source_paths q)
          (helper_error q ErrorKind.ValidationError ''Source paths required.'' ''missing_source_paths''))) (\<lambda>sources.
        if sources = []
        then stop (helper_error q ErrorKind.ValidationError ''At least one source path required.'' ''empty_source_paths'')
        else
        let (parent, name) = (case rsplit_once slash target of Some pf \<Rightarrow> pf | None \<Rightarrow> ([], target)) in
        bindp (lift (map_err (helper_error_from_tealdrive q) (SafeFileName_parse name))) (\<lambda>filename.
        bindp (look (\<lambda>d. resolve_new_target (sys_view sys d) root parent filename)) (\<lambda>r.
        bindp (lift (map_err (helper_error_from_tealdrive q) r)) (\<lambda>target.
        bindp (collect (compress_source sys cx q sensitive_config root) sources) (\<lambda>sources.
        give (root, target, sources))))))))))"

definition entry_name :: "RelativePath \<Rightarrow> string" where
  "entry_name path = (case rsplit_once slash path of Some (_, name) \<Rightarrow> name | None \<Rightarrow> path)"

definition is_dir_now :: "'d System \<Rightarrow> string \<Rightarrow> ('d, 'e, bool) prog" where
  "is_dir_now sys path =
     look (\<lambda>d. case dv_metadata (sys_view sys d) path of Inr m \<Rightarrow> md_is_dir m | Inl _ \<Rightarrow> False)"

definition zip_source ::
  "'d System \<Rightarrow> Context option \<Rightarrow> Task \<Rightarrow> HelperRequest \<Rightarrow> SensitivePolicyConfig \<Rightarrow> AllowedRoot \<Rightarrow> NewTargetResolution
   \<Rightarrow> RelativePath \<times> ExistingPathResolution \<Rightarrow> ('d, HelperResponse, unit) prog" where
  "zip_source sys cx tk q sensitive_config root target src =
     (let out = nt_resolved_path target; (rel_path, res_path) = src in
      bindp (is_dir_now sys (ex_resolved_path res_path)) (\<lambda>is_dir.
      if is_dir
      then with_err (helper_error_from_tealdrive q) (add_dir_to_zip sys cx out (ex_resolved_path res_path)
        (entry_name rel_path) sensitive_config (rr_canonical_base (nt_root target)) (archive_hidden_allowed tk q))
      else
        bindp (with_err (\<lambda>_. helper_error q ErrorKind.InternalError ''Failed to write zip entry.'' ''zip_error'')
          (perform sys (ArchiveAdd out (ZipStartFile (entry_name rel_path))))) (\<lambda>_.
        bindp (with_err (\<lambda>e. helper_error_from_io q (raw_os_error e)) (open_beneath sys cx root rel_path O_RDONLY 0)) (\<lambda>f.
        bindp (with_err (helper_error_from_io q) (perform sys (ArchiveAdd out (ZipData (h_fd f))))) (\<lambda>_. give ())))))"

definition compress_zip_with_roots ::
  "'d System \<Rightarrow> Context option \<Rightarrow> Task \<Rightarrow> HelperRequest \<Rightarrow> AllowedRoot list \<Rightarrow> SensitivePolicyConfig
   \<Rightarrow> 'd World \<Rightarrow> HelperResponse \<times> 'd World" where
  "compress_zip_with_roots sys cx tk q roots sensitive_config = answering
     (if hq_command q \<noteq> HelperCommand.CompressZip then stop (response_not_implemented q)
      else
        bindp (compress_checks sys cx q roots sensitive_config [''.zip''] ''Target must end with .zip'')
          (\<lambda>(root, target, sources).
        bindp (with_err (helper_error_from_io q) (perform sys (CreateFile (nt_resolved_path target)))) (\<lambda>_.
        on_error
          (bindp (each (zip_source sys cx tk q sensitive_config root target) sources) (\<lambda>_.
           bindp (with_err (\<lambda>_. helper_error q ErrorKind.InternalError ''Failed to finalize zip archive.'' ''zip_finish_error'')
             (perform sys (ArchiveAdd (nt_resolved_path target) ZipFinish))) (\<lambda>_.
           give (response_operation_done q ''Archive created.''))))
          (ignore (perform sys (RemoveFile (nt_resolved_path target)))))))"

text \<open>A single file is opened here by its resolved path, without the checks of \<open>open_beneath\<close>.\<close>

definition tar_source ::
  "'d System \<Rightarrow> Context option \<Rightarrow> Task \<Rightarrow> HelperRequest \<Rightarrow> SensitivePolicyConfig \<Rightarrow> AllowedRoot \<Rightarrow> NewTargetResolution
   \<Rightarrow> RelativePath \<times> ExistingPathResolution \<Rightarrow> ('d, HelperResponse, unit) prog" where
  "tar_source sys cx tk q sensitive_config root target src =
     (let out = nt_resolved_path target; (rel_path, res_path) = src in
      bindp (is_dir_now sys (ex_resolved_path res_path)) (\<lambda>is_dir.
      if is_dir
      then with_err (\<lambda>e. helper_error_from_io q (raw_os_error e)) (add_dir_to_tar sys cx out (ex_resolved_path res_path)
        (entry_name rel_path) root sensitive_config (archive_hidden_allowed tk q))
      else
        bindp (with_err (helper_error_from_io q) (perform sys (OpenExisting (ex_resolved_path res_path)))) (\<lambda>f.
        bindp (with_err (helper_error_from_io q) (perform sys (ArchiveAdd out (TarFile (entry_name rel_path) f)))) (\<lambda>_.
        give ()))))"

definition compress_targz_with_roots ::
  "'d System \<Rightarrow> Context option \<Rightarrow> Task \<Rightarrow> HelperRequest \<Rightarrow> AllowedRoot list \<Rightarrow> SensitivePolicyConfig
   \<Rightarrow> 'd World \<Rightarrow> HelperResponse \<times> 'd World" where
  "compress_targz_with_roots sys cx tk q roots sensitive_config = answering
     (if hq_command q \<noteq> HelperCommand.CompressTarGz then stop (response_not_implemented q)
      else
        bindp (compress_checks sys cx q roots sensitive_config [''.tar.gz'', ''.tgz''] ''Target must end with .tar.gz or .tgz'')
          (\<lambda>(root, target, sources).
        bindp (with_err (helper_error_from_io q) (perform sys (CreateFile (nt_resolved_path target)))) (\<lambda>_.
        on_error
          (bindp (each (tar_source sys cx tk q sensitive_config root target) sources) (\<lambda>_.
           bindp (with_err (helper_error_from_io q) (perform sys (ArchiveAdd (nt_resolved_path target) TarFinish))) (\<lambda>_.
           give (response_operation_done q ''Archive created.''))))
          (ignore (perform sys (RemoveFile (nt_resolved_path target)))))))"

section \<open>Extraction\<close>

definition MAX_ARCHIVE_EXTRACT_BYTES :: nat where "MAX_ARCHIVE_EXTRACT_BYTES = 500 * 1024 * 1024"

record ZipEntry =
  ze_mode :: "u32 option"
  ze_enclosed_name :: "string option"
  ze_is_dir :: bool
  ze_contents :: OpenFile

record TarEntry =
  tr_path :: "IoError + string"
  tr_is_link :: bool
  tr_size :: nat

record Archives =
  ac_zip :: "OpenFile \<Rightarrow> ZipEntry option list option"
  ac_tar :: "bool \<Rightarrow> OpenFile \<Rightarrow> IoError + TarEntry option list"

text \<open>\<open>Path::parent\<close>, repeated: the paths above a path, the nearest first. Separators and dots before a removed name
  go with it.\<close>

definition pieces_text :: "bool \<Rightarrow> string list \<Rightarrow> string" where
  "pieces_text absolute rev_pieces =
     (let ps = rev (dropWhile (\<lambda>q. q = [] \<or> q = ''.'') rev_pieces) in
      if ps = [] then (if absolute then ''/'' else []) else join_with slash ps)"

fun ancestors_of :: "bool \<Rightarrow> string list \<Rightarrow> string list" where
  "ancestors_of absolute [] = []"
| "ancestors_of absolute (q # qs) =
     (if q = [] \<or> q = ''.'' then ancestors_of absolute qs
      else pieces_text absolute qs # ancestors_of absolute qs)"

definition path_ancestors :: "string \<Rightarrow> string list" where
  "path_ancestors p = ancestors_of (is_absolute p) (rev (split_on slash p))"

definition is_symlink_at :: "DiskView \<Rightarrow> string \<Rightarrow> bool" where
  "is_symlink_at disk p = (case dv_symlink_metadata disk p of Inr m \<Rightarrow> st_is_symlink m | Inl _ \<Rightarrow> False)"

text \<open>The checks of the place an entry goes to, in both kinds of archive; \<open>slip\<close> names the kind in the answer.\<close>

definition entry_place ::
  "Context option \<Rightarrow> Task \<Rightarrow> HelperRequest \<Rightarrow> SensitivePolicyConfig \<Rightarrow> string \<Rightarrow> string \<Rightarrow> string \<Rightarrow> string
   \<Rightarrow> HelperResponse + string" where
  "entry_place cx tk q sensitive_config dest_dir canonical_base slip name =
     (if \<not> archive_hidden_allowed tk q \<and> is_hidden_relative (to_string_lossy name)
      then Inl (response_permission_denied q ''Hidden archive entry denied.'')
      else
        let outpath = path_join dest_dir name in
        if \<not> path_starts_with outpath dest_dir
        then Inl (helper_error q ErrorKind.PolicyDenied ''Archive entry path attempts directory traversal.'' slip)
        else case path_strip_prefix outpath canonical_base of
          None \<Rightarrow> Inr outpath
        | Some rel \<Rightarrow>
            and_then (map_err (helper_error_from_tealdrive q) (context_check cx (to_string_lossy rel) Write)) (\<lambda>_.
            if sm_is_sensitive (detect_sensitive (to_string_lossy rel) sensitive_config)
            then Inl (helper_error q ErrorKind.PolicyDenied ''Archive entry extracts to sensitive path.'' ''sensitive_path'')
            else Inr outpath))"

definition entry_links ::
  "DiskView \<Rightarrow> HelperRequest \<Rightarrow> string \<Rightarrow> string \<Rightarrow> HelperResponse + unit" where
  "entry_links disk q dest_dir outpath =
     (if list_ex (is_symlink_at disk) (takeWhile (\<lambda>p. \<not> path_eq p dest_dir) (path_ancestors outpath))
      then Inl (helper_error q ErrorKind.PolicyDenied ''Archive entry parent directory is a symlink.'' ''symlink_denied'')
      else if is_symlink_at disk outpath
      then Inl (helper_error q ErrorKind.PolicyDenied ''Archive entry target is a symlink.'' ''symlink_denied'')
      else Inr ())"

definition extract_limit :: "Task \<Rightarrow> nat" where
  "extract_limit tk = min MAX_ARCHIVE_EXTRACT_BYTES (case tk_budget tk of Some n \<Rightarrow> n | None \<Rightarrow> U64_MAX)"

definition too_large_archive :: "HelperRequest \<Rightarrow> HelperResponse" where
  "too_large_archive q = helper_error q ErrorKind.FileTooLarge
     ''Archive decompressed size exceeds maximum extraction limit (500 MB).'' ''decompression_limit_exceeded''"

text \<open>One ZIP entry; the result is the number of bytes extracted so far.\<close>

definition zip_entry_file ::
  "'d System \<Rightarrow> Task \<Rightarrow> HelperRequest \<Rightarrow> ZipEntry \<Rightarrow> string \<Rightarrow> nat \<Rightarrow> ('d, HelperResponse, nat) prog" where
  "zip_entry_file sys tk q file outpath extracted =
     (if ze_is_dir file
      then bindp (with_err (helper_error_from_io q) (perform sys (CreateDirAll outpath))) (\<lambda>_. give extracted)
      else
        bindp (case path_ancestors outpath of
            [] \<Rightarrow> give 0
          | parent # _ \<Rightarrow> with_err (helper_error_from_io q) (perform sys (CreateDirAll parent))) (\<lambda>_.
        bindp (with_err (helper_error_from_io q) (perform sys (CreateFile outpath))) (\<lambda>fd.
        bindp (with_err (helper_error_from_io q) (copy_loop sys (\<lambda>_. ze_contents file) 0
          (extract_limit tk - extracted + 1) (bw_limit (BudgetWriter_new (tk_budget tk))) 0
          \<lparr>h_fd = fd, h_path = outpath\<rparr>)) (\<lambda>written.
        if extracted + written > extract_limit tk then stop (too_large_archive q)
        else give (extracted + written)))))"

fun extract_zip_entries ::
  "'d System \<Rightarrow> Context option \<Rightarrow> Task \<Rightarrow> HelperRequest \<Rightarrow> SensitivePolicyConfig \<Rightarrow> string \<Rightarrow> string
   \<Rightarrow> ZipEntry option list \<Rightarrow> nat \<Rightarrow> ('d, HelperResponse, HelperResponse) prog" where
  "extract_zip_entries sys cx tk q sensitive_config dest_dir canonical_base [] extracted =
     give (response_operation_done q ''Archive extracted.'')"
| "extract_zip_entries sys cx tk q sensitive_config dest_dir canonical_base (None # es) extracted =
     stop (helper_error q ErrorKind.ValidationError ''Failed to read zip entry.'' ''zip_read_error'')"
| "extract_zip_entries sys cx tk q sensitive_config dest_dir canonical_base (Some file # es) extracted =
     (if (case ze_mode file of Some mode \<Rightarrow> mode AND 0xF000 = 0xA000 | None \<Rightarrow> False)
      then extract_zip_entries sys cx tk q sensitive_config dest_dir canonical_base es extracted
      else
        bindp (lift (ok_or (ze_enclosed_name file) (helper_error q ErrorKind.PolicyDenied
          ''Archive entry path attempts directory traversal.'' ''zip_slip_attempt''))) (\<lambda>enclosed.
        bindp (lift (entry_place cx tk q sensitive_config dest_dir canonical_base ''zip_slip_attempt'' enclosed)) (\<lambda>outpath.
        bindp (look (\<lambda>d. entry_links (sys_view sys d) q dest_dir outpath)) (\<lambda>r.
        bindp (lift r) (\<lambda>_.
        bindp (zip_entry_file sys tk q file outpath extracted) (\<lambda>extracted.
        bindp (case ze_mode file of
            Some mode \<Rightarrow> ignore (perform sys (SetPermissions outpath (mode AND 0x1FF)))
          | None \<Rightarrow> give ()) (\<lambda>_.
        extract_zip_entries sys cx tk q sensitive_config dest_dir canonical_base es extracted)))))))"

text \<open>The archive is opened beneath the canonical base, by the path it was resolved to.\<close>

definition open_archive ::
  "'d System \<Rightarrow> Context option \<Rightarrow> HelperRequest \<Rightarrow> string \<Rightarrow> string \<Rightarrow> ('d, HelperResponse, OpenFile) prog" where
  "open_archive sys cx q archive_path canonical_base =
     bindp (lift (ok_or (path_strip_prefix archive_path canonical_base)
       (helper_error q ErrorKind.InvalidPath ''Archive path invalid.'' ''invalid_path''))) (\<lambda>rel.
     bindp (with_err (\<lambda>e. helper_error_from_io q (raw_os_error e)) (open_beneath sys cx
       (AllowedRoot_default\<lparr>root_base_path := canonical_base\<rparr>) (to_string_lossy rel) O_RDONLY 0)) (\<lambda>file.
     look (\<lambda>d. sys_file sys d (h_fd file))))"

definition extract_zip ::
  "'d System \<Rightarrow> Archives \<Rightarrow> Context option \<Rightarrow> Task \<Rightarrow> string \<Rightarrow> string \<Rightarrow> string \<Rightarrow> SensitivePolicyConfig \<Rightarrow> HelperRequest
   \<Rightarrow> ('d, HelperResponse, HelperResponse) prog" where
  "extract_zip sys crates cx tk archive_path dest_dir canonical_base sensitive_config q =
     bindp (open_archive sys cx q archive_path canonical_base) (\<lambda>file.
     bindp (lift (ok_or (ac_zip crates file)
       (helper_error q ErrorKind.ValidationError ''Corrupted archive file.'' ''corrupted_archive''))) (\<lambda>entries.
     extract_zip_entries sys cx tk q sensitive_config dest_dir canonical_base entries 0))"

text \<open>One tar entry after another; \<open>i\<close> numbers them. The sum of the sizes wraps around.\<close>

fun extract_tar_entries ::
  "'d System \<Rightarrow> Context option \<Rightarrow> Task \<Rightarrow> HelperRequest \<Rightarrow> SensitivePolicyConfig \<Rightarrow> string \<Rightarrow> string
   \<Rightarrow> TarEntry option list \<Rightarrow> nat \<Rightarrow> nat \<Rightarrow> ('d, HelperResponse, HelperResponse) prog" where
  "extract_tar_entries sys cx tk q sensitive_config dest_dir canonical_base [] i extracted =
     give (response_operation_done q ''Archive extracted.'')"
| "extract_tar_entries sys cx tk q sensitive_config dest_dir canonical_base (e # es) i extracted =
     bindp (with_err (\<lambda>_. response_permission_denied q ''Operation cancelled.'') (poll_cancelled sys)) (\<lambda>_.
     bindp (lift (ok_or e (helper_error q ErrorKind.ValidationError ''Failed to read tar entry.'' ''tar_read_error''))) (\<lambda>e.
     bindp (lift (map_err (helper_error_from_io q) (tr_path e))) (\<lambda>path.
     if is_absolute path \<or> list_ex (\<lambda>c. c = ParentDir \<or> c = RootDir) (components path)
     then stop (helper_error q ErrorKind.PolicyDenied ''Archive entry path attempts directory traversal.'' ''tar_slip_attempt'')
     else
       bindp (lift (entry_place cx tk q sensitive_config dest_dir canonical_base ''tar_slip_attempt'' path)) (\<lambda>outpath.
       if tr_is_link e
       then extract_tar_entries sys cx tk q sensitive_config dest_dir canonical_base es (i + 1) extracted
       else
         bindp (look (\<lambda>d. entry_links (sys_view sys d) q dest_dir outpath)) (\<lambda>r.
         bindp (lift r) (\<lambda>_.
         let extracted = (extracted + tr_size e) mod 2 ^ 64 in
         if extracted > extract_limit tk then stop (too_large_archive q)
         else
           bindp (with_err (helper_error_from_io q) (perform sys (UnpackEntry outpath i))) (\<lambda>_.
           extract_tar_entries sys cx tk q sensitive_config dest_dir canonical_base es (i + 1)
             extracted)))))))"

definition extract_tar ::
  "'d System \<Rightarrow> Archives \<Rightarrow> Context option \<Rightarrow> Task \<Rightarrow> string \<Rightarrow> string \<Rightarrow> string \<Rightarrow> SensitivePolicyConfig \<Rightarrow> string
   \<Rightarrow> HelperRequest \<Rightarrow> ('d, HelperResponse, HelperResponse) prog" where
  "extract_tar sys crates cx tk archive_path dest_dir canonical_base sensitive_config lower_name q =
     bindp (open_archive sys cx q archive_path canonical_base) (\<lambda>file.
     bindp (lift (map_err (helper_error_from_io q)
       (ac_tar crates (suffix ''.tar.gz'' lower_name \<or> suffix ''.tgz'' lower_name) file))) (\<lambda>entries.
     extract_tar_entries sys cx tk q sensitive_config dest_dir canonical_base entries 0 0))"

definition extract_archive_with_roots ::
  "'d System \<Rightarrow> Archives \<Rightarrow> Context option \<Rightarrow> Task \<Rightarrow> HelperRequest \<Rightarrow> AllowedRoot list \<Rightarrow> SensitivePolicyConfig
   \<Rightarrow> 'd World \<Rightarrow> HelperResponse \<times> 'd World" where
  "extract_archive_with_roots sys crates cx tk q roots sensitive_config = answering
     (if hq_command q \<noteq> HelperCommand.ExtractArchive then stop (response_not_implemented q)
      else if hq_uid q = 0 then stop (response_permission_denied q ''Helper refuses uid 0.'')
      else
        bindp (lift (ok_or (find (\<lambda>root. root_root_id root = hq_root_id q) roots)
          (helper_error q ErrorKind.InvalidPath ''Unknown root id.'' ''invalid_root_id''))) (\<lambda>root.
        if root_read_only root
        then stop (helper_error q ErrorKind.PolicyDenied ''Root is read-only.'' ''read_only_root'')
        else if (case check_webroot_archive_extract (root_is_web_root root) of PolicyDecision.Deny _ \<Rightarrow> True | _ \<Rightarrow> False)
        then stop (helper_error q ErrorKind.PolicyDenied ''Archive extraction denied in webroot.'' ''webroot_archive_denied'')
        else
        bindp (lift (map_err (helper_error_from_tealdrive q) (validate_relative_path (hq_relative_path q)))) (\<lambda>archive.
        if archive = []
        then stop (helper_error q ErrorKind.InvalidPath ''Cannot extract root directory.'' ''invalid_source'')
        else if sm_is_sensitive (detect_sensitive archive sensitive_config)
        then stop (helper_error q ErrorKind.PolicyDenied ''Archive path is sensitive.'' ''sensitive_path'')
        else
        bindp (look (\<lambda>d. resolve_existing_path cx (sys_view sys d) root archive False)) (\<lambda>r.
        bindp (lift (map_err (helper_error_from_tealdrive q) r)) (\<lambda>archive_res.
        bindp (lift (ok_or (hq_target_relative_path q) (helper_error q ErrorKind.ValidationError
          ''Target relative path required.'' ''missing_target_relative_path''))) (\<lambda>target_rel.
        bindp (lift (map_err (helper_error_from_tealdrive q) (validate_relative_path target_rel))) (\<lambda>target.
        if sm_is_sensitive (detect_sensitive target sensitive_config)
        then stop (helper_error q ErrorKind.PolicyDenied ''Target path is sensitive.'' ''sensitive_path'')
        else
        bindp (look (\<lambda>d. resolve_root (sys_view sys d) root)) (\<lambda>r.
        bindp (lift (map_err (helper_error_from_tealdrive q) r)) (\<lambda>resolved_root.
        let base = rr_canonical_base resolved_root; dest_dir = (if target = [] then base else path_join base target) in
        bindp (with_err (helper_error_from_io q) (perform sys (CreateDirAll dest_dir))) (\<lambda>_.
        bindp (look (\<lambda>d. dv_canonicalize (sys_view sys d) dest_dir)) (\<lambda>r.
        bindp (lift (map_err (helper_error_from_io q) r)) (\<lambda>canonical_dest.
        if \<not> path_starts_with canonical_dest base
        then stop (helper_error q ErrorKind.PolicyDenied ''Destination directory escapes root.'' ''path_escapes_root'')
        else
          let lower_name = to_ascii_lowercase archive in
          if suffix ''.zip'' lower_name
          then extract_zip sys crates cx tk (ex_resolved_path archive_res) canonical_dest base sensitive_config q
          else if suffix ''.tar.gz'' lower_name \<or> suffix ''.tgz'' lower_name \<or> suffix ''.tar'' lower_name
          then extract_tar sys crates cx tk (ex_resolved_path archive_res) canonical_dest base sensitive_config lower_name q
          else stop (helper_error q ErrorKind.ValidationError
            ''Unsupported archive extension. Supported: .zip, .tar.gz, .tgz, .tar'' ''unsupported_archive_format'')))))))))))))"

end
