(* ===== verification/TD_Trash.thy ===== *)
theory TD_Trash
  imports TD_Mutations
begin

unbundle bit_operations_syntax

text \<open>
  The trash: \<open>src/helper/trash.rs\<close> and \<open>src/trash/model.rs\<close>. An entry moved to the trash of its root keeps its
  original path in a file beside it, in MessagePack (\<open>rmp_serde\<close>, the parameter \<open>Codec\<close>); \<open>uuid\<close> is the parser of the
  \<open>uuid\<close> crate, with the text it prints for what it parsed.
\<close>

section \<open>Records of the trash\<close>

record TrashEntry =
  tre_trash_id :: string
  tre_original_root_id :: RootId
  tre_original_relative_path :: RelativePath
  tre_trash_relative_path :: RelativePath
  tre_display_name :: string
  tre_deleted_at :: nat
  tre_username :: string
  tre_uid :: nat

record Codec =
  cd_encode :: "TrashEntry \<Rightarrow> bytes option"
  cd_decode :: "bytes \<Rightarrow> TrashEntry option"

definition TRASH_DIR_NAME :: string where "TRASH_DIR_NAME = ''.tealdrive-trash''"

definition trash_files_path :: "string \<Rightarrow> RelativePath" where
  "trash_files_path i = ''.tealdrive-trash/files/'' @ i"

definition trash_io_error :: "HelperRequest \<Rightarrow> SandboxError \<Rightarrow> HelperResponse" where
  "trash_io_error q e =
     (if is_not_found e then helper_error q ErrorKind.NotFound ''Source not found.'' ''not_found''
      else if kind_permission_denied e
      then helper_error q ErrorKind.PermissionDenied ''Permission denied.'' ''permission_denied''
      else if already_exists e then helper_error q ErrorKind.AlreadyExists ''Target already exists.'' ''already_exists''
      else if e = Os (Some 28) \<or> e = Os (Some 122)
      then helper_error q ErrorKind.DiskFull ''Disk is full.'' ''disk_full''
      else helper_error q ErrorKind.InternalError ''Filesystem error.'' ''filesystem_error'')"

text \<open>\<open>Path::file_stem\<close> and \<open>Path::extension\<close> of a file name.\<close>

definition split_file_name :: "string \<Rightarrow> string \<times> string option" where
  "split_file_name name =
     (if name = ''..'' then (name, None)
      else case rsplit_once (CHR ''.'') name of
        None \<Rightarrow> (name, None)
      | Some (before, after) \<Rightarrow> if before = [] then (name, None) else (before, Some after))"

definition read_entry ::
  "(string \<Rightarrow> string option) \<Rightarrow> Codec \<Rightarrow> Context option \<Rightarrow> Kernel \<Rightarrow> AllowedRoot \<Rightarrow> string \<Rightarrow> TrashEntry td_result" where
  "read_entry uuid msgpack cx kn root i =
     (if uuid i \<noteq> Some i then Inl TealDriveError.NotFound
      else map_err (\<lambda>_. TealDriveError.NotFound)
        (and_then (map_err raw_os_error (sandbox_open cx kn root [] (O_PATH OR O_DIRECTORY) 0)) (\<lambda>_.
         and_then (kn_openat2 kn (root_base_path root) (''.tealdrive-trash/info/'' @ i @ ''.msgpack'')
           (O_RDONLY OR O_NONBLOCK) 0) (\<lambda>file.
         and_then (of_metadata file 0) (\<lambda>(m, _).
         if \<not> md_is_file m \<or> st_len m > 65536 then Inl None
         else
           and_then (read_to_end file 0 65537 []) (\<lambda>data.
           if length data > 65536 then Inl None else ok_or (cd_decode msgpack data) None))))))"

definition policy_original_path ::
  "(string \<Rightarrow> string option) \<Rightarrow> Codec \<Rightarrow> Context option \<Rightarrow> Kernel \<Rightarrow> HelperRequest \<Rightarrow> AllowedRoot \<Rightarrow> RelativePath td_result" where
  "policy_original_path uuid msgpack cx kn q root =
     and_then (ok_or (internal_trash_id uuid (hq_relative_path q)) TealDriveError.NotFound) (\<lambda>i.
     and_then (read_entry uuid msgpack cx kn root i) (\<lambda>entry.
     if tre_uid entry \<noteq> hq_uid q \<or> tre_trash_id entry \<noteq> i \<or> tre_original_root_id entry \<noteq> hq_root_id q
     then Inl TealDriveError.NotFound
     else
       and_then (validate_relative_path (tre_original_relative_path entry)) (\<lambda>original.
       if original = [] then Inl TealDriveError.NotFound else Inr original)))"

section \<open>Moving to the trash\<close>

definition operation_name :: "Task \<Rightarrow> string" where
  "operation_name tk = (case tk_artifact tk of Some a \<Rightarrow> a | None \<Rightarrow> tk_uuid tk)"

definition trash_record :: "Task \<Rightarrow> HelperRequest \<Rightarrow> AllowedRoot \<Rightarrow> ExistingPathResolution \<Rightarrow> TrashEntry" where
  "trash_record tk q root source =
     \<lparr>tre_trash_id = operation_name tk, tre_original_root_id = root_root_id root,
      tre_original_relative_path = ex_relative_path source,
      tre_trash_relative_path = ''files/'' @ operation_name tk,
      tre_display_name = (case path_file_name (ex_resolved_path source) of
        Some n \<Rightarrow> to_string_lossy n | None \<Rightarrow> ex_relative_path source),
      tre_deleted_at = tk_now tk, tre_username = hq_username q, tre_uid = hq_uid q\<rparr>"

definition move_file_to_trash_with_roots ::
  "'d System \<Rightarrow> Codec \<Rightarrow> Context option \<Rightarrow> Task \<Rightarrow> HelperRequest \<Rightarrow> AllowedRoot list \<Rightarrow> 'd World \<Rightarrow> HelperResponse \<times> 'd World" where
  "move_file_to_trash_with_roots sys msgpack cx tk q roots = answering
     (if hq_command q \<noteq> HelperCommand.MoveToTrash then stop (response_not_implemented q)
      else if hq_uid q = 0 then stop (response_permission_denied q ''Helper refuses uid 0.'')
      else
        bindp (lift (ok_or (find (\<lambda>root. root_root_id root = hq_root_id q) roots)
          (helper_error q ErrorKind.InvalidPath ''Unknown root id.'' ''invalid_root_id''))) (\<lambda>root.
        bindp (look (\<lambda>d. resolve_existing_path cx (sys_view sys d) root (hq_relative_path q) False)) (\<lambda>r.
        bindp (lift (map_err (helper_error_from_tealdrive q) r)) (\<lambda>source.
        let trash_dir = path_join (rr_canonical_base (ex_root source)) TRASH_DIR_NAME in
        if path_starts_with (ex_resolved_path source) trash_dir
        then stop (helper_error q ErrorKind.InvalidTarget ''Cannot move trash directory contents.'' ''trash_path_denied'')
        else
        bindp (with_err (\<lambda>_. helper_error q ErrorKind.InternalError ''Failed to create trash directory.'' ''create_trash_dir_failed'')
          (perform sys (CreateDirAll (path_join trash_dir ''files'')))) (\<lambda>_.
        bindp (with_err (\<lambda>_. helper_error q ErrorKind.InternalError ''Failed to create trash info directory.'' ''create_info_dir_failed'')
          (perform sys (CreateDirAll (path_join trash_dir ''info'')))) (\<lambda>_.
        let entry = trash_record tk q root source;
            info_path = path_join (path_join trash_dir ''info'') (operation_name tk @ ''.msgpack'') in
        bindp (lift (ok_or (cd_encode msgpack entry)
          (helper_error q ErrorKind.InternalError ''Failed to serialize trash metadata.'' ''serialize_failed''))) (\<lambda>entry_bytes.
        if (case tk_budget tk of None \<Rightarrow> False | Some remaining \<Rightarrow> length entry_bytes > remaining)
        then stop (helper_error q ErrorKind.DiskFull ''Quota cannot accommodate trash metadata.'' ''quota_exceeded'')
        else
        bindp (with_err (\<lambda>_. helper_error q ErrorKind.InternalError ''Failed to write trash metadata.'' ''write_info_failed'')
          (perform sys (WriteWhole info_path entry_bytes))) (\<lambda>_.
        bindp (on_error
          (with_err (trash_io_error q) (transaction_rename sys
            (with_alias cx ''.tealdrive-trash/files'' (source_parent (ex_relative_path source))) root
            (ex_relative_path source) (trash_files_path (operation_name tk)) False))
          (ignore (perform sys (RemoveFile info_path)))) (\<lambda>_.
        give (response_trash_entry q
          \<lparr>te_trash_id = operation_name tk, te_display_name = tre_display_name entry,
           te_deleted_at = tre_deleted_at entry, te_original_relative_path = tre_original_relative_path entry,
           te_original_root_id = tre_original_root_id entry\<rparr>))))))))))"

section \<open>Restoring\<close>

definition restore_file_from_trash_with_roots ::
  "'d System \<Rightarrow> (string \<Rightarrow> string option) \<Rightarrow> Codec \<Rightarrow> Context option \<Rightarrow> HelperRequest \<Rightarrow> AllowedRoot list
   \<Rightarrow> 'd World \<Rightarrow> HelperResponse \<times> 'd World" where
  "restore_file_from_trash_with_roots sys uuid msgpack cx q roots = answering
     (if hq_command q \<noteq> HelperCommand.RestoreFromTrash then stop (response_not_implemented q)
      else if hq_uid q = 0 then stop (response_permission_denied q ''Helper refuses uid 0.'')
      else
        bindp (lift (ok_or (find (\<lambda>root. root_root_id root = hq_root_id q) roots)
          (helper_error q ErrorKind.InvalidPath ''Unknown root id.'' ''invalid_root_id''))) (\<lambda>root.
        bindp (lift (map_err (\<lambda>_. helper_error q ErrorKind.ValidationError ''Invalid trash id.'' ''invalid_trash_id'')
          (SafeFileName_parse (hq_relative_path q)))) (\<lambda>trash_id.
        bindp (look (\<lambda>d. dv_canonicalize (sys_view sys d) (root_base_path root))) (\<lambda>r.
        bindp (lift (map_err (\<lambda>_. helper_error q ErrorKind.InvalidPath ''Cannot access root.'' ''root_canonicalize_failed'') r)) (\<lambda>base.
        let trash_dir = path_join base TRASH_DIR_NAME;
            info_path = path_join (path_join trash_dir ''info'') (trash_id @ ''.msgpack'') in
        bindp (look (\<lambda>d. read_entry uuid msgpack cx (kernel_of sys d) root trash_id)) (\<lambda>r.
        bindp (lift (map_err (helper_error_from_tealdrive q) r)) (\<lambda>entry.
        if tre_trash_id entry \<noteq> trash_id
        then stop (helper_error q ErrorKind.NotFound ''Trash entry not found.'' ''not_found'')
        else if tre_uid entry \<noteq> hq_uid q \<and> hq_uid q \<noteq> 0
        then stop (helper_error q ErrorKind.PermissionDenied ''Cannot restore trash belonging to another user.'' ''permission_denied'')
        else
        bindp (look (\<lambda>d. dv_symlink_metadata (sys_view sys d) (path_join (path_join trash_dir ''files'') trash_id))) (\<lambda>r.
        bindp (lift (map_err (\<lambda>_. helper_error q ErrorKind.NotFound ''Trash file not found.'' ''trash_file_missing'') r)) (\<lambda>_.
        bindp (lift (ok_or (find (\<lambda>r. root_root_id r = tre_original_root_id entry) roots)
          (helper_error q ErrorKind.InvalidPath ''Original root not found.'' ''original_root_missing''))) (\<lambda>original_root.
        bindp (look (\<lambda>d. dv_canonicalize (sys_view sys d) (root_base_path original_root))) (\<lambda>r.
        bindp (lift (map_err (\<lambda>_. helper_error q ErrorKind.InvalidPath ''Cannot access original root.'' ''orig_root_error'') r)) (\<lambda>original_canonical.
        bindp (lift (case validate_relative_path (tre_original_relative_path entry) of
            Inr path \<Rightarrow> if path \<noteq> [] then Inr path
              else Inl (helper_error q ErrorKind.NotFound ''Trash entry not found.'' ''not_found'')
          | Inl _ \<Rightarrow> Inl (helper_error q ErrorKind.NotFound ''Trash entry not found.'' ''not_found''))) (\<lambda>original.
        if tre_original_root_id entry \<noteq> hq_root_id q
        then stop (helper_error q ErrorKind.NotFound ''Trash entry not found.'' ''not_found'')
        else
        bindp (lift (map_err (helper_error_from_tealdrive q) (context_check cx original Write))) (\<lambda>_.
        let original_path = path_join original_canonical original in
        if \<not> path_starts_with original_path original_canonical
        then stop (helper_error q ErrorKind.InvalidPath ''Original path escapes root.'' ''original_path_escapes_root'')
        else
        bindp (look (\<lambda>d. is_ok (dv_symlink_metadata (sys_view sys d) original_path))) (\<lambda>taken.
        if taken
        then stop (helper_error q ErrorKind.AlreadyExists ''Original location already exists.'' ''already_exists'')
        else
        bindp (look (\<lambda>d. preflight_tree (sys_tree sys d root)
          (with_alias cx (trash_files_path trash_id) original) (trash_files_path trash_id) Write)) (\<lambda>r.
        bindp (lift (map_err (helper_error_from_tealdrive q) r)) (\<lambda>_.
        bindp (with_err (trash_io_error q) (transaction_rename sys
          (with_alias cx ''.tealdrive-trash/files'' (source_parent original)) root
          (trash_files_path trash_id) original False)) (\<lambda>_.
        bindp (ignore (perform sys (RemoveFile info_path))) (\<lambda>_.
        give (response_operation_done q ''Restored.''))))))))))))))))))))"

section \<open>Deleting for good\<close>

definition trash_info_file :: "string \<Rightarrow> string \<Rightarrow> string option" where
  "trash_info_file trash_dir resolved_path =
     (if path_starts_with resolved_path (path_join trash_dir ''files'')
      then map_option (\<lambda>n. path_join (path_join trash_dir ''info'') (to_string_lossy n @ ''.msgpack''))
        (path_file_name resolved_path)
      else None)"

definition delete_permanently_with_roots ::
  "'d System \<Rightarrow> Codec \<Rightarrow> Context option \<Rightarrow> HelperRequest \<Rightarrow> AllowedRoot list \<Rightarrow> SensitivePolicyConfig
   \<Rightarrow> 'd World \<Rightarrow> HelperResponse \<times> 'd World" where
  "delete_permanently_with_roots sys msgpack cx q roots sensitive_config = answering
     (if hq_command q \<noteq> HelperCommand.DeletePermanently then stop (response_not_implemented q)
      else if hq_uid q = 0 then stop (response_permission_denied q ''Helper refuses uid 0.'')
      else
        bindp (lift (ok_or (find (\<lambda>root. root_root_id root = hq_root_id q) roots)
          (helper_error q ErrorKind.InvalidPath ''Unknown root id.'' ''invalid_root_id''))) (\<lambda>root.
        if root_read_only root
        then stop (helper_error q ErrorKind.PolicyDenied ''Root is read-only.'' ''read_only_root'')
        else if hq_relative_path q = []
        then stop (helper_error q ErrorKind.InvalidTarget ''Cannot delete root directory.'' ''invalid_target'')
        else if sm_is_sensitive (detect_sensitive (hq_relative_path q) sensitive_config)
        then stop (helper_error q ErrorKind.PolicyDenied ''Target path is sensitive.'' ''sensitive_path'')
        else
        bindp (look (\<lambda>d. resolve_existing_path cx (sys_view sys d) root (hq_relative_path q) False)) (\<lambda>r.
        bindp (lift (map_err (helper_error_from_tealdrive q) r)) (\<lambda>source.
        let trash_dir = path_join (rr_canonical_base (ex_root source)) TRASH_DIR_NAME;
            info_file = trash_info_file trash_dir (ex_resolved_path source) in
        if path_eq (ex_resolved_path source) trash_dir
        then stop (helper_error q ErrorKind.InvalidTarget ''Cannot delete trash directory root.'' ''invalid_target'')
        else
        bindp (look (\<lambda>d. dv_symlink_metadata (sys_view sys d) (ex_resolved_path source))) (\<lambda>r.
        bindp (lift (map_err (\<lambda>e. trash_io_error q (Os e)) r)) (\<lambda>m.
        bindp (look (\<lambda>d. case info_file of None \<Rightarrow> False
          | Some f \<Rightarrow> (case sys_read_file sys d f of Inl _ \<Rightarrow> False
             | Inr data \<Rightarrow> (case cd_decode msgpack data of None \<Rightarrow> False
                | Some entry \<Rightarrow> tre_uid entry \<noteq> hq_uid q \<and> hq_uid q \<noteq> 0)))) (\<lambda>foreign.
        if foreign
        then stop (helper_error q ErrorKind.PermissionDenied ''Cannot delete trash belonging to another user.'' ''permission_denied'')
        else
        bindp (with_err (\<lambda>e. trash_io_error q (Os e)) (perform sys
          (if md_is_dir m then RemoveDirAll (ex_resolved_path source) else RemoveFile (ex_resolved_path source)))) (\<lambda>_.
        bindp (case info_file of Some f \<Rightarrow> ignore (perform sys (RemoveFile f)) | None \<Rightarrow> give ()) (\<lambda>_.
        give (response_operation_done q ''Deleted permanently.''))))))))))"

section \<open>Listing\<close>

definition trash_item ::
  "(string \<Rightarrow> string option) \<Rightarrow> Codec \<Rightarrow> Context option \<Rightarrow> DiskView \<Rightarrow> Kernel \<Rightarrow> HelperRequest \<Rightarrow> AllowedRoot \<Rightarrow> string
   \<Rightarrow> string \<Rightarrow> TrashItemEntry option" where
  "trash_item uuid msgpack cx disk kn q root trash_files_dir name =
     (case split_file_name name of (stem, ext) \<Rightarrow>
      if ext = Some ''msgpack'' \<and> to_str stem \<noteq> None then
        (case read_entry uuid msgpack cx kn root stem of
           Inl _ \<Rightarrow> None
         | Inr e \<Rightarrow>
             if tre_trash_id e \<noteq> stem \<or> (tre_uid e \<noteq> hq_uid q \<and> hq_uid q \<noteq> 0)
                \<or> tre_original_root_id e \<noteq> hq_root_id q
                \<or> \<not> is_ok (validate_relative_path (tre_original_relative_path e))
                \<or> \<not> is_ok (context_check cx (tre_original_relative_path e) Discover)
                \<or> \<not> is_ok (SafeFileName_parse (tre_trash_id e))
             then None
             else Some \<lparr>ti_trash_id = tre_trash_id e, ti_display_name = tre_display_name e,
                        ti_original_path = tre_original_relative_path e,
                        ti_original_root_id = tre_original_root_id e, ti_deleted_at = tre_deleted_at e,
                        ti_size = (case dv_symlink_metadata disk (path_join trash_files_dir (tre_trash_id e)) of
                          Inr m \<Rightarrow> st_len m | Inl _ \<Rightarrow> 0)\<rparr>)
      else None)"

definition list_trash_with_roots ::
  "(string \<Rightarrow> string option) \<Rightarrow> Codec \<Rightarrow> Context option \<Rightarrow> DiskView \<Rightarrow> Kernel \<Rightarrow> HelperRequest \<Rightarrow> AllowedRoot list
   \<Rightarrow> HelperResponse" where
  "list_trash_with_roots uuid msgpack cx disk kn q roots =
     (if hq_uid q = 0 then response_permission_denied q ''Helper refuses uid 0.''
      else case find (\<lambda>root. root_root_id root = hq_root_id q) roots of
        None \<Rightarrow> helper_error q ErrorKind.InvalidPath ''Unknown root id.'' ''invalid_root_id''
      | Some root \<Rightarrow>
          (case dv_canonicalize disk (root_base_path root) of
             Inl _ \<Rightarrow> response_trash_list q \<lparr>tlp_root_id = hq_root_id q, tlp_items = []\<rparr>
           | Inr base \<Rightarrow>
               let trash_dir = path_join base TRASH_DIR_NAME;
                   names = (case dv_read_dir disk (path_join trash_dir ''info'') of
                     Inl _ \<Rightarrow> [] | Inr es \<Rightarrow> List.map_filter (\<lambda>e. case e of Inr n \<Rightarrow> Some n | Inl _ \<Rightarrow> None) es);
                   items = List.map_filter (trash_item uuid msgpack cx disk kn q root (path_join trash_dir ''files'')) names
               in response_trash_list q
                    \<lparr>tlp_root_id = hq_root_id q, tlp_items = sort_key (\<lambda>a. - int (ti_deleted_at a)) items\<rparr>))"

end
