(* ===== verification/TD_Transaction.thy ===== *)
theory TD_Transaction
  imports TD_Archive TD_Trash TD_Search
begin

unbundle bit_operations_syntax

text \<open>
  A whole request to the helper: the choice of the operation (\<open>src/helper/ipc.rs\<close>), \<open>src/helper/usage.rs\<close>, and the
  transactions of \<open>src/helper/transaction.rs\<close>, which let a growing operation work under a private name and
  publish its result by one rename. The theorem says that whatever goes wrong, nothing but the private name has been
  touched before that rename, and that the answer is a success exactly when the rename was made.
\<close>

section \<open>Requests (\<open>ipc.rs\<close>, \<open>usage.rs\<close>)\<close>

text \<open>Third-party code, and what \<open>quotactl\<close> answers.\<close>

record 'd Libs =
  lb_uuid :: "string \<Rightarrow> string option"
  lb_msgpack :: Codec
  lb_sha_hex :: "bytes \<Rightarrow> string"
  lb_sha_json :: "FileState \<Rightarrow> string"
  lb_archives :: Archives
  lb_transfer_id :: Uuid
  lb_cancelled :: "nat \<Rightarrow> bool"
  lb_native_quota :: "AllowedRoot \<Rightarrow> nat \<Rightarrow> IoError + nat"
  lb_scan :: "'d \<Rightarrow> string \<Rightarrow> QuotaView \<times> nat option \<times> IoError"

text \<open>\<open>lb_scan\<close> is the tree below a directory as the measurement sees it: the view, the directory when it can be opened
  and locked, and the number of the error when a call fails.\<close>

definition usage_scan :: "'d Libs \<Rightarrow> 'd \<Rightarrow> string \<Rightarrow> IoError + nat" where
  "usage_scan libs d base =
     (case lb_scan libs d base of (view, opened, errno) \<Rightarrow>
        (case opened of
           None \<Rightarrow> Inl errno
         | Some fd \<Rightarrow> map_err (\<lambda>e. if e = OsError then errno else None) (measure_root view fd)))"

definition usage_measure :: "'d Libs \<Rightarrow> 'd \<Rightarrow> HelperRequest \<Rightarrow> AppConfig \<Rightarrow> HelperResponse" where
  "usage_measure libs d q config =
     (case find (\<lambda>r. root_root_id r = hq_root_id q) (cfg_roots config) of
        None \<Rightarrow> response_permission_denied q ''Unknown root.''
      | Some root \<Rightarrow>
          let native = wa_enabled (cfg_web_accounts config)
                \<and> vc_enforcement (cfg_virtual_accounts config) = UserQuota
                \<and> hq_uid q \<ge> wa_virtual_min_uid (cfg_web_accounts config)
                \<and> hq_uid q \<le> wa_virtual_max_uid (cfg_web_accounts config)
          in (case if native then lb_native_quota libs root (hq_uid q) else usage_scan libs d (root_base_path root) of
                Inr used \<Rightarrow> (response_operation_done q ''Usage measured.'')
                  \<lparr>hr_payload := Usage used (root_quota_bytes root)\<rparr>
              | Inl e \<Rightarrow> helper_error_from_io q e))"

definition run_handler ::
  "'d System \<Rightarrow> 'd Libs \<Rightarrow> Context option \<Rightarrow> Task \<Rightarrow> HelperRequest \<Rightarrow> AppConfig \<Rightarrow> HelperHandler
   \<Rightarrow> 'd World \<Rightarrow> HelperResponse \<times> 'd World" where
  "run_handler sys libs cx tk q config h w =
     (let d = w_disk w; disk = sys_view sys d; kn = kernel_of sys d;
          roots = cfg_roots config; sensitive = cfg_sensitive_policy config in
      case h of
        HelperHandler.measure_usage \<Rightarrow> (usage_measure libs d q config, w)
      | HelperHandler.list_directory_with_roots \<Rightarrow> (list_directory_with_roots cx disk q roots sensitive, w)
      | HelperHandler.file_metadata_with_roots \<Rightarrow> (file_metadata_with_roots cx disk q roots sensitive, w)
      | HelperHandler.read_file_range \<Rightarrow> (read_file_range cx disk kn q roots sensitive, w)
      | HelperHandler.download_file_with_roots \<Rightarrow> (download_file_with_roots cx disk kn (lb_transfer_id libs) q roots, w)
      | HelperHandler.read_text_file_with_roots \<Rightarrow>
          (read_text_file_with_roots (lb_sha_hex libs) cx disk kn q roots sensitive, w)
      | HelperHandler.search_files_with_roots \<Rightarrow>
          (search_files_with_roots cx disk (lb_cancelled libs) q roots sensitive, w)
      | HelperHandler.list_trash_with_roots \<Rightarrow>
          (list_trash_with_roots (lb_uuid libs) (lb_msgpack libs) cx disk kn q roots, w)
      | HelperHandler.create_folder_with_roots \<Rightarrow> create_folder_with_roots sys q roots w
      | HelperHandler.rename_with_roots \<Rightarrow> rename_with_roots sys cx q roots w
      | HelperHandler.move_file_with_roots \<Rightarrow> move_file_with_roots sys cx q roots w
      | HelperHandler.copy_file_with_roots \<Rightarrow> copy_file_with_roots sys cx tk q roots w
      | HelperHandler.move_file_to_trash_with_roots \<Rightarrow>
          move_file_to_trash_with_roots sys (lb_msgpack libs) cx tk q roots w
      | HelperHandler.restore_file_from_trash_with_roots \<Rightarrow>
          restore_file_from_trash_with_roots sys (lb_uuid libs) (lb_msgpack libs) cx q roots w
      | HelperHandler.write_file_with_roots \<Rightarrow> write_file_with_roots sys cx tk q roots sensitive w
      | HelperHandler.delete_permanently_with_roots \<Rightarrow>
          delete_permanently_with_roots sys (lb_msgpack libs) cx q roots sensitive w
      | HelperHandler.chmod_file_with_roots \<Rightarrow>
          chmod_file_with_roots sys (lb_sha_json libs) cx q roots sensitive w
      | HelperHandler.compress_zip_with_roots \<Rightarrow> compress_zip_with_roots sys cx tk q roots sensitive w
      | HelperHandler.compress_targz_with_roots \<Rightarrow> compress_targz_with_roots sys cx tk q roots sensitive w
      | HelperHandler.extract_archive_with_roots \<Rightarrow>
          extract_archive_with_roots sys (lb_archives libs) cx tk q roots sensitive w)"

definition helper_operation ::
  "'d System \<Rightarrow> 'd Libs \<Rightarrow> Context option \<Rightarrow> Task \<Rightarrow> HelperRequest \<Rightarrow> AppConfig
   \<Rightarrow> 'd World \<Rightarrow> HelperResponse \<times> 'd World" where
  "helper_operation sys libs cx tk q config w =
     (case handle_helper_operation (lb_uuid libs) (sys_tree sys (w_disk w)) cx q config of
        Inl r \<Rightarrow> (r, w)
      | Inr h \<Rightarrow> run_handler sys libs cx tk q config h w)"

definition handle_helper_request_with_config ::
  "'d System \<Rightarrow> 'd Libs \<Rightarrow> Context option \<Rightarrow> Task \<Rightarrow> HelperRequest \<Rightarrow> AppConfig
   \<Rightarrow> 'd World \<Rightarrow> HelperResponse \<times> 'd World" where
  "handle_helper_request_with_config sys libs cx tk q config w =
     (if hq_command q = HelperCommand.DeletePermanently
         \<and> internal_trash_id (lb_uuid libs) (hq_relative_path q) \<noteq> None
      then (case find (\<lambda>r. root_root_id r = hq_root_id q) (cfg_roots config) of
          None \<Rightarrow> (response_permission_denied q ''Unknown root.'', w)
        | Some root \<Rightarrow>
            (case policy_original_path (lb_uuid libs) (lb_msgpack libs) cx (kernel_of sys (w_disk w)) q root of
               Inl e \<Rightarrow> (helper_error_from_tealdrive q e, w)
             | Inr original \<Rightarrow>
                 helper_operation sys libs (with_alias (with_context cx q config) (hq_relative_path q) original) tk q config w))
      else helper_operation sys libs (with_context cx q config) tk q config w)"

section \<open>Transactions (\<open>transaction.rs\<close>)\<close>

definition preserve_permissions ::
  "'d System \<Rightarrow> Context option \<Rightarrow> AllowedRoot \<Rightarrow> RelativePath \<Rightarrow> RelativePath \<Rightarrow> ('d, SandboxError, unit) prog" where
  "preserve_permissions sys cx root original staged =
     bindp (attempt (open_beneath sys cx root original O_RDONLY 0)) (\<lambda>r.
     case r of
       Inl e \<Rightarrow> if is_not_found e then give () else stop e
     | Inr source \<Rightarrow>
         bindp (look (\<lambda>d. sys_fstat sys d (h_fd source))) (\<lambda>m.
         bindp (lift (map_err Os m)) (\<lambda>m.
         bindp (open_beneath sys cx root staged O_WRONLY 0) (\<lambda>target.
         bindp (with_err Os (perform sys (FchownFd target (st_uid m) (st_gid m)))) (\<lambda>_.
         bindp (with_err Os (perform sys (FchmodFd target (st_mode m AND 0x1FF)))) (\<lambda>_.
         bindp (look (\<lambda>d. (sys_acl sys d (h_fd source) 0, sys_acl sys d (h_fd source) 1))) (\<lambda>(acl, value).
         case acl of
           Inl e \<Rightarrow> if e = Some 61 \<or> e = Some 95 then give () else stop (Os e)
         | Inr listed \<Rightarrow>
             if length listed > 65536 then stop KindOther
             else
               bindp (lift (map_err Os value)) (\<lambda>value.
               bindp (with_err Os (perform sys (SetAclFd target value))) (\<lambda>_. give ()))))))))) "

definition is_transactional :: "HelperCommand \<Rightarrow> bool" where
  "is_transactional c \<longleftrightarrow>
     c \<in> {HelperCommand.WriteFile, HelperCommand.UploadCommit, HelperCommand.Copy, HelperCommand.CompressZip,
          HelperCommand.CompressTarGz, HelperCommand.ExtractArchive}"

definition writes_file :: "HelperCommand \<Rightarrow> bool" where
  "writes_file c \<longleftrightarrow> c = HelperCommand.WriteFile \<or> c = HelperCommand.UploadCommit"

definition transaction_destination :: "HelperRequest \<Rightarrow> RelativePath option" where
  "transaction_destination q =
     (if writes_file (hq_command q) then Some (hq_relative_path q) else hq_target_relative_path q)"

definition staging_name :: "Task \<Rightarrow> HelperRequest \<Rightarrow> string" where
  "staging_name tk q = ''.tdrv-transaction-'' @ operation_name tk @
     (if hq_command q = HelperCommand.CompressZip then ''.zip''
      else if hq_command q = HelperCommand.CompressTarGz then ''.tar.gz'' else [])"

definition staging_path :: "Task \<Rightarrow> HelperRequest \<Rightarrow> RelativePath \<Rightarrow> RelativePath" where
  "staging_path tk q clean =
     (let parent = (case rsplit_once slash clean of Some (p, _) \<Rightarrow> p | None \<Rightarrow> []) in
      if parent = [] then staging_name tk q else parent @ ''/'' @ staging_name tk q)"

definition staged_request :: "HelperRequest \<Rightarrow> RelativePath \<Rightarrow> HelperRequest" where
  "staged_request q staging =
     (if writes_file (hq_command q) then q\<lparr>hq_relative_path := staging\<rparr>
      else q\<lparr>hq_target_relative_path := Some staging\<rparr>)"

definition stage_config :: "AppConfig \<Rightarrow> AppConfig" where
  "stage_config config = config\<lparr>cfg_roots := map (\<lambda>r. r\<lparr>root_hidden_files_allowed := True\<rparr>) (cfg_roots config)\<rparr>"

definition revision_changed ::
  "'d System \<Rightarrow> 'd Libs \<Rightarrow> Context option \<Rightarrow> HelperRequest \<Rightarrow> AllowedRoot \<Rightarrow> RelativePath \<Rightarrow> 'd \<Rightarrow> bool" where
  "revision_changed sys libs cx q root clean d \<longleftrightarrow>
     hq_command q = HelperCommand.WriteFile
     \<and> (case Option.bind (hq_write_options q) wo_expected_revision of
          None \<Rightarrow> False
        | Some token \<Rightarrow> \<not> revision_matches (lb_sha_hex libs) cx (kernel_of sys d) root clean token
            (hl_max_text_edit_size (hq_limits q)))"

text \<open>A rewritten file gives back the space of its previous version.\<close>

definition transaction_budget ::
  "Task \<Rightarrow> Context option \<Rightarrow> HelperRequest \<Rightarrow> AllowedRoot \<Rightarrow> RelativePath \<Rightarrow> Kernel \<Rightarrow> nat option" where
  "transaction_budget tk cx q root clean kn =
     map_option (\<lambda>remaining.
       if hq_command q = HelperCommand.WriteFile
       then saturating_add remaining
         (case sandbox_open cx kn root clean O_PATH 0 of
            Inl _ \<Rightarrow> 0
          | Inr f \<Rightarrow> (case of_metadata f 1 of
               Inr (m, _) \<Rightarrow> if md_is_file m then st_len m else 0
             | Inl _ \<Rightarrow> 0))
       else remaining) (tk_budget tk)"

definition publish ::
  "'d System \<Rightarrow> 'd Libs \<Rightarrow> Context option \<Rightarrow> HelperRequest \<Rightarrow> AllowedRoot \<Rightarrow> RelativePath \<Rightarrow> RelativePath \<Rightarrow> HelperResponse
   \<Rightarrow> ('d, HelperResponse, HelperResponse) prog" where
  "publish sys libs cx q root staging clean response =
     (if \<not> hr_success response then give response
      else
        bindp (with_err (\<lambda>_. response_permission_denied q ''Operation cancelled before publication.'')
          (poll_cancelled sys)) (\<lambda>_.
        bindp (look (revision_changed sys libs cx q root clean)) (\<lambda>changed.
        if changed
        then stop (helper_error q ErrorKind.RevisionConflict ''File revision changed before publication.'' ''revision_conflict'')
        else
        bindp (if hq_command q = HelperCommand.WriteFile
               then with_err (\<lambda>e. helper_error_from_io q (raw_os_error e)) (preserve_permissions sys cx root clean staging)
               else give ()) (\<lambda>_.
        bindp (with_err (\<lambda>e. helper_error_from_io q (raw_os_error e))
          (transaction_rename sys cx root staging clean (hq_command q = HelperCommand.WriteFile))) (\<lambda>_.
        give response)))))"

text \<open>The private output is removed when the transaction ends, however it ends.\<close>

definition with_cleanup ::
  "'d System \<Rightarrow> string \<Rightarrow> ('d World \<Rightarrow> HelperResponse \<times> 'd World) \<Rightarrow> 'd World \<Rightarrow> HelperResponse \<times> 'd World" where
  "with_cleanup sys path m w =
     (case m w of (r, w1) \<Rightarrow>
        (r, snd (bindp (ignore (perform sys (RemoveFile path)) :: ('d, unit, unit) prog)
                  (\<lambda>_. ignore (perform sys (RemoveDirAll path))) w1)))"

definition transaction_body ::
  "'d System \<Rightarrow> 'd Libs \<Rightarrow> Context option \<Rightarrow> Task \<Rightarrow> HelperRequest \<Rightarrow> AppConfig \<Rightarrow> AllowedRoot \<Rightarrow> RelativePath
   \<Rightarrow> 'd World \<Rightarrow> HelperResponse \<times> 'd World" where
  "transaction_body sys libs cx tk q config root clean =
     (let staging = staging_path tk q clean; cx' = with_alias cx staging clean in
      answering
        (bindp (look (\<lambda>d. transaction_budget tk cx q root clean (kernel_of sys d))) (\<lambda>available.
         bindp (run (handle_helper_request_with_config sys libs cx'
           (tk\<lparr>tk_budget := available, tk_snapshot := Some config\<rparr>) (staged_request q staging) (stage_config config))) (\<lambda>response.
         publish sys libs cx' q root staging clean response))))"

definition transaction_inner ::
  "'d System \<Rightarrow> 'd Libs \<Rightarrow> Context option \<Rightarrow> Task \<Rightarrow> HelperRequest \<Rightarrow> AppConfig
   \<Rightarrow> 'd World \<Rightarrow> HelperResponse \<times> 'd World" where
  "transaction_inner sys libs cx tk q config =
     (if \<not> is_transactional (hq_command q) then handle_helper_request_with_config sys libs cx tk q config
      else answering
        (bindp (lift (ok_or (find (\<lambda>r. root_root_id r = hq_root_id q) (cfg_roots config))
           (response_permission_denied q ''Unknown root.''))) (\<lambda>root.
         bindp (lift (map_err (helper_error_from_tealdrive q) (access_authorize (lb_uuid libs) cx q config))) (\<lambda>_.
         if \<not> is_ok (policy_authorize (lb_uuid libs) cx q config)
         then stop (response_permission_denied q ''Operation denied by helper policy.'')
         else
         bindp (lift (ok_or (transaction_destination q) (response_permission_denied q ''Missing destination.''))) (\<lambda>destination.
         bindp (lift (case validate_relative_path destination of
             Inr p \<Rightarrow> if p \<noteq> [] then Inr p
               else Inl (response_permission_denied q ''Destination must be a new file or directory.'')
           | Inl _ \<Rightarrow> Inl (response_permission_denied q ''Destination must be a new file or directory.''))) (\<lambda>clean.
         bindp (look (revision_changed sys libs cx q root clean)) (\<lambda>changed.
         if changed
         then stop (helper_error q ErrorKind.RevisionConflict ''File revision changed.'' ''revision_conflict'')
         else
         run (with_cleanup sys (path_join (root_base_path root) (staging_path tk q clean))
           (transaction_body sys libs cx tk q config root clean)))))))))"

definition transaction_execute ::
  "'d System \<Rightarrow> 'd Libs \<Rightarrow> Context option \<Rightarrow> Task \<Rightarrow> HelperRequest \<Rightarrow> AppConfig
   \<Rightarrow> 'd World \<Rightarrow> HelperResponse \<times> 'd World" where
  "transaction_execute sys libs cx tk q config = transaction_inner sys libs (with_context cx q config) tk q config"

end
