(* ===== verification/TD_Publication.thy ===== *)
theory TD_Publication
  imports TD_Transaction
begin

text \<open>
  The transactions of \<open>TD_Transaction\<close> publish as a whole or not at all. A path bears a name when the name is one of its
  components; every operation that works on a request redirected to a private name makes only calls on paths that
  bear it, and what follows is the publication, whose calls are known exactly.
\<close>

section \<open>Private names\<close>

lemma rsplit_once_Some: "rsplit_once c s = Some (a, b) \<Longrightarrow> s = a @ c # b \<and> c \<notin> set b"
proof -
  assume "rsplit_once c s = Some (a, b)"
  then have c: "c \<in> set s" and a: "a = butlast (rev (dropWhile (\<lambda>x. x \<noteq> c) (rev s)))"
    and b: "b = rev (takeWhile (\<lambda>x. x \<noteq> c) (rev s))"
    by (auto simp: rsplit_once_def split: if_split_asm)
  obtain ys where ys: "dropWhile (\<lambda>x. x \<noteq> c) (rev s) = c # ys"
    using c hd_dropWhile [of "\<lambda>x. x \<noteq> c" "rev s"] by (cases "dropWhile (\<lambda>x. x \<noteq> c) (rev s)") auto
  have "rev s = rev b @ c # ys" using takeWhile_dropWhile_id [of "\<lambda>x. x \<noteq> c" "rev s"] b ys by simp
  then have "rev (rev s) = rev (rev b @ c # ys)" by (rule arg_cong)
  then have "s = rev ys @ c # b" by simp
  moreover have "a = rev ys" using a ys by simp
  moreover have "c \<notin> set b" using b by (auto dest: set_takeWhileD)
  ultimately show ?thesis by simp
qed

lemma rsplit_once_last:
  "snd (case rsplit_once c s of Some pf \<Rightarrow> pf | None \<Rightarrow> ([], s)) = last (split_on c s)"
proof (cases "rsplit_once c s")
  case None
  then have "c \<notin> set s" by (simp add: rsplit_once_def split: if_split_asm)
  with None show ?thesis by (simp add: split_on_no_sep)
next
  case (Some p)
  then obtain a b where "rsplit_once c s = Some (a, b)" by (cases p) simp
  with rsplit_once_Some [OF this] show ?thesis by (simp add: split_on_append split_on_no_sep)
qed

definition bears :: "string \<Rightarrow> string \<Rightarrow> bool" where
  "bears n p \<longleftrightarrow> Normal n \<in> set (components p)"

text \<open>A relative path whose last name is private.\<close>

definition bears_path :: "string \<Rightarrow> RelativePath \<Rightarrow> bool" where
  "bears_path n path \<longleftrightarrow> (\<forall>p. validate_relative_path path = Inr p \<longrightarrow> p \<noteq> [] \<and> last (split_on slash p) = n)"

lemma components_relative: "path_ok r \<Longrightarrow> components r = map Normal (name_parts r)"
proof -
  assume ok: "path_ok r"
  then have "hd (split_on slash r) = ''.'' \<Longrightarrow> False"
  proof -
    assume dot: "hd (split_on slash r) = ''.''"
    then have "r \<noteq> []" by auto
    with ok have "split_on slash r = name_parts r" by (rule path_ok_split)
    with dot split_on_not_Nil [of slash r] have "''.'' \<in> set (name_parts r)" by (metis hd_in_set)
    then show False by (auto simp: name_parts_def)
  qed
  moreover have "map component_of (name_parts r) = map Normal (name_parts r)"
    using ok by (auto simp: path_ok_def simp flip: dotdot_name_parts)
  ultimately show ?thesis using ok by (auto simp: components_def Let_def path_ok_def simp flip: name_parts_def)
qed

lemma bears_join:
  assumes "path_ok p" and "p \<noteq> []" and "last (split_on slash p) = n"
  shows "bears n (path_join base p)"
proof -
  have "n \<in> set (name_parts p)"
    using assms path_ok_split [of p] by (metis last_in_set split_on_not_Nil)
  moreover have "components (path_join base p) = components base @ map Normal (name_parts p)"
  proof (cases "base = []")
    case True
    with assms(1) show ?thesis using components_relative [OF assms(1)] by (simp add: path_join_def path_ok_def components_def Let_def)
  qed (use assms(1) in \<open>rule components_join_validated\<close>)
  ultimately show ?thesis by (simp add: bears_def)
qed

lemma bears_opened: "bears_path n path \<Longrightarrow> validate_relative_path path = Inr p \<Longrightarrow> bears n (opened_path root p)"
  using validate_path_ok [of path p] by (auto simp: bears_path_def opened_path_def intro: bears_join)

lemma bears_safe_name: "SafeFileName_parse v = Inr n \<Longrightarrow> bears n (path_join base n)"
proof (rule bears_join)
  assume v: "SafeFileName_parse v = Inr n"
  then show "path_ok n" by (simp add: path_ok_validate safe_name_validates)
  from v show "n \<noteq> []" "last (split_on slash n) = n" by (auto simp: SafeFileName_parse_Inr split_on_no_sep)
qed

lemma bears_staging_path:
  assumes "slash \<notin> set (operation_name tk)"
  shows "bears_path (staging_name tk q) (staging_path tk q clean)"
proof -
  let ?n = "staging_name tk q" and ?s = "staging_path tk q clean"
  have n: "?n \<noteq> []" "?n \<noteq> ''.''" "slash \<notin> set ?n" using assms by (auto simp: staging_name_def)
  define b where "b = (case rsplit_once slash clean of Some (p, _) \<Rightarrow> p | None \<Rightarrow> [])"
  then have "?s = (if b = [] then ?n else b @ slash # ?n)" by (simp add: staging_path_def Let_def)
  then obtain a where a: "split_on slash ?s = a @ [?n]"
    using n by (cases "b = []") (auto simp: split_on_no_sep split_on_append)
  then have parts: "name_parts ?s = filter (\<lambda>q. q \<noteq> [] \<and> q \<noteq> ''.'') a @ [?n]"
    using n by (simp add: name_parts_def)
  show ?thesis
    unfolding bears_path_def
  proof (intro allI impI)
    fix p
    assume p: "validate_relative_path ?s = Inr p"
    then have join: "p = join_with slash (name_parts ?s)"
      by (auto simp: validate_relative_path_eq split: if_split_asm)
    have "name_parts ?s \<noteq> []" "\<forall>x \<in> set (name_parts ?s). slash \<notin> set x"
      using parts name_parts_pieces [of _ ?s] by (simp, blast)
    then have "split_on slash p = name_parts ?s" unfolding join by (rule split_on_join)
    with parts have last: "last (split_on slash p) = ?n" by simp
    with n(1) show "p \<noteq> [] \<and> last (split_on slash p) = ?n" by auto
  qed
qed

lemma bears_validated: "bears_path n path \<Longrightarrow> validate_relative_path path = Inr p \<Longrightarrow> bears_path n p"
  by (simp add: bears_path_def validate_idem)

section \<open>Operations under a private name\<close>

lemma makes_write_all [makes_rules]: "Q (h_path h) \<Longrightarrow> makes (touches Q) (write_all sys h bs)"
proof (induction sys h bs rule: write_all.induct)
  case (1 sys h bs)
  then show ?case by (subst write_all.simps) (intro makes_rules makes_bind; simp)
qed

lemma makes_budget_write_all [makes_rules]:
  "Q (h_path h) \<Longrightarrow> makes (touches Q) (budget_write_all sys limit position h bs)"
proof (induction sys limit position h bs rule: budget_write_all.induct)
  case (1 sys limit position h bs)
  then show ?case by (subst budget_write_all.simps) (intro makes_rules makes_bind; simp)
qed

lemma makes_copy_loop [makes_rules]:
  "Q (h_path dst) \<Longrightarrow> makes (touches Q) (copy_loop sys src pos left limit position dst)"
proof (induction sys src pos left limit position dst rule: copy_loop.induct)
  case (1 sys src pos left limit position dst)
  then show ?case by (subst copy_loop.simps) (intro makes_rules makes_bind; simp)
qed

lemma makes_stream_loop [makes_rules]:
  "Q (h_path dst) \<Longrightarrow> makes (touches Q) (stream_loop sys src pos remaining dst)"
proof (induction sys src pos remaining dst rule: stream_loop.induct)
  case (1 sys src pos remaining dst)
  then show ?case by (subst stream_loop.simps) (intro makes_rules makes_bind; simp)
qed

lemma makes_write_contents [makes_rules]:
  "Q (h_path file) \<Longrightarrow> makes (touches Q) (write_contents sys tk wo file)"
  unfolding write_contents_def by (intro makes_rules makes_bind; simp)

lemma makes_move_copy_source [makes_rules]: "makes (touches Q) (move_copy_source sys cx q roots)"
  unfolding move_copy_source_def by (intro makes_rules makes_bind)

lemma write_file_private [makes_rules]:
  assumes "bears_path n (hq_relative_path q)"
  shows "makesR (touches (bears n)) (write_file_with_roots sys cx tk q roots sensitive_config)"
  unfolding write_file_with_roots_def
  by (intro makes_rules makes_bind)
    (use assms in \<open>auto simp: map_err_Inr intro: bears_opened [OF bears_validated]\<close>)

lemma copy_contents_private [makes_rules]:
  assumes "bears_path n target"
  shows "makes (touches (bears n)) (copy_contents sys cx tk root source_path target)"
  unfolding copy_contents_def
  by (intro makes_rules makes_bind) (use assms in \<open>auto simp: bears_opened\<close>)

lemma makes_bind_move_copy [makes_rules]:
  assumes "\<And>root target source t. hq_target_relative_path q = Some t \<Longrightarrow> validate_relative_path t = Inr target \<Longrightarrow>
    makes (touches Q) (f (root, target, source))"
  shows "makes (touches Q) (bindp (move_copy_source sys cx q roots) f)"
proof (rule makes_bind_fst [OF makes_move_copy_source])
  fix w x
  assume "fst (move_copy_source sys cx q roots w) = Inr x"
  then obtain root target source t where "x = (root, target, source)" "hq_target_relative_path q = Some t"
    "validate_relative_path t = Inr target"
    by (auto simp: move_copy_source_def bindp_Inr ok_or_Inr map_err_Inr split: if_split_asm)
  with assms show "makes (touches Q) (f x)" by blast
qed

lemma copy_file_private [makes_rules]:
  assumes "\<And>t. hq_target_relative_path q = Some t \<Longrightarrow> bears_path n t"
  shows "makesR (touches (bears n)) (copy_file_with_roots sys cx tk q roots)"
  unfolding copy_file_with_roots_def
  by (intro makes_rules makes_bind) (use assms in \<open>auto intro: bears_validated\<close>)

text \<open>Archives.\<close>

lemma makes_add_dir_to_tar [makes_rules]:
  "Q out \<Longrightarrow> makes (touches Q) (add_dir_to_tar sys cx out dir pre root sensitive allow_hidden)"
proof (induction sys cx out dir pre root sensitive allow_hidden rule: add_dir_to_tar.induct)
  case (1 sys cx out dir pre root sensitive allow_hidden)
  show ?case
    by (subst add_dir_to_tar.simps) (intro makes_rules makes_bind; use 1 in \<open>simp split: prod.split_asm\<close>)
qed

lemma makes_add_dir_to_zip [makes_rules]:
  "Q out \<Longrightarrow> makes (touches Q) (add_dir_to_zip sys cx out dir pre sensitive canonical_base allow_hidden)"
proof (induction sys cx out dir pre sensitive canonical_base allow_hidden rule: add_dir_to_zip.induct)
  case (1 sys cx out dir pre sensitive canonical_base allow_hidden)
  show ?case
    by (subst add_dir_to_zip.simps) (intro makes_rules makes_bind; use 1 in \<open>simp split: prod.split_asm\<close>)
qed

lemma makes_compress_prepare:
  "makes (touches Q) (compress_checks sys cx q roots sensitive_config extensions message)"
  unfolding compress_checks_def compress_source_def by (intro makes_rules makes_bind)

lemma makes_bind_compress [makes_rules]:
  assumes "\<And>t. hq_target_relative_path q = Some t \<Longrightarrow> bears_path n t"
    and "\<And>root target sources. bears n (nt_resolved_path target) \<Longrightarrow> makes (touches (bears n)) (f (root, target, sources))"
  shows "makes (touches (bears n)) (bindp (compress_checks sys cx q roots sensitive_config extensions message) f)"
proof (rule makes_bind_fst [OF makes_compress_prepare])
  fix w x
  assume "fst (compress_checks sys cx q roots sensitive_config extensions message w) = Inr x"
  then obtain root t p fname d target sources where x: "x = (root, target, sources)"
    and t: "hq_target_relative_path q = Some t" "validate_relative_path t = Inr p"
    and fname: "SafeFileName_parse (last (split_on slash p)) = Inr fname"
    and target: "resolve_new_target (sys_view sys d) root
      (fst (case rsplit_once slash p of Some pf \<Rightarrow> pf | None \<Rightarrow> ([], p))) fname = Inr target"
    by (auto simp: compress_checks_def bindp_Inr ok_or_Inr map_err_Inr Let_def case_prod_unfold rsplit_once_last
        split: if_split_asm)
  have "last (split_on slash p) = n" using assms(1) [OF t(1)] t(2) by (simp add: bears_path_def)
  moreover have "fname = last (split_on slash p)" using fname by (simp add: SafeFileName_parse_Inr)
  moreover obtain base where "SafeFileName_parse fname = Inr (nt_filename target)"
    "nt_resolved_path target = path_join (nt_resolved_parent target) (nt_filename target)"
    using target by (rule resolve_new_target_ok)
  ultimately have "bears n (nt_resolved_path target)"
    using bears_safe_name [of fname "nt_filename target"] by (auto simp: SafeFileName_parse_Inr)
  then show "makes (touches (bears n)) (f x)" unfolding x by (rule assms(2))
qed

lemma makes_zip_source [makes_rules]:
  "Q (nt_resolved_path target) \<Longrightarrow> makes (touches Q) (zip_source sys cx tk q sensitive_config root target src)"
  unfolding zip_source_def is_dir_now_def by (intro makes_rules makes_bind; simp)

lemma makes_tar_source [makes_rules]:
  "Q (nt_resolved_path target) \<Longrightarrow> makes (touches Q) (tar_source sys cx tk q sensitive_config root target src)"
  unfolding tar_source_def is_dir_now_def by (intro makes_rules makes_bind; simp)

lemma compress_private [makes_rules]:
  assumes "\<And>t. hq_target_relative_path q = Some t \<Longrightarrow> bears_path n t"
  shows "makesR (touches (bears n)) (compress_zip_with_roots sys cx tk q roots sensitive_config)"
    and "makesR (touches (bears n)) (compress_targz_with_roots sys cx tk q roots sensitive_config)"
  unfolding compress_zip_with_roots_def compress_targz_with_roots_def
  by (intro makes_rules makes_bind; use assms in simp)+

text \<open>The paths above a path begin with fewer of its components.\<close>

lemma is_absolute_hd: "is_absolute p \<longleftrightarrow> p \<noteq> [] \<and> hd (split_on slash p) = []"
  using split_on_not_Nil [of slash "tl p"] by (cases p) (auto simp: is_absolute_def Let_def split: list.split)

lemma pieces_text_prefix:
  assumes "split_on slash p = rev qs @ rev xs" and "xs \<noteq> []"
  shows "path_starts_with p (pieces_text (is_absolute p) qs)"
proof -
  let ?triv = "\<lambda>q. q = [] \<or> q = ''.''"
  define ps where "ps = rev (dropWhile ?triv qs)"
  have split: "split_on slash p = ps @ rev (takeWhile ?triv qs) @ rev xs"
    using assms(1) unfolding ps_def by (metis append.assoc rev_append takeWhile_dropWhile_id)
  show ?thesis
  proof (cases "ps = []")
    case True
    then show ?thesis
      by (auto simp: pieces_text_def ps_def [symmetric] path_starts_with_def components_def Let_def)
  next
    case False
    have pieces: "\<forall>q \<in> set ps. slash \<notin> set q" using split split_on_pieces [of _ slash p] by auto
    then have join: "split_on slash (join_with slash ps) = ps" using False by (intro split_on_join) auto
    have hd: "hd ps = hd (split_on slash p)" using False split by simp
    have abs: "is_absolute (join_with slash ps) \<longleftrightarrow> is_absolute p"
    proof -
      have "last ps \<noteq> []" using False hd_dropWhile [of ?triv qs] by (auto simp: ps_def last_rev)
      then have "join_with slash ps \<noteq> []" using join by auto
      moreover have "p \<noteq> []" using split False assms(2) by (cases ps; cases xs) auto
      ultimately show ?thesis using hd join by (simp add: is_absolute_hd)
    qed
    have "prefix (components (join_with slash ps)) (components p)"
      using hd by (auto simp: components_def Let_def join abs split)
    with False show ?thesis by (simp add: pieces_text_def ps_def [symmetric] path_starts_with_def)
  qed
qed

lemma ancestors_prefix:
  assumes "a \<in> set (path_ancestors p)"
  shows "path_starts_with p a"
proof -
  have "path_starts_with p a" if "a \<in> set (ancestors_of (is_absolute p) qs)" "split_on slash p = rev qs @ rev xs" for qs xs
    using that
  proof (induction qs arbitrary: xs)
    case (Cons q qs)
    then have split: "split_on slash p = rev qs @ rev (xs @ [q])" by simp
    with Cons.prems(1) Cons.IH [OF _ split] pieces_text_prefix [OF split] show ?case
      by (auto split: if_split_asm)
  qed simp
  from this [of "rev (split_on slash p)" "[]"] assms show ?thesis by (simp add: path_ancestors_def)
qed

lemma bears_below: "bears n dir \<Longrightarrow> path_starts_with p dir \<Longrightarrow> bears n p"
  by (auto simp: bears_def path_starts_with_def dest: set_mono_prefix)

lemma entry_place_below:
  "entry_place cx tk q sensitive_config dest_dir canonical_base slip name = Inr p \<Longrightarrow> path_starts_with p dest_dir"
  by (auto simp: entry_place_def Let_def and_then_Inr split: if_split_asm option.split_asm)

lemma makes_zip_entry_file [makes_rules]:
  assumes "bears n outpath"
  shows "makes (touches (bears n)) (zip_entry_file sys tk q e outpath extracted)"
  unfolding zip_entry_file_def
  by (intro makes_rules makes_bind) (use assms ancestors_prefix [of _ outpath] in \<open>auto intro: exI [of _ outpath] simp: path_starts_with_def\<close>)

lemma makes_extract_zip_entries [makes_rules]:
  "bears n dest_dir \<Longrightarrow>
     makes (touches (bears n)) (extract_zip_entries sys cx tk q sensitive_config dest_dir canonical_base es extracted)"
proof (induction sys cx tk q sensitive_config dest_dir canonical_base es extracted rule: extract_zip_entries.induct)
  case (3 sys cx tk q sensitive_config dest_dir canonical_base e es extracted)
  then show ?case
    by (subst extract_zip_entries.simps) (intro makes_rules makes_bind;
      auto dest: entry_place_below intro: bears_below)
qed (simp_all add: makes_rules)

lemma makes_extract_tar_entries [makes_rules]:
  "bears n dest_dir \<Longrightarrow>
     makes (touches (bears n)) (extract_tar_entries sys cx tk q sensitive_config dest_dir canonical_base es i extracted)"
proof (induction sys cx tk q sensitive_config dest_dir canonical_base es i extracted rule: extract_tar_entries.induct)
  case (2 sys cx tk q sensitive_config dest_dir canonical_base e es i extracted)
  then show ?case
    by (subst extract_tar_entries.simps) (intro makes_rules makes_bind;
      auto dest: entry_place_below intro: bears_below)
qed (simp_all add: makes_rules)

text \<open>What is assumed of \<open>canonicalize\<close>, which is \<open>realpath\<close>: a path that it resolves exists, and unless the last name
  of the path is that of a symbolic link, the canonical path ends in the same name.\<close>

definition plain_name :: "string \<Rightarrow> bool" where
  "plain_name x \<longleftrightarrow> x \<notin> {[], ''.'', ''..''}"

definition realpath_keeps_last :: "'d System \<Rightarrow> bool" where
  "realpath_keeps_last sys \<longleftrightarrow>
     (\<forall>d p c. plain_name (last (split_on slash p)) \<longrightarrow> dv_canonicalize (sys_view sys d) p = Inr c \<longrightarrow>
        (\<exists>m. dv_symlink_metadata (sys_view sys d) p = Inr m
           \<and> (st_is_symlink m \<or> (\<exists>above. components c = above @ [Normal (last (split_on slash p))]))))"

text \<open>The private name is not that of a symbolic link.\<close>

definition no_link_named :: "'d System \<Rightarrow> string \<Rightarrow> bool" where
  "no_link_named sys n \<longleftrightarrow>
     (\<forall>d p m. last (split_on slash p) = n \<longrightarrow> dv_symlink_metadata (sys_view sys d) p = Inr m \<longrightarrow> \<not> st_is_symlink m)"

definition keeps_name :: "'d System \<Rightarrow> string \<Rightarrow> bool" where
  "keeps_name sys n \<longleftrightarrow>
     (\<forall>d p c. last (split_on slash p) = n \<longrightarrow> dv_canonicalize (sys_view sys d) p = Inr c \<longrightarrow> bears n c)"

lemma keeps_nameI: "realpath_keeps_last sys \<Longrightarrow> no_link_named sys n \<Longrightarrow> plain_name n \<Longrightarrow> keeps_name sys n"
  by (auto simp: realpath_keeps_last_def no_link_named_def keeps_name_def bears_def) (metis in_set_conv_decomp)

lemma plain_staging_name: "plain_name (staging_name tk q)"
  by (simp add: plain_name_def staging_name_def)

lemma last_split_join:
  assumes "path_ok p" and "p \<noteq> []"
  shows "last (split_on slash (path_join base p)) = last (split_on slash p)"
proof -
  have rel: "\<not> is_absolute p" using assms(1) by (simp add: path_ok_def)
  have join: "last (split_on slash (b @ slash # p)) = last (split_on slash p)" for b
    using split_on_not_Nil [of slash p] by (simp add: split_on_append)
  show ?thesis
  proof (cases "base = [] \<or> last base \<noteq> slash")
    case True
    with rel join show ?thesis by (auto simp: path_join_def)
  next
    case False
    then obtain b where "base = b @ [slash]" by (metis append_butlast_last_id)
    with rel join [of b] show ?thesis by (simp add: path_join_def)
  qed
qed

lemma extract_private [makes_rules]:
  assumes "\<And>t. hq_target_relative_path q = Some t \<Longrightarrow> bears_path n t" and "keeps_name sys n"
  shows "makesR (touches (bears n)) (extract_archive_with_roots sys crates cx tk q roots sensitive_config)"
proof -
  have dest: "bears n (if p = [] then base else path_join base p)"
    if "ok_or (hq_target_relative_path q) e = Inr t" "validate_relative_path t = Inr p"
    for t p base and e :: HelperResponse
    using assms(1) [of t] that by (auto simp: bears_path_def ok_or_Inr intro: bears_join validate_path_ok)
  have canon: "bears n c"
    if "ok_or (hq_target_relative_path q) e = Inr t" "validate_relative_path t = Inr p"
      "dv_canonicalize (sys_view sys d) (if p = [] then base else path_join base p) = Inr c"
    for t p base d c and e :: HelperResponse
  proof -
    have "p \<noteq> []" "last (split_on slash p) = n" "path_ok p"
      using assms(1) [of t] that(1,2) by (auto simp: bears_path_def ok_or_Inr intro: validate_path_ok)
    with that(3) last_split_join [of p base] assms(2) show ?thesis unfolding keeps_name_def by auto
  qed
  have made: "touches (bears n) (CreateDirAll p)" if "bears n p" for p
    using that by (auto simp: path_starts_with_def)
  show ?thesis
    unfolding extract_archive_with_roots_def extract_zip_def extract_tar_def open_archive_def Let_def
    by (intro makes_rules makes_bind, simp_all only: map_err_Inr read_flags)
      ((rule made, rule dest, assumption+) | (rule canon, assumption+))+
qed

lemma gate_handler: "handle_helper_operation uuid tree cx q config = Inr h \<Longrightarrow> helper_handler (hq_command q) = Some h"
  by (auto simp: handle_helper_operation_def split: if_split_asm sum.split_asm option.split_asm)

lemma staged_operation_private:
  assumes "is_transactional (hq_command q)"
    and "writes_file (hq_command q) \<Longrightarrow> bears_path n (hq_relative_path q)"
    and "\<not> writes_file (hq_command q) \<Longrightarrow> \<exists>t. hq_target_relative_path q = Some t \<and> bears_path n t"
    and "keeps_name sys n"
  shows "makesR (touches (bears n)) (handle_helper_request_with_config sys libs cx tk q config)"
  unfolding makesR_def
proof
  fix w
  let ?cx = "with_context cx q config"
  have same: "handle_helper_request_with_config sys libs cx tk q config w = helper_operation sys libs ?cx tk q config w"
    using assms(1) by (auto simp: handle_helper_request_with_config_def is_transactional_def)
  show "\<exists>cs. w_calls (snd (handle_helper_request_with_config sys libs cx tk q config w)) = w_calls w @ cs
    \<and> (\<forall>c \<in> set cs. touches (bears n) (fst c))"
  proof (cases "handle_helper_operation (lb_uuid libs) (sys_tree sys (w_disk w)) ?cx q config")
    case (Inr h)
    then have h: "helper_handler (hq_command q) = Some h" by (rule gate_handler)
    have "makesR (touches (bears n)) (run_handler sys libs ?cx tk q config h)"
      using assms h unfolding run_handler_def is_transactional_def writes_file_def Let_def
      by (auto intro!: makes_rules)
    with Inr show ?thesis unfolding same helper_operation_def makesR_def by simp
  qed (simp add: same helper_operation_def)
qed

section \<open>How a program ends\<close>

text \<open>All calls but the last ones have a property, and the last ones fit the result.\<close>

definition ends ::
  "(SysCall \<Rightarrow> bool) \<Rightarrow> ('e + 'a \<Rightarrow> (SysCall \<times> bool) list \<Rightarrow> bool) \<Rightarrow> ('d, 'e, 'a) prog \<Rightarrow> bool" where
  "ends P R m \<longleftrightarrow> (\<forall>w. \<exists>cs fin. w_calls (snd (m w)) = w_calls w @ cs @ fin
     \<and> (\<forall>c \<in> set cs. P (fst c)) \<and> R (fst (m w)) fin)"

lemma ends_lift: "R r [] \<Longrightarrow> ends P R (lift r)"
  by (auto simp: ends_def)

lemma ends_bind:
  assumes "makes P m" and "\<And>e w. fst (m w) = Inl e \<Longrightarrow> R (Inl e) []"
    and "\<And>x w. fst (m w) = Inr x \<Longrightarrow> ends P R (f x)"
  shows "ends P R (bindp m f)"
  unfolding ends_def
proof
  fix w
  obtain r w1 where m: "m w = (r, w1)" by fastforce
  obtain cs where cs: "w_calls w1 = w_calls w @ cs" "\<forall>c \<in> set cs. P (fst c)"
    using assms(1) m unfolding makes_def by (metis snd_conv)
  show "\<exists>cs fin. w_calls (snd (bindp m f w)) = w_calls w @ cs @ fin
    \<and> (\<forall>c \<in> set cs. P (fst c)) \<and> R (fst (bindp m f w)) fin"
  proof (cases r)
    case (Inl e)
    with m cs assms(2) [of w e] show ?thesis by (intro exI [of _ cs] exI [of _ "[]"]) (simp add: bindp_def)
  next
    case (Inr x)
    then have "ends P R (f x)" using assms(3) [of w x] m by simp
    then obtain cs' fin where "w_calls (snd (f x w1)) = w_calls w1 @ cs' @ fin" "\<forall>c \<in> set cs'. P (fst c)"
      "R (fst (f x w1)) fin" unfolding ends_def by blast
    with cs m Inr show ?thesis by (intro exI [of _ "cs @ cs'"] exI [of _ fin]) (auto simp: bindp_def)
  qed
qed

lemma ends_with_err: "ends P (\<lambda>r. R (map_err g r)) m \<Longrightarrow> ends P R (with_err g m)"
  by (simp add: ends_def)

lemma ends_give: "ends P (\<lambda>r. R (map_sum id (\<lambda>_. x) r)) m \<Longrightarrow> ends P R (bindp m (\<lambda>_. give x))"
proof -
  have "fst (bindp m (\<lambda>_. give x) w) = map_sum id (\<lambda>_. x) (fst (m w))"
    "snd (bindp m (\<lambda>_. give x) w) = snd (m w)" for w
    by (auto simp: bindp_def split: prod.split sum.split)
  moreover assume "ends P (\<lambda>r. R (map_sum id (\<lambda>_. x) r)) m"
  ultimately show ?thesis by (simp add: ends_def)
qed

lemma ends_perform:
  fixes sys :: "'d System"
  assumes R: "\<And>r. R r [(c, is_ok r)]"
  shows "ends P R (perform sys c)"
  unfolding ends_def
proof
  fix w :: "'d World"
  obtain r d where "sys_call sys c (w_disk w) = (r, d)" by fastforce
  with R [of r] show "\<exists>cs fin. w_calls (snd (perform sys c w)) = w_calls w @ cs @ fin
    \<and> (\<forall>c \<in> set cs. P (fst c)) \<and> R (fst (perform sys c w)) fin"
    by (intro exI [of _ "[]"] exI [of _ "[(c, is_ok r)]"]) (simp add: perform_def)
qed

section \<open>Publication\<close>

text \<open>The calls that publish: none, or the one rename of the private output to its destination.\<close>

definition published ::
  "HelperRequest \<Rightarrow> AllowedRoot \<Rightarrow> string \<Rightarrow> RelativePath \<Rightarrow> bool \<Rightarrow> (SysCall \<times> bool) list \<Rightarrow> bool" where
  "published q root n clean success fin \<longleftrightarrow>
     (fin = [] \<and> \<not> success)
     \<or> (\<exists>src dst tn. fin = [(RenameAt src n dst tn (hq_command q = HelperCommand.WriteFile), success)]
         \<and> path_eq (path_join (h_path dst) tn) (opened_path root clean))"

lemma split_target_last:
  assumes "split_target p = Inr (a, b)" and "validate_relative_path p = Inr r"
  shows "b = last (split_on slash r)" and "r = (if a = [] \<and> slash \<notin> set r then b else a @ slash # b)"
proof -
  show "b = last (split_on slash r)"
    using assms rsplit_once_last [where c = slash and s = r]
    by (auto simp: split_target_def split: option.split_asm if_split_asm)
  show "r = (if a = [] \<and> slash \<notin> set r then b else a @ slash # b)"
    using assms rsplit_once_Some [of slash r a b]
    by (auto simp: split_target_def split: option.split_asm if_split_asm) (auto simp: rsplit_once_def)
qed

lemma opened_components:
  assumes "path_ok p" and "root_base_path root \<noteq> []"
  shows "components (opened_path root p) = components (root_base_path root) @ map Normal (name_parts p)"
  using assms components_join_validated [OF assms]
  by (auto simp: opened_path_def components_path_join name_parts_def)

lemma rename_destination:
  assumes "path_ok clean" and "clean \<noteq> []" and "split_target clean = Inr (a, b)"
    and "validate_relative_path a = Inr a'" and "root_base_path root \<noteq> []"
  shows "path_eq (path_join (opened_path root a') b) (opened_path root clean)"
proof -
  have clean: "validate_relative_path clean = Inr clean" using assms(1) by (simp add: path_ok_validate)
  note parts = split_target_last [OF assms(3) clean]
  have split: "split_on slash clean = name_parts clean" using assms(1,2) by (rule path_ok_split)
  then have b: "b \<in> set (name_parts clean)" using parts(1) by (metis last_in_set split_on_not_Nil)
  then have "slash \<notin> set b" "b \<noteq> []" "b \<noteq> ''.''" by (auto dest: name_parts_pieces)
  moreover have "b \<noteq> ''..''" using assms(1) b by (auto simp: path_ok_def simp flip: split)
  moreover have "nul \<notin> set b" using assms(1) set_name_parts_subset [OF b] by (auto simp: path_ok_def)
  ultimately have ok: "path_ok b" "name_parts b = [b]" 
    by (auto simp: path_ok_def name_parts_def split_on_no_sep is_absolute_def split: list.split)
  have "name_parts clean = name_parts a @ [b]"
    using parts(2) ok(2) by (auto simp: name_parts_def split_on_append split: if_split_asm)
  moreover have "name_parts a' = name_parts a" "path_ok a'"
    using assms(4) by (auto simp: validate_relative_path_eq validate_path_ok split: if_split_asm)
  ultimately show ?thesis
    using ok assms(1,5) opened_components [of _ root] components_join_validated [OF ok(1), of "opened_path root a'"]
    by (simp add: path_eq_def opened_path_def path_join_not_Nil)
qed

lemma ends_bind_lift:
  "(\<And>e. r = Inl e \<Longrightarrow> R (Inl e) []) \<Longrightarrow> (\<And>x. r = Inr x \<Longrightarrow> ends P R (f x)) \<Longrightarrow> ends P R (bindp (lift r) f)"
  by (rule ends_bind) auto

lemma ends_bind_look: "(\<And>d. ends P R (f (g d))) \<Longrightarrow> ends P R (bindp (look g) f)"
  by (rule ends_bind) auto

lemma ends_bind_open:
  assumes "\<not> opens_for_writing flags" and "\<And>e. R (Inl e) []"
    and "\<And>p h. validate_relative_path path = Inr p \<Longrightarrow> h_path h = opened_path root p \<Longrightarrow> ends (touches Q) R (f h)"
  shows "ends (touches Q) R (bindp (open_beneath sys cx root path flags mode) f)"
  by (rule ends_bind) (use assms in \<open>auto intro!: makes_open_beneath elim: open_beneath_handle\<close>)

lemma ends_if: "(b \<Longrightarrow> ends P R m) \<Longrightarrow> (\<not> b \<Longrightarrow> ends P R n) \<Longrightarrow> ends P R (if b then m else n)"
  by simp

lemma ends_prod: "(\<And>a b. x = (a, b) \<Longrightarrow> ends P R (f a b)) \<Longrightarrow> ends P R (case x of (a, b) \<Rightarrow> f a b)"
  by (cases x) simp

lemmas ends_rules = ends_bind_lift ends_bind_look ends_bind_open ends_if ends_prod ends_lift ends_give ends_with_err
  ends_perform

lemma rename_ends:
  assumes staging: "bears_path n staging" and clean: "path_ok clean" "clean \<noteq> []" "root_base_path root \<noteq> []"
    and R: "\<And>e. R (Inl e) []"
      "\<And>src dst tn r. path_eq (path_join (h_path dst) tn) (opened_path root clean) \<Longrightarrow>
        R r [(RenameAt src n dst tn replace, is_ok r)]"
  shows "ends (touches Q) R (transaction_rename sys cx root staging clean replace)"
proof -
  have src: "sn = n" if "split_target staging = Inr (sp, sn)" for sp sn
  proof -
    from that obtain p where "validate_relative_path staging = Inr p"
      by (auto simp: split_target_def and_then_Inr map_err_Inr)
    with that staging split_target_last(1) [OF that this] show ?thesis by (simp add: bears_path_def)
  qed
  have fin: "R (map_sum id (\<lambda>_. ()) (map_err Os r)) [(RenameAt src sn dst tn replace, is_ok r)]"
    if "split_target staging = Inr (sp, sn)" "split_target clean = Inr (tp, tn)"
      "validate_relative_path tp = Inr p" "h_path dst = opened_path root p" for sp sn tp tn p src dst r
  proof -
    have "is_ok (map_sum id (\<lambda>_. ()) (map_err Os r)) = is_ok r" by (cases r) simp_all
    moreover have "path_eq (path_join (h_path dst) tn) (opened_path root clean)"
      using rename_destination [OF clean(1,2) that(2,3) clean(3)] that(4) by simp
    then have "R (map_sum id (\<lambda>_. ()) (map_err Os r))
      [(RenameAt src n dst tn replace, is_ok (map_sum id (\<lambda>_. ()) (map_err Os r)))]"
      by (rule R(2))
    ultimately show ?thesis using src [OF that(1)] by simp
  qed
  show ?thesis
    unfolding transaction_rename_def
    by (intro ends_rules) (auto intro: fin R(1))
qed

lemma map_err_Inl: "map_err g r = Inl e \<longleftrightarrow> (\<exists>e'. r = Inl e' \<and> e = g e')"
  by (cases r) auto

lemma makes_preserve_permissions [makes_rules]:
  "bears_path n staged \<Longrightarrow> makes (touches (bears n)) (preserve_permissions sys cx root original staged)"
  unfolding preserve_permissions_def
  by (intro makes_rules makes_bind) (auto simp: bears_opened)

lemma publish_ends:
  assumes staging: "bears_path n staging" and clean: "path_ok clean" "clean \<noteq> []" "root_base_path root \<noteq> []"
  shows "ends (touches (bears n)) (\<lambda>r. published q root n clean (hr_success (case r of Inl a \<Rightarrow> a | Inr a \<Rightarrow> a)))
    (publish sys libs cx q root staging clean response)"
proof (cases "hr_success response")
  case False
  then show ?thesis by (simp add: publish_def ends_lift published_def)
next
  case True
  let ?R = "\<lambda>r :: HelperResponse + HelperResponse. published q root n clean (hr_success (case r of Inl a \<Rightarrow> a | Inr a \<Rightarrow> a))"
  have rename: "ends (touches (bears n)) ?R (bindp (with_err (\<lambda>e. helper_error_from_io q (raw_os_error e))
    (transaction_rename sys cx root staging clean (hq_command q = HelperCommand.WriteFile))) (\<lambda>_. give response))"
  proof (intro ends_give ends_with_err rename_ends [OF staging clean], goal_cases)
    case (2 src dst tn r)
    then show ?case using True by (cases r) (auto simp: published_def)
  qed (simp add: published_def)
  show ?thesis
    unfolding publish_def if_not_P [OF iffD2 [OF not_not True]]
  proof (rule ends_bind, goal_cases)
    case (3 _ _)
    show ?case
    proof (intro ends_bind_look ends_if ends_lift, goal_cases)
      case (2 d)
      show ?case
        by (rule ends_bind) (use staging rename in \<open>auto intro!: makes_rules simp: map_err_Inl published_def split: if_split_asm\<close>)
    qed (simp add: published_def)
  qed (auto intro!: makes_rules simp: map_err_Inl published_def)
qed

lemma staged_private:
  assumes "is_transactional (hq_command q)" and "slash \<notin> set (operation_name tk)" and "keeps_name sys (staging_name tk q)"
  shows "makesR (touches (bears (staging_name tk q)))
    (handle_helper_request_with_config sys libs cx tk' (staged_request q (staging_path tk q clean)) config)"
  using assms bears_staging_path [OF assms(2), of q clean]
  by (intro staged_operation_private) (auto simp: staged_request_def)

lemma with_cleanup_calls:
  "\<exists>a b. w_calls (snd (with_cleanup sys path m w)) = w_calls (snd (m w)) @ [(RemoveFile path, a), (RemoveDirAll path, b)]"
  by (auto simp: with_cleanup_def ignore_def bindp_def attempt_def perform_def lift_def split: prod.split)


lemma body_calls:
  assumes "is_transactional (hq_command q)" and "slash \<notin> set (operation_name tk)" and "keeps_name sys (staging_name tk q)"
    and "path_ok clean" "clean \<noteq> []" "root_base_path root \<noteq> []"
  shows "\<exists>before fin. w_calls (snd (transaction_body sys libs cx tk q config root clean w)) = w_calls w @ before @ fin
    \<and> (\<forall>c \<in> set before. touches (bears (staging_name tk q)) (fst c))
    \<and> published q root (staging_name tk q) clean (hr_success (fst (transaction_body sys libs cx tk q config root clean w))) fin"
proof -
  let ?n = "staging_name tk q" and ?s = "staging_path tk q clean"
  let ?cx = "with_alias cx ?s clean"
  define m where "m = bindp (look (\<lambda>d. transaction_budget tk cx q root clean (kernel_of sys d))) (\<lambda>available.
    bindp (run (handle_helper_request_with_config sys libs ?cx
      (tk\<lparr>tk_budget := available, tk_snapshot := Some config\<rparr>) (staged_request q ?s) (stage_config config))) (\<lambda>response.
    publish sys libs ?cx q root ?s clean response))"
  have "ends (touches (bears ?n)) (\<lambda>r. published q root ?n clean (hr_success (case r of Inl a \<Rightarrow> a | Inr a \<Rightarrow> a))) m"
    unfolding m_def
    by (intro ends_bind_look ends_bind publish_ends makes_run staged_private assms bears_staging_path) simp
  then obtain before fin where "w_calls (snd (m w)) = w_calls w @ before @ fin"
    "\<forall>c \<in> set before. touches (bears ?n) (fst c)"
    "published q root ?n clean (hr_success (case fst (m w) of Inl a \<Rightarrow> a | Inr a \<Rightarrow> a)) fin"
    unfolding ends_def by blast
  moreover have "transaction_body sys libs cx tk q config root clean = answering m"
    by (simp add: transaction_body_def m_def Let_def)
  moreover have "fst (answering m w) = (case fst (m w) of Inl a \<Rightarrow> a | Inr a \<Rightarrow> a)"
    by (simp add: answering_def split: prod.split sum.split)
  ultimately show ?thesis by auto
qed

lemma transaction_cases:
  assumes "is_transactional (hq_command q)" and "transaction_inner sys libs cx tk q config w = (response, w')"
  obtains (refused) "w' = w" "\<not> hr_success response"
  | (ran) root destination clean where "find (\<lambda>r. root_root_id r = hq_root_id q) (cfg_roots config) = Some root"
      "transaction_destination q = Some destination" "validate_relative_path destination = Inr clean" "clean \<noteq> []"
      "with_cleanup sys (path_join (root_base_path root) (staging_path tk q clean))
         (transaction_body sys libs cx tk q config root clean) w = (response, w')"
proof -
  note run = assms(2) [unfolded transaction_inner_def if_not_P [OF iffD2 [OF not_not assms(1)]]]
  show thesis
  proof (cases "find (\<lambda>r. root_root_id r = hq_root_id q) (cfg_roots config)")
    case (Some root)
    show thesis
    proof (cases "access_authorize (lb_uuid libs) cx q config = Inr () \<and> is_ok (policy_authorize (lb_uuid libs) cx q config)")
      case True
      show thesis
      proof (cases "transaction_destination q")
        case (Some destination)
        show thesis
        proof (cases "validate_relative_path destination")
          case (Inr clean)
          then show thesis
            using run True \<open>find _ _ = Some root\<close> Some refused ran
            by (auto simp: answering_def bindp_def lift_def look_def run_def split: if_split_asm prod.split_asm)
        qed (use run True \<open>find _ _ = Some root\<close> Some refused in
            \<open>auto simp: answering_def bindp_def lift_def split: if_split_asm\<close>)
      qed (use run True Some refused in \<open>auto simp: answering_def bindp_def lift_def split: if_split_asm\<close>)
    next
      case False
      then show thesis using run Some refused
        by (cases "access_authorize (lb_uuid libs) cx q config") (auto simp: answering_def bindp_def lift_def split: if_split_asm)
    qed
  qed (use run refused in \<open>auto simp: answering_def bindp_def lift_def\<close>)
qed

lemma touches_cases:
  "touches Q c \<Longrightarrow> (\<forall>p \<in> set (targets c). Q p) \<or> (\<exists>p below. c = CreateDirAll p \<and> Q below \<and> path_starts_with below p)"
  by (cases c) (auto simp: touches_def)


section \<open>An upload that succeeds\<close>

text \<open>A system on which every call succeeds, with two directories, the root and \<open>/srv\<close>, and no symbolic link:
  where a path leads, which is the root (\<open>False\<close>), \<open>/srv\<close>, or nowhere.\<close>

definition example_step :: "Component \<Rightarrow> bool option \<Rightarrow> bool option" where
  "example_step c at =
     (case c of
        Normal x \<Rightarrow> if at = Some False \<and> x = ''srv'' then Some True else None
      | ParentDir \<Rightarrow> map_option (\<lambda>_. False) at
      | _ \<Rightarrow> at)"

definition example_at :: "string \<Rightarrow> bool option" where
  "example_at p = (if is_absolute p then fold example_step (components p) (Some False) else None)"

definition example_stat_of :: "bool \<Rightarrow> FileMeta" where
  "example_stat_of dir = \<lparr>md_is_file = \<not> dir, md_is_dir = dir, md_nlink = 1, st_is_symlink = False, st_len = 0,
     st_modified = None, st_uid = 1000, st_gid = 1000, st_mode = 0x1FF\<rparr>"

definition example_system :: "unit System" where
  "example_system = \<lparr>sys_call = (\<lambda>c d. (Inr 1, d)),
     sys_file = (\<lambda>_ _. \<lparr>of_metadata = (\<lambda>_. Inr (example_stat_of False, [])), of_seek = (\<lambda>_. Inr ()), of_read = (\<lambda>_ _. Inr [])\<rparr>),
     sys_fstat = (\<lambda>_ _. Inl None), sys_acl = (\<lambda>_ _ _. Inl None),
     sys_view = (\<lambda>_. \<lparr>dv_canonicalize = (\<lambda>p.
         case example_at p of None \<Rightarrow> Inl (Some 2) | Some srv \<Rightarrow> Inr (if srv then ''/srv'' else ''/'')),
       dv_metadata = (\<lambda>p. if example_at p = None then Inl (Some 2) else Inr (example_stat_of True)),
       dv_symlink_metadata = (\<lambda>p. if example_at p = None then Inl (Some 2) else Inr (example_stat_of True)),
       dv_read_dir = (\<lambda>_. Inr [])\<rparr>),
     sys_tree = (\<lambda>_ _. example_tree),
     sys_sizes = (\<lambda>_. \<lparr>fv_read = (\<lambda>_. None), fv_meta = (\<lambda>_. None), fv_canonicalize = (\<lambda>_. None)\<rparr>),
     sys_read_file = (\<lambda>_ _. Inl None)\<rparr>"

definition example_libs :: "unit Libs" where
  "example_libs = \<lparr>lb_uuid = (\<lambda>_. None), lb_msgpack = \<lparr>cd_encode = (\<lambda>_. None), cd_decode = (\<lambda>_. None)\<rparr>,
     lb_sha_hex = (\<lambda>_. []), lb_sha_json = (\<lambda>_. []), lb_archives = \<lparr>ac_zip = (\<lambda>_. None), ac_tar = (\<lambda>_ _. Inl None)\<rparr>,
     lb_transfer_id = 0, lb_cancelled = (\<lambda>_. False), lb_native_quota = (\<lambda>_ _. Inl None), lb_scan = (\<lambda>_ _. (example_quota_view, None, None))\<rparr>"

definition example_task :: Task where
  "example_task = \<lparr>tk_budget = None, tk_artifact = None, tk_uuid = ''42'', tk_snapshot = None, tk_stream = None, tk_now = 0\<rparr>"

definition example_commit :: HelperRequest where
  "example_commit = (example_request HelperCommand.UploadCommit ''a.txt'' None)
     \<lparr>hq_write_options := Some \<lparr>wo_stream_size = None, wo_expected_revision = None, wo_data = [7], wo_offset = 0,
        wo_truncate = True\<rparr>\<rparr>"

definition example_commit_config :: AppConfig where
  "example_commit_config = AppConfig_default
     \<lparr>cfg_roots := [AllowedRoot_default\<lparr>root_base_path := ''/srv'', root_root_id := ''home'', root_read_only := False,
        root_uploads_allowed := True\<rparr>]\<rparr>"


lemmas example_eval = policy_eval config_defaults example_commit_config_def example_commit_def example_request_def
  with_context_def with_alias_def context_check_def access_authorize_def effective_target_def operation_access_def
  and_then_def is_read_command_def extra_paths_def translated_def

lemma commit_access: "access_authorize uuid (with_context None example_commit example_commit_config)
    example_commit example_commit_config = Inr ()"
  by (simp add: example_eval)


lemma upload_authorized:
  assumes "access_authorize uuid cx q config = Inr ()" and "hq_command q = HelperCommand.UploadCommit"
    and "find (\<lambda>r. root_root_id r = hq_root_id q) (cfg_roots config) = Some root"
    and "\<not> root_read_only root" "root_uploads_allowed root" "\<not> root_is_web_root root"
    and "authorize_write q config = Inr ()" and "authorize_names q config root = Inr ()"
  shows "policy_authorize uuid cx q config = Inr ()"
  using assms by (simp add: policy_authorize_def authorize_webroot_def)

definition example_root :: AllowedRoot where
  "example_root = AllowedRoot_default\<lparr>root_base_path := ''/srv'', root_root_id := ''home'', root_read_only := False,
        root_uploads_allowed := True\<rparr>"

lemma commit_authorized: "policy_authorize uuid (with_context None example_commit example_commit_config)
    example_commit example_commit_config = Inr ()"
proof (rule upload_authorized [OF commit_access, where root = example_root])
  show "authorize_names example_commit example_commit_config example_root = Inr ()"
    unfolding authorize_names_ok by (simp add: example_eval example_root_def is_internal_trash_def)
qed (simp_all add: example_eval example_root_def authorize_write_def write_bound_def limit_defs)

definition example_staged :: HelperRequest where
  "example_staged = staged_request example_commit ''.tdrv-transaction-42''"

definition example_ctx :: "Context option" where
  "example_ctx = with_alias (with_context None example_commit example_commit_config) ''.tdrv-transaction-42'' ''a.txt''"

lemmas example_staged_eval = example_ctx_def example_staged_def staged_request_def example_eval stage_config_def writes_file_def

lemma staged_context: "with_context example_ctx example_staged (stage_config example_commit_config) = example_ctx"
  by (simp add: example_staged_eval)

lemma staged_access: "access_authorize uuid example_ctx example_staged (stage_config example_commit_config) = Inr ()"
  by (simp add: example_staged_eval)

lemma staged_authorized: "policy_authorize uuid example_ctx example_staged (stage_config example_commit_config) = Inr ()"
proof (rule upload_authorized [OF staged_access, where root = "example_root\<lparr>root_hidden_files_allowed := True\<rparr>"])
  show "authorize_names example_staged (stage_config example_commit_config) (example_root\<lparr>root_hidden_files_allowed := True\<rparr>) = Inr ()"
    unfolding authorize_names_ok by (simp add: example_staged_eval example_root_def is_internal_trash_def)
qed (simp_all add: example_staged_eval example_root_def authorize_write_def write_bound_def limit_defs)

lemma staged_gate: "handle_helper_operation uuid tree example_ctx example_staged (stage_config example_commit_config)
   = Inr HelperHandler.write_file_with_roots"
  apply (simp add: handle_helper_operation_def staged_access staged_authorized preflight_def)
  by (simp add: example_staged_eval helper_feature_disabled_def command_disabled_in_v1_def)

lemmas program_eval = answering_def bindp_def lift_def look_def with_err_def attempt_def run_def perform_def poll_cancelled_def ignore_def

lemma staged_name_parse: "SafeFileName_parse ''.tdrv-transaction-42'' = Inr ''.tdrv-transaction-42''"
  by code_simp


definition example_stage_root :: AllowedRoot where
  "example_stage_root = example_root\<lparr>root_hidden_files_allowed := True\<rparr>"

lemma staged_not_sensitive: "\<not> sm_is_sensitive (detect_sensitive ''.tdrv-transaction-42'' SensitivePolicyConfig_default)"
  by code_simp


lemma staged_resolves: "\<exists>t. resolve_new_target (sys_view example_system d) example_stage_root [] ''.tdrv-transaction-42'' = Inr t"
proof -
  have "is_ok (resolve_new_target (sys_view example_system ()) example_stage_root [] ''.tdrv-transaction-42'')"
    by code_simp
  then show ?thesis by (cases "resolve_new_target (sys_view example_system ()) example_stage_root [] ''.tdrv-transaction-42''") auto
qed

lemma example_open: "open_beneath example_system cx root path flags mode w =
   (Inr \<lparr>h_fd = 1, h_path = opened_path root path\<rparr>,
    \<lparr>w_disk = (), w_calls = w_calls w @ [(OpenBase (root_base_path root), True),
       (OpenAt (root_base_path root) (if path = [] then ''.'' else path) flags mode, True)]\<rparr>)"
  if "validate_relative_path path = Inr path" "context_check cx path (open_access flags) = Inr ()" "nul \<notin> set (root_base_path root)"
  using that
  by (simp add: open_beneath_def program_eval example_system_def check_metadata_def example_stat_of_def Metadata.truncate_def)

lemma example_paths: "validate_relative_path ''.tdrv-transaction-42'' = Inr ''.tdrv-transaction-42''"
 "rsplit_once slash ''.tdrv-transaction-42'' = None"
 "validate_relative_path ''a.txt'' = Inr ''a.txt''"
 "rsplit_once slash ''a.txt'' = None"
 "validate_relative_path [] = Inr []"
  by code_simp+

lemma staged_checks: "context_check example_ctx ''.tdrv-transaction-42'' a = Inr ()" "context_check example_ctx [] a = Inr ()"
  by (simp_all add: example_staged_eval)

lemma staged_fields: "hq_command example_staged = HelperCommand.UploadCommit"
  "hq_uid example_staged \<noteq> 0"
  "hq_relative_path example_staged = ''.tdrv-transaction-42''"
  "hq_write_options example_staged = Some \<lparr>wo_stream_size = None, wo_expected_revision = None, wo_data = [7], wo_offset = 0,
        wo_truncate = True\<rparr>"
  "find (\<lambda>root. root_root_id root = hq_root_id example_staged) (cfg_roots (stage_config example_commit_config)) = Some example_stage_root"
  "cfg_sensitive_policy (stage_config example_commit_config) = SensitivePolicyConfig_default"
  by (simp_all add: example_staged_eval example_stage_root_def example_root_def)


lemma stage_root_fields: "\<not> root_read_only example_stage_root" "root_uploads_allowed example_stage_root" "\<not> root_is_web_root example_stage_root"
  "root_quota_bytes example_stage_root = None" "root_base_path example_stage_root = ''/srv''" "nul \<notin> set (root_base_path example_stage_root)"
  by (simp_all add: example_stage_root_def example_root_def config_defaults)

lemma example_write: "write_all example_system h bs w = (Inr (), \<lparr>w_disk = (), w_calls = w_calls w @ [(WriteFd h bs, True)]\<rparr>)" if "length bs = 1"
  using that by (cases "bs = []") (simp_all add: write_all.simps program_eval example_system_def)


lemma run_eval:
  "bindp (lift (Inr x)) f w = f x w" "bindp (look g) f w = f (g (w_disk w)) w"
  "m w = (Inr x, w1) \<Longrightarrow> bindp m f w = f x w1" "m w = (r, w1) \<Longrightarrow> with_err h m w = (map_err h r, w1)"
  "lift r w = (r, w)" "answering k w = (case k w of (Inl r, w') \<Rightarrow> (r, w') | (Inr r, w') \<Rightarrow> (r, w'))"
  "m' w = (a, w1) \<Longrightarrow> run m' w = (Inr a, w1)"
  by (simp_all add: program_eval)

lemma staged_write: "\<exists>cs. run_handler example_system example_libs example_ctx (example_task\<lparr>tk_budget := None, tk_snapshot := Some example_commit_config\<rparr>)
   example_staged (stage_config example_commit_config) HelperHandler.write_file_with_roots w =
     ((response_operation_done example_staged ''Written.'')\<lparr>hr_bytes_written := 1\<rparr>, \<lparr>w_disk = (), w_calls = w_calls w @ cs\<rparr>)"
proof -
  obtain t where t: "resolve_new_target (sys_view example_system ()) example_stage_root [] ''.tdrv-transaction-42'' = Inr t"
    using staged_resolves by blast
  show ?thesis
  apply (simp add: run_handler_def write_file_with_roots_def staged_fields run_eval example_paths staged_not_sensitive staged_name_parse stage_root_fields check_webroot_upload_def t check_quota_def example_open staged_checks write_contents_def example_write Let_def)
  done
qed

lemma example_rename_run: "transaction_rename example_system cx example_root ''.tdrv-transaction-42'' ''a.txt'' replace w
   = (Inr (), \<lparr>w_disk = (), w_calls = w_calls w @ [(OpenBase ''/srv'', True), (OpenAt ''/srv'' ''.'' (O_PATH OR O_DIRECTORY) 0, True),
       (OpenBase ''/srv'', True), (OpenAt ''/srv'' ''.'' (O_PATH OR O_DIRECTORY) 0, True),
       (RenameAt \<lparr>h_fd = 1, h_path = ''/srv/.''\<rparr> ''.tdrv-transaction-42'' \<lparr>h_fd = 1, h_path = ''/srv/.''\<rparr> ''a.txt'' replace, True)]\<rparr>)"
  if "\<And>a. context_check cx [] a = Inr ()"
proof -
  have "perform example_system c w = (Inr 1, \<lparr>w_disk = (), w_calls = w_calls w @ [(c, True)]\<rparr>)" for c w
    by (simp add: perform_def example_system_def)
  moreover have "opened_path example_root [] = ''/srv/.''" "root_base_path example_root = ''/srv''" by code_simp+
  moreover have "nul \<notin> set ''/srv''" "nul \<notin> set ''.tdrv-transaction-42''" "nul \<notin> set ''a.txt''" by code_simp+
  ultimately show ?thesis using that
  by (simp add: transaction_rename_def run_eval split_target_def and_then_def example_paths example_open)
qed

lemma staged_path: "staging_path example_task example_commit ''a.txt'' = ''.tdrv-transaction-42''"
  by code_simp

lemma commit_fields: "hq_command example_commit = HelperCommand.UploadCommit" 
  "find (\<lambda>r. root_root_id r = hq_root_id example_commit) (cfg_roots example_commit_config) = Some example_root"
  "transaction_destination example_commit = Some ''a.txt''"
  by (simp_all add: example_eval example_root_def transaction_destination_def writes_file_def)

lemma example_no_budget: "transaction_budget example_task cx q root clean kn = None"
  by (simp add: transaction_budget_def example_task_def)

lemma example_body: "hr_success (fst (transaction_body example_system example_libs (with_context None example_commit example_commit_config)
    example_task example_commit example_commit_config example_root ''a.txt'' w))"
proof -
  obtain cs where cs: "run_handler example_system example_libs example_ctx (example_task\<lparr>tk_budget := None, tk_snapshot := Some example_commit_config\<rparr>)
   example_staged (stage_config example_commit_config) HelperHandler.write_file_with_roots w =
     ((response_operation_done example_staged ''Written.'')\<lparr>hr_bytes_written := 1\<rparr>, \<lparr>w_disk = (), w_calls = w_calls w @ cs\<rparr>)"
    using staged_write by blast
  have h: "handle_helper_request_with_config example_system example_libs example_ctx (example_task\<lparr>tk_budget := None, tk_snapshot := Some example_commit_config\<rparr>)
   example_staged (stage_config example_commit_config) w =
     ((response_operation_done example_staged ''Written.'')\<lparr>hr_bytes_written := 1\<rparr>, \<lparr>w_disk = (), w_calls = w_calls w @ cs\<rparr>)"
    by (simp add: handle_helper_request_with_config_def staged_context staged_fields helper_operation_def staged_gate cs)
  have p: "poll_cancelled example_system w = (Inr (), \<lparr>w_disk = (), w_calls = w_calls w @ [(Poll, True)]\<rparr>)" for w
    by (simp add: poll_cancelled_def program_eval example_system_def)
  show ?thesis
    unfolding transaction_body_def Let_def staged_path example_ctx_def [symmetric] example_staged_def [symmetric]
    by (simp add: run_eval example_no_budget h publish_def p revision_changed_def commit_fields example_rename_run staged_checks response_operation_done_def response_success_def)
qed

lemma example_commit_succeeds: "hr_success (fst (transaction_execute example_system example_libs None
    example_task example_commit example_commit_config w))"
  using example_body [of w]
  apply (simp add: transaction_execute_def transaction_inner_def commit_fields is_transactional_def run_eval commit_access commit_authorized example_paths revision_changed_def
     with_cleanup_def run_def split: prod.split)
  by (metis fst_conv)

lemma last_component:
  assumes "plain_name (last (split_on slash p))"
  shows "\<exists>above. components p = above @ [Normal (last (split_on slash p))]"
proof -
  obtain ps x where split: "split_on slash p = ps @ [x]" using split_on_not_Nil [of slash p] rev_exhaust by blast
  with assms have "x \<noteq> []" "x \<noteq> ''.''" "x \<noteq> ''..''" by (auto simp: plain_name_def)
  then show ?thesis by (auto simp: components_def Let_def split)
qed

lemma example_realpath: "realpath_keeps_last example_system"
  unfolding realpath_keeps_last_def
proof (intro allI impI)
  fix d p c
  assume plain: "plain_name (last (split_on slash p))" and c: "dv_canonicalize (sys_view example_system d) p = Inr c"
  obtain above where above: "components p = above @ [Normal (last (split_on slash p))]" using last_component [OF plain] by blast
  have at: "example_at p \<noteq> None" using c by (auto simp: example_system_def split: option.split_asm)
  then have "example_step (Normal (last (split_on slash p))) (fold example_step above (Some False)) \<noteq> None"
    by (auto simp: example_at_def above split: if_split_asm)
  then have x: "last (split_on slash p) = ''srv''" "example_at p = Some True"
    using at by (auto simp: example_at_def above example_step_def split: if_split_asm)
  with c have "c = ''/srv''" by (simp add: example_system_def)
  moreover have "components ''/srv'' = [RootDir] @ [Normal ''srv'']" by code_simp
  ultimately show "\<exists>m. dv_symlink_metadata (sys_view example_system d) p = Inr m
      \<and> (st_is_symlink m \<or> (\<exists>above. components c = above @ [Normal (last (split_on slash p))]))"
    using x at by (auto simp: example_system_def)
qed

lemma example_no_link: "no_link_named example_system n"
  by (auto simp: no_link_named_def example_system_def example_stat_of_def split: if_split_asm)


end
