(* ===== verification/TD_Confinement.thy ===== *)
theory TD_Confinement
  imports TD_Publication
begin

text \<open>
  Whatever a request asks for, the helper changes nothing outside the root of the request: every path that one of its
  calls may change has the components of the root's directory (as configured, or as the disk resolves it) and then
  components that never climb above it. The lemmas follow the operations of \<open>TD_Mutations\<close>, \<open>TD_Archive\<close> and
  \<open>TD_Trash\<close>; the theorem is about whole requests.
\<close>

section \<open>Paths that stay in a directory\<close>

fun stays_in :: "nat \<Rightarrow> Component list \<Rightarrow> bool" where
  "stays_in depth [] = True"
| "stays_in depth (Normal _ # cs) = stays_in (depth + 1) cs"
| "stays_in depth (CurDir # cs) = stays_in depth cs"
| "stays_in depth (ParentDir # cs) = (0 < depth \<and> stays_in (depth - 1) cs)"
| "stays_in depth (RootDir # cs) = False"

definition beneath :: "'d System \<Rightarrow> string \<Rightarrow> string \<Rightarrow> bool" where
  "beneath sys base p \<longleftrightarrow>
     (\<exists>b rest. (b = base \<or> (\<exists>d. dv_canonicalize (sys_view sys d) base = Inr b))
       \<and> components p = components b @ rest \<and> stays_in 0 rest)"

text \<open>What the documentation of \<open>canonicalize\<close> and of the zip crate's \<open>enclosed_name\<close> promises.\<close>

definition canonical :: "'d System \<Rightarrow> bool" where
  "canonical sys \<longleftrightarrow>
     (\<forall>d p c. dv_canonicalize (sys_view sys d) p = Inr c \<longrightarrow> is_absolute c \<and> ParentDir \<notin> set (components c))"

definition enclosed_names :: "Archives \<Rightarrow> bool" where
  "enclosed_names crates \<longleftrightarrow>
     (\<forall>file es e n. ac_zip crates file = Some es \<longrightarrow> Some e \<in> set es \<longrightarrow> ze_enclosed_name e = Some n \<longrightarrow>
        \<not> is_absolute n \<and> stays_in 0 (components n))"

lemma stays_in_mono: "stays_in d cs \<Longrightarrow> d \<le> e \<Longrightarrow> stays_in e cs"
  by (induction d cs arbitrary: e rule: stays_in.induct) auto

lemma stays_in_append: "stays_in d xs \<Longrightarrow> stays_in 0 ys \<Longrightarrow> stays_in d (xs @ ys)"
  by (induction d xs rule: stays_in.induct) (auto intro: stays_in_mono)

lemma stays_in_names: "\<forall>c \<in> set cs. \<exists>n. c = Normal n \<Longrightarrow> stays_in d cs"
  by (induction cs arbitrary: d) auto

lemma stays_in_relative:
  assumes "\<not> is_absolute n" and "stays_in 0 (components n)"
  shows "stays_in 0 (map component_of (filter (\<lambda>q. q \<noteq> [] \<and> q \<noteq> ''.'') (split_on slash n)))"
  using assms by (auto simp: components_def Let_def split: if_split_asm)

lemma beneath_base [simp]: "beneath sys base base"
  by (auto simp: beneath_def intro!: exI [of _ base])

lemma beneath_join:
  assumes "beneath sys base p" and "p \<noteq> []" and "\<not> is_absolute n"
    and "stays_in 0 (map component_of (filter (\<lambda>q. q \<noteq> [] \<and> q \<noteq> ''.'') (split_on slash n)))"
  shows "beneath sys base (path_join p n)"
proof -
  from assms(1) obtain b rest where b: "b = base \<or> (\<exists>d. dv_canonicalize (sys_view sys d) base = Inr b)"
    "components p = components b @ rest" "stays_in 0 rest" unfolding beneath_def by blast
  then show ?thesis
    unfolding beneath_def using stays_in_append [OF b(3) assms(4)]
    by (auto simp: components_path_join [OF assms(2,3)])
qed

lemma names_stay:
  assumes "''..'' \<notin> set (split_on slash n)"
  shows "stays_in 0 (map component_of (filter (\<lambda>q. q \<noteq> [] \<and> q \<noteq> ''.'') (split_on slash n)))"
  using assms by (intro stays_in_names) auto

lemma join_ne: "n \<noteq> [] \<Longrightarrow> path_join p n \<noteq> []"
  by (auto simp: path_join_def)

lemma beneath_join_ok: "beneath sys base p \<Longrightarrow> p \<noteq> [] \<Longrightarrow> path_ok n \<Longrightarrow> beneath sys base (path_join p n)"
  by (rule beneath_join) (auto simp: path_ok_def intro: names_stay)

lemma beneath_join_name:
  assumes "beneath sys base p" and "p \<noteq> []" and "slash \<notin> set n" and "n \<noteq> ''..''"
  shows "beneath sys base (path_join p n)"
  using assms by (intro beneath_join names_stay) (auto simp: is_absolute_def split_on_no_sep split: list.split)

lemma path_ok_dot: "is_absolute ''.'' = False" "split_on slash ''.'' = [''.'']"
  by (simp_all add: is_absolute_def split_on_no_sep)

lemma beneath_opened:
  assumes "root_base_path root \<noteq> []" and "validate_relative_path path = Inr p"
  shows "beneath sys (root_base_path root) (opened_path root p)" and "opened_path root p \<noteq> []"
proof -
  have "path_ok p" using assms(2) by (rule validate_path_ok)
  then show "beneath sys (root_base_path root) (opened_path root p)"
    using assms(1) by (auto simp: opened_path_def path_ok_dot intro: beneath_join_ok beneath_join)
  show "opened_path root p \<noteq> []" using assms(1) by (auto simp: opened_path_def path_join_def)
qed

text \<open>What lies below a resolved path, and the resolved paths themselves.\<close>

lemma absolute_components: "is_absolute p \<Longrightarrow> components p = RootDir # map component_of (name_parts p)"
  by (simp add: components_def name_parts_def Let_def)

lemma canonical_rest:
  assumes "is_absolute c" "ParentDir \<notin> set (components c)" and "is_absolute b" and "components c = components b @ rest"
  shows "\<forall>x \<in> set rest. \<exists>n. x = Normal n"
proof
  fix x
  assume x: "x \<in> set rest"
  have "map component_of (name_parts c) = map component_of (name_parts b) @ rest"
    using assms(1,3,4) by (simp add: absolute_components del: component_of.simps)
  with x have "x \<in> set (map component_of (name_parts c))" by simp
  then obtain q where "x = component_of q" by (auto simp del: component_of.simps)
  moreover have "x \<noteq> ParentDir" using x assms(2,4) by auto
  ultimately show "\<exists>n. x = Normal n" by (auto split: if_split_asm)
qed

lemma beneath_canonical:
  assumes "canonical sys" and "dv_canonicalize (sys_view sys d) base = Inr b"
    and "dv_canonicalize (sys_view sys d') p = Inr c" and "path_starts_with c b"
  shows "beneath sys base c" and "c \<noteq> []"
proof -
  have c: "is_absolute c" "ParentDir \<notin> set (components c)" and b: "is_absolute b"
    using assms(1-3) unfolding canonical_def by blast+
  obtain rest where rest: "components c = components b @ rest"
    using assms(4) by (auto simp: path_starts_with_def prefix_def)
  then have "stays_in 0 rest" by (intro stays_in_names canonical_rest [OF c b])
  with rest assms(2) show "beneath sys base c" unfolding beneath_def by blast
  from c show "c \<noteq> []" by (auto simp: is_absolute_def)
qed

lemma beneath_canonical_base:
  assumes "canonical sys" and "dv_canonicalize (sys_view sys d) base = Inr b"
  shows "beneath sys base b" and "b \<noteq> []"
proof -
  show "beneath sys base b" using assms(2) by (auto simp: beneath_def intro!: exI [of _ b])
  have "is_absolute b" using assms unfolding canonical_def by blast
  then show "b \<noteq> []" by (auto simp: is_absolute_def)
qed

lemma beneath_existing:
  assumes "canonical sys" and "resolve_existing_path cx (sys_view sys d) root path follow = Inr r"
  shows "beneath sys (root_base_path root) (ex_resolved_path r)"
    and "beneath sys (root_base_path root) (rr_canonical_base (ex_root r))" and "rr_canonical_base (ex_root r) \<noteq> []"
proof -
  obtain base where r: "dv_canonicalize (sys_view sys d) (root_base_path root) = Inr base"
    "path_starts_with (ex_resolved_path r) base" "rr_canonical_base (ex_root r) = base"
    "dv_canonicalize (sys_view sys d)
      (if ex_relative_path r = [] then base else path_join base (ex_relative_path r)) = Inr (ex_resolved_path r)"
    using assms(2) by (rule resolve_existing_ok) simp
  then show "beneath sys (root_base_path root) (ex_resolved_path r)"
    by (intro beneath_canonical(1) [OF assms(1)])
  show "beneath sys (root_base_path root) (rr_canonical_base (ex_root r))" "rr_canonical_base (ex_root r) \<noteq> []"
    using beneath_canonical_base [OF assms(1) r(1)] r(3) by simp_all
qed

lemma beneath_new:
  assumes "canonical sys" and "resolve_new_target (sys_view sys d) root path fname = Inr r"
  shows "beneath sys (root_base_path root) (nt_resolved_path r)"
  using assms(2)
proof (rule resolve_new_target_ok)
  fix base
  assume r: "dv_canonicalize (sys_view sys d) (root_base_path root) = Inr base"
    "path_starts_with (nt_resolved_parent r) base" "SafeFileName_parse fname = Inr (nt_filename r)"
    "nt_resolved_path r = path_join (nt_resolved_parent r) (nt_filename r)"
    "dv_canonicalize (sys_view sys d)
      (if nt_parent_relative_path r = [] then base else path_join base (nt_parent_relative_path r)) = Inr (nt_resolved_parent r)"
  note parent = beneath_canonical [OF assms(1) r(1,5,2)]
  with r(3,4) show ?thesis by (auto simp: SafeFileName_parse_Inr intro: beneath_join_name)
qed


section \<open>The operations\<close>

text \<open>The base directory of the root a request names.\<close>

definition based :: "AllowedRoot list \<Rightarrow> HelperRequest \<Rightarrow> string \<Rightarrow> bool" where
  "based roots q base \<longleftrightarrow>
     base \<noteq> [] \<and> (\<forall>r. find (\<lambda>r. root_root_id r = hq_root_id q) roots = Some r \<longrightarrow> root_base_path r = base)"

lemma split_target_name:
  assumes "split_target path = Inr (parent, name)"
  shows "slash \<notin> set name" "name \<noteq> ''..''"
proof -
  obtain p where p: "validate_relative_path path = Inr p" "rsplit_once slash p = Some (parent, name)
    \<or> (rsplit_once slash p = None \<and> p = name)"
  proof -
    obtain p where "validate_relative_path path = Inr p"
      "(case rsplit_once slash p of Some pn \<Rightarrow> Inr pn | None \<Rightarrow> if p \<noteq> [] then Inr ([], p) else Inl KindOther) = Inr (parent, name)"
      using assms by (auto simp: split_target_def and_then_Inr map_err_Inr)
    then show thesis by (intro that [of p]) (auto split: option.split_asm if_split_asm)
  qed
  have ok: "''..'' \<notin> set (split_on slash p)" using validate_path_ok [OF p(1)] by (simp add: path_ok_def)
  from p(2) show "slash \<notin> set name"
    by (auto dest: rsplit_once_Some) (auto simp: rsplit_once_def split: if_split_asm)
  with p(2) ok show "name \<noteq> ''..''"
    by (auto dest!: rsplit_once_Some simp: split_on_append split_on_no_sep)
qed

lemma makes_rename [makes_rules]:
  assumes "root_base_path root = base" and "base \<noteq> []"
  shows "makes (touches (beneath sys base)) (transaction_rename sys cx root source target replace)"
proof -
  have "beneath sys base (path_join (opened_path root p) name)"
    if "split_target path = Inr (parent, name)" "validate_relative_path parent = Inr p" for path parent name p
    using beneath_opened [OF _ that(2), of root] split_target_name [OF that(1)] assms
    by (auto intro: beneath_join_name)
  then show ?thesis
    unfolding transaction_rename_def by (intro makes_rules makes_bind) (auto simp: map_err_Inr)
qed

lemma create_folder_confined [makes_rules]:
  assumes "canonical sys" and "based roots q base"
  shows "makesR (touches (beneath sys base)) (create_folder_with_roots sys q roots)"
  unfolding create_folder_with_roots_def
  by (intro makes_rules makes_bind)
    (use assms in \<open>auto simp: map_err_Inr ok_or_Inr based_def dest!: beneath_new [OF assms(1)]\<close>)

lemma rename_confined [makes_rules]:
  assumes "based roots q base"
  shows "makesR (touches (beneath sys base)) (rename_with_roots sys cx q roots)"
  unfolding rename_with_roots_def
  by (intro makes_rules makes_bind) (use assms in \<open>auto simp: ok_or_Inr based_def\<close>)


lemma makes_bind_source [makes_rules]:
  assumes "based roots q base"
    and "\<And>root target source t. root_base_path root = base \<Longrightarrow> validate_relative_path t = Inr target \<Longrightarrow>
      makes (touches (beneath sys base)) (f (root, target, source))"
  shows "makes (touches (beneath sys base)) (bindp (move_copy_source sys cx q roots) f)"
proof (rule makes_bind_fst [OF makes_move_copy_source])
  fix w x
  assume "fst (move_copy_source sys cx q roots w) = Inr x"
  then obtain root target source t where "x = (root, target, source)" "validate_relative_path t = Inr target"
    "find (\<lambda>r. root_root_id r = hq_root_id q) roots = Some root"
    by (auto simp: move_copy_source_def bindp_Inr ok_or_Inr map_err_Inr split: if_split_asm)
  with assms show "makes (touches (beneath sys base)) (f x)" by (auto simp: based_def)
qed

lemma move_confined [makes_rules]:
  assumes "based roots q base"
  shows "makesR (touches (beneath sys base)) (move_file_with_roots sys cx q roots)"
  unfolding move_file_with_roots_def
  by (intro makes_rules makes_bind) (use assms in \<open>auto simp: based_def\<close>)

lemma copy_contents_confined [makes_rules]:
  assumes "root_base_path root = base" and "base \<noteq> []"
  shows "makes (touches (beneath sys base)) (copy_contents sys cx tk root source_path target)"
  unfolding copy_contents_def
  by (intro makes_rules makes_bind) (use assms beneath_opened(1) [of root] in auto)

lemma copy_confined [makes_rules]:
  assumes "based roots q base"
  shows "makesR (touches (beneath sys base)) (copy_file_with_roots sys cx tk q roots)"
  unfolding copy_file_with_roots_def
  by (intro makes_rules makes_bind) (use assms in \<open>auto simp: based_def\<close>)

lemma write_confined [makes_rules]:
  assumes "based roots q base"
  shows "makesR (touches (beneath sys base)) (write_file_with_roots sys cx tk q roots sensitive_config)"
  unfolding write_file_with_roots_def
  by (intro makes_rules makes_bind)
    (use assms beneath_opened(1) in \<open>auto simp: map_err_Inr ok_or_Inr based_def\<close>)

lemma chmod_pinned_confined [makes_rules]:
  assumes "root_base_path root = base" and "base \<noteq> []" and "beneath sys base (h_path pinned)"
  shows "makes (touches (beneath sys base)) (chmod_pinned sys cx root path pinned mode)"
  unfolding chmod_pinned_def
  by (intro makes_rules makes_bind) (use assms beneath_opened(1) [of root] in auto)

lemma chmod_confined [makes_rules]:
  assumes "based roots q base"
  shows "makesR (touches (beneath sys base)) (chmod_file_with_roots sys sha_json cx q roots sensitive_config)"
  unfolding chmod_file_with_roots_def chmod_with_expected_state_def
  by (intro makes_rules makes_bind)
    (use assms beneath_opened(1) in \<open>auto simp: map_err_Inr ok_or_Inr based_def\<close>)


text \<open>The trash.\<close>

lemma based_root:
  assumes "based roots q base" and "ok_or (find (\<lambda>r. root_root_id r = hq_root_id q) roots) e = Inr root"
  shows "root_base_path root = base" "base \<noteq> []"
  using assms by (auto simp: based_def ok_or_Inr)

lemma beneath_trash:
  assumes "beneath sys base b" and "b \<noteq> []"
  shows "beneath sys base (path_join (path_join b TRASH_DIR_NAME) ''files'')"
    and "beneath sys base (path_join (path_join b TRASH_DIR_NAME) ''info'')"
    and "slash \<notin> set n \<Longrightarrow> beneath sys base (path_join (path_join (path_join b TRASH_DIR_NAME) ''info'') (n @ ''.msgpack''))"
proof -
  have dir: "beneath sys base (path_join b TRASH_DIR_NAME)" "path_join b TRASH_DIR_NAME \<noteq> []"
    by (rule beneath_join_name [OF assms], simp_all add: TRASH_DIR_NAME_def) (simp add: join_ne)
  show "beneath sys base (path_join (path_join b TRASH_DIR_NAME) ''files'')"
    and info: "beneath sys base (path_join (path_join b TRASH_DIR_NAME) ''info'')"
    by (rule beneath_join_name [OF dir]; simp)+
  show "beneath sys base (path_join (path_join (path_join b TRASH_DIR_NAME) ''info'') (n @ ''.msgpack''))"
    if "slash \<notin> set n"
    using that by (intro beneath_join_name [OF info join_ne]) auto
qed

lemma touches_create: "beneath sys base p \<Longrightarrow> touches (beneath sys base) (CreateDirAll p)"
  by (auto simp: path_starts_with_def)

lemma trash_confined [makes_rules]:
  assumes "canonical sys" and "based roots q base" and "slash \<notin> set (operation_name tk)"
  shows "makesR (touches (beneath sys base)) (move_file_to_trash_with_roots sys msgpack cx tk q roots)"
proof -
  have base: "beneath sys base (rr_canonical_base (ex_root s))" "rr_canonical_base (ex_root s) \<noteq> []"
    if "ok_or (find (\<lambda>r. root_root_id r = hq_root_id q) roots) e = Inr root"
      "map_err g (resolve_existing_path cx (sys_view sys d) root path False) = Inr s"
    for d root path s and e :: HelperResponse and g :: "TealDriveError \<Rightarrow> HelperResponse"
    using beneath_existing(2,3) [OF assms(1), of cx d root path False s] based_root [OF assms(2) that(1)] that(2)
    by (simp_all add: map_err_Inr)
  note places = beneath_trash [OF base]
  show ?thesis
    unfolding move_file_to_trash_with_roots_def Let_def
    by (intro makes_rules makes_bind, simp_all only: touches_simps(10,11))
      ((rule touches_create places based_root [OF assms(2)] assms(3) | assumption)+)
qed

lemma restore_confined [makes_rules]:
  assumes "canonical sys" and "based roots q base"
  shows "makesR (touches (beneath sys base)) (restore_file_from_trash_with_roots sys uuid msgpack cx q roots)"
proof -
  have info: "touches (beneath sys base) (RemoveFile (path_join (path_join (path_join b TRASH_DIR_NAME) ''info'') (t @ ''.msgpack'')))"
    if "ok_or (find (\<lambda>r. root_root_id r = hq_root_id q) roots) e = Inr root" "map_err g (SafeFileName_parse p) = Inr t"
      "map_err h (dv_canonicalize (sys_view sys d) (root_base_path root)) = Inr b"
    for root p t d b and e :: HelperResponse and g :: "TealDriveError \<Rightarrow> HelperResponse" and h :: "IoError \<Rightarrow> HelperResponse"
  proof -
    have "slash \<notin> set t" using that(2) by (auto simp: map_err_Inr SafeFileName_parse_Inr)
    moreover have "dv_canonicalize (sys_view sys d) base = Inr b"
      using that(3) based_root(1) [OF assms(2) that(1)] by (simp add: map_err_Inr)
    then have "beneath sys base b" "b \<noteq> []" by (rule beneath_canonical_base [OF assms(1)])+
    ultimately show ?thesis by (simp add: beneath_trash(3))
  qed
  show ?thesis
    unfolding restore_file_from_trash_with_roots_def Let_def
    by (intro makes_rules makes_bind) ((rule info based_root [OF assms(2)] | assumption)+)
qed

lemma lossy_no_slash: "slash \<notin> set s \<Longrightarrow> slash \<notin> set (to_string_lossy s)"
proof (induction s rule: to_string_lossy.induct)
  case (1 s)
  obtain n ok where step: "utf8_step s = (n, ok)" by fastforce
  then have "slash \<notin> set (to_string_lossy (drop n s))" if "s \<noteq> []"
    using 1 that by (auto dest: in_set_dropD)
  with step 1(2) show ?case
    by (subst to_string_lossy.simps) (auto dest: in_set_takeD)
qed

lemma file_name_no_slash: "path_file_name p = Some n \<Longrightarrow> slash \<notin> set n"
proof -
  assume "path_file_name p = Some n"
  then have "Normal n \<in> set (components p)"
    by (auto simp: path_file_name_def split: list.split_asm Component.split_asm if_split_asm) (metis last_in_set list.discI)+
  then show "slash \<notin> set n"
    using split_on_pieces [of n slash p] by (auto simp: components_def Let_def split: if_split_asm)
qed

lemma beneath_info:
  assumes "beneath sys base b" and "b \<noteq> []" and "trash_info_file (path_join b TRASH_DIR_NAME) p = Some f"
  shows "beneath sys base f"
proof -
  obtain n where "path_file_name p = Some n" "f = path_join (path_join (path_join b TRASH_DIR_NAME) ''info'') (to_string_lossy n @ ''.msgpack'')"
    using assms(3) by (auto simp: trash_info_file_def split: if_split_asm)
  then show ?thesis using beneath_trash(3) [OF assms(1,2) lossy_no_slash [OF file_name_no_slash]] by simp
qed

lemma delete_confined [makes_rules]:
  assumes "canonical sys" and "based roots q base"
  shows "makesR (touches (beneath sys base)) (delete_permanently_with_roots sys msgpack cx q roots sensitive_config)"
proof -
  have base: "beneath sys base (rr_canonical_base (ex_root s))" "rr_canonical_base (ex_root s) \<noteq> []"
    "beneath sys base (ex_resolved_path s)"
    if "ok_or (find (\<lambda>r. root_root_id r = hq_root_id q) roots) e = Inr root"
      "map_err g (resolve_existing_path cx (sys_view sys d) root path False) = Inr s"
    for d root path s and e :: HelperResponse and g :: "TealDriveError \<Rightarrow> HelperResponse"
    using beneath_existing [OF assms(1), of cx d root path False s] based_root [OF assms(2) that(1)] that(2)
    by (simp_all add: map_err_Inr)
  have remove: "touches (beneath sys base) (if b then RemoveDirAll p else RemoveFile p)" if "beneath sys base p" for b p
    using that by simp
  show ?thesis
    unfolding delete_permanently_with_roots_def Let_def
    by (intro makes_rules makes_bind, simp_all only: touches_simps(11))
      ((rule base remove beneath_info | assumption)+)
qed


text \<open>Archives.\<close>

lemma makes_bind_compress_root [makes_rules]:
  assumes "canonical sys" and "based roots q base"
    and "\<And>root target sources. beneath sys base (nt_resolved_path target) \<Longrightarrow>
      makes (touches (beneath sys base)) (f (root, target, sources))"
  shows "makes (touches (beneath sys base)) (bindp (compress_checks sys cx q roots sensitive_config extensions message) f)"
proof (rule makes_bind_fst [OF makes_compress_prepare])
  fix w x
  assume "fst (compress_checks sys cx q roots sensitive_config extensions message w) = Inr x"
  then obtain root parent fname d target sources where x: "x = (root, target, sources)"
    and root: "find (\<lambda>r. root_root_id r = hq_root_id q) roots = Some root"
    and target: "resolve_new_target (sys_view sys d) root parent fname = Inr target"
    by (auto simp: compress_checks_def bindp_Inr ok_or_Inr map_err_Inr Let_def case_prod_unfold split: if_split_asm)
  have "beneath sys base (nt_resolved_path target)"
    using beneath_new [OF assms(1) target] root assms(2) by (auto simp: based_def)
  then show "makes (touches (beneath sys base)) (f x)" unfolding x by (rule assms(3))
qed

lemma compress_confined [makes_rules]:
  assumes "canonical sys" and "based roots q base"
  shows "makesR (touches (beneath sys base)) (compress_zip_with_roots sys cx tk q roots sensitive_config)"
    and "makesR (touches (beneath sys base)) (compress_targz_with_roots sys cx tk q roots sensitive_config)"
  unfolding compress_zip_with_roots_def compress_targz_with_roots_def
  by (intro makes_rules makes_bind; use assms in simp)+

lemma entry_beneath:
  assumes "entry_place cx tk q sensitive_config dest_dir canonical_base slip n = Inr p"
    and "beneath sys base dest_dir" and "dest_dir \<noteq> []" and "\<not> is_absolute n" and "stays_in 0 (components n)"
  shows "beneath sys base p"
proof -
  have "p = path_join dest_dir n"
    using assms(1) by (auto simp: entry_place_def Let_def and_then_Inr split: if_split_asm option.split_asm)
  with assms show ?thesis by (auto intro: beneath_join stays_in_relative)
qed

lemma zip_file_confined [makes_rules]:
  assumes "beneath sys base outpath"
  shows "makes (touches (beneath sys base)) (zip_entry_file sys tk q e outpath extracted)"
  unfolding zip_entry_file_def
  by (intro makes_rules makes_bind)
    (use assms ancestors_prefix [of _ outpath] in \<open>auto intro: exI [of _ outpath] simp: path_starts_with_def\<close>)

lemma zip_entries_confined [makes_rules]:
  "beneath sys base dest_dir \<Longrightarrow> dest_dir \<noteq> [] \<Longrightarrow>
     (\<And>e n. Some e \<in> set es \<Longrightarrow> ze_enclosed_name e = Some n \<Longrightarrow> \<not> is_absolute n \<and> stays_in 0 (components n)) \<Longrightarrow>
     makes (touches (beneath sys base))
       (extract_zip_entries sys cx tk q sensitive_config dest_dir canonical_base es extracted)"
proof (induction sys cx tk q sensitive_config dest_dir canonical_base es extracted rule: extract_zip_entries.induct)
  case (3 sys cx tk q sensitive_config dest_dir canonical_base e es extracted)
  have place: "beneath sys base p"
    if "ok_or (ze_enclosed_name e) err = Inr n" "entry_place cx tk q sensitive_config dest_dir canonical_base slip n = Inr p"
    for err :: HelperResponse and n slip p
    using entry_beneath [OF that(2) "3.prems"(1,2)] "3.prems"(3) [of e n] that(1) by (simp add: ok_or_Inr)
  show ?case
    by (subst extract_zip_entries.simps) (intro makes_rules makes_bind; use 3 place in auto)
qed (simp_all add: makes_rules)

lemma stays_in_plain: "list_all (\<lambda>c. c \<noteq> ParentDir \<and> c \<noteq> RootDir) cs \<Longrightarrow> stays_in d cs"
  by (induction d cs rule: stays_in.induct) auto

lemma tar_entries_confined [makes_rules]:
  "beneath sys base dest_dir \<Longrightarrow> dest_dir \<noteq> [] \<Longrightarrow>
     makes (touches (beneath sys base))
       (extract_tar_entries sys cx tk q sensitive_config dest_dir canonical_base es i extracted)"
proof (induction sys cx tk q sensitive_config dest_dir canonical_base es i extracted rule: extract_tar_entries.induct)
  case (2 sys cx tk q sensitive_config dest_dir canonical_base e es i extracted)
  have place: "beneath sys base p"
    if "\<not> (is_absolute n \<or> list_ex (\<lambda>c. c = ParentDir \<or> c = RootDir) (components n))"
      "entry_place cx tk q sensitive_config dest_dir canonical_base slip n = Inr p" for n slip p
  proof (rule entry_beneath [OF that(2) "2.prems"(1,2)])
    show "stays_in 0 (components n)" by (rule stays_in_plain) (use that(1) in \<open>auto simp: list_ex_iff list_all_iff\<close>)
  qed (use that(1) in simp)
  show ?case
    by (subst extract_tar_entries.simps) (intro makes_rules makes_bind; use 2 place in auto)
qed (simp_all add: makes_rules)

lemma extract_confined [makes_rules]:
  assumes "canonical sys" and "based roots q base" and "enclosed_names crates"
  shows "makesR (touches (beneath sys base)) (extract_archive_with_roots sys crates cx tk q roots sensitive_config)"
proof -
  have dest: "touches (beneath sys base) (CreateDirAll (if t = [] then b else path_join b t))"
    if "validate_relative_path target = Inr t" "beneath sys base b" "b \<noteq> []" for target t b
    using that beneath_join_ok [OF that(2,3) validate_path_ok [OF that(1)]] by (intro touches_create) auto
  have root: "beneath sys base (rr_canonical_base r)" "rr_canonical_base r \<noteq> []"
    "dv_canonicalize (sys_view sys d) base = Inr (rr_canonical_base r)"
    if "ok_or (find (\<lambda>r. root_root_id r = hq_root_id q) roots) e = Inr root" "resolve_root (sys_view sys d) root = Inr r"
    for root d r and e :: HelperResponse
    using that(2) beneath_canonical_base [OF assms(1), of d base] based_root [OF assms(2) that(1)]
    by (auto simp: resolve_root_ok)
  have place: "beneath sys base c" "c \<noteq> []"
    if "ok_or (find (\<lambda>r. root_root_id r = hq_root_id q) roots) e = Inr root" "resolve_root (sys_view sys d) root = Inr r"
      "dv_canonicalize (sys_view sys d') p = Inr c" "\<not> \<not> path_starts_with c (rr_canonical_base r)"
    for root d r d' p c and e :: HelperResponse
    using beneath_canonical [OF assms(1) root(3) [OF that(1,2)] that(3)] that(4) by simp_all
  have names: "\<not> is_absolute n \<and> stays_in 0 (components n)"
    if "ok_or (ac_zip crates f) err = Inr es" "Some e \<in> set es" "ze_enclosed_name e = Some n"
    for f es e n and err :: HelperResponse
    using assms(3) that unfolding enclosed_names_def by (auto simp: ok_or_Inr)
  show ?thesis
    unfolding extract_archive_with_roots_def extract_zip_def extract_tar_def open_archive_def Let_def
    by (intro makes_rules makes_bind, simp_all only: map_err_Inr read_flags)
      ((rule dest place root | rule names [THEN conjunct1] names | assumption)+)
qed


section \<open>Whole requests\<close>

lemma run_handler_confined:
  assumes "canonical sys" and "based (cfg_roots config) q base" and "enclosed_names (lb_archives libs)"
    and "slash \<notin> set (operation_name tk)"
  shows "makesR (touches (beneath sys base)) (run_handler sys libs cx tk q config h)"
proof -
  note ops = create_folder_confined [OF assms(1,2)] rename_confined [OF assms(2)] move_confined [OF assms(2)]
    copy_confined [OF assms(2)] write_confined [OF assms(2)] chmod_confined [OF assms(2)]
    trash_confined [OF assms(1,2,4)] restore_confined [OF assms(1,2)] delete_confined [OF assms(1,2)]
    compress_confined [OF assms(1,2)] extract_confined [OF assms(1,2,3)]
  show ?thesis
    using ops unfolding makesR_def run_handler_def Let_def by (cases h) simp_all
qed

lemma request_confined [makes_rules]:
  assumes "canonical sys" and "based (cfg_roots config) q base" and "enclosed_names (lb_archives libs)"
    and "slash \<notin> set (operation_name tk)"
  shows "makesR (touches (beneath sys base)) (handle_helper_request_with_config sys libs cx tk q config)"
proof -
  have "\<exists>cs. w_calls (snd (helper_operation sys libs cx tk q config w)) = w_calls w @ cs
    \<and> (\<forall>c \<in> set cs. touches (beneath sys base) (fst c))" for cx w
    using run_handler_confined [OF assms] unfolding helper_operation_def makesR_def by (simp split: sum.split)
  then show ?thesis
    unfolding makesR_def handle_helper_request_with_config_def by (simp split: option.split sum.split)
qed

lemma preserve_confined [makes_rules]:
  assumes "root_base_path root = base" and "base \<noteq> []"
  shows "makes (touches (beneath sys base)) (preserve_permissions sys cx root original staged)"
  unfolding preserve_permissions_def
  by (intro makes_rules makes_bind) (use assms beneath_opened(1) [of root] in auto)

lemma publish_confined [makes_rules]:
  assumes "root_base_path root = base" and "base \<noteq> []"
  shows "makes (touches (beneath sys base)) (publish sys libs cx q root staging clean response)"
  unfolding publish_def by (intro makes_rules makes_bind) (use assms in auto)

lemma based_staged:
  assumes "based (cfg_roots config) q base"
  shows "based (cfg_roots (stage_config config)) (staged_request q staging) base"
proof -
  have "find (\<lambda>r. root_root_id r = i) (map (\<lambda>r. r\<lparr>root_hidden_files_allowed := True\<rparr>) rs)
    = map_option (\<lambda>r. r\<lparr>root_hidden_files_allowed := True\<rparr>) (find (\<lambda>r. root_root_id r = i) rs)" for i and rs :: "AllowedRoot list"
    by (induction rs) auto
  with assms show ?thesis by (auto simp: based_def stage_config_def staged_request_def)
qed

lemma beneath_staging:
  assumes "path_ok clean" and "slash \<notin> set (operation_name tk)" and "base \<noteq> []"
  shows "beneath sys base (path_join base (staging_path tk q clean))"
proof -
  let ?n = "staging_name tk q"
  define parent where "parent = (case rsplit_once slash clean of Some (p, _) \<Rightarrow> p | None \<Rightarrow> [])"
  have n: "slash \<notin> set ?n" "?n \<noteq> ''..''" using assms(2) by (auto simp: staging_name_def)
  have "\<not> is_absolute parent \<and> ''..'' \<notin> set (split_on slash parent)"
  proof (cases "rsplit_once slash clean")
    case (Some pn)
    then obtain a b where ab: "rsplit_once slash clean = Some (a, b)" by (cases pn) simp
    then have "clean = a @ slash # b" by (simp add: rsplit_once_Some)
    then have "split_on slash clean = split_on slash a @ split_on slash b" "is_absolute a \<Longrightarrow> is_absolute clean"
      by (simp_all only: split_on_append) (auto simp: is_absolute_def split: list.split_asm)
    with ab assms(1) show ?thesis by (auto simp: parent_def path_ok_def)
  qed (simp add: parent_def is_absolute_def)
  with n have "\<not> is_absolute (staging_path tk q clean)" "''..'' \<notin> set (split_on slash (staging_path tk q clean))"
    by (auto simp: staging_path_def Let_def parent_def [symmetric] split_on_append split_on_no_sep is_absolute_def
        split: list.split_asm)
  then show ?thesis using assms(3) by (intro beneath_join names_stay) simp_all
qed

lemma body_confined:
  assumes "canonical sys" and "based (cfg_roots config) q base" and "enclosed_names (lb_archives libs)"
    and "slash \<notin> set (operation_name tk)" and "root_base_path root = base"
  shows "makesR (touches (beneath sys base)) (transaction_body sys libs cx tk q config root clean)"
proof -
  have "operation_name (tk\<lparr>tk_budget := n, tk_snapshot := c\<rparr>) = operation_name tk" for n c
    by (simp add: operation_name_def cong: option.case_cong)
  then show ?thesis
    unfolding transaction_body_def Let_def
    by (intro makes_rules makes_bind) (use assms based_staged [OF assms(2)] in \<open>auto simp: based_def\<close>)
qed

text \<open>C3: the helper changes nothing outside the root of a request. For every request and every behaviour of the
  operating system, each path that one of its calls may change begins with the directory of the root, as configured or
  as the disk resolves it, and never climbs above it; directories are at most created on the way to such a path.\<close>

theorem changes_stay_beneath_root:
  assumes "canonical sys" and "enclosed_names (lb_archives libs)" and "slash \<notin> set (operation_name tk)"
    and "find (\<lambda>r. root_root_id r = hq_root_id q) (cfg_roots config) = Some root" and "root_base_path root \<noteq> []"
    and "transaction_execute sys libs cx tk q config w = (response, w')"
  shows "\<exists>cs. w_calls w' = w_calls w @ cs
    \<and> (\<forall>c \<in> set cs. touches (beneath sys (root_base_path root)) (fst c))"
proof -
  let ?base = "root_base_path root" and ?cx = "with_context cx q config"
  have based: "based (cfg_roots config) q ?base" using assms(4,5) by (simp add: based_def)
  from assms(6) have inner: "transaction_inner sys libs ?cx tk q config w = (response, w')"
    by (simp add: transaction_execute_def)
  show ?thesis
  proof (cases "is_transactional (hq_command q)")
    case False
    with inner have "handle_helper_request_with_config sys libs ?cx tk q config w = (response, w')"
      by (simp add: transaction_inner_def)
    with request_confined [OF assms(1) based assms(2,3), of ?cx] show ?thesis unfolding makesR_def by (metis snd_conv)
  next
    case True
    from this inner show ?thesis
    proof (cases rule: transaction_cases)
      case refused
      then show ?thesis by simp
    next
      case (ran root' destination clean)
      let ?path = "path_join ?base (staging_path tk q clean)"
      have root: "root' = root" using ran(1) assms(4) by simp
      obtain cs where cs: "w_calls (snd (transaction_body sys libs ?cx tk q config root clean w)) = w_calls w @ cs"
        "\<forall>c \<in> set cs. touches (beneath sys ?base) (fst c)"
        using body_confined [OF assms(1) based assms(2,3) HOL.refl, of ?cx clean] unfolding makesR_def by blast
      have "touches (beneath sys ?base) (RemoveFile ?path)" "touches (beneath sys ?base) (RemoveDirAll ?path)"
        using beneath_staging [OF validate_path_ok [OF ran(3)] assms(3,5)] by simp_all
      moreover obtain a b where "w_calls w' = w_calls w @ cs @ [(RemoveFile ?path, a), (RemoveDirAll ?path, b)]"
        using with_cleanup_calls [of sys ?path "transaction_body sys libs ?cx tk q config root clean" w] ran(5) cs(1) root
        by auto
      ultimately show ?thesis using cs(2) by auto
    qed
  qed
qed


theorem changes_stay_beneath_root_witness:
  "\<exists>response w'. transaction_execute example_system example_libs None example_task example_commit
       example_commit_config \<lparr>w_disk = (), w_calls = []\<rparr> = (response, w')
     \<and> hr_success response \<and> (\<forall>c \<in> set (w_calls w'). touches (beneath example_system ''/srv'') (fst c))"
proof -
  obtain response w' where run: "transaction_execute example_system example_libs None example_task example_commit
     example_commit_config \<lparr>w_disk = (), w_calls = []\<rparr> = (response, w')" by fastforce
  then have ok: "hr_success response" using example_commit_succeeds [of "\<lparr>w_disk = (), w_calls = []\<rparr>"] by simp
  have "is_absolute ''/srv''" "is_absolute ''/''" "ParentDir \<notin> set (components ''/srv'')"
    "ParentDir \<notin> set (components ''/'')" by code_simp+
  then have "canonical example_system"
    by (auto simp: canonical_def example_system_def split: option.split_asm if_split_asm)
  moreover have "enclosed_names (lb_archives example_libs)" by (simp add: enclosed_names_def example_libs_def)
  moreover have "slash \<notin> set (operation_name example_task)" by code_simp
  moreover have "root_base_path example_root = ''/srv''" by (simp add: example_root_def)
  ultimately show ?thesis
    using changes_stay_beneath_root [OF _ _ _ commit_fields(2) _ run] ok run by auto
qed

end
