(* ===== verification/TD_Restore.thy ===== *)
theory TD_Restore
  imports TD_Publication
begin

text \<open>
  The trash gives back what was put into it: a restoration moves exactly the file of an entry of the same user and root
  back to the place the entry records, and never over anything there; moving to the trash and restoring are inverse.
\<close>

section \<open>Programs that succeed\<close>

lemma succeeds:
  "bindp m f w = (Inr y, w2) \<longleftrightarrow> (\<exists>x w1. m w = (Inr x, w1) \<and> f x w1 = (Inr y, w2))"
  "lift r w = (Inr y, w2) \<longleftrightarrow> r = Inr y \<and> w2 = w"
  "look g w = (Inr z, w2) \<longleftrightarrow> z = g (w_disk w) \<and> w2 = w"
  "with_err h m w = (Inr x, w2) \<longleftrightarrow> m w = (Inr x, w2)"
  "ignore m w = (Inr u, w2) \<longleftrightarrow> w2 = snd (m w)"
  by (auto simp: bindp_def lift_def look_def with_err_def ignore_def attempt_def map_err_Inr
      split: prod.split prod.split_asm sum.split sum.split_asm)

lemma on_error_succeeds: "on_error m c w = (Inr x, w2) \<longleftrightarrow> m w = (Inr x, w2)"
  by (auto simp: on_error_def bindp_def lift_def attempt_def split: prod.split prod.split_asm sum.split sum.split_asm)

lemma perform_succeeds:
  "perform sys c w = (Inr n, w2) \<longleftrightarrow>
     (\<exists>d. sys_call sys c (w_disk w) = (Inr n, d) \<and> w2 = \<lparr>w_disk = d, w_calls = w_calls w @ [(c, True)]\<rparr>)"
  by (auto simp: perform_def split: prod.split prod.split_asm)

lemma performed: "\<exists>removed d. snd (perform sys c w) = \<lparr>w_disk = d, w_calls = w_calls w @ [(c, removed)]\<rparr>"
  by (auto simp: perform_def split: prod.split)

lemma open_succeeds:
  assumes "open_beneath sys cx root path flags mode w = (Inr h, w2)"
  obtains p where "validate_relative_path path = Inr p" "h_path h = opened_path root p"
    "w_calls w2 = w_calls w @ [(OpenBase (root_base_path root), True),
       (OpenAt (root_base_path root) (if p = [] then ''.'' else p) flags mode, True)]"
  using assms unfolding open_beneath_def
  by (auto simp: succeeds perform_succeeds map_err_Inr split: if_split_asm prod.split_asm)

lemma rename_succeeds:
  assumes "transaction_rename sys cx root source target replace w = (Inr x, w2)" and "root_base_path root \<noteq> []"
    and "validate_relative_path source = Inr s" and "validate_relative_path target = Inr t"
  obtains opens src sn dst tn where "w_calls w2 = w_calls w @ opens @ [(RenameAt src sn dst tn replace, True)]"
    "\<forall>c \<in> set opens. targets (fst c) = []"
    "path_eq (path_join (h_path src) sn) (opened_path root s)" "path_eq (path_join (h_path dst) tn) (opened_path root t)"
    "s \<noteq> []"
proof -
  obtain sp sn tp tn src dst w3 w4 where split: "split_target source = Inr (sp, sn)" "split_target target = Inr (tp, tn)"
    and opens: "open_beneath sys cx root sp (O_PATH OR O_DIRECTORY) 0 w = (Inr src, w3)"
      "open_beneath sys cx root tp (O_PATH OR O_DIRECTORY) 0 w3 = (Inr dst, w4)"
    and w2: "w_calls w2 = w_calls w4 @ [(RenameAt src sn dst tn replace, True)]"
    using assms(1) unfolding transaction_rename_def
    by (auto simp: succeeds perform_succeeds split: if_split_asm prod.split_asm)
  have same: "split_target p = split_target c" if "validate_relative_path p = Inr c" for p c
    using that by (simp add: split_target_def validate_idem)
  have ne: "c \<noteq> []" if "split_target p = Inr pn" "validate_relative_path p = Inr c" for p c pn
    using that by (auto simp: split_target_def rsplit_once_def)
  obtain ps where ps: "validate_relative_path sp = Inr ps" "h_path src = opened_path root ps"
    and c1: "w_calls w3 = w_calls w @ [(OpenBase (root_base_path root), True),
      (OpenAt (root_base_path root) (if ps = [] then ''.'' else ps) (O_PATH OR O_DIRECTORY) 0, True)]"
    using opens(1) by (rule open_succeeds)
  obtain pt where pt: "validate_relative_path tp = Inr pt" "h_path dst = opened_path root pt"
    and c2: "w_calls w4 = w_calls w3 @ [(OpenBase (root_base_path root), True),
      (OpenAt (root_base_path root) (if pt = [] then ''.'' else pt) (O_PATH OR O_DIRECTORY) 0, True)]"
    using opens(2) by (rule open_succeeds)
  show thesis
  proof (rule that)
    show "w_calls w2 = w_calls w @ [(OpenBase (root_base_path root), True),
      (OpenAt (root_base_path root) (if ps = [] then ''.'' else ps) (O_PATH OR O_DIRECTORY) 0, True),
      (OpenBase (root_base_path root), True),
      (OpenAt (root_base_path root) (if pt = [] then ''.'' else pt) (O_PATH OR O_DIRECTORY) 0, True)]
      @ [(RenameAt src sn dst tn replace, True)]" by (simp add: w2 c1 c2)
    show "path_eq (path_join (h_path src) sn) (opened_path root s)"
      using rename_destination [OF validate_path_ok [OF assms(3)] ne [OF split(1) assms(3)] _ ps(1) assms(2)] split(1)
      by (simp add: same [OF assms(3)] ps(2))
    show "path_eq (path_join (h_path dst) tn) (opened_path root t)"
      using rename_destination [OF validate_path_ok [OF assms(4)] ne [OF split(2) assms(4)] _ pt(1) assms(2)] split(2)
      by (simp add: same [OF assms(4)] pt(2))
    show "s \<noteq> []" using split(1) assms(3) by (rule ne)
  qed simp
qed

section \<open>Answers that refuse\<close>

definition refuses :: "('d, HelperResponse, 'a) prog \<Rightarrow> bool" where
  "refuses m \<longleftrightarrow> (\<forall>w e. fst (m w) = Inl e \<longrightarrow> \<not> hr_success e)"

lemma answering_success:
  assumes "answering m w = (r, w')" and "hr_success r" and "refuses m"
  shows "m w = (Inr r, w')"
proof (cases "m w")
  case (Pair x w1)
  then show ?thesis using assms by (cases x) (auto simp: answering_def refuses_def dest: spec [of _ w])
qed

lemma answering_successE:
  assumes "answering m w = (r, w')" and "hr_success r" and "refuses m"
  obtains "m w = (Inr r, w')"
  using answering_success [OF assms] that by blast

lemma refuses_bind: "refuses m \<Longrightarrow> (\<And>x. refuses (f x)) \<Longrightarrow> refuses (bindp m f)"
  by (auto simp: refuses_def bindp_def split: prod.split sum.split) (metis fst_conv)+

lemma refuses_lift: "(\<And>e. r = Inl e \<Longrightarrow> \<not> hr_success e) \<Longrightarrow> refuses (lift r)"
  by (simp add: refuses_def)

lemma refuses_look: "refuses (look g)"
  by (simp add: refuses_def)

lemma refuses_with_err: "(\<And>e. \<not> hr_success (g e)) \<Longrightarrow> refuses (with_err g m)"
  by (auto simp: refuses_def map_err_Inl)

lemma refuses_ignore: "refuses (ignore m)"
  by (auto simp: refuses_def ignore_def bindp_def attempt_def lift_def split: prod.split)

lemma refuses_on_error: "refuses m \<Longrightarrow> refuses (on_error m (ignore c))"
  by (auto simp: refuses_def on_error_def ignore_def bindp_def attempt_def lift_def split: prod.split sum.split) (metis fst_conv)+

lemma refuses_if: "(b \<Longrightarrow> refuses m) \<Longrightarrow> (\<not> b \<Longrightarrow> refuses n) \<Longrightarrow> refuses (if b then m else n)"
  by simp

lemma refuses_let: "refuses (f x) \<Longrightarrow> refuses (Let x f)"
  by simp

lemmas refuses_rules = refuses_bind refuses_lift refuses_look refuses_with_err refuses_ignore refuses_on_error
  refuses_if refuses_let


lemma io_errors_refuse [simp]: "\<not> hr_success (trash_io_error q e)"
  by (simp add: trash_io_error_def)

section \<open>Restoring\<close>

text \<open>What a successful restoration has checked and removed.\<close>

definition restored ::
  "'d System \<Rightarrow> AllowedRoot \<Rightarrow> RelativePath \<Rightarrow> RelativePath \<Rightarrow> (SysCall \<times> bool) list \<Rightarrow> bool" where
  "restored sys root from to calls \<longleftrightarrow>
     (\<exists>opens src sn dst tn info removed. calls = opens @ [(RenameAt src sn dst tn False, True), (RemoveFile info, removed)]
       \<and> (\<forall>c \<in> set opens. targets (fst c) = [])
       \<and> path_eq (path_join (h_path src) sn) (opened_path root from)
       \<and> path_eq (path_join (h_path dst) tn) (opened_path root to))"

lemma trash_files_validated:
  assumes "SafeFileName_parse i = Inr i"
  shows "validate_relative_path (trash_files_path i) = Inr (trash_files_path i)"
proof -
  have i: "i \<noteq> []" "nul \<notin> set i" "slash \<notin> set i" "i \<noteq> ''.''" "i \<noteq> ''..''"
    using assms by (auto simp: SafeFileName_parse_Inr)
  have split: "split_on slash (trash_files_path i) = [''.tealdrive-trash'', ''files'', i]"
    using i(3) by (simp add: trash_files_path_def split_on_no_sep)
  then have parts: "name_parts (trash_files_path i) = [''.tealdrive-trash'', ''files'', i]"
    using i by (simp add: name_parts_def)
  have "join_with slash [''.tealdrive-trash'', ''files'', i] = trash_files_path i"
    by (simp add: trash_files_path_def)
  with i split parts show ?thesis
    by (simp add: validate_relative_path_eq trash_files_path_def is_absolute_def)
qed

lemma restore_success:
  assumes "restore_file_from_trash_with_roots sys uuid msgpack cx q roots w = (r, w')" and "hr_success r"
    and "\<forall>root \<in> set roots. root_base_path root \<noteq> []"
  obtains root entry original calls where "find (\<lambda>r. root_root_id r = hq_root_id q) roots = Some root"
    "read_entry uuid msgpack cx (kernel_of sys (w_disk w)) root (hq_relative_path q) = Inr entry"
    "tre_trash_id entry = hq_relative_path q" "tre_uid entry = hq_uid q" "tre_original_root_id entry = hq_root_id q"
    "validate_relative_path (tre_original_relative_path entry) = Inr original" "original \<noteq> []"
    "context_check cx original Write = Inr ()"
    "w_calls w' = w_calls w @ calls" "restored sys root (trash_files_path (hq_relative_path q)) original calls"
proof -
  let ?id = "hq_relative_path q"
  from assms(1) [unfolded restore_file_from_trash_with_roots_def Let_def] assms(2)
  show thesis
  proof (rule answering_successE, goal_cases)
    case 1
    show ?case
      by (intro refuses_rules) (auto simp: ok_or_def map_err_Inl split: option.split_asm sum.split_asm if_split_asm)
  next
    case 2
    then obtain root base entry original_root canonical original w1 w2 where
      root: "find (\<lambda>r. root_root_id r = hq_root_id q) roots = Some root" and i: "SafeFileName_parse ?id = Inr ?id"
      and entry: "read_entry uuid msgpack cx (kernel_of sys (w_disk w)) root ?id = Inr entry"
        "tre_trash_id entry = ?id" "tre_uid entry = hq_uid q" "tre_original_root_id entry = hq_root_id q"
      and original: "validate_relative_path (tre_original_relative_path entry) = Inr original" "original \<noteq> []"
        "context_check cx original Write = Inr ()"
      and rename: "transaction_rename sys (with_alias cx ''.tealdrive-trash/files'' (source_parent original)) root
        (trash_files_path ?id) original False w = (Inr (), w1)"
      and info: "w' = snd (perform sys (RemoveFile (path_join (path_join (path_join base TRASH_DIR_NAME) ''info'') (?id @ ''.msgpack''))) w1)"
      by (auto simp: succeeds ok_or_Inr map_err_Inr SafeFileName_parse_Inr split: if_split_asm sum.split_asm)
    have base: "root_base_path root \<noteq> []" using assms(3) root by (metis find_Some_iff nth_mem)
    obtain opens src sn dst tn where "w_calls w1 = w_calls w @ opens @ [(RenameAt src sn dst tn False, True)]"
      "\<forall>c \<in> set opens. targets (fst c) = []" "path_eq (path_join (h_path src) sn) (opened_path root (trash_files_path ?id))"
      "path_eq (path_join (h_path dst) tn) (opened_path root original)"
      using rename base trash_files_validated [OF i] validate_idem [OF original(1)] by (rule rename_succeeds)
    moreover obtain removed d where "w_calls w' = w_calls w1
        @ [(RemoveFile (path_join (path_join (path_join base TRASH_DIR_NAME) ''info'') (?id @ ''.msgpack'')), removed)]"
      using info performed [of sys "RemoveFile (path_join (path_join (path_join base TRASH_DIR_NAME) ''info'') (?id @ ''.msgpack''))" w1]
      by auto
    ultimately show ?case
      by (intro that [OF root entry original]) (auto simp: restored_def)
  qed
qed

section \<open>Moving to the trash\<close>

lemma trash_success:
  assumes "move_file_to_trash_with_roots sys msgpack cx tk q roots w = (r, w')" and "hr_success r"
    and "\<forall>root \<in> set roots. root_base_path root \<noteq> []" and "SafeFileName_parse (operation_name tk) = Inr (operation_name tk)"
  obtains root source info bytes before src sn dst tn where
    "find (\<lambda>r. root_root_id r = hq_root_id q) roots = Some root"
    "validate_relative_path (hq_relative_path q) = Inr (ex_relative_path source)"
    "cd_encode msgpack (trash_record tk q root source) = Some bytes"
    "w_calls w' = w_calls w @ before @ [(RenameAt src sn dst tn False, True)]" "(WriteWhole info bytes, True) \<in> set before"
    "path_eq (path_join (h_path src) sn) (opened_path root (ex_relative_path source))"
    "path_eq (path_join (h_path dst) tn) (opened_path root (trash_files_path (operation_name tk)))"
proof -
  from assms(1) [unfolded move_file_to_trash_with_roots_def Let_def] assms(2)
  show thesis
  proof (rule answering_successE, goal_cases)
    case 1
    show ?case
      by (intro refuses_rules) (auto simp: ok_or_def map_err_Inl split: option.split_asm sum.split_asm if_split_asm)
  next
    case 2
    then obtain root source bytes c1 c2 info d where
      root: "find (\<lambda>r. root_root_id r = hq_root_id q) roots = Some root"
      and source: "resolve_existing_path cx (sys_view sys (w_disk w)) root (hq_relative_path q) False = Inr source"
      and bytes: "cd_encode msgpack (trash_record tk q root source) = Some bytes"
      and rename: "transaction_rename sys (with_alias cx ''.tealdrive-trash/files'' (source_parent (ex_relative_path source))) root
        (ex_relative_path source) (trash_files_path (operation_name tk)) False
        \<lparr>w_disk = d, w_calls = w_calls w @ [c1, c2, (WriteWhole info bytes, True)]\<rparr> = (Inr (), w')"
      by (auto simp: succeeds on_error_succeeds perform_succeeds ok_or_Inr map_err_Inr split: if_split_asm)
    have base: "root_base_path root \<noteq> []" using assms(3) root by (metis find_Some_iff nth_mem)
    have valid: "validate_relative_path (hq_relative_path q) = Inr (ex_relative_path source)"
      using source by (rule resolve_existing_ok)
    obtain opens src sn dst tn where "w_calls w' = w_calls w @ [c1, c2, (WriteWhole info bytes, True)] @ opens @ [(RenameAt src sn dst tn False, True)]"
      "path_eq (path_join (h_path src) sn) (opened_path root (ex_relative_path source))"
      "path_eq (path_join (h_path dst) tn) (opened_path root (trash_files_path (operation_name tk)))"
      using rename base validate_idem [OF valid] trash_files_validated [OF assms(4)] by (rule rename_succeeds) simp
    then show ?case
      by (intro that [OF root valid bytes, of "[c1, c2, (WriteWhole info bytes, True)] @ opens" src sn dst tn info])
        simp_all
  qed
qed

text \<open>C4: moving to the trash and restoring are inverse. When both succeed for the same entry and the disk still holds
  the record that was written, the restoration is made by the same user, and its only rename goes from the place the
  first rename moved the file to back to the place it came from; neither replaces anything.\<close>

theorem trash_then_restore:
  assumes "move_file_to_trash_with_roots sys msgpack cx tk q roots w = (r1, w1)" and "hr_success r1"
    and "restore_file_from_trash_with_roots sys uuid msgpack cx' q' roots w2 = (r2, w3)" and "hr_success r2"
    and "hq_root_id q' = hq_root_id q" and "hq_relative_path q' = operation_name tk"
    and "SafeFileName_parse (operation_name tk) = Inr (operation_name tk)"
    and "\<forall>root \<in> set roots. root_base_path root \<noteq> []"
    and codec: "\<forall>e bs. cd_encode msgpack e = Some bs \<longrightarrow> cd_decode msgpack bs = Some e"
    and kept: "\<forall>info bs root e. (WriteWhole info bs, True) \<in> set (drop (length (w_calls w)) (w_calls w1)) \<longrightarrow>
      read_entry uuid msgpack cx' (kernel_of sys (w_disk w2)) root (operation_name tk) = Inr e \<longrightarrow> cd_decode msgpack bs = Some e"
  shows "hq_uid q' = hq_uid q \<and> (\<exists>before src sn dst tn opens src' sn' dst' tn' info removed.
      w_calls w1 = w_calls w @ before @ [(RenameAt src sn dst tn False, True)]
    \<and> w_calls w3 = w_calls w2 @ opens @ [(RenameAt src' sn' dst' tn' False, True), (RemoveFile info, removed)]
    \<and> (\<forall>c \<in> set opens. targets (fst c) = [])
    \<and> path_eq (path_join (h_path src') sn') (path_join (h_path dst) tn)
    \<and> path_eq (path_join (h_path dst') tn') (path_join (h_path src) sn))"
proof -
  obtain root source info bs before src sn dst tn where t: "find (\<lambda>r. root_root_id r = hq_root_id q) roots = Some root"
    "validate_relative_path (hq_relative_path q) = Inr (ex_relative_path source)"
    "cd_encode msgpack (trash_record tk q root source) = Some bs"
    "w_calls w1 = w_calls w @ before @ [(RenameAt src sn dst tn False, True)]" "(WriteWhole info bs, True) \<in> set before"
    "path_eq (path_join (h_path src) sn) (opened_path root (ex_relative_path source))"
    "path_eq (path_join (h_path dst) tn) (opened_path root (trash_files_path (operation_name tk)))"
    using assms(1,2,8,7) by (rule trash_success)
  obtain root' entry original calls where r: "find (\<lambda>r. root_root_id r = hq_root_id q') roots = Some root'"
    "read_entry uuid msgpack cx' (kernel_of sys (w_disk w2)) root' (hq_relative_path q') = Inr entry"
    "tre_uid entry = hq_uid q'" "validate_relative_path (tre_original_relative_path entry) = Inr original"
    "w_calls w3 = w_calls w2 @ calls" "restored sys root' (trash_files_path (hq_relative_path q')) original calls"
    using assms(3,4,8) by (rule restore_success)
  have root: "root' = root" using t(1) r(1) assms(5) by simp
  have "cd_decode msgpack bs = Some entry" using kept t(4,5) r(2) assms(6) by (auto simp: root)
  then have entry: "entry = trash_record tk q root source" using codec t(3) by simp
  then have original: "original = ex_relative_path source"
    using r(4) validate_idem [OF t(2)] by (simp add: trash_record_def)
  have uid: "hq_uid q' = hq_uid q" using r(3) entry by (simp add: trash_record_def)
  from r(6) obtain opens src' sn' dst' tn' info' removed where
    c: "calls = opens @ [(RenameAt src' sn' dst' tn' False, True), (RemoveFile info', removed)]"
      "\<forall>c \<in> set opens. targets (fst c) = []"
      "path_eq (path_join (h_path src') sn') (opened_path root (trash_files_path (operation_name tk)))"
      "path_eq (path_join (h_path dst') tn') (opened_path root (ex_relative_path source))"
    unfolding restored_def root original assms(6) by blast
  have "path_eq (path_join (h_path src') sn') (path_join (h_path dst) tn)"
    "path_eq (path_join (h_path dst') tn') (path_join (h_path src) sn)"
    using t(6,7) c(3,4) by (simp_all add: path_eq_def)
  with uid t(4) r(5) [unfolded c(1)] c(2) show ?thesis by blast
qed

section \<open>A file moved to the trash and back\<close>

definition kept_entry :: TrashEntry where
  "kept_entry = \<lparr>tre_trash_id = ''42'', tre_original_root_id = ''home'', tre_original_relative_path = ''a.txt'',
     tre_trash_relative_path = ''files/42'', tre_display_name = ''a.txt'', tre_deleted_at = 0, tre_username = ''alice'', tre_uid = 1000\<rparr>"

definition kept_codec :: Codec where
  "kept_codec = \<lparr>cd_encode = (\<lambda>e. if e = kept_entry then Some [1] else None),
     cd_decode = (\<lambda>bs. if bs = [1] then Some kept_entry else None)\<rparr>"

definition example_place :: "string \<Rightarrow> bool" where
  "example_place p \<longleftrightarrow> p = ''/srv'' \<or> p = ''/srv/.''"

definition kept_view :: "bool \<Rightarrow> DiskView" where
  "kept_view trashed =
     \<lparr>dv_canonicalize = (\<lambda>p. if is_absolute p \<and> ParentDir \<notin> set (components p) then Inr p else Inl (Some 2)),
      dv_metadata = (\<lambda>p. Inr (example_stat_of (example_place p))),
      dv_symlink_metadata = (\<lambda>p. if example_place p then Inr (example_stat_of True)
        else if p = (if trashed then ''/srv/.tealdrive-trash/files/42'' else ''/srv/a.txt'') then Inr (example_stat_of False)
        else Inl (Some 2)),
      dv_read_dir = (\<lambda>_. Inr [])\<rparr>"

definition kept_system :: "bool System" where
  "kept_system = \<lparr>sys_call = (\<lambda>c trashed. (Inr 1, (case c of RenameAt _ _ _ _ _ \<Rightarrow> \<not> trashed | _ \<Rightarrow> trashed))),
     sys_file = (\<lambda>_ _. \<lparr>of_metadata = (\<lambda>_. Inr (example_stat_of False, [])), of_seek = (\<lambda>_. Inr ()),
       of_read = (\<lambda>pos n. if pos = 0 then Inr [1] else Inr [])\<rparr>),
     sys_fstat = (\<lambda>_ _. Inl None), sys_acl = (\<lambda>_ _ _. Inl None), sys_view = kept_view,
     sys_tree = (\<lambda>_ _. example_tree),
     sys_sizes = (\<lambda>_. \<lparr>fv_read = (\<lambda>_. None), fv_meta = (\<lambda>_. None), fv_canonicalize = (\<lambda>_. None)\<rparr>),
     sys_read_file = (\<lambda>_ _. Inl None)\<rparr>"

definition kept_run :: "HelperResponse \<times> bool World" where
  "kept_run = move_file_to_trash_with_roots kept_system kept_codec None example_task
     (example_request HelperCommand.MoveToTrash ''a.txt'' None) [example_root] \<lparr>w_disk = False, w_calls = []\<rparr>"


definition kept_restore :: "HelperResponse \<times> bool World" where
  "kept_restore = restore_file_from_trash_with_roots kept_system Some kept_codec None
     (example_request HelperCommand.RestoreFromTrash ''42'' None) [example_root] (snd kept_run)"

lemma kept_run_succeeds: "hr_success (fst kept_run)"
  by code_simp

lemma kept_written:
  "\<forall>c \<in> set (w_calls (snd kept_run)). case c of (WriteWhole info bs, _) \<Rightarrow> bs = [1] | _ \<Rightarrow> True"
  by code_simp

lemma kept_trashed: "w_disk (snd kept_run) = True"
  by code_simp

lemma kept_file: "read_to_end (sys_file kept_system d fd) 0 65537 [] = Inr [1]"
  by (simp add: kept_system_def read_to_end.simps read_limited_def)

lemma kept_entry_read: "read_entry Some kept_codec None (kernel_of kept_system d) example_root ''42'' = Inr kept_entry"
  using kept_file
  by (simp add: read_entry_def sandbox_open_def kernel_of_def kept_system_def and_then_def example_paths kept_codec_def
      context_check_def check_metadata_def example_root_def example_stat_of_def Metadata.truncate_def)

lemma kept_read: "read_entry Some kept_codec None (kernel_of kept_system d) root i = Inr e \<Longrightarrow> e = kept_entry"
proof -
  assume "read_entry Some kept_codec None (kernel_of kept_system d) root i = Inr e"
  then obtain fd where "cd_decode kept_codec [1] = Some e"
    using kept_file by (auto simp: read_entry_def map_err_Inr and_then_Inr ok_or_Inr kernel_of_def kept_system_def
        split: if_split_asm)
  then show "e = kept_entry" by (simp add: kept_codec_def)
qed

lemma kept_views:
  "dv_canonicalize (sys_view kept_system d) ''/srv'' = Inr ''/srv''"
  "is_ok (dv_symlink_metadata (sys_view kept_system True) (path_join (path_join (path_join ''/srv'' TRASH_DIR_NAME) ''files'') ''42''))"
  "\<not> is_ok (dv_symlink_metadata (sys_view kept_system True) (path_join ''/srv'' ''a.txt''))"
  "path_starts_with (path_join ''/srv'' ''a.txt'') ''/srv''"
  "SafeFileName_parse ''42'' = Inr ''42''"
  by code_simp+

lemma kept_open: "open_beneath kept_system None root path flags mode w =
   (Inr \<lparr>h_fd = 1, h_path = opened_path root path\<rparr>,
    \<lparr>w_disk = w_disk w, w_calls = w_calls w @ [(OpenBase (root_base_path root), True),
       (OpenAt (root_base_path root) (if path = [] then ''.'' else path) flags mode, True)]\<rparr>)"
  if "validate_relative_path path = Inr path" "nul \<notin> set (root_base_path root)"
  using that
  by (simp add: open_beneath_def program_eval kept_system_def check_metadata_def example_stat_of_def Metadata.truncate_def
      context_check_def)

lemma kept_perform: "perform kept_system c w = (Inr 1, \<lparr>w_disk = (case c of RenameAt _ _ _ _ _ \<Rightarrow> \<not> w_disk w | _ \<Rightarrow> w_disk w),
    w_calls = w_calls w @ [(c, True)]\<rparr>)"
  by (simp add: perform_def kept_system_def)

lemma kept_rename:
  "\<exists>w'. transaction_rename kept_system None example_root (trash_files_path ''42'') ''a.txt'' False w = (Inr (), w')"
proof -
  have "split_target (trash_files_path ''42'') = Inr (''.tealdrive-trash/files'', ''42'')"
    "split_target ''a.txt'' = Inr ([], ''a.txt'')" "validate_relative_path ''.tealdrive-trash/files'' = Inr ''.tealdrive-trash/files''"
    "nul \<notin> set ''42''" "nul \<notin> set ''a.txt''" "nul \<notin> set (root_base_path example_root)"
    by code_simp+
  then show ?thesis
    by (simp add: transaction_rename_def run_eval kept_open kept_perform example_paths)
qed

lemma kept_preflight: "preflight_tree example_tree None (trash_files_path ''42'') Write = Inr ()"
  by (simp add: preflight_tree_def preflight_tree_inner_def preflight_target_check_def check_metadata_def context_check_def
      example_tree_def trash_files_path_def)

lemma kept_restore_succeeds: "hr_success (fst kept_restore)"
proof -
  obtain m where m: "dv_symlink_metadata (sys_view kept_system True)
      (path_join (path_join (path_join ''/srv'' TRASH_DIR_NAME) ''files'') ''42'') = Inr m"
    using kept_views(2) by (auto simp: is_ok_def split: sum.split_asm)
  obtain w1 where "transaction_rename kept_system None example_root (trash_files_path ''42'') ''a.txt'' False (snd kept_run) = (Inr (), w1)"
    using kept_rename by blast
  moreover have "sys_tree kept_system d root = example_tree" for d root by (simp add: kept_system_def)
  moreover have "hq_command (example_request HelperCommand.RestoreFromTrash ''42'' None) = HelperCommand.RestoreFromTrash"
    "hq_uid (example_request c p t) = 1000" "hq_root_id (example_request c p t) = ''home''"
    "hq_relative_path (example_request c p t) = p" for c p t
    by (simp_all add: example_request_def)
  moreover have "root_root_id example_root = ''home''" "root_base_path example_root = ''/srv''" by (simp_all add: example_root_def)
  moreover have "tre_trash_id kept_entry = ''42''" "tre_uid kept_entry = 1000" "tre_original_root_id kept_entry = ''home''"
    "tre_original_relative_path kept_entry = ''a.txt''" by (simp_all add: kept_entry_def)
  moreover have "(ignore (perform kept_system c) :: (bool, HelperResponse, unit) prog) w = (Inr (), snd (perform kept_system c w))" for c w
    by (simp add: ignore_def bindp_def attempt_def lift_def split: prod.split)
  ultimately show ?thesis
    by (simp add: kept_restore_def restore_file_from_trash_with_roots_def run_eval kept_trashed kept_views kept_entry_read m
        example_paths context_check_def kept_preflight with_alias_def response_operation_done_def response_success_def Let_def)
qed

theorem trash_then_restore_witness:
  "\<exists>before src sn dst tn opens src' sn' dst' tn' info removed.
      w_calls (snd kept_run) = before @ [(RenameAt src sn dst tn False, True)]
    \<and> w_calls (snd kept_restore) = w_calls (snd kept_run)
        @ opens @ [(RenameAt src' sn' dst' tn' False, True), (RemoveFile info, removed)]
    \<and> path_eq (path_join (h_path src') sn') (path_join (h_path dst) tn)
    \<and> path_eq (path_join (h_path dst') tn') (path_join (h_path src) sn)"
proof -
  have op: "operation_name example_task = ''42''" by code_simp
  have codec: "\<forall>e bs. cd_encode kept_codec e = Some bs \<longrightarrow> cd_decode kept_codec bs = Some e"
    by (simp add: kept_codec_def)
  have stored: "\<forall>info bs root e. (WriteWhole info bs, True)
      \<in> set (drop (length (w_calls \<lparr>w_disk = False, w_calls = []\<rparr>)) (w_calls (snd kept_run))) \<longrightarrow>
    read_entry Some kept_codec None (kernel_of kept_system (w_disk (snd kept_run))) root (operation_name example_task) = Inr e
      \<longrightarrow> cd_decode kept_codec bs = Some e"
    using kept_written kept_read by (fastforce simp: kept_codec_def)
  have safe: "SafeFileName_parse (operation_name example_task) = Inr (operation_name example_task)" by code_simp
  have bases: "\<forall>root \<in> set [example_root]. root_base_path root \<noteq> []" by (simp add: example_root_def)
  have runs: "move_file_to_trash_with_roots kept_system kept_codec None example_task
      (example_request HelperCommand.MoveToTrash ''a.txt'' None) [example_root] \<lparr>w_disk = False, w_calls = []\<rparr>
      = (fst kept_run, snd kept_run)"
    "restore_file_from_trash_with_roots kept_system Some kept_codec None
      (example_request HelperCommand.RestoreFromTrash ''42'' None) [example_root] (snd kept_run)
      = (fst kept_restore, snd kept_restore)"
    by (simp_all add: kept_run_def kept_restore_def)
  have "hq_root_id (example_request c p t) = hq_root_id (example_request c' p' t')"
    "hq_relative_path (example_request c ''42'' t) = operation_name example_task" for c p t c' p' t'
    by (simp_all add: example_request_def op)
  from trash_then_restore [OF runs(1) kept_run_succeeds runs(2) kept_restore_succeeds this safe bases codec stored]
  show ?thesis by auto
qed

end
