(* ===== verification/TD_Observation.thy ===== *)
theory TD_Observation
  imports TD_Transaction
begin

unbundle bit_operations_syntax

text \<open>
  Observation of files (\<open>src/helper/observation.rs\<close>) and the inverse of recorded operations
  (\<open>src/helper/undo.rs\<close>): the fingerprint of a file or a tree before and after an operation, and the undo that moves a
  file back only when the fingerprint is still the recorded one.
\<close>

section \<open>States (\<open>observation.rs\<close>)\<close>

definition MAX_NODES :: nat where "MAX_NODES = 10000"
definition MAX_BYTES :: nat where "MAX_BYTES = 64 * 1024 * 1024"

definition same_metadata :: "FileState \<Rightarrow> FileState \<Rightarrow> bool" where
  "same_metadata a b \<longleftrightarrow>
     a\<lparr>fst_digest := [], fst_content_digest := None, fst_tree_digest := None\<rparr>
     = b\<lparr>fst_digest := [], fst_content_digest := None, fst_tree_digest := None\<rparr>"

definition same_inode :: "FileState \<Rightarrow> FileState \<Rightarrow> bool" where
  "same_inode a b \<longleftrightarrow> fst_device a = fst_device b \<and> fst_inode a = fst_inode b \<and> fst_kind a = fst_kind b"

definition fully_observed :: "FileState \<Rightarrow> bool" where
  "fully_observed s \<longleftrightarrow>
     (if fst_kind s = ''file'' then fst_content_digest s \<noteq> None
      else if fst_kind s = ''directory'' then fst_tree_digest s \<noteq> None
      else False)"

text \<open>A loop that hands a value from one round to the next.\<close>

fun thread :: "('a \<Rightarrow> 's \<Rightarrow> ('d, 'e, 's) prog) \<Rightarrow> 'a list \<Rightarrow> 's \<Rightarrow> ('d, 'e, 's) prog" where
  "thread f [] s = give s"
| "thread f (x # xs) s = bindp (f x s) (thread f xs)"

lemma thread_cong [fundef_cong]:
  "xs = ys \<Longrightarrow> s = t \<Longrightarrow> (\<And>x u. x \<in> set ys \<Longrightarrow> f x u = g x u) \<Longrightarrow> thread f xs s = thread g ys t"
proof (induction xs arbitrary: ys s t)
  case (Cons x xs)
  have "thread f xs u = thread g xs u" for u by (rule Cons.IH) (use Cons.prems in auto)
  then have "thread f xs = thread g xs" by blast
  with Cons.prems show ?case by auto
qed simp

text \<open>The bytes of a file, read after duplicating the descriptor and rewinding it (one call). A file that grows past
  its length is an error.\<close>

function observe_loop :: "'d System \<Rightarrow> Handle \<Rightarrow> nat \<Rightarrow> bytes \<Rightarrow> ('d, SandboxError, bytes) prog" where
  "observe_loop sys file len seen =
     bindp (with_err Os (poll_cancelled sys)) (\<lambda>_.
     bindp (look (\<lambda>d. of_read (sys_file sys d (h_fd file)) (length seen) 65536)) (\<lambda>r.
     bindp (lift (map_err Os r)) (\<lambda>buffer.
     if buffer = [] then give seen
     else if length seen + length buffer > len then stop KindOther
     else observe_loop sys file len (seen @ buffer))))"
  by pat_completeness auto
termination by (relation "measure (\<lambda>(_, _, len, seen). len - length seen)") (auto simp flip: length_greater_0_conv)

declare observe_loop.simps [simp del]

definition capture_readable_file ::
  "'d System \<Rightarrow> 'd Libs \<Rightarrow> Handle \<Rightarrow> ('d, SandboxError, FileState) prog" where
  "capture_readable_file sys libs file =
     bindp (look (\<lambda>d. sys_fstat sys d (h_fd file))) (\<lambda>r.
     bindp (lift (map_err Os r)) (\<lambda>before.
     let state = FileState_metadata before in
     if \<not> md_is_file before \<or> st_len before > MAX_BYTES then give (FileState_finish (lb_sha_json libs) state)
     else
       bindp (with_err Os (perform sys (SeekFd file 0))) (\<lambda>_.
       bindp (observe_loop sys file (st_len before) []) (\<lambda>data.
       bindp (look (\<lambda>d. sys_fstat sys d (h_fd file))) (\<lambda>r.
       bindp (lift (map_err Os r)) (\<lambda>after.
       if FileState_metadata after \<noteq> state \<or> length data \<noteq> st_len before then stop KindOther
       else give (FileState_finish (lb_sha_json libs)
         (state\<lparr>fst_content_digest := Some (lb_sha_hex libs data)\<rparr>))))))))"

text \<open>The names of a directory, bounded with the nodes seen so far.\<close>

fun collect_names :: "nat \<Rightarrow> (IoError + string) list \<Rightarrow> string list \<Rightarrow> SandboxError + string list" where
  "collect_names nodes [] names = Inr names"
| "collect_names nodes (e # es) names =
     (if length names + nodes \<ge> MAX_NODES then Inl KindOther
      else case e of
        Inl err \<Rightarrow> Inl (Os err)
      | Inr name \<Rightarrow> if to_str name = None then Inl KindOther else collect_names nodes es (names @ [name]))"

text \<open>The content of a file, when it can be opened; the budget counts its bytes.\<close>

definition capture_file ::
  "'d System \<Rightarrow> 'd Libs \<Rightarrow> Context option \<Rightarrow> AllowedRoot \<Rightarrow> RelativePath \<Rightarrow> FileStat \<Rightarrow> nat
   \<Rightarrow> ('d, SandboxError, FileState \<times> nat) prog" where
  "capture_file sys libs cx root path m seen =
     (let state = FileState_metadata m in
      if seen + st_len m > U64_MAX \<or> seen + st_len m > MAX_BYTES then give (state, seen)
      else
        bindp (attempt (open_beneath sys cx root path (O_RDONLY OR O_NONBLOCK) 0)) (\<lambda>r.
        case r of
          Inl _ \<Rightarrow> give (state, seen)
        | Inr file \<Rightarrow>
            bindp (look (\<lambda>d. sys_fstat sys d (h_fd file))) (\<lambda>r.
            bindp (lift (map_err Os r)) (\<lambda>opened.
            if FileState_metadata opened \<noteq> state then stop KindOther
            else
              bindp (capture_readable_file sys libs file) (\<lambda>observed.
              if \<not> same_metadata state observed then stop KindOther
              else give (state\<lparr>fst_content_digest := fst_content_digest observed\<rparr>, seen + st_len m))))))"

text \<open>The budget is the number of nodes and of bytes so far; it is lost where an observation fails, and what encloses a
  failure is incomplete and reads nothing more.\<close>

function capture_inner ::
  "'d System \<Rightarrow> 'd Libs \<Rightarrow> Context option \<Rightarrow> AllowedRoot \<Rightarrow> RelativePath \<Rightarrow> nat \<times> nat \<Rightarrow> nat
   \<Rightarrow> ('d, SandboxError, FileState \<times> nat \<times> nat) prog" where
  "capture_inner sys libs cx root path budget depth =
     bindp (with_err Os (poll_cancelled sys)) (\<lambda>_.
     let nodes = fst budget + 1; seen = snd budget in
     if nodes > MAX_NODES \<or> depth > 64 then stop KindOther
     else
       bindp (open_beneath sys cx root path O_PATH 0) (\<lambda>pinned.
       bindp (look (\<lambda>d. sys_fstat sys d (h_fd pinned))) (\<lambda>r.
       bindp (lift (map_err Os r)) (\<lambda>m.
       let state = FileState_metadata m; finish = FileState_finish (lb_sha_json libs) in
       if md_is_file m
       then bindp (capture_file sys libs cx root path m seen) (\<lambda>(state, seen). give (finish state, nodes, seen))
       else if md_is_dir m
       then
         bindp (attempt (
           bindp (lift (map_err (\<lambda>_. KindOther) (context_check cx path Read))) (\<lambda>_.
           bindp (look (\<lambda>d. dv_read_dir (sys_view sys d) (path_join (root_base_path root) path))) (\<lambda>es.
           bindp (lift (map_err Os es)) (\<lambda>es.
           bindp (lift (collect_names nodes es [])) (\<lambda>names.
           bindp (thread (\<lambda>name (budget, hashed).
             bindp (capture_inner sys libs cx root (if path = [] then name else path @ slash # name) budget (depth + 1))
               (\<lambda>(child, budget).
             if \<not> fully_observed child then stop KindOther
             else give (budget, hashed @ map of_char name @ [0] @ map of_char (fst_digest child) @ [0])))
             (sort_key (\<lambda>n. n) names) ((nodes, seen), [])) (\<lambda>(budget, hashed).
           bindp (look (\<lambda>d. sys_fstat sys d (h_fd pinned))) (\<lambda>r.
           bindp (lift (map_err Os r)) (\<lambda>m'.
           if FileState_metadata m' \<noteq> state then stop KindOther
           else give (lb_sha_hex libs hashed, budget)))))))))) (\<lambda>tree.
         case tree of
           Inl _ \<Rightarrow> give (finish state, nodes, seen)
         | Inr (digest, budget) \<Rightarrow> give (finish (state\<lparr>fst_tree_digest := Some digest\<rparr>), budget))
       else give (finish state, nodes, seen)))))"
  by pat_completeness auto
termination by (relation "measure (\<lambda>(_, _, _, _, _, _, depth). 65 - depth)") auto

declare capture_inner.simps [simp del]

definition capture ::
  "'d System \<Rightarrow> 'd Libs \<Rightarrow> Context option \<Rightarrow> AllowedRoot \<Rightarrow> RelativePath \<Rightarrow> ('d, SandboxError, FileState) prog" where
  "capture sys libs cx root path =
     bindp (capture_inner sys libs cx root path (0, 0) 0) (\<lambda>(state, _). give state)"


section \<open>Observed operations\<close>

definition moved_to :: "HelperRequest \<Rightarrow> HelperResponse \<Rightarrow> RelativePath option" where
  "moved_to q response =
     (case hq_command q of
        HelperCommand.Rename \<Rightarrow> map_option (\<lambda>name.
          case rsplit_once slash (hq_relative_path q) of
            Some (parent, _) \<Rightarrow> if parent \<noteq> [] then parent @ ''/'' @ name else name
          | None \<Rightarrow> name) (hq_target_relative_path q)
      | HelperCommand.Move \<Rightarrow> hq_target_relative_path q
      | HelperCommand.MoveToTrash \<Rightarrow>
          (case hr_payload response of
             HelperResponsePayload.TrashEntry entry \<Rightarrow> Some (trash_files_path (te_trash_id entry))
           | _ \<Rightarrow> None)
      | HelperCommand.Chmod \<Rightarrow> Some (hq_relative_path q)
      | _ \<Rightarrow> None)"

definition ok :: "'e + 'a \<Rightarrow> 'a option" where
  "ok r = (case r of Inr x \<Rightarrow> Some x | Inl _ \<Rightarrow> None)"

definition observation_execute ::
  "'d System \<Rightarrow> 'd Libs \<Rightarrow> Context option \<Rightarrow> Task \<Rightarrow> HelperRequest \<Rightarrow> AppConfig
   \<Rightarrow> 'd World \<Rightarrow> HelperResponse \<times> 'd World" where
  "observation_execute sys libs cx tk q config =
     (if \<not> jc_enabled (cfg_journal config)
         \<or> hq_command q \<notin> {HelperCommand.Rename, HelperCommand.Move, HelperCommand.MoveToTrash, HelperCommand.Chmod}
      then transaction_execute sys libs cx tk q config
      else answering
        (bindp (lift (ok_or (find (\<lambda>root. root_root_id root = hq_root_id q) (cfg_roots config))
           (response_permission_denied q ''Unknown root.''))) (\<lambda>root.
         if hq_command q = HelperCommand.Chmod then run (transaction_execute sys libs cx tk q config)
         else
           bindp (attempt (capture sys libs cx root (hq_relative_path q))) (\<lambda>before.
           bindp (with_err (\<lambda>_. response_permission_denied q ''Operation cancelled before execution.'')
             (poll_cancelled sys)) (\<lambda>_.
           bindp (run (transaction_execute sys libs cx tk q config)) (\<lambda>response.
           bindp (case (if hr_success response then moved_to q response else None) of
               None \<Rightarrow> give None
             | Some target \<Rightarrow>
                 bindp (attempt (capture sys libs
                   (if hq_command q = HelperCommand.MoveToTrash then with_alias cx target (hq_relative_path q) else cx)
                   root target)) (\<lambda>r. give (ok r))) (\<lambda>after.
           give (response\<lparr>hr_audit_metadata := map_option
             (\<lambda>m. m\<lparr>am_before := ok before, am_after := after\<rparr>) (hr_audit_metadata response)\<rparr>))))))))"

section \<open>Recorded operations (\<open>accounts/journal.rs\<close>) and their inverse (\<open>undo.rs\<close>)\<close>

record OperationRecord =
  op_version :: nat
  op_id :: string
  op_request_id :: Uuid
  op_account_id :: string
  op_generation :: nat
  op_created_at :: nat
  op_updated_at :: nat
  op_action :: string
  op_root_id :: RootId
  op_source_path :: RelativePath
  op_target_path :: "RelativePath option"
  op_requested_mode :: "nat option"
  op_old_mode :: "nat option"
  op_new_mode :: "nat option"
  op_before :: "FileState option"
  op_after :: "FileState option"
  op_status :: string
  op_error_code :: "ErrorKind option"
  op_bytes_read :: nat
  op_bytes_written :: nat
  op_range_next_offset :: "nat option"
  op_log_reserve_bytes :: nat
  op_log_storage :: "string option"
  op_undo_epoch :: "string option"
  op_undo_status :: "string option"
  op_undo_error_code :: "ErrorKind option"
  op_staging_path :: "RelativePath option"
  op_trash_gc_status :: "string option"
  op_staging_gc_status :: "string option"

text \<open>The entry of the trash that is left over when its file is back.\<close>

definition undo_cleanup ::
  "'d System \<Rightarrow> 'd Libs \<Rightarrow> Context option \<Rightarrow> AllowedRoot \<Rightarrow> RelativePath \<Rightarrow> ('d, SandboxError, unit) prog" where
  "undo_cleanup sys libs cx root current =
     (let i = last (split_on slash current) in
      bindp (lift (ok_or (lb_uuid libs i) KindOther)) (\<lambda>_.
      bindp (open_beneath sys cx root ''.tealdrive-trash/info'' (O_PATH OR O_DIRECTORY) 0) (\<lambda>dir.
      if nul \<in> set i then stop KindOther
      else bindp (with_err Os (perform sys (UnlinkAt dir (i @ ''.msgpack'')))) (\<lambda>_. give ()))))"

definition undo_run ::
  "'d System \<Rightarrow> 'd Libs \<Rightarrow> Context option \<Rightarrow> HelperRequest \<Rightarrow> OperationRecord \<Rightarrow> AllowedRoot \<Rightarrow> RelativePath \<Rightarrow> FileState
   \<Rightarrow> ('d, HelperResponse, HelperResponse) prog" where
  "undo_run sys libs cx q record root current expected =
     (let trash = (op_action record = ''trash''); source = op_source_path record in
      bindp (with_err (\<lambda>e. helper_error_from_io q (raw_os_error e)) (capture sys libs cx root current)) (\<lambda>observed.
      if observed \<noteq> expected \<or> \<not> fully_observed observed
      then stop (helper_error q ErrorKind.RevisionConflict ''Target changed since the recorded operation.''
        ''undo_expected_state_mismatch'')
      else
      bindp (lift (map_err (helper_error_from_tealdrive q) (context_check cx source Write))) (\<lambda>_.
      bindp (with_err (helper_error_from_io q) (poll_cancelled sys)) (\<lambda>_.
      bindp (with_err (\<lambda>e. helper_error_from_io q (raw_os_error e)) (transaction_rename sys
        (if trash then with_alias cx ''.tealdrive-trash/files'' (source_parent source) else cx) root current source False)) (\<lambda>_.
      let response = response_operation_done q ''Operation undone.'' in
      if \<not> trash then give response
      else
        bindp (attempt (undo_cleanup sys libs (with_alias cx ''.tealdrive-trash/info'' (source_parent source)) root current)) (\<lambda>r.
        give (if is_ok r then response
          else response\<lparr>hr_safe_message := Some ''Operation undone; trash metadata cleanup remains pending.''\<rparr>)))))))"

definition undo_execute ::
  "'d System \<Rightarrow> 'd Libs \<Rightarrow> Context option \<Rightarrow> HelperRequest \<Rightarrow> AppConfig \<Rightarrow> OperationRecord
   \<Rightarrow> 'd World \<Rightarrow> HelperResponse \<times> 'd World" where
  "undo_execute sys libs cx q config record =
     (case op_after record of
        None \<Rightarrow> answering (stop (response_permission_denied q ''Missing expected state.''))
      | Some expected \<Rightarrow>
          if op_action record = ''chmod''
          then chmod_with_expected_state sys (lb_sha_json libs) cx q (cfg_roots config) (cfg_sensitive_policy config) (Some expected)
          else answering
            (bindp (lift (ok_or (find (\<lambda>root. root_root_id root = op_root_id record) (cfg_roots config))
               (response_permission_denied q ''Unknown root.''))) (\<lambda>root.
             bindp (lift (ok_or (op_target_path record)
               (response_permission_denied q ''Missing inverse source.''))) (\<lambda>current.
             undo_run sys libs
               (if op_action record = ''trash'' then with_alias cx current (op_source_path record) else cx)
               q record root current expected))))"

end
