(* ===== verification/TD_Undo.thy ===== *)
theory TD_Undo
  imports TD_Restore TD_Observation
begin

text \<open>
  Undo is safe: observing changes nothing, and an operation is undone only by one rename, back from the place it moved
  the file to, and only when the file there still has the recorded fingerprint.
\<close>

section \<open>Observing changes nothing\<close>

lemma makes_thread [makes_rules]: "(\<And>x u. x \<in> set xs \<Longrightarrow> makes P (f x u)) \<Longrightarrow> makes P (thread f xs s)"
  by (induction xs arbitrary: s) (auto intro: makes_bind)

lemma makes_observe_loop [makes_rules]: "makes (touches Q) (observe_loop sys fd len seen)"
proof (induction sys fd len seen rule: observe_loop.induct)
  case (1 sys fd len seen)
  show ?case by (subst observe_loop.simps) (intro makes_rules makes_bind; use 1 in simp)
qed

lemma makes_capture_readable [makes_rules]: "makes (touches Q) (capture_readable_file sys libs fd)"
  unfolding capture_readable_file_def by (intro makes_rules makes_bind; simp)

lemma makes_capture_file [makes_rules]: "makes (touches Q) (capture_file sys libs cx root path m seen)"
  unfolding capture_file_def by (intro makes_rules makes_bind; simp)

lemma makes_capture_inner [makes_rules]: "makes (touches Q) (capture_inner sys libs cx root path budget depth)"
proof (induction sys libs cx root path budget depth rule: capture_inner.induct)
  case (1 sys libs cx root path budget depth)
  show ?case
    by (subst capture_inner.simps) (intro makes_rules makes_bind; use 1 in \<open>simp split: prod.split_asm\<close>)
qed

lemma makes_capture [makes_rules]: "makes (touches Q) (capture sys libs cx root path)"
  unfolding capture_def by (intro makes_rules makes_bind)

lemma untouched: "touches (\<lambda>_. False) c \<Longrightarrow> targets c = []"
  by (cases c) (auto split: if_split_asm)

section \<open>A failed undo changes nothing\<close>

definition spares :: "('d, 'e, 'a) prog \<Rightarrow> bool" where
  "spares m \<longleftrightarrow> (\<forall>w e w'. m w = (Inl e, w') \<longrightarrow>
     (\<exists>cs. w_calls w' = w_calls w @ cs \<and> (\<forall>c \<in> set cs. snd c \<longrightarrow> targets (fst c) = [])))"

lemma harmless:
  assumes "makes (touches (\<lambda>_. False)) m" and "m w = (r, w')"
  obtains cs where "w_calls w' = w_calls w @ cs" "\<forall>c \<in> set cs. targets (fst c) = []"
  using assms untouched by (fastforce simp: makes_def dest: spec [of _ w])

lemma spares_bind:
  assumes m: "makes (touches (\<lambda>_. False)) m" and f: "\<And>x. spares (f x)"
  shows "spares (bindp m f)"
  unfolding spares_def
proof (intro allI impI)
  fix w e w2
  assume run: "bindp m f w = (Inl e, w2)"
  obtain r w1 where w1: "m w = (r, w1)" by (cases "m w")
  obtain cs where cs: "w_calls w1 = w_calls w @ cs" "\<forall>c \<in> set cs. targets (fst c) = []"
    using m w1 by (rule harmless)
  show "\<exists>cs. w_calls w2 = w_calls w @ cs \<and> (\<forall>c \<in> set cs. snd c \<longrightarrow> targets (fst c) = [])"
  proof (cases r)
    case (Inl e')
    with run w1 cs show ?thesis by (auto simp: bindp_def)
  next
    case (Inr x)
    then have "f x w1 = (Inl e, w2)" using run w1 by (simp add: bindp_def)
    then obtain ds where "w_calls w2 = w_calls w1 @ ds" "\<forall>c \<in> set ds. snd c \<longrightarrow> targets (fst c) = []"
      using f [unfolded spares_def] by blast
    with cs show ?thesis by (intro exI [of _ "cs @ ds"]) auto
  qed
qed

lemma spares_perform: "spares (perform sys c)"
  by (auto simp: spares_def perform_def split: prod.split_asm)

lemma spares_lift: "spares (lift r)"
  by (auto simp: spares_def lift_def)

lemma spares_with_err: "spares m \<Longrightarrow> spares (with_err g m)"
  by (auto simp: spares_def with_err_def map_err_Inl split: prod.split_asm)

lemma spares_if: "spares m \<Longrightarrow> spares n \<Longrightarrow> spares (if b then m else n)"
  by simp

lemma spares_total:
  assumes "spares m" and "\<And>x w. \<exists>y w'. f x w = (Inr y, w')"
  shows "spares (bindp m f)"
proof -
  have "m w = (Inl e, w')" if "bindp m f w = (Inl e, w')" for w e w'
  proof (cases "m w")
    case (Pair r w1)
    with that assms(2) [of _ w1] show ?thesis
      by (cases r) (auto simp: bindp_def, metis Inl_Inr_False prod.inject)
  qed
  with assms(1) show ?thesis unfolding spares_def by blast
qed

lemma spares_rename: "spares (transaction_rename sys cx root source target replace)"
  unfolding transaction_rename_def
  by (intro spares_bind spares_total [OF spares_with_err [OF spares_perform]] makes_rules)
    (auto simp: lift_def intro!: spares_bind spares_total [OF spares_with_err [OF spares_perform]] spares_lift makes_rules
      split: prod.split)

section \<open>A successful undo\<close>

lemma split_target_validated: "split_target p = Inr x \<Longrightarrow> \<exists>c. validate_relative_path p = Inr c"
  by (auto simp: split_target_def and_then_Inr map_err_Inr split: option.split_asm sum.split_asm)

lemma rename_paths:
  assumes "transaction_rename sys cx root source target replace w = (Inr x, w2)" and "root_base_path root \<noteq> []"
  obtains s t opens src sn dst tn where "validate_relative_path source = Inr s" "validate_relative_path target = Inr t"
    "w_calls w2 = w_calls w @ opens @ [(RenameAt src sn dst tn replace, True)]"
    "\<forall>c \<in> set opens. targets (fst c) = []"
    "path_eq (path_join (h_path src) sn) (opened_path root s)" "path_eq (path_join (h_path dst) tn) (opened_path root t)"
proof -
  obtain s t where st: "validate_relative_path source = Inr s" "validate_relative_path target = Inr t"
    using assms(1) unfolding transaction_rename_def
    by (auto simp: succeeds split: prod.split_asm dest!: split_target_validated)
  from assms(1,2) st show thesis by (rule rename_succeeds) (rule that [OF st])
qed

lemma attempt_succeeds: "attempt m w = (Inr r, w') \<longleftrightarrow> r = fst (m w) \<and> w' = snd (m w)"
  by (auto simp: attempt_def split: prod.split)

lemma makes_cleanup:
  "makes (touches (\<lambda>p. \<exists>i. path_eq p (path_join (opened_path root ''.tealdrive-trash/info'') (i @ ''.msgpack''))))
     (undo_cleanup sys libs cx root current)"
proof -
  have "validate_relative_path ''.tealdrive-trash/info'' = Inr ''.tealdrive-trash/info''" by code_simp
  then show ?thesis
    unfolding undo_cleanup_def Let_def
    by (intro makes_rules makes_bind) (auto simp: path_eq_def)
qed

definition undone :: "AllowedRoot \<Rightarrow> RelativePath \<Rightarrow> RelativePath \<Rightarrow> bool \<Rightarrow> (SysCall \<times> bool) list \<Rightarrow> bool" where
  "undone root current source trash calls \<longleftrightarrow>
     (\<exists>before src sn dst tn after s t. calls = before @ (RenameAt src sn dst tn False, True) # after
       \<and> (\<forall>c \<in> set before. targets (fst c) = [])
       \<and> validate_relative_path current = Inr s \<and> path_eq (path_join (h_path src) sn) (opened_path root s)
       \<and> validate_relative_path source = Inr t \<and> path_eq (path_join (h_path dst) tn) (opened_path root t)
       \<and> (\<forall>c \<in> set after. trash \<and> touches (\<lambda>p. \<exists>i. path_eq p
            (path_join (opened_path root ''.tealdrive-trash/info'') (i @ ''.msgpack''))) (fst c)))"

lemma undo_run_success:
  assumes "undo_run sys libs cx q record root current expected w = (Inr r, w')" and "root_base_path root \<noteq> []"
  shows "fst (capture sys libs cx root current w) = Inr expected \<and> fully_observed expected
    \<and> context_check cx (op_source_path record) Write = Inr ()
    \<and> (\<exists>calls. w_calls w' = w_calls w @ calls
         \<and> undone root current (op_source_path record) (op_action record = ''trash'') calls)"
proof -
  let ?trash = "op_action record = ''trash''"
  let ?cx = "if ?trash then with_alias cx ''.tealdrive-trash/files'' (source_parent (op_source_path record)) else cx"
  let ?P = "touches (\<lambda>p. \<exists>i. path_eq p (path_join (opened_path root ''.tealdrive-trash/info'') (i @ ''.msgpack'')))"
  obtain w1 w2 w3 where capture: "capture sys libs cx root current w = (Inr expected, w1)" "fully_observed expected"
    and check: "context_check cx (op_source_path record) Write = Inr ()"
    and poll: "poll_cancelled sys w1 = (Inr (), w2)"
    and rename: "transaction_rename sys ?cx root current (op_source_path record) False w2 = (Inr (), w3)"
    and rest: "w' = (if ?trash then snd (undo_cleanup sys libs
        (with_alias cx ''.tealdrive-trash/info'' (source_parent (op_source_path record))) root current w3) else w3)"
    using assms(1) unfolding undo_run_def Let_def
    by (auto simp: succeeds attempt_succeeds map_err_Inr split: if_split_asm)
  obtain cs where cs: "w_calls w1 = w_calls w @ cs" "\<forall>c \<in> set cs. targets (fst c) = []"
    using makes_capture capture(1) by (rule harmless)
  have "makes (touches (\<lambda>_. False)) (poll_cancelled sys)" by (intro makes_rules) simp
  then obtain ds where ds: "w_calls w2 = w_calls w1 @ ds" "\<forall>c \<in> set ds. targets (fst c) = []"
    using poll by (rule harmless)
  obtain s t opens src sn dst tn where r: "validate_relative_path current = Inr s"
      "validate_relative_path (op_source_path record) = Inr t"
      "w_calls w3 = w_calls w2 @ opens @ [(RenameAt src sn dst tn False, True)]"
      "\<forall>c \<in> set opens. targets (fst c) = []"
      "path_eq (path_join (h_path src) sn) (opened_path root s)" "path_eq (path_join (h_path dst) tn) (opened_path root t)"
    using rename assms(2) by (rule rename_paths)
  have "\<exists>after. w_calls w' = w_calls w3 @ after \<and> (\<forall>c \<in> set after. ?trash \<and> ?P (fst c))"
  proof (cases ?trash)
    case True
    then show ?thesis
      using rest makes_cleanup [of root sys libs "with_alias cx ''.tealdrive-trash/info'' (source_parent (op_source_path record))" current,
        unfolded makes_def, rule_format, of w3] by simp
  next
    case False
    then show ?thesis using rest by simp
  qed
  then obtain after where after: "w_calls w' = w_calls w3 @ after" "\<forall>c \<in> set after. ?trash \<and> ?P (fst c)" by blast
  have "undone root current (op_source_path record) ?trash ((cs @ ds @ opens) @ (RenameAt src sn dst tn False, True) # after)"
    unfolding undone_def
    by (intro exI conjI, rule HOL.refl) (use r cs(2) ds(2) after(2) in \<open>auto simp del: touches_simps\<close>)
  moreover have "w_calls w' = w_calls w @ (cs @ ds @ opens) @ (RenameAt src sn dst tn False, True) # after"
    by (simp add: after(1) r(3) ds(1) cs(1))
  ultimately show ?thesis using capture check by auto
qed

lemma undo_run_failure:
  assumes "undo_run sys libs cx q record root current expected w = (Inl r, w')"
  shows "\<exists>cs. w_calls w' = w_calls w @ cs \<and> (\<forall>c \<in> set cs. snd c \<longrightarrow> targets (fst c) = [])"
proof -
  have "spares (undo_run sys libs cx q record root current expected)"
    unfolding undo_run_def Let_def
    by (intro spares_bind spares_if spares_lift spares_total [OF spares_with_err [OF spares_rename]] makes_rules)
      (auto simp: bindp_def attempt_def lift_def split: prod.split)
  with assms show ?thesis by (simp add: spares_def)
qed

lemma undo_run_refuses: "undo_run sys libs cx q record root current expected w = (Inl r, w') \<Longrightarrow> \<not> hr_success r"
  by (auto simp: undo_run_def bindp_def lift_def with_err_def attempt_def map_err_Inl Let_def
      split: prod.split_asm sum.split_asm if_split_asm)

lemma undo_run_answers: "undo_run sys libs cx q record root current expected w = (Inr r, w') \<Longrightarrow> hr_success r"
  by (auto simp: undo_run_def succeeds response_operation_done_def response_success_def Let_def split: if_split_asm)

text \<open>C5: an operation that moved a file is undone safely. A refused undo has changed nothing. A successful one found the
  file with exactly the complete fingerprint that was recorded after the operation, was allowed to write at the place the
  file came from, and made one change, a rename from where the operation moved the file back to where it came from that
  replaces nothing; after it only records of the trash are removed, and only when the operation was one of the trash.\<close>

theorem undo_moves_back_unchanged:
  assumes "undo_execute sys libs cx q config record w = (r, w')" and "op_action record \<noteq> ''chmod''"
    and "\<forall>root \<in> set (cfg_roots config). root_base_path root \<noteq> []"
  shows "\<exists>calls. w_calls w' = w_calls w @ calls
    \<and> (if hr_success r
       then \<exists>root current expected. root \<in> set (cfg_roots config) \<and> root_root_id root = op_root_id record
         \<and> op_target_path record = Some current \<and> op_after record = Some expected \<and> fully_observed expected
         \<and> (let cx' = (if op_action record = ''trash'' then with_alias cx current (op_source_path record) else cx)
            in fst (capture sys libs cx' root current w) = Inr expected
              \<and> context_check cx' (op_source_path record) Write = Inr ())
         \<and> undone root current (op_source_path record) (op_action record = ''trash'') calls
       else \<forall>c \<in> set calls. snd c \<longrightarrow> targets (fst c) = [])"
proof -
  consider (refused) "\<not> hr_success r" "w' = w"
    | (run) root current expected a where "find (\<lambda>root. root_root_id root = op_root_id record) (cfg_roots config) = Some root"
      "op_target_path record = Some current" "op_after record = Some expected"
      "undo_run sys libs (if op_action record = ''trash'' then with_alias cx current (op_source_path record) else cx)
         q record root current expected w = (a, w')" "a = Inl r \<or> a = Inr r"
    using assms(1,2) unfolding undo_execute_def
    by (auto simp: answering_def bindp_def lift_def ok_or_def split: option.split_asm prod.split_asm sum.split_asm)
  then show ?thesis
  proof cases
    case refused
    then show ?thesis by simp
  next
    case run
    have root: "root \<in> set (cfg_roots config)" "root_root_id root = op_root_id record"
      using run(1) by (auto simp: find_Some_iff)
    show ?thesis
    proof (cases a)
      case (Inl e)
      have "\<not> hr_success r" using run(4,5) Inl undo_run_refuses by blast
      with undo_run_failure run(4,5) Inl show ?thesis by auto
    next
      case (Inr e)
      have "hr_success r" using run(4,5) Inr undo_run_answers by blast
      with undo_run_success [OF run(4) [unfolded Inr]] run Inr root assms(3) show ?thesis
        unfolding Let_def by auto
    qed
  qed
qed

section \<open>A move that is undone\<close>

definition moved_stat :: FileStat where
  "moved_stat = \<lparr>md_is_file = True, md_is_dir = False, md_nlink = 1, st_is_symlink = False, st_len = 0, st_modified = None,
     st_uid = 1000, st_gid = 1000, st_mode = 0x1FF, s_dev = 1, s_ino = 7, s_mtime = 0, s_mtime_nsec = 0, s_ctime = 0, s_ctime_nsec = 0\<rparr>"

definition moved_system :: "unit System" where
  "moved_system = example_system\<lparr>sys_fstat := (\<lambda>_ _. Inr moved_stat)\<rparr>"

definition moved_state :: FileState where
  "moved_state = (FileState_metadata moved_stat)\<lparr>fst_content_digest := Some []\<rparr>"

definition moved_record :: OperationRecord where
  "moved_record = \<lparr>op_version = 1, op_id = ''7'', op_request_id = 7, op_account_id = ''alice'', op_generation = 1,
     op_created_at = 0, op_updated_at = 0, op_action = ''move'', op_root_id = ''home'', op_source_path = ''a.txt'',
     op_target_path = Some ''b.txt'', op_requested_mode = None, op_old_mode = None, op_new_mode = None, op_before = None,
     op_after = Some moved_state, op_status = ''completed'', op_error_code = None, op_bytes_read = 0, op_bytes_written = 0,
     op_range_next_offset = None, op_log_reserve_bytes = 0, op_log_storage = None, op_undo_epoch = None,
     op_undo_status = None, op_undo_error_code = None, op_staging_path = None, op_trash_gc_status = None,
     op_staging_gc_status = None\<rparr>"

definition moved_request :: HelperRequest where
  "moved_request = example_request HelperCommand.Move ''b.txt'' (Some ''a.txt'')"

definition moved_undo :: "HelperResponse \<times> unit World" where
  "moved_undo = undo_execute moved_system example_libs None moved_request example_commit_config moved_record
     \<lparr>w_disk = (), w_calls = []\<rparr>"

lemma moved_open: "open_beneath moved_system None root path flags mode w =
   (Inr \<lparr>h_fd = 1, h_path = opened_path root path\<rparr>,
    \<lparr>w_disk = (), w_calls = w_calls w @ [(OpenBase (root_base_path root), True),
       (OpenAt (root_base_path root) (if path = [] then ''.'' else path) flags mode, True)]\<rparr>)"
  if "validate_relative_path path = Inr path" "nul \<notin> set (root_base_path root)"
  using that
  by (simp add: open_beneath_def program_eval moved_system_def example_system_def check_metadata_def example_stat_of_def
      Metadata.truncate_def context_check_def)

lemma moved_perform: "perform moved_system c w = (Inr 1, \<lparr>w_disk = (), w_calls = w_calls w @ [(c, True)]\<rparr>)"
  by (simp add: perform_def moved_system_def example_system_def)

lemma moved_poll: "poll_cancelled moved_system w = (Inr (), \<lparr>w_disk = (), w_calls = w_calls w @ [(Poll, True)]\<rparr>)"
  by (simp add: poll_cancelled_def run_eval moved_perform)

lemma moved_views: "sys_fstat moved_system d fd = Inr moved_stat" "of_read (sys_file moved_system d fd) n k = Inr []"
  by (simp_all add: moved_system_def example_system_def)

lemma moved_read: "\<exists>w'. observe_loop moved_system fd n [] w = (Inr [], w')"
  by (simp add: observe_loop.simps run_eval moved_poll moved_views)

lemma moved_readable: "\<exists>w'. capture_readable_file moved_system example_libs fd w = (Inr moved_state, w')"
proof -
  obtain w1 where "observe_loop moved_system fd 0 [] \<lparr>w_disk = (), w_calls = w_calls w @ [(SeekFd fd 0, True)]\<rparr> = (Inr [], w1)"
    using moved_read by blast
  moreover have "md_is_file moved_stat" "st_len moved_stat = 0" by (simp_all add: moved_stat_def)
  ultimately show ?thesis
    by (simp add: capture_readable_file_def run_eval moved_views moved_perform Let_def FileState_finish_def example_libs_def moved_state_def
        FileState_metadata_def)
qed

lemma moved_paths:
  "validate_relative_path ''b.txt'' = Inr ''b.txt''" "split_target ''b.txt'' = Inr ([], ''b.txt'')"
  "split_target ''a.txt'' = Inr ([], ''a.txt'')" "nul \<notin> set ''a.txt''" "nul \<notin> set ''b.txt''"
  "nul \<notin> set (root_base_path example_root)"
  by code_simp+

lemma moved_capture: "\<exists>w'. capture moved_system example_libs None example_root ''b.txt'' w = (Inr moved_state, w')"
proof -
  let ?h = "\<lparr>h_fd = 1, h_path = opened_path example_root ''b.txt''\<rparr>"
  have m: "md_is_file moved_stat" "st_len moved_stat = 0" by (simp_all add: moved_stat_def)
  have same: "same_metadata (FileState_metadata moved_stat) moved_state"
    by (simp add: same_metadata_def moved_state_def FileState_metadata_def)
  have "\<exists>w'. capture_file moved_system example_libs None example_root ''b.txt'' moved_stat 0 w = (Inr (moved_state, 0), w')" for w
  proof -
    obtain w1 where w1: "open_beneath moved_system None example_root ''b.txt'' (O_RDONLY OR O_NONBLOCK) 0 w = (Inr ?h, w1)"
      using moved_open moved_paths by blast
    obtain w2 where w2: "capture_readable_file moved_system example_libs ?h w1 = (Inr moved_state, w2)"
      using moved_readable by blast
    have "(attempt (open_beneath moved_system None example_root ''b.txt'' (O_RDONLY OR O_NONBLOCK) 0) :: (unit, SandboxError, _) prog) w
        = (Inr (Inr ?h), w1)" by (simp add: attempt_def w1)
    then show ?thesis
      by (simp add: capture_file_def run_eval moved_views m w2 same U64_MAX_def MAX_BYTES_def Let_def del: One_nat_def)
        (simp add: moved_state_def)
  qed
  then obtain w' where "capture_file moved_system example_libs None example_root ''b.txt'' moved_stat 0
      \<lparr>w_disk = (), w_calls = w_calls w @ [(Poll, True), (OpenBase (root_base_path example_root), True),
       (OpenAt (root_base_path example_root) ''b.txt'' O_PATH 0, True)]\<rparr> = (Inr (moved_state, 0), w')" by blast
  then show ?thesis
    by (simp add: capture_def capture_inner.simps run_eval moved_poll moved_open moved_paths moved_views m MAX_NODES_def
        FileState_finish_def example_libs_def Let_def)
      (simp add: moved_state_def FileState_metadata_def)
qed

lemma moved_rename: "\<exists>w'. transaction_rename moved_system None example_root ''b.txt'' ''a.txt'' False w = (Inr (), w')"
  by (simp add: transaction_rename_def run_eval moved_open moved_perform moved_paths example_paths)

lemma moved_undo_succeeds: "hr_success (fst moved_undo)"
proof -
  obtain w1 where w1: "capture moved_system example_libs None example_root ''b.txt'' \<lparr>w_disk = (), w_calls = []\<rparr> = (Inr moved_state, w1)"
    using moved_capture by blast
  obtain w2 where w2: "transaction_rename moved_system None example_root ''b.txt'' ''a.txt'' False
      \<lparr>w_disk = (), w_calls = w_calls w1 @ [(Poll, True)]\<rparr> = (Inr (), w2)"
    using moved_rename by blast
  have "fully_observed moved_state" by (simp add: fully_observed_def moved_state_def FileState_metadata_def moved_stat_def)
  moreover have "cfg_roots example_commit_config = [example_root]"
    by (simp add: example_commit_config_def example_root_def)
  moreover have "root_root_id example_root = ''home''" by (simp add: example_root_def)
  ultimately show ?thesis
    by (simp add: moved_undo_def undo_execute_def undo_run_def moved_record_def run_eval w1 w2 moved_poll context_check_def
        response_operation_done_def response_success_def Let_def)
qed

theorem undo_moves_back_unchanged_witness:
  "hr_success (fst moved_undo) \<and> (\<exists>root. root_root_id root = ''home'' \<and> fully_observed moved_state
    \<and> fst (capture moved_system example_libs None root ''b.txt'' \<lparr>w_disk = (), w_calls = []\<rparr>) = Inr moved_state
    \<and> undone root ''b.txt'' ''a.txt'' False (w_calls (snd moved_undo)))"
proof -
  have run: "undo_execute moved_system example_libs None moved_request example_commit_config moved_record
     \<lparr>w_disk = (), w_calls = []\<rparr> = (fst moved_undo, snd moved_undo)" by (simp add: moved_undo_def)
  have action: "op_action moved_record \<noteq> ''chmod''" by (simp add: moved_record_def)
  have base: "\<forall>root \<in> set (cfg_roots example_commit_config). root_base_path root \<noteq> []"
    by (simp add: example_commit_config_def)
  have fields: "op_action moved_record = ''move''" "op_target_path moved_record = Some ''b.txt''" "op_source_path moved_record = ''a.txt''"
    "op_root_id moved_record = ''home''" "op_after moved_record = Some moved_state" by (simp_all add: moved_record_def)
  from undo_moves_back_unchanged [OF run action base, unfolded fields Let_def] moved_undo_succeeds
  show ?thesis by (auto simp del: split_paired_Ex)
qed

end
