(* ===== verification/TD_Journal.thy ===== *)
theory TD_Journal
  imports TD_Virtuals TD_Observation
begin

text \<open>
  The journal of operations (\<open>src/accounts/journal.rs\<close>), the claims of undo (\<open>src/accounts/undo.rs\<close>) and the removal of
  ledger files (\<open>src/accounts/ledger.rs\<close>). The rows of \<open>security_state\<close> whose keys begin with \<open>operation_v1:\<close>,
  \<open>trash_expiry_v1:\<close> and \<open>staging_expiry_v1:\<close> are tables of their own here, with the record in place of its JSON text;
  the other rows are those of the store. Identifiers are UUIDs, so that a \<open>GLOB\<close> pattern ending in a star is the prefix
  before it. Rows stand in the order in which the database returns them where a query names no order. An operation
  that fails in its transaction leaves the tables as they were, but ledger files it removed stay removed, and the epoch
  is written outside the transaction where the source does so. The length of a record's JSON text, \<open>Uuid::parse_str\<close>,
  the disk of the ledger and new identifiers are parameters.
\<close>

section \<open>Tables\<close>

record Journal =
  jn_store :: Store
  jn_operations :: "(string \<times> OperationRecord) list"
  jn_expiry :: "(string \<times> OperationRecord) list"
  jn_removed :: "string list"

text \<open>The disk is seen after the removal of the ledger files removed so far.\<close>

record JournalEnv =
  je_uuid :: "string \<Rightarrow> string option"
  je_json_len :: "OperationRecord \<Rightarrow> nat"
  je_disk :: "string list \<Rightarrow> DiskView"
  je_remove_file :: "string list \<Rightarrow> string \<Rightarrow> IoError + unit"

definition has_prefix :: "string \<Rightarrow> string \<Rightarrow> bool" where
  "has_prefix p k \<longleftrightarrow> strip_prefix p k \<noteq> None"

definition row_update :: "string \<Rightarrow> 'a \<Rightarrow> (string \<times> 'a) list \<Rightarrow> (string \<times> 'a) list" where
  "row_update k v rows = map (\<lambda>(k', v'). if k' = k then (k', v) else (k', v')) rows"

definition operation_prefix :: "string \<Rightarrow> string" where
  "operation_prefix i = ''operation_v1:'' @ i @ '':''"

definition pad20 :: "nat \<Rightarrow> string" where
  "pad20 n = (let t = show_nat n in replicate (20 - length t) (CHR ''0'') @ t)"

definition operation_key :: "OperationRecord \<Rightarrow> string" where
  "operation_key r = operation_prefix (op_account_id r) @ pad20 (op_created_at r) @ '':'' @ op_id r"

definition journal_action :: "HelperCommand \<Rightarrow> string" where
  "journal_action c =
     (case c of
        HelperCommand.WriteFile \<Rightarrow> ''write''
      | HelperCommand.UploadCommit \<Rightarrow> ''upload''
      | HelperCommand.CreateFolder \<Rightarrow> ''createFolder''
      | HelperCommand.Rename \<Rightarrow> ''rename''
      | HelperCommand.Move \<Rightarrow> ''move''
      | HelperCommand.Copy \<Rightarrow> ''copy''
      | HelperCommand.MoveToTrash \<Rightarrow> ''trash''
      | HelperCommand.RestoreFromTrash \<Rightarrow> ''restore''
      | HelperCommand.DeletePermanently \<Rightarrow> ''delete''
      | HelperCommand.Chmod \<Rightarrow> ''chmod''
      | HelperCommand.CompressZip \<Rightarrow> ''archive''
      | HelperCommand.CompressTarGz \<Rightarrow> ''archive''
      | HelperCommand.ExtractArchive \<Rightarrow> ''extract''
      | HelperCommand.ReadTextFile \<Rightarrow> ''readText''
      | HelperCommand.DownloadFile \<Rightarrow> ''download''
      | HelperCommand.ReadFileRange \<Rightarrow> ''download''
      | _ \<Rightarrow> ''read'')"

definition tracked :: "HelperCommand \<Rightarrow> bool" where
  "tracked c \<longleftrightarrow> c \<in> {HelperCommand.WriteFile, HelperCommand.UploadCommit, HelperCommand.CreateFolder,
     HelperCommand.Rename, HelperCommand.Move, HelperCommand.Copy, HelperCommand.MoveToTrash,
     HelperCommand.RestoreFromTrash, HelperCommand.DeletePermanently, HelperCommand.Chmod, HelperCommand.CompressZip,
     HelperCommand.CompressTarGz, HelperCommand.ExtractArchive, HelperCommand.ReadTextFile,
     HelperCommand.DownloadFile, HelperCommand.ReadFileRange}"

definition journal_encode :: "JournalEnv \<Rightarrow> OperationRecord \<Rightarrow> JournalConfig \<Rightarrow> unit store_result" where
  "journal_encode env r config =
     (if je_json_len env r > jc_max_record_bytes config then Inl StoreError.InvalidInput else Inr ())"

section \<open>Ledger files (\<open>ledger.rs\<close>)\<close>

definition VIRTUAL_HOMES :: string where
  "VIRTUAL_HOMES = ''/home/tealdrive/virtual-homes''"

definition root_owned :: "DiskView \<Rightarrow> string \<Rightarrow> unit store_result" where
  "root_owned disk dir =
     (case dv_symlink_metadata disk dir of
        Inl _ \<Rightarrow> Inl StoreError.Io
      | Inr m \<Rightarrow>
          if \<not> md_is_dir m \<or> st_uid m \<noteq> 0 \<or> st_mode m AND 0x12 \<noteq> 0 then Inl StoreError.UntrustedStore else Inr ())"

fun all_root_owned :: "DiskView \<Rightarrow> string list \<Rightarrow> unit store_result" where
  "all_root_owned disk [] = Inr ()"
| "all_root_owned disk (d # ds) = and_then (root_owned disk d) (\<lambda>_. all_root_owned disk ds)"

definition root_parent :: "DiskView \<Rightarrow> string \<Rightarrow> unit store_result" where
  "root_parent disk path =
     (if \<not> is_absolute path \<or> ParentDir \<in> set (components path) then Inl StoreError.UntrustedStore
      else all_root_owned disk (path_ancestors path))"

definition ledger_parent :: "JournalEnv \<Rightarrow> Account \<Rightarrow> string store_result" where
  "ledger_parent env a =
     (if je_uuid env (acc_id a) = None then Inl StoreError.InvalidInput
      else Inr (path_join (path_join VIRTUAL_HOMES ''.tealdrive-audit'') (acc_id a)))"

text \<open>The ledger files removed so far, with the file of the record when it was there.\<close>

definition remove_record :: "JournalEnv \<Rightarrow> Account \<Rightarrow> OperationRecord \<Rightarrow> string list \<Rightarrow> string list store_result" where
  "remove_record env a r removed =
     (if acc_kind a \<noteq> Virtual then Inr removed
      else if op_account_id r \<noteq> acc_id a then Inl StoreError.Forbidden
      else if je_uuid env (op_id r) = None then Inl StoreError.InvalidInput
      else and_then (ledger_parent env a) (\<lambda>parent.
        let path = path_join parent (op_id r @ ''.json''); disk = je_disk env removed in
        case dv_symlink_metadata disk path of
          Inl e \<Rightarrow> if e = Some 2 then Inr removed else Inl StoreError.Io
        | Inr m \<Rightarrow>
            if \<not> md_is_file m \<or> (st_uid m \<noteq> acc_uid a \<and> \<not> (st_uid m = 0 \<and> acc_status a = Deleted))
              \<or> md_nlink m \<noteq> 1 \<or> st_mode m AND 0x1FF \<noteq> 0x100
            then Inl StoreError.UntrustedStore
            else and_then (root_parent disk path) (\<lambda>_.
              case je_remove_file env removed path of
                Inl _ \<Rightarrow> Inl StoreError.Io
              | Inr _ \<Rightarrow> Inr (removed @ [path]))))"

fun remove_records ::
  "JournalEnv \<Rightarrow> Account \<Rightarrow> OperationRecord list \<Rightarrow> string list \<Rightarrow> unit store_result \<times> string list" where
  "remove_records env a [] removed = (Inr (), removed)"
| "remove_records env a (r # rs) removed =
     (case remove_record env a r removed of
        Inl e \<Rightarrow> (Inl e, removed)
      | Inr removed' \<Rightarrow> remove_records env a rs removed')"

section \<open>Beginning and finishing an operation (\<open>journal.rs\<close>)\<close>

definition config_ok :: "JournalConfig \<Rightarrow> unit store_result" where
  "config_ok config = map_err (\<lambda>_. StoreError.InvalidInput) (JournalConfig_validate config)"

text \<open>The epoch of undo, drawn when there is none.\<close>

definition epoch :: "JournalEnv \<Rightarrow> string \<Rightarrow> Store \<Rightarrow> (string \<times> Store) store_result" where
  "epoch env fresh s =
     (case map_of (security_state s) ''undo_epoch_v1'' of
        Some (SText v) \<Rightarrow> if je_uuid env v = None then Inl StoreError.InvalidInput else Inr (v, s)
      | Some _ \<Rightarrow> Inl StoreError.InvalidInput
      | None \<Rightarrow> Inr (fresh, state_upsert ''undo_epoch_v1'' (SText fresh) s))"

definition writes_output :: "HelperCommand \<Rightarrow> bool" where
  "writes_output c \<longleftrightarrow> c \<in> {HelperCommand.WriteFile, HelperCommand.UploadCommit, HelperCommand.Copy,
     HelperCommand.CompressZip, HelperCommand.CompressTarGz, HelperCommand.ExtractArchive}"

definition planned_staging :: "HelperRequest \<Rightarrow> string \<Rightarrow> RelativePath option" where
  "planned_staging q operation_id =
     (let destination = (if hq_command q \<in> {HelperCommand.WriteFile, HelperCommand.UploadCommit}
        then Some (hq_relative_path q) else hq_target_relative_path q) in
      if writes_output (hq_command q)
      then map_option (\<lambda>path.
        let parent = (case rsplit_once slash path of Some (p, _) \<Rightarrow> p | None \<Rightarrow> []);
            suffix = (case hq_command q of HelperCommand.CompressZip \<Rightarrow> ''.zip''
                      | HelperCommand.CompressTarGz \<Rightarrow> ''.tar.gz'' | _ \<Rightarrow> []) in
        (if parent = [] then [] else parent @ ''/'') @ ''.tdrv-transaction-'' @ operation_id @ suffix) destination
      else None)"

definition planned_target :: "HelperRequest \<Rightarrow> string \<Rightarrow> RelativePath option" where
  "planned_target q operation_id =
     (case hq_command q of
        HelperCommand.MoveToTrash \<Rightarrow> Some (''.tealdrive-trash/files/'' @ operation_id)
      | HelperCommand.Rename \<Rightarrow> map_option (\<lambda>target.
          case rsplit_once slash (hq_relative_path q) of
            Some (parent, _) \<Rightarrow> if parent \<noteq> [] then parent @ ''/'' @ target else target
          | None \<Rightarrow> target) (hq_target_relative_path q)
      | _ \<Rightarrow> hq_target_relative_path q)"

definition new_record :: "Account \<Rightarrow> HelperRequest \<Rightarrow> string \<Rightarrow> string \<Rightarrow> nat \<Rightarrow> OperationRecord" where
  "new_record actor q operation_id ep at =
     \<lparr>op_version = 1, op_id = operation_id, op_request_id = hq_request_id q, op_account_id = acc_id actor,
      op_generation = acc_generation actor, op_created_at = at, op_updated_at = at, op_action = journal_action (hq_command q),
      op_root_id = hq_root_id q, op_source_path = hq_relative_path q, op_target_path = planned_target q operation_id,
      op_requested_mode = map_option unat (hq_chmod_mode q), op_old_mode = None, op_new_mode = None, op_before = None, op_after = None,
      op_status = ''pending'', op_error_code = None, op_bytes_read = 0, op_bytes_written = 0,
      op_range_next_offset = (if hq_command q = HelperCommand.ReadFileRange
        then map_option wo_offset (hq_write_options q) else None),
      op_log_reserve_bytes = 0, op_log_storage = Some ''systemBudget'', op_undo_epoch = Some ep, op_undo_status = None,
      op_undo_error_code = None, op_staging_path = planned_staging q operation_id, op_trash_gc_status = None,
      op_staging_gc_status = None\<rparr>"

text \<open>The next range of a download continues the record of the previous one; \<open>None\<close> when there is none.\<close>

definition resume_range ::
  "JournalEnv \<Rightarrow> Journal \<Rightarrow> Account \<Rightarrow> HelperRequest \<Rightarrow> JournalConfig \<Rightarrow> nat
   \<Rightarrow> (OperationRecord store_result \<times> Journal) option" where
  "resume_range env j actor q config at =
     (if hq_command q \<noteq> HelperCommand.ReadFileRange then None
      else case hq_write_options q of
        None \<Rightarrow> Some (Inl StoreError.InvalidInput, j)
      | Some options \<Rightarrow>
          if hl_max_chunk_size (hq_limits q) = 0 then Some (Inl StoreError.InvalidInput, j)
          else case rev (sort_key fst (filter (\<lambda>(k, r). has_prefix (operation_prefix (acc_id actor)) k
                  \<and> op_request_id r = hq_request_id q) (jn_operations j))) of
            [] \<Rightarrow> None
          | (_, r) # _ \<Rightarrow> Some
              (if op_generation r \<noteq> acc_generation actor \<or> op_root_id r \<noteq> hq_root_id q
                 \<or> op_source_path r \<noteq> hq_relative_path q \<or> op_action r \<noteq> ''download'' \<or> op_status r \<noteq> ''success''
                 \<or> op_range_next_offset r \<noteq> Some (wo_offset options) \<or> at - op_updated_at r > 300
               then (Inl StoreError.Conflict, j)
               else
                 let r' = r\<lparr>op_status := ''pending'', op_updated_at := at\<rparr> in
                 case journal_encode env r' config of
                   Inl e \<Rightarrow> (Inl e, j)
                 | Inr _ \<Rightarrow> (Inr r', j\<lparr>jn_operations := row_update (operation_key r') r' (jn_operations j)\<rparr>)))"

text \<open>Rows past the retention go first, and a full journal gives up its oldest row that cannot be undone any more.\<close>

definition expired_rows :: "nat \<Rightarrow> nat \<Rightarrow> string \<Rightarrow> (string \<times> OperationRecord) list \<Rightarrow> (string \<times> OperationRecord) list" where
  "expired_rows limit before p rows = take limit (filter (\<lambda>(k, r). has_prefix p k \<and> op_created_at r < before) rows)"

definition drop_rows :: "string list \<Rightarrow> (string \<times> 'a) list \<Rightarrow> (string \<times> 'a) list" where
  "drop_rows ks rows = filter (\<lambda>(k, _). k \<notin> set ks) rows"

definition count_rows :: "string \<Rightarrow> (string \<times> 'a) list \<Rightarrow> nat" where
  "count_rows p rows = length (filter (\<lambda>(k, _). has_prefix p k) rows)"

definition journal_full :: "JournalConfig \<Rightarrow> string \<Rightarrow> string \<Rightarrow> (string \<times> 'a) list \<Rightarrow> bool" where
  "journal_full config own all rows \<longleftrightarrow>
     count_rows own rows \<ge> jc_max_entries_per_account config \<or> count_rows all rows \<ge> jc_max_total_entries config"

definition reclaimable :: "nat \<Rightarrow> OperationRecord \<Rightarrow> bool" where
  "reclaimable before r \<longleftrightarrow> op_status r \<in> {''success'', ''failed''}
     \<and> (op_action r \<notin> {''move'', ''rename'', ''trash'', ''chmod''} \<or> op_created_at r < before)"

definition make_room_rows ::
  "JournalEnv \<Rightarrow> Account \<Rightarrow> JournalConfig \<Rightarrow> nat \<Rightarrow> (string \<times> OperationRecord) list \<Rightarrow> string list
   \<Rightarrow> (string \<times> OperationRecord) list store_result \<times> string list" where
  "make_room_rows env actor config at rows removed =
     (let p = operation_prefix (acc_id actor) in
      if \<not> journal_full config p ''operation_v1:'' rows then (Inr rows, removed)
      else case number (at - jc_undo_max_hours config * 3600) of
        Inl e \<Rightarrow> (Inl e, removed)
      | Inr before \<Rightarrow> case sort_key fst (filter (\<lambda>(k, r). has_prefix p k \<and> reclaimable before r) rows) of
        [] \<Rightarrow> (Inl StoreError.QuotaExceeded, removed)
      | (k, r) # _ \<Rightarrow>
          (case remove_record env actor r removed of
             Inl e \<Rightarrow> (Inl e, removed)
           | Inr removed' \<Rightarrow> (Inr (drop_rows [k] rows), removed')))"

text \<open>The token by which maintenance finds what an operation leaves behind.\<close>

definition expiry_key :: "string \<Rightarrow> OperationRecord \<Rightarrow> string" where
  "expiry_key namespace r = namespace @ '':'' @ op_account_id r @ '':'' @ op_id r"

definition insert_expiry ::
  "JournalConfig \<Rightarrow> Account \<Rightarrow> OperationRecord \<Rightarrow> (string \<times> OperationRecord) list
   \<Rightarrow> (string \<times> OperationRecord) list store_result" where
  "insert_expiry config actor r tokens =
     (let namespace = (if op_action r = ''trash'' then ''trash_expiry_v1'' else ''staging_expiry_v1'') in
      if \<not> (op_action r = ''trash'' \<or> op_staging_path r \<noteq> None) then Inr tokens
      else if journal_full config (namespace @ '':'' @ acc_id actor @ '':'') (namespace @ '':'') tokens
      then Inl StoreError.QuotaExceeded
      else if map_of tokens (expiry_key namespace r) \<noteq> None then Inl StoreError.Database
      else Inr (tokens @ [(expiry_key namespace r, r)]))"

definition insert_operation ::
  "JournalEnv \<Rightarrow> Journal \<Rightarrow> Account \<Rightarrow> OperationRecord \<Rightarrow> JournalConfig \<Rightarrow> nat \<Rightarrow> OperationRecord store_result \<times> Journal" where
  "insert_operation env j actor r config at =
     (case journal_encode env r config of
        Inl e \<Rightarrow> (Inl e, j)
      | Inr _ \<Rightarrow>
          if je_json_len env r + 2048 > jc_max_record_bytes config then (Inl StoreError.InvalidInput, j)
          else case number (at - jc_retention_hours config * 3600) of
            Inl e \<Rightarrow> (Inl e, j)
          | Inr before \<Rightarrow>
              let expired = expired_rows 2000 before (operation_prefix (acc_id actor)) (jn_operations j) in
              case remove_records env actor (map snd expired) (jn_removed j) of
                (Inl e, removed) \<Rightarrow> (Inl e, j\<lparr>jn_removed := removed\<rparr>)
              | (Inr _, removed) \<Rightarrow>
                  (case make_room_rows env actor config at
                          (drop_rows (map fst expired) (jn_operations j)) removed of
                     (Inl e, removed) \<Rightarrow> (Inl e, j\<lparr>jn_removed := removed\<rparr>)
                   | (Inr rows, removed) \<Rightarrow>
                       if map_of rows (operation_key r) \<noteq> None then (Inl StoreError.Database, j\<lparr>jn_removed := removed\<rparr>)
                       else case insert_expiry config actor r (jn_expiry j) of
                         Inl e \<Rightarrow> (Inl e, j\<lparr>jn_removed := removed\<rparr>)
                       | Inr tokens \<Rightarrow> (Inr r, j\<lparr>jn_operations := rows @ [(operation_key r, r)], jn_expiry := tokens,
                           jn_removed := removed\<rparr>)))"

definition begin_operation ::
  "JournalEnv \<Rightarrow> string \<Rightarrow> string \<Rightarrow> Journal \<Rightarrow> Account \<Rightarrow> HelperRequest \<Rightarrow> JournalConfig \<Rightarrow> nat
   \<Rightarrow> OperationRecord store_result \<times> Journal" where
  "begin_operation env fresh_id fresh_epoch j a q config at =
     (case config_ok config of
        Inl e \<Rightarrow> (Inl e, j)
      | Inr _ \<Rightarrow>
          if \<not> jc_enabled config \<or> \<not> tracked (hq_command q) \<or> hq_uid q \<noteq> acc_uid a \<or> hq_gid q \<noteq> acc_gid a
            \<or> hq_username q \<noteq> acc_username a \<or> length (hq_relative_path q) > 4096
            \<or> (case hq_target_relative_path q of None \<Rightarrow> False | Some v \<Rightarrow> length v > 4096)
          then (Inl StoreError.InvalidInput, j)
          else case store_authorized (jn_store j) (Account_authority (acc_id a) (acc_generation a)) of
            Inl e \<Rightarrow> (Inl e, j)
          | Inr None \<Rightarrow> (Inl StoreError.Forbidden, j)
          | Inr (Some actor) \<Rightarrow>
              (case resume_range env j actor q config at of
                 Some r \<Rightarrow> r
               | None \<Rightarrow>
                   (case epoch env fresh_epoch (jn_store j) of
                      Inl e \<Rightarrow> (Inl e, j)
                    | Inr (ep, s) \<Rightarrow>
                        insert_operation env (j\<lparr>jn_store := s\<rparr>) actor (new_record actor q fresh_id ep at) config at)))"

text \<open>What a finished record takes over from the answer of the helper.\<close>

definition record_status :: "HelperResponse option \<Rightarrow> string" where
  "record_status response =
     (case response of Some r \<Rightarrow> if hr_success r then ''success'' else ''failed'' | None \<Rightarrow> ''unknown'')"

definition delivered_bytes :: "HelperResponse \<Rightarrow> nat \<Rightarrow> nat store_result" where
  "delivered_bytes response offset =
     (if \<not> hr_success response then Inr 0
      else case hr_payload response of
        HelperResponsePayload.FileRange _ actual d \<Rightarrow>
          if actual = offset then Inr (length d) else Inl StoreError.InvalidInput
      | _ \<Rightarrow> Inl StoreError.InvalidInput)"

definition take_range :: "HelperResponse \<Rightarrow> OperationRecord \<Rightarrow> OperationRecord store_result" where
  "take_range response current =
     (case op_range_next_offset current of
        None \<Rightarrow> Inr (current\<lparr>op_bytes_read := hr_bytes_read response\<rparr>)
      | Some offset \<Rightarrow>
          and_then (delivered_bytes response offset) (\<lambda>n.
          if offset + n > U64_MAX \<or> op_bytes_read current + n > U64_MAX then Inl StoreError.InvalidInput
          else Inr (current\<lparr>op_range_next_offset := Some (offset + n), op_bytes_read := op_bytes_read current + n\<rparr>)))"

definition take_trash_id :: "HelperResponse \<Rightarrow> OperationRecord \<Rightarrow> OperationRecord store_result" where
  "take_trash_id response current =
     (if op_action current = ''trash'' \<and> hr_success response
      then case hr_payload response of
        HelperResponsePayload.TrashEntry entry \<Rightarrow>
          if te_trash_id entry \<noteq> op_id current then Inl StoreError.InvalidInput
          else Inr (current\<lparr>op_target_path := Some (''.tealdrive-trash/files/'' @ te_trash_id entry)\<rparr>)
      | _ \<Rightarrow> Inr current
      else Inr current)"

definition take_response :: "HelperResponse \<Rightarrow> OperationRecord \<Rightarrow> OperationRecord store_result" where
  "take_response response current =
     and_then (take_trash_id response current) (\<lambda>current.
     and_then (take_range response (current\<lparr>op_error_code := hr_error_kind response\<rparr>)) (\<lambda>current.
     let current = current\<lparr>op_bytes_written := hr_bytes_written response\<rparr> in
     Inr (case hr_audit_metadata response of
       None \<Rightarrow> current
     | Some m \<Rightarrow> current\<lparr>op_old_mode := am_old_mode m, op_new_mode := am_new_mode m, op_before := am_before m,
         op_after := am_after m\<rparr>)))"

text \<open>The tokens after an operation: the one of a trashed file stays unless it failed, the one of staged output goes when
  it is published, and emptying or restoring a trashed file retires the token of that file.\<close>

definition finish_tokens ::
  "JournalEnv \<Rightarrow> OperationRecord \<Rightarrow> OperationRecord \<Rightarrow> (string \<times> OperationRecord) list \<Rightarrow> (string \<times> OperationRecord) list" where
  "finish_tokens env record current tokens =
     (let t1 = (if op_action current \<noteq> ''trash'' then tokens
          else if op_status current = ''failed'' then drop_rows [expiry_key ''trash_expiry_v1'' current] tokens
          else row_update (expiry_key ''trash_expiry_v1'' current) current tokens);
          t2 = (if op_staging_path current = None then t1
          else if op_status current = ''success'' then drop_rows [expiry_key ''staging_expiry_v1'' current] t1
          else row_update (expiry_key ''staging_expiry_v1'' current) current t1);
          supplied = (case strip_prefix ''.tealdrive-trash/files/'' (op_source_path record) of
            Some rest \<Rightarrow> rest | None \<Rightarrow> op_source_path record) in
      if op_status current = ''success'' \<and> op_action current \<in> {''delete'', ''restore''}
      then (case je_uuid env supplied of
          Some i \<Rightarrow> drop_rows [''trash_expiry_v1:'' @ op_account_id current @ '':'' @ i] t2
        | None \<Rightarrow> t2)
      else t2)"

definition finish_operation ::
  "JournalEnv \<Rightarrow> Journal \<Rightarrow> OperationRecord \<Rightarrow> HelperResponse option \<Rightarrow> JournalConfig \<Rightarrow> nat
   \<Rightarrow> (OperationRecord \<times> Journal) store_result" where
  "finish_operation env j record response config at =
     and_then (ok_or (map_of (jn_operations j) (operation_key record)) StoreError.NotFound) (\<lambda>current.
     if op_version current \<noteq> 1 \<or> op_id current \<noteq> op_id record \<or> op_account_id current \<noteq> op_account_id record
       \<or> op_status current \<noteq> ''pending''
     then Inl StoreError.Conflict
     else
       let current = current\<lparr>op_updated_at := at, op_log_reserve_bytes := op_log_reserve_bytes record,
         op_log_storage := op_log_storage record, op_status := record_status response\<rparr> in
       and_then (case response of None \<Rightarrow> Inr current | Some r \<Rightarrow> take_response r current) (\<lambda>current.
       and_then (journal_encode env current config) (\<lambda>_.
       Inr (current, j\<lparr>jn_operations := row_update (operation_key record) current (jn_operations j),
         jn_expiry := finish_tokens env record current (jn_expiry j)\<rparr>))))"

section \<open>Reading and ageing\<close>

record HistoryQuery =
  hy_limit :: nat
  hy_cursor :: "string option"
  hy_action :: "string option"
  hy_request_id :: "string option"
  hy_status :: "string option"
  hy_root_id :: "string option"
  hy_path :: "string option"
  hy_from :: "nat option"
  hy_to :: "nat option"

definition HistoryQuery_default :: HistoryQuery where
  "HistoryQuery_default = \<lparr>hy_limit = 100, hy_cursor = None, hy_action = None, hy_request_id = None, hy_status = None,
     hy_root_id = None, hy_path = None, hy_from = None, hy_to = None\<rparr>"

definition bad_filter :: "nat \<Rightarrow> string option \<Rightarrow> bool" where
  "bad_filter n v = (case v of None \<Rightarrow> False | Some t \<Rightarrow> length t > n \<or> list_ex is_control (str_chars t))"

definition HistoryQuery_validate :: "JournalEnv \<Rightarrow> HistoryQuery \<Rightarrow> unit store_result" where
  "HistoryQuery_validate env q =
     (if \<not> (1 \<le> hy_limit q \<and> hy_limit q \<le> 200) \<or> bad_filter 160 (hy_cursor q)
        \<or> (case hy_action q of None \<Rightarrow> False | Some v \<Rightarrow> length v > 32 \<or> \<not> list_all is_ascii_alphanumeric v)
        \<or> (case hy_request_id q of None \<Rightarrow> False | Some v \<Rightarrow> je_uuid env v = None)
        \<or> (case hy_status q of None \<Rightarrow> False | Some v \<Rightarrow> v \<notin> {''pending'', ''success'', ''failed'', ''unknown''})
        \<or> bad_filter 128 (hy_root_id q) \<or> bad_filter 256 (hy_path q)
        \<or> (case hy_from q of None \<Rightarrow> False | Some v \<Rightarrow> v > I64_MAX) \<or> (case hy_to q of None \<Rightarrow> False | Some v \<Rightarrow> v > I64_MAX)
        \<or> (case (hy_from q, hy_to q) of (Some f, Some t) \<Rightarrow> f > t | _ \<Rightarrow> False)
      then Inl StoreError.InvalidInput else Inr ())"

text \<open>The condition of the query; \<open>uuid_text\<close> is \<open>RequestId::to_string\<close>.\<close>

definition optional :: "'a option \<Rightarrow> ('a \<Rightarrow> bool) \<Rightarrow> bool" where
  "optional v p = (case v of None \<Rightarrow> True | Some x \<Rightarrow> p x)"

definition history_selects :: "(Uuid \<Rightarrow> string) \<Rightarrow> string \<Rightarrow> HistoryQuery \<Rightarrow> string \<times> OperationRecord \<Rightarrow> bool" where
  "history_selects uuid_text i q = (\<lambda>(k, r).
     has_prefix (operation_prefix i) k
     \<and> optional (hy_cursor q) (\<lambda>c. k < c)
     \<and> optional (hy_action q) (\<lambda>a. op_action r = a)
     \<and> optional (hy_status q) (\<lambda>t. op_status r = t)
     \<and> optional (hy_root_id q) (\<lambda>t. op_root_id r = t)
     \<and> optional (hy_path q) (\<lambda>p. sublist p (op_source_path r) \<or> (case op_target_path r of None \<Rightarrow> False | Some t \<Rightarrow> sublist p t))
     \<and> optional (hy_from q) (\<lambda>t. op_created_at r \<ge> t)
     \<and> optional (hy_to q) (\<lambda>t. op_created_at r \<le> t)
     \<and> optional (hy_request_id q) (\<lambda>t. uuid_text (op_request_id r) = t))"

definition operation_records_filtered ::
  "JournalEnv \<Rightarrow> (Uuid \<Rightarrow> string) \<Rightarrow> Journal \<Rightarrow> Authority \<Rightarrow> HistoryQuery \<Rightarrow> OperationRecord list store_result" where
  "operation_records_filtered env uuid_text j actor q =
     and_then (HistoryQuery_validate env q) (\<lambda>_.
     and_then (store_authorized (jn_store j) actor) (\<lambda>a.
     and_then (ok_or a StoreError.Forbidden) (\<lambda>a.
     let rows = take (hy_limit q) (rev (sort_key fst (filter (history_selects uuid_text (acc_id a) q) (jn_operations j)))) in
     if list_all (\<lambda>(_, r). op_version r = 1 \<and> op_account_id r = acc_id a) rows then Inr (map snd rows)
     else Inl StoreError.Forbidden)))"

definition operation_records ::
  "JournalEnv \<Rightarrow> (Uuid \<Rightarrow> string) \<Rightarrow> Journal \<Rightarrow> Authority \<Rightarrow> nat \<Rightarrow> string option \<Rightarrow> string option
   \<Rightarrow> OperationRecord list store_result" where
  "operation_records env uuid_text j actor limit cursor filter_text =
     operation_records_filtered env uuid_text j actor
       (HistoryQuery_default\<lparr>hy_limit := limit, hy_cursor := cursor, hy_action := filter_text\<rparr>)"

fun gc_rows ::
  "JournalEnv \<Rightarrow> (string \<times> OperationRecord) list \<Rightarrow> Journal \<Rightarrow> nat \<Rightarrow> nat store_result \<times> Journal" where
  "gc_rows env [] j n = (Inr n, j)"
| "gc_rows env ((k, r) # rows) j n =
     (if op_version r \<noteq> 1 \<or> operation_key r \<noteq> k then (Inl StoreError.InvalidInput, j)
      else case account (jn_store j) (op_account_id r) of
        Inl e \<Rightarrow> (Inl e, j)
      | Inr a \<Rightarrow>
          (case remove_record env a r (jn_removed j) of
             Inl e \<Rightarrow> (Inl e, j)
           | Inr removed \<Rightarrow>
               let kept = filter (\<lambda>row. row \<noteq> (k, r)) (jn_operations j) in
               gc_rows env rows (j\<lparr>jn_operations := kept, jn_removed := removed\<rparr>)
                 (n + (length (jn_operations j) - length kept))))"

definition gc_operations ::
  "JournalEnv \<Rightarrow> bool \<Rightarrow> Journal \<Rightarrow> JournalConfig \<Rightarrow> nat \<Rightarrow> nat store_result \<times> Journal" where
  "gc_operations env euid_root j config at =
     (if \<not> euid_root then (Inl StoreError.Forbidden, j)
      else case config_ok config of
        Inl e \<Rightarrow> (Inl e, j)
      | Inr _ \<Rightarrow>
          (case number (at - jc_retention_hours config * 3600) of
             Inl e \<Rightarrow> (Inl e, j)
           | Inr before \<Rightarrow> gc_rows env (expired_rows 500 before ''operation_v1:'' (jn_operations j)) j 0))"

section \<open>Undo (\<open>accounts/undo.rs\<close>)\<close>

record UndoPreferences =
  upf_hours :: "nat option"
  upf_effective_hours :: nat
  upf_maximum_hours :: nat
  upf_revision :: nat

record UndoCandidate =
  uc_operation :: OperationRecord
  uc_available :: bool
  uc_unavailable_reason :: "string option"
  uc_expires_at :: nat
  uc_expected_state :: "string option"

definition saturating_mul :: "nat \<Rightarrow> nat \<Rightarrow> nat" where
  "saturating_mul a b = min U64_MAX (a * b)"

definition undo_expires_at :: "OperationRecord \<Rightarrow> UndoPreferences \<Rightarrow> nat" where
  "undo_expires_at r prefs = saturating_add (op_created_at r) (saturating_mul (upf_effective_hours prefs) 3600)"

definition incomplete_observation :: "OperationRecord \<Rightarrow> bool" where
  "incomplete_observation r \<longleftrightarrow>
     (case (op_target_path r, op_before r, op_after r) of
        (Some _, Some b, Some a) \<Rightarrow> \<not> fully_observed b \<or> \<not> fully_observed a \<or> \<not> same_inode b a
      | _ \<Rightarrow> True)"

definition unavailable_reason :: "OperationRecord \<Rightarrow> UndoPreferences \<Rightarrow> string \<Rightarrow> nat \<Rightarrow> string option" where
  "unavailable_reason r prefs current_epoch at =
     (if op_status r \<noteq> ''success'' then Some ''operationIncomplete''
      else if op_action r \<notin> {''move'', ''rename'', ''trash'', ''chmod''} then Some ''unsupportedOperation''
      else if op_undo_status r \<noteq> None then Some ''alreadyClaimed''
      else if op_undo_epoch r \<noteq> Some current_epoch then Some ''restoredBackup''
      else if at \<ge> undo_expires_at r prefs then Some ''expired''
      else if op_after r = None \<or> op_before r = None then Some ''missingExpectedState''
      else if op_action r = ''chmod'' \<and> (case op_old_mode r of None \<Rightarrow> True | Some m \<Rightarrow> m div 512 \<noteq> 0)
      then Some ''unsupportedOriginalMode''
      else if op_action r \<noteq> ''chmod'' \<and> incomplete_observation r then Some ''incompleteObservation''
      else None)"

definition candidate :: "OperationRecord \<Rightarrow> UndoPreferences \<Rightarrow> string \<Rightarrow> nat \<Rightarrow> UndoCandidate" where
  "candidate r prefs current_epoch at =
     (let reason = unavailable_reason r prefs current_epoch at in
      \<lparr>uc_operation = r, uc_available = (reason = None), uc_unavailable_reason = reason,
       uc_expires_at = undo_expires_at r prefs, uc_expected_state = map_option fst_digest (op_after r)\<rparr>)"

definition undo_preferences_key :: "string \<Rightarrow> string" where
  "undo_preferences_key i = ''undo_preferences_v1:'' @ i"

definition undo_revision :: "Store \<Rightarrow> string \<Rightarrow> nat store_result" where
  "undo_revision s i =
     (case map_of (security_state s) (undo_preferences_key i) of
        None \<Rightarrow> Inr 0
      | Some (SText t) \<Rightarrow> ok_or (parse_u64 t) StoreError.InvalidInput
      | Some _ \<Rightarrow> Inl StoreError.InvalidInput)"

definition preferences_of :: "Account \<Rightarrow> JournalConfig \<Rightarrow> nat \<Rightarrow> UndoPreferences" where
  "preferences_of a config revision =
     \<lparr>upf_hours = acc_undo_hours a,
      upf_effective_hours = min (case acc_undo_hours a of Some h \<Rightarrow> h | None \<Rightarrow> jc_undo_max_hours config) (jc_undo_max_hours config),
      upf_maximum_hours = jc_undo_max_hours config, upf_revision = revision\<rparr>"

definition undo_preferences :: "Store \<Rightarrow> Authority \<Rightarrow> JournalConfig \<Rightarrow> UndoPreferences store_result" where
  "undo_preferences s actor config =
     and_then (config_ok config) (\<lambda>_.
     and_then (store_authorized s actor) (\<lambda>a.
     and_then (ok_or a StoreError.Forbidden) (\<lambda>a.
     and_then (undo_revision s (acc_id a)) (\<lambda>revision. Inr (preferences_of a config revision)))))"

definition set_undo_preferences ::
  "nat \<Rightarrow> Store \<Rightarrow> Authority \<Rightarrow> JournalConfig \<Rightarrow> nat option \<Rightarrow> nat \<Rightarrow> UndoPreferences store_result \<times> Store" where
  "set_undo_preferences now s actor config hours expected_revision =
     (case and_then (config_ok config) (\<lambda>_.
        if (case hours of None \<Rightarrow> False | Some h \<Rightarrow> \<not> (1 \<le> h \<and> h \<le> jc_undo_max_hours config)) then Inl StoreError.InvalidInput
        else and_then (store_authorized s actor) (\<lambda>a.
          and_then (ok_or a StoreError.Forbidden) (\<lambda>a.
          and_then (undo_revision s (acc_id a)) (\<lambda>current.
          if current \<noteq> expected_revision \<or> current + 1 > I64_MAX then Inl StoreError.Conflict
          else and_then (number now) (\<lambda>t.
            let s1 = s\<lparr>accounts := map (\<lambda>r. if row_id r = acc_id a then r\<lparr>row_undo_hours := hours, row_updated_at := t\<rparr> else r)
                  (accounts s)\<rparr> in
            Inr (state_upsert (undo_preferences_key (acc_id a)) (SText (show_nat (current + 1))) s1)))))) of
        Inl e \<Rightarrow> (Inl e, s)
      | Inr s' \<Rightarrow> (undo_preferences s' actor config, s'))"

text \<open>The row of an operation of an account.\<close>

definition find_operation :: "Journal \<Rightarrow> string \<Rightarrow> string \<Rightarrow> (string \<times> OperationRecord) store_result" where
  "find_operation j i operation_id =
     ok_or (find (\<lambda>(k, r). has_prefix (operation_prefix i) k \<and> op_id r = operation_id) (jn_operations j)) StoreError.NotFound"

definition undo_candidate ::
  "JournalEnv \<Rightarrow> string \<Rightarrow> Journal \<Rightarrow> Authority \<Rightarrow> JournalConfig \<Rightarrow> string \<Rightarrow> nat \<Rightarrow> UndoCandidate store_result \<times> Journal" where
  "undo_candidate env fresh j actor config operation_id at =
     (case and_then (ok_or (je_uuid env operation_id) StoreError.InvalidInput) (\<lambda>_.
        and_then (store_authorized (jn_store j) actor) (\<lambda>a.
        and_then (ok_or a StoreError.Forbidden) (\<lambda>a.
        and_then (find_operation j (acc_id a) operation_id) (\<lambda>(_, r).
        if op_account_id r \<noteq> acc_id a \<or> op_id r \<noteq> operation_id \<or> op_version r \<noteq> 1 then Inl StoreError.InvalidInput
        else and_then (undo_preferences (jn_store j) actor config) (\<lambda>prefs. 
          and_then (epoch env fresh (jn_store j)) (\<lambda>(ep, s). Inr (candidate r prefs ep at, s))))))) of
        Inl e \<Rightarrow> (Inl e, j)
      | Inr (c, s) \<Rightarrow> (Inr c, j\<lparr>jn_store := s\<rparr>))"

definition claim_undo ::
  "JournalEnv \<Rightarrow> string \<Rightarrow> Journal \<Rightarrow> Authority \<Rightarrow> JournalConfig \<Rightarrow> string \<Rightarrow> string \<Rightarrow> nat
   \<Rightarrow> (OperationRecord \<times> Journal) store_result" where
  "claim_undo env fresh j actor config operation_id expected_state at =
     and_then (config_ok config) (\<lambda>_.
     and_then (ok_or (je_uuid env operation_id) StoreError.InvalidInput) (\<lambda>_.
     if length expected_state \<noteq> 64 \<or> \<not> list_all is_ascii_hexdigit expected_state then Inl StoreError.InvalidInput
     else
       and_then (store_authorized (jn_store j) actor) (\<lambda>a.
       and_then (ok_or a StoreError.Forbidden) (\<lambda>a.
       and_then (find_operation j (acc_id a) operation_id) (\<lambda>(k, r).
       and_then (epoch env fresh (jn_store j)) (\<lambda>(ep, s).
       let eligibility = candidate r (preferences_of a config 0) ep at in
       if op_version r \<noteq> 1 \<or> op_account_id r \<noteq> acc_id a \<or> op_id r \<noteq> operation_id \<or> \<not> uc_available eligibility
         \<or> uc_expected_state eligibility \<noteq> Some expected_state
       then Inl StoreError.Conflict
       else
         let r' = r\<lparr>op_undo_status := Some ''pending''\<rparr> in
         and_then (journal_encode env r' config) (\<lambda>_.
         Inr (r', j\<lparr>jn_store := s, jn_operations :=
           map (\<lambda>(k', v). if k' = k \<and> v = r then (k', r') else (k', v)) (jn_operations j)\<rparr>))))))))"

definition finish_undo ::
  "JournalEnv \<Rightarrow> nat \<Rightarrow> Journal \<Rightarrow> OperationRecord \<Rightarrow> JournalConfig \<Rightarrow> HelperResponse option
   \<Rightarrow> (OperationRecord \<times> Journal) store_result" where
  "finish_undo env now j record config response =
     and_then (ok_or (map_of (jn_operations j) (operation_key record)) StoreError.Database) (\<lambda>current.
     if op_id current \<noteq> op_id record \<or> op_account_id current \<noteq> op_account_id record
       \<or> op_undo_status current \<noteq> Some ''pending''
     then Inl StoreError.Conflict
     else
       let current = current\<lparr>op_undo_status := Some (record_status response), op_updated_at := now,
             op_undo_error_code := (case response of None \<Rightarrow> None | Some r \<Rightarrow> hr_error_kind r)\<rparr>;
           tokens = (if op_action current = ''trash'' \<and> op_undo_status current = Some ''success''
             then drop_rows [expiry_key ''trash_expiry_v1'' current] (jn_expiry j) else jn_expiry j) in
       and_then (journal_encode env current config) (\<lambda>_.
       Inr (current, j\<lparr>jn_expiry := tokens, jn_operations := row_update (operation_key record) current (jn_operations j)\<rparr>)))"

end
