(* ===== verification/TD_Claims.thy ===== *)
theory TD_Claims
  imports TD_Journal
begin

text \<open>
  What the journal guarantees over any sequence of its operations: its tables stay within their bounds, and an undo is
  claimed at most once. The locale \<open>journal_invariant\<close> states what an invariant of the rows has to survive (rows that go,
  rows rewritten in place, one new row) and shows that every operation of the journal then keeps it.
\<close>

section \<open>Sequences of operations\<close>

type_synonym operation_rows = "(string \<times> OperationRecord) list"

text \<open>\<open>Accounts\<close> stands for any operation on the accounts of the store.\<close>

datatype (plugins only: code size) JournalOp =
    Begin string string Account HelperRequest nat
  | Finish OperationRecord "HelperResponse option" nat
  | Claim string Authority string string nat
  | FinishUndo nat OperationRecord "HelperResponse option"
  | Candidate string Authority string nat
  | SetPreferences nat Authority "nat option" nat
  | Gc bool nat
  | Accounts Store

definition kept_or :: "Journal \<Rightarrow> ('a \<times> Journal) store_result \<Rightarrow> Journal" where
  "kept_or j r = (case r of Inl _ \<Rightarrow> j | Inr (_, j') \<Rightarrow> j')"

fun journal_exec :: "JournalEnv \<Rightarrow> JournalConfig \<Rightarrow> JournalOp \<Rightarrow> Journal \<Rightarrow> Journal" where
  "journal_exec env config (Begin i ep a q at) j = snd (begin_operation env i ep j a q config at)"
| "journal_exec env config (Finish r response at) j = kept_or j (finish_operation env j r response config at)"
| "journal_exec env config (Claim ep a i expected at) j = kept_or j (claim_undo env ep j a config i expected at)"
| "journal_exec env config (FinishUndo now r response) j = kept_or j (finish_undo env now j r config response)"
| "journal_exec env config (Candidate ep a i at) j = snd (undo_candidate env ep j a config i at)"
| "journal_exec env config (SetPreferences now a hours expected) j =
     j\<lparr>jn_store := snd (set_undo_preferences now (jn_store j) a config hours expected)\<rparr>"
| "journal_exec env config (Gc root at) j = snd (gc_operations env root j config at)"
| "journal_exec env config (Accounts s) j = j\<lparr>jn_store := s\<rparr>"

text \<open>The identifiers given to new operations, and the operations claimed for undo.\<close>

fun begun :: "JournalOp \<Rightarrow> string list" where
  "begun (Begin i _ _ _ _) = [i]"
| "begun _ = []"

fun claimed :: "JournalEnv \<Rightarrow> JournalConfig \<Rightarrow> JournalOp \<Rightarrow> Journal \<Rightarrow> string list" where
  "claimed env config (Claim ep a i expected at) j =
     (case claim_undo env ep j a config i expected at of Inr _ \<Rightarrow> [i] | Inl _ \<Rightarrow> [])"
| "claimed env config _ j = []"

fun journal_run :: "JournalEnv \<Rightarrow> JournalConfig \<Rightarrow> JournalOp list \<Rightarrow> Journal \<Rightarrow> Journal" where
  "journal_run env config [] j = j"
| "journal_run env config (op # ops) j = journal_run env config ops (journal_exec env config op j)"

fun all_claimed :: "JournalEnv \<Rightarrow> JournalConfig \<Rightarrow> JournalOp list \<Rightarrow> Journal \<Rightarrow> string list" where
  "all_claimed env config [] j = []"
| "all_claimed env config (op # ops) j = claimed env config op j @ all_claimed env config ops (journal_exec env config op j)"

definition new_journal :: "Store \<Rightarrow> Journal" where
  "new_journal s = \<lparr>jn_store = s, jn_operations = [], jn_expiry = [], jn_removed = []\<rparr>"

section \<open>Rows\<close>

definition wf_rows :: "operation_rows \<Rightarrow> bool" where
  "wf_rows rows \<longleftrightarrow> distinct (map fst rows) \<and> (\<forall>(k, r) \<in> set rows. k = operation_key r)"

definition same_operation :: "OperationRecord \<Rightarrow> OperationRecord \<Rightarrow> bool" where
  "same_operation r r' \<longleftrightarrow> op_id r' = op_id r \<and> op_account_id r' = op_account_id r \<and> op_created_at r' = op_created_at r
     \<and> (op_undo_status r \<noteq> None \<longrightarrow> op_undo_status r' \<noteq> None)"

lemma same_operation_key: "same_operation r r' \<Longrightarrow> operation_key r' = operation_key r"
  by (simp add: same_operation_def operation_key_def)

lemma row_update_fst [simp]: "map fst (row_update k v rows) = map fst rows"
  by (auto simp: row_update_def)

lemma row_update_length [simp]: "length (row_update k v rows) = length rows"
  by (simp add: row_update_def)

lemma wf_filter: "wf_rows rows \<Longrightarrow> wf_rows (filter P rows)"
  by (auto simp: wf_rows_def distinct_map_filter)

lemma wf_row_update: "wf_rows rows \<Longrightarrow> (k, r) \<in> set rows \<Longrightarrow> same_operation r r' \<Longrightarrow> wf_rows (row_update k r' rows)"
  unfolding wf_rows_def row_update_fst
  by (auto simp: row_update_def same_operation_key split: if_split_asm)

lemma wf_unique: "wf_rows rows \<Longrightarrow> (k, r) \<in> set rows \<Longrightarrow> (k, r2) \<in> set rows \<Longrightarrow> r2 = r"
  unfolding wf_rows_def by (metis eq_key_imp_eq_value)

text \<open>Rewriting one row replaces the record of that row in place.\<close>

lemma row_update_id:
  assumes "wf_rows rows" and "(k, r) \<in> set rows" and "f r' = f r"
  shows "map (\<lambda>(k, x). f x) (row_update k r' rows) = map (\<lambda>(k, x). f x) rows"
  using assms wf_unique by (fastforce simp: row_update_def)

lemma row_update_all: "\<forall>(k, r) \<in> set rows. Q r \<Longrightarrow> Q r' \<Longrightarrow> \<forall>(k, r) \<in> set (row_update k r' rows). Q r"
  by (auto simp: row_update_def split: if_split_asm)

lemma claim_row_update:
  "wf_rows rows \<Longrightarrow> (k, r) \<in> set rows \<Longrightarrow>
     map (\<lambda>(k', v). if k' = k \<and> v = r then (k', r') else (k', v)) rows = row_update k r' rows"
  using wf_unique by (fastforce simp: row_update_def)

lemma wf_append: "wf_rows rows \<Longrightarrow> map_of rows (operation_key r) = None \<Longrightarrow> wf_rows (rows @ [(operation_key r, r)])"
  by (auto simp: wf_rows_def map_of_eq_None_iff)

section \<open>Bounds\<close>

definition of_account_rows :: "string \<Rightarrow> operation_rows \<Rightarrow> operation_rows" where
  "of_account_rows i rows = filter (\<lambda>(k, r). op_account_id r = i) rows"

definition rows_bounded :: "JournalEnv \<Rightarrow> JournalConfig \<Rightarrow> operation_rows \<Rightarrow> bool" where
  "rows_bounded env config rows \<longleftrightarrow> wf_rows rows
     \<and> (\<forall>(k, r) \<in> set rows. CHR '':'' \<notin> set (op_account_id r) \<and> je_json_len env r \<le> jc_max_record_bytes config)
     \<and> (\<forall>i. length (of_account_rows i rows) \<le> jc_max_entries_per_account config)
     \<and> length rows \<le> jc_max_total_entries config"

definition room :: "JournalConfig \<Rightarrow> string \<Rightarrow> operation_rows \<Rightarrow> bool" where
  "room config i rows \<longleftrightarrow> length (of_account_rows i rows) < jc_max_entries_per_account config
     \<and> length rows < jc_max_total_entries config"

lemma has_prefix_iff: "has_prefix p k \<longleftrightarrow> prefix p k"
  by (simp add: has_prefix_def strip_prefix_def)

lemma operation_key_prefixes: "has_prefix ''operation_v1:'' (operation_key r)" "has_prefix (operation_prefix (op_account_id r)) (operation_key r)"
  unfolding has_prefix_iff operation_key_def operation_prefix_def by simp_all

lemma colon_split: "c \<notin> set a \<Longrightarrow> c \<notin> set b \<Longrightarrow> a @ c # x = b @ c # y \<Longrightarrow> a = b"
proof (induction a arbitrary: b)
  case Nil
  then show ?case by (cases b) auto
next
  case (Cons d a)
  then show ?case by (cases b) auto
qed

lemma own_prefix:
  assumes "CHR '':'' \<notin> set i" and "CHR '':'' \<notin> set (op_account_id r)"
  shows "has_prefix (operation_prefix i) (operation_key r) \<longleftrightarrow> op_account_id r = i"
proof
  assume "has_prefix (operation_prefix i) (operation_key r)"
  then obtain t where "operation_key r = operation_prefix i @ t"
    unfolding has_prefix_iff by (rule prefixE)
  then have "op_account_id r @ CHR '':'' # pad20 (op_created_at r) @ '':'' @ op_id r = i @ CHR '':'' # t"
    by (simp add: operation_key_def operation_prefix_def)
  then show "op_account_id r = i" using colon_split [OF assms(2,1)] by blast
qed (use operation_key_prefixes in auto)

lemma count_total: "wf_rows rows \<Longrightarrow> count_rows ''operation_v1:'' rows = length rows"
  by (auto simp: count_rows_def wf_rows_def operation_key_prefixes intro!: arg_cong [where f = length] filter_True)

lemma count_own:
  assumes "rows_bounded env config rows" and "CHR '':'' \<notin> set i"
  shows "count_rows (operation_prefix i) rows = length (of_account_rows i rows)"
proof -
  have "filter (\<lambda>(k, _). has_prefix (operation_prefix i) k) rows = of_account_rows i rows"
    unfolding of_account_rows_def
  proof (rule filter_cong)
    fix x
    assume "x \<in> set rows"
    then have "fst x = operation_key (snd x)" "CHR '':'' \<notin> set (op_account_id (snd x))"
      using assms(1) by (auto simp: rows_bounded_def wf_rows_def dest!: bspec [where x = x] split: prod.split_asm)
    then show "(case x of (k, _) \<Rightarrow> has_prefix (operation_prefix i) k) = (case x of (k, r) \<Rightarrow> op_account_id r = i)"
      using own_prefix [OF assms(2)] by (simp add: case_prod_beta)
  qed simp
  then show ?thesis by (simp add: count_rows_def)
qed

lemma of_account_filter: "of_account_rows i (filter P rows) = filter P (of_account_rows i rows)"
  by (simp add: of_account_rows_def conj_commute cong: conj_cong)

lemma bounded_filter: "rows_bounded env config rows \<Longrightarrow> rows_bounded env config (filter P rows)"
  unfolding rows_bounded_def of_account_filter
  by (auto simp: wf_filter intro: order_trans [OF length_filter_le])

lemma account_rows_length: "length (of_account_rows i rows) = length (filter (\<lambda>x. x = i) (map (\<lambda>(k, r). op_account_id r) rows))"
  by (induction rows) (auto simp: of_account_rows_def)

lemma bounded_update:
  assumes "rows_bounded env config rows" and "(k, r) \<in> set rows" and "same_operation r r'"
    and "je_json_len env r' \<le> jc_max_record_bytes config"
  shows "rows_bounded env config (row_update k r' rows)"
proof -
  have wf: "wf_rows rows" using assms(1) by (simp add: rows_bounded_def)
  have "map (\<lambda>(k, r). op_account_id r) (row_update k r' rows) = map (\<lambda>(k, r). op_account_id r) rows"
    using wf assms(2,3) by (intro row_update_id) (simp_all add: same_operation_def)
  then have "length (of_account_rows i (row_update k r' rows)) = length (of_account_rows i rows)" for i
    by (simp add: account_rows_length)
  moreover have "\<forall>(k, r) \<in> set (row_update k r' rows). CHR '':'' \<notin> set (op_account_id r) \<and> je_json_len env r \<le> jc_max_record_bytes config"
    using assms by (intro row_update_all) (auto simp: rows_bounded_def same_operation_def dest!: bspec)
  ultimately show ?thesis
    using assms(1) wf_row_update [OF wf assms(2,3)] by (simp add: rows_bounded_def)
qed

lemma bounded_append:
  assumes "rows_bounded env config rows" and "room config (op_account_id r) rows" and "CHR '':'' \<notin> set (op_account_id r)"
    and "je_json_len env r \<le> jc_max_record_bytes config" and "map_of rows (operation_key r) = None"
  shows "rows_bounded env config (rows @ [(operation_key r, r)])"
  using assms wf_append [of rows r] unfolding rows_bounded_def room_def
  by (auto simp: of_account_rows_def)

section \<open>Claims\<close>

definition claims_ok :: "string set \<Rightarrow> string set \<Rightarrow> operation_rows \<Rightarrow> bool" where
  "claims_ok done_ids used rows \<longleftrightarrow> wf_rows rows \<and> distinct (map (\<lambda>(k, r). op_id r) rows)
     \<and> (\<forall>(k, r) \<in> set rows. op_id r \<in> used \<and> (op_id r \<in> done_ids \<longrightarrow> op_undo_status r \<noteq> None)) \<and> done_ids \<subseteq> used"

lemma claims_filter: "claims_ok c u rows \<Longrightarrow> claims_ok c u (filter P rows)"
  by (auto simp: claims_ok_def wf_filter distinct_map_filter)

lemma claims_update:
  assumes "claims_ok c u rows" and "(k, r) \<in> set rows" and "same_operation r r'"
  shows "claims_ok c u (row_update k r' rows)"
proof -
  have wf: "wf_rows rows" using assms(1) by (simp add: claims_ok_def)
  have "map (\<lambda>(k, r). op_id r) (row_update k r' rows) = map (\<lambda>(k, r). op_id r) rows"
    using wf assms(2,3) by (intro row_update_id) (simp_all add: same_operation_def)
  moreover have "\<forall>(k, r) \<in> set (row_update k r' rows). op_id r \<in> u \<and> (op_id r \<in> c \<longrightarrow> op_undo_status r \<noteq> None)"
    using assms by (intro row_update_all) (auto simp: claims_ok_def same_operation_def dest!: bspec)
  ultimately show ?thesis
    using assms(1) wf_row_update [OF wf assms(2,3)] by (simp add: claims_ok_def)
qed

lemma claims_append:
  assumes "claims_ok c u rows" and "op_id r \<notin> u" and "map_of rows (operation_key r) = None"
  shows "claims_ok c (insert (op_id r) u) (rows @ [(operation_key r, r)])"
  using assms wf_append [of rows r] unfolding claims_ok_def by auto

section \<open>A new row\<close>

lemma drop_rows_filter: "drop_rows ks rows = filter (\<lambda>x. fst x \<notin> set ks) rows"
  unfolding drop_rows_def by (rule filter_cong) auto

lemma dropped_room:
  assumes "rows_bounded env config rows" and "(k, r) \<in> set rows" and "op_account_id r = i"
  shows "room config i (drop_rows [k] rows)"
proof -
  have "(k, r) \<in> set (of_account_rows i rows)" using assms by (simp add: of_account_rows_def)
  then have "length (filter (\<lambda>x. fst x \<noteq> k) (of_account_rows i rows)) < length (of_account_rows i rows)"
    by (rule length_filter_less) simp
  moreover have "length (filter (\<lambda>x. fst x \<noteq> k) rows) < length rows"
    using assms(2) by (rule length_filter_less) simp
  ultimately show ?thesis
    using assms(1) by (auto simp: room_def drop_rows_filter of_account_filter rows_bounded_def intro: less_le_trans)
qed

lemma make_room_rows_spec:
  assumes "make_room_rows env a config at rows removed = (Inr rows', removed')"
  shows "(\<exists>P. rows' = filter P rows)
    \<and> (rows_bounded env config rows \<and> CHR '':'' \<notin> set (acc_id a) \<longrightarrow> room config (acc_id a) rows')"
proof (cases "journal_full config (operation_prefix (acc_id a)) ''operation_v1:'' rows")
  case False
  then have "rows' = rows" using assms by (simp add: make_room_rows_def)
  moreover have "rows = filter (\<lambda>_. True) rows" by simp
  moreover have "room config (acc_id a) rows" if "rows_bounded env config rows" "CHR '':'' \<notin> set (acc_id a)"
    using False count_own [OF that] count_total [of rows] that(1)
    by (simp add: journal_full_def room_def rows_bounded_def)
  ultimately show ?thesis by blast
next
  case True
  with assms obtain k r before rest where pick: "sort_key fst (filter (\<lambda>(k, r). has_prefix (operation_prefix (acc_id a)) k
      \<and> reclaimable before r) rows) = (k, r) # rest" and rows': "rows' = drop_rows [k] rows"
    by (auto simp: make_room_rows_def Let_def split: sum.split_asm list.split_asm prod.split_asm)
  have "(k, r) \<in> set (sort_key fst (filter (\<lambda>(k, r). has_prefix (operation_prefix (acc_id a)) k \<and> reclaimable before r) rows))"
    unfolding pick by simp
  then have mem: "(k, r) \<in> set rows" "has_prefix (operation_prefix (acc_id a)) k" by auto
  have "room config (acc_id a) rows'" if b: "rows_bounded env config rows" and "CHR '':'' \<notin> set (acc_id a)"
  proof -
    have "k = operation_key r" "CHR '':'' \<notin> set (op_account_id r)"
      using b mem(1) by (auto simp: rows_bounded_def wf_rows_def)
    then have "op_account_id r = acc_id a" using mem(2) own_prefix that(2) by blast
    then show ?thesis unfolding rows' using b mem(1) by (intro dropped_room)
  qed
  then show ?thesis unfolding rows' drop_rows_filter by blast
qed

text \<open>A new row comes after rows that went, with room for it.\<close>

definition row_inserted :: "JournalEnv \<Rightarrow> JournalConfig \<Rightarrow> OperationRecord \<Rightarrow> operation_rows \<Rightarrow> operation_rows \<Rightarrow> bool" where
  "row_inserted env config r rows rows2 \<longleftrightarrow> (\<exists>P. rows2 = filter P rows @ [(operation_key r, r)]
     \<and> map_of (filter P rows) (operation_key r) = None \<and> je_json_len env r \<le> jc_max_record_bytes config
     \<and> (rows_bounded env config rows \<and> CHR '':'' \<notin> set (op_account_id r) \<longrightarrow> room config (op_account_id r) (filter P rows)))"

lemma insert_operation_rows:
  assumes run: "insert_operation env j a r config at = (res, j')" and "op_account_id r = acc_id a"
  shows "jn_store j' = jn_store j"
    and "jn_operations j' = jn_operations j \<or> row_inserted env config r (jn_operations j) (jn_operations j')"
proof -
  show "jn_store j' = jn_store j"
    using run by (auto simp: insert_operation_def Let_def split: sum.split_asm prod.split_asm if_split_asm)
  consider (same) "jn_operations j' = jn_operations j"
    | (new) ks removed rows removed' where "make_room_rows env a config at (drop_rows ks (jn_operations j)) removed = (Inr rows, removed')"
      "map_of rows (operation_key r) = None" "je_json_len env r \<le> jc_max_record_bytes config"
      "jn_operations j' = rows @ [(operation_key r, r)]"
    using run by (auto simp: insert_operation_def journal_encode_def Let_def split: sum.split_asm prod.split_asm if_split_asm)
  then show "jn_operations j' = jn_operations j \<or> row_inserted env config r (jn_operations j) (jn_operations j')"
  proof cases
    case new
    obtain P where P: "rows = filter P (drop_rows ks (jn_operations j))"
      and room: "rows_bounded env config (drop_rows ks (jn_operations j)) \<and> CHR '':'' \<notin> set (acc_id a) \<longrightarrow> room config (acc_id a) rows"
      using make_room_rows_spec [OF new(1)] by blast
    have rows: "filter (\<lambda>x. fst x \<notin> set ks \<and> P x) (jn_operations j) = rows"
      by (simp add: P drop_rows_filter conj_commute)
    have "row_inserted env config r (jn_operations j) (rows @ [(operation_key r, r)])"
      unfolding row_inserted_def
      by (rule exI [of _ "\<lambda>x. fst x \<notin> set ks \<and> P x"])
        (use new(2,3) room assms(2) bounded_filter in \<open>auto simp: rows drop_rows_filter\<close>)
    then show ?thesis using new(4) by simp
  qed simp
qed

section \<open>A row rewritten in place\<close>

definition row_rewritten :: "JournalEnv \<Rightarrow> JournalConfig \<Rightarrow> operation_rows \<Rightarrow> operation_rows \<Rightarrow> bool" where
  "row_rewritten env config rows rows2 \<longleftrightarrow> (\<exists>k r r'. (k, r) \<in> set rows \<and> same_operation r r'
     \<and> je_json_len env r' \<le> jc_max_record_bytes config \<and> rows2 = row_update k r' rows)"

lemma encoded: "journal_encode env r config = Inr () \<longleftrightarrow> je_json_len env r \<le> jc_max_record_bytes config"
  by (auto simp: journal_encode_def)

lemma resume_range_rows:
  assumes "resume_range env j a q config at = Some (res, j')" and "wf_rows (jn_operations j)"
  shows "jn_store j' = jn_store j" and "jn_operations j' = jn_operations j \<or> row_rewritten env config (jn_operations j) (jn_operations j')"
proof -
  let ?sorted = "rev (sort_key fst (filter (\<lambda>(k, r). has_prefix (operation_prefix (acc_id a)) k
    \<and> op_request_id r = hq_request_id q) (jn_operations j)))"
  show "jn_store j' = jn_store j"
    using assms(1) by (auto simp: resume_range_def Let_def split: if_split_asm option.split_asm list.split_asm sum.split_asm)
  show "jn_operations j' = jn_operations j \<or> row_rewritten env config (jn_operations j) (jn_operations j')"
  proof (cases ?sorted)
    case Nil
    with assms(1) show ?thesis by (simp add: resume_range_def split: if_split_asm option.split_asm)
  next
    case (Cons row rest)
    obtain k r where row: "row = (k, r)" by (cases row)
    let ?r = "r\<lparr>op_status := ''pending'', op_updated_at := at\<rparr>"
    have "(k, r) \<in> set ?sorted" unfolding Cons row by simp
    then have mem: "(k, r) \<in> set (jn_operations j)" by auto
    then have key: "operation_key r = k" using assms(2) by (auto simp: wf_rows_def)
    have same: "same_operation r ?r" by (simp add: same_operation_def)
    have "j' = j \<or> je_json_len env ?r \<le> jc_max_record_bytes config \<and> jn_operations j' = row_update k ?r (jn_operations j)"
      using assms(1) unfolding resume_range_def Cons row Let_def
      by (simp add: journal_encode_def same_operation_key [OF same] key split: if_split_asm option.split_asm) auto
    with mem same show ?thesis unfolding row_rewritten_def by blast
  qed
qed

lemma take_response_same: "take_response response r = Inr r' \<Longrightarrow>
    op_id r' = op_id r \<and> op_account_id r' = op_account_id r \<and> op_created_at r' = op_created_at r \<and> op_undo_status r' = op_undo_status r"
  by (auto simp: take_response_def take_range_def take_trash_id_def and_then_Inr Let_def
      split: if_split_asm option.split_asm HelperResponsePayload.split_asm)

lemma finish_operation_rows:
  assumes "finish_operation env j record response config at = Inr (x, j')"
  shows "jn_store j' = jn_store j" and "row_rewritten env config (jn_operations j) (jn_operations j')"
proof -
  obtain current where found: "map_of (jn_operations j) (operation_key record) = Some current"
    and same: "same_operation current x" and len: "je_json_len env x \<le> jc_max_record_bytes config"
    and j': "jn_store j' = jn_store j" "jn_operations j' = row_update (operation_key record) x (jn_operations j)"
    using assms
    by (auto simp: finish_operation_def and_then_Inr ok_or_Inr Let_def encoded same_operation_def
        split: if_split_asm option.split_asm dest!: take_response_same)
  show "jn_store j' = jn_store j" by (rule j'(1))
  show "row_rewritten env config (jn_operations j) (jn_operations j')"
    unfolding row_rewritten_def using map_of_SomeD [OF found] same len j'(2) by blast
qed

lemma finish_undo_rows:
  assumes "finish_undo env now j record config response = Inr (x, j')"
  shows "jn_store j' = jn_store j" and "row_rewritten env config (jn_operations j) (jn_operations j')"
proof -
  obtain current where found: "map_of (jn_operations j) (operation_key record) = Some current"
    and same: "same_operation current x" and len: "je_json_len env x \<le> jc_max_record_bytes config"
    and j': "jn_store j' = jn_store j" "jn_operations j' = row_update (operation_key record) x (jn_operations j)"
    using assms
    by (auto simp: finish_undo_def and_then_Inr ok_or_Inr Let_def encoded same_operation_def split: if_split_asm)
  show "jn_store j' = jn_store j" by (rule j'(1))
  show "row_rewritten env config (jn_operations j) (jn_operations j')"
    unfolding row_rewritten_def using map_of_SomeD [OF found] same len j'(2) by blast
qed

lemma claim_undo_rows:
  assumes "claim_undo env fresh j actor config i expected at = Inr (x, j')" and "wf_rows (jn_operations j)"
  obtains k r s where "(k, r) \<in> set (jn_operations j)" "op_id r = i" "op_undo_status r = None"
    "x = r\<lparr>op_undo_status := Some ''pending''\<rparr>" "je_json_len env x \<le> jc_max_record_bytes config"
    "jn_operations j' = row_update k x (jn_operations j)" "accounts (jn_store j') = accounts (jn_store j)"
proof -
  obtain a k r ep s where found: "find_operation j (acc_id a) i = Inr (k, r)"
    and ep: "epoch env fresh (jn_store j) = Inr (ep, s)" and "op_id r = i" and un: "uc_available (candidate r (preferences_of a config 0) ep at)"
    and x: "x = r\<lparr>op_undo_status := Some ''pending''\<rparr>" "je_json_len env x \<le> jc_max_record_bytes config"
    and j': "j' = j\<lparr>jn_store := s, jn_operations :=
           map (\<lambda>(k', v). if k' = k \<and> v = r then (k', x) else (k', v)) (jn_operations j)\<rparr>"
    using assms(1)
    by (auto simp: claim_undo_def and_then_Inr ok_or_Inr Let_def encoded split: if_split_asm)
  have mem: "(k, r) \<in> set (jn_operations j)"
    using found by (auto simp: find_operation_def ok_or_Inr find_Some_iff in_set_conv_nth)
  have "op_undo_status r = None"
    using un by (simp add: candidate_def unavailable_reason_def Let_def split: if_split_asm)
  moreover have "accounts s = accounts (jn_store j)"
    using ep by (auto simp: epoch_def state_upsert_def split: option.split_asm StateValue.split_asm if_split_asm)
  ultimately show thesis
    using that [OF mem \<open>op_id r = i\<close> _ x] claim_row_update [OF assms(2) mem] by (simp add: j')
qed

lemma gc_rows_filter: "\<exists>P. jn_operations (snd (gc_rows env rows j n)) = filter P (jn_operations j)"
proof (induction rows arbitrary: j n)
  case Nil
  show ?case by (rule exI [of _ "\<lambda>_. True"]) simp
next
  case (Cons row rows)
  obtain k r where row: "row = (k, r)" by (cases row)
  have same: "\<exists>P. jn_operations j = filter P (jn_operations j)" by (rule exI [of _ "\<lambda>_. True"]) simp
  have rest: "\<exists>P. jn_operations (snd (gc_rows env rows (j\<lparr>jn_operations := filter (\<lambda>row. row \<noteq> (k, r)) (jn_operations j),
      jn_removed := removed\<rparr>) m)) = filter P (jn_operations j)" for removed m
    using Cons.IH [of "j\<lparr>jn_operations := filter (\<lambda>row. row \<noteq> (k, r)) (jn_operations j), jn_removed := removed\<rparr>" m]
    by (auto simp: filter_filter)
  show ?case unfolding row using same rest by (simp add: Let_def split: sum.split)
qed

section \<open>Every operation\<close>

lemma epoch_accounts: "epoch env fresh s = Inr (ep, s') \<Longrightarrow> accounts s' = accounts s"
  by (auto simp: epoch_def state_upsert_def split: option.split_asm StateValue.split_asm if_split_asm)

lemma authorized_id: "store_authorized s actor = Inr (Some a) \<Longrightarrow> acc_id a \<in> row_id ` set (accounts s)"
  by (auto simp: store_authorized_def account_def find_row_def row_account_def and_then_Inr ok_or_Inr find_Some_iff
      split: Authority.split_asm if_split_asm)

lemma new_record_ids: "op_id (new_record a q i ep at) = i" "op_account_id (new_record a q i ep at) = acc_id a"
  by (simp_all add: new_record_def)

lemma begin_operation_rows:
  assumes run: "begin_operation env i ep j a q config at = (res, j')" and wf: "wf_rows (jn_operations j)"
  shows "accounts (jn_store j') = accounts (jn_store j)
    \<and> (jn_operations j' = jn_operations j \<or> row_rewritten env config (jn_operations j) (jn_operations j')
       \<or> (\<exists>r. op_id r = i \<and> op_account_id r \<in> row_id ` set (accounts (jn_store j))
            \<and> row_inserted env config r (jn_operations j) (jn_operations j')))"
proof -
  consider (same) "j' = j"
    | (range) actor where "resume_range env j actor q config at = Some (res, j')"
    | (new) actor e s where "store_authorized (jn_store j) (Account_authority (acc_id a) (acc_generation a)) = Inr (Some actor)"
      "epoch env ep (jn_store j) = Inr (e, s)"
      "insert_operation env (j\<lparr>jn_store := s\<rparr>) actor (new_record actor q i e at) config at = (res, j')"
    using run unfolding begin_operation_def
    by (simp split: sum.split_asm option.split_asm prod.split_asm if_split_asm)
  then show ?thesis
  proof cases
    case range
    then show ?thesis using resume_range_rows [OF range wf] by auto
  next
    case new
    show ?thesis
      using insert_operation_rows [OF new(3)] epoch_accounts [OF new(2)] authorized_id [OF new(1)] new_record_ids
      by (auto intro!: exI [of _ "new_record actor q i e at"])
  qed simp
qed

lemma candidate_rows:
  "jn_operations (snd (undo_candidate env ep j actor config i at)) = jn_operations j
   \<and> accounts (jn_store (snd (undo_candidate env ep j actor config i at))) = accounts (jn_store j)"
  by (auto simp: undo_candidate_def and_then_Inr dest: epoch_accounts split: sum.split if_split_asm)

lemma gc_operations_rows:
  "(\<exists>P. jn_operations (snd (gc_operations env root j config at)) = filter P (jn_operations j))
   \<and> jn_store (snd (gc_operations env root j config at)) = jn_store j"
proof -
  have "jn_store (snd (gc_rows env rows j n)) = jn_store j" for rows n
    by (induction rows arbitrary: j n) (auto simp: Let_def split: sum.split)
  moreover have "\<exists>P. jn_operations j = filter P (jn_operations j)" by (rule exI [of _ "\<lambda>_. True"]) simp
  ultimately show ?thesis using gc_rows_filter by (simp add: gc_operations_def split: sum.split)
qed

lemma preferences_ids: "map row_id (accounts (snd (set_undo_preferences now s a config hours e))) = map row_id (accounts s)"
  by (auto simp: set_undo_preferences_def and_then_Inr state_upsert_def Let_def split: sum.split if_split_asm)

definition plain_accounts :: "(string \<Rightarrow> bool) \<Rightarrow> Store \<Rightarrow> bool" where
  "plain_accounts plain s \<longleftrightarrow> (\<forall>r \<in> set (accounts s). plain (row_id r))"

fun plain_op :: "(string \<Rightarrow> bool) \<Rightarrow> JournalOp \<Rightarrow> bool" where
  "plain_op plain (Accounts s) \<longleftrightarrow> plain_accounts plain s"
| "plain_op plain _ \<longleftrightarrow> True"

lemma plain_same: "map row_id (accounts s') = map row_id (accounts s) \<Longrightarrow> plain_accounts plain s' = plain_accounts plain s"
  unfolding plain_accounts_def by (metis (mono_tags, lifting) image_iff list.set_map)

locale journal_invariant =
  fixes env :: JournalEnv and config :: JournalConfig and plain :: "string \<Rightarrow> bool"
    and I :: "string set \<Rightarrow> operation_rows \<Rightarrow> bool"
  assumes rows_wf: "I used rows \<Longrightarrow> wf_rows rows"
    and kept_dropping: "I used rows \<Longrightarrow> I used (filter P rows)"
    and kept_rewriting: "I used rows \<Longrightarrow> row_rewritten env config rows rows' \<Longrightarrow> I used rows'"
    and kept_inserting: "I used rows \<Longrightarrow> row_inserted env config r rows rows' \<Longrightarrow> plain (op_account_id r) \<Longrightarrow>
      op_id r \<notin> used \<Longrightarrow> I (insert (op_id r) used) rows'"
    and kept_using: "I used rows \<Longrightarrow> I (insert i used) rows"
begin

definition holds :: "string set \<Rightarrow> Journal \<Rightarrow> bool" where
  "holds used j \<longleftrightarrow> I used (jn_operations j) \<and> plain_accounts plain (jn_store j)"

lemma begin_keeps:
  assumes run: "begin_operation env i ep j a q config at = (res, j')" and h: "holds used j" and "i \<notin> used"
  shows "holds (insert i used) j'"
proof -
  have I: "I used (jn_operations j)" and pl: "plain_accounts plain (jn_store j)" using h by (simp_all add: holds_def)
  have "plain_accounts plain (jn_store j')"
    using begin_operation_rows [OF run rows_wf [OF I]] pl by (simp add: plain_accounts_def)
  moreover consider "jn_operations j' = jn_operations j" | "row_rewritten env config (jn_operations j) (jn_operations j')"
    | r where "op_id r = i" "op_account_id r \<in> row_id ` set (accounts (jn_store j))"
      "row_inserted env config r (jn_operations j) (jn_operations j')"
    using begin_operation_rows [OF run rows_wf [OF I]] by blast
  then have "I (insert i used) (jn_operations j')"
  proof cases
    case 1
    then show ?thesis using I kept_using by simp
  next
    case 2
    then show ?thesis using I kept_using kept_rewriting by blast
  next
    case 3
    then show ?thesis using kept_inserting [OF I 3(3)] pl assms(3) by (auto simp: plain_accounts_def)
  qed
  ultimately show ?thesis by (simp add: holds_def)
qed

lemma rewriting_keeps:
  "holds used j \<Longrightarrow> row_rewritten env config (jn_operations j) (jn_operations j') \<Longrightarrow> accounts (jn_store j') = accounts (jn_store j) \<Longrightarrow>
     holds used j'"
  using kept_rewriting by (auto simp: holds_def plain_accounts_def)

lemma claim_keeps:
  assumes "claim_undo env ep j a config i expected at = Inr (x, j')" and h: "holds used j"
  shows "holds used j'"
proof -
  have "wf_rows (jn_operations j)" using h rows_wf by (auto simp: holds_def)
  with assms(1) obtain k r where "(k, r) \<in> set (jn_operations j)" "x = r\<lparr>op_undo_status := Some ''pending''\<rparr>"
    "je_json_len env x \<le> jc_max_record_bytes config" "jn_operations j' = row_update k x (jn_operations j)"
    and acc: "accounts (jn_store j') = accounts (jn_store j)"
    by (rule claim_undo_rows)
  then have "row_rewritten env config (jn_operations j) (jn_operations j')"
    unfolding row_rewritten_def
    by (intro exI [of _ k] exI [of _ r] exI [of _ x]) (auto simp: same_operation_def)
  with h show ?thesis using acc by (rule rewriting_keeps)
qed

lemma finish_keeps: "finish_operation env j r response config at = Inr (x, j') \<Longrightarrow> holds used j \<Longrightarrow> holds used j'"
  using finish_operation_rows rewriting_keeps by metis

lemma finish_undo_keeps: "finish_undo env now j r config response = Inr (x, j') \<Longrightarrow> holds used j \<Longrightarrow> holds used j'"
  using finish_undo_rows rewriting_keeps by metis

lemma kept_or_keeps:
  assumes "holds used j" and "\<And>x j'. m = Inr (x, j') \<Longrightarrow> holds used j \<Longrightarrow> holds used j'"
  shows "holds used (kept_or j m)"
  using assms by (cases m) (auto simp: kept_or_def)

lemma exec_keeps:
  assumes h: "holds used j" and "plain_op plain op" and fresh: "set (begun op) \<inter> used = {}"
  shows "holds (set (begun op) \<union> used) (journal_exec env config op j)"
proof (cases op)
  case (Begin i ep a q at)
  then show ?thesis using begin_keeps [OF _ h] fresh by (cases "begin_operation env i ep j a q config at") auto
next
  case (Finish r response at)
  then show ?thesis using kept_or_keeps [OF h finish_keeps] by simp
next
  case (Claim ep a i expected at)
  then show ?thesis using kept_or_keeps [OF h claim_keeps] by simp
next
  case (FinishUndo now r response)
  then show ?thesis using kept_or_keeps [OF h finish_undo_keeps] by simp
next
  case (Candidate ep a i at)
  then show ?thesis using h candidate_rows by (simp add: holds_def plain_accounts_def)
next
  case (SetPreferences now a hours e)
  then show ?thesis using h plain_same [OF preferences_ids] by (simp add: holds_def)
next
  case (Gc root at)
  obtain P where "jn_operations (snd (gc_operations env root j config at)) = filter P (jn_operations j)"
    "jn_store (snd (gc_operations env root j config at)) = jn_store j"
    using gc_operations_rows by blast
  with h show ?thesis unfolding Gc by (simp add: holds_def kept_dropping)
next
  case (Accounts s)
  then show ?thesis using h assms(2) by (simp add: holds_def)
qed

end

section \<open>The journal stays within its bounds\<close>

definition colon_free :: "string \<Rightarrow> bool" where
  "colon_free i \<longleftrightarrow> CHR '':'' \<notin> set i"

interpretation bounded: journal_invariant env config colon_free "\<lambda>_. rows_bounded env config" for env config
proof unfold_locales
  show "rows_bounded env config rows \<Longrightarrow> wf_rows rows" for rows by (simp add: rows_bounded_def)
  show "rows_bounded env config rows \<Longrightarrow> rows_bounded env config (filter P rows)" for rows P by (rule bounded_filter)
  show "rows_bounded env config rows \<Longrightarrow> row_rewritten env config rows rows' \<Longrightarrow> rows_bounded env config rows'" for rows rows'
    by (auto simp: row_rewritten_def intro: bounded_update)
  show "rows_bounded env config rows \<Longrightarrow> row_inserted env config r rows rows' \<Longrightarrow> colon_free (op_account_id r) \<Longrightarrow>
      op_id r \<notin> used \<Longrightarrow> rows_bounded env config rows'" for rows r rows' and used :: "string set"
    by (auto simp: row_inserted_def colon_free_def intro: bounded_append bounded_filter)
qed

lemma bounded_run:
  "bounded.holds env config {} j \<Longrightarrow> list_all (plain_op colon_free) ops \<Longrightarrow> bounded.holds env config {} (journal_run env config ops j)"
proof (induction ops arbitrary: j)
  case (Cons op ops)
  then have "bounded.holds env config (set (begun op) \<union> {}) (journal_exec env config op j)"
    by (intro bounded.exec_keeps) simp_all
  then have "bounded.holds env config {} (journal_exec env config op j)" by (simp add: bounded.holds_def)
  then show ?case using Cons by simp
qed simp

text \<open>C7: the journal stays within its bounds. Whatever operations are applied to a new journal, it never holds more
  records than configured, in all and for each account, none of them longer than configured, each under its own key.
  Account identifiers are UUIDs, which have no colon.\<close>

theorem journal_within_bounds:
  assumes "plain_accounts colon_free s" and "list_all (plain_op colon_free) ops"
  shows "let rows = jn_operations (journal_run env config ops (new_journal s)) in
    length rows \<le> jc_max_total_entries config
    \<and> (\<forall>i. length (filter (\<lambda>(k, r). op_account_id r = i) rows) \<le> jc_max_entries_per_account config)
    \<and> (\<forall>(k, r) \<in> set rows. je_json_len env r \<le> jc_max_record_bytes config \<and> k = operation_key r)
    \<and> distinct (map fst rows)"
proof -
  have "bounded.holds env config {} (new_journal s)"
    using assms(1) by (simp add: bounded.holds_def new_journal_def rows_bounded_def wf_rows_def of_account_rows_def)
  then have "bounded.holds env config {} (journal_run env config ops (new_journal s))"
    using assms(2) by (rule bounded_run)
  then show ?thesis
    unfolding Let_def bounded.holds_def by (auto simp: rows_bounded_def wf_rows_def of_account_rows_def)
qed

section \<open>An undo is claimed once\<close>

interpretation claims: journal_invariant env config "\<lambda>_. True" "claims_ok done_ids" for env config done_ids
proof unfold_locales
  show "claims_ok done_ids used rows \<Longrightarrow> wf_rows rows" for used rows by (simp add: claims_ok_def)
  show "claims_ok done_ids used rows \<Longrightarrow> claims_ok done_ids used (filter P rows)" for used rows P by (rule claims_filter)
  show "claims_ok done_ids used rows \<Longrightarrow> row_rewritten env config rows rows' \<Longrightarrow> claims_ok done_ids used rows'" for used rows rows'
    by (auto simp: row_rewritten_def intro: claims_update)
  show "claims_ok done_ids used rows \<Longrightarrow> row_inserted env config r rows rows' \<Longrightarrow> True \<Longrightarrow> op_id r \<notin> used \<Longrightarrow>
      claims_ok done_ids (insert (op_id r) used) rows'" for used rows r rows'
    by (auto simp: row_inserted_def intro: claims_append claims_filter)
  show "claims_ok done_ids used rows \<Longrightarrow> claims_ok done_ids (insert i used) rows" for used rows i
    by (auto simp: claims_ok_def)
qed

lemma claim_new:
  assumes "claim_undo env ep j a config i expected at = Inr (x, j')" and ok: "claims_ok c u (jn_operations j)"
  shows "i \<notin> c \<and> claims_ok (insert i c) u (jn_operations j')"
proof -
  have wf: "wf_rows (jn_operations j)" using ok by (simp add: claims_ok_def)
  obtain k r where mem: "(k, r) \<in> set (jn_operations j)" and r: "op_id r = i" "op_undo_status r = None"
    and x: "x = r\<lparr>op_undo_status := Some ''pending''\<rparr>" and j': "jn_operations j' = row_update k x (jn_operations j)"
    using assms(1) wf by (rule claim_undo_rows)
  have "same_operation r x" by (simp add: x same_operation_def)
  then have kept: "claims_ok c u (jn_operations j')" unfolding j' using ok mem by (intro claims_update)
  have unique: "k2 = k \<and> r2 = r" if "(k2, r2) \<in> set (jn_operations j)" "op_id r2 = i" for k2 r2
    using ok mem that r(1) unfolding claims_ok_def distinct_map inj_on_def by fastforce
  have "\<forall>(k2, r2) \<in> set (jn_operations j'). op_id r2 = i \<longrightarrow> op_undo_status r2 \<noteq> None"
    using unique unfolding j' row_update_def by (fastforce simp: x split: if_split_asm)
  moreover have "i \<notin> c" "i \<in> u" using ok mem r by (auto simp: claims_ok_def)
  ultimately show ?thesis using kept by (auto simp: claims_ok_def)
qed

lemma claimed_distinct:
  "claims_ok c u (jn_operations j) \<Longrightarrow> distinct (concat (map begun ops)) \<Longrightarrow> set (concat (map begun ops)) \<inter> u = {} \<Longrightarrow>
   distinct (all_claimed env config ops j) \<and> set (all_claimed env config ops j) \<inter> c = {}"
proof (induction ops arbitrary: c u j)
  case (Cons op ops)
  let ?j = "journal_exec env config op j" and ?c = "set (claimed env config op j) \<union> c"
  have "claims.holds c u j" using Cons.prems(1) by (simp add: claims.holds_def plain_accounts_def)
  moreover have "plain_op (\<lambda>_. True) op" by (cases op) (simp_all add: plain_accounts_def)
  ultimately have kept: "claims_ok c (set (begun op) \<union> u) (jn_operations ?j)"
    using Cons.prems(3) claims.exec_keeps [of c u j op env config] by (auto simp: claims.holds_def)
  have head: "set (claimed env config op j) \<inter> c = {} \<and> distinct (claimed env config op j)
      \<and> claims_ok ?c (set (begun op) \<union> u) (jn_operations ?j)"
  proof (cases op)
    case (Claim ep a i expected at)
    then show ?thesis
      using kept claim_new [OF _ Cons.prems(1), of env ep a config i expected at]
      by (auto simp: kept_or_def split: sum.split)
  qed (use kept in simp_all)
  have "distinct (all_claimed env config ops ?j) \<and> set (all_claimed env config ops ?j) \<inter> ?c = {}"
    using Cons.prems(2,3) head by (intro Cons.IH) auto
  with head show ?case by auto
qed simp

text \<open>C6: an undo is claimed at most once. Whatever operations are applied to a new journal, in whatever order and by
  whomever, no operation is claimed for undo twice. New identifiers do not repeat, which is what UUIDs are for.\<close>

theorem undo_claimed_once:
  assumes "distinct (concat (map begun ops))"
  shows "distinct (all_claimed env config ops (new_journal s))"
proof -
  have "claims_ok {} {} (jn_operations (new_journal s))" by (simp add: claims_ok_def new_journal_def wf_rows_def)
  then show ?thesis using claimed_distinct assms by blast
qed

section \<open>A journal with one operation\<close>

definition journal_row :: AccountRow where
  "journal_row = \<lparr>row_id = ''a1'', row_username = ''alice'', row_uid = 1000, row_gid = 1000, row_home = ''/home/alice'',
     row_kind = Linux, row_role = User, row_owner_admin_id = None, row_status = Active, row_login_enabled = True,
     row_generation = 1, row_web_password_hash = None, row_quota_bytes = None, row_undo_hours = None, row_created_at = 0,
     row_updated_at = 0, row_deleted_at = None, row_deny_enrollment = False\<rparr>"

definition journal_store :: Store where
  "journal_store = \<lparr>accounts = [journal_row], quota_pool = 0, admin_budgets = [], security_state = [], session_grants = [],
     enrollment = [], login_limits = []\<rparr>"

definition journal_env :: JournalEnv where
  "journal_env = \<lparr>je_uuid = Some, je_json_len = (\<lambda>_. 100),
     je_disk = (\<lambda>_. \<lparr>dv_canonicalize = (\<lambda>_. Inl None), dv_metadata = (\<lambda>_. Inl None), dv_symlink_metadata = (\<lambda>_. Inl None),
       dv_read_dir = (\<lambda>_. Inl None)\<rparr>), je_remove_file = (\<lambda>_ _. Inl None)\<rparr>"

definition journal_config :: JournalConfig where
  "journal_config = JournalConfig_default\<lparr>jc_enabled := True\<rparr>"

definition journal_request :: HelperRequest where
  "journal_request = (example_request HelperCommand.Chmod ''a.txt'' None)\<lparr>hq_username := ''alice'', hq_uid := 1000, hq_gid := 1000\<rparr>"

definition journal_state :: FileState where
  "journal_state = \<lparr>fst_digest = replicate 64 (CHR ''a''), fst_device = ''1'', fst_inode = ''7'', fst_kind = ''file'',
     fst_mode = 0, fst_uid = 1000, fst_gid = 1000, fst_size = 0, fst_links = 1, fst_mtime_seconds = 0, fst_mtime_nanos = 0,
     fst_ctime_seconds = 0, fst_ctime_nanos = 0, fst_content_digest = None, fst_tree_digest = None\<rparr>"

definition journal_answer :: HelperResponse where
  "journal_answer = (response_operation_done journal_request ''done'')
     \<lparr>hr_audit_metadata := Some ((request_audit journal_request 0 ''success'' None)
        \<lparr>am_old_mode := Some 384, am_before := Some journal_state, am_after := Some journal_state\<rparr>)\<rparr>"

definition journal_record :: OperationRecord where
  "journal_record = new_record (row_account journal_store journal_row) journal_request ''7'' ''e'' 1000"

definition journal_ops :: "JournalOp list" where
  "journal_ops =
     [Begin ''7'' ''e'' (row_account journal_store journal_row) journal_request 1000,
      Finish journal_record (Some journal_answer) 1001,
      Claim ''f'' (Account_authority ''a1'' 1) ''7'' (replicate 64 (CHR ''a'')) 1002,
      Claim ''f'' (Account_authority ''a1'' 1) ''7'' (replicate 64 (CHR ''a'')) 1003]"

definition journal_epoch_store :: Store where
  "journal_epoch_store = state_upsert ''undo_epoch_v1'' (SText ''e'') journal_store"

definition journal_with :: "OperationRecord \<Rightarrow> Journal" where
  "journal_with r = \<lparr>jn_store = journal_epoch_store, jn_operations = [(operation_key journal_record, r)], jn_expiry = [], jn_removed = []\<rparr>"

definition journal_finished :: OperationRecord where
  "journal_finished = journal_record\<lparr>op_updated_at := 1001, op_status := ''success'', op_old_mode := Some 384,
     op_before := Some journal_state, op_after := Some journal_state\<rparr>"

lemma journal_authorized:
  "store_authorized journal_store (Account_authority ''a1'' 1) = Inr (Some (row_account journal_store journal_row))"
  "store_authorized journal_epoch_store (Account_authority ''a1'' 1) = Inr (Some (row_account journal_epoch_store journal_row))"
  by (simp_all add: store_authorized_def account_def find_row_def journal_store_def journal_epoch_store_def journal_row_def
      row_account_def and_then_def ok_or_def state_upsert_def)

lemma journal_config_ok: "config_ok journal_config = Inr ()"
  by (simp add: config_ok_def JournalConfig_validate_def journal_config_def JournalConfig_default_def reject_if_def map_err_def)

lemma journal_begin:
  "begin_operation journal_env ''7'' ''e'' (new_journal journal_store) (row_account journal_store journal_row) journal_request journal_config 1000
   = (Inr journal_record, journal_with journal_record)"
proof -
  have acc: "acc_id (row_account journal_store journal_row) = ''a1''" "acc_generation (row_account journal_store journal_row) = 1"
    "acc_uid (row_account journal_store journal_row) = 1000" "acc_gid (row_account journal_store journal_row) = 1000"
    "acc_username (row_account journal_store journal_row) = ''alice''"
    by (simp_all add: row_account_def journal_row_def)
  have q: "hq_command journal_request = HelperCommand.Chmod" "hq_uid journal_request = 1000" "hq_gid journal_request = 1000"
    "hq_username journal_request = ''alice''" "hq_relative_path journal_request = ''a.txt''" "hq_target_relative_path journal_request = None"
    by (simp_all add: journal_request_def example_request_def)
  have epoch: "epoch journal_env ''e'' journal_store = Inr (''e'', journal_epoch_store)"
    by (simp add: epoch_def journal_store_def journal_epoch_store_def)
  have "insert_operation journal_env (\<lparr>jn_store = journal_epoch_store, jn_operations = [], jn_expiry = [], jn_removed = []\<rparr>)
      (row_account journal_store journal_row) journal_record journal_config 1000 = (Inr journal_record, journal_with journal_record)"
    by (simp add: insert_operation_def journal_encode_def journal_env_def journal_config_def JournalConfig_default_def number_def
        I64_MAX_def expired_rows_def drop_rows_def make_room_rows_def journal_full_def count_rows_def insert_expiry_def Let_def
        journal_with_def) (simp add: journal_record_def new_record_def planned_staging_def q journal_action_def writes_output_def)
  moreover have "jc_enabled journal_config" by (simp add: journal_config_def)
  ultimately show ?thesis
    by (simp add: begin_operation_def journal_config_ok journal_authorized acc q epoch resume_range_def new_journal_def tracked_def
        journal_record_def del: One_nat_def)
qed

lemma journal_finish:
  "finish_operation journal_env (journal_with journal_record) journal_record (Some journal_answer) journal_config 1001
   = Inr (journal_finished, journal_with journal_finished)"
proof -
  have r: "op_version journal_record = 1" "op_status journal_record = ''pending''" "op_range_next_offset journal_record = None"
    "op_action journal_record = ''chmod''" "op_staging_path journal_record = None"
    by (simp_all add: journal_record_def new_record_def journal_request_def example_request_def journal_action_def planned_staging_def
        writes_output_def)
  have answer: "hr_success journal_answer" "hr_error_kind journal_answer = None" "hr_bytes_read journal_answer = 0"
    "hr_bytes_written journal_answer = 0" "hr_audit_metadata journal_answer = Some ((request_audit journal_request 0 ''success'' None)
        \<lparr>am_old_mode := Some 384, am_before := Some journal_state, am_after := Some journal_state\<rparr>)"
    by (simp_all add: journal_answer_def response_operation_done_def response_success_def)
  show ?thesis
    by (simp add: finish_operation_def journal_with_def and_then_def ok_or_def r answer take_response_def take_trash_id_def take_range_def
        record_status_def journal_encode_def journal_env_def journal_config_def JournalConfig_default_def row_update_def finish_tokens_def
        Let_def) (simp add: journal_finished_def request_audit_def journal_record_def new_record_def)
qed

lemma journal_claim:
  "claim_undo journal_env ''f'' (journal_with journal_finished) (Account_authority ''a1'' 1) journal_config ''7''
     (replicate 64 (CHR ''a'')) 1002 =
   Inr (journal_finished\<lparr>op_undo_status := Some ''pending''\<rparr>, journal_with (journal_finished\<lparr>op_undo_status := Some ''pending''\<rparr>))"
proof -
  have r: "op_version journal_finished = 1" "op_status journal_finished = ''success''" "op_action journal_finished = ''chmod''"
    "op_account_id journal_finished = ''a1''" "op_id journal_finished = ''7''" "op_undo_status journal_finished = None"
    "op_undo_epoch journal_finished = Some ''e''" "op_created_at journal_finished = 1000" "op_after journal_finished = Some journal_state"
    "op_before journal_finished = Some journal_state" "op_old_mode journal_finished = Some 384"
    by (simp_all add: journal_finished_def journal_record_def new_record_def journal_request_def example_request_def journal_action_def
        row_account_def journal_row_def)
  have a: "acc_id (row_account journal_epoch_store journal_row) = ''a1''" "acc_undo_hours (row_account journal_epoch_store journal_row) = None"
    by (simp_all add: row_account_def journal_row_def)
  have epoch: "epoch journal_env ''f'' journal_epoch_store = Inr (''e'', journal_epoch_store)"
    by (simp add: epoch_def journal_store_def journal_epoch_store_def state_upsert_def journal_env_def)
  have found: "find_operation (journal_with journal_finished) ''a1'' ''7'' = Inr (operation_key journal_record, journal_finished)"
    using operation_key_prefixes(2) [of journal_record] r
    by (simp add: find_operation_def journal_with_def ok_or_def journal_record_def new_record_ids)
      (simp add: row_account_def journal_row_def)
  have reason: "unavailable_reason journal_finished (preferences_of (row_account journal_epoch_store journal_row) journal_config 0) ''e'' 1002 = None"
    by (simp add: unavailable_reason_def r undo_expires_at_def saturating_add_def saturating_mul_def preferences_of_def a journal_config_def
        JournalConfig_default_def U64_MAX_def)
  have digest: "fst_digest journal_state = replicate 64 (CHR ''a'')" "list_all is_ascii_hexdigit (replicate 64 (CHR ''a''))"
    by (simp add: journal_state_def) code_simp
  have store: "jn_store (journal_with journal_finished) = journal_epoch_store" by (simp add: journal_with_def)
  show ?thesis
    by (simp add: claim_undo_def journal_config_ok and_then_def ok_or_def store journal_authorized found epoch candidate_def reason r a digest
        journal_encode_def del: One_nat_def replicate_Suc)
      (simp add: journal_env_def journal_with_def journal_config_def JournalConfig_default_def Let_def)
qed

lemma journal_claimed:
  "\<exists>rest. all_claimed journal_env journal_config journal_ops (new_journal journal_store) = ''7'' # rest"
  by (simp add: journal_ops_def journal_begin journal_finish journal_claim kept_or_def del: One_nat_def replicate_Suc)

lemma journal_begun: "distinct (concat (map begun journal_ops))"
  by (simp add: journal_ops_def)

theorem undo_claimed_once_witness:
  "\<exists>rest. all_claimed journal_env journal_config journal_ops (new_journal journal_store) = ''7'' # rest \<and> ''7'' \<notin> set rest"
  using undo_claimed_once [OF journal_begun] journal_claimed by (metis distinct.simps(2))

theorem journal_within_bounds_witness:
  "length (jn_operations (journal_run journal_env journal_config journal_ops (new_journal journal_store))) \<le> 32768
   \<and> (\<forall>i. length (filter (\<lambda>(k, r). op_account_id r = i)
        (jn_operations (journal_run journal_env journal_config journal_ops (new_journal journal_store)))) \<le> 2048)"
proof -
  have "plain_accounts colon_free journal_store" "list_all (plain_op colon_free) journal_ops"
    by (simp_all add: plain_accounts_def colon_free_def journal_store_def journal_row_def journal_ops_def)
  from journal_within_bounds [OF this, of journal_env journal_config] show ?thesis
    by (simp add: Let_def journal_config_def JournalConfig_default_def)
qed

end
