(* ===== verification/Spec2Isabelle.thy ===== *)
theory Spec2Isabelle
  imports TD_RateLimit TD_Socket TD_Quota TD_Search TD_Helper_Read TD_Tenants TD_Login TD_Confinement TD_Undo TD_Claims
begin

text \<open>
  TealDrive is a self-hosted file manager written in Rust: a server that serves a browser over a binary
  protocol on a WebSocket, and a privileged helper process that touches the disk on its behalf. The
  server (the network tier) authenticates, keeps sessions, parses frames, checks names and policy and
  stages uploads; the helper runs as the user, receives requests with a snapshot of the server's policy,
  and lets them through only within a ceiling that root owns. Accounts, their budgets, session grants and
  login limits live in a database that only the helper opens. This library models the parts of \<open>src/\<close> that
  decide: what is accepted from the wire, which paths and operations are allowed, what a listing, a search or
  a download answers, how long a session, a grant or a lockout lasts, who may change which account, and which
  bytes an upload delivers.

  \<^bold>\<open>Theories and sources.\<close> Every definition carries the name of the function or type it models.

  \<^item> \<open>TD_Prelude\<close>: results as sums, checked and saturating arithmetic, big-endian words, association
    lists for hash maps, and the locale \<open>codec\<close>, the contract of an encoder and its decoder.
  \<^item> \<open>TD_Strings\<close>: the string and path functions of Rust's standard library.
  \<^item> \<open>TD_Errors\<close>: \<open>errors/\<close>, \<open>limits.rs\<close>.
  \<^item> \<open>TD_Wire\<close>: \<open>protocol/flags.rs\<close>, \<open>message_type.rs\<close>, \<open>compression.rs\<close>, \<open>header.rs\<close>, \<open>frame.rs\<close>,
    \<open>chunk.rs\<close>. Headers, frames and chunks are interpretations of \<open>codec\<close>.
  \<^item> \<open>TD_Path\<close>: \<open>fs/filename.rs\<close> and the name-level part of \<open>fs/path.rs\<close>.
  \<^item> \<open>TD_Access\<close>: \<open>policy/access.rs\<close>, the access rules and their merge with a ceiling.
  \<^item> \<open>TD_Net\<close>: \<open>client_ip.rs\<close>, trusted proxies and the client address, with \<open>std::net\<close>'s parsers.
  \<^item> \<open>TD_Config\<close>: the records of \<open>config.rs\<close> with their defaults and \<open>AppConfig::validate\<close>.
  \<^item> \<open>TD_Policy\<close>: \<open>policy/feature_gate.rs\<close>, \<open>sensitive.rs\<close>, \<open>webroot.rs\<close>, \<open>roots.rs\<close>, \<open>decision.rs\<close>.
  \<^item> \<open>TD_Helper_Types\<close>, \<open>TD_Helper_Policy\<close>: \<open>helper/types.rs\<close>, \<open>helper/access.rs\<close>,
    \<open>helper/policy.rs\<close> and the gate of \<open>helper/ipc.rs\<close>.
  \<^item> \<open>TD_Session\<close>: \<open>session/store.rs\<close>, \<open>csrf.rs\<close>, \<open>cookie.rs\<close>. The locale \<open>session_store\<close> is the
    contract of the \<open>SessionStore\<close> trait; the in-memory store is its interpretation.
  \<^item> \<open>TD_RateLimit\<close>: \<open>rate_limit/login.rs\<close>.
  \<^item> \<open>TD_Budget\<close>: \<open>upload/budget.rs\<close>, the ledger of staging leases shared by processes.
  \<^item> \<open>TD_Upload\<close>: \<open>upload/transfer.rs\<close>, \<open>resume.rs\<close>, \<open>temp.rs\<close> and the connection record.
  \<^item> \<open>TD_Fs\<close>, \<open>TD_Fs_Read\<close>: the operations of \<open>fs/\<close>, \<open>trash/\<close> and \<open>download/\<close>, from a payload to the helper
    request and from its response to the answer.
  \<^item> \<open>TD_Dispatch\<close>: \<open>ws/handshake.rs\<close> and \<open>ws/dispatch.rs\<close>: negotiation and every frame handler.
  \<^item> \<open>TD_Socket\<close>: \<open>ws/server.rs\<close>, one pass of the connection loop and its runs, \<open>ws/upgrade.rs\<close> and the end of a connection.
  \<^item> \<open>TD_Home\<close>: the account record and \<open>policy/home.rs\<close>, the profile an account's requests are decided under.
  \<^item> \<open>TD_Quota\<close>: \<open>fs/quota.rs\<close>, \<open>helper/quota.rs\<close>.
  \<^item> \<open>TD_Resolve\<close>: the resolution of paths on the disk (\<open>fs/path.rs\<close> as the helper uses it).
  \<^item> \<open>TD_Listing\<close>: \<open>helper/listing.rs\<close>, \<open>helper/metadata.rs\<close>; the locale \<open>paged_source\<close> is the contract of a
    listing read page by page.
  \<^item> \<open>TD_Search\<close>: \<open>helper/search.rs\<close>.
  \<^item> \<open>TD_Helper_Read\<close>: \<open>helper/download.rs\<close>, \<open>revision.rs\<close>, \<open>text.rs\<close> and the confined open of \<open>sandbox.rs\<close>.
  \<^item> \<open>TD_Effects\<close>: the calls the helper makes to the operating system as programs that record them, with the
    confined open of \<open>sandbox.rs\<close> and the rename of \<open>transaction.rs\<close>, and rules for the paths a program touches.
  \<^item> \<open>TD_Mutations\<close>: \<open>helper/create_folder.rs\<close>, \<open>rename.rs\<close>, \<open>move_copy.rs\<close>, \<open>chmod.rs\<close>, \<open>upload.rs\<close>.
  \<^item> \<open>TD_Archive\<close>: \<open>helper/archive.rs\<close>. \<open>TD_Trash\<close>: \<open>helper/trash.rs\<close>, \<open>trash/model.rs\<close>.
  \<^item> \<open>TD_Transaction\<close>: \<open>helper/transaction.rs\<close>, \<open>usage.rs\<close> and the whole request of \<open>ipc.rs\<close>.
  \<^item> \<open>TD_Publication\<close>, \<open>TD_Confinement\<close>, \<open>TD_Restore\<close>: what the helper's changes of the disk are: published as a
    whole, confined to the root, and undone by a restoration.
  \<^item> \<open>TD_Observation\<close>: \<open>helper/observation.rs\<close>, the fingerprints of files and trees, and the inverse of a
    recorded operation of \<open>helper/undo.rs\<close>. \<open>TD_Undo\<close>: that an undo is safe.
  \<^item> \<open>TD_Journal\<close>: \<open>accounts/journal.rs\<close>, \<open>accounts/undo.rs\<close> and the removal of ledger files of \<open>accounts/ledger.rs\<close>.
    \<open>TD_Claims\<close>: sequences of its operations, with the locale \<open>journal_invariant\<close>.
  \<^item> \<open>TD_Store\<close>: \<open>accounts/store.rs\<close>, \<open>password.rs\<close> on the tables of \<open>schema.sql\<close>.
  \<^item> \<open>TD_Grants\<close>: \<open>accounts/grants.rs\<close>, \<open>limits.rs\<close>, \<open>policies.rs\<close>, \<open>listing.rs\<close>.
  \<^item> \<open>TD_Subids\<close>: \<open>accounts/subids.rs\<close> and the choice of a user id of \<open>virtuals.rs\<close>.
  \<^item> \<open>TD_Virtuals\<close>: \<open>accounts/virtuals.rs\<close>: provisioning with intents, quotas, budgets, purging.
  \<^item> \<open>TD_Accounts\<close>: all operations of the store as steps, the locale \<open>kept_by_steps\<close>, and the invariant of
    the budgets. \<open>TD_Tenants\<close>: isolation and generations. \<open>TD_Login\<close>: login reservations and tokens.

  \<^bold>\<open>State.\<close> Mutable state is passed explicitly: the session store, the limiter, the connection, the
  staging counter, the ledger, the staging files and the account store are arguments and results of the
  operations. What happens to them over time is an inductive relation (\<open>store_run\<close>, \<open>staging_reachable\<close>,
  \<open>connection\<close>, \<open>socket_run\<close>) with
  invariants by rule induction, or a fold of steps (\<open>exec_all\<close>). A database transaction is atomic: it gives an
  error and changes nothing, or the store after it. The clock and random identifiers are arguments. What
  the operating system answers to an open, a write or a query is an argument as well, so that every error
  path of the source is a branch of the model and the theorems hold for every behaviour of the disk. The
  operations of the helper that change the disk are programs over a \<open>System\<close>, whose state \<open>'d\<close> is the disk: each
  call is passed to it and recorded with its success, in the order of the source, and what the program reads
  meanwhile is what the disk shows at that moment, so other processes may change it between any two calls.

  \<^bold>\<open>Parameters.\<close> Third-party code is a parameter: \<open>uuid\<close> for \<open>Uuid::parse_str\<close>, \<open>uri\<close> for the \<open>http\<close>
  crate's \<open>Uri\<close>, \<open>to_str\<close> for \<open>HeaderValue\<close>, \<open>sha\<close> for SHA-256, \<open>RmpSerde\<close> for \<open>rmp_serde\<close>, \<open>Argon\<close> for
  \<open>argon2\<close>, \<open>json_len\<close> for the length of serialised JSON, \<open>digest\<close> for the serialised configuration. The
  kernel's view of a directory tree is \<open>TreeView\<close> or \<open>DiskView\<close>, its answers to the provisioning of an
  account \<open>Os\<close>; \<open>System\<close> is the operating system of the helper's changes, \<open>Libs\<close> its third-party crates, \<open>Task\<close>
  what its process carries along (quota left, operation identifier, policy snapshot, clock). In the network tier the helper process is a parameter too. The theorems hold for all of them;
  where one relies on documented behaviour, it is a named hypothesis with a witness.

  \<^bold>\<open>What is shown.\<close> The decoders accept exactly the canonical encodings. Validated paths never leave their
  root, by name and on the disk. Merging with a ceiling is intersection, and whatever snapshot a request
  carries the helper's gate admits only what the ceiling admits. A preflight of a tree checks every node of
  it. What the policy engine permits is characterised exactly, and over the life of a connection only permitted
  requests of its user reach the helper, after the handshake and for a session that is still allowed, within the
  home of the account; the commit of an upload, which the source does not decide again, is one that was
  allowed when the upload was begun or resumed. Listings, searches and downloads
  answer exactly what the rules let the user see. Whatever the operating system answers, the helper changes
  only paths within the root of a request (missing directories may be created on the way to them), publishes what an operation produces by one rename or not at all,
  restores from the trash exactly what was moved there, and undoes a move only while the file is the one it
  moved. Revoked sessions never come back; lockouts survive any
  flood of other keys within a bounded table; the client address is never one the client could forge.
  Uploads deliver exactly the accepted bytes, within the staging budget, and are resumed only by who began
  them. In the account store the budgets are never exceeded by any sequence of operations, an administrator
  reaches only its own accounts, a change of an account ends its grants for good, tokens work once, and
  guesses of a password are bounded. The journal of operations stays within its bounds and hands out each undo
  once. At the end of this theory, configuration, wire format and uploads are
  put together.

  \<^bold>\<open>Bounds and termination.\<close> There is no fuel. The preflight of a tree ends because the source counts the
  nodes and gives up after 100000, which is its measure; the search by the multiset of the depths on its
  stack; the measurement of a directory by its depth; reading a file in chunks by the limit; the pages of
  accounts by the bound of 100000 results. The walk of \<open>fs/quota.rs\<close> is a \<open>partial_function\<close>, with the theorem
  that it returns on every file system. Sizes are natural numbers where the source only compares them or
  adds them with a check, with the bound of the type written out; the counter of failures of the login limiter
  wraps at 32 bits; the subtractions of the account store
  wrap around at 64 bits, and are shown never to; header fields, flags and addresses are words of the
  source's width.

  \<^bold>\<open>Not modelled.\<close> The asynchronous server and its channels; the cleanup of expired trash and staging files;
  the account gateway over the store; the merging of a settings file; opening, migrating and backing up the
  database; audit files, PAM, the setup wizard and the user interface. The first four are planned on top of
  what is here; the rest is input and output. A poisoned mutex is not modelled: lock acquisitions succeed. The removal of the staging files of expired or
  cancelled suspended uploads is taken to succeed; at the end and the abort of an upload it may fail.
\<close>

section \<open>Properties across components\<close>

lemma validated_limits:
  assumes "AppConfig_validate uri c = Inr ()"
  shows "0 < max_chunk_size (cfg_limits c)" "max_chunk_size (cfg_limits c) \<le> MAX_CHUNK_SIZE"
    "max_chunk_size (cfg_limits c) + RAW_CHUNK_HEADER_LEN \<le> max_frame_payload (cfg_limits c)"
    "max_frame_payload (cfg_limits c) \<le> MAX_FRAME_PAYLOAD"
  using limits_valid [of "materialized c"] AppConfig_validate_parts [OF assms]
  by (auto simp: validate_tail_def and_then_Inr Let_def materialized_def)

lemma validated_storage:
  assumes "AppConfig_validate uri c = Inr ()"
  shows "max_in_flight_upload (cfg_limits c) \<le> ss_max_staging_bytes (cfg_system_storage c)"
    "0 < ss_max_staging_transfers (cfg_system_storage c)" "max_in_flight_upload (cfg_limits c) \<le> U64_MAX"
  using AppConfig_validate_parts [OF assms]
  by (auto simp: validate_head_def and_then_Inr storage_invalid_def Let_def U64_MAX_def)

lemma negotiated_chunk_size:
  assumes "upload_begin_request uuid uuid_text temp_dir benv env tid user q config engine st
      = (Inr (up, resp), st')" and "0 < max_chunk_size (cfg_limits config)"
  shows "0 < ubr_chunk_size resp" "ubr_chunk_size resp \<le> max_chunk_size (cfg_limits config)"
  using assms
  by (auto simp: upload_begin_request_def Let_def split: prod.split_asm sum.split_asm if_split_asm)

lemma chunk_encode_size:
  "length (chunk_bytes c) \<le> MAX_CHUNK_SIZE \<Longrightarrow>
     \<exists>bs. chunk_encode c = Inr bs \<and> length bs = RAW_CHUNK_HEADER_LEN + length (chunk_bytes c)"
  by (auto simp: chunk_encode_def limit_defs RAW_CHUNK_HEADER_LEN_def)

text \<open>C39: Under a validated configuration the chunk size negotiated at the begin of an upload is positive,
  and every chunk up to that size can be sent: its encoding fits the frame limit, its frame encodes, and
  the receiver decodes the same frame and, from its payload, the same chunk.\<close>

theorem negotiated_chunks_travel:
  assumes "AppConfig_validate uri config = Inr ()"
    and "upload_begin_request uuid uuid_text temp_dir benv env tid user q config engine st
      = (Inr (up, resp), st')"
    and "length (chunk_bytes c) \<le> ubr_chunk_size resp"
  shows "0 < ubr_chunk_size resp \<and> (\<exists>payload frame wire.
      chunk_encode c = Inr payload \<and> length payload \<le> max_frame_payload (cfg_limits config)
      \<and> frame_new ((header_new MessageType.UploadChunk rid 0)\<lparr>hdr_encoding := RawBinary\<rparr>) payload = Inr frame
      \<and> frame_encode frame = Inr wire \<and> frame_decode wire = Inr frame
      \<and> chunk_decode (frame_payload frame) = Inr c)"
proof -
  let ?h = "(header_new MessageType.UploadChunk rid 0)\<lparr>hdr_encoding := RawBinary\<rparr>"
  note limits = validated_limits [OF assms(1)]
  note size = negotiated_chunk_size [OF assms(2) limits(1)]
  then obtain payload where p: "chunk_encode c = Inr payload"
    "length payload = RAW_CHUNK_HEADER_LEN + length (chunk_bytes c)"
    using chunk_encode_size [of c] assms(3) limits(2) by auto
  then have len: "length payload \<le> max_frame_payload (cfg_limits config)" "length payload \<le> MAX_FRAME_PAYLOAD"
    using size(2) assms(3) limits(3,4) by linarith+
  then have n: "length payload < 2 ^ 32" by (simp add: limit_defs)
  define frame where
    "frame = \<lparr>frame_header = ?h\<lparr>hdr_payload_len := word_of_nat (length payload)\<rparr>, frame_payload = payload\<rparr>"
  have f: "frame_new ?h payload = Inr frame" "frame_payload frame = payload"
    "frame_header frame = ?h\<lparr>hdr_payload_len := word_of_nat (length payload)\<rparr>"
    using len(2) n by (simp_all add: frame_new_def frame_def)
  have "frame_wf frame"
    using len(2) n
    by (simp add: frame_wf_def header_wf_def f(3) header_new_def validate_encoding_for_message_def
        is_v1_supported_def flags_empty_def unat_of_nat)
  with frame_new_encodes [OF f(1)]
  have "frame_decode (header_encode (frame_header frame) @ payload) = Inr frame"
    by (rule frame_codec.decode_encode [rotated])
  with p(1) len f size(1) frame_new_encodes [OF f(1)] chunk_codec.decode_encode [of c payload] show ?thesis
    by auto
qed

theorem negotiated_chunks_travel_witness:
  "\<exists>payload. chunk_encode (example_chunk 0 [7, 8]) = Inr payload
     \<and> chunk_decode payload = Inr (example_chunk 0 [7, 8])"
proof -
  obtain usage ledger where b: "upload_begin_request Some (\<lambda>_. ''5'') ''/tmp'' example_budget healthy_disk 5
      example_user (example_upload_request ''a.txt'') AppConfig_default (PolicyEngine_new AppConfig_default)
      (\<lparr>sgu_bytes = 0, sgu_transfers = 0\<rparr>, [], Map.empty)
    = (Inr (example_active 0, \<lparr>ubr_transfer_id = 5, ubr_chunk_size = 1024\<rparr>), usage, ledger, example_files [])"
    using example_begin by blast
  have "length (chunk_bytes (example_chunk 0 [7, 8]))
      \<le> ubr_chunk_size \<lparr>ubr_transfer_id = 5, ubr_chunk_size = 1024\<rparr>"
    by (simp add: example_chunk_def)
  from negotiated_chunks_travel [where rid = 1, OF AppConfig_default_valid [of "\<lambda>_. None"] b this]
  show ?thesis by (auto simp: frame_new_def split: if_split_asm)
qed

text \<open>An empty staging area on a disk that works: no lease, no other upload, and only foreign names beside the ledger.\<close>

definition working_budget :: "BudgetEnv \<Rightarrow> string list \<Rightarrow> bool" where
  "working_budget benv names \<longleftrightarrow>
     be_parent benv \<and> directory (be_created benv) (be_dir benv) = Inr () \<and> private_file (be_global benv) = Inr ()
     \<and> be_global_lock benv = Taken \<and> be_ledger_readable benv
     \<and> be_parent_names benv = Some (map (\<lambda>n. Some (Some n)) names) \<and> length names \<le> 65536
     \<and> list_all (\<lambda>n. \<not> prefix ''.tdrv-upload-'' n) names
     \<and> be_create_ok benv \<and> be_own_lock benv = Taken \<and> be_write_ok benv \<and> be_sync_ok benv"

lemma foreign_names_free:
  "list_all (\<lambda>n. \<not> prefix ''.tdrv-upload-'' n) names \<Longrightarrow> i + length names \<le> 65537 \<Longrightarrow>
     orphan_scan uuid stat i (map (\<lambda>n. Some (Some n)) names) t = Inr t"
  by (induction names arbitrary: i) (simp_all add: ok_or_def orphan_step_def strip_prefix_def)

lemma strip_stage_name: "Option.bind (strip_prefix ''.tdrv-upload-'' (TempUploadName_new uuid_text tid)) (strip_suffix ''.tmp'') = Some (uuid_text tid)"
  by (simp add: TempUploadName_new_def strip_prefix_def strip_suffix_def suffix_def)

lemma working_budget_reserves:
  assumes "working_budget benv names" and "uuid (uuid_text tid) \<noteq> None"
    and "n \<le> mx" and "n \<le> U64_MAX" and "0 < max_transfers"
  shows "\<exists>lease ledger. budget_reserve uuid benv (TempUploadName_new uuid_text tid) n mx max_transfers [] = (Inr lease, ledger)"
  using assms foreign_names_free [of names 0 uuid "be_stat benv" "(0, 0, [])"]
  by (auto simp: working_budget_def budget_reserve_def flock_def ok_or_def checked_add_def create_lease_def
      strip_stage_name Let_def)

text \<open>C40: Under a validated configuration, with an empty staging area on a disk that works, an upload that passes the
  validation of its begin is begun exactly when the disk has room for it beside the configured reserve: neither the
  counter of the process nor the ledger of leases refuses it, and the limits never exclude each other.\<close>

theorem permitted_upload_can_be_staged:
  assumes "AppConfig_validate uri config = Inr ()" and "validate_upload uuid user q config engine = Inr (par, fname)"
    and "working_budget benv names" and "sge_open_ok env" and "sge_free env = Some free" and "free \<le> U64_MAX"
    and "uuid (uuid_text tid) \<noteq> None" and "files (path_join temp_dir (TempUploadName_new uuid_text tid)) = None"
  shows "(\<exists>up resp st. upload_begin_request uuid uuid_text temp_dir benv env tid user q config engine
        (\<lparr>sgu_bytes = 0, sgu_transfers = 0\<rparr>, [], files) = (Inr (up, resp), st))
    \<longleftrightarrow> ub_total_size q + ss_staging_min_free_bytes (cfg_system_storage config) \<le> free"
proof -
  let ?n = "ub_total_size q" and ?s = "cfg_system_storage config"
  have n: "?n \<le> max_in_flight_upload (cfg_limits config)"
    using assms(2) by (auto simp: validate_upload_def Let_def and_then_Inr reject_if_cases split: if_split_asm)
  then obtain usage where u: "reserve_staging ?n (ss_max_staging_bytes ?s) (ss_max_staging_transfers ?s)
      \<lparr>sgu_bytes = 0, sgu_transfers = 0\<rparr> = Inr usage"
    using validated_storage [OF assms(1)] by (auto simp: reserve_staging_def checked_add_def result_simps)
  obtain lease ledger where l: "budget_reserve uuid benv (TempUploadName_new uuid_text tid) ?n (ss_max_staging_bytes ?s)
      (ss_max_staging_transfers ?s) [] = (Inr lease, ledger)"
    using working_budget_reserves [of benv names uuid uuid_text tid ?n "ss_max_staging_bytes ?s"
        "ss_max_staging_transfers ?s"] assms(3,7) n validated_storage [OF assms(1)] by fastforce
  have c: "check_staging_capacity env ?n (ss_staging_min_free_bytes ?s)
      = (if ?n + ss_staging_min_free_bytes ?s \<le> free then Inr () else Inl TealDriveError.DiskFull)"
    using assms(5,6) by (auto simp: check_staging_capacity_def checked_add_def)
  show ?thesis
    using assms(2,4,8) u l c by (auto simp: upload_begin_request_def Let_def)
qed

definition empty_budget :: BudgetEnv where
  "empty_budget = example_budget\<lparr>be_parent_names := Some [Some (Some ''other'')]\<rparr>"

theorem permitted_upload_can_be_staged_witness:
  "\<exists>up resp st. upload_begin_request Some (\<lambda>_. ''5'') ''/tmp'' empty_budget healthy_disk 5 example_user
     (example_upload_request ''a.txt'') AppConfig_default (PolicyEngine_new AppConfig_default)
     (\<lparr>sgu_bytes = 0, sgu_transfers = 0\<rparr>, [], Map.empty) = (Inr (up, resp), st)"
proof -
  have v: "validate_upload Some example_user (example_upload_request ''a.txt'') AppConfig_default
      (PolicyEngine_new AppConfig_default) = Inr (''docs'', ''a.txt'')"
    by (rule example_validate) simp
  have b: "working_budget empty_budget [''other'']"
    by (simp add: working_budget_def empty_budget_def example_budget_def directory_def private_file_def own_meta_def)
  have "ub_total_size (example_upload_request ''a.txt'') + ss_staging_min_free_bytes (cfg_system_storage AppConfig_default) \<le> 2 ^ 40"
    by (simp add: example_upload_request_def config_defaults)
  with permitted_upload_can_be_staged [OF AppConfig_default_valid [of "\<lambda>_. None"] v b, of healthy_disk "2 ^ 40" "\<lambda>_. ''5''" 5
      Map.empty "''/tmp''"]
  show ?thesis by (simp add: healthy_disk_def U64_MAX_def)
qed

end
